(* ===== verification/Prelude.thy ===== *)
theory Prelude
  imports Main "HOL-Library.Word" "HOL-Library.Monad_Syntax"
begin

text \<open>
  Shared vocabulary of the development: the fixed-width integer types of the C sources, checked
  array accesses, the masked register write of \<^verbatim>\<open>device/memory/memory.h\<close>, the little-endian
  byte view of a word array, and the lemma collections the component theories extend.

  A C operation that may leave the defined behaviour of the language (an array access out of
  range, a null dereference, a failed \<^verbatim>\<open>assert\<close>, a division by zero) or that may not return is a
  function into \<open>option\<close>: \<open>None\<close> is that outcome, and \<open>Some\<close> carries the result.
\<close>

unbundle bit_operations_syntax

type_synonym u8 = "8 word"
type_synonym u16 = "16 word"
type_synonym u32 = "32 word"
type_synonym u64 = "64 word"

named_theorems frame_simps \<open>what an operation leaves unchanged\<close>
named_theorems wf_intros \<open>preservation of well-formedness\<close>

section \<open>Checked array accesses\<close>

definition rd :: "'a list \<Rightarrow> nat \<Rightarrow> 'a option" where
  "rd xs i = (if i < length xs then Some (xs ! i) else None)"

definition wr :: "'a list \<Rightarrow> nat \<Rightarrow> 'a \<Rightarrow> 'a list option" where
  "wr xs i v = (if i < length xs then Some (xs[i := v]) else None)"

lemma rd_Some [simp]: "i < length xs \<Longrightarrow> rd xs i = Some (xs ! i)"
  by (simp add: rd_def)

lemma rd_None [simp]: "length xs \<le> i \<Longrightarrow> rd xs i = None"
  by (simp add: rd_def)

lemma wr_Some [simp]: "i < length xs \<Longrightarrow> wr xs i v = Some (xs[i := v])"
  by (simp add: wr_def)

lemma wr_None [simp]: "length xs \<le> i \<Longrightarrow> wr xs i v = None"
  by (simp add: wr_def)

lemma rd_eq_Some_iff: "rd xs i = Some v \<longleftrightarrow> i < length xs \<and> v = xs ! i"
  by (auto simp: rd_def)

lemma wr_eq_Some_iff: "wr xs i v = Some ys \<longleftrightarrow> i < length xs \<and> ys = xs[i := v]"
  by (auto simp: wr_def)

lemma rd_wr_same: "wr xs i v = Some ys \<Longrightarrow> rd ys i = Some v"
  by (auto simp: wr_eq_Some_iff)

lemma rd_wr_other: "wr xs i v = Some ys \<Longrightarrow> i \<noteq> j \<Longrightarrow> rd ys j = rd xs j"
  by (auto simp: wr_eq_Some_iff rd_def)

lemma wr_length: "wr xs i v = Some ys \<Longrightarrow> length ys = length xs"
  by (auto simp: wr_eq_Some_iff)

section \<open>Masked writes\<close>

text \<open>\<^verbatim>\<open>masked_write\<close> replaces exactly the bits of the destination that the mask selects.\<close>

definition masked_write :: "u32 \<Rightarrow> u32 \<Rightarrow> u32 \<Rightarrow> u32" where
  "masked_write dst v msk = (dst AND NOT msk) OR (v AND msk)"

lemma bit_masked_write:
  "bit (masked_write dst v msk) n \<longleftrightarrow> (if bit msk n then bit v n else bit dst n)"
  by (auto simp: masked_write_def bit_simps dest: bit_imp_le_length)

lemma masked_write_full [simp]: "masked_write dst v 0xFFFFFFFF = v"
proof -
  have "(0xFFFFFFFF :: u32) = -1" by simp
  then show ?thesis by (simp only: masked_write_def) simp
qed

lemma and_u32_full: "w AND 0xFFFFFFFF = (w :: u32)"
proof -
  have "(0xFFFFFFFF :: u32) = -1" by simp
  then show ?thesis by (simp only:) simp
qed

lemma masked_write_zero [simp]: "masked_write dst v 0 = dst"
  by (simp add: masked_write_def)

lemma masked_write_idem [simp]: "masked_write (masked_write dst v m) v m = masked_write dst v m"
  by (rule bit_word_eqI) (simp add: bit_masked_write)

section \<open>Words as natural numbers\<close>

lemma unat_drop_bit: "unat (drop_bit n (w :: 'a::len word)) = unat w div 2 ^ n"
proof -
  have "unat (drop_bit n w) = drop_bit n (take_bit LENGTH('a) (unat w))"
    by (rule unsigned_drop_bit_eq)
  also have "take_bit LENGTH('a) (unat w) = unat w"
    by (simp add: take_bit_nat_eq_self unsigned_less)
  finally show ?thesis by (simp add: drop_bit_eq_div)
qed

lemma unat_and_mask: "unat (w AND mask n :: 'a::len word) = unat w mod 2 ^ n"
proof -
  have "w AND mask n = take_bit n w"
    by (rule take_bit_eq_mask [symmetric])
  moreover have "unat (take_bit n w) = take_bit n (unat w)"
    by (rule unsigned_take_bit_eq)
  ultimately show ?thesis by (simp only: take_bit_eq_mod)
qed

lemma and_mask_self: "unat w < 2 ^ n \<Longrightarrow> w AND mask n = (w :: 'a::len word)"
  by (rule word_unat_eq_iff [THEN iffD2]) (simp add: unat_and_mask)

lemma bit_less_exp: "unat (w :: 'a::len word) < 2 ^ n \<Longrightarrow> bit w k \<Longrightarrow> k < n"
  by (metis and_mask_self take_bit_eq_mask bit_take_bit_iff)

lemma unat_less_exp: "(\<And>k. bit w k \<Longrightarrow> k < n) \<Longrightarrow> unat (w :: 'a::len word) < 2 ^ n"
proof -
  assume b: "\<And>k. bit w k \<Longrightarrow> k < n"
  have "w AND mask n = w" by (rule bit_word_eqI) (auto simp: bit_and_iff bit_mask_iff dest: b bit_imp_le_length)
  then have "unat w = unat w mod 2 ^ n" by (metis unat_and_mask)
  then show ?thesis by (metis mod_less_divisor zero_less_numeral zero_less_power)
qed

lemma unat_word_of_nat_lt: "n < 2 ^ LENGTH('a) \<Longrightarrow> unat (word_of_nat n :: 'a::len word) = n"
  by (simp add: unsigned_of_nat take_bit_eq_mod)

lemma unat_add_u32: "unat ((a :: u32) + b) = (unat a + unat b) mod 0x100000000"
  by (simp add: unat_word_ariths)

lemma unat_u32_less: "unat (a :: u32) < 0x100000000"
  using unsigned_less [of a, where ?'a = nat] by simp

lemma unat_diff_u32: "unat ((a :: u32) - b) = (unat a + 0x100000000 - unat b) mod 0x100000000"
  using unat_u32_less [of a] unat_u32_less [of b]
  by (auto simp: unat_sub_if' mod_if)

lemma sint_u32: "sint (w :: u32) = (if uint w < 0x80000000 then uint w else uint w - 0x100000000)"
proof -
  have u: "uint w < 0x100000000" "0 \<le> uint w" using uint_bounded [of w] by auto
  have s: "sint w = (uint w + 0x80000000) mod 0x100000000 - 0x80000000"
    using int_word_sint [of "uint w", where ?'a = 32] by simp
  show ?thesis
  proof (cases "uint w < 0x80000000")
    case True
    then show ?thesis using s u by simp
  next
    case False
    have "(uint w + 0x80000000) mod 0x100000000 = (uint w + 0x80000000 - 0x100000000) mod 0x100000000"
      by (rule minus_mod_self2 [symmetric])
    then show ?thesis using s u False by simp
  qed
qed

lemma sless_pos_iff: "0 <s (w :: u32) \<longleftrightarrow> 0 < w \<and> w < 0x80000000"
proof -
  have "uint w < 0x100000000" "0 \<le> uint w" using uint_bounded [of w] by auto
  then show ?thesis by (auto simp: word_sless_alt sint_u32 word_less_def)
qed

section \<open>Little-endian words in a byte buffer\<close>

text \<open>
  \<^verbatim>\<open>*(uint32_t*)&buf[i]\<close> and \<^verbatim>\<open>memcpy(buf + i, &w, 4)\<close> on a little-endian host.
\<close>

definition byte_of :: "u32 \<Rightarrow> nat \<Rightarrow> u8" where
  "byte_of w k = ucast (drop_bit (8 * k) w)"

definition word_of_bytes :: "u8 \<Rightarrow> u8 \<Rightarrow> u8 \<Rightarrow> u8 \<Rightarrow> u32" where
  "word_of_bytes b0 b1 b2 b3 =
     ucast b0 OR push_bit 8 (ucast b1) OR push_bit 16 (ucast b2) OR push_bit 24 (ucast b3)"

definition get_le32 :: "u8 list \<Rightarrow> nat \<Rightarrow> u32 option" where
  "get_le32 buf i = do {
     b0 \<leftarrow> rd buf i; b1 \<leftarrow> rd buf (i + 1); b2 \<leftarrow> rd buf (i + 2); b3 \<leftarrow> rd buf (i + 3);
     Some (word_of_bytes b0 b1 b2 b3) }"

definition put_le32 :: "u8 list \<Rightarrow> nat \<Rightarrow> u32 \<Rightarrow> u8 list option" where
  "put_le32 buf i w = do {
     buf \<leftarrow> wr buf i (byte_of w 0);
     buf \<leftarrow> wr buf (i + 1) (byte_of w 1);
     buf \<leftarrow> wr buf (i + 2) (byte_of w 2);
     wr buf (i + 3) (byte_of w 3) }"

lemma bit_byte_of: "bit (byte_of w k) n \<longleftrightarrow> n < 8 \<and> bit w (8 * k + n)"
  by (auto simp: byte_of_def bit_simps)

lemma word_of_bytes_byte_of [simp]:
  "word_of_bytes (byte_of w 0) (byte_of w 1) (byte_of w 2) (byte_of w 3) = w"
proof (rule bit_word_eqI)
  fix n :: nat
  assume "n < LENGTH(32)"
  then consider "n < 8" | "8 \<le> n" "n < 16" | "16 \<le> n" "n < 24" | "24 \<le> n" "n < 32"
    by fastforce
  then show "bit (word_of_bytes (byte_of w 0) (byte_of w 1) (byte_of w 2) (byte_of w 3)) n = bit w n"
    by cases (auto simp: word_of_bytes_def bit_simps bit_byte_of)
qed

lemmas word_of_bytes_byte_of_Suc [simp] = word_of_bytes_byte_of [unfolded One_nat_def]

lemma put_le32_Some:
  "i + 3 < length buf \<Longrightarrow> put_le32 buf i w =
     Some (buf[i := byte_of w 0, i + 1 := byte_of w 1, i + 2 := byte_of w 2, i + 3 := byte_of w 3])"
  by (simp add: put_le32_def)

lemma put_le32_length: "put_le32 buf i w = Some buf' \<Longrightarrow> length buf' = length buf"
  by (auto simp: put_le32_def wr_eq_Some_iff split: bind_splits)

lemma put_le32_fits: "put_le32 buf i w = Some buf' \<Longrightarrow> i + 3 < length buf"
  by (auto simp: put_le32_def wr_eq_Some_iff split: bind_splits)

lemma get_put_le32:
  assumes "put_le32 buf i w = Some buf'"
  shows "get_le32 buf' i = Some w"
  using put_le32_fits [OF assms] assms
  by (auto simp: put_le32_Some get_le32_def)

lemma get_put_le32_other:
  assumes "put_le32 buf i w = Some buf'" "j + 3 < i \<or> i + 3 < j"
  shows "get_le32 buf' j = get_le32 buf j"
  using put_le32_fits [OF assms(1)] assms
  by (auto simp: put_le32_Some get_le32_def rd_def)

end
