(* ===== verification/Tlb.thy ===== *)
theory Tlb
  imports Prelude
begin

text \<open>
  The translation lookaside buffer of \<^verbatim>\<open>device/r4300/tlb.c\<close>: 32 entries and the two page tables
  \<open>LUT_r\<close> and \<open>LUT_w\<close> (one 32-bit word for each of the 0x100000 pages of 4 KiB) that the entries
  are expanded into. The index of a page table is a 32-bit address shifted right by 12, which is
  always inside the table, so the tables are total functions.

  The page loops of the C code step an unsigned 32-bit counter by 0x1000, which wraps around: the
  loop is a \<^theory_text>\<open>partial_function\<close>, \<open>None\<close> meaning that it never returns.
\<close>

section \<open>Data\<close>

record tlb_entry =
  te_mask :: u16
  te_vpn2 :: u32
  te_g :: u8
  te_asid :: u8
  te_pfn_even :: u32
  te_c_even :: u8
  te_d_even :: u8
  te_v_even :: u8
  te_pfn_odd :: u32
  te_c_odd :: u8
  te_d_odd :: u8
  te_v_odd :: u8
  te_r :: u8
  te_start_even :: u32
  te_end_even :: u32
  te_phys_even :: u32
  te_start_odd :: u32
  te_end_odd :: u32
  te_phys_odd :: u32

record tlb =
  entries :: "tlb_entry list"
  LUT_r :: "nat \<Rightarrow> u32"
  LUT_w :: "nat \<Rightarrow> u32"

definition page_of :: "u32 \<Rightarrow> nat" where
  "page_of a = unat (drop_bit 12 a)"

definition zero_entry :: tlb_entry where
  "zero_entry = \<lparr>te_mask = 0, te_vpn2 = 0, te_g = 0, te_asid = 0, te_pfn_even = 0, te_c_even = 0,
     te_d_even = 0, te_v_even = 0, te_pfn_odd = 0, te_c_odd = 0, te_d_odd = 0, te_v_odd = 0,
     te_r = 0, te_start_even = 0, te_end_even = 0, te_phys_even = 0, te_start_odd = 0,
     te_end_odd = 0, te_phys_odd = 0\<rparr>"

definition poweron_tlb :: "tlb \<Rightarrow> tlb" where
  "poweron_tlb t = t\<lparr>entries := replicate 32 zero_entry, LUT_r := \<lambda>_. 0, LUT_w := \<lambda>_. 0\<rparr>"

section \<open>Expanding entries into the page tables\<close>

text \<open>
  The loop \<^verbatim>\<open>for (i = start; i < end; i += 0x1000) LUT[i>>12] = f(i);\<close>, shared by the eight
  loops of \<^verbatim>\<open>tlb_map\<close> and \<^verbatim>\<open>tlb_unmap\<close>.
\<close>

partial_function (option) lut_fill ::
  "(u32 \<Rightarrow> u32) \<Rightarrow> u32 \<Rightarrow> u32 \<Rightarrow> (nat \<Rightarrow> u32) \<Rightarrow> (nat \<Rightarrow> u32) option" where
  "lut_fill f i e lut =
     (if i < e then lut_fill f (i + 0x1000) e (lut(page_of i := f i)) else Some lut)"

definition tlb_unmap :: "tlb \<Rightarrow> nat \<Rightarrow> tlb option" where
  "tlb_unmap t entry = do {
     e \<leftarrow> (if entry < 32 then rd (entries t) entry else None);
     t \<leftarrow> (if te_v_even e \<noteq> 0 then do {
         r \<leftarrow> lut_fill (\<lambda>_. 0) (te_start_even e) (te_end_even e) (LUT_r t);
         w \<leftarrow> (if te_d_even e \<noteq> 0
                then lut_fill (\<lambda>_. 0) (te_start_even e) (te_end_even e) (LUT_w t)
                else Some (LUT_w t));
         Some (t\<lparr>LUT_r := r, LUT_w := w\<rparr>) }
       else Some t);
     (if te_v_odd e \<noteq> 0 then do {
         r \<leftarrow> lut_fill (\<lambda>_. 0) (te_start_odd e) (te_end_odd e) (LUT_r t);
         w \<leftarrow> (if te_d_odd e \<noteq> 0
                then lut_fill (\<lambda>_. 0) (te_start_odd e) (te_end_odd e) (LUT_w t)
                else Some (LUT_w t));
         Some (t\<lparr>LUT_r := r, LUT_w := w\<rparr>) }
       else Some t) }"

text \<open>The value that \<^verbatim>\<open>tlb_map\<close> stores for the page at \<open>i\<close> of a range starting at \<open>start\<close>.\<close>

definition lut_value :: "u32 \<Rightarrow> u32 \<Rightarrow> u32 \<Rightarrow> u32" where
  "lut_value phys start i = 0x80000000 OR (phys + (i - start) + 0xFFF)"

text \<open>The guard under which \<^verbatim>\<open>tlb_map\<close> installs a half of an entry.\<close>

definition lut_mappable :: "u32 \<Rightarrow> u32 \<Rightarrow> u32 \<Rightarrow> bool" where
  "lut_mappable start e phys \<longleftrightarrow>
     start < e \<and> \<not> (0x80000000 \<le> start \<and> e < 0xC0000000) \<and> phys < 0x20000000"

definition tlb_map :: "tlb \<Rightarrow> nat \<Rightarrow> tlb option" where
  "tlb_map t entry = do {
     e \<leftarrow> (if entry < 32 then rd (entries t) entry else None);
     t \<leftarrow> (if te_v_even e \<noteq> 0 \<and> lut_mappable (te_start_even e) (te_end_even e) (te_phys_even e)
       then do {
         r \<leftarrow> lut_fill (lut_value (te_phys_even e) (te_start_even e))
                (te_start_even e) (te_end_even e) (LUT_r t);
         w \<leftarrow> (if te_d_even e \<noteq> 0
                then lut_fill (lut_value (te_phys_even e) (te_start_even e))
                       (te_start_even e) (te_end_even e) (LUT_w t)
                else Some (LUT_w t));
         Some (t\<lparr>LUT_r := r, LUT_w := w\<rparr>) }
       else Some t);
     (if te_v_odd e \<noteq> 0 \<and> lut_mappable (te_start_odd e) (te_end_odd e) (te_phys_odd e)
       then do {
         r \<leftarrow> lut_fill (lut_value (te_phys_odd e) (te_start_odd e))
                (te_start_odd e) (te_end_odd e) (LUT_r t);
         w \<leftarrow> (if te_d_odd e \<noteq> 0
                then lut_fill (lut_value (te_phys_odd e) (te_start_odd e))
                       (te_start_odd e) (te_end_odd e) (LUT_w t)
                else Some (LUT_w t));
         Some (t\<lparr>LUT_r := r, LUT_w := w\<rparr>) }
       else Some t) }"

text \<open>
  The table lookup at the head of \<^verbatim>\<open>virtual_to_physical_address\<close>: \<open>None\<close> is a miss (the word of
  the table is zero), after which the C code raises the refill exception.
\<close>

definition tlb_lookup :: "tlb \<Rightarrow> u32 \<Rightarrow> nat \<Rightarrow> u32 option" where
  "tlb_lookup t address w =
     (let lut = (if w = 1 then LUT_w t else LUT_r t) (page_of address)
      in if lut \<noteq> 0 then Some ((lut AND 0xFFFFF000) OR (address AND 0xFFF)) else None)"

section \<open>The page loop\<close>

definition page_addr :: "nat \<Rightarrow> u32" where
  "page_addr k = word_of_nat (4096 * k)"

lemma page_of_nat: "page_of a = unat a div 4096"
  using unat_drop_bit [of 12 a] by (simp only: page_of_def) simp

lemma page_of_lt: "page_of a < 0x100000"
  using unat_u32_less [of a] by (simp add: page_of_nat)

lemma unat_page_addr: "k < 0x100000 \<Longrightarrow> unat (page_addr k) = 4096 * k"
  unfolding page_addr_def by (rule unat_word_of_nat_lt) simp

lemma page_addr_step: "page_addr k + 0x1000 = page_addr (Suc k)"
  by (simp add: page_addr_def)

lemma page_of_page_addr: "k < 0x100000 \<Longrightarrow> page_of (page_addr k) = k"
  by (simp add: page_of_nat unat_page_addr)

lemma page_addr_of_aligned: "4096 dvd unat i \<Longrightarrow> page_addr (page_of i) = i"
  by (simp add: page_addr_def page_of_nat)

text \<open>
  Below the last page the loop returns, and it has stored \<open>f\<close> of the page's address in exactly
  the pages that start in the range.
\<close>

lemma lut_fill_returns:
  assumes "unat e \<le> 0xFFFFF000" "k < 0x100000"
  shows "lut_fill f (page_addr k) e lut =
    Some (\<lambda>p. if k \<le> p \<and> 4096 * p < unat e then f (page_addr p) else lut p)"
  using assms(2)
proof (induction "unat e - 4096 * k" arbitrary: k lut rule: less_induct)
  case less
  note ua = unat_page_addr [OF less.prems]
  show ?case
  proof (cases "4096 * k < unat e")
    case True
    then have k1: "Suc k < 0x100000" using assms(1) by simp
    have lt: "page_addr k < e"
      using True by (simp add: word_less_nat_alt ua)
    have IH: "lut_fill f (page_addr (Suc k)) e lut' =
        Some (\<lambda>p. if Suc k \<le> p \<and> 4096 * p < unat e then f (page_addr p) else lut' p)" for lut'
      by (rule less.hyps) (use True k1 in auto)
    show ?thesis
      using True
      by (subst lut_fill.simps,
          simp only: lt if_True page_addr_step IH page_of_page_addr [OF less.prems])
        (auto simp: fun_eq_iff le_less_Suc_eq not_less_eq_eq)
  next
    case False
    then have "\<not> page_addr k < e"
      by (simp add: word_less_nat_alt ua)
    with False show ?thesis
      by (subst lut_fill.simps) (auto simp: fun_eq_iff)
  qed
qed

text \<open>
  A range whose end lies in the last page of the address space never ends the loop: the counter
  wraps from 0xFFFFF000 to 0, which is again below the end.
\<close>

lemma lut_fill_diverges:
  assumes "0xFFFFF000 < unat e" "4096 dvd unat i"
  shows "lut_fill f i e lut = None"
proof (cases "lut_fill f i e lut")
  case (Some r)
  have "\<not> (0xFFFFF000 < unat e \<and> 4096 dvd unat i)"
  proof (rule lut_fill.raw_induct
      [where P = "\<lambda>f i e lut r. \<not> (0xFFFFF000 < unat e \<and> 4096 dvd unat i)", OF _ Some])
    fix g f i e lut and r :: "nat \<Rightarrow> u32"
    assume IH: "\<And>f i e lut r. g f i e lut = Some r \<Longrightarrow> \<not> (0xFFFFF000 < unat e \<and> 4096 dvd unat i)"
      and eq: "(if i < e then g f (i + 0x1000) e (lut(page_of i := f i)) else Some lut) = Some r"
    show "\<not> (0xFFFFF000 < unat e \<and> 4096 dvd unat i)"
    proof
      assume a: "0xFFFFF000 < unat e \<and> 4096 dvd unat i"
      then have "unat i \<le> 0xFFFFF000" using unat_u32_less [of i] by auto
      then have "i < e" using a by (simp add: word_less_nat_alt)
      with eq have "g f (i + 0x1000) e (lut(page_of i := f i)) = Some r" by simp
      from IH [OF this] a have "\<not> 4096 dvd unat (i + 0x1000)" by simp
      moreover have "4096 dvd unat (i + 0x1000)"
        using a by (simp only: unat_add_u32) (auto intro!: dvd_mod)
      ultimately show False by simp
    qed
  qed
  with assms show ?thesis by simp
qed simp

section \<open>What mapping and unmapping do to the page tables\<close>

definition half_fill :: "(u32 \<Rightarrow> u32) \<Rightarrow> u32 \<Rightarrow> u32 \<Rightarrow> (nat \<Rightarrow> u32) \<Rightarrow> nat \<Rightarrow> u32" where
  "half_fill f start e lut p =
     (if page_of start \<le> p \<and> 4096 * p < unat e then f (page_addr p) else lut p)"

definition wf_half :: "u32 \<Rightarrow> u32 \<Rightarrow> bool" where
  "wf_half start e \<longleftrightarrow> 4096 dvd unat start \<and> unat e \<le> 0xFFFFF000"

definition wf_entry :: "tlb_entry \<Rightarrow> bool" where
  "wf_entry e \<longleftrightarrow> wf_half (te_start_even e) (te_end_even e) \<and> wf_half (te_start_odd e) (te_end_odd e)"

lemma lut_fill_half:
  assumes "wf_half start e"
  shows "lut_fill f start e lut = Some (half_fill f start e lut)"
proof -
  have "lut_fill f (page_addr (page_of start)) e lut = Some (half_fill f start e lut)"
    unfolding half_fill_def
    by (rule lut_fill_returns) (use assms in \<open>simp_all add: wf_half_def page_of_lt\<close>)
  then show ?thesis using assms by (simp add: wf_half_def page_addr_of_aligned)
qed

text \<open>The page tables after one half of an entry: \<open>on\<close> is the guard of the half.\<close>

definition half_tables ::
  "bool \<Rightarrow> bool \<Rightarrow> (u32 \<Rightarrow> u32) \<Rightarrow> u32 \<Rightarrow> u32 \<Rightarrow> tlb \<Rightarrow> tlb" where
  "half_tables on dirty f start e t =
     (if on then t\<lparr>LUT_r := half_fill f start e (LUT_r t),
                   LUT_w := (if dirty then half_fill f start e (LUT_w t) else LUT_w t)\<rparr>
      else t)"

lemma tlb_unmap_spec:
  assumes "n < 32" "n < length (entries t)" "wf_entry (entries t ! n)"
  shows "tlb_unmap t n = (let e = entries t ! n in
    Some (half_tables (te_v_odd e \<noteq> 0) (te_d_odd e \<noteq> 0) (\<lambda>_. 0) (te_start_odd e) (te_end_odd e)
      (half_tables (te_v_even e \<noteq> 0) (te_d_even e \<noteq> 0) (\<lambda>_. 0) (te_start_even e) (te_end_even e) t)))"
  using assms by (auto simp: tlb_unmap_def Let_def half_tables_def wf_entry_def lut_fill_half)

lemma tlb_map_spec:
  assumes "n < 32" "n < length (entries t)" "wf_entry (entries t ! n)"
  shows "tlb_map t n = (let e = entries t ! n in
    Some (half_tables (te_v_odd e \<noteq> 0 \<and> lut_mappable (te_start_odd e) (te_end_odd e) (te_phys_odd e))
        (te_d_odd e \<noteq> 0) (lut_value (te_phys_odd e) (te_start_odd e)) (te_start_odd e) (te_end_odd e)
      (half_tables (te_v_even e \<noteq> 0 \<and> lut_mappable (te_start_even e) (te_end_even e) (te_phys_even e))
        (te_d_even e \<noteq> 0) (lut_value (te_phys_even e) (te_start_even e)) (te_start_even e) (te_end_even e) t)))"
  using assms by (auto simp: tlb_map_def Let_def half_tables_def wf_entry_def lut_fill_half)

lemma entries_half_tables [simp]: "entries (half_tables on d f s e t) = entries t"
  by (simp add: half_tables_def)

section \<open>Address arithmetic of a table word\<close>

lemma aligned_and_FFF: "4096 dvd unat (x :: u32) \<Longrightarrow> x AND 0xFFF = 0"
  using unat_and_mask [of x 12]
  by (simp add: mask_eq_exp_minus_1 unat_eq_zero [symmetric] del: unat_eq_zero)

lemma split_FFF: "(x AND 0xFFFFF000) OR (x AND 0xFFF) = (x :: u32)"
proof -
  have "(x AND 0xFFFFF000) OR (x AND 0xFFF) = x AND (0xFFFFF000 OR 0xFFF)"
    by (simp only: bit.conj_disj_distrib)
  also have "(0xFFFFF000 OR 0xFFF :: u32) = -1" by simp
  finally show ?thesis by simp
qed

lemma add_disjoint_or: "x AND y = 0 \<Longrightarrow> (x :: u32) + y = x OR y"
  using word_plus_and_or [of x y] by simp

lemma aligned_add_FFF:
  assumes "x AND 0xFFF = (0 :: u32)"
  shows "(0x80000000 OR (x + 0xFFF)) AND 0xFFFFF000 = 0x80000000 OR x"
proof -
  have x: "x AND 0xFFFFF000 = x" using split_FFF [of x] assms by simp
  have "(0x80000000 OR (x + 0xFFF)) AND 0xFFFFF000
      = (0x80000000 AND 0xFFFFF000) OR (x AND 0xFFFFF000) OR (0xFFF AND 0xFFFFF000)"
    by (simp only: add_disjoint_or [OF assms] bit.conj_disj_distrib2 or.assoc)
  then show ?thesis by (simp add: x)
qed

lemma aligned_or_low:
  assumes "x AND 0xFFF = (0 :: u32)"
  shows "(0x80000000 OR x) OR (a AND 0xFFF) = 0x80000000 OR (x + (a AND 0xFFF))"
proof -
  have "x AND (a AND 0xFFF) = (x AND 0xFFF) AND a" by (simp only: ac_simps)
  then have "x AND (a AND 0xFFF) = 0" by (simp add: assms)
  then show ?thesis by (simp only: add_disjoint_or or.assoc)
qed

lemma page_addr_and_low: "page_addr (page_of a) + (a AND 0xFFF) = a"
proof -
  have low: "unat (a AND 0xFFF) = unat a mod 4096"
    using unat_and_mask [of a 12] by (simp add: mask_eq_exp_minus_1)
  have "page_addr (page_of a) + (a AND 0xFFF)
      = word_of_nat (4096 * (unat a div 4096)) + word_of_nat (unat (a AND 0xFFF))"
    by (simp add: page_addr_def page_of_nat)
  also have "\<dots> = word_of_nat (4096 * (unat a div 4096) + unat a mod 4096)"
    by (simp only: low of_nat_add)
  finally show ?thesis by simp
qed

lemma dvd_unat_diff_u32:
  assumes "4096 dvd unat (a :: u32)" "4096 dvd unat b"
  shows "4096 dvd unat (a - b)"
proof -
  have "4096 dvd unat a + 0x100000000 - unat b"
    using assms unat_u32_less [of b] by (intro dvd_diff_nat dvd_add) auto
  then show ?thesis by (simp only: unat_diff_u32) (rule dvd_mod, auto)
qed

lemma dvd_unat_add_u32: "4096 dvd unat (a :: u32) \<Longrightarrow> 4096 dvd unat b \<Longrightarrow> 4096 dvd unat (a + b)"
  by (simp only: unat_add_u32) (rule dvd_mod, auto)

text \<open>
  What a lookup makes of the word that \<^verbatim>\<open>tlb_map\<close> stored for the page of an address: the physical
  address in KSEG0.
\<close>

lemma lut_value_translates:
  assumes "4096 dvd unat phys" "4096 dvd unat start"
  shows "(lut_value phys start (page_addr (page_of a)) AND 0xFFFFF000) OR (a AND 0xFFF)
    = 0x80000000 OR (phys + (a - start))"
proof -
  let ?x = "phys + (page_addr (page_of a) - start)"
  have "4096 dvd unat (page_addr (page_of a))"
    by (simp add: unat_page_addr page_of_lt)
  then have x: "?x AND 0xFFF = 0"
    using assms by (intro aligned_and_FFF dvd_unat_add_u32 dvd_unat_diff_u32)
  have "(lut_value phys start (page_addr (page_of a)) AND 0xFFFFF000) OR (a AND 0xFFF)
      = 0x80000000 OR (?x + (a AND 0xFFF))"
    unfolding lut_value_def by (simp only: aligned_add_FFF [OF x] aligned_or_low [OF x])
  also have "?x + (a AND 0xFFF) = phys + ((page_addr (page_of a) + (a AND 0xFFF)) - start)"
    by (simp only: algebra_simps)
  finally show ?thesis by (simp only: page_addr_and_low)
qed

lemma lut_value_nonzero: "lut_value phys start i \<noteq> 0"
proof -
  have "bit (lut_value phys start i) 31"
    by (simp add: lut_value_def bit_or_iff)
  then show ?thesis by auto
qed

lemma in_half_page:
  assumes "wf_half start e" "start \<le> a" "a < e"
  shows "page_of start \<le> page_of a" "4096 * page_of a < unat e"
proof -
  from assms(2) show "page_of start \<le> page_of a"
    by (simp add: page_of_nat word_le_nat_alt div_le_mono)
  have "4096 * page_of a \<le> unat a" by (simp add: page_of_nat)
  also have "\<dots> < unat e" using assms(3) by (simp add: word_less_nat_alt)
  finally show "4096 * page_of a < unat e" .
qed

end
