(* ===== verification/Interrupt_Queue.thy ===== *)
theory Interrupt_Queue
  imports Tlb "HOL-Library.Multiset"
begin

text \<open>
  The event queue of the system control coprocessor: the structures of \<^verbatim>\<open>device/r4300/cp0.h\<close> and
  the queue half of \<^verbatim>\<open>device/r4300/interrupt.c\<close>. The C queue is a singly linked list whose nodes
  come from a pool of 16; a \<^verbatim>\<open>struct node*\<close> is the index of its node in \<^verbatim>\<open>pool.nodes\<close>, \<open>None\<close>
  being \<^verbatim>\<open>NULL\<close>. Loops that follow \<^verbatim>\<open>next\<close> pointers are \<^theory_text>\<open>partial_function\<close>s: on a cyclic or
  dangling list their value is \<open>None\<close>. Warnings sent to \<^verbatim>\<open>DebugMessage\<close> are not modelled.
\<close>

section \<open>Data\<close>

datatype cp0_register =
    CP0_INDEX_REG | CP0_RANDOM_REG | CP0_ENTRYLO0_REG | CP0_ENTRYLO1_REG | CP0_CONTEXT_REG
  | CP0_PAGEMASK_REG | CP0_WIRED_REG | CP0_UNUSED_7 | CP0_BADVADDR_REG | CP0_COUNT_REG
  | CP0_ENTRYHI_REG | CP0_COMPARE_REG | CP0_STATUS_REG | CP0_CAUSE_REG | CP0_EPC_REG
  | CP0_PREVID_REG | CP0_CONFIG_REG | CP0_LLADDR_REG | CP0_WATCHLO_REG | CP0_WATCHHI_REG
  | CP0_XCONTEXT_REG | CP0_UNUSED_21 | CP0_UNUSED_22 | CP0_UNUSED_23 | CP0_UNUSED_24
  | CP0_UNUSED_25 | CP0_PARITYERR_REG | CP0_CACHEERR_REG | CP0_TAGLO_REG | CP0_TAGHI_REG
  | CP0_ERROREPC_REG | CP0_UNUSED_31

definition INTERRUPT_NODES_POOL_CAPACITY :: nat where
  "INTERRUPT_NODES_POOL_CAPACITY = 16"

record interrupt_event =
  evt_type :: u32
  evt_count :: u32

record node =
  data :: interrupt_event
  nxt :: "nat option"

record pool =
  nodes :: "node list"
  stack :: "nat list"
  pidx :: nat

record interrupt_queue =
  q_pool :: pool
  q_first :: "nat option"

record cp0 =
  cp0_regs :: "cp0_register \<Rightarrow> u32"
  latch :: u64
  interrupt_unsafe_state :: u32
  cp0_q :: interrupt_queue
  next_interrupt :: u32
  cycle_count :: u32
  last_addr :: u32
  count_per_op :: u32
  count_per_op_denom_pot :: u32
  cp0_tlb :: tlb

abbreviation VI_INT :: u32 where "VI_INT \<equiv> 0x0001"
abbreviation COMPARE_INT :: u32 where "COMPARE_INT \<equiv> 0x0002"
abbreviation CHECK_INT :: u32 where "CHECK_INT \<equiv> 0x0004"
abbreviation SI_INT :: u32 where "SI_INT \<equiv> 0x0008"
abbreviation PI_INT :: u32 where "PI_INT \<equiv> 0x0010"
abbreviation SPECIAL_INT :: u32 where "SPECIAL_INT \<equiv> 0x0020"
abbreviation AI_INT :: u32 where "AI_INT \<equiv> 0x0040"
abbreviation SP_INT :: u32 where "SP_INT \<equiv> 0x0080"
abbreviation DP_INT :: u32 where "DP_INT \<equiv> 0x0100"
abbreviation HW2_INT :: u32 where "HW2_INT \<equiv> 0x0200"
abbreviation NMI_INT :: u32 where "NMI_INT \<equiv> 0x0400"
abbreviation RSP_DMA_EVT :: u32 where "RSP_DMA_EVT \<equiv> 0x0800"
abbreviation DD_MC_INT :: u32 where "DD_MC_INT \<equiv> 0x1000"
abbreviation DD_BM_INT :: u32 where "DD_BM_INT \<equiv> 0x2000"
abbreviation DD_DV_INT :: u32 where "DD_DV_INT \<equiv> 0x4000"

section \<open>The node pool\<close>

text \<open>\<open>alloc_node\<close> returns \<open>None\<close> in its first component for \<^verbatim>\<open>NULL\<close>.\<close>

definition alloc_node :: "pool \<Rightarrow> (nat option \<times> pool) option" where
  "alloc_node p =
     (if INTERRUPT_NODES_POOL_CAPACITY \<le> pidx p then Some (None, p)
      else do {
        n \<leftarrow> rd (stack p) (pidx p);
        Some (Some n, p\<lparr>pidx := pidx p + 1\<rparr>) })"

definition free_node :: "pool \<Rightarrow> nat option \<Rightarrow> pool option" where
  "free_node p n =
     (case n of
        None \<Rightarrow> Some p
      | Some a \<Rightarrow>
          if pidx p = 0 then Some p
          else do {
            st \<leftarrow> wr (stack p) (pidx p - 1) a;
            Some (p\<lparr>stack := st, pidx := pidx p - 1\<rparr>) })"

definition clear_pool :: "pool \<Rightarrow> pool" where
  "clear_pool p = p\<lparr>stack := [0..<INTERRUPT_NODES_POOL_CAPACITY], pidx := 0\<rparr>"

definition clear_queue :: "interrupt_queue \<Rightarrow> interrupt_queue" where
  "clear_queue qu = qu\<lparr>q_first := None, q_pool := clear_pool (q_pool qu)\<rparr>"

definition deref :: "interrupt_queue \<Rightarrow> nat option \<Rightarrow> node option" where
  "deref qu ptr = (case ptr of None \<Rightarrow> None | Some a \<Rightarrow> rd (nodes (q_pool qu)) a)"

definition upd_node :: "pool \<Rightarrow> nat \<Rightarrow> (node \<Rightarrow> node) \<Rightarrow> pool option" where
  "upd_node p a f = do {
     x \<leftarrow> rd (nodes p) a;
     ns \<leftarrow> wr (nodes p) a (f x);
     Some (p\<lparr>nodes := ns\<rparr>) }"

section \<open>Searching the queue\<close>

text \<open>
  The three search loops \<^verbatim>\<open>for (; e->next != NULL && P(e->next); e = e->next);\<close>, from node \<open>e\<close>: by
  type in \<^verbatim>\<open>get_event\<close> and \<^verbatim>\<open>remove_event\<close>, by time and by equal count in
  \<^verbatim>\<open>add_interrupt_event_count\<close>. The value is the last \<^verbatim>\<open>e\<close>.
\<close>

partial_function (option) seek :: "(node \<Rightarrow> bool) \<Rightarrow> node list \<Rightarrow> nat \<Rightarrow> nat option" where
  "seek P ns e = do {
     n \<leftarrow> rd ns e;
     case nxt n of
       None \<Rightarrow> Some e
     | Some e' \<Rightarrow> do {
         n' \<leftarrow> rd ns e';
         if P n' then seek P ns e' else Some e } }"

text \<open>
  \<^verbatim>\<open>get_event\<close> returns a pointer to the count of the first event of a type, or \<^verbatim>\<open>NULL\<close>. The callers
  read the count at once, so the model returns the count.
\<close>

definition get_event :: "interrupt_queue \<Rightarrow> u32 \<Rightarrow> u32 option option" where
  "get_event qu ty =
     (case q_first qu of
        None \<Rightarrow> Some None
      | Some e \<Rightarrow> do {
          let ns = nodes (q_pool qu);
          n \<leftarrow> rd ns e;
          if evt_type (data n) = ty then Some (Some (evt_count (data n)))
          else do {
            e \<leftarrow> seek (\<lambda>m. evt_type (data m) \<noteq> ty) ns e;
            n \<leftarrow> rd ns e;
            case nxt n of
              None \<Rightarrow> Some None
            | Some e' \<Rightarrow> do { n' \<leftarrow> rd ns e'; Some (Some (evt_count (data n'))) } } })"

definition get_next_event_type :: "interrupt_queue \<Rightarrow> u32 option" where
  "get_next_event_type qu =
     (case q_first qu of
        None \<Rightarrow> Some 0
      | Some e \<Rightarrow> do { n \<leftarrow> rd (nodes (q_pool qu)) e; Some (evt_type (data n)) })"

definition remove_event :: "interrupt_queue \<Rightarrow> u32 \<Rightarrow> interrupt_queue option" where
  "remove_event qu ty =
     (case q_first qu of
        None \<Rightarrow> Some qu
      | Some e \<Rightarrow> do {
          let p = q_pool qu;
          n \<leftarrow> rd (nodes p) e;
          if evt_type (data n) = ty then do {
            p \<leftarrow> free_node p (Some e);
            Some (qu\<lparr>q_first := nxt n, q_pool := p\<rparr>) }
          else do {
            e \<leftarrow> seek (\<lambda>m. evt_type (data m) \<noteq> ty) (nodes p) e;
            n \<leftarrow> rd (nodes p) e;
            case nxt n of
              None \<Rightarrow> Some qu
            | Some to_del \<Rightarrow> do {
                d \<leftarrow> rd (nodes p) to_del;
                p \<leftarrow> upd_node p e (\<lambda>x. x\<lparr>nxt := nxt d\<rparr>);
                p \<leftarrow> free_node p (Some to_del);
                Some (qu\<lparr>q_pool := p\<rparr>) } } })"

section \<open>Inserting and removing events\<close>

definition before_event :: "cp0 \<Rightarrow> u32 \<Rightarrow> u32 \<Rightarrow> bool" where
  "before_event c evt1 evt2 =
     (let count = cp0_regs c CP0_COUNT_REG;
          count = (if 0 <s cycle_count c then count - cycle_count c else count)
      in evt1 - count < evt2 - count)"

text \<open>Linking the node \<open>event\<close>, already filled in, into the list.\<close>

definition link_event :: "cp0 \<Rightarrow> u32 \<Rightarrow> nat \<Rightarrow> interrupt_queue \<Rightarrow> interrupt_queue option" where
  "link_event c cnt event qu =
     (let p = q_pool qu in
      case q_first qu of
        None \<Rightarrow> do {
          p \<leftarrow> upd_node p event (\<lambda>x. x\<lparr>nxt := None\<rparr>);
          Some (qu\<lparr>q_first := Some event, q_pool := p\<rparr>) }
      | Some f \<Rightarrow> do {
          n \<leftarrow> rd (nodes p) f;
          if before_event c cnt (evt_count (data n)) then do {
            p \<leftarrow> upd_node p event (\<lambda>x. x\<lparr>nxt := Some f\<rparr>);
            Some (qu\<lparr>q_first := Some event, q_pool := p\<rparr>) }
          else do {
            e \<leftarrow> seek (\<lambda>m. \<not> before_event c cnt (evt_count (data m))) (nodes p) f;
            n \<leftarrow> rd (nodes p) e;
            if nxt n = None then do {
              p \<leftarrow> upd_node p e (\<lambda>x. x\<lparr>nxt := Some event\<rparr>);
              p \<leftarrow> upd_node p event (\<lambda>x. x\<lparr>nxt := None\<rparr>);
              Some (qu\<lparr>q_pool := p\<rparr>) }
            else do {
              e \<leftarrow> seek (\<lambda>m. evt_count (data m) = cnt) (nodes p) e;
              n \<leftarrow> rd (nodes p) e;
              p \<leftarrow> upd_node p event (\<lambda>x. x\<lparr>nxt := nxt n\<rparr>);
              p \<leftarrow> upd_node p e (\<lambda>x. x\<lparr>nxt := Some event\<rparr>);
              Some (qu\<lparr>q_pool := p\<rparr>) } } })"

definition add_interrupt_event_count :: "cp0 \<Rightarrow> u32 \<Rightarrow> u32 \<Rightarrow> cp0 option" where
  "add_interrupt_event_count c ty cnt = do {
     _ \<leftarrow> get_event (cp0_q c) ty;
     (event, p) \<leftarrow> alloc_node (q_pool (cp0_q c));
     case event of
       None \<Rightarrow> Some c
     | Some a \<Rightarrow> do {
         p \<leftarrow> upd_node p a (\<lambda>x. x\<lparr>data := \<lparr>evt_type = ty, evt_count = cnt\<rparr>\<rparr>);
         qu \<leftarrow> link_event c cnt a ((cp0_q c)\<lparr>q_pool := p\<rparr>);
         f \<leftarrow> deref qu (q_first qu);
         Some (c\<lparr>cp0_q := qu,
                 next_interrupt := evt_count (data f),
                 cycle_count := cp0_regs c CP0_COUNT_REG - evt_count (data f)\<rparr>) } }"

definition add_interrupt_event :: "cp0 \<Rightarrow> u32 \<Rightarrow> u32 \<Rightarrow> cp0 option" where
  "add_interrupt_event c ty delay =
     add_interrupt_event_count c ty (cp0_regs c CP0_COUNT_REG + delay)"

text \<open>
  The assignments to \<^verbatim>\<open>next_interrupt\<close> and \<^verbatim>\<open>cycle_count\<close> from the head of the queue, shared by
  \<^verbatim>\<open>remove_interrupt_event\<close> and the pending-jump branch of \<^verbatim>\<open>gen_interrupt\<close>.
\<close>

definition sync_next :: "cp0 \<Rightarrow> cp0 option" where
  "sync_next c =
     (case q_first (cp0_q c) of
        None \<Rightarrow> Some (c\<lparr>next_interrupt := 0, cycle_count := 0\<rparr>)
      | Some a \<Rightarrow> do {
          n \<leftarrow> rd (nodes (q_pool (cp0_q c))) a;
          Some (c\<lparr>next_interrupt := evt_count (data n),
                  cycle_count := cp0_regs c CP0_COUNT_REG - evt_count (data n)\<rparr>) })"

definition remove_interrupt_event :: "cp0 \<Rightarrow> cp0 option" where
  "remove_interrupt_event c = do {
     let e = q_first (cp0_q c);
     n \<leftarrow> deref (cp0_q c) e;
     p \<leftarrow> free_node (q_pool (cp0_q c)) e;
     sync_next (c\<lparr>cp0_q := (cp0_q c)\<lparr>q_first := nxt n, q_pool := p\<rparr>\<rparr>) }"

section \<open>Maintaining the queue\<close>

text \<open>
  The count of the next special event: the complement of the top bit of the current count, at a
  distance of at most $2^{31}$.
\<close>

definition special_count :: "u32 \<Rightarrow> u32" where
  "special_count cnt = (cnt AND 0x80000000) XOR 0x80000000"

text \<open>
  Scheduling the compare event: the count is moved forward by \<^verbatim>\<open>count_per_op\<close> around the insertion
  so that an event at the current count is ordered a whole turn later.
\<close>

definition add_compare_event :: "cp0 \<Rightarrow> u32 \<Rightarrow> cp0 option" where
  "add_compare_event c cmp = do {
     let c = c\<lparr>cp0_regs := (cp0_regs c)(CP0_COUNT_REG := cp0_regs c CP0_COUNT_REG + count_per_op c),
               cycle_count := cycle_count c + count_per_op c\<rparr>;
     c \<leftarrow> add_interrupt_event_count c COMPARE_INT cmp;
     let c = c\<lparr>cp0_regs := (cp0_regs c)(CP0_COUNT_REG := cp0_regs c CP0_COUNT_REG - count_per_op c)\<rparr>;
     f \<leftarrow> deref (cp0_q c) (q_first (cp0_q c));
     Some (c\<lparr>cycle_count := cp0_regs c CP0_COUNT_REG - evt_count (data f)\<rparr>) }"

partial_function (option) shift_counts ::
  "u32 \<Rightarrow> u32 \<Rightarrow> node list \<Rightarrow> nat option \<Rightarrow> node list option" where
  "shift_counts cnt base ns ptr =
     (if ptr = None then Some ns
      else do {
          a \<leftarrow> ptr;
          n \<leftarrow> rd ns a;
          ns \<leftarrow> wr ns a (n\<lparr>data := (data n)\<lparr>evt_count := (evt_count (data n) - cnt) + base\<rparr>\<rparr>);
          shift_counts cnt base ns (nxt n) })"

definition translate_event_queue :: "cp0 \<Rightarrow> u32 \<Rightarrow> cp0 option" where
  "translate_event_queue c base = do {
     qu \<leftarrow> remove_event (cp0_q c) COMPARE_INT;
     qu \<leftarrow> remove_event qu SPECIAL_INT;
     ns \<leftarrow> shift_counts (cp0_regs c CP0_COUNT_REG) base (nodes (q_pool qu)) (q_first qu);
     let c = c\<lparr>cp0_q := qu\<lparr>q_pool := (q_pool qu)\<lparr>nodes := ns\<rparr>\<rparr>,
               cp0_regs := (cp0_regs c)(CP0_COUNT_REG := base)\<rparr>;
     c \<leftarrow> add_interrupt_event_count c SPECIAL_INT (special_count (cp0_regs c CP0_COUNT_REG));
     add_compare_event c (cp0_regs c CP0_COMPARE_REG) }"

partial_function (option) save_nodes ::
  "node list \<Rightarrow> nat option \<Rightarrow> u8 list \<Rightarrow> nat \<Rightarrow> (u8 list \<times> nat) option" where
  "save_nodes ns ptr buf len =
     (if ptr = None then Some (buf, len)
      else do {
          a \<leftarrow> ptr;
          n \<leftarrow> rd ns a;
          buf \<leftarrow> put_le32 buf len (evt_type (data n));
          buf \<leftarrow> put_le32 buf (len + 4) (evt_count (data n));
          save_nodes ns (nxt n) buf (len + 8) })"

definition save_eventqueue_infos :: "cp0 \<Rightarrow> u8 list \<Rightarrow> (u8 list \<times> nat) option" where
  "save_eventqueue_infos c buf = do {
     (buf, len) \<leftarrow> save_nodes (nodes (q_pool (cp0_q c))) (q_first (cp0_q c)) buf 0;
     buf \<leftarrow> put_le32 buf len 0xFFFFFFFF;
     Some (buf, len + 4) }"

partial_function (option) load_events :: "cp0 \<Rightarrow> u8 list \<Rightarrow> nat \<Rightarrow> cp0 option" where
  "load_events c buf len = do {
     ty \<leftarrow> get_le32 buf len;
     if ty = 0xFFFFFFFF then Some c
     else do {
       cnt \<leftarrow> get_le32 buf (len + 4);
       c \<leftarrow> add_interrupt_event_count c ty cnt;
       load_events c buf (len + 8) } }"

definition load_eventqueue_infos :: "cp0 \<Rightarrow> u8 list \<Rightarrow> cp0 option" where
  "load_eventqueue_infos c buf = do {
     c \<leftarrow> load_events (c\<lparr>cp0_q := clear_queue (cp0_q c)\<rparr>) buf 0;
     qu \<leftarrow> remove_event (cp0_q c) SPECIAL_INT;
     add_interrupt_event_count (c\<lparr>cp0_q := qu\<rparr>) SPECIAL_INT
       (special_count (cp0_regs c CP0_COUNT_REG)) }"

definition init_interrupt :: "cp0 \<Rightarrow> cp0 option" where
  "init_interrupt c = do {
     c \<leftarrow> add_interrupt_event_count (c\<lparr>cp0_q := clear_queue (cp0_q c)\<rparr>) SPECIAL_INT 0x80000000;
     add_interrupt_event_count c COMPARE_INT 0 }"

section \<open>Lists in the pool\<close>

text \<open>\<open>qseg ns p xs r\<close>: following \<^verbatim>\<open>next\<close> from \<open>p\<close> visits the nodes \<open>xs\<close> and arrives at \<open>r\<close>.\<close>

fun qseg :: "node list \<Rightarrow> nat option \<Rightarrow> nat list \<Rightarrow> nat option \<Rightarrow> bool" where
  "qseg ns p [] r = (p = r)"
| "qseg ns p (a # as) r = (p = Some a \<and> a < length ns \<and> qseg ns (nxt (ns ! a)) as r)"

abbreviation qlist :: "node list \<Rightarrow> nat option \<Rightarrow> nat list \<Rightarrow> bool" where
  "qlist ns p as \<equiv> qseg ns p as None"

lemma qseg_append: "qseg ns p (xs @ ys) r \<longleftrightarrow> (\<exists>m. qseg ns p xs m \<and> qseg ns m ys r)"
  by (induction xs arbitrary: p) auto

lemma qseg_bound: "qseg ns p as r \<Longrightarrow> a \<in> set as \<Longrightarrow> a < length ns"
  by (induction as arbitrary: p) auto

lemma qseg_upd_other: "a \<notin> set as \<Longrightarrow> qseg (ns[a := x]) p as r = qseg ns p as r"
  by (induction as arbitrary: p) auto

lemma qseg_upd_data:
  assumes "nxt x = nxt (ns ! a)"
  shows "qseg (ns[a := x]) p as r = qseg ns p as r"
proof -
  have "nxt (ns[a := x] ! b) = nxt (ns ! b)" for b
    using assms by (cases "a = b"; cases "a < length ns") (simp_all add: list_update_beyond)
  then show ?thesis by (induction as arbitrary: p) auto
qed

lemma qlist_unique: "qlist ns p as \<Longrightarrow> qlist ns p bs \<Longrightarrow> as = bs"
proof (induction as arbitrary: p bs)
  case Nil
  then show ?case by (cases bs) auto
next
  case (Cons a as)
  then show ?case by (cases bs) auto
qed

text \<open>The nodes of a queue in order, as a function of the memory; the capacity is enough fuel.\<close>

primrec chase :: "nat \<Rightarrow> node list \<Rightarrow> nat option \<Rightarrow> nat list" where
  "chase 0 ns p = []"
| "chase (Suc k) ns p =
     (case p of None \<Rightarrow> []
      | Some a \<Rightarrow> if a < length ns then a # chase k ns (nxt (ns ! a)) else [])"

lemma chase_qlist: "qlist ns p as \<Longrightarrow> length as \<le> k \<Longrightarrow> chase k ns p = as"
proof (induction as arbitrary: p k)
  case Nil
  then show ?case by (cases k) auto
next
  case (Cons a as)
  then show ?case by (cases k) auto
qed

definition q_nodes :: "interrupt_queue \<Rightarrow> nat list" where
  "q_nodes qu = chase INTERRUPT_NODES_POOL_CAPACITY (nodes (q_pool qu)) (q_first qu)"

definition events :: "interrupt_queue \<Rightarrow> interrupt_event list" where
  "events qu = map (\<lambda>a. data (nodes (q_pool qu) ! a)) (q_nodes qu)"

definition pool_rep :: "pool \<Rightarrow> nat list \<Rightarrow> bool" where
  "pool_rep p as \<longleftrightarrow>
     length (nodes p) = INTERRUPT_NODES_POOL_CAPACITY \<and>
     length (stack p) = INTERRUPT_NODES_POOL_CAPACITY \<and>
     pidx p = length as \<and> length as \<le> INTERRUPT_NODES_POOL_CAPACITY \<and>
     distinct (as @ drop (pidx p) (stack p)) \<and>
     set (as @ drop (pidx p) (stack p)) \<subseteq> {..<INTERRUPT_NODES_POOL_CAPACITY}"

text \<open>
  The queue invariant: the list is well formed, its nodes and the free part of the stack are
  disjoint and without repetition, and the pool's index counts the list.
\<close>

definition wf_queue :: "interrupt_queue \<Rightarrow> bool" where
  "wf_queue qu \<longleftrightarrow>
     qlist (nodes (q_pool qu)) (q_first qu) (q_nodes qu) \<and> pool_rep (q_pool qu) (q_nodes qu)"

lemma q_nodesI:
  assumes "qlist (nodes (q_pool qu)) (q_first qu) as" "pool_rep (q_pool qu) as"
  shows "wf_queue qu" "q_nodes qu = as"
proof -
  show "q_nodes qu = as"
    unfolding q_nodes_def by (rule chase_qlist) (use assms in \<open>auto simp: pool_rep_def\<close>)
  with assms show "wf_queue qu" by (simp add: wf_queue_def)
qed

end
