(* ===== verification/Interrupt_Refinement.thy ===== *)
theory Interrupt_Refinement
  imports Interrupt_Queue
begin

text \<open>
  The linked-list queue of \<^verbatim>\<open>interrupt.c\<close> refines a list of events: every operation of
  \<open>Interrupt_Queue\<close> returns on a well-formed queue, keeps it well formed and acts on \<open>events\<close>, the
  abstraction, as a list function. On top of that the queue is ordered by the distance of the
  events from the current count, and \<^verbatim>\<open>next_interrupt\<close> and \<^verbatim>\<open>cycle_count\<close> follow its head.
\<close>

section \<open>Pool operations\<close>

lemma alloc_node_full: "pool_rep p as \<Longrightarrow> length as = INTERRUPT_NODES_POOL_CAPACITY \<Longrightarrow>
    alloc_node p = Some (None, p)"
  by (simp add: alloc_node_def pool_rep_def)

lemma alloc_node_ok:
  assumes "pool_rep p as" "length as < INTERRUPT_NODES_POOL_CAPACITY"
  obtains n p' where "alloc_node p = Some (Some n, p')" "nodes p' = nodes p" "n \<notin> set as"
    "n < INTERRUPT_NODES_POOL_CAPACITY" "\<And>xs ys. as = xs @ ys \<Longrightarrow> pool_rep p' (xs @ n # ys)"
proof -
  let ?n = "stack p ! length as" and ?p = "p\<lparr>pidx := Suc (length as)\<rparr>"
  have len: "length as < length (stack p)" "pidx p = length as"
    using assms by (simp_all add: pool_rep_def)
  then have dr: "drop (length as) (stack p) = ?n # drop (Suc (length as)) (stack p)"
    by (simp add: Cons_nth_drop_Suc)
  have al: "alloc_node p = Some (Some ?n, ?p)"
    using assms len by (simp add: alloc_node_def)
  have "pool_rep ?p (xs @ ?n # ys)" if "as = xs @ ys" for xs ys
    using assms dr len that by (auto simp: pool_rep_def)
  moreover have "?n \<notin> set as" "?n < INTERRUPT_NODES_POOL_CAPACITY"
    using assms dr len by (auto simp: pool_rep_def)
  ultimately show thesis using that [OF al] by simp
qed

lemma free_node_ok:
  assumes "pool_rep p (xs @ a # ys)"
  obtains p' where "free_node p (Some a) = Some p'" "nodes p' = nodes p" "pool_rep p' (xs @ ys)"
proof -
  let ?k = "length (xs @ ys)"
  let ?p = "p\<lparr>stack := (stack p)[?k := a], pidx := ?k\<rparr>"
  have len: "pidx p = Suc ?k" "?k < length (stack p)"
    using assms by (auto simp: pool_rep_def)
  then have fr: "free_node p (Some a) = Some ?p"
    by (simp add: free_node_def)
  have dr: "drop ?k ((stack p)[?k := a]) = a # drop (Suc ?k) (stack p)"
    using len(2) by (simp add: Cons_nth_drop_Suc [symmetric])
  have "pool_rep ?p (xs @ ys)"
    using assms len dr by (auto simp: pool_rep_def)
  with fr show thesis by (intro that) simp_all
qed

section \<open>Search loops\<close>

lemma seek_spec:
  "qlist ns (Some e) (e # as) \<Longrightarrow> seek P ns e = Some (last (e # takeWhile (\<lambda>a. P (ns ! a)) as))"
proof (induction as arbitrary: e)
  case Nil
  then show ?case by (subst seek.simps) simp
next
  case (Cons b as)
  then have b: "nxt (ns ! e) = Some b" "b < length ns" "qlist ns (Some b) (b # as)" "e < length ns"
    by auto
  then show ?case using Cons.IH [OF b(3)] by (subst seek.simps) simp
qed

lemma seek_stop:
  assumes "e < length ns" "nxt (ns ! e) = Some d" "d < length ns" "\<not> P (ns ! d)"
  shows "seek P ns e = Some e"
  using assms by (subst seek.simps) simp

text \<open>
  A list split at the node \<open>e\<close> where a search loop stops: the part up to \<open>e\<close>, and the rest.
\<close>

lemma seek_split:
  assumes "qlist ns (Some f) (f # as)" "distinct (f # as)"
  obtains xs e dr m where "seek P ns f = Some e" "f # takeWhile (\<lambda>a. P (ns ! a)) as = xs @ [e]"
    "dr = dropWhile (\<lambda>a. P (ns ! a)) as" "f # as = xs @ e # dr"
    "qseg ns (Some f) (xs @ [e]) m" "qseg ns m dr None" "e < length ns" "nxt (ns ! e) = m"
proof -
  let ?tk = "f # takeWhile (\<lambda>a. P (ns ! a)) as" and ?dr = "dropWhile (\<lambda>a. P (ns ! a)) as"
  obtain xs e where xe: "?tk = xs @ [e]"
    by (metis list.distinct(1) rev_exhaust)
  then have all: "f # as = xs @ e # ?dr"
    by (metis append_Cons append_Nil append_assoc takeWhile_dropWhile_id)
  then obtain m where m: "qseg ns (Some f) (xs @ [e]) m" "qseg ns m ?dr None"
    using assms(1) by (metis append_Cons append_Nil append_assoc qseg_append)
  then have "e < length ns" "nxt (ns ! e) = m" by (auto simp: qseg_append)
  moreover have "seek P ns f = Some e"
    using seek_spec [OF assms(1), of P] xe by (metis last_snoc)
  ultimately show thesis using that xe all m by blast
qed

section \<open>Reading the queue\<close>

lemma wf_queue_cases:
  assumes "wf_queue qu"
  obtains (empty) "q_first qu = None" "q_nodes qu = []"
  | (cons) f as where "q_first qu = Some f" "q_nodes qu = f # as" "f < length (nodes (q_pool qu))"
      "qlist (nodes (q_pool qu)) (Some f) (f # as)" "distinct (f # as)"
  using assms by (cases "q_nodes qu") (auto simp: wf_queue_def pool_rep_def)

lemma events_first: "wf_queue qu \<Longrightarrow> q_first qu = None \<longleftrightarrow> events qu = []"
  by (erule wf_queue_cases) (auto simp: events_def)

lemma deref_first:
  assumes "wf_queue qu"
  shows "deref qu (q_first qu) = (if events qu = [] then None
    else Some (nodes (q_pool qu) ! hd (q_nodes qu)))"
  using assms by (rule wf_queue_cases) (auto simp: events_def deref_def)

lemma hd_events: "q_nodes qu \<noteq> [] \<Longrightarrow> hd (events qu) = data (nodes (q_pool qu) ! hd (q_nodes qu))"
  by (simp add: events_def hd_map)

lemma get_event_spec:
  assumes "wf_queue qu"
  shows "get_event qu ty = Some (map_option evt_count (find (\<lambda>x. evt_type x = ty) (events qu)))"
  using assms
proof (cases rule: wf_queue_cases)
  case empty
  then show ?thesis by (simp add: get_event_def events_def)
next
  case (cons f as)
  let ?ns = "nodes (q_pool qu)" and ?P = "\<lambda>m. evt_type (data m) \<noteq> ty"
  obtain xs e dr m where s: "seek ?P ?ns f = Some e" "f # takeWhile (\<lambda>a. ?P (?ns ! a)) as = xs @ [e]"
      "dr = dropWhile (\<lambda>a. ?P (?ns ! a)) as" "qseg ?ns m dr None" "e < length ?ns" "nxt (?ns ! e) = m"
    by (rule seek_split [OF cons(4,5), of ?P])
  have fd: "find (\<lambda>x. evt_type x = ty) (map (\<lambda>a. data (?ns ! a)) as) =
      (case dr of [] \<Rightarrow> None | d # _ \<Rightarrow> Some (data (?ns ! d)))"
    unfolding s(3) by (induction as) auto
  show ?thesis
  proof (cases dr)
    case Nil
    then show ?thesis using cons s(1,4,5,6) fd by (simp add: get_event_def events_def)
  next
    case (Cons d ds)
    then show ?thesis using cons s(1,4,5,6) fd by (auto simp: get_event_def events_def)
  qed
qed

lemma get_next_event_type_spec:
  "wf_queue qu \<Longrightarrow> get_next_event_type qu =
     Some (case events qu of [] \<Rightarrow> 0 | x # _ \<Rightarrow> evt_type x)"
  by (erule wf_queue_cases) (auto simp: get_next_event_type_def events_def)

section \<open>Removing an event\<close>

primrec del_type :: "u32 \<Rightarrow> interrupt_event list \<Rightarrow> interrupt_event list" where
  "del_type ty [] = []"
| "del_type ty (x # xs) = (if evt_type x = ty then xs else x # del_type ty xs)"

lemma del_type_split:
  "del_type ty xs = takeWhile (\<lambda>x. evt_type x \<noteq> ty) xs @ tl (dropWhile (\<lambda>x. evt_type x \<noteq> ty) xs)"
  by (induction xs) auto

lemma del_type_notin: "ty \<notin> evt_type ` set xs \<Longrightarrow> del_type ty xs = xs"
  by (induction xs) auto

lemma set_del_type: "set (del_type ty xs) \<subseteq> set xs"
  by (induction xs) auto

lemma sorted_wrt_del_type: "sorted_wrt R xs \<Longrightarrow> sorted_wrt R (del_type ty xs)"
  by (induction xs) (use set_del_type in auto)

lemma upd_node_Some: "a < length (nodes p) \<Longrightarrow>
    upd_node p a f = Some (p\<lparr>nodes := (nodes p)[a := f (nodes p ! a)]\<rparr>)"
  by (simp add: upd_node_def)

lemma pool_rep_nodes: "length ns = length (nodes p) \<Longrightarrow> pool_rep (p\<lparr>nodes := ns\<rparr>) as = pool_rep p as"
  by (simp add: pool_rep_def)

lemma remove_event_spec:
  assumes "wf_queue qu"
  shows "\<exists>qu'. remove_event qu ty = Some qu' \<and> wf_queue qu' \<and> events qu' = del_type ty (events qu)"
  using assms
proof (cases rule: wf_queue_cases)
  case empty
  then show ?thesis using assms by (simp add: remove_event_def events_def)
next
  case (cons f as)
  let ?p = "q_pool qu"
  let ?ns = "nodes ?p" and ?P = "\<lambda>m. evt_type (data m) \<noteq> ty"
  have rep: "pool_rep ?p (f # as)" using assms cons(2) by (simp add: wf_queue_def)
  show ?thesis
  proof (cases "evt_type (data (?ns ! f)) = ty")
    case True
    obtain p' where p': "free_node ?p (Some f) = Some p'" "nodes p' = ?ns" "pool_rep p' as"
      using free_node_ok [of ?p "[]" f as] rep by auto
    let ?q = "qu\<lparr>q_first := nxt (?ns ! f), q_pool := p'\<rparr>"
    have "wf_queue ?q" "q_nodes ?q = as"
      by (rule q_nodesI; use cons p' in simp)+
    then show ?thesis
      using True cons p' by (simp add: remove_event_def events_def)
  next
    case False
    obtain xs e dr m where s: "seek ?P ?ns f = Some e" "f # takeWhile (\<lambda>a. ?P (?ns ! a)) as = xs @ [e]"
        "dr = dropWhile (\<lambda>a. ?P (?ns ! a)) as" "f # as = xs @ e # dr"
        "qseg ?ns (Some f) (xs @ [e]) m" "qseg ?ns m dr None" "e < length ?ns" "nxt (?ns ! e) = m"
      by (rule seek_split [OF cons(4,5), of ?P])
    have ev: "del_type ty (events qu) = map (\<lambda>a. data (?ns ! a)) (xs @ e # tl dr)"
    proof -
      have "events qu = map (\<lambda>a. data (?ns ! a)) (f # as)" using cons by (simp add: events_def)
      then have "del_type ty (events qu)
          = map (\<lambda>a. data (?ns ! a)) ((f # takeWhile (\<lambda>a. ?P (?ns ! a)) as) @ tl dr)"
        using False by (simp add: del_type_split s(3) takeWhile_map dropWhile_map map_tl comp_def)
      then show ?thesis by (simp only: s(2)) simp
    qed
    show ?thesis
    proof (cases dr)
      case Nil
      then have "m = None" using s(6) by simp
      then have "remove_event qu ty = Some qu"
        using cons(1,3) False s(1,7,8) by (simp add: remove_event_def)
      moreover have "events qu = del_type ty (events qu)"
        using ev s(4) Nil cons(2) by (simp add: events_def)
      ultimately show ?thesis using assms by simp
    next
      case (Cons d ds)
      then have m: "m = Some d" "d < length ?ns" "qlist ?ns (nxt (?ns ! d)) ds" using s(6) by auto
      let ?ns' = "?ns[e := (?ns ! e)\<lparr>nxt := nxt (?ns ! d)\<rparr>]"
      have dist: "distinct (xs @ e # d # ds)" using cons(5) s(4) Cons by simp
      have "pool_rep (?p\<lparr>nodes := ?ns'\<rparr>) ((xs @ [e]) @ d # ds)"
        using rep s(4) Cons by (simp add: pool_rep_nodes)
      then obtain p' where p': "free_node (?p\<lparr>nodes := ?ns'\<rparr>) (Some d) = Some p'"
          "nodes p' = ?ns'" "pool_rep p' (xs @ e # ds)"
        by (rule free_node_ok) simp
      let ?q = "qu\<lparr>q_pool := p'\<rparr>"
      have "qseg ?ns' (Some f) xs (Some e)"
        using s(5) dist by (auto simp: qseg_append qseg_upd_other)
      moreover have "qlist ?ns' (Some e) (e # ds)"
        using m s(7) dist by (simp add: qseg_upd_other)
      ultimately have ql: "qlist (nodes (q_pool ?q)) (q_first ?q) (xs @ e # ds)"
        using cons(1) p'(2) by (auto simp: qseg_append)
      have wf: "wf_queue ?q" "q_nodes ?q = xs @ e # ds"
        by (rule q_nodesI [OF ql]; use p'(3) in simp)+
      have "remove_event qu ty = Some ?q"
        using cons(1,3) False s(1,7,8) m p' by (simp add: remove_event_def upd_node_Some)
      moreover have "events ?q = del_type ty (events qu)"
        using wf(2) p'(2) ev Cons s(7) by (simp add: events_def nth_list_update)
      ultimately show ?thesis using wf(1) by blast
    qed
  qed
qed

section \<open>Linking an event\<close>

lemma link_after:
  assumes "qseg ns p (xs @ [e]) m" "qseg ns m dr None" "distinct (xs @ e # dr)"
    "n \<notin> set (xs @ e # dr)" "n < length ns" "y = (ns ! n)\<lparr>nxt := m\<rparr>" "x = (ns ! e)\<lparr>nxt := Some n\<rparr>"
  shows "qlist (ns[n := y, e := x]) p (xs @ e # n # dr)"
proof -
  let ?ns = "ns[n := y, e := x]"
  have e: "e < length ns" using assms(1) by (auto simp: qseg_append)
  have "qseg ?ns p xs (Some e)"
    using assms(1,3,4) by (auto simp: qseg_append qseg_upd_other)
  moreover have "qlist ?ns (Some e) (e # n # dr)"
    using e assms(2-7) by (simp add: qseg_upd_other nth_list_update)
  ultimately show ?thesis by (auto simp: qseg_append)
qed

lemma link_event_spec:
  fixes c cnt qu
  defines "P \<equiv> \<lambda>m. \<not> before_event c cnt (evt_count (data m))"
  assumes ql: "qlist (nodes (q_pool qu)) (q_first qu) as" and dist: "distinct as"
    and n: "n \<notin> set as" "n < length (nodes (q_pool qu))"
  shows "\<exists>f' ns'. link_event c cnt n qu = Some (qu\<lparr>q_first := f', q_pool := (q_pool qu)\<lparr>nodes := ns'\<rparr>\<rparr>)
    \<and> length ns' = length (nodes (q_pool qu)) \<and> (\<forall>a. data (ns' ! a) = data (nodes (q_pool qu) ! a))
    \<and> qlist ns' f' (takeWhile (\<lambda>a. P (nodes (q_pool qu) ! a)) as @ n #
                   dropWhile (\<lambda>a. P (nodes (q_pool qu) ! a)) as)"
proof (cases as)
  case Nil
  let ?ns = "nodes (q_pool qu)"
  have lk: "link_event c cnt n qu =
      Some (qu\<lparr>q_first := Some n, q_pool := (q_pool qu)\<lparr>nodes := ?ns[n := (?ns ! n)\<lparr>nxt := None\<rparr>]\<rparr>\<rparr>)"
    using Nil ql n by (simp add: link_event_def upd_node_Some)
  show ?thesis
    by (intro exI conjI, rule lk) (use Nil n in \<open>simp_all add: nth_list_update\<close>)
next
  case (Cons f rest)
  let ?p = "q_pool qu"
  let ?ns = "nodes ?p"
  have f: "q_first qu = Some f" "f < length ?ns" "qlist ?ns (Some f) (f # rest)"
    using ql Cons by auto
  show ?thesis
  proof (cases "P (?ns ! f)")
    case False
    let ?ns' = "?ns[n := (?ns ! n)\<lparr>nxt := Some f\<rparr>]"
    have lk: "link_event c cnt n qu = Some (qu\<lparr>q_first := Some n, q_pool := ?p\<lparr>nodes := ?ns'\<rparr>\<rparr>)"
      using False f n by (simp add: link_event_def upd_node_Some P_def Let_def)
    have "qlist ?ns' (Some n) (n # as)"
      using f n Cons ql by (simp add: qseg_upd_other)
    then show ?thesis
      by - (intro exI conjI, rule lk, use False Cons n in \<open>simp_all add: nth_list_update\<close>)
  next
    case True
    obtain xs e dr m where s: "seek P ?ns f = Some e" "f # takeWhile (\<lambda>a. P (?ns ! a)) rest = xs @ [e]"
        "dr = dropWhile (\<lambda>a. P (?ns ! a)) rest" "f # rest = xs @ e # dr"
        "qseg ?ns (Some f) (xs @ [e]) m" "qseg ?ns m dr None" "e < length ?ns" "nxt (?ns ! e) = m"
      by (rule seek_split [OF f(3), of P]) (use dist Cons in simp)
    let ?ns' = "?ns[n := (?ns ! n)\<lparr>nxt := m\<rparr>, e := (?ns ! e)\<lparr>nxt := Some n\<rparr>]"
    have d: "distinct (xs @ e # dr)" "n \<notin> set (xs @ e # dr)"
      using dist n(1) Cons s(4) by simp_all
    then have ne: "n \<noteq> e" by auto
    have eqseek: "seek (\<lambda>m. evt_count (data m) = cnt) ?ns e = Some e" if "m = Some x" for x
    proof -
      from that s(6) obtain ds where x: "dr = x # ds" "x < length ?ns" by (cases dr) auto
      then have "\<not> P (?ns ! x)" using s(3) by (metis hd_dropWhile list.sel(1) list.distinct(1))
      then have "evt_count (data (?ns ! x)) \<noteq> cnt"
        by (auto simp: P_def before_event_def Let_def)
      with x(2) that s(7,8) show ?thesis by (intro seek_stop) auto
    qed
    have lk: "link_event c cnt n qu = Some (qu\<lparr>q_first := Some f, q_pool := ?p\<lparr>nodes := ?ns'\<rparr>\<rparr>)"
      using True f n s(1,7,8) eqseek ne
      by (cases m) (simp_all add: link_event_def upd_node_Some P_def Let_def list_update_swap)
    have "qlist ?ns' (Some f) (xs @ e # n # dr)"
      by (rule link_after [OF s(5,6) d n(2)]) simp_all
    moreover have "takeWhile (\<lambda>a. P (?ns ! a)) as @ n # dropWhile (\<lambda>a. P (?ns ! a)) as = xs @ e # n # dr"
      using True Cons s(2,3) by simp
    ultimately show ?thesis
      by - (intro exI conjI, rule lk, use s(7) n(2) in \<open>simp_all add: nth_list_update\<close>)
  qed
qed

section \<open>The queue operations on lists of events\<close>

text \<open>
  \<open>now\<close> is the reference count of \<^verbatim>\<open>before_event\<close>, \<open>due\<close> the distance of an event from it.
\<close>

definition now :: "cp0 \<Rightarrow> u32" where
  "now c = (let count = cp0_regs c CP0_COUNT_REG
            in if 0 <s cycle_count c then count - cycle_count c else count)"

definition due :: "cp0 \<Rightarrow> interrupt_event \<Rightarrow> u32" where
  "due c x = evt_count x - now c"

lemma before_event_due: "before_event c cnt (evt_count x) \<longleftrightarrow> cnt - now c < due c x"
  by (simp add: before_event_def now_def due_def Let_def)

definition ins_event :: "cp0 \<Rightarrow> interrupt_event \<Rightarrow> interrupt_event list \<Rightarrow> interrupt_event list" where
  "ins_event c x xs = takeWhile (\<lambda>y. due c y \<le> due c x) xs @ x # dropWhile (\<lambda>y. due c y \<le> due c x) xs"

lemma mset_ins_event: "mset (ins_event c x xs) = add_mset x (mset xs)"
  unfolding ins_event_def
  by (induction xs) auto

lemma set_ins_event: "set (ins_event c x xs) = insert x (set xs)"
  by (metis mset_ins_event set_mset_add_mset_insert set_mset_mset)

lemma length_ins_event: "length (ins_event c x xs) = Suc (length xs)"
  by (metis mset_ins_event size_add_mset size_mset)

lemma ins_event_not_Nil [simp]: "ins_event c x xs \<noteq> []"
  by (simp add: ins_event_def)

lemma sorted_ins_event:
  "sorted (map (due c) xs) \<Longrightarrow> sorted (map (due c) (ins_event c x xs))"
proof (induction xs)
  case Nil
  then show ?case by (simp add: ins_event_def)
next
  case (Cons y ys)
  show ?case
  proof (cases "due c y \<le> due c x")
    case True
    then have "ins_event c x (y # ys) = y # ins_event c x ys" by (simp add: ins_event_def)
    with Cons True show ?thesis by (auto simp: set_ins_event)
  next
    case False
    then have "ins_event c x (y # ys) = x # y # ys" by (simp add: ins_event_def)
    with Cons.prems False show ?thesis by auto
  qed
qed

lemma length_events: "wf_queue qu \<Longrightarrow> length (events qu) = pidx (q_pool qu)"
  by (simp add: events_def wf_queue_def pool_rep_def)

lemma length_events_le: "wf_queue qu \<Longrightarrow> length (events qu) \<le> INTERRUPT_NODES_POOL_CAPACITY"
  by (simp add: events_def wf_queue_def pool_rep_def)

lemma add_interrupt_event_count_full:
  assumes "wf_queue (cp0_q c)" "length (events (cp0_q c)) = INTERRUPT_NODES_POOL_CAPACITY"
  shows "add_interrupt_event_count c ty cnt = Some c"
proof -
  have "alloc_node (q_pool (cp0_q c)) = Some (None, q_pool (cp0_q c))"
    by (rule alloc_node_full) (use assms in \<open>auto simp: wf_queue_def events_def\<close>)
  then show ?thesis
    using assms by (simp add: add_interrupt_event_count_def get_event_spec)
qed

lemma add_interrupt_event_count_spec:
  fixes ty cnt
  assumes wf: "wf_queue (cp0_q c)"
    and room: "length (events (cp0_q c)) < INTERRUPT_NODES_POOL_CAPACITY"
  defines "evs \<equiv> ins_event c \<lparr>evt_type = ty, evt_count = cnt\<rparr> (events (cp0_q c))"
  shows "\<exists>qu'. add_interrupt_event_count c ty cnt =
      Some (c\<lparr>cp0_q := qu', next_interrupt := evt_count (hd evs),
              cycle_count := cp0_regs c CP0_COUNT_REG - evt_count (hd evs)\<rparr>)
    \<and> wf_queue qu' \<and> events qu' = evs"
proof -
  let ?q = "cp0_q c"
  let ?as = "q_nodes ?q" and ?x = "\<lparr>evt_type = ty, evt_count = cnt\<rparr>"
  have rep: "pool_rep (q_pool ?q) ?as" and ql: "qlist (nodes (q_pool ?q)) (q_first ?q) ?as"
    and dist: "distinct ?as"
    using wf by (auto simp: wf_queue_def pool_rep_def)
  obtain n p where al: "alloc_node (q_pool ?q) = Some (Some n, p)" "nodes p = nodes (q_pool ?q)"
      "n \<notin> set ?as" "n < INTERRUPT_NODES_POOL_CAPACITY"
      "\<And>xs ys. ?as = xs @ ys \<Longrightarrow> pool_rep p (xs @ n # ys)"
    by (rule alloc_node_ok [OF rep]) (use room in \<open>auto simp: events_def\<close>)
  have n: "n < length (nodes p)" using al rep by (simp add: pool_rep_def)
  define ns where "ns = (nodes p)[n := (nodes p ! n)\<lparr>data := ?x\<rparr>]"
  define P where "P = (\<lambda>m :: node. \<not> before_event c cnt (evt_count (data m)))"
  let ?q1 = "?q\<lparr>q_pool := p\<lparr>nodes := ns\<rparr>\<rparr>"
  have d: "data (ns ! a) = (if a = n then ?x else data (nodes (q_pool ?q) ! a))" for a
    using n by (simp add: ns_def al(2) nth_list_update)
  have "qlist ns (q_first ?q) ?as"
    using ql al(2,3) by (simp add: ns_def qseg_upd_other)
  then obtain f' ns' where lk:
      "link_event c cnt n ?q1 = Some (?q\<lparr>q_first := f', q_pool := p\<lparr>nodes := ns'\<rparr>\<rparr>)"
      "length ns' = length ns" "\<And>a. data (ns' ! a) = data (ns ! a)"
      "qlist ns' f' (takeWhile (\<lambda>a. P (ns ! a)) ?as @ n # dropWhile (\<lambda>a. P (ns ! a)) ?as)"
    using link_event_spec [of ?q1 ?as n c cnt] dist al(3) n
    by (auto simp: ns_def P_def)
  let ?q' = "?q\<lparr>q_first := f', q_pool := p\<lparr>nodes := ns'\<rparr>\<rparr>"
  let ?bs = "takeWhile (\<lambda>a. P (ns ! a)) ?as @ n # dropWhile (\<lambda>a. P (ns ! a)) ?as"
  have rep': "pool_rep (p\<lparr>nodes := ns'\<rparr>) ?bs"
    by (subst pool_rep_nodes) (use lk(2) in \<open>simp_all add: ns_def al(5)\<close>)
  have wf': "wf_queue ?q'" "q_nodes ?q' = ?bs"
    by (rule q_nodesI; use lk(4) rep' in simp)+
  have P: "P (ns ! a) \<longleftrightarrow> due c (data (nodes (q_pool ?q) ! a)) \<le> due c ?x" if "a \<in> set ?as" for a
    using that al(3) by (auto simp: P_def d before_event_due due_def not_less)
  have tk: "takeWhile (\<lambda>a. P (ns ! a)) ?as
      = takeWhile (\<lambda>a. due c (data (nodes (q_pool ?q) ! a)) \<le> due c ?x) ?as"
    and dw: "dropWhile (\<lambda>a. P (ns ! a)) ?as
      = dropWhile (\<lambda>a. due c (data (nodes (q_pool ?q) ! a)) \<le> due c ?x) ?as"
    using P by (auto cong: takeWhile_cong dropWhile_cong)
  have old: "map (\<lambda>a. data (ns' ! a)) bs = map (\<lambda>a. data (nodes (q_pool ?q) ! a)) bs" if "set bs \<subseteq> set ?as" for bs
    using that al(3) by (auto simp: lk(3) d)
  have sub: "set (takeWhile (\<lambda>a. P (ns ! a)) ?as) \<subseteq> set ?as" "set (dropWhile (\<lambda>a. P (ns ! a)) ?as) \<subseteq> set ?as"
    by (auto dest: set_takeWhileD set_dropWhileD)
  have "events ?q' = map (\<lambda>a. data (ns' ! a)) ?bs"
    unfolding events_def wf'(2) by simp
  also have "\<dots> = map (\<lambda>a. data (nodes (q_pool ?q) ! a)) (takeWhile (\<lambda>a. P (ns ! a)) ?as)
      @ ?x # map (\<lambda>a. data (nodes (q_pool ?q) ! a)) (dropWhile (\<lambda>a. P (ns ! a)) ?as)"
    by (simp only: map_append list.map old [OF sub(1)] old [OF sub(2)]) (simp add: lk(3) d)
  also have "\<dots> = evs"
    by (simp add: tk dw evs_def ins_event_def events_def takeWhile_map dropWhile_map comp_def)
  finally have ev: "events ?q' = evs" .
  have "events ?q' \<noteq> []" by (simp add: ev evs_def)
  then have "deref ?q' (q_first ?q') = Some (nodes (q_pool ?q') ! hd (q_nodes ?q'))"
      "hd evs = data (nodes (q_pool ?q') ! hd (q_nodes ?q'))"
    by (simp_all only: deref_first [OF wf'(1)] if_False flip: ev)
      (rule hd_events, use wf'(2) in simp)
  then have "add_interrupt_event_count c ty cnt = Some (c\<lparr>cp0_q := ?q', next_interrupt := evt_count (hd evs),
        cycle_count := cp0_regs c CP0_COUNT_REG - evt_count (hd evs)\<rparr>)"
    using lk(1) n by (simp add: add_interrupt_event_count_def get_event_spec [OF wf] al(1) upd_node_Some
        flip: ns_def)
  with wf'(1) ev show ?thesis by blast
qed

lemma sync_next_spec:
  assumes "wf_queue (cp0_q c)"
  shows "sync_next c = Some (c\<lparr>
      next_interrupt := (case events (cp0_q c) of [] \<Rightarrow> 0 | x # _ \<Rightarrow> evt_count x),
      cycle_count := (case events (cp0_q c) of [] \<Rightarrow> 0 | x # _ \<Rightarrow> cp0_regs c CP0_COUNT_REG - evt_count x)\<rparr>)"
  using assms by (rule wf_queue_cases) (auto simp: sync_next_def events_def)

lemma remove_interrupt_event_empty: "wf_queue (cp0_q c) \<Longrightarrow> events (cp0_q c) = [] \<Longrightarrow>
    remove_interrupt_event c = None"
  by (simp add: remove_interrupt_event_def deref_first Let_def)

lemma remove_interrupt_event_spec:
  assumes wf: "wf_queue (cp0_q c)" and ev: "events (cp0_q c) = x # xs"
  shows "\<exists>qu'. remove_interrupt_event c = Some (c\<lparr>cp0_q := qu',
      next_interrupt := (case xs of [] \<Rightarrow> 0 | y # _ \<Rightarrow> evt_count y),
      cycle_count := (case xs of [] \<Rightarrow> 0 | y # _ \<Rightarrow> cp0_regs c CP0_COUNT_REG - evt_count y)\<rparr>)
    \<and> wf_queue qu' \<and> events qu' = xs"
  using wf
proof (cases rule: wf_queue_cases)
  case empty
  then show ?thesis using ev by (simp add: events_def)
next
  case (cons f as)
  let ?q = "cp0_q c"
  let ?ns = "nodes (q_pool ?q)"
  obtain p where p: "free_node (q_pool ?q) (Some f) = Some p" "nodes p = ?ns" "pool_rep p as"
    using free_node_ok [of "q_pool ?q" "[]" f as] wf cons(2) by (auto simp: wf_queue_def)
  let ?q' = "?q\<lparr>q_first := nxt (?ns ! f), q_pool := p\<rparr>"
  have wf': "wf_queue ?q'" "q_nodes ?q' = as"
    by (rule q_nodesI; use cons(4) p(2,3) in simp)+
  then have ev': "events ?q' = xs" using ev cons(2) p(2) by (simp add: events_def)
  have "remove_interrupt_event c = sync_next (c\<lparr>cp0_q := ?q'\<rparr>)"
    using cons(1,3) p by (simp add: remove_interrupt_event_def deref_def)
  also have "\<dots> = Some (c\<lparr>cp0_q := ?q',
      next_interrupt := (case xs of [] \<Rightarrow> 0 | y # _ \<Rightarrow> evt_count y),
      cycle_count := (case xs of [] \<Rightarrow> 0 | y # _ \<Rightarrow> cp0_regs c CP0_COUNT_REG - evt_count y)\<rparr>)"
    by (cases xs) (simp_all add: sync_next_spec wf'(1) ev')
  finally show ?thesis using wf'(1) ev' by blast
qed

end
