(* ===== verification/Interrupt_Order.thy ===== *)
theory Interrupt_Order
  imports Interrupt_Refinement
begin

text \<open>
  The scheduling invariant of the event queue: events are ordered by their distance from the
  reference count of \<^verbatim>\<open>before_event\<close>, and \<^verbatim>\<open>next_interrupt\<close> and \<^verbatim>\<open>cycle_count\<close> describe the head.
  Every operation of the queue keeps it, although the reference count moves.
\<close>

definition cp0_inv :: "cp0 \<Rightarrow> bool" where
  "cp0_inv c \<longleftrightarrow>
     wf_queue (cp0_q c) \<and>
     (events (cp0_q c) \<noteq> [] \<longrightarrow>
        next_interrupt c = evt_count (hd (events (cp0_q c))) \<and>
        cycle_count c = cp0_regs c CP0_COUNT_REG - evt_count (hd (events (cp0_q c)))) \<and>
     sorted (map (due c) (events (cp0_q c)))"

section \<open>Moving the reference count\<close>

lemma word_diff_mono: "(a :: u32) \<le> x \<Longrightarrow> x \<le> y \<Longrightarrow> x - a \<le> y - a"
  by (rule word_le_minus_mono_left) simp_all

text \<open>
  When the reference count moves forward but not past the first event, the order of the events
  by distance does not change.
\<close>

lemma sorted_shift:
  fixes f :: "'a \<Rightarrow> u32"
  assumes "sorted (map (\<lambda>x. f x - n) xs)" "\<And>x. x \<in> set xs \<Longrightarrow> n' - n \<le> f x - n"
  shows "sorted (map (\<lambda>x. f x - n') xs)"
proof -
  have eq: "f x - n' = (f x - n) - (n' - n)" for x by simp
  have "sorted_wrt (\<lambda>x y. f x - n \<le> f y - n) xs"
    using assms(1) by (simp add: sorted_map)
  then have "sorted_wrt (\<lambda>x y. f x - n' \<le> f y - n') xs"
    by (rule sorted_wrt_mono_rel [rotated]) (simp only: eq, rule word_diff_mono, use assms(2) in auto)
  then show ?thesis by (simp add: sorted_map)
qed

lemma sorted_due_shift:
  assumes "sorted (map (due c) xs)" "xs \<noteq> []" "now c' - now c \<le> due c (hd xs)"
  shows "sorted (map (due c') xs)"
proof -
  have hd_le: "due c (hd xs) \<le> due c x" if "x \<in> set xs" for x
    using assms(1,2) that by (cases xs) auto
  have "sorted (map (\<lambda>x. evt_count x - now c') xs)"
  proof (rule sorted_shift)
    show "sorted (map (\<lambda>x. evt_count x - now c) xs)"
      using assms(1) by (simp add: due_def [abs_def])
    show "now c' - now c \<le> evt_count x - now c" if "x \<in> set xs" for x
      using assms(3) hd_le [OF that] by (simp add: due_def)
  qed
  then show ?thesis by (simp add: due_def [abs_def])
qed

lemma sorted_due_same: "now c' = now c \<Longrightarrow> sorted (map (due c') xs) = sorted (map (due c) xs)"
  by (simp add: due_def [abs_def])

lemma now_head:
  assumes "0 <s cycle_count c" "cycle_count c = cp0_regs c CP0_COUNT_REG - evt_count x"
  shows "now c = evt_count x"
  using assms by (simp add: now_def Let_def)

lemma now_count: "\<not> 0 <s cycle_count c \<Longrightarrow> now c = cp0_regs c CP0_COUNT_REG"
  by (simp add: now_def Let_def)

section \<open>Insertion\<close>

lemma hd_ins_event:
  "sorted (map (due c) xs) \<Longrightarrow> xs \<noteq> [] \<Longrightarrow> due c (hd xs) \<le> due c x \<Longrightarrow> hd (ins_event c x xs) = hd xs"
  by (cases xs) (auto simp: ins_event_def)

lemma now_cong:
  "cycle_count c' = cycle_count c \<Longrightarrow> cp0_regs c' CP0_COUNT_REG = cp0_regs c CP0_COUNT_REG \<Longrightarrow> now c' = now c"
  by (simp add: now_def Let_def)

lemma sorted_after_insert:
  assumes inv: "cp0_inv c" and evs: "evs = ins_event c x (events (cp0_q c))"
    and c': "cycle_count c' = cp0_regs c CP0_COUNT_REG - evt_count (hd evs)"
      "cp0_regs c' CP0_COUNT_REG = cp0_regs c CP0_COUNT_REG"
  shows "sorted (map (due c') evs)"
proof (cases "events (cp0_q c) = []")
  case True
  then show ?thesis by (simp add: evs ins_event_def)
next
  case False
  let ?h = "hd (events (cp0_q c))"
  have s: "sorted (map (due c) evs)" "evs \<noteq> []"
    using inv by (simp_all add: evs cp0_inv_def sorted_ins_event)
  have cc: "cycle_count c = cp0_regs c CP0_COUNT_REG - evt_count ?h"
    using inv False by (simp add: cp0_inv_def)
  show ?thesis
  proof (cases "0 <s cycle_count c")
    case True
    then have "due c ?h = 0" using cc by (simp add: due_def now_head)
    then have "hd evs = ?h"
      using inv False by (simp add: evs hd_ins_event cp0_inv_def)
    then have "cycle_count c' = cycle_count c" using c'(1) cc by simp
    then have "now c' = now c" using c'(2) by (rule now_cong)
    then show ?thesis using s(1) sorted_due_same by blast
  next
    case nb: False
    show ?thesis
    proof (cases "0 <s cycle_count c'")
      case True
      then have "now c' = evt_count (hd evs)" using c' by (intro now_head) simp_all
      then show ?thesis using s by - (rule sorted_due_shift [of c], simp_all add: due_def)
    next
      case False
      then have "now c' = now c" using nb c' by (simp add: now_count)
      then show ?thesis using s(1) sorted_due_same by blast
    qed
  qed
qed

lemma cp0_inv_add:
  assumes "cp0_inv c"
  shows "\<exists>c'. add_interrupt_event_count c ty cnt = Some c' \<and> cp0_inv c'"
proof (cases "length (events (cp0_q c)) < INTERRUPT_NODES_POOL_CAPACITY")
  case True
  have wf: "wf_queue (cp0_q c)" using assms by (simp add: cp0_inv_def)
  let ?evs = "ins_event c \<lparr>evt_type = ty, evt_count = cnt\<rparr> (events (cp0_q c))"
  from add_interrupt_event_count_spec [OF wf True, of ty cnt]
  obtain qu' where q: "add_interrupt_event_count c ty cnt =
      Some (c\<lparr>cp0_q := qu', next_interrupt := evt_count (hd ?evs),
              cycle_count := cp0_regs c CP0_COUNT_REG - evt_count (hd ?evs)\<rparr>)"
    "wf_queue qu'" "events qu' = ?evs" by blast
  moreover have "cp0_inv (c\<lparr>cp0_q := qu', next_interrupt := evt_count (hd ?evs),
              cycle_count := cp0_regs c CP0_COUNT_REG - evt_count (hd ?evs)\<rparr>)"
    unfolding cp0_inv_def
    using q(2,3) sorted_after_insert [OF assms refl, of _ "\<lparr>evt_type = ty, evt_count = cnt\<rparr>"] by simp
  ultimately show ?thesis by blast
next
  case False
  then show ?thesis
    using assms add_interrupt_event_count_full [of c] length_events_le [of "cp0_q c"]
    by (auto simp: cp0_inv_def)
qed

section \<open>Removing the head\<close>

text \<open>
  After the head is removed the reference count is the old one, the count register (when the head
  was overdue and the new head is not), or the new head.
\<close>

lemma now_after_remove:
  assumes inv: "cp0_inv c" and ev: "events (cp0_q c) = x # y # ys"
    and c': "cycle_count c' = cp0_regs c CP0_COUNT_REG - evt_count y"
      "cp0_regs c' CP0_COUNT_REG = cp0_regs c CP0_COUNT_REG"
  shows "now c' - now c \<le> due c y"
proof (cases "0 <s cycle_count c'")
  case True
  then have "now c' = evt_count y" using c' by (intro now_head) simp_all
  then show ?thesis by (simp add: due_def)
next
  case False
  then have n': "now c' = cp0_regs c CP0_COUNT_REG" using c'(2) by (simp add: now_count)
  show ?thesis
  proof (cases "0 <s cycle_count c")
    case True
    let ?C = "cycle_count c" and ?k = "due c y"
    have n: "now c = evt_count x" "?C = cp0_regs c CP0_COUNT_REG - evt_count x"
      using inv ev True by (simp_all add: cp0_inv_def now_head)
    then have C: "now c' - now c = ?C" using n' by simp
    have "cycle_count c' = ?C - ?k" using c'(1) n by (simp add: due_def)
    then have neg: "\<not> 0 <s ?C - ?k" using False by simp
    show ?thesis
    proof (rule ccontr)
      assume "\<not> ?thesis"
      then have "?k < ?C" by (simp add: C)
      then have "unat (?C - ?k) = unat ?C - unat ?k" "unat ?k < unat ?C"
        by (simp_all add: unat_sub_if' word_less_nat_alt)
      moreover have "unat ?C < 0x80000000" using True by (simp add: sless_pos_iff word_less_nat_alt)
      ultimately have "0 <s ?C - ?k" by (simp add: sless_pos_iff word_less_nat_alt)
      with neg show False by simp
    qed
  next
    case nb: False
    then show ?thesis using n' by (simp add: now_count)
  qed
qed

lemma cp0_inv_remove:
  assumes inv: "cp0_inv c" and ev: "events (cp0_q c) \<noteq> []"
  shows "\<exists>c'. remove_interrupt_event c = Some c' \<and> cp0_inv c' \<and> events (cp0_q c') = tl (events (cp0_q c))"
proof -
  obtain x xs where x: "events (cp0_q c) = x # xs" using ev by (cases "events (cp0_q c)") auto
  have wf: "wf_queue (cp0_q c)" using inv by (simp add: cp0_inv_def)
  from remove_interrupt_event_spec [OF wf x] obtain qu' where
    q: "remove_interrupt_event c = Some (c\<lparr>cp0_q := qu',
      next_interrupt := (case xs of [] \<Rightarrow> 0 | y # _ \<Rightarrow> evt_count y),
      cycle_count := (case xs of [] \<Rightarrow> 0 | y # _ \<Rightarrow> cp0_regs c CP0_COUNT_REG - evt_count y)\<rparr>)"
      "wf_queue qu'" "events qu' = xs" by blast
  show ?thesis
  proof (cases xs)
    case Nil
    then show ?thesis using q x by (simp add: cp0_inv_def)
  next
    case (Cons y ys)
    let ?c = "c\<lparr>cp0_q := qu', next_interrupt := evt_count y,
      cycle_count := cp0_regs c CP0_COUNT_REG - evt_count y\<rparr>"
    have "sorted (map (due c) xs)" using inv x by (simp add: cp0_inv_def)
    moreover have "now ?c - now c \<le> due c y"
      by (rule now_after_remove [OF inv]) (use x Cons in simp_all)
    ultimately have "sorted (map (due ?c) xs)"
      using Cons by - (rule sorted_due_shift [of c], simp_all)
    then have "cp0_inv ?c"
      unfolding cp0_inv_def using q(2,3) Cons by simp
    moreover have "remove_interrupt_event c = Some ?c"
      using q(1) Cons by simp
    moreover have "events (cp0_q ?c) = tl (events (cp0_q c))"
      using q(3) x by simp
    ultimately show ?thesis by blast
  qed
qed

section \<open>The special event bounds the distance to the next interrupt\<close>

lemma special_count_cases:
  "special_count n = (if n < 0x80000000 then 0x80000000 else 0)"
proof (rule bit_word_eqI)
  fix k :: nat
  assume k: "k < LENGTH(32)"
  have "bit n 31 \<longleftrightarrow> odd (unat n div 0x80000000)"
    using bit_iff_odd [of "unat n" 31] by (simp add: bit_unsigned_iff)
  moreover have "unat n div 0x80000000 = (if n < 0x80000000 then 0 else 1)"
    using unat_u32_less [of n] by (auto simp: word_less_nat_alt div_nat_eqI)
  ultimately have top: "bit n 31 \<longleftrightarrow> \<not> n < 0x80000000" by simp
  have e: "(0x80000000 :: u32) = push_bit 31 1" by simp
  have m: "bit (0x80000000 :: u32) k \<longleftrightarrow> k = 31"
    unfolding e bit_push_bit_iff bit_1_iff using k by auto
  show "bit (special_count n) k = bit (if n < 0x80000000 then 0x80000000 else 0 :: u32) k"
    unfolding special_count_def if_distrib [of "\<lambda>x. bit x k"] bit_and_iff bit_xor_iff m
    using top by (cases "k = 31") auto
qed

lemma special_count_distance:
  "0 < unat (special_count n - n) \<and> unat (special_count n - n) \<le> 0x80000000"
proof (cases "n < 0x80000000")
  case True
  then have "unat (0x80000000 - n) = 0x80000000 - unat n" "unat n < 0x80000000"
    by (simp_all add: unat_sub_if' word_less_nat_alt)
  then show ?thesis using True by (simp add: special_count_cases)
next
  case False
  then have "0x80000000 \<le> unat n" by (simp add: word_less_nat_alt)
  then have "unat (0 - n) = 0x100000000 - unat n"
    using unat_u32_less [of n] by (simp only: unat_diff_u32) simp
  then show ?thesis
    using False unat_u32_less [of n] \<open>0x80000000 \<le> unat n\<close> by (simp add: special_count_cases)
qed

end
