(* ===== verification/Ieee.thy ===== *)
theory Ieee
  imports Prelude
begin

text \<open>
  The \<^verbatim>\<open>float\<close> and \<^verbatim>\<open>double\<close> arithmetic of the C language that \<^verbatim>\<open>device/r4300/fpu.h\<close> uses: the two
  binary formats of IEEE 754 with \<^verbatim>\<open>FLT_EVAL_METHOD\<close> 0 and without flush to zero. A format has \<open>ew\<close>
  exponent and \<open>fw\<close> fraction bits, an encoded number is a natural below \<open>2 ^ (1 + ew + fw)\<close>. Finite
  numbers are integer multiples of the smallest positive one, so every exact result is a fraction of
  integers in that unit, and \<open>fp_pack\<close> rounds it once. The bits of a NaN result are left open by the
  language and are an argument.
\<close>

section \<open>Formats\<close>

datatype rounding = FE_TONEAREST | FE_TOWARDZERO | FE_UPWARD | FE_DOWNWARD

definition fp_sign :: "nat \<Rightarrow> nat \<Rightarrow> nat \<Rightarrow> bool" where
  "fp_sign ew fw n \<longleftrightarrow> odd (n div 2 ^ (ew + fw))"

definition fp_body :: "nat \<Rightarrow> nat \<Rightarrow> nat \<Rightarrow> nat" where
  "fp_body ew fw n = n mod 2 ^ (ew + fw)"

definition fp_inf :: "nat \<Rightarrow> nat \<Rightarrow> nat" where
  "fp_inf ew fw = (2 ^ ew - 1) * 2 ^ fw"

definition isnan :: "nat \<Rightarrow> nat \<Rightarrow> nat \<Rightarrow> bool" where
  "isnan ew fw n \<longleftrightarrow> fp_inf ew fw < fp_body ew fw n"

definition isinf :: "nat \<Rightarrow> nat \<Rightarrow> nat \<Rightarrow> bool" where
  "isinf ew fw n \<longleftrightarrow> fp_body ew fw n = fp_inf ew fw"

definition with_sign :: "nat \<Rightarrow> nat \<Rightarrow> bool \<Rightarrow> nat \<Rightarrow> nat" where
  "with_sign ew fw s body = (if s then 2 ^ (ew + fw) else 0) + body"

text \<open>
  The magnitude in units: an infinity comes out larger than every finite number, which is what
  comparisons need. The number 1 is \<open>2 ^ unit_log\<close> units.
\<close>

definition fp_mag :: "nat \<Rightarrow> nat \<Rightarrow> nat \<Rightarrow> nat" where
  "fp_mag ew fw n =
     (let E = fp_body ew fw n div 2 ^ fw; f = fp_body ew fw n mod 2 ^ fw
      in if E = 0 then f else (2 ^ fw + f) * 2 ^ (E - 1))"

definition fp_units :: "nat \<Rightarrow> nat \<Rightarrow> nat \<Rightarrow> int" where
  "fp_units ew fw n = (if fp_sign ew fw n then - int (fp_mag ew fw n) else int (fp_mag ew fw n))"

definition unit_log :: "nat \<Rightarrow> nat \<Rightarrow> nat" where
  "unit_log ew fw = 2 ^ (ew - 1) - 2 + fw"

section \<open>Rounding\<close>

fun bitlen :: "nat \<Rightarrow> nat" where
  "bitlen n = (if n = 0 then 0 else Suc (bitlen (n div 2)))"

declare bitlen.simps [simp del]

definition rounds_up :: "rounding \<Rightarrow> bool \<Rightarrow> nat \<Rightarrow> nat \<Rightarrow> nat \<Rightarrow> bool" where
  "rounds_up md s q r d \<longleftrightarrow>
     (case md of
        FE_TONEAREST \<Rightarrow> d < 2 * r \<or> 2 * r = d \<and> odd q
      | FE_TOWARDZERO \<Rightarrow> False
      | FE_UPWARD \<Rightarrow> \<not> s \<and> r \<noteq> 0
      | FE_DOWNWARD \<Rightarrow> s \<and> r \<noteq> 0)"

definition overflows_to_inf :: "rounding \<Rightarrow> bool \<Rightarrow> bool" where
  "overflows_to_inf md s \<longleftrightarrow>
     (case md of FE_TONEAREST \<Rightarrow> True | FE_TOWARDZERO \<Rightarrow> False | FE_UPWARD \<Rightarrow> \<not> s | FE_DOWNWARD \<Rightarrow> s)"

text \<open>
  The number of sign \<open>s\<close> and magnitude \<open>num / den\<close> units, rounded to \<open>fw + 1\<close> significant bits. A carry
  of the rounding into the exponent needs no case of its own.
\<close>

definition fp_pack :: "nat \<Rightarrow> nat \<Rightarrow> rounding \<Rightarrow> bool \<Rightarrow> nat \<Rightarrow> nat \<Rightarrow> nat" where
  "fp_pack ew fw md s num den =
     (let t = bitlen (num div den) - (fw + 1);
          d = den * 2 ^ t;
          q = num div d;
          body = t * 2 ^ fw + q + (if rounds_up md s q (num mod d) d then 1 else 0)
      in with_sign ew fw s
           (if body < fp_inf ew fw then body
            else if overflows_to_inf md s then fp_inf ew fw else fp_inf ew fw - 1))"

section \<open>Arithmetic\<close>

definition fp_neg :: "nat \<Rightarrow> nat \<Rightarrow> nat \<Rightarrow> nat" where
  "fp_neg ew fw n = with_sign ew fw (\<not> fp_sign ew fw n) (fp_body ew fw n)"

definition fp_add :: "nat \<Rightarrow> nat \<Rightarrow> nat \<Rightarrow> rounding \<Rightarrow> nat \<Rightarrow> nat \<Rightarrow> nat" where
  "fp_add ew fw nan md a b =
     (if isnan ew fw a \<or> isnan ew fw b then nan
      else if isinf ew fw a then
        (if isinf ew fw b \<and> fp_sign ew fw a \<noteq> fp_sign ew fw b then nan else a)
      else if isinf ew fw b then b
      else let v = fp_units ew fw a + fp_units ew fw b
           in if v = 0 then
                with_sign ew fw
                  (if fp_sign ew fw a = fp_sign ew fw b then fp_sign ew fw a else md = FE_DOWNWARD) 0
              else fp_pack ew fw md (v < 0) (nat \<bar>v\<bar>) 1)"

definition fp_sub :: "nat \<Rightarrow> nat \<Rightarrow> nat \<Rightarrow> rounding \<Rightarrow> nat \<Rightarrow> nat \<Rightarrow> nat" where
  "fp_sub ew fw nan md a b = fp_add ew fw nan md a (fp_neg ew fw b)"

definition fp_mul :: "nat \<Rightarrow> nat \<Rightarrow> nat \<Rightarrow> rounding \<Rightarrow> nat \<Rightarrow> nat \<Rightarrow> nat" where
  "fp_mul ew fw nan md a b =
     (let s = (fp_sign ew fw a \<noteq> fp_sign ew fw b) in
      if isnan ew fw a \<or> isnan ew fw b then nan
      else if isinf ew fw a \<or> isinf ew fw b then
        (if fp_mag ew fw a = 0 \<or> fp_mag ew fw b = 0 then nan else with_sign ew fw s (fp_inf ew fw))
      else fp_pack ew fw md s (fp_mag ew fw a * fp_mag ew fw b) (2 ^ unit_log ew fw))"

definition fp_div :: "nat \<Rightarrow> nat \<Rightarrow> nat \<Rightarrow> rounding \<Rightarrow> nat \<Rightarrow> nat \<Rightarrow> nat" where
  "fp_div ew fw nan md a b =
     (let s = (fp_sign ew fw a \<noteq> fp_sign ew fw b) in
      if isnan ew fw a \<or> isnan ew fw b then nan
      else if isinf ew fw a then (if isinf ew fw b then nan else with_sign ew fw s (fp_inf ew fw))
      else if isinf ew fw b then with_sign ew fw s 0
      else if fp_mag ew fw b = 0 then
        (if fp_mag ew fw a = 0 then nan else with_sign ew fw s (fp_inf ew fw))
      else fp_pack ew fw md s (fp_mag ew fw a * 2 ^ unit_log ew fw) (fp_mag ew fw b))"

fun isqrt :: "nat \<Rightarrow> nat" where
  "isqrt n = (if n = 0 then 0 else let r = 2 * isqrt (n div 4) in if (r + 1) ^ 2 \<le> n then r + 1 else r)"

declare isqrt.simps [simp del]

text \<open>
  The root is taken to the next half unit below when it is not exact; the last bit the format keeps
  is at least one unit, so the rounding is that of the exact root.
\<close>

definition fp_sqrt :: "nat \<Rightarrow> nat \<Rightarrow> nat \<Rightarrow> rounding \<Rightarrow> nat \<Rightarrow> nat" where
  "fp_sqrt ew fw nan md a =
     (if isnan ew fw a then nan
      else if fp_mag ew fw a = 0 then a
      else if fp_sign ew fw a then nan
      else if isinf ew fw a then a
      else let v = fp_mag ew fw a * 2 ^ unit_log ew fw; r = isqrt v
           in fp_pack ew fw md False (2 * r + (if r ^ 2 = v then 0 else 1)) 2)"

section \<open>Conversions\<close>

definition fp_of_int :: "nat \<Rightarrow> nat \<Rightarrow> rounding \<Rightarrow> int \<Rightarrow> nat" where
  "fp_of_int ew fw md i = fp_pack ew fw md (i < 0) (nat \<bar>i\<bar> * 2 ^ unit_log ew fw) 1"

text \<open>The cast to a signed type of \<open>w\<close> bits; a value out of its range is undefined.\<close>

definition fp_to_int :: "nat \<Rightarrow> nat \<Rightarrow> nat \<Rightarrow> nat \<Rightarrow> int option" where
  "fp_to_int ew fw w n =
     (let m = int (fp_mag ew fw n div 2 ^ unit_log ew fw);
          i = (if fp_sign ew fw n then - m else m)
      in if isnan ew fw n \<or> isinf ew fw n then None
         else if - (2 ^ (w - 1)) \<le> i \<and> i < 2 ^ (w - 1) then Some i else None)"

definition fp_cvt :: "nat \<Rightarrow> nat \<Rightarrow> nat \<Rightarrow> nat \<Rightarrow> nat \<Rightarrow> rounding \<Rightarrow> nat \<Rightarrow> nat" where
  "fp_cvt ew fw ew' fw' nan md n =
     (if isnan ew fw n then nan
      else if isinf ew fw n then with_sign ew' fw' (fp_sign ew fw n) (fp_inf ew' fw')
      else fp_pack ew' fw' md (fp_sign ew fw n) (fp_mag ew fw n * 2 ^ unit_log ew' fw') (2 ^ unit_log ew fw))"

text \<open>
  The library functions \<^verbatim>\<open>floor\<close>, \<^verbatim>\<open>ceil\<close>, \<^verbatim>\<open>trunc\<close> and \<^verbatim>\<open>round\<close>: exact, and a zero result has the sign
  of the argument.
\<close>

definition fp_integral :: "nat \<Rightarrow> nat \<Rightarrow> (int \<Rightarrow> int \<Rightarrow> int) \<Rightarrow> nat \<Rightarrow> nat" where
  "fp_integral ew fw f n =
     (if isnan ew fw n \<or> isinf ew fw n then n
      else let k = f (fp_units ew fw n) (2 ^ unit_log ew fw)
           in fp_pack ew fw FE_TONEAREST (fp_sign ew fw n) (nat \<bar>k\<bar> * 2 ^ unit_log ew fw) 1)"

definition floor_quot :: "int \<Rightarrow> int \<Rightarrow> int" where
  "floor_quot v u = v div u"

definition ceil_quot :: "int \<Rightarrow> int \<Rightarrow> int" where
  "ceil_quot v u = - ((- v) div u)"

definition trunc_quot :: "int \<Rightarrow> int \<Rightarrow> int" where
  "trunc_quot v u = (if v < 0 then - ((- v) div u) else v div u)"

text \<open>Halves away from zero.\<close>

definition round_quot :: "int \<Rightarrow> int \<Rightarrow> int" where
  "round_quot v u = (if v < 0 then - ((2 * (- v) + u) div (2 * u)) else (2 * v + u) div (2 * u))"

section \<open>Comparisons\<close>

definition fp_eq :: "nat \<Rightarrow> nat \<Rightarrow> nat \<Rightarrow> nat \<Rightarrow> bool" where
  "fp_eq ew fw a b \<longleftrightarrow> \<not> isnan ew fw a \<and> \<not> isnan ew fw b \<and> fp_units ew fw a = fp_units ew fw b"

definition fp_lt :: "nat \<Rightarrow> nat \<Rightarrow> nat \<Rightarrow> nat \<Rightarrow> bool" where
  "fp_lt ew fw a b \<longleftrightarrow> \<not> isnan ew fw a \<and> \<not> isnan ew fw b \<and> fp_units ew fw a < fp_units ew fw b"

definition fp_le :: "nat \<Rightarrow> nat \<Rightarrow> nat \<Rightarrow> nat \<Rightarrow> bool" where
  "fp_le ew fw a b \<longleftrightarrow> \<not> isnan ew fw a \<and> \<not> isnan ew fw b \<and> fp_units ew fw a \<le> fp_units ew fw b"

end
