(* ===== verification/Cp1.thy ===== *)
theory Cp1
  imports Ieee
begin

text \<open>
  Coprocessor 1: the register file of \<^verbatim>\<open>device/r4300/cp1.c\<close> and the operations of
  \<^verbatim>\<open>device/r4300/fpu.h\<close>. The build modelled has \<^verbatim>\<open>ACCURATE_FPU_BEHAVIOR\<close> and \<^verbatim>\<open>OSAL_SSE\<close> undefined, so
  \<^verbatim>\<open>fpu_reset_cause\<close>, \<^verbatim>\<open>fpu_reset_exceptions\<close> and the \<^verbatim>\<open>fpu_check\<close> functions are empty, and the host is
  little-endian. A pointer into the register file is the number of the slot of \<^verbatim>\<open>regs_simple\<close> or
  \<^verbatim>\<open>regs_double\<close> that holds it.
\<close>

section \<open>Data\<close>

text \<open>
  \<open>regs_simple\<close> and \<open>regs_double\<close> are the arrays of pointers: register and half, or register.
  \<open>fe_round\<close> is the rounding direction of the host, which \<^verbatim>\<open>fesetround\<close> sets.
\<close>

record cp1 =
  fpr :: "nat \<Rightarrow> u64"
  fcr0 :: u32
  fcr31 :: u32
  regs_simple :: "nat \<Rightarrow> nat \<times> nat"
  regs_double :: "nat \<Rightarrow> nat"
  rounding_mode :: u32
  fe_round :: rounding

text \<open>The bits the host produces for a NaN result of arithmetic and of the two conversions.\<close>

record fpu_host =
  nan_s :: "u32 list \<Rightarrow> u32"
  nan_d :: "u64 list \<Rightarrow> u64"
  nan_s_d :: "u64 \<Rightarrow> u32"
  nan_d_s :: "u32 \<Rightarrow> u64"

abbreviation CP0_STATUS_FR :: u32 where "CP0_STATUS_FR \<equiv> 0x04000000"
abbreviation FCR31_CMP_BIT :: u32 where "FCR31_CMP_BIT \<equiv> 0x800000"
abbreviation FCR31_CAUSE_INVALIDOP_BIT :: u32 where "FCR31_CAUSE_INVALIDOP_BIT \<equiv> 0x010000"
abbreviation FCR31_CAUSE_UNIMPLOP_BIT :: u32 where "FCR31_CAUSE_UNIMPLOP_BIT \<equiv> 0x020000"
abbreviation FCR31_FLAG_INVALIDOP_BIT :: u32 where "FCR31_FLAG_INVALIDOP_BIT \<equiv> 0x000040"

section \<open>Register file\<close>

definition set_fpr_pointers :: "cp1 \<Rightarrow> u32 \<Rightarrow> cp1" where
  "set_fpr_pointers c newStatus =
     (if newStatus AND CP0_STATUS_FR = 0
      then c\<lparr>regs_simple := (\<lambda>i. (i - i mod 2, i mod 2)), regs_double := (\<lambda>i. i - i mod 2)\<rparr>
      else c\<lparr>regs_simple := (\<lambda>i. (i, 0)), regs_double := (\<lambda>i. i)\<rparr>)"

definition update_x86_rounding_mode :: "cp1 \<Rightarrow> cp1" where
  "update_x86_rounding_mode c = c\<lparr>rounding_mode :=
     (if fcr31 c AND 3 = 0 then 0x33F else if fcr31 c AND 3 = 1 then 0xF3F
      else if fcr31 c AND 3 = 2 then 0xB3F else 0x73F)\<rparr>"

definition poweron_cp1 :: "cp1 \<Rightarrow> cp1" where
  "poweron_cp1 c =
     update_x86_rounding_mode (set_fpr_pointers (c\<lparr>fpr := (\<lambda>_. 0), fcr0 := 0xA00, fcr31 := 0\<rparr>) 0x34000000)"

definition get_s :: "cp1 \<Rightarrow> nat \<Rightarrow> u32" where
  "get_s c i = (case regs_simple c i of (r, h) \<Rightarrow> ucast (drop_bit (32 * h) (fpr c r)))"

definition put_s :: "cp1 \<Rightarrow> nat \<Rightarrow> u32 \<Rightarrow> cp1" where
  "put_s c i v = (case regs_simple c i of (r, h) \<Rightarrow> c\<lparr>fpr := (fpr c)(r :=
     (fpr c r AND NOT (push_bit (32 * h) (mask 32))) OR push_bit (32 * h) (ucast v))\<rparr>)"

definition get_d :: "cp1 \<Rightarrow> nat \<Rightarrow> u64" where
  "get_d c i = fpr c (regs_double c i)"

definition put_d :: "cp1 \<Rightarrow> nat \<Rightarrow> u64 \<Rightarrow> cp1" where
  "put_d c i v = c\<lparr>fpr := (fpr c)(regs_double c i := v)\<rparr>"

section \<open>Arithmetic\<close>

definition set_rounding :: "cp1 \<Rightarrow> cp1" where
  "set_rounding c = c\<lparr>fe_round :=
     (if fcr31 c AND 3 = 0 then FE_TONEAREST else if fcr31 c AND 3 = 1 then FE_TOWARDZERO
      else if fcr31 c AND 3 = 2 then FE_UPWARD else FE_DOWNWARD)\<rparr>"

text \<open>
  The two-operand operations read both sources before they write, so the pointers may alias. The
  first argument is the operation in any format.
\<close>

definition arith_s ::
  "(nat \<Rightarrow> nat \<Rightarrow> nat \<Rightarrow> rounding \<Rightarrow> nat \<Rightarrow> nat \<Rightarrow> nat) \<Rightarrow> fpu_host \<Rightarrow> nat \<Rightarrow> nat \<Rightarrow> nat \<Rightarrow> cp1 \<Rightarrow> cp1" where
  "arith_s f h source1 source2 target c =
     (let c = set_rounding c; a = get_s c source1; b = get_s c source2
      in put_s c target (word_of_nat (f 8 23 (unat (nan_s h [a, b])) (fe_round c) (unat a) (unat b))))"

definition arith_d ::
  "(nat \<Rightarrow> nat \<Rightarrow> nat \<Rightarrow> rounding \<Rightarrow> nat \<Rightarrow> nat \<Rightarrow> nat) \<Rightarrow> fpu_host \<Rightarrow> nat \<Rightarrow> nat \<Rightarrow> nat \<Rightarrow> cp1 \<Rightarrow> cp1" where
  "arith_d f h source1 source2 target c =
     (let c = set_rounding c; a = get_d c source1; b = get_d c source2
      in put_d c target (word_of_nat (f 11 52 (unat (nan_d h [a, b])) (fe_round c) (unat a) (unat b))))"

definition add_s :: "fpu_host \<Rightarrow> nat \<Rightarrow> nat \<Rightarrow> nat \<Rightarrow> cp1 \<Rightarrow> cp1" where
  "add_s = arith_s fp_add"

definition add_d :: "fpu_host \<Rightarrow> nat \<Rightarrow> nat \<Rightarrow> nat \<Rightarrow> cp1 \<Rightarrow> cp1" where
  "add_d = arith_d fp_add"

definition sub_s :: "fpu_host \<Rightarrow> nat \<Rightarrow> nat \<Rightarrow> nat \<Rightarrow> cp1 \<Rightarrow> cp1" where
  "sub_s = arith_s fp_sub"

definition sub_d :: "fpu_host \<Rightarrow> nat \<Rightarrow> nat \<Rightarrow> nat \<Rightarrow> cp1 \<Rightarrow> cp1" where
  "sub_d = arith_d fp_sub"

definition mul_s :: "fpu_host \<Rightarrow> nat \<Rightarrow> nat \<Rightarrow> nat \<Rightarrow> cp1 \<Rightarrow> cp1" where
  "mul_s = arith_s fp_mul"

definition mul_d :: "fpu_host \<Rightarrow> nat \<Rightarrow> nat \<Rightarrow> nat \<Rightarrow> cp1 \<Rightarrow> cp1" where
  "mul_d = arith_d fp_mul"

definition div_s :: "fpu_host \<Rightarrow> nat \<Rightarrow> nat \<Rightarrow> nat \<Rightarrow> cp1 \<Rightarrow> cp1" where
  "div_s = arith_s fp_div"

definition div_d :: "fpu_host \<Rightarrow> nat \<Rightarrow> nat \<Rightarrow> nat \<Rightarrow> cp1 \<Rightarrow> cp1" where
  "div_d = arith_d fp_div"

definition sqrt_s :: "fpu_host \<Rightarrow> nat \<Rightarrow> nat \<Rightarrow> cp1 \<Rightarrow> cp1" where
  "sqrt_s h source target c =
     (let c = set_rounding c; a = get_s c source
      in put_s c target (word_of_nat (fp_sqrt 8 23 (unat (nan_s h [a])) (fe_round c) (unat a))))"

definition sqrt_d :: "fpu_host \<Rightarrow> nat \<Rightarrow> nat \<Rightarrow> cp1 \<Rightarrow> cp1" where
  "sqrt_d h source target c =
     (let c = set_rounding c; a = get_d c source
      in put_d c target (word_of_nat (fp_sqrt 11 52 (unat (nan_d h [a])) (fe_round c) (unat a))))"

definition abs_s :: "nat \<Rightarrow> nat \<Rightarrow> cp1 \<Rightarrow> cp1" where
  "abs_s source target c = put_s c target (get_s c source AND 0x7FFFFFFF)"

definition abs_d :: "nat \<Rightarrow> nat \<Rightarrow> cp1 \<Rightarrow> cp1" where
  "abs_d source target c = put_d c target (get_d c source AND 0x7FFFFFFFFFFFFFFF)"

definition mov_s :: "nat \<Rightarrow> nat \<Rightarrow> cp1 \<Rightarrow> cp1" where
  "mov_s source target c = put_s c target (get_s c source)"

definition mov_d :: "nat \<Rightarrow> nat \<Rightarrow> cp1 \<Rightarrow> cp1" where
  "mov_d source target c = put_d c target (get_d c source)"

definition neg_s :: "nat \<Rightarrow> nat \<Rightarrow> cp1 \<Rightarrow> cp1" where
  "neg_s source target c = put_s c target (get_s c source XOR 0x80000000)"

definition neg_d :: "nat \<Rightarrow> nat \<Rightarrow> cp1 \<Rightarrow> cp1" where
  "neg_d source target c = put_d c target (get_d c source XOR 0x8000000000000000)"

section \<open>Conversions\<close>

text \<open>The three exact ones do not set the rounding direction.\<close>

definition cvt_s_w :: "nat \<Rightarrow> nat \<Rightarrow> cp1 \<Rightarrow> cp1" where
  "cvt_s_w source dest c =
     (let c = set_rounding c
      in put_s c dest (word_of_nat (fp_of_int 8 23 (fe_round c) (sint (get_s c source)))))"

definition cvt_d_w :: "nat \<Rightarrow> nat \<Rightarrow> cp1 \<Rightarrow> cp1" where
  "cvt_d_w source dest c = put_d c dest (word_of_nat (fp_of_int 11 52 (fe_round c) (sint (get_s c source))))"

definition cvt_s_l :: "nat \<Rightarrow> nat \<Rightarrow> cp1 \<Rightarrow> cp1" where
  "cvt_s_l source dest c =
     (let c = set_rounding c
      in put_s c dest (word_of_nat (fp_of_int 8 23 (fe_round c) (sint (get_d c source)))))"

definition cvt_d_l :: "nat \<Rightarrow> nat \<Rightarrow> cp1 \<Rightarrow> cp1" where
  "cvt_d_l source dest c =
     (let c = set_rounding c
      in put_d c dest (word_of_nat (fp_of_int 11 52 (fe_round c) (sint (get_d c source)))))"

definition cvt_d_s :: "fpu_host \<Rightarrow> nat \<Rightarrow> nat \<Rightarrow> cp1 \<Rightarrow> cp1" where
  "cvt_d_s h source dest c =
     (let a = get_s c source
      in put_d c dest (word_of_nat (fp_cvt 8 23 11 52 (unat (nan_d_s h a)) (fe_round c) (unat a))))"

definition cvt_s_d :: "fpu_host \<Rightarrow> nat \<Rightarrow> nat \<Rightarrow> cp1 \<Rightarrow> cp1" where
  "cvt_s_d h source dest c =
     (let c = set_rounding c; a = get_d c source
      in put_s c dest (word_of_nat (fp_cvt 11 52 8 23 (unat (nan_s_d h a)) (fe_round c) (unat a))))"

text \<open>
  Conversions to a signed integer of \<open>w\<close> bits. The remainder of a NaN or an infinity is a NaN, which
  equals nothing, so its bits do not matter; \<open>half\<close> is the encoding of 0.5.
\<close>

definition trunc_int :: "nat \<Rightarrow> nat \<Rightarrow> nat \<Rightarrow> nat \<Rightarrow> int option" where
  "trunc_int ew fw w x = fp_to_int ew fw w (fp_integral ew fw trunc_quot x)"

definition ceil_int :: "nat \<Rightarrow> nat \<Rightarrow> nat \<Rightarrow> nat \<Rightarrow> int option" where
  "ceil_int ew fw w x = fp_to_int ew fw w (fp_integral ew fw ceil_quot x)"

definition floor_int :: "nat \<Rightarrow> nat \<Rightarrow> nat \<Rightarrow> nat \<Rightarrow> int option" where
  "floor_int ew fw w x = fp_to_int ew fw w (fp_integral ew fw floor_quot x)"

definition half :: "nat \<Rightarrow> nat \<Rightarrow> nat" where
  "half ew fw = (2 ^ (ew - 1) - 2) * 2 ^ fw"

definition round_int :: "nat \<Rightarrow> nat \<Rightarrow> rounding \<Rightarrow> nat \<Rightarrow> nat \<Rightarrow> int option" where
  "round_int ew fw md w x =
     (let remainder = fp_sub ew fw (fp_inf ew fw + 1) md x (fp_integral ew fw floor_quot x)
      in if fp_eq ew fw remainder (half ew fw) then
           if fp_lt ew fw x 0 then do {
             i \<leftarrow> trunc_int ew fw w x;
             if odd i then floor_int ew fw w x else ceil_int ew fw w x }
           else do {
             i \<leftarrow> trunc_int ew fw w x;
             if odd i then ceil_int ew fw w x else floor_int ew fw w x }
         else fp_to_int ew fw w (fp_integral ew fw round_quot x))"

definition round_l_s :: "nat \<Rightarrow> nat \<Rightarrow> cp1 \<Rightarrow> cp1 option" where
  "round_l_s source dest c = do {
     i \<leftarrow> round_int 8 23 (fe_round c) 64 (unat (get_s c source));
     Some (put_d c dest (word_of_int i)) }"

definition round_w_s :: "nat \<Rightarrow> nat \<Rightarrow> cp1 \<Rightarrow> cp1 option" where
  "round_w_s source dest c = do {
     i \<leftarrow> round_int 8 23 (fe_round c) 32 (unat (get_s c source));
     Some (put_s c dest (word_of_int i)) }"

definition trunc_l_s :: "nat \<Rightarrow> nat \<Rightarrow> cp1 \<Rightarrow> cp1 option" where
  "trunc_l_s source dest c = do {
     i \<leftarrow> trunc_int 8 23 64 (unat (get_s c source));
     Some (put_d c dest (word_of_int i)) }"

definition trunc_w_s :: "nat \<Rightarrow> nat \<Rightarrow> cp1 \<Rightarrow> cp1 option" where
  "trunc_w_s source dest c = do {
     i \<leftarrow> trunc_int 8 23 32 (unat (get_s c source));
     Some (put_s c dest (word_of_int i)) }"

definition ceil_l_s :: "nat \<Rightarrow> nat \<Rightarrow> cp1 \<Rightarrow> cp1 option" where
  "ceil_l_s source dest c = do {
     i \<leftarrow> ceil_int 8 23 64 (unat (get_s c source));
     Some (put_d c dest (word_of_int i)) }"

definition ceil_w_s :: "nat \<Rightarrow> nat \<Rightarrow> cp1 \<Rightarrow> cp1 option" where
  "ceil_w_s source dest c = do {
     i \<leftarrow> ceil_int 8 23 32 (unat (get_s c source));
     Some (put_s c dest (word_of_int i)) }"

definition floor_l_s :: "nat \<Rightarrow> nat \<Rightarrow> cp1 \<Rightarrow> cp1 option" where
  "floor_l_s source dest c = do {
     i \<leftarrow> floor_int 8 23 64 (unat (get_s c source));
     Some (put_d c dest (word_of_int i)) }"

definition floor_w_s :: "nat \<Rightarrow> nat \<Rightarrow> cp1 \<Rightarrow> cp1 option" where
  "floor_w_s source dest c = do {
     i \<leftarrow> floor_int 8 23 32 (unat (get_s c source));
     Some (put_s c dest (word_of_int i)) }"

definition round_l_d :: "nat \<Rightarrow> nat \<Rightarrow> cp1 \<Rightarrow> cp1 option" where
  "round_l_d source dest c = do {
     i \<leftarrow> round_int 11 52 (fe_round c) 64 (unat (get_d c source));
     Some (put_d c dest (word_of_int i)) }"

definition round_w_d :: "nat \<Rightarrow> nat \<Rightarrow> cp1 \<Rightarrow> cp1 option" where
  "round_w_d source dest c = do {
     i \<leftarrow> round_int 11 52 (fe_round c) 32 (unat (get_d c source));
     Some (put_s c dest (word_of_int i)) }"

definition trunc_l_d :: "nat \<Rightarrow> nat \<Rightarrow> cp1 \<Rightarrow> cp1 option" where
  "trunc_l_d source dest c = do {
     i \<leftarrow> trunc_int 11 52 64 (unat (get_d c source));
     Some (put_d c dest (word_of_int i)) }"

definition trunc_w_d :: "nat \<Rightarrow> nat \<Rightarrow> cp1 \<Rightarrow> cp1 option" where
  "trunc_w_d source dest c = do {
     i \<leftarrow> trunc_int 11 52 32 (unat (get_d c source));
     Some (put_s c dest (word_of_int i)) }"

definition ceil_l_d :: "nat \<Rightarrow> nat \<Rightarrow> cp1 \<Rightarrow> cp1 option" where
  "ceil_l_d source dest c = do {
     i \<leftarrow> ceil_int 11 52 64 (unat (get_d c source));
     Some (put_d c dest (word_of_int i)) }"

definition ceil_w_d :: "nat \<Rightarrow> nat \<Rightarrow> cp1 \<Rightarrow> cp1 option" where
  "ceil_w_d source dest c = do {
     i \<leftarrow> ceil_int 11 52 32 (unat (get_d c source));
     Some (put_s c dest (word_of_int i)) }"

definition floor_l_d :: "nat \<Rightarrow> nat \<Rightarrow> cp1 \<Rightarrow> cp1 option" where
  "floor_l_d source dest c = do {
     i \<leftarrow> floor_int 11 52 64 (unat (get_d c source));
     Some (put_d c dest (word_of_int i)) }"

definition floor_w_d :: "nat \<Rightarrow> nat \<Rightarrow> cp1 \<Rightarrow> cp1 option" where
  "floor_w_d source dest c = do {
     i \<leftarrow> floor_int 11 52 32 (unat (get_d c source));
     Some (put_s c dest (word_of_int i)) }"

text \<open>The direction of these four is taken from \<^verbatim>\<open>fcr31\<close>, not from the host.\<close>

definition cvt_w_s :: "nat \<Rightarrow> nat \<Rightarrow> cp1 \<Rightarrow> cp1 option" where
  "cvt_w_s source dest c =
     (if fcr31 c AND 3 = 0 then round_w_s source dest c
      else if fcr31 c AND 3 = 1 then trunc_w_s source dest c
      else if fcr31 c AND 3 = 2 then ceil_w_s source dest c
      else floor_w_s source dest c)"

definition cvt_w_d :: "nat \<Rightarrow> nat \<Rightarrow> cp1 \<Rightarrow> cp1 option" where
  "cvt_w_d source dest c =
     (if fcr31 c AND 3 = 0 then round_w_d source dest c
      else if fcr31 c AND 3 = 1 then trunc_w_d source dest c
      else if fcr31 c AND 3 = 2 then ceil_w_d source dest c
      else floor_w_d source dest c)"

definition cvt_l_s :: "nat \<Rightarrow> nat \<Rightarrow> cp1 \<Rightarrow> cp1 option" where
  "cvt_l_s source dest c =
     (if fcr31 c AND 3 = 0 then round_l_s source dest c
      else if fcr31 c AND 3 = 1 then trunc_l_s source dest c
      else if fcr31 c AND 3 = 2 then ceil_l_s source dest c
      else floor_l_s source dest c)"

definition cvt_l_d :: "nat \<Rightarrow> nat \<Rightarrow> cp1 \<Rightarrow> cp1 option" where
  "cvt_l_d source dest c =
     (if fcr31 c AND 3 = 0 then round_l_d source dest c
      else if fcr31 c AND 3 = 1 then trunc_l_d source dest c
      else if fcr31 c AND 3 = 2 then ceil_l_d source dest c
      else floor_l_d source dest c)"

section \<open>Comparisons\<close>

definition set_cmp :: "bool \<Rightarrow> u32 \<Rightarrow> u32" where
  "set_cmp b f = (if b then f OR FCR31_CMP_BIT else f AND NOT FCR31_CMP_BIT)"

text \<open>
  The shape of every comparison: the condition bit when an operand is a NaN, whether that case also
  records an invalid operation, and the relation otherwise.
\<close>

definition compare ::
  "nat \<Rightarrow> nat \<Rightarrow> bool \<Rightarrow> bool \<Rightarrow> (nat \<Rightarrow> nat \<Rightarrow> nat \<Rightarrow> nat \<Rightarrow> bool) \<Rightarrow> nat \<Rightarrow> nat \<Rightarrow> u32 \<Rightarrow> u32" where
  "compare ew fw unordered invalid rel a b f =
     (if isnan ew fw a \<or> isnan ew fw b then
        if invalid then set_cmp unordered f OR FCR31_CAUSE_INVALIDOP_BIT OR FCR31_FLAG_INVALIDOP_BIT
        else set_cmp unordered f
      else set_cmp (rel ew fw a b) f)"

definition compare_s ::
  "bool \<Rightarrow> bool \<Rightarrow> (nat \<Rightarrow> nat \<Rightarrow> nat \<Rightarrow> nat \<Rightarrow> bool) \<Rightarrow> nat \<Rightarrow> nat \<Rightarrow> cp1 \<Rightarrow> cp1" where
  "compare_s unordered invalid rel source target c = c\<lparr>fcr31 :=
     compare 8 23 unordered invalid rel (unat (get_s c source)) (unat (get_s c target)) (fcr31 c)\<rparr>"

definition compare_d ::
  "bool \<Rightarrow> bool \<Rightarrow> (nat \<Rightarrow> nat \<Rightarrow> nat \<Rightarrow> nat \<Rightarrow> bool) \<Rightarrow> nat \<Rightarrow> nat \<Rightarrow> cp1 \<Rightarrow> cp1" where
  "compare_d unordered invalid rel source target c = c\<lparr>fcr31 :=
     compare 11 52 unordered invalid rel (unat (get_d c source)) (unat (get_d c target)) (fcr31 c)\<rparr>"

definition fp_never :: "nat \<Rightarrow> nat \<Rightarrow> nat \<Rightarrow> nat \<Rightarrow> bool" where
  "fp_never ew fw a b = False"

definition c_f_s :: "nat \<Rightarrow> nat \<Rightarrow> cp1 \<Rightarrow> cp1" where
  "c_f_s = compare_s False True fp_never"

definition c_un_s :: "nat \<Rightarrow> nat \<Rightarrow> cp1 \<Rightarrow> cp1" where
  "c_un_s = compare_s True False fp_never"

definition c_eq_s :: "nat \<Rightarrow> nat \<Rightarrow> cp1 \<Rightarrow> cp1" where
  "c_eq_s = compare_s False False fp_eq"

definition c_ueq_s :: "nat \<Rightarrow> nat \<Rightarrow> cp1 \<Rightarrow> cp1" where
  "c_ueq_s = compare_s True False fp_eq"

definition c_olt_s :: "nat \<Rightarrow> nat \<Rightarrow> cp1 \<Rightarrow> cp1" where
  "c_olt_s = compare_s False False fp_lt"

definition c_ult_s :: "nat \<Rightarrow> nat \<Rightarrow> cp1 \<Rightarrow> cp1" where
  "c_ult_s = compare_s True False fp_lt"

definition c_ole_s :: "nat \<Rightarrow> nat \<Rightarrow> cp1 \<Rightarrow> cp1" where
  "c_ole_s = compare_s False False fp_le"

definition c_ule_s :: "nat \<Rightarrow> nat \<Rightarrow> cp1 \<Rightarrow> cp1" where
  "c_ule_s = compare_s True False fp_le"

definition c_sf_s :: "nat \<Rightarrow> nat \<Rightarrow> cp1 \<Rightarrow> cp1" where
  "c_sf_s = compare_s False True fp_never"

definition c_ngle_s :: "nat \<Rightarrow> nat \<Rightarrow> cp1 \<Rightarrow> cp1" where
  "c_ngle_s = compare_s True True fp_never"

definition c_seq_s :: "nat \<Rightarrow> nat \<Rightarrow> cp1 \<Rightarrow> cp1" where
  "c_seq_s = compare_s False True fp_eq"

definition c_ngl_s :: "nat \<Rightarrow> nat \<Rightarrow> cp1 \<Rightarrow> cp1" where
  "c_ngl_s = compare_s True True fp_eq"

definition c_lt_s :: "nat \<Rightarrow> nat \<Rightarrow> cp1 \<Rightarrow> cp1" where
  "c_lt_s = compare_s False True fp_lt"

definition c_nge_s :: "nat \<Rightarrow> nat \<Rightarrow> cp1 \<Rightarrow> cp1" where
  "c_nge_s = compare_s True True fp_lt"

definition c_le_s :: "nat \<Rightarrow> nat \<Rightarrow> cp1 \<Rightarrow> cp1" where
  "c_le_s = compare_s False True fp_le"

definition c_ngt_s :: "nat \<Rightarrow> nat \<Rightarrow> cp1 \<Rightarrow> cp1" where
  "c_ngt_s = compare_s True True fp_le"

definition c_f_d :: "cp1 \<Rightarrow> cp1" where
  "c_f_d c = c\<lparr>fcr31 := set_cmp False (fcr31 c)\<rparr>"

definition c_un_d :: "nat \<Rightarrow> nat \<Rightarrow> cp1 \<Rightarrow> cp1" where
  "c_un_d = compare_d False False fp_never"

definition c_eq_d :: "nat \<Rightarrow> nat \<Rightarrow> cp1 \<Rightarrow> cp1" where
  "c_eq_d = compare_d False False fp_eq"

definition c_ueq_d :: "nat \<Rightarrow> nat \<Rightarrow> cp1 \<Rightarrow> cp1" where
  "c_ueq_d = compare_d True False fp_eq"

definition c_olt_d :: "nat \<Rightarrow> nat \<Rightarrow> cp1 \<Rightarrow> cp1" where
  "c_olt_d = compare_d False False fp_lt"

definition c_ult_d :: "nat \<Rightarrow> nat \<Rightarrow> cp1 \<Rightarrow> cp1" where
  "c_ult_d = compare_d True False fp_lt"

definition c_ole_d :: "nat \<Rightarrow> nat \<Rightarrow> cp1 \<Rightarrow> cp1" where
  "c_ole_d = compare_d False False fp_le"

definition c_ule_d :: "nat \<Rightarrow> nat \<Rightarrow> cp1 \<Rightarrow> cp1" where
  "c_ule_d = compare_d True False fp_le"

definition c_sf_d :: "nat \<Rightarrow> nat \<Rightarrow> cp1 \<Rightarrow> cp1" where
  "c_sf_d = compare_d False True fp_never"

definition c_ngle_d :: "nat \<Rightarrow> nat \<Rightarrow> cp1 \<Rightarrow> cp1" where
  "c_ngle_d = compare_d True True fp_never"

definition c_seq_d :: "nat \<Rightarrow> nat \<Rightarrow> cp1 \<Rightarrow> cp1" where
  "c_seq_d = compare_d False True fp_eq"

definition c_ngl_d :: "nat \<Rightarrow> nat \<Rightarrow> cp1 \<Rightarrow> cp1" where
  "c_ngl_d = compare_d True True fp_eq"

definition c_lt_d :: "nat \<Rightarrow> nat \<Rightarrow> cp1 \<Rightarrow> cp1" where
  "c_lt_d = compare_d False True fp_lt"

definition c_nge_d :: "nat \<Rightarrow> nat \<Rightarrow> cp1 \<Rightarrow> cp1" where
  "c_nge_d = compare_d True True fp_lt"

definition c_le_d :: "nat \<Rightarrow> nat \<Rightarrow> cp1 \<Rightarrow> cp1" where
  "c_le_d = compare_d False True fp_le"

definition c_ngt_d :: "nat \<Rightarrow> nat \<Rightarrow> cp1 \<Rightarrow> cp1" where
  "c_ngt_d = compare_d True True fp_le"

end
