(* ===== verification/R4300.thy ===== *)
theory R4300
  imports Interrupt_Order Cp1
begin

text \<open>
  The processor core around coprocessor 0: \<^verbatim>\<open>device/r4300/cp0.c\<close>, the handler half of
  \<^verbatim>\<open>device/r4300/interrupt.c\<close>, address translation of \<^verbatim>\<open>tlb.c\<close> and the TLB instructions of
  \<^verbatim>\<open>mips_instructions.def\<close>. The build modelled is the one without a recompiler
  (\<^verbatim>\<open>NEW_DYNAREC\<close>, \<^verbatim>\<open>DBG\<close> and \<^verbatim>\<open>COMPARE_CORE\<close> undefined, \<^verbatim>\<open>NO_ASM\<close> defined). The block cache of the
  cached interpreter is not modelled: jumping in that mode is \<open>None\<close>.
\<close>

section \<open>Data\<close>

datatype emumode = EMUMODE_PURE_INTERPRETER | EMUMODE_INTERPRETER | EMUMODE_DYNAREC

record r4300_core =
  gpr :: "nat \<Rightarrow> u64"
  hi :: u64
  lo :: u64
  llbit :: u32
  pc :: u32
  delay_slot :: u32
  skip_jump :: u32
  stop :: u32
  reset_hard_job :: u32
  dyna_interp :: u32
  fast_memory :: u32
  emu_mode :: emumode
  cp0 :: cp0
  randomize_interrupt :: u32
  start_address :: u32
  cp1 :: cp1
  cp2_latch :: u64

abbreviation CP0_STATUS_IE :: u32 where "CP0_STATUS_IE \<equiv> 0x00000001"
abbreviation CP0_STATUS_EXL :: u32 where "CP0_STATUS_EXL \<equiv> 0x00000002"
abbreviation CP0_STATUS_ERL :: u32 where "CP0_STATUS_ERL \<equiv> 0x00000004"
abbreviation CP0_STATUS_SR :: u32 where "CP0_STATUS_SR \<equiv> 0x00100000"
abbreviation CP0_STATUS_TS :: u32 where "CP0_STATUS_TS \<equiv> 0x00200000"
abbreviation CP0_STATUS_BEV :: u32 where "CP0_STATUS_BEV \<equiv> 0x00400000"
abbreviation CP0_STATUS_CU1 :: u32 where "CP0_STATUS_CU1 \<equiv> 0x20000000"
abbreviation CP0_STATUS_CU2 :: u32 where "CP0_STATUS_CU2 \<equiv> 0x40000000"
abbreviation CP0_CAUSE_EXCCODE_TLBL :: u32 where "CP0_CAUSE_EXCCODE_TLBL \<equiv> 0x8"
abbreviation CP0_CAUSE_EXCCODE_TLBS :: u32 where "CP0_CAUSE_EXCCODE_TLBS \<equiv> 0xC"
abbreviation CP0_CAUSE_EXCCODE_CPU :: u32 where "CP0_CAUSE_EXCCODE_CPU \<equiv> 0x2C"
abbreviation CP0_CAUSE_EXCCODE_MASK :: u32 where "CP0_CAUSE_EXCCODE_MASK \<equiv> 0x7C"
abbreviation CP0_CAUSE_IP2 :: u32 where "CP0_CAUSE_IP2 \<equiv> 0x00000400"
abbreviation CP0_CAUSE_IP3 :: u32 where "CP0_CAUSE_IP3 \<equiv> 0x00000800"
abbreviation CP0_CAUSE_IP4 :: u32 where "CP0_CAUSE_IP4 \<equiv> 0x00001000"
abbreviation CP0_CAUSE_IP7 :: u32 where "CP0_CAUSE_IP7 \<equiv> 0x00008000"
abbreviation CP0_CAUSE_CE1 :: u32 where "CP0_CAUSE_CE1 \<equiv> 0x10000000"
abbreviation CP0_CAUSE_CE2 :: u32 where "CP0_CAUSE_CE2 \<equiv> 0x20000000"
abbreviation CP0_CAUSE_BD :: u32 where "CP0_CAUSE_BD \<equiv> 0x80000000"

text \<open>Reading and assigning a coprocessor 0 register of the core.\<close>

abbreviation creg :: "r4300_core \<Rightarrow> cp0_register \<Rightarrow> u32" where
  "creg r x \<equiv> cp0_regs (cp0 r) x"

definition set_creg :: "cp0_register \<Rightarrow> u32 \<Rightarrow> r4300_core \<Rightarrow> r4300_core" where
  "set_creg x v r = r\<lparr>cp0 := (cp0 r)\<lparr>cp0_regs := (cp0_regs (cp0 r))(x := v)\<rparr>\<rparr>"

definition upd_cp0 :: "(cp0 \<Rightarrow> cp0 option) \<Rightarrow> r4300_core \<Rightarrow> r4300_core option" where
  "upd_cp0 f r = do { c \<leftarrow> f (cp0 r); Some (r\<lparr>cp0 := c\<rparr>) }"

section \<open>Coprocessor 0\<close>

definition poweron_cp0 :: "cp0 \<Rightarrow> cp0 option" where
  "poweron_cp0 c = do {
     c \<leftarrow> init_interrupt (c\<lparr>
       cp0_regs := (\<lambda>_. 0)(CP0_RANDOM_REG := 31, CP0_STATUS_REG := 0x34000000,
         CP0_CONFIG_REG := 0x6e463, CP0_PREVID_REG := 0xb10, CP0_COUNT_REG := 0x5000,
         CP0_CAUSE_REG := 0x5c, CP0_CONTEXT_REG := 0x7ffff0, CP0_EPC_REG := 0xffffffff,
         CP0_BADVADDR_REG := 0xffffffff, CP0_ERROREPC_REG := 0xffffffff),
       interrupt_unsafe_state := 0, next_interrupt := 0, cycle_count := 0,
       last_addr := 0xbfc00000\<rparr>);
     Some (c\<lparr>cp0_tlb := poweron_tlb (cp0_tlb c)\<rparr>) }"

text \<open>The number of counts since \<^verbatim>\<open>last_addr\<close>; the power of two is a configuration value below 31.\<close>

definition elapsed_count :: "r4300_core \<Rightarrow> u32" where
  "elapsed_count r =
     (let c = cp0 r;
          count = drop_bit 2 (pc r - last_addr c) * count_per_op c
      in if count_per_op_denom_pot c \<noteq> 0
         then drop_bit (unat (count_per_op_denom_pot c))
                (count + (push_bit (unat (count_per_op_denom_pot c)) 1 - 1))
         else count)"

definition cp0_update_count :: "r4300_core \<Rightarrow> r4300_core" where
  "cp0_update_count r =
     (let n = elapsed_count r; c = cp0 r
      in r\<lparr>cp0 := c\<lparr>cp0_regs := (cp0_regs c)(CP0_COUNT_REG := cp0_regs c CP0_COUNT_REG + n),
                    cycle_count := cycle_count c + n,
                    last_addr := pc r\<rparr>\<rparr>)"

definition generic_jump_to :: "r4300_core \<Rightarrow> u32 \<Rightarrow> r4300_core option" where
  "generic_jump_to r address =
     (case emu_mode r of
        EMUMODE_PURE_INTERPRETER \<Rightarrow> Some (r\<lparr>pc := address\<rparr>)
      | EMUMODE_INTERPRETER \<Rightarrow> None
      | EMUMODE_DYNAREC \<Rightarrow> Some r)"

definition exception_epilog :: "r4300_core \<Rightarrow> r4300_core" where
  "exception_epilog r =
     (if emu_mode r \<noteq> EMUMODE_DYNAREC \<or> dyna_interp r \<noteq> 0 then
        let r = r\<lparr>dyna_interp := 0\<rparr>
        in if delay_slot r \<noteq> 0
           then r\<lparr>skip_jump := pc r, cp0 := (cp0 r)\<lparr>next_interrupt := 0, cycle_count := 0\<rparr>\<rparr>
           else r
      else r)"

definition in_delay_slot :: "r4300_core \<Rightarrow> bool" where
  "in_delay_slot r \<longleftrightarrow> delay_slot r = 1 \<or> delay_slot r = 3"

definition exception_general :: "r4300_core \<Rightarrow> r4300_core option" where
  "exception_general r = do {
     let r = cp0_update_count r;
     let r = set_creg CP0_STATUS_REG (creg r CP0_STATUS_REG OR CP0_STATUS_EXL) r;
     let r = set_creg CP0_EPC_REG (pc r) r;
     let r = (if in_delay_slot r
        then set_creg CP0_EPC_REG (creg r CP0_EPC_REG - 4)
               (set_creg CP0_CAUSE_REG (creg r CP0_CAUSE_REG OR CP0_CAUSE_BD) r)
        else set_creg CP0_CAUSE_REG (creg r CP0_CAUSE_REG AND NOT CP0_CAUSE_BD) r);
     r \<leftarrow> generic_jump_to r 0x80000180;
     let r = r\<lparr>cp0 := (cp0 r)\<lparr>last_addr := pc r\<rparr>\<rparr>;
     Some (exception_epilog r) }"

definition check_cop1_unusable :: "r4300_core \<Rightarrow> (bool \<times> r4300_core) option" where
  "check_cop1_unusable r =
     (if creg r CP0_STATUS_REG AND CP0_STATUS_CU1 = 0 then do {
        r \<leftarrow> exception_general (set_creg CP0_CAUSE_REG (CP0_CAUSE_EXCCODE_CPU OR CP0_CAUSE_CE1) r);
        Some (True, r) }
      else Some (False, r))"

definition check_cop2_unusable :: "r4300_core \<Rightarrow> (bool \<times> r4300_core) option" where
  "check_cop2_unusable r =
     (if creg r CP0_STATUS_REG AND CP0_STATUS_CU2 = 0 then do {
        r \<leftarrow> exception_general (set_creg CP0_CAUSE_REG (CP0_CAUSE_EXCCODE_CPU OR CP0_CAUSE_CE2) r);
        Some (True, r) }
      else Some (False, r))"

text \<open>Whether an address lies in either half of some entry, valid or not.\<close>

definition in_entry_range :: "u32 \<Rightarrow> tlb_entry \<Rightarrow> bool" where
  "in_entry_range a e \<longleftrightarrow>
     te_start_even e \<le> a \<and> a \<le> te_end_even e \<or> te_start_odd e \<le> a \<and> a \<le> te_end_odd e"

definition TLB_refill_exception :: "r4300_core \<Rightarrow> u32 \<Rightarrow> nat \<Rightarrow> r4300_core option" where
  "TLB_refill_exception r address w = do {
     let r = (if emu_mode r \<noteq> EMUMODE_DYNAREC \<and> w \<noteq> 2 then cp0_update_count r else r);
     let r = set_creg CP0_CAUSE_REG
               (if w = 1 then CP0_CAUSE_EXCCODE_TLBS else CP0_CAUSE_EXCCODE_TLBL) r;
     let r = set_creg CP0_BADVADDR_REG address r;
     let r = set_creg CP0_CONTEXT_REG ((creg r CP0_CONTEXT_REG AND 0xFF80000F)
               OR (drop_bit 9 address AND 0x007FFFF0)) r;
     let r = set_creg CP0_ENTRYHI_REG (address AND 0xFFFFE000) r;
     r \<leftarrow> (if creg r CP0_STATUS_REG AND CP0_STATUS_EXL \<noteq> 0 then do {
         r \<leftarrow> generic_jump_to r 0x80000180;
         Some (if in_delay_slot r
               then set_creg CP0_CAUSE_REG (creg r CP0_CAUSE_REG OR CP0_CAUSE_BD) r
               else set_creg CP0_CAUSE_REG (creg r CP0_CAUSE_REG AND NOT CP0_CAUSE_BD) r) }
       else do {
         let r = set_creg CP0_EPC_REG
                   (if emu_mode r \<noteq> EMUMODE_PURE_INTERPRETER
                    then (if w \<noteq> 2 then pc r else address) else pc r) r;
         let r = set_creg CP0_CAUSE_REG (creg r CP0_CAUSE_REG AND NOT CP0_CAUSE_BD) r;
         let r = set_creg CP0_STATUS_REG (creg r CP0_STATUS_REG OR CP0_STATUS_EXL) r;
         let usual_handler = (0x80000000 \<le> address \<and> address < 0xc0000000) \<or>
               list_ex (in_entry_range address) (take 32 (entries (cp0_tlb (cp0 r))));
         generic_jump_to r (if usual_handler then 0x80000180 else 0x80000000) });
     let r = (if in_delay_slot r
        then set_creg CP0_EPC_REG (creg r CP0_EPC_REG - 4)
               (set_creg CP0_CAUSE_REG (creg r CP0_CAUSE_REG OR CP0_CAUSE_BD) r)
        else set_creg CP0_CAUSE_REG (creg r CP0_CAUSE_REG AND NOT CP0_CAUSE_BD) r);
     let r = (if w \<noteq> 2 then set_creg CP0_EPC_REG (creg r CP0_EPC_REG - 4) r else r);
     let r = r\<lparr>cp0 := (cp0 r)\<lparr>last_addr := pc r\<rparr>\<rparr>;
     Some (exception_epilog r) }"

text \<open>
  \<open>ignore_tlb\<close> is the core option \<^verbatim>\<open>IgnoreTLBExceptions\<close>. A miss returns the address 0 after
  raising the refill exception, unless the option is 2.
\<close>

definition virtual_to_physical_address ::
  "nat \<Rightarrow> r4300_core \<Rightarrow> u32 \<Rightarrow> nat \<Rightarrow> (u32 \<times> r4300_core) option" where
  "virtual_to_physical_address ignore_tlb r address w =
     (case tlb_lookup (cp0_tlb (cp0 r)) address w of
        Some a \<Rightarrow> Some (a, r)
      | None \<Rightarrow>
          if ignore_tlb = 2 then Some (0, r)
          else do { r \<leftarrow> TLB_refill_exception r address w; Some (0, r) })"

section \<open>Interrupts\<close>

text \<open>\<open>rnd\<close> is the value of the C library's \<^verbatim>\<open>rand()\<close>.\<close>

definition add_random_interrupt_time :: "u32 \<Rightarrow> r4300_core \<Rightarrow> u32" where
  "add_random_interrupt_time rnd r = (if randomize_interrupt r \<noteq> 0 then rnd mod 0x40 else 0)"

definition r4300_check_interrupt :: "r4300_core \<Rightarrow> u32 \<Rightarrow> u32 \<Rightarrow> r4300_core option" where
  "r4300_check_interrupt r cause_ip set_cause = do {
     let r = set_creg CP0_CAUSE_REG
               (if set_cause \<noteq> 0
                then (creg r CP0_CAUSE_REG OR cause_ip) AND NOT CP0_CAUSE_EXCCODE_MASK
                else creg r CP0_CAUSE_REG AND NOT cause_ip) r;
     if creg r CP0_STATUS_REG AND (CP0_STATUS_IE OR CP0_STATUS_EXL OR CP0_STATUS_ERL) \<noteq> CP0_STATUS_IE
     then Some r
     else if creg r CP0_STATUS_REG AND creg r CP0_CAUSE_REG AND 0xFF00 \<noteq> 0 then do {
       let c = cp0 r;
       (event, p) \<leftarrow> alloc_node (q_pool (cp0_q c));
       case event of
         None \<Rightarrow> Some r
       | Some a \<Rightarrow> do {
           p \<leftarrow> upd_node p a (\<lambda>x. x\<lparr>
                 data := \<lparr>evt_type = CHECK_INT, evt_count = creg r CP0_COUNT_REG\<rparr>,
                 nxt := q_first (cp0_q c)\<rparr>);
           Some (r\<lparr>cp0 := c\<lparr>cp0_q := (cp0_q c)\<lparr>q_first := Some a, q_pool := p\<rparr>,
                            next_interrupt := creg r CP0_COUNT_REG,
                            cycle_count := 0\<rparr>\<rparr>) } }
     else Some r }"

definition raise_maskable_interrupt :: "r4300_core \<Rightarrow> u32 \<Rightarrow> r4300_core option" where
  "raise_maskable_interrupt r cause_ip = do {
     let r = set_creg CP0_CAUSE_REG
               ((creg r CP0_CAUSE_REG OR cause_ip) AND NOT CP0_CAUSE_EXCCODE_MASK) r;
     if creg r CP0_STATUS_REG AND creg r CP0_CAUSE_REG AND 0xff00 = 0 then Some r
     else if creg r CP0_STATUS_REG AND (CP0_STATUS_IE OR CP0_STATUS_EXL OR CP0_STATUS_ERL) \<noteq> CP0_STATUS_IE
     then Some r
     else exception_general r }"

definition compare_int_handler :: "r4300_core \<Rightarrow> r4300_core option" where
  "compare_int_handler r = do {
     r \<leftarrow> upd_cp0 (\<lambda>c. add_compare_event c (cp0_regs c CP0_COMPARE_REG)) r;
     raise_maskable_interrupt r CP0_CAUSE_IP7 }"

definition check_int_handler :: "r4300_core \<Rightarrow> r4300_core option" where
  "check_int_handler r = exception_general r"

definition special_int_handler :: "r4300_core \<Rightarrow> r4300_core option" where
  "special_int_handler r = upd_cp0 (\<lambda>c. do {
     c \<leftarrow> remove_interrupt_event c;
     add_interrupt_event_count c SPECIAL_INT (special_count (cp0_regs c CP0_COUNT_REG)) }) r"

section \<open>Dispatching the head of the queue\<close>

text \<open>
  The state seen from the processor; the device theories extend this record with their own
  structures. \<open>interrupt_env\<close> is what \<^verbatim>\<open>gen_interrupt\<close> reaches through function pointers and other
  modules: the table of 16 handlers installed by \<^verbatim>\<open>init_cp0\<close> and the savestate module.
\<close>

record r4300_sys =
  r4300 :: r4300_core
  g_gs_vi_counter :: u32

datatype savestates_job = savestates_job_nothing | savestates_job_load | savestates_job_save

record 's interrupt_env =
  interrupt_handlers :: "nat \<Rightarrow> 's \<Rightarrow> 's option"
  savestates_get_job :: "'s \<Rightarrow> savestates_job"
  savestates_load :: "'s \<Rightarrow> 's option"
  savestates_save :: "'s \<Rightarrow> 's option"

definition upd_r4300 ::
  "(r4300_core \<Rightarrow> r4300_core option) \<Rightarrow> 'a r4300_sys_scheme \<Rightarrow> 'a r4300_sys_scheme option" where
  "upd_r4300 f s = do { r \<leftarrow> f (r4300 s); Some (s\<lparr>r4300 := r\<rparr>) }"

definition call_interrupt_handler :: "'s interrupt_env \<Rightarrow> nat \<Rightarrow> 's \<Rightarrow> 's option" where
  "call_interrupt_handler env index s = (if index < 16 then interrupt_handlers env index s else None)"

text \<open>
  The \<^verbatim>\<open>switch\<close> on the type of the head: whether the event is removed first, and the handler called.
\<close>

definition dispatch_of :: "u32 \<Rightarrow> (bool \<times> nat) option" where
  "dispatch_of ty =
     (if ty = VI_INT then Some (False, 0)
      else if ty = COMPARE_INT then Some (True, 1)
      else if ty = CHECK_INT then Some (True, 2)
      else if ty = SI_INT then Some (True, 3)
      else if ty = PI_INT then Some (True, 4)
      else if ty = SPECIAL_INT then Some (False, 5)
      else if ty = AI_INT then Some (True, 6)
      else if ty = SP_INT then Some (True, 7)
      else if ty = DP_INT then Some (True, 8)
      else if ty = HW2_INT then Some (True, 9)
      else if ty = NMI_INT then Some (True, 10)
      else if ty = RSP_DMA_EVT then Some (True, 12)
      else if ty = DD_MC_INT then Some (True, 13)
      else if ty = DD_BM_INT then Some (True, 14)
      else if ty = DD_DV_INT then Some (True, 15)
      else None)"

definition dispatch_head ::
  "'a r4300_sys_scheme interrupt_env \<Rightarrow> 'a r4300_sys_scheme \<Rightarrow> 'a r4300_sys_scheme option" where
  "dispatch_head env s = do {
     let qu = cp0_q (cp0 (r4300 s));
     f \<leftarrow> deref qu (q_first qu);
     case dispatch_of (evt_type (data f)) of
       Some (rm, h) \<Rightarrow> do {
         s \<leftarrow> (if rm then upd_r4300 (upd_cp0 remove_interrupt_event) s else Some s);
         call_interrupt_handler env h s }
     | None \<Rightarrow> do {
         s \<leftarrow> upd_r4300 (upd_cp0 remove_interrupt_event) s;
         upd_r4300 exception_general s } }"

definition gen_interrupt ::
  "'a r4300_sys_scheme interrupt_env \<Rightarrow> 'a r4300_sys_scheme \<Rightarrow> 'a r4300_sys_scheme option" where
  "gen_interrupt env s = do {
     let s = (if stop (r4300 s) = 1 then s\<lparr>g_gs_vi_counter := 0\<rparr> else s);
     let unsafe = interrupt_unsafe_state (cp0 (r4300 s)) \<noteq> 0;
     if \<not> unsafe \<and> savestates_get_job env s = savestates_job_load then savestates_load env s
     else if \<not> unsafe \<and> reset_hard_job (r4300 s) \<noteq> 0 then call_interrupt_handler env 11 s
     else if skip_jump (r4300 s) \<noteq> 0 then upd_r4300 (\<lambda>r. do {
       let dest = skip_jump r;
       r \<leftarrow> upd_cp0 sync_next (r\<lparr>skip_jump := 0\<rparr>);
       generic_jump_to (r\<lparr>cp0 := (cp0 r)\<lparr>last_addr := dest\<rparr>\<rparr>) dest }) s
     else do {
       s \<leftarrow> dispatch_head env s;
       if interrupt_unsafe_state (cp0 (r4300 s)) = 0 \<and> savestates_get_job env s = savestates_job_save
       then savestates_save env s
       else Some s } }"

section \<open>TLB instructions of the interpreter\<close>

text \<open>The entry that \<^verbatim>\<open>TLBWrite\<close> builds from the coprocessor registers.\<close>

definition tlb_entry_of_regs :: "(cp0_register \<Rightarrow> u32) \<Rightarrow> tlb_entry \<Rightarrow> tlb_entry" where
  "tlb_entry_of_regs cr e =
     (let lo0 = cr CP0_ENTRYLO0_REG; lo1 = cr CP0_ENTRYLO1_REG;
          vpn2 = drop_bit 13 (cr CP0_ENTRYHI_REG AND 0xFFFFE000);
          msk = drop_bit 13 (cr CP0_PAGEMASK_REG AND 0x1FFE000);
          pfn_even = drop_bit 6 (lo0 AND 0x3FFFFFC0); pfn_odd = drop_bit 6 (lo1 AND 0x3FFFFFC0);
          start_even = push_bit 13 vpn2;
          end_even = start_even + push_bit 12 msk + 0xFFF;
          start_odd = end_even + 1;
          end_odd = start_odd + push_bit 12 msk + 0xFFF
      in e\<lparr>te_g := ucast (lo0 AND lo1 AND 1),
           te_pfn_even := pfn_even, te_pfn_odd := pfn_odd,
           te_c_even := ucast (drop_bit 3 (lo0 AND 0x38)), te_c_odd := ucast (drop_bit 3 (lo1 AND 0x38)),
           te_d_even := ucast (drop_bit 2 (lo0 AND 0x4)), te_d_odd := ucast (drop_bit 2 (lo1 AND 0x4)),
           te_v_even := ucast (drop_bit 1 (lo0 AND 0x2)), te_v_odd := ucast (drop_bit 1 (lo1 AND 0x2)),
           te_asid := ucast (cr CP0_ENTRYHI_REG AND 0xFF), te_vpn2 := vpn2, te_mask := ucast msk,
           te_start_even := start_even, te_end_even := end_even, te_phys_even := push_bit 12 pfn_even,
           te_start_odd := start_odd, te_end_odd := end_odd, te_phys_odd := push_bit 12 pfn_odd\<rparr>)"

definition TLBWrite :: "r4300_core \<Rightarrow> nat \<Rightarrow> r4300_core option" where
  "TLBWrite r idx = do {
     e \<leftarrow> rd (entries (cp0_tlb (cp0 r))) idx;
     if te_start_even e \<le> pc r \<and> pc r < te_end_even e \<and> te_v_even e \<noteq> 0 then Some r
     else if te_start_odd e \<le> pc r \<and> pc r < te_end_odd e \<and> te_v_odd e \<noteq> 0 then Some r
     else if emu_mode r \<noteq> EMUMODE_PURE_INTERPRETER then None
     else do {
       t \<leftarrow> tlb_unmap (cp0_tlb (cp0 r)) idx;
       es \<leftarrow> wr (entries t) idx (tlb_entry_of_regs (cp0_regs (cp0 r)) e);
       t \<leftarrow> tlb_map (t\<lparr>entries := es\<rparr>) idx;
       Some (r\<lparr>cp0 := (cp0 r)\<lparr>cp0_tlb := t\<rparr>\<rparr>) } }"

definition tlb_entry_matches :: "u32 \<Rightarrow> tlb_entry \<Rightarrow> bool" where
  "tlb_entry_matches hi_reg e \<longleftrightarrow>
     te_vpn2 e AND NOT (scast (te_mask e)) =
       drop_bit 13 (hi_reg AND 0xFFFFE000) AND NOT (scast (te_mask e)) \<and>
     (te_g e \<noteq> 0 \<or> ucast (te_asid e) = hi_reg AND 0xFF)"

text \<open>The loop of \<^verbatim>\<open>TLBP\<close>: the first matching entry from \<open>i\<close> on.\<close>

fun probe :: "u32 \<Rightarrow> tlb_entry list \<Rightarrow> nat \<Rightarrow> nat option" where
  "probe hi_reg [] i = None"
| "probe hi_reg (e # es) i = (if tlb_entry_matches hi_reg e then Some i else probe hi_reg es (Suc i))"

definition TLBP :: "r4300_core \<Rightarrow> r4300_core" where
  "TLBP r =
     (let idx = (case probe (creg r CP0_ENTRYHI_REG) (take 32 (entries (cp0_tlb (cp0 r)))) 0 of
                   None \<Rightarrow> creg r CP0_INDEX_REG OR 0x80000000
                 | Some i \<Rightarrow> word_of_nat i);
          r = set_creg CP0_INDEX_REG idx r
      in r\<lparr>pc := pc r + 4\<rparr>)"

definition TLBR :: "r4300_core \<Rightarrow> r4300_core option" where
  "TLBR r = do {
     e \<leftarrow> rd (entries (cp0_tlb (cp0 r))) (unat (creg r CP0_INDEX_REG AND 0x1F));
     let r = set_creg CP0_PAGEMASK_REG (push_bit 13 (scast (te_mask e))) r;
     let r = set_creg CP0_ENTRYHI_REG (push_bit 13 (te_vpn2 e) OR ucast (te_asid e)) r;
     let r = set_creg CP0_ENTRYLO0_REG (push_bit 6 (te_pfn_even e) OR push_bit 3 (ucast (te_c_even e))
               OR push_bit 2 (ucast (te_d_even e)) OR push_bit 1 (ucast (te_v_even e)) OR ucast (te_g e)) r;
     let r = set_creg CP0_ENTRYLO1_REG (push_bit 6 (te_pfn_odd e) OR push_bit 3 (ucast (te_c_odd e))
               OR push_bit 2 (ucast (te_d_odd e)) OR push_bit 1 (ucast (te_v_odd e)) OR ucast (te_g e)) r;
     Some (r\<lparr>pc := pc r + 4\<rparr>) }"

definition TLBWR :: "r4300_core \<Rightarrow> r4300_core option" where
  "TLBWR r = do {
     let r = cp0_update_count r;
     let wired = creg r CP0_WIRED_REG;
     if count_per_op (cp0 r) = 0 \<or> 32 - wired = 0 then None
     else do {
       let random = (creg r CP0_COUNT_REG div count_per_op (cp0 r)) mod (32 - wired) + wired;
       r \<leftarrow> TLBWrite (set_creg CP0_RANDOM_REG random r) (unat random);
       Some (r\<lparr>pc := pc r + 4\<rparr>) } }"

definition TLBWI :: "r4300_core \<Rightarrow> r4300_core option" where
  "TLBWI r = do {
     r \<leftarrow> TLBWrite r (unat (creg r CP0_INDEX_REG AND 0x3F));
     Some (r\<lparr>pc := pc r + 4\<rparr>) }"

section \<open>Frame facts\<close>

lemma creg_set_creg: "creg (set_creg x v r) y = (if y = x then v else creg r y)"
  by (simp add: set_creg_def)

lemma set_creg_frame [frame_simps]:
  "pc (set_creg x v r) = pc r" "delay_slot (set_creg x v r) = delay_slot r"
  "emu_mode (set_creg x v r) = emu_mode r" "dyna_interp (set_creg x v r) = dyna_interp r"
  "skip_jump (set_creg x v r) = skip_jump r" "stop (set_creg x v r) = stop r"
  "cp0_q (cp0 (set_creg x v r)) = cp0_q (cp0 r)" "cp0_tlb (cp0 (set_creg x v r)) = cp0_tlb (cp0 r)"
  "cycle_count (cp0 (set_creg x v r)) = cycle_count (cp0 r)"
  "next_interrupt (cp0 (set_creg x v r)) = next_interrupt (cp0 r)"
  "last_addr (cp0 (set_creg x v r)) = last_addr (cp0 r)"
  "count_per_op (cp0 (set_creg x v r)) = count_per_op (cp0 r)"
  by (simp_all add: set_creg_def)

lemma update_count_frame [frame_simps]:
  "cp0_q (cp0 (cp0_update_count r)) = cp0_q (cp0 r)" "cp0_tlb (cp0 (cp0_update_count r)) = cp0_tlb (cp0 r)"
  "pc (cp0_update_count r) = pc r" "delay_slot (cp0_update_count r) = delay_slot r"
  "emu_mode (cp0_update_count r) = emu_mode r" "dyna_interp (cp0_update_count r) = dyna_interp r"
  "next_interrupt (cp0 (cp0_update_count r)) = next_interrupt (cp0 r)"
  "x \<noteq> CP0_COUNT_REG \<Longrightarrow> creg (cp0_update_count r) x = creg r x"
  by (simp_all add: cp0_update_count_def Let_def)

lemma epilog_frame [frame_simps]:
  "cp0_q (cp0 (exception_epilog r)) = cp0_q (cp0 r)" "cp0_tlb (cp0 (exception_epilog r)) = cp0_tlb (cp0 r)"
  "pc (exception_epilog r) = pc r" "creg (exception_epilog r) x = creg r x"
  by (simp_all add: exception_epilog_def Let_def)

lemmas r4300_simps = creg_set_creg frame_simps Let_def in_delay_slot_def generic_jump_to_def

end
