(* ===== verification/R4300_Props.thy ===== *)
theory R4300_Props
  imports R4300
begin

text \<open>
  Properties of exceptions, interrupt delivery, the count register and address translation.
\<close>

section \<open>Exceptions\<close>

lemma exception_general_spec:
  assumes "emu_mode r = EMUMODE_PURE_INTERPRETER"
  shows "\<exists>r'. exception_general r = Some r' \<and> pc r' = 0x80000180
    \<and> creg r' CP0_STATUS_REG = creg r CP0_STATUS_REG OR CP0_STATUS_EXL
    \<and> creg r' CP0_EPC_REG = (if in_delay_slot r then pc r - 4 else pc r)
    \<and> creg r' CP0_CAUSE_REG = (if in_delay_slot r then creg r CP0_CAUSE_REG OR CP0_CAUSE_BD
                               else creg r CP0_CAUSE_REG AND NOT CP0_CAUSE_BD)
    \<and> cp0_q (cp0 r') = cp0_q (cp0 r) \<and> last_addr (cp0 r') = 0x80000180
    \<and> (delay_slot r \<noteq> 0 \<longrightarrow> skip_jump r' = 0x80000180 \<and> cycle_count (cp0 r') = 0)"
  using assms
  by (auto simp: exception_general_def r4300_simps exception_epilog_def set_creg_def cp0_update_count_def)

lemma raise_maskable_masked:
  assumes "creg r CP0_STATUS_REG AND (CP0_STATUS_IE OR CP0_STATUS_EXL OR CP0_STATUS_ERL) \<noteq> CP0_STATUS_IE
    \<or> creg r CP0_STATUS_REG AND ((creg r CP0_CAUSE_REG OR ip) AND NOT CP0_CAUSE_EXCCODE_MASK) AND 0xff00 = 0"
  shows "raise_maskable_interrupt r ip =
    Some (set_creg CP0_CAUSE_REG ((creg r CP0_CAUSE_REG OR ip) AND NOT CP0_CAUSE_EXCCODE_MASK) r)"
  using assms by (auto simp: raise_maskable_interrupt_def creg_set_creg Let_def)

section \<open>Pending interrupts\<close>

definition int_enabled :: "r4300_core \<Rightarrow> bool" where
  "int_enabled r \<longleftrightarrow>
     creg r CP0_STATUS_REG AND (CP0_STATUS_IE OR CP0_STATUS_EXL OR CP0_STATUS_ERL) = CP0_STATUS_IE"

definition pending_cause :: "r4300_core \<Rightarrow> u32 \<Rightarrow> u32 \<Rightarrow> u32" where
  "pending_cause r ip set_cause =
     (if set_cause \<noteq> 0 then (creg r CP0_CAUSE_REG OR ip) AND NOT CP0_CAUSE_EXCCODE_MASK
      else creg r CP0_CAUSE_REG AND NOT ip)"

definition check_due :: "r4300_core \<Rightarrow> u32 \<Rightarrow> u32 \<Rightarrow> bool" where
  "check_due r ip set_cause \<longleftrightarrow>
     int_enabled r \<and> creg r CP0_STATUS_REG AND pending_cause r ip set_cause AND 0xFF00 \<noteq> 0"

lemma check_interrupt_idle:
  "\<not> check_due r ip sc \<Longrightarrow> r4300_check_interrupt r ip sc =
     Some (set_creg CP0_CAUSE_REG (pending_cause r ip sc) r)"
  by (auto simp: r4300_check_interrupt_def check_due_def int_enabled_def pending_cause_def creg_set_creg Let_def)

lemma check_interrupt_due:
  assumes "check_due r ip sc" "wf_queue (cp0_q (cp0 r))"
    "length (events (cp0_q (cp0 r))) < INTERRUPT_NODES_POOL_CAPACITY"
  shows "\<exists>r'. r4300_check_interrupt r ip sc = Some r' \<and> wf_queue (cp0_q (cp0 r'))
    \<and> events (cp0_q (cp0 r')) = \<lparr>evt_type = CHECK_INT, evt_count = creg r CP0_COUNT_REG\<rparr> # events (cp0_q (cp0 r))
    \<and> creg r' = (cp0_regs (cp0 r))(CP0_CAUSE_REG := pending_cause r ip sc)
    \<and> next_interrupt (cp0 r') = creg r CP0_COUNT_REG \<and> cycle_count (cp0 r') = 0"
proof -
  let ?q = "cp0_q (cp0 r)"
  let ?x = "\<lparr>evt_type = CHECK_INT, evt_count = creg r CP0_COUNT_REG\<rparr>"
  have rep: "pool_rep (q_pool ?q) (q_nodes ?q)" and ql: "qlist (nodes (q_pool ?q)) (q_first ?q) (q_nodes ?q)"
    using assms(2) by (auto simp: wf_queue_def)
  obtain n p where al: "alloc_node (q_pool ?q) = Some (Some n, p)" "nodes p = nodes (q_pool ?q)"
      "n \<notin> set (q_nodes ?q)" "n < INTERRUPT_NODES_POOL_CAPACITY"
      "\<And>xs ys. q_nodes ?q = xs @ ys \<Longrightarrow> pool_rep p (xs @ n # ys)"
    by (rule alloc_node_ok [OF rep]) (use assms(3) in \<open>auto simp: events_def\<close>)
  have n: "n < length (nodes p)" using al rep by (simp add: pool_rep_def)
  let ?ns = "(nodes p)[n := (nodes p ! n)\<lparr>data := ?x, nxt := q_first ?q\<rparr>]"
  let ?q' = "?q\<lparr>q_first := Some n, q_pool := p\<lparr>nodes := ?ns\<rparr>\<rparr>"
  have rep': "pool_rep (p\<lparr>nodes := ?ns\<rparr>) (n # q_nodes ?q)"
    using al(5) [of "[]"] by (simp add: pool_rep_nodes)
  have wf: "wf_queue ?q'" "q_nodes ?q' = n # q_nodes ?q"
    by (rule q_nodesI; use rep' n ql al(2,3) in \<open>simp add: qseg_upd_other\<close>)+
  have ev: "events ?q' = ?x # events ?q"
    unfolding events_def wf(2) using n al(2,3) by (auto simp: nth_list_update)
  have "r4300_check_interrupt r ip sc = Some (r\<lparr>cp0 := (cp0 r)\<lparr>
      cp0_regs := (cp0_regs (cp0 r))(CP0_CAUSE_REG := pending_cause r ip sc),
      cp0_q := ?q', next_interrupt := creg r CP0_COUNT_REG, cycle_count := 0\<rparr>\<rparr>)"
    using assms(1) n al(1)
    by (auto simp: r4300_check_interrupt_def check_due_def int_enabled_def pending_cause_def
        set_creg_def upd_node_Some Let_def)
  then show ?thesis using wf(1) ev by simp
qed

section \<open>The count register\<close>

text \<open>
  Advancing the count keeps the queue invariant, as long as the head does not become overdue by
  $2^{31}$ or more.
\<close>

lemma cp0_inv_update_count:
  assumes inv: "cp0_inv (cp0 r)"
    and step: "events (cp0_q (cp0 r)) \<noteq> [] \<Longrightarrow>
      elapsed_count r \<le> due (cp0 r) (hd (events (cp0_q (cp0 r)))) \<or>
      0 <s cycle_count (cp0 r) + elapsed_count r"
  shows "cp0_inv (cp0 (cp0_update_count r))"
proof (cases "events (cp0_q (cp0 r)) = []")
  case True
  then show ?thesis using inv by (simp add: cp0_inv_def frame_simps)
next
  case False
  let ?c = "cp0 r" and ?c' = "cp0 (cp0_update_count r)" and ?n = "elapsed_count r"
  let ?h = "hd (events (cp0_q ?c))"
  have c': "cycle_count ?c' = cycle_count ?c + ?n" "cp0_regs ?c' CP0_COUNT_REG = cp0_regs ?c CP0_COUNT_REG + ?n"
    by (simp_all add: cp0_update_count_def Let_def)
  have cc: "cycle_count ?c = cp0_regs ?c CP0_COUNT_REG - evt_count ?h" and s: "sorted (map (due ?c) (events (cp0_q ?c)))"
    using inv False by (simp_all add: cp0_inv_def)
  have "now ?c' - now ?c \<le> due ?c ?h"
  proof (cases "0 <s cycle_count ?c'")
    case True
    then have "now ?c' = evt_count ?h" using c' cc by (simp add: now_def Let_def)
    then show ?thesis by (simp add: due_def)
  next
    case nover: False
    then have le: "?n \<le> due ?c ?h" using step [OF False] c'(1) by simp
    show ?thesis
    proof (cases "0 <s cycle_count ?c")
      case True
      then have "due ?c ?h = 0" using cc by (simp add: due_def now_head)
      then have "?n = 0" using le by simp
      then show ?thesis using c' by (simp add: now_def Let_def)
    next
      case False
      then show ?thesis using nover le c' by (simp add: now_count)
    qed
  qed
  then have "sorted (map (due ?c') (events (cp0_q ?c)))"
    using s False by - (rule sorted_due_shift [of ?c])
  then show ?thesis using inv c' False by (simp add: cp0_inv_def frame_simps)
qed

section \<open>Writing a TLB entry\<close>

lemma dvd_push_bit:
  assumes "12 \<le> n"
  shows "4096 dvd unat (push_bit n (w :: u32))"
proof -
  have "unat (push_bit n w) = take_bit 32 (push_bit n (unat w))"
    using unsigned_push_bit_eq [of n w] by simp
  also have "\<dots> = (unat w * 2 ^ n) mod 2 ^ 32"
    by (simp only: take_bit_eq_mod push_bit_eq_mult)
  also have "2 ^ 12 dvd \<dots>"
    by (intro dvd_mod dvd_mult le_imp_power_dvd assms) simp_all
  finally show ?thesis by simp
qed

text \<open>The address ranges of the entry that \<^verbatim>\<open>TLBWrite\<close> builds, when they do not reach the last page.\<close>

definition entry_fits :: "tlb_entry \<Rightarrow> u32 \<Rightarrow> bool" where
  "entry_fits e sz \<longleftrightarrow>
     4096 dvd unat (te_start_even e) \<and> 4096 dvd unat sz \<and>
     te_end_even e = te_start_even e + sz + 0xFFF \<and> te_start_odd e = te_end_even e + 1 \<and>
     te_end_odd e = te_start_odd e + sz + 0xFFF \<and>
     unat (te_start_even e) + 2 * unat sz + 0x2000 \<le> 0xFFFFF000"

lemma entry_fits_unat:
  assumes "entry_fits e sz"
  shows "unat (te_end_even e) = unat (te_start_even e) + unat sz + 0xFFF"
    "unat (te_start_odd e) = unat (te_start_even e) + unat sz + 0x1000"
    "unat (te_end_odd e) = unat (te_start_even e) + 2 * unat sz + 0x1FFF"
proof -
  have b: "unat (te_start_even e) + 2 * unat sz + 0x2000 \<le> 0xFFFFF000"
    and eqs: "te_end_even e = te_start_even e + sz + 0xFFF" "te_start_odd e = te_end_even e + 1"
      "te_end_odd e = te_start_odd e + sz + 0xFFF"
    using assms by (auto simp: entry_fits_def)
  show 1: "unat (te_end_even e) = unat (te_start_even e) + unat sz + 0xFFF"
    using b by (simp add: eqs(1) unat_add_u32)
  show 2: "unat (te_start_odd e) = unat (te_start_even e) + unat sz + 0x1000"
    using b by (simp only: eqs(2) unat_add_u32 1) simp
  show "unat (te_end_odd e) = unat (te_start_even e) + 2 * unat sz + 0x1FFF"
    using b by (simp only: eqs(3) unat_add_u32 2) simp
qed

lemma entry_fits_wf:
  assumes "entry_fits e sz"
  shows "wf_entry e"
proof -
  have "4096 dvd unat (te_start_even e)" "4096 dvd unat sz"
    "unat (te_start_even e) + 2 * unat sz + 0x2000 \<le> 0xFFFFF000"
    using assms by (auto simp: entry_fits_def)
  then show ?thesis
    by (auto simp: wf_entry_def wf_half_def entry_fits_unat [OF assms] intro!: dvd_add)
qed

lemma tlb_entry_of_regs_range:
  "te_start_even (tlb_entry_of_regs cr e) = push_bit 13 (drop_bit 13 (cr CP0_ENTRYHI_REG AND 0xFFFFE000))"
  "te_end_even (tlb_entry_of_regs cr e) = te_start_even (tlb_entry_of_regs cr e)
     + push_bit 12 (drop_bit 13 (cr CP0_PAGEMASK_REG AND 0x1FFE000)) + 0xFFF"
  "te_start_odd (tlb_entry_of_regs cr e) = te_end_even (tlb_entry_of_regs cr e) + 1"
  "te_end_odd (tlb_entry_of_regs cr e) = te_start_odd (tlb_entry_of_regs cr e)
     + push_bit 12 (drop_bit 13 (cr CP0_PAGEMASK_REG AND 0x1FFE000)) + 0xFFF"
  by (simp_all add: tlb_entry_of_regs_def Let_def)

lemma tlb_entry_of_regs_start:
  "4096 dvd unat (te_start_even (tlb_entry_of_regs cr e))"
  unfolding tlb_entry_of_regs_range(1) by (rule dvd_push_bit) simp

lemma tlb_entry_of_regs_fits:
  fixes cr e
  defines "sz \<equiv> push_bit 12 (drop_bit 13 (cr CP0_PAGEMASK_REG AND 0x1FFE000)) :: u32"
  assumes "unat (te_start_even (tlb_entry_of_regs cr e)) + 2 * unat sz + 0x2000 \<le> 0xFFFFF000"
  shows "entry_fits (tlb_entry_of_regs cr e) sz"
proof -
  have "4096 dvd unat sz" unfolding sz_def by (rule dvd_push_bit) simp
  moreover have "te_end_even (tlb_entry_of_regs cr e) = te_start_even (tlb_entry_of_regs cr e) + sz + 0xFFF"
    "te_start_odd (tlb_entry_of_regs cr e) = te_end_even (tlb_entry_of_regs cr e) + 1"
    "te_end_odd (tlb_entry_of_regs cr e) = te_start_odd (tlb_entry_of_regs cr e) + sz + 0xFFF"
    unfolding sz_def by (rule tlb_entry_of_regs_range)+
  ultimately show ?thesis
    using assms(2) tlb_entry_of_regs_start unfolding entry_fits_def by blast
qed

text \<open>Which pages belong to which half.\<close>

lemma even_pages:
  assumes fit: "entry_fits e sz" and a: "te_start_even e \<le> a" "a \<le> te_end_even e"
  shows "page_of (te_start_even e) \<le> page_of a" "4096 * page_of a < unat (te_end_even e)"
    "page_of a < page_of (te_start_odd e)"
proof -
  note u = entry_fits_unat [OF fit]
  obtain s z where sz: "unat (te_start_even e) = 4096 * s" "unat sz = 4096 * z"
    using fit by (auto simp: entry_fits_def elim!: dvdE)
  have n: "4096 * s \<le> unat a" "unat a \<le> 4096 * s + 4096 * z + 0xFFF"
    using a u sz by (simp_all add: word_le_nat_alt)
  then show "page_of (te_start_even e) \<le> page_of a" by (simp add: page_of_nat sz(1))
  have "unat a div 4096 \<le> s + z" using n(2) by auto
  then show "4096 * page_of a < unat (te_end_even e)" "page_of a < page_of (te_start_odd e)"
    by (simp_all add: page_of_nat u sz)
qed

lemma TLBWrite_spec:
  fixes r :: r4300_core
  defines "tb \<equiv> cp0_tlb (cp0 r)"
  assumes "emu_mode r = EMUMODE_PURE_INTERPRETER" "length (entries tb) = 32" "idx < 32"
    and old: "wf_entry (entries tb ! idx)"
    and pc: "\<not> in_entry_range (pc r) (entries tb ! idx)"
    and new: "e = tlb_entry_of_regs (cp0_regs (cp0 r)) (entries tb ! idx)" "wf_entry e"
  shows "\<exists>t t'. TLBWrite r idx = Some (r\<lparr>cp0 := (cp0 r)\<lparr>cp0_tlb := t'\<rparr>\<rparr>) \<and> tlb_map t idx = Some t'
    \<and> tlb_unmap tb idx = Some (t\<lparr>entries := entries tb\<rparr>) \<and> entries t = (entries tb)[idx := e]"
proof -
  obtain u where u: "tlb_unmap tb idx = Some u" "entries u = entries tb"
    using tlb_unmap_spec [of idx tb] assms by (simp add: Let_def)
  let ?t = "u\<lparr>entries := (entries tb)[idx := e]\<rparr>"
  have ent: "entries ?t ! idx = e" using assms by simp
  obtain t' where t': "tlb_map ?t idx = Some t'"
    using tlb_map_spec [of idx ?t] assms ent by (simp add: Let_def)
  have "TLBWrite r idx = Some (r\<lparr>cp0 := (cp0 r)\<lparr>cp0_tlb := t'\<rparr>\<rparr>)"
    using assms u t' by (auto simp: TLBWrite_def in_entry_range_def tb_def)
  then show ?thesis using u t' by (intro exI [of _ ?t] exI [of _ t']) simp
qed

lemma tlb_lookup_even:
  assumes map: "tlb_map t idx = Some t'" "idx < 32" "idx < length (entries t)" "entries t ! idx = e"
    and fit: "entry_fits e sz" and val: "te_v_even e \<noteq> 0" "4096 dvd unat (te_phys_even e)"
    and able: "lut_mappable (te_start_even e) (te_end_even e) (te_phys_even e)"
    and a: "te_start_even e \<le> a" "a \<le> te_end_even e"
  shows "tlb_lookup t' a 0 = Some (0x80000000 OR (te_phys_even e + (a - te_start_even e)))"
proof -
  have wf: "wf_entry e" using fit by (rule entry_fits_wf)
  have p: "LUT_r t' (page_of a) = lut_value (te_phys_even e) (te_start_even e) (page_addr (page_of a))"
    using tlb_map_spec [of idx t] map wf even_pages [OF fit a] able val
    by (auto simp: Let_def half_tables_def half_fill_def)
  show ?thesis
    unfolding tlb_lookup_def Let_def
    using p lut_value_nonzero lut_value_translates [of "te_phys_even e" "te_start_even e" a] val fit
    by (simp add: entry_fits_def)
qed

end
