(* ===== verification/Mi.thy ===== *)
theory Mi
  imports R4300_Props
begin

text \<open>
  The MIPS interface, \<^verbatim>\<open>device/rcp/mi/mi_controller.c\<close>: the interrupt register and its mask, through
  which every device raises, signals and clears its interrupt line, and the effect of a line on the
  processor's pending interrupts. The register index is taken from the address without a bound in
  the C code; an index beyond the enumeration is \<open>None\<close> on a read (the C code reads past the array).
\<close>

section \<open>Data\<close>

datatype mi_register = MI_INIT_MODE_REG | MI_VERSION_REG | MI_INTR_REG | MI_INTR_MASK_REG

abbreviation MI_INTR_SP :: u32 where "MI_INTR_SP \<equiv> 0x01"
abbreviation MI_INTR_SI :: u32 where "MI_INTR_SI \<equiv> 0x02"
abbreviation MI_INTR_AI :: u32 where "MI_INTR_AI \<equiv> 0x04"
abbreviation MI_INTR_VI :: u32 where "MI_INTR_VI \<equiv> 0x08"
abbreviation MI_INTR_PI :: u32 where "MI_INTR_PI \<equiv> 0x10"
abbreviation MI_INTR_DP :: u32 where "MI_INTR_DP \<equiv> 0x20"

record mi_controller =
  mi_regs :: "mi_register \<Rightarrow> u32"

record mi_sys = r4300_sys +
  mi :: mi_controller

definition mi_reg :: "u32 \<Rightarrow> mi_register option" where
  "mi_reg address =
     rd [MI_INIT_MODE_REG, MI_VERSION_REG, MI_INTR_REG, MI_INTR_MASK_REG]
        (unat (drop_bit 2 (address AND 0xffff)))"

abbreviation mreg :: "'a mi_sys_scheme \<Rightarrow> mi_register \<Rightarrow> u32" where
  "mreg s x \<equiv> mi_regs (mi s) x"

definition set_mreg :: "mi_register \<Rightarrow> u32 \<Rightarrow> 'a mi_sys_scheme \<Rightarrow> 'a mi_sys_scheme" where
  "set_mreg x v s = s\<lparr>mi := (mi s)\<lparr>mi_regs := (mi_regs (mi s))(x := v)\<rparr>\<rparr>"

section \<open>Operations\<close>

text \<open>A pair of command bits: the first clears \<open>m\<close>, the second sets it; setting wins.\<close>

definition clear_set :: "u32 \<Rightarrow> u32 \<Rightarrow> u32 \<Rightarrow> u32 \<Rightarrow> u32 \<Rightarrow> u32" where
  "clear_set w cbit sbit m r =
     (let r = (if w AND cbit \<noteq> 0 then r AND NOT m else r)
      in if w AND sbit \<noteq> 0 then r OR m else r)"

definition update_mi_init_mode :: "u32 \<Rightarrow> u32 \<Rightarrow> bool \<times> u32" where
  "update_mi_init_mode mi_init_mode w =
     (let r = (mi_init_mode AND NOT 0x7f) OR (w AND 0x7f);
          r = clear_set w 0x80 0x100 0x80 r;
          r = clear_set w 0x200 0x400 0x100 r;
          r = clear_set w 0x1000 0x2000 0x200 r
      in (w AND 0x800 \<noteq> 0, r))"

definition update_mi_intr_mask :: "u32 \<Rightarrow> u32 \<Rightarrow> u32" where
  "update_mi_intr_mask mi_intr_mask w =
     (let r = clear_set w 0x1 0x2 MI_INTR_SP mi_intr_mask;
          r = clear_set w 0x4 0x8 MI_INTR_SI r;
          r = clear_set w 0x10 0x20 MI_INTR_AI r;
          r = clear_set w 0x40 0x80 MI_INTR_VI r;
          r = clear_set w 0x100 0x200 MI_INTR_PI r
      in clear_set w 0x400 0x800 MI_INTR_DP r)"

definition poweron_mi :: "mi_controller \<Rightarrow> mi_controller" where
  "poweron_mi m = m\<lparr>mi_regs := (\<lambda>_. 0)(MI_VERSION_REG := 0x02020102)\<rparr>"

definition read_mi_regs :: "'a mi_sys_scheme \<Rightarrow> u32 \<Rightarrow> u32 option" where
  "read_mi_regs s address = do { reg \<leftarrow> mi_reg address; Some (mreg s reg) }"

text \<open>The pending, unmasked lines of the interface, handed to \<^verbatim>\<open>r4300_check_interrupt\<close>.\<close>

definition check_mi :: "'a mi_sys_scheme \<Rightarrow> 'a mi_sys_scheme option" where
  "check_mi s = upd_r4300
     (\<lambda>r. r4300_check_interrupt r CP0_CAUSE_IP2 (mreg s MI_INTR_REG AND mreg s MI_INTR_MASK_REG)) s"

definition raise_rcp_interrupt :: "'a mi_sys_scheme \<Rightarrow> u32 \<Rightarrow> 'a mi_sys_scheme option" where
  "raise_rcp_interrupt s mi_intr = do {
     let s = set_mreg MI_INTR_REG (mreg s MI_INTR_REG OR mi_intr) s;
     if mreg s MI_INTR_REG AND mreg s MI_INTR_MASK_REG \<noteq> 0
     then upd_r4300 (\<lambda>r. raise_maskable_interrupt r CP0_CAUSE_IP2) s
     else Some s }"

definition signal_rcp_interrupt :: "'a mi_sys_scheme \<Rightarrow> u32 \<Rightarrow> 'a mi_sys_scheme option" where
  "signal_rcp_interrupt s mi_intr =
     check_mi (set_mreg MI_INTR_REG (mreg s MI_INTR_REG OR mi_intr) s)"

definition clear_rcp_interrupt :: "'a mi_sys_scheme \<Rightarrow> u32 \<Rightarrow> 'a mi_sys_scheme option" where
  "clear_rcp_interrupt s mi_intr =
     check_mi (set_mreg MI_INTR_REG (mreg s MI_INTR_REG AND NOT mi_intr) s)"

definition write_mi_regs ::
  "'a mi_sys_scheme interrupt_env \<Rightarrow> 'a mi_sys_scheme \<Rightarrow> u32 \<Rightarrow> u32 \<Rightarrow> u32 \<Rightarrow> 'a mi_sys_scheme option" where
  "write_mi_regs env s address value msk =
     (case mi_reg address of
        Some MI_INIT_MODE_REG \<Rightarrow> do {
          let (clear_dp, v) = update_mi_init_mode (mreg s MI_INIT_MODE_REG) (value AND msk);
          let s = set_mreg MI_INIT_MODE_REG v s;
          if clear_dp then clear_rcp_interrupt s MI_INTR_DP else Some s }
      | Some MI_INTR_MASK_REG \<Rightarrow> do {
          let s = set_mreg MI_INTR_MASK_REG
                    (update_mi_intr_mask (mreg s MI_INTR_MASK_REG) (value AND msk)) s;
          s \<leftarrow> check_mi s;
          let s = s\<lparr>r4300 := cp0_update_count (r4300 s)\<rparr>;
          if 0 \<le>s cycle_count (cp0 (r4300 s)) then gen_interrupt env s else Some s }
      | _ \<Rightarrow> Some s)"

section \<open>Frame facts\<close>

lemma mreg_set_mreg [simp]: "mreg (set_mreg x v s) y = (if y = x then v else mreg s y)"
  by (simp add: set_mreg_def)

lemma set_mreg_r4300 [simp]: "r4300 (set_mreg x v s) = r4300 s"
  by (simp add: set_mreg_def)

section \<open>The command bits\<close>

lemma bit_clear_set:
  "bit (clear_set w c e m r) n \<longleftrightarrow>
     (if bit m n then w AND e \<noteq> 0 \<or> (w AND c = 0 \<and> bit r n) else bit r n)"
  by (auto simp: clear_set_def bit_simps Let_def dest: bit_imp_le_length)

section \<open>Interrupt lines\<close>

text \<open>
  The consistency of the interface with the processor: bit IP2 of the cause register is set exactly
  when some unmasked line is up.
\<close>

definition ip2_consistent :: "'a mi_sys_scheme \<Rightarrow> bool" where
  "ip2_consistent s \<longleftrightarrow>
     (bit (creg (r4300 s) CP0_CAUSE_REG) 10 \<longleftrightarrow> mreg s MI_INTR_REG AND mreg s MI_INTR_MASK_REG \<noteq> 0)"

definition queue_room :: "'a r4300_sys_scheme \<Rightarrow> bool" where
  "queue_room s \<longleftrightarrow> wf_queue (cp0_q (cp0 (r4300 s)))
     \<and> length (events (cp0_q (cp0 (r4300 s)))) < INTERRUPT_NODES_POOL_CAPACITY"

lemma bit_exccode_mask: "\<not> bit (CP0_CAUSE_EXCCODE_MASK) 10" "bit CP0_CAUSE_IP2 10"
  by (simp_all add: bit_numeral_rec)

lemma bit_pending_cause: "bit (pending_cause r CP0_CAUSE_IP2 sc) 10 \<longleftrightarrow> sc \<noteq> 0"
  by (auto simp: pending_cause_def bit_simps bit_numeral_rec)

lemma check_interrupt_total:
  assumes "wf_queue (cp0_q (cp0 r))" "length (events (cp0_q (cp0 r))) < INTERRUPT_NODES_POOL_CAPACITY"
  shows "\<exists>r'. r4300_check_interrupt r ip sc = Some r' \<and> wf_queue (cp0_q (cp0 r'))
    \<and> creg r' = (cp0_regs (cp0 r))(CP0_CAUSE_REG := pending_cause r ip sc)
    \<and> events (cp0_q (cp0 r')) =
        (if check_due r ip sc
         then \<lparr>evt_type = CHECK_INT, evt_count = creg r CP0_COUNT_REG\<rparr> # events (cp0_q (cp0 r))
         else events (cp0_q (cp0 r)))"
proof (cases "check_due r ip sc")
  case True
  then show ?thesis using check_interrupt_due [OF True assms] by auto
next
  case False
  then show ?thesis using check_interrupt_idle [OF False] assms(1) by (simp add: set_creg_def)
qed

lemma check_mi_spec:
  assumes "queue_room s"
  shows "\<exists>s'. check_mi s = Some s' \<and> ip2_consistent s' \<and> mi s' = mi s \<and> wf_queue (cp0_q (cp0 (r4300 s')))"
proof -
  obtain r' where "r4300_check_interrupt (r4300 s) CP0_CAUSE_IP2 (mreg s MI_INTR_REG AND mreg s MI_INTR_MASK_REG) = Some r'"
    "wf_queue (cp0_q (cp0 r'))"
    "creg r' = (cp0_regs (cp0 (r4300 s)))(CP0_CAUSE_REG :=
       pending_cause (r4300 s) CP0_CAUSE_IP2 (mreg s MI_INTR_REG AND mreg s MI_INTR_MASK_REG))"
    using check_interrupt_total [of "r4300 s"] assms unfolding queue_room_def by blast
  then show ?thesis by (auto simp: check_mi_def upd_r4300_def ip2_consistent_def bit_pending_cause)
qed

lemma queue_room_set_mreg [simp]: "queue_room (set_mreg x v s) = queue_room s"
  by (simp add: queue_room_def)

end
