(* ===== verification/Memory.thy ===== *)
theory Memory
  imports Mi
begin

text \<open>
  The physical memory map: \<^verbatim>\<open>device/memory/memory.c\<close> and the mapping table of \<^verbatim>\<open>init_device\<close> in
  \<^verbatim>\<open>device/device.c\<close>. A handler (an object with its read and write function in C) is named by a
  constructor. The breakpoint functions are those of a \<^verbatim>\<open>DBG\<close> build.
\<close>

section \<open>Data\<close>

datatype mem_handler =
    H_open_bus | H_rdram_dram | H_rdram_dram_corrupted | H_rdram_fb | H_rdram_regs | H_rsp_mem | H_rsp_regs
  | H_rsp_regs2 | H_dpc_regs | H_dps_regs | H_mi_regs | H_vi_regs | H_ai_regs | H_pi_regs | H_ri_regs
  | H_si_regs | H_dd_regs | H_dd_rom | H_cart_dom2 | H_is_viewer | H_cart_rom | H_pif_mem
  | H_with_bp_checks

datatype mem_type =
    M64P_MEM_NOTHING | M64P_MEM_RDRAM | M64P_MEM_RDRAMREG | M64P_MEM_RSPMEM | M64P_MEM_RSPREG
  | M64P_MEM_RSP | M64P_MEM_DP | M64P_MEM_DPS | M64P_MEM_MI | M64P_MEM_VI | M64P_MEM_AI | M64P_MEM_PI
  | M64P_MEM_RI | M64P_MEM_SI | M64P_MEM_FLASHRAMSTAT | M64P_MEM_ROM | M64P_MEM_PIF
  | M64P_MEM_DDREG | M64P_MEM_DDROM

record mem_mapping =
  mm_begin :: u32
  mm_end :: u32
  mm_type :: mem_type
  mm_handler :: mem_handler

record memory =
  handlers :: "u16 \<Rightarrow> mem_handler"
  memtype :: "u16 \<Rightarrow> mem_type"
  bp_checks :: "u16 \<Rightarrow> u8"
  saved_handlers :: "u16 \<Rightarrow> mem_handler"
  dbg_handler :: mem_handler

record mem_sys = mi_sys +
  mem :: memory

abbreviation RDRAM_MAX_SIZE :: nat where "RDRAM_MAX_SIZE \<equiv> 0x800000"
abbreviation CART_ROM_MAX_SIZE :: nat where "CART_ROM_MAX_SIZE \<equiv> 0x4000000"
abbreviation DD_ROM_MAX_SIZE :: nat where "DD_ROM_MAX_SIZE \<equiv> 0x400000"
abbreviation SP_MEM_SIZE :: nat where "SP_MEM_SIZE \<equiv> 0x2000"
abbreviation PIF_ROM_SIZE :: nat where "PIF_ROM_SIZE \<equiv> 0x7c0"
abbreviation PIF_RAM_SIZE :: nat where "PIF_RAM_SIZE \<equiv> 0x40"

abbreviation MM_RDRAM_DRAM :: u32 where "MM_RDRAM_DRAM \<equiv> 0x00000000"
abbreviation MM_RDRAM_REGS :: u32 where "MM_RDRAM_REGS \<equiv> 0x03f00000"
abbreviation MM_RSP_MEM :: u32 where "MM_RSP_MEM \<equiv> 0x04000000"
abbreviation MM_RSP_REGS :: u32 where "MM_RSP_REGS \<equiv> 0x04040000"
abbreviation MM_RSP_REGS2 :: u32 where "MM_RSP_REGS2 \<equiv> 0x04080000"
abbreviation MM_DPC_REGS :: u32 where "MM_DPC_REGS \<equiv> 0x04100000"
abbreviation MM_DPS_REGS :: u32 where "MM_DPS_REGS \<equiv> 0x04200000"
abbreviation MM_MI_REGS :: u32 where "MM_MI_REGS \<equiv> 0x04300000"
abbreviation MM_VI_REGS :: u32 where "MM_VI_REGS \<equiv> 0x04400000"
abbreviation MM_AI_REGS :: u32 where "MM_AI_REGS \<equiv> 0x04500000"
abbreviation MM_PI_REGS :: u32 where "MM_PI_REGS \<equiv> 0x04600000"
abbreviation MM_RI_REGS :: u32 where "MM_RI_REGS \<equiv> 0x04700000"
abbreviation MM_SI_REGS :: u32 where "MM_SI_REGS \<equiv> 0x04800000"
abbreviation MM_DOM2_ADDR1 :: u32 where "MM_DOM2_ADDR1 \<equiv> 0x05000000"
abbreviation MM_DD_ROM :: u32 where "MM_DD_ROM \<equiv> 0x06000000"
abbreviation MM_DOM2_ADDR2 :: u32 where "MM_DOM2_ADDR2 \<equiv> 0x08000000"
abbreviation MM_CART_ROM :: u32 where "MM_CART_ROM \<equiv> 0x10000000"
abbreviation MM_IS_VIEWER :: u32 where "MM_IS_VIEWER \<equiv> 0x13ff0000"
abbreviation MM_PIF_MEM :: u32 where "MM_PIF_MEM \<equiv> 0x1fc00000"
abbreviation MM_CART_DOM3 :: u32 where "MM_CART_DOM3 \<equiv> 0x1fd00000"

section \<open>Mapping regions\<close>

definition region_of :: "u32 \<Rightarrow> u16" where
  "region_of address = ucast (drop_bit 16 address)"

definition mem_get_handler :: "memory \<Rightarrow> u32 \<Rightarrow> mem_handler" where
  "mem_get_handler m address = handlers m (region_of address)"

definition map_region :: "memory \<Rightarrow> u16 \<Rightarrow> mem_handler \<Rightarrow> memory" where
  "map_region m region h = m\<lparr>handlers := (handlers m)(region := h)\<rparr>"

definition apply_mem_mapping :: "memory \<Rightarrow> mem_mapping \<Rightarrow> memory" where
  "apply_mem_mapping m mp =
     fold (\<lambda>i m. map_region m (word_of_nat i) (mm_handler mp))
       [unat (region_of (mm_begin mp)) ..< Suc (unat (region_of (mm_end mp)))] m"

definition init_memory :: "memory \<Rightarrow> mem_mapping list \<Rightarrow> memory" where
  "init_memory m mappings = fold (\<lambda>mp m. apply_mem_mapping m mp) mappings m"

text \<open>
  The table of \<^verbatim>\<open>init_device\<close>. \<open>A x m\<close> is the macro with the inclusive end \<^verbatim>\<open>x | m\<close>; the ROM sizes
  enter through \<^verbatim>\<open>rom_size - 1\<close> and \<^verbatim>\<open>dd_rom_size - 1\<close>, converted to 32 bits.
\<close>

definition mapping_A :: "u32 \<Rightarrow> u32 \<Rightarrow> mem_type \<Rightarrow> mem_handler \<Rightarrow> mem_mapping" where
  "mapping_A x m ty h = \<lparr>mm_begin = x, mm_end = x OR m, mm_type = ty, mm_handler = h\<rparr>"

definition device_mappings :: "u64 \<Rightarrow> u64 \<Rightarrow> mem_mapping list" where
  "device_mappings rom_size dd_rom_size =
     [\<lparr>mm_begin = 0x00000000, mm_end = 0xffffffff, mm_type = M64P_MEM_NOTHING, mm_handler = H_open_bus\<rparr>,
      mapping_A MM_RDRAM_DRAM 0x3efffff M64P_MEM_RDRAM H_rdram_dram,
      mapping_A MM_RDRAM_REGS 0xfffff M64P_MEM_RDRAMREG H_rdram_regs,
      mapping_A MM_RSP_MEM 0xffff M64P_MEM_RSPMEM H_rsp_mem,
      mapping_A MM_RSP_REGS 0xffff M64P_MEM_RSPREG H_rsp_regs,
      mapping_A MM_RSP_REGS2 0xffff M64P_MEM_RSP H_rsp_regs2,
      mapping_A MM_DPC_REGS 0xffff M64P_MEM_DP H_dpc_regs,
      mapping_A MM_DPS_REGS 0xffff M64P_MEM_DPS H_dps_regs,
      mapping_A MM_MI_REGS 0xffff M64P_MEM_MI H_mi_regs,
      mapping_A MM_VI_REGS 0xffff M64P_MEM_VI H_vi_regs,
      mapping_A MM_AI_REGS 0xffff M64P_MEM_AI H_ai_regs,
      mapping_A MM_PI_REGS 0xffff M64P_MEM_PI H_pi_regs,
      mapping_A MM_RI_REGS 0xffff M64P_MEM_RI H_ri_regs,
      mapping_A MM_SI_REGS 0xffff M64P_MEM_SI H_si_regs,
      (if 0 < dd_rom_size then mapping_A MM_DOM2_ADDR1 0xffffff M64P_MEM_DDREG H_dd_regs
       else mapping_A MM_DOM2_ADDR1 0xffffff M64P_MEM_NOTHING H_open_bus),
      (if 0 < dd_rom_size then mapping_A MM_DD_ROM (ucast (dd_rom_size - 1)) M64P_MEM_DDROM H_dd_rom
       else mapping_A MM_DD_ROM 0x1ffffff M64P_MEM_NOTHING H_open_bus),
      mapping_A MM_DOM2_ADDR2 0x1ffff M64P_MEM_FLASHRAMSTAT H_cart_dom2,
      mapping_A MM_IS_VIEWER 0xfff M64P_MEM_NOTHING H_is_viewer,
      mapping_A MM_CART_ROM (ucast (rom_size - 1)) M64P_MEM_ROM H_cart_rom,
      mapping_A MM_PIF_MEM 0xffff M64P_MEM_PIF H_pif_mem]"

section \<open>The memory base\<close>

text \<open>
  \<^verbatim>\<open>mem_base_u32\<close> as a byte offset into the allocation; the low bit of the base pointer, the
  compressed mode, is the boolean. \<open>None\<close> is the null pointer.
\<close>

abbreviation MB_CART_ROM :: nat where "MB_CART_ROM \<equiv> RDRAM_MAX_SIZE"
abbreviation MB_RSP_MEM :: nat where "MB_RSP_MEM \<equiv> MB_CART_ROM + CART_ROM_MAX_SIZE"
abbreviation MB_DD_ROM :: nat where "MB_DD_ROM \<equiv> MB_RSP_MEM + SP_MEM_SIZE"
abbreviation MB_PIF_MEM :: nat where "MB_PIF_MEM \<equiv> MB_DD_ROM + DD_ROM_MAX_SIZE"
abbreviation MB_MAX_SIZE :: nat where "MB_MAX_SIZE \<equiv> MB_PIF_MEM + PIF_ROM_SIZE + PIF_RAM_SIZE"
abbreviation MB_MAX_SIZE_FULL :: nat where "MB_MAX_SIZE_FULL \<equiv> 0x20000000"

definition mem_base_u32 :: "bool \<Rightarrow> u32 \<Rightarrow> nat option" where
  "mem_base_u32 compressed address =
     (if \<not> compressed then Some (unat address)
      else if unat address < RDRAM_MAX_SIZE then Some (unat (address - MM_RDRAM_DRAM))
      else if MM_CART_ROM \<le> address then
        if address AND 0xfff00000 = MM_PIF_MEM then Some (unat (address - MM_PIF_MEM) + MB_PIF_MEM)
        else Some (unat (address - MM_CART_ROM) + MB_CART_ROM)
      else if address AND 0xfe000000 = MM_DD_ROM then Some (unat (address - MM_DD_ROM) + MB_DD_ROM)
      else if address AND 0xffffe000 = MM_RSP_MEM then Some (unat (address - MM_RSP_MEM) + MB_RSP_MEM)
      else None)"

section \<open>Open bus\<close>

definition read_open_bus :: "u32 \<Rightarrow> u32" where
  "read_open_bus address = (let v = address AND 0xffff in v OR push_bit 16 v)"

section \<open>Memory breakpoints\<close>

abbreviation BP_CHECK_READ :: u8 where "BP_CHECK_READ \<equiv> 0x1"
abbreviation BP_CHECK_WRITE :: u8 where "BP_CHECK_WRITE \<equiv> 0x2"

definition activate_memory_break :: "u8 \<Rightarrow> memory \<Rightarrow> u32 \<Rightarrow> memory" where
  "activate_memory_break kind m address =
     (let region = region_of address;
          m = (if bp_checks m region AND (BP_CHECK_READ OR BP_CHECK_WRITE) = 0
               then m\<lparr>saved_handlers := (saved_handlers m)(region := handlers m region),
                      handlers := (handlers m)(region := dbg_handler m)\<rparr>
               else m)
      in m\<lparr>bp_checks := (bp_checks m)(region := bp_checks m region OR kind)\<rparr>)"

definition deactivate_memory_break :: "u8 \<Rightarrow> memory \<Rightarrow> u32 \<Rightarrow> memory" where
  "deactivate_memory_break kind m address =
     (let region = region_of address;
          m = m\<lparr>bp_checks := (bp_checks m)(region := bp_checks m region AND NOT kind)\<rparr>
      in if bp_checks m region AND (BP_CHECK_READ OR BP_CHECK_WRITE) = 0
         then m\<lparr>handlers := (handlers m)(region := saved_handlers m region)\<rparr>
         else m)"

definition activate_memory_break_read :: "memory \<Rightarrow> u32 \<Rightarrow> memory" where
  "activate_memory_break_read = activate_memory_break BP_CHECK_READ"

definition deactivate_memory_break_read :: "memory \<Rightarrow> u32 \<Rightarrow> memory" where
  "deactivate_memory_break_read = deactivate_memory_break BP_CHECK_READ"

definition activate_memory_break_write :: "memory \<Rightarrow> u32 \<Rightarrow> memory" where
  "activate_memory_break_write = activate_memory_break BP_CHECK_WRITE"

definition deactivate_memory_break_write :: "memory \<Rightarrow> u32 \<Rightarrow> memory" where
  "deactivate_memory_break_write = deactivate_memory_break BP_CHECK_WRITE"

definition get_memory_type :: "memory \<Rightarrow> u32 \<Rightarrow> mem_type" where
  "get_memory_type m address = memtype m (region_of address)"

text \<open>
  \<^verbatim>\<open>map_region\<close> of a \<^verbatim>\<open>DBG\<close> build. \<open>bp\<close> is \<^verbatim>\<open>lookup_breakpoint\<close> on the region: whether an enabled
  breakpoint covers it.
\<close>

definition map_region_dbg :: "(u16 \<Rightarrow> bool) \<Rightarrow> memory \<Rightarrow> u16 \<Rightarrow> mem_type \<Rightarrow> mem_handler \<Rightarrow> memory" where
  "map_region_dbg bp m region ty h =
     (let m = m\<lparr>memtype := (memtype m)(region := ty)\<rparr>
      in if bp region
         then m\<lparr>saved_handlers := (saved_handlers m)(region := h),
                handlers := (handlers m)(region := dbg_handler m)\<rparr>
         else m\<lparr>handlers := (handlers m)(region := h)\<rparr>)"

section \<open>Lookup after mapping\<close>

lemma fold_map_region:
  assumes "n \<le> 0x10000"
  shows "handlers (fold (\<lambda>i m. map_region m (word_of_nat i) h) [b..<n] m) r =
    (if b \<le> unat r \<and> unat r < n then h else handlers m r)"
  using assms
proof (induction n)
  case (Suc n)
  have "unat (word_of_nat n :: u16) = n" by (rule unat_word_of_nat_lt) (use Suc.prems in simp)
  then have "word_of_nat n = r \<longleftrightarrow> n = unat r" by (simp add: word_unat_eq_iff)
  then show ?case using Suc by (cases "b \<le> n") (auto simp: map_region_def less_Suc_eq)
qed simp

lemma apply_mem_mapping_handler:
  "mem_get_handler (apply_mem_mapping m mp) a =
     (if region_of (mm_begin mp) \<le> region_of a \<and> region_of a \<le> region_of (mm_end mp)
      then mm_handler mp else mem_get_handler m a)"
proof -
  have "unat (region_of (mm_end mp)) < 0x10000"
    using unsigned_less [of "region_of (mm_end mp)", where ?'a = nat] by simp
  then show ?thesis
    unfolding apply_mem_mapping_def mem_get_handler_def
    by (subst fold_map_region) (auto simp: word_le_nat_alt)
qed

lemma init_memory_append:
  "init_memory m (ms @ [mp]) = apply_mem_mapping (init_memory m ms) mp"
  by (simp add: init_memory_def)

text \<open>The last mapping of the list that covers an address decides its handler.\<close>

lemma init_memory_handler:
  "mem_get_handler (init_memory m ms) a =
     (case find (\<lambda>mp. region_of (mm_begin mp) \<le> region_of a \<and> region_of a \<le> region_of (mm_end mp)) (rev ms) of
        Some mp \<Rightarrow> mm_handler mp | None \<Rightarrow> mem_get_handler m a)"
proof (induction ms rule: rev_induct)
  case Nil
  then show ?case by (simp add: init_memory_def)
next
  case (snoc mp ms)
  then show ?case by (simp add: init_memory_append apply_mem_mapping_handler)
qed

lemma region_of_nat: "unat (region_of a) = unat a div 0x10000"
proof -
  have "unat (drop_bit 16 a) < 2 ^ LENGTH(16)"
    using unat_u32_less [of a] by (simp only: unat_drop_bit) simp
  then have "unat (region_of a) = unat (drop_bit 16 a)"
    unfolding region_of_def by (simp add: unsigned_ucast_eq take_bit_nat_eq_self)
  then show ?thesis by (simp only: unat_drop_bit) simp
qed

section \<open>Breakpoints\<close>

lemma no_bits_word8: "bp AND (1 OR 2) = (0 :: u8) \<longleftrightarrow> \<not> bit bp 0 \<and> \<not> bit bp 1"
proof -
  have "bp AND (1 OR 2) = (0 :: u8) \<longleftrightarrow> (\<forall>n<8. \<not> bit (bp AND 3) n)"
    by (auto simp: bit_eq_iff bit_simps intro: ccontr)
  also have "\<dots> \<longleftrightarrow> \<not> bit bp 0 \<and> \<not> bit bp 1"
    by (auto simp: bit_simps bit_numeral_rec less_Suc_eq numeral_eq_Suc)
  finally show ?thesis .
qed

end
