(* ===== verification/Buffers.thy ===== *)
theory Buffers
  imports Prelude
begin

text \<open>
  Counting loops, block copies between byte buffers and the storage backend interface
  \<^verbatim>\<open>backends/api/storage_backend.h\<close>. RDRAM, the cartridge ROM and the save memories hold the
  console's big-endian bytes as host words; on a little-endian host the byte of console address
  \<open>x\<close> is at index \<^verbatim>\<open>x ^ S8\<close> with \<^verbatim>\<open>S8 = 3\<close>.
\<close>

section \<open>Loops and copies\<close>

text \<open>\<^verbatim>\<open>for (i = a; i < a + n; ++i) body\<close>, where the body may fault.\<close>

fun for_range :: "nat \<Rightarrow> nat \<Rightarrow> (nat \<Rightarrow> 's \<Rightarrow> 's option) \<Rightarrow> 's \<Rightarrow> 's option" where
  "for_range i 0 body s = Some s"
| "for_range i (Suc n) body s = do { s \<leftarrow> body i s; for_range (Suc i) n body s }"

definition s8 :: "nat \<Rightarrow> nat" where
  "s8 x = x XOR 3"

text \<open>\<^verbatim>\<open>for (i = 0; i < n; ++i) dst[(d+i)^S8] = src[(s+i)^S8];\<close>\<close>

definition copy_s8 :: "u8 list \<Rightarrow> nat \<Rightarrow> u8 list \<Rightarrow> nat \<Rightarrow> nat \<Rightarrow> u8 list option" where
  "copy_s8 dst d src s n =
     for_range 0 n (\<lambda>i dst. do { v \<leftarrow> rd src (s8 (s + i)); wr dst (s8 (d + i)) v }) dst"

text \<open>\<^verbatim>\<open>memcpy(dst + d, src + s, n)\<close> and \<^verbatim>\<open>memset(dst + d, v, n)\<close>.\<close>

definition memcpy :: "'a list \<Rightarrow> nat \<Rightarrow> 'a list \<Rightarrow> nat \<Rightarrow> nat \<Rightarrow> 'a list option" where
  "memcpy dst d src s n =
     (if d + n \<le> length dst \<and> s + n \<le> length src
      then Some (take d dst @ take n (drop s src) @ drop (d + n) dst) else None)"

definition memset :: "'a list \<Rightarrow> nat \<Rightarrow> 'a \<Rightarrow> nat \<Rightarrow> 'a list option" where
  "memset dst d v n =
     (if d + n \<le> length dst then Some (take d dst @ replicate n v @ drop (d + n) dst) else None)"

section \<open>Storage backends\<close>

text \<open>
  A storage is its bytes (\<^verbatim>\<open>data\<close>, with \<^verbatim>\<open>size\<close> their number) and the \<^verbatim>\<open>save\<close> notifications it has
  received, latest first.
\<close>

record storage =
  st_data :: "u8 list"
  st_saves :: "(nat \<times> nat) list"

definition st_save :: "nat \<Rightarrow> nat \<Rightarrow> storage \<Rightarrow> storage" where
  "st_save start sz st = st\<lparr>st_saves := (start, sz) # st_saves st\<rparr>"

section \<open>Facts about loops\<close>

lemma for_range_inv:
  assumes "P i s"
    and "\<And>j s. i \<le> j \<Longrightarrow> j < i + n \<Longrightarrow> P j s \<Longrightarrow> \<exists>s'. body j s = Some s' \<and> P (Suc j) s'"
  shows "\<exists>s'. for_range i n body s = Some s' \<and> P (i + n) s'"
  using assms
proof (induction n arbitrary: i s)
  case (Suc n)
  obtain s' where s': "body i s = Some s'" "P (Suc i) s'"
    using Suc.prems(2) [of i s] Suc.prems(1) by auto
  have "\<exists>t. for_range (Suc i) n body s' = Some t \<and> P (Suc i + n) t"
    by (rule Suc.IH) (use s' Suc.prems(2) in auto)
  then show ?case using s' by simp
qed simp

text \<open>A loop one of whose iterations always faults faults.\<close>

lemma for_range_None:
  assumes "i \<le> j" "j < i + n" "\<And>s. body j s = None"
  shows "for_range i n body s = None"
  using assms
proof (induction n arbitrary: i s)
  case (Suc n)
  show ?case
  proof (cases "j = i")
    case False
    have "\<And>s. for_range (Suc i) n body s = None"
      by (rule Suc.IH) (use Suc.prems False in auto)
    then show ?thesis by (simp add: bind_eq_None_conv)
  qed (use Suc.prems in simp)
qed simp

lemma for_range_cong:
  assumes "\<And>j s. i \<le> j \<Longrightarrow> j < i + n \<Longrightarrow> f j s = g j s"
  shows "for_range i n f s = for_range i n g s"
  using assms
proof (induction n arbitrary: i s)
  case (Suc n)
  have "\<And>s. for_range (Suc i) n f s = for_range (Suc i) n g s"
    by (rule Suc.IH) (use Suc.prems in auto)
  then show ?case using Suc.prems [of i] by (cases "g i s") simp_all
qed simp

section \<open>Facts about copies\<close>

lemma s8_s8 [simp]: "s8 (s8 x) = x"
  by (simp add: s8_def xor.assoc)

lemma s8_inj [simp]: "s8 x = s8 y \<longleftrightarrow> x = y"
  using s8_s8 [of x] s8_s8 [of y] by metis

lemma s8_eq: "s8 x = 4 * (x div 4) + (3 - x mod 4)"
proof -
  have "s8 x = push_bit 2 (drop_bit 2 (x XOR 3)) + take_bit 2 (x XOR 3)"
    unfolding s8_def by (rule bits_ident [symmetric])
  also have "drop_bit 2 (x XOR 3) = drop_bit 2 x"
    by (rule bit_eqI) (auto simp: bit_simps bit_numeral_rec)
  also have "take_bit 2 (x XOR 3) = take_bit 2 (take_bit 2 x XOR 3)"
    by (rule bit_eqI) (auto simp: bit_simps)
  also have "take_bit 2 x = x mod 4" by (simp add: take_bit_nat_def)
  also have "take_bit 2 (x mod 4 XOR 3) = 3 - x mod 4"
  proof -
    consider "x mod 4 = 0" | "x mod 4 = 1" | "x mod 4 = 2" | "x mod 4 = 3" by linarith
    then show ?thesis by cases (simp_all add: take_bit_nat_def)
  qed
  finally show ?thesis by (simp add: push_bit_nat_def drop_bit_nat_def)
qed

lemma s8_less: "4 dvd n \<Longrightarrow> s8 x < n \<longleftrightarrow> x < n"
proof (elim dvdE)
  fix k
  assume n: "n = 4 * k"
  have gen: "4 * q + r < 4 * k \<longleftrightarrow> q < k" if "r < 4" for q r :: nat
    using that by linarith
  have "s8 x < n \<longleftrightarrow> x div 4 < k" unfolding s8_eq n by (rule gen) simp
  moreover have "4 * (x div 4) + x mod 4 < n \<longleftrightarrow> x div 4 < k" unfolding n by (rule gen) simp
  ultimately show "s8 x < n \<longleftrightarrow> x < n" by simp
qed

lemma copy_s8_Some:
  assumes "4 dvd length dst" "4 dvd length src" "d + n \<le> length dst" "s + n \<le> length src"
  shows "\<exists>r. copy_s8 dst d src s n = Some r \<and> length r = length dst
    \<and> (\<forall>j<n. r ! s8 (d + j) = src ! s8 (s + j))
    \<and> (\<forall>x. (\<forall>j<n. x \<noteq> s8 (d + j)) \<longrightarrow> r ! x = dst ! x)"
proof -
  let ?P = "\<lambda>i r. length r = length dst \<and> (\<forall>j<i. r ! s8 (d + j) = src ! s8 (s + j))
    \<and> (\<forall>x. (\<forall>j<i. x \<noteq> s8 (d + j)) \<longrightarrow> r ! x = dst ! x)"
  have "\<exists>r. copy_s8 dst d src s n = Some r \<and> ?P (0 + n) r"
    unfolding copy_s8_def
  proof (rule for_range_inv)
    fix j r
    assume j: "j < 0 + n" "?P j r"
    have in_range: "s8 (s + j) < length src" "s8 (d + j) < length r"
      using assms j by (simp_all add: s8_less)
    then show "\<exists>r'. do { v \<leftarrow> rd src (s8 (s + j)); wr r (s8 (d + j)) v } = Some r' \<and> ?P (Suc j) r'"
      using j by (auto simp: nth_list_update less_Suc_eq)
  qed simp
  then show ?thesis by simp
qed

lemma copy_s8_None:
  assumes "4 dvd length dst" "d \<le> length dst" "length dst < d + n"
  shows "copy_s8 dst d src s n = None"
proof -
  let ?P = "\<lambda>i (r :: u8 list). length r = length dst"
  obtain k where k: "length dst = d + k" "k < n" using assms by (metis le_Suc_ex nat_add_left_cancel_less)
  have gen: "for_range i m (\<lambda>i dst. do { v \<leftarrow> rd src (s8 (s + i)); wr dst (s8 (d + i)) v }) r = None"
    if "length r = length dst" "i \<le> k" "k < i + m" for i m r
    using that
  proof (induction m arbitrary: i r)
    case (Suc m)
    show ?case
    proof (cases "i = k")
      case True
      then have "\<not> s8 (d + i) < length r" using k assms(1) Suc.prems by (simp add: s8_less)
      then show ?thesis by (simp add: rd_def split: bind_split)
    next
      case False
      then show ?thesis using Suc
        by (auto simp: rd_def wr_def split: bind_split)
    qed
  qed simp
  show ?thesis unfolding copy_s8_def by (rule gen) (use k in auto)
qed

lemma copy_s8_length: "copy_s8 dst d src s n = Some r \<Longrightarrow> length r = length dst"
proof -
  have "for_range i n (\<lambda>i dst. do { v \<leftarrow> rd src (s8 (s + i)); wr dst (s8 (d + i)) v }) dst = Some r
    \<Longrightarrow> length r = length dst" for i
    by (induction n arbitrary: i dst) (auto simp: wr_eq_Some_iff split: bind_splits)
  then show "copy_s8 dst d src s n = Some r \<Longrightarrow> length r = length dst"
    by (simp add: copy_s8_def)
qed

lemma memcpy_length: "memcpy dst d src s n = Some r \<Longrightarrow> length r = length dst"
  by (auto simp: memcpy_def split: if_splits)

lemma memset_length: "memset dst d v n = Some r \<Longrightarrow> length r = length dst"
  by (auto simp: memset_def split: if_splits)

lemma memset_nth:
  "memset dst d v n = Some r \<Longrightarrow> x < length dst \<Longrightarrow> r ! x = (if d \<le> x \<and> x < d + n then v else dst ! x)"
  by (auto simp: memset_def nth_append split: if_splits)

lemma memcpy_nth:
  "memcpy dst d src s n = Some r \<Longrightarrow> x < length dst \<Longrightarrow>
     r ! x = (if d \<le> x \<and> x < d + n then src ! (s + (x - d)) else dst ! x)"
  by (auto simp: memcpy_def nth_append min_absorb2 split: if_splits)

end
