(* ===== verification/Rdram.thy ===== *)
theory Rdram
  imports Memory Buffers
begin

text \<open>
  RDRAM and its interface: \<^verbatim>\<open>device/rdram/rdram.c\<close> and \<^verbatim>\<open>device/rcp/ri/ri_controller.c\<close>. The DRAM is
  kept as the bytes of the host's word array, so that word accesses (\<^verbatim>\<open>dram[addr]\<close>) and byte accesses
  of DMA transfers see one object. The list is the part of the memory base reserved for RDRAM
  (\<^verbatim>\<open>RDRAM_MAX_SIZE\<close> bytes in the program), of which the first \<^verbatim>\<open>dram_size\<close> bytes are fitted; an
  access beyond the reserved part is \<open>None\<close>.
\<close>

section \<open>Data\<close>

datatype rdram_register =
    RDRAM_CONFIG_REG | RDRAM_DEVICE_ID_REG | RDRAM_DELAY_REG | RDRAM_MODE_REG
  | RDRAM_REF_INTERVAL_REG | RDRAM_REF_ROW_REG | RDRAM_RAS_INTERVAL_REG | RDRAM_MIN_INTERVAL_REG
  | RDRAM_ADDR_SELECT_REG | RDRAM_DEVICE_MANUF_REG

datatype ri_register =
    RI_MODE_REG | RI_CONFIG_REG | RI_CURRENT_LOAD_REG | RI_SELECT_REG | RI_REFRESH_REG
  | RI_LATENCY_REG | RI_ERROR_REG | RI_WERROR_REG

abbreviation RDRAM_MAX_MODULES_COUNT :: nat where "RDRAM_MAX_MODULES_COUNT \<equiv> 8"
abbreviation RDRAM_BCAST_ADDRESS_MASK :: u32 where "RDRAM_BCAST_ADDRESS_MASK \<equiv> 0x00080000"

record rdram =
  rdram_regs :: "(rdram_register \<Rightarrow> u32) list"
  dram :: "u8 list"
  dram_size :: nat

record ri_controller =
  ri_regs :: "ri_register \<Rightarrow> u32"

record rdram_sys = mem_sys +
  rdram :: rdram
  ri :: ri_controller

definition rdram_reg :: "u32 \<Rightarrow> rdram_register option" where
  "rdram_reg address =
     rd [RDRAM_CONFIG_REG, RDRAM_DEVICE_ID_REG, RDRAM_DELAY_REG, RDRAM_MODE_REG,
         RDRAM_REF_INTERVAL_REG, RDRAM_REF_ROW_REG, RDRAM_RAS_INTERVAL_REG, RDRAM_MIN_INTERVAL_REG,
         RDRAM_ADDR_SELECT_REG, RDRAM_DEVICE_MANUF_REG]
        (unat (drop_bit 2 (address AND 0x3ff)))"

definition rdram_dram_address :: "u32 \<Rightarrow> u32" where
  "rdram_dram_address address = drop_bit 2 (address AND 0xffffff)"

definition ri_reg :: "u32 \<Rightarrow> ri_register option" where
  "ri_reg address =
     rd [RI_MODE_REG, RI_CONFIG_REG, RI_CURRENT_LOAD_REG, RI_SELECT_REG, RI_REFRESH_REG,
         RI_LATENCY_REG, RI_ERROR_REG, RI_WERROR_REG]
        (unat (drop_bit 2 (address AND 0xffff)))"

definition ri_address_to_id_field :: "u32 \<Rightarrow> u16" where
  "ri_address_to_id_field address =
     ucast (if drop_bit 20 address = 0x03f then drop_bit 10 (address AND 0x0007fc00)
            else drop_bit 20 (address AND 0x00f00000))"

section \<open>The RDRAM interface\<close>

definition poweron_ri :: "ri_controller \<Rightarrow> ri_controller" where
  "poweron_ri r = r\<lparr>ri_regs := (\<lambda>_. 0)\<rparr>"

definition read_ri_regs :: "ri_controller \<Rightarrow> u32 \<Rightarrow> u32 option" where
  "read_ri_regs r address = do { reg \<leftarrow> ri_reg address; Some (ri_regs r reg) }"

definition write_ri_regs :: "ri_controller \<Rightarrow> u32 \<Rightarrow> u32 \<Rightarrow> u32 \<Rightarrow> ri_controller option" where
  "write_ri_regs r address value msk = do {
     reg \<leftarrow> ri_reg address;
     Some (r\<lparr>ri_regs := (ri_regs r)(reg := masked_write (ri_regs r reg) value msk)\<rparr>) }"

section \<open>Modules\<close>

definition get_modules_count :: "rdram \<Rightarrow> nat" where
  "get_modules_count rm = dram_size rm div 0x200000"

definition cc_value :: "u32 \<Rightarrow> u8" where
  "cc_value mode_reg = ucast
     (drop_bit 6 (mode_reg AND 0x00000040) OR drop_bit 13 (mode_reg AND 0x00004000)
      OR drop_bit 20 (mode_reg AND 0x00400000) OR drop_bit 4 (mode_reg AND 0x00000080)
      OR drop_bit 11 (mode_reg AND 0x00008000) OR drop_bit 18 (mode_reg AND 0x00800000))"

definition idfield_value :: "u32 \<Rightarrow> u16" where
  "idfield_value device_id = ucast
     ((drop_bit 26 device_id AND 0x3f) OR push_bit 6 (drop_bit 23 device_id AND 0x01)
      OR push_bit 7 (drop_bit 16 device_id AND 0xff) OR push_bit 15 (drop_bit 7 device_id AND 0x01))"

text \<open>The loop over the modules from \<open>i\<close> on, \<open>n\<close> of them.\<close>

fun find_module :: "u16 \<Rightarrow> (rdram_register \<Rightarrow> u32) list \<Rightarrow> nat \<Rightarrow> nat \<Rightarrow> nat option" where
  "find_module id_field regs i 0 = Some RDRAM_MAX_MODULES_COUNT"
| "find_module id_field regs i (Suc n) = do {
     m \<leftarrow> rd regs i;
     if id_field = idfield_value (m RDRAM_DEVICE_ID_REG) then Some i
     else find_module id_field regs (Suc i) n }"

definition get_module :: "rdram \<Rightarrow> u32 \<Rightarrow> nat option" where
  "get_module rm address =
     find_module (ri_address_to_id_field address) (rdram_regs rm) 0 (get_modules_count rm)"

section \<open>Memory accesses\<close>

definition dram_word :: "rdram \<Rightarrow> u32 \<Rightarrow> u32 option" where
  "dram_word rm i = get_le32 (dram rm) (4 * unat i)"

definition read_rdram_dram :: "rdram \<Rightarrow> u32 \<Rightarrow> u32 option" where
  "read_rdram_dram rm address =
     (if unat address < dram_size rm then dram_word rm (rdram_dram_address address) else Some 0)"

definition write_rdram_dram :: "rdram \<Rightarrow> u32 \<Rightarrow> u32 \<Rightarrow> u32 \<Rightarrow> rdram option" where
  "write_rdram_dram rm address value msk =
     (if unat address < dram_size rm then do {
        let i = rdram_dram_address address;
        w \<leftarrow> dram_word rm i;
        d \<leftarrow> put_le32 (dram rm) (4 * unat i) (masked_write w value msk);
        Some (rm\<lparr>dram := d\<rparr>) }
      else Some rm)"

definition read_rdram_dram_corrupted :: "rdram \<Rightarrow> u32 \<Rightarrow> u32 option" where
  "read_rdram_dram_corrupted rm address = do {
     value \<leftarrow> dram_word rm (rdram_dram_address address);
     module \<leftarrow> get_module rm address;
     if module = RDRAM_MAX_MODULES_COUNT then Some 0
     else do {
       m \<leftarrow> rd (rdram_regs rm) module;
       let mode = m RDRAM_MODE_REG XOR 0xc0c0c0c0;
       Some (if mode AND 0x80000000 \<noteq> 0 \<and> cc_value mode = 0 then 0 else value) } }"

section \<open>Registers\<close>

definition invalidate_r4300_cached_code :: "r4300_core \<Rightarrow> r4300_core option" where
  "invalidate_r4300_cached_code r = (if emu_mode r \<noteq> EMUMODE_PURE_INTERPRETER then None else Some r)"

definition map_corrupt_rdram :: "bool \<Rightarrow> 'a rdram_sys_scheme \<Rightarrow> 'a rdram_sys_scheme option" where
  "map_corrupt_rdram corrupt s =
     (let s = s\<lparr>mem := apply_mem_mapping (mem s)
            \<lparr>mm_begin = MM_RDRAM_DRAM,
             mm_end = MM_RDRAM_DRAM + word_of_nat (dram_size (rdram s)) - 1,
             mm_type = M64P_MEM_RDRAM,
             mm_handler = (if corrupt then H_rdram_dram_corrupted else H_rdram_dram)\<rparr>\<rparr>
      in upd_r4300 (\<lambda>r. invalidate_r4300_cached_code (r\<lparr>fast_memory := (if corrupt then 0 else 1)\<rparr>)) s)"

definition poweron_rdram :: "rdram \<Rightarrow> rdram option" where
  "poweron_rdram rm = do {
     let modules = get_modules_count rm;
     regs \<leftarrow> for_range 0 modules (\<lambda>i regs. do {
        m \<leftarrow> rd regs i;
        wr regs i (m(RDRAM_CONFIG_REG := 0xb5190010, RDRAM_DEVICE_ID_REG := 0,
          RDRAM_DELAY_REG := 0x230b0223, RDRAM_MODE_REG := 0xc4c0c0c0, RDRAM_REF_ROW_REG := 0,
          RDRAM_MIN_INTERVAL_REG := 0x0040c0e0, RDRAM_ADDR_SELECT_REG := 0,
          RDRAM_DEVICE_MANUF_REG := 0x00000500)) })
        (replicate RDRAM_MAX_MODULES_COUNT (\<lambda>_. 0));
     d \<leftarrow> memset (dram rm) 0 0 (dram_size rm);
     Some (rm\<lparr>rdram_regs := regs, dram := d\<rparr>) }"

text \<open>\<open>old\<close> is what the destination holds: a broadcast read leaves it.\<close>

definition read_rdram_regs :: "rdram \<Rightarrow> u32 \<Rightarrow> u32 \<Rightarrow> u32 option" where
  "read_rdram_regs rm address old =
     (if address AND RDRAM_BCAST_ADDRESS_MASK \<noteq> 0 then Some old
      else do {
        module \<leftarrow> get_module rm address;
        if module = RDRAM_MAX_MODULES_COUNT then Some 0
        else do {
          m \<leftarrow> rd (rdram_regs rm) module;
          reg \<leftarrow> rdram_reg address;
          Some (if reg = RDRAM_MODE_REG then m reg XOR 0xc0c0c0c0 else m reg) } })"

definition write_module_reg ::
  "rdram_register \<Rightarrow> u32 \<Rightarrow> u32 \<Rightarrow> nat \<Rightarrow> (rdram_register \<Rightarrow> u32) list \<Rightarrow> (rdram_register \<Rightarrow> u32) list option" where
  "write_module_reg reg value msk i regs = do {
     m \<leftarrow> rd regs i;
     wr regs i (m(reg := masked_write (m reg) value msk)) }"

definition write_rdram_regs ::
  "'a rdram_sys_scheme \<Rightarrow> u32 \<Rightarrow> u32 \<Rightarrow> u32 \<Rightarrow> 'a rdram_sys_scheme option" where
  "write_rdram_regs s address value msk = do {
     let bcast = address AND RDRAM_BCAST_ADDRESS_MASK \<noteq> 0;
     let reg = rdram_reg address;
     let modules = get_modules_count (rdram s);
     s \<leftarrow> (if bcast \<and> reg = Some RDRAM_DELAY_REG then map_corrupt_rdram True s else Some s);
     s \<leftarrow> (if bcast \<and> reg = Some RDRAM_MODE_REG then map_corrupt_rdram False s else Some s);
     if bcast then
       if modules = 0 then Some s
       else do {
         reg \<leftarrow> reg;
         regs \<leftarrow> for_range 0 modules (write_module_reg reg value msk) (rdram_regs (rdram s));
         Some (s\<lparr>rdram := (rdram s)\<lparr>rdram_regs := regs\<rparr>\<rparr>) }
     else do {
       module \<leftarrow> get_module (rdram s) address;
       if module = RDRAM_MAX_MODULES_COUNT then Some s
       else do {
         reg \<leftarrow> reg;
         regs \<leftarrow> write_module_reg reg value msk module (rdram_regs (rdram s));
         Some (s\<lparr>rdram := (rdram s)\<lparr>rdram_regs := regs\<rparr>\<rparr>) } } }"

section \<open>Well-formed RDRAM\<close>

text \<open>
  The fitted part lies in the reserved part, both end at a word boundary, and there are the register
  arrays of 8 modules.
\<close>

definition wf_rdram :: "rdram \<Rightarrow> bool" where
  "wf_rdram rm \<longleftrightarrow> 4 dvd length (dram rm) \<and> dram_size rm \<le> length (dram rm) \<and>
     dram_size rm \<le> RDRAM_MAX_SIZE \<and>
     length (rdram_regs rm) = RDRAM_MAX_MODULES_COUNT"

lemma rdram_dram_address_nat:
  assumes "unat address < 0x1000000"
  shows "unat (rdram_dram_address address) = unat address div 4"
proof -
  have "unat (address AND 0xffffff) = unat address"
    using unat_and_mask [of address 24] assms by (simp add: mask_eq_exp_minus_1)
  then show ?thesis
    unfolding rdram_dram_address_def by (simp only: unat_drop_bit) simp
qed

lemma word_in_dram: "4 dvd n \<Longrightarrow> a < n \<Longrightarrow> 4 * (a div 4) + 3 < (n :: nat)"
proof (elim dvdE)
  fix k
  assume a: "a < n" and n: "n = 4 * k"
  then have "a div 4 < k" by (simp add: less_mult_imp_div_less mult.commute)
  then show ?thesis using n by linarith
qed

lemma write_rdram_dram_hit:
  assumes wf: "wf_rdram rm" and a: "unat address < dram_size rm"
  shows "\<exists>w d. read_rdram_dram rm address = Some w
    \<and> put_le32 (dram rm) (4 * (unat address div 4)) (masked_write w value msk) = Some d
    \<and> write_rdram_dram rm address value msk = Some (rm\<lparr>dram := d\<rparr>)"
proof -
  have fits: "4 * (unat address div 4) + 3 < length (dram rm)"
    using wf a by (auto simp: wf_rdram_def intro: word_in_dram)
  have i: "unat (rdram_dram_address address) = unat address div 4"
    using wf a by (intro rdram_dram_address_nat) (auto simp: wf_rdram_def)
  obtain w where w: "get_le32 (dram rm) (4 * (unat address div 4)) = Some w"
    using fits by (simp add: get_le32_def)
  obtain d where "put_le32 (dram rm) (4 * (unat address div 4)) (masked_write w value msk) = Some d"
    using fits by (simp add: put_le32_def)
  then show ?thesis using w a
    by (simp add: read_rdram_dram_def write_rdram_dram_def dram_word_def i)
qed

lemma find_module_range:
  "find_module f regs i n = Some k \<Longrightarrow> k = RDRAM_MAX_MODULES_COUNT \<or> i \<le> k \<and> k < i + n"
  by (induction f regs i n rule: find_module.induct) (auto split: bind_splits if_splits)

lemma find_module_total:
  "i + n \<le> length regs \<Longrightarrow> \<exists>k. find_module f regs i n = Some k"
  by (induction f regs i n rule: find_module.induct) auto

end
