(* ===== verification/Rdp.thy ===== *)
theory Rdp
  imports Rdram
begin

text \<open>
  The display processor's registers, \<^verbatim>\<open>device/rcp/rdp/rdp_core.c\<close>, and the tracking of frame buffers
  on behalf of the graphics plugin, \<^verbatim>\<open>device/rcp/rdp/fb.c\<close>. The plugin is reached through function
  pointers; \<open>gfx_plugin\<close> is that table, its functions acting on the whole state.
\<close>

section \<open>Data\<close>

datatype dpc_register =
    DPC_START_REG | DPC_END_REG | DPC_CURRENT_REG | DPC_STATUS_REG | DPC_CLOCK_REG
  | DPC_BUFBUSY_REG | DPC_PIPEBUSY_REG | DPC_TMEM_REG

datatype dps_register =
    DPS_TBIST_REG | DPS_TEST_MODE_REG | DPS_BUFTEST_ADDR_REG | DPS_BUFTEST_DATA_REG

abbreviation DPC_STATUS_XBUS_DMEM_DMA :: u32 where "DPC_STATUS_XBUS_DMEM_DMA \<equiv> 0x001"
abbreviation DPC_STATUS_FREEZE :: u32 where "DPC_STATUS_FREEZE \<equiv> 0x002"
abbreviation DPC_STATUS_FLUSH :: u32 where "DPC_STATUS_FLUSH \<equiv> 0x004"
abbreviation DPC_STATUS_START_GCLK :: u32 where "DPC_STATUS_START_GCLK \<equiv> 0x008"
abbreviation DPC_CLR_XBUS_DMEM_DMA :: u32 where "DPC_CLR_XBUS_DMEM_DMA \<equiv> 0x001"
abbreviation DPC_SET_XBUS_DMEM_DMA :: u32 where "DPC_SET_XBUS_DMEM_DMA \<equiv> 0x002"
abbreviation DPC_CLR_FREEZE :: u32 where "DPC_CLR_FREEZE \<equiv> 0x004"
abbreviation DPC_SET_FREEZE :: u32 where "DPC_SET_FREEZE \<equiv> 0x008"
abbreviation DPC_CLR_FLUSH :: u32 where "DPC_CLR_FLUSH \<equiv> 0x010"
abbreviation DPC_SET_FLUSH :: u32 where "DPC_SET_FLUSH \<equiv> 0x020"
abbreviation DPC_CLR_CLOCK_CTR :: u32 where "DPC_CLR_CLOCK_CTR \<equiv> 0x200"
abbreviation DELAY_DP_INT :: u8 where "DELAY_DP_INT \<equiv> 0x001"
abbreviation DELAY_UPDATESCREEN :: u8 where "DELAY_UPDATESCREEN \<equiv> 0x002"
abbreviation FB_INFOS_COUNT :: nat where "FB_INFOS_COUNT \<equiv> 6"
abbreviation FB_DIRTY_PAGES_COUNT :: nat where "FB_DIRTY_PAGES_COUNT \<equiv> 0x800"

record FrameBufferInfo =
  fbi_addr :: u32
  fbi_size :: u32
  fbi_width :: u32
  fbi_height :: u32

record fb =
  dirty_page :: "bool list"
  infos :: "FrameBufferInfo list"
  once :: bool

record rdp_core =
  dpc_regs :: "dpc_register \<Rightarrow> u32"
  dps_regs :: "dps_register \<Rightarrow> u32"
  do_on_unfreeze :: u8
  rdp_fb :: fb

record rdp_sys = rdram_sys +
  dp :: rdp_core

record 's gfx_plugin =
  gfx_fb_api :: bool
  gfx_fBRead :: "u32 \<Rightarrow> 's \<Rightarrow> 's"
  gfx_fBWrite :: "u32 \<Rightarrow> u32 \<Rightarrow> 's \<Rightarrow> 's"
  gfx_fBGetFrameBufferInfo :: "'s \<Rightarrow> FrameBufferInfo list"
  gfx_updateScreen :: "'s \<Rightarrow> 's"
  gfx_processRDPList :: "'s \<Rightarrow> 's"

abbreviation fb_of :: "'a rdp_sys_scheme \<Rightarrow> fb" where
  "fb_of s \<equiv> rdp_fb (dp s)"

definition set_fb :: "fb \<Rightarrow> 'a rdp_sys_scheme \<Rightarrow> 'a rdp_sys_scheme" where
  "set_fb f s = s\<lparr>dp := (dp s)\<lparr>rdp_fb := f\<rparr>\<rparr>"

definition dpc_reg :: "u32 \<Rightarrow> dpc_register option" where
  "dpc_reg address =
     rd [DPC_START_REG, DPC_END_REG, DPC_CURRENT_REG, DPC_STATUS_REG, DPC_CLOCK_REG,
         DPC_BUFBUSY_REG, DPC_PIPEBUSY_REG, DPC_TMEM_REG] (unat (drop_bit 2 (address AND 0xffff)))"

definition dps_reg :: "u32 \<Rightarrow> dps_register option" where
  "dps_reg address =
     rd [DPS_TBIST_REG, DPS_TEST_MODE_REG, DPS_BUFTEST_ADDR_REG, DPS_BUFTEST_DATA_REG]
        (unat (drop_bit 2 (address AND 0xffff)))"

section \<open>Frame buffers\<close>

definition fb_buffer_size :: "FrameBufferInfo \<Rightarrow> u32" where
  "fb_buffer_size f = fbi_width f * fbi_height f * fbi_size f"

definition fb_end :: "FrameBufferInfo \<Rightarrow> u32" where
  "fb_end f = fbi_addr f + fb_buffer_size f - 1"

text \<open>\<^verbatim>\<open>!fb->infos[0].addr\<close>\<close>

definition fb_absent :: "fb \<Rightarrow> bool option" where
  "fb_absent f = do { i0 \<leftarrow> rd (infos f) 0; Some (fbi_addr i0 = 0) }"

definition pre_framebuffer_read ::
  "'a rdp_sys_scheme gfx_plugin \<Rightarrow> u32 \<Rightarrow> 'a rdp_sys_scheme \<Rightarrow> 'a rdp_sys_scheme option" where
  "pre_framebuffer_read gfx address s = do {
     absent \<leftarrow> fb_absent (fb_of s);
     if absent then Some s
     else for_range 0 FB_INFOS_COUNT (\<lambda>i s. do {
       fi \<leftarrow> rd (infos (fb_of s)) i;
       if fbi_addr fi = 0 then Some s
       else if fbi_addr fi \<le> address \<and> address \<le> fb_end fi then do {
         let p = unat (drop_bit 12 address);
         d \<leftarrow> rd (dirty_page (fb_of s)) p;
         if d then do {
           let s = gfx_fBRead gfx address s;
           ds \<leftarrow> wr (dirty_page (fb_of s)) p False;
           Some (set_fb ((fb_of s)\<lparr>dirty_page := ds\<rparr>) s) }
         else Some s }
       else Some s }) s }"

definition write_unit :: "u32 \<Rightarrow> nat" where
  "write_unit len = (if unat len mod 4 = 0 then 4 else if unat len mod 2 = 0 then 2 else 1)"

definition post_framebuffer_write ::
  "'a rdp_sys_scheme gfx_plugin \<Rightarrow> u32 \<Rightarrow> u32 \<Rightarrow> 'a rdp_sys_scheme \<Rightarrow> 'a rdp_sys_scheme option" where
  "post_framebuffer_write gfx address len s = do {
     absent \<leftarrow> fb_absent (fb_of s);
     if absent then Some s
     else do {
       let sz = write_unit len;
       for_range 0 FB_INFOS_COUNT (\<lambda>i s. do {
         fi \<leftarrow> rd (infos (fb_of s)) i;
         if fbi_addr fi = 0 then Some s
         else for_range 0 (unat len div sz) (\<lambda>k s.
           let a = unat address + k * sz
           in Some (if unat (fbi_addr fi) \<le> a \<and> a \<le> unat (fb_end fi)
                    then gfx_fBWrite gfx (word_of_nat a) (word_of_nat sz) s else s)) s }) s } }"

definition poweron_fb :: "fb \<Rightarrow> fb" where
  "poweron_fb f = f\<lparr>dirty_page := replicate FB_DIRTY_PAGES_COUNT False,
     infos := replicate FB_INFOS_COUNT \<lparr>fbi_addr = 0, fbi_size = 0, fbi_width = 0, fbi_height = 0\<rparr>,
     once := True\<rparr>"

definition read_rdram_fb ::
  "'a rdp_sys_scheme gfx_plugin \<Rightarrow> 'a rdp_sys_scheme \<Rightarrow> u32 \<Rightarrow> (u32 \<times> 'a rdp_sys_scheme) option" where
  "read_rdram_fb gfx s address = do {
     s \<leftarrow> pre_framebuffer_read gfx address s;
     v \<leftarrow> read_rdram_dram (rdram s) address;
     Some (v, s) }"

text \<open>The bytes a write mask selects, as an offset to the word and a length.\<close>

definition mask_extent :: "u32 \<Rightarrow> u32 \<times> u32" where
  "mask_extent msk =
     (if msk = 0x000000ff then (3 XOR 3, 1)
      else if msk = 0x0000ff00 then (2 XOR 3, 1)
      else if msk = 0x00ff0000 then (1 XOR 3, 1)
      else if msk = 0xff000000 then (0 XOR 3, 1)
      else if msk = 0x0000ffff then (2 XOR 2, 2)
      else if msk = 0xffff0000 then (0 XOR 2, 2)
      else if msk = 0xffffff00 then (0 XOR 1, 3)
      else if msk = 0x00ffffff then (1 XOR 1, 3)
      else (0, 4))"

definition write_rdram_fb ::
  "'a rdp_sys_scheme gfx_plugin \<Rightarrow> 'a rdp_sys_scheme \<Rightarrow> u32 \<Rightarrow> u32 \<Rightarrow> u32 \<Rightarrow> 'a rdp_sys_scheme option" where
  "write_rdram_fb gfx s address value msk = do {
     r \<leftarrow> write_rdram_dram (rdram s) address value msk;
     let (off, sz) = mask_extent msk;
     post_framebuffer_write gfx ((address AND NOT 3) + off) sz (s\<lparr>rdram := r\<rparr>) }"

text \<open>Mapping every tracked frame buffer to a handler: the loop both functions below contain.\<close>

definition fb_mapping :: "FrameBufferInfo \<Rightarrow> mem_handler \<Rightarrow> mem_mapping" where
  "fb_mapping fi h =
     \<lparr>mm_begin = fbi_addr fi, mm_end = fb_end fi, mm_type = M64P_MEM_RDRAM, mm_handler = h\<rparr>"

definition protect_framebuffers ::
  "'a rdp_sys_scheme gfx_plugin \<Rightarrow> 'a rdp_sys_scheme \<Rightarrow> 'a rdp_sys_scheme option" where
  "protect_framebuffers gfx s =
     (if \<not> gfx_fb_api gfx \<or> emu_mode (r4300 s) = EMUMODE_DYNAREC then Some s
      else do {
        let s = set_fb ((fb_of s)\<lparr>infos := gfx_fBGetFrameBufferInfo gfx s\<rparr>) s;
        absent \<leftarrow> fb_absent (fb_of s);
        if absent then Some s
        else for_range 0 FB_INFOS_COUNT (\<lambda>i s. do {
          fi \<leftarrow> rd (infos (fb_of s)) i;
          if fbi_addr fi = 0 then Some s
          else do {
            let s = s\<lparr>mem := apply_mem_mapping (mem s) (fb_mapping fi H_rdram_fb)\<rparr>;
            let b = unat (drop_bit 12 (fbi_addr fi));
            let e = unat (drop_bit 12 (fb_end fi));
            ds \<leftarrow> for_range b (Suc e - b) (\<lambda>j ds. wr ds j True) (dirty_page (fb_of s));
            let s = set_fb ((fb_of s)\<lparr>dirty_page := ds\<rparr>) s;
            if once (fb_of s)
            then upd_r4300 (\<lambda>r. invalidate_r4300_cached_code (r\<lparr>fast_memory := 0\<rparr>))
                   (set_fb ((fb_of s)\<lparr>once := False\<rparr>) s)
            else Some s } }) s })"

definition unprotect_framebuffers :: "'a rdp_sys_scheme \<Rightarrow> 'a rdp_sys_scheme option" where
  "unprotect_framebuffers s = do {
     absent \<leftarrow> fb_absent (fb_of s);
     if absent then Some s
     else for_range 0 FB_INFOS_COUNT (\<lambda>i s. do {
       fi \<leftarrow> rd (infos (fb_of s)) i;
       Some (if fbi_addr fi = 0 then s
             else s\<lparr>mem := apply_mem_mapping (mem s) (fb_mapping fi H_rdram_dram)\<rparr>) }) s }"

section \<open>Registers\<close>

abbreviation dpc :: "'a rdp_sys_scheme \<Rightarrow> dpc_register \<Rightarrow> u32" where
  "dpc s x \<equiv> dpc_regs (dp s) x"

definition set_dpc :: "dpc_register \<Rightarrow> u32 \<Rightarrow> 'a rdp_sys_scheme \<Rightarrow> 'a rdp_sys_scheme" where
  "set_dpc x v s = s\<lparr>dp := (dp s)\<lparr>dpc_regs := (dpc_regs (dp s))(x := v)\<rparr>\<rparr>"

definition update_dpc_status ::
  "'a rdp_sys_scheme gfx_plugin \<Rightarrow> 'a rdp_sys_scheme \<Rightarrow> u32 \<Rightarrow> 'a rdp_sys_scheme option" where
  "update_dpc_status gfx s w = do {
     let s = set_dpc DPC_STATUS_REG (clear_set w DPC_CLR_XBUS_DMEM_DMA DPC_SET_XBUS_DMEM_DMA
               DPC_STATUS_XBUS_DMEM_DMA (dpc s DPC_STATUS_REG)) s;
     s \<leftarrow> (if w AND DPC_CLR_FREEZE \<noteq> 0 then do {
         let s = set_dpc DPC_STATUS_REG (dpc s DPC_STATUS_REG AND NOT DPC_STATUS_FREEZE) s;
         s \<leftarrow> (if do_on_unfreeze (dp s) AND DELAY_DP_INT \<noteq> 0
              then signal_rcp_interrupt s MI_INTR_DP else Some s);
         let s = (if do_on_unfreeze (dp s) AND DELAY_UPDATESCREEN \<noteq> 0 then gfx_updateScreen gfx s else s);
         Some (s\<lparr>dp := (dp s)\<lparr>do_on_unfreeze := 0\<rparr>\<rparr>) }
       else Some s);
     let s = (if w AND DPC_SET_FREEZE \<noteq> 0
              then set_dpc DPC_STATUS_REG (dpc s DPC_STATUS_REG OR DPC_STATUS_FREEZE) s else s);
     let s = set_dpc DPC_STATUS_REG (clear_set w DPC_CLR_FLUSH DPC_SET_FLUSH DPC_STATUS_FLUSH
               (dpc s DPC_STATUS_REG)) s;
     Some (if w AND DPC_CLR_CLOCK_CTR \<noteq> 0 then set_dpc DPC_CLOCK_REG 0 s else s) }"

definition poweron_rdp :: "rdp_core \<Rightarrow> rdp_core" where
  "poweron_rdp d = d\<lparr>dpc_regs := (\<lambda>_. 0)(DPC_STATUS_REG := DPC_STATUS_START_GCLK), dps_regs := (\<lambda>_. 0),
     do_on_unfreeze := 0, rdp_fb := poweron_fb (rdp_fb d)\<rparr>"

definition read_dpc_regs :: "rdp_core \<Rightarrow> u32 \<Rightarrow> u32 option" where
  "read_dpc_regs d address = do { reg \<leftarrow> dpc_reg address; Some (dpc_regs d reg) }"

definition write_dpc_regs ::
  "'a rdp_sys_scheme gfx_plugin \<Rightarrow> 'a rdp_sys_scheme \<Rightarrow> u32 \<Rightarrow> u32 \<Rightarrow> u32 \<Rightarrow> 'a rdp_sys_scheme option" where
  "write_dpc_regs gfx s address value msk = do {
     reg \<leftarrow> dpc_reg address;
     if reg = DPC_STATUS_REG then update_dpc_status gfx s (value AND msk)
     else if reg \<in> {DPC_CURRENT_REG, DPC_CLOCK_REG, DPC_BUFBUSY_REG, DPC_PIPEBUSY_REG, DPC_TMEM_REG} then Some s
     else do {
       let s = set_dpc reg (masked_write (dpc s reg) value msk) s;
       if reg = DPC_START_REG then Some (set_dpc DPC_CURRENT_REG (dpc s DPC_START_REG) s)
       else if reg = DPC_END_REG then do {
         s \<leftarrow> unprotect_framebuffers s;
         s \<leftarrow> protect_framebuffers gfx (gfx_processRDPList gfx s);
         signal_rcp_interrupt s MI_INTR_DP }
       else Some s } }"

definition read_dps_regs :: "rdp_core \<Rightarrow> u32 \<Rightarrow> u32 option" where
  "read_dps_regs d address = do { reg \<leftarrow> dps_reg address; Some (dps_regs d reg) }"

definition write_dps_regs :: "rdp_core \<Rightarrow> u32 \<Rightarrow> u32 \<Rightarrow> u32 \<Rightarrow> rdp_core option" where
  "write_dps_regs d address value msk = do {
     reg \<leftarrow> dps_reg address;
     Some (d\<lparr>dps_regs := (dps_regs d)(reg := masked_write (dps_regs d reg) value msk)\<rparr>) }"

definition rdp_interrupt_event :: "'a rdp_sys_scheme \<Rightarrow> 'a rdp_sys_scheme option" where
  "rdp_interrupt_event s = raise_rcp_interrupt s MI_INTR_DP"

section \<open>Frame buffer tracking leaves untracked memory alone\<close>

lemma fb_absent_poweron: "fb_absent (poweron_fb f) = Some True"
  by (simp add: fb_absent_def poweron_fb_def)

lemma pre_framebuffer_read_absent [simp]:
  "fb_absent (fb_of s) = Some True \<Longrightarrow> pre_framebuffer_read gfx a s = Some s"
  by (simp add: pre_framebuffer_read_def)

lemma post_framebuffer_write_absent [simp]:
  "fb_absent (fb_of s) = Some True \<Longrightarrow> post_framebuffer_write gfx a n s = Some s"
  by (simp add: post_framebuffer_write_def)

text \<open>Outside every tracked buffer the plugin is not notified and nothing changes.\<close>

definition outside_fbs :: "fb \<Rightarrow> u32 \<Rightarrow> bool" where
  "outside_fbs f a \<longleftrightarrow> (\<forall>fi \<in> set (infos f). fbi_addr fi \<noteq> 0 \<longrightarrow> \<not> (fbi_addr fi \<le> a \<and> a \<le> fb_end fi))"

lemma for_range_id:
  "(\<And>j. i \<le> j \<Longrightarrow> j < i + n \<Longrightarrow> body j s = Some s) \<Longrightarrow> for_range i n body s = Some s"
  by (induction n arbitrary: i) auto

lemma pre_framebuffer_read_outside:
  assumes "length (infos (fb_of s)) = FB_INFOS_COUNT" "outside_fbs (fb_of s) a"
  shows "pre_framebuffer_read gfx a s = Some s"
proof (cases "fb_absent (fb_of s) = Some True")
  case False
  then have "fb_absent (fb_of s) = Some False"
    using assms(1) by (auto simp: fb_absent_def)
  moreover have "\<not> (fbi_addr (infos (fb_of s) ! i) \<le> a \<and> a \<le> fb_end (infos (fb_of s) ! i))"
    if "i < FB_INFOS_COUNT" "fbi_addr (infos (fb_of s) ! i) \<noteq> 0" for i
    using assms that by (simp add: outside_fbs_def)
  ultimately show ?thesis
    using assms(1) by (auto simp: pre_framebuffer_read_def intro!: for_range_id)
qed simp

end
