(* ===== verification/Rsp.thy ===== *)
theory Rsp
  imports Rdp
begin

text \<open>
  The signal processor's memory, registers, DMA queue and task start, \<^verbatim>\<open>device/rcp/rsp/rsp_core.c\<close>.
  Executing microcode is the RSP plugin's job (\<^verbatim>\<open>rsp.doRspCycles\<close>); it and \<^verbatim>\<open>new_frame\<close> of the front
  end are parameters. The profiling calls of a \<^verbatim>\<open>PROFILE\<close> build are left out.
\<close>

section \<open>Data\<close>

datatype sp_register =
    SP_MEM_ADDR_REG | SP_DRAM_ADDR_REG | SP_RD_LEN_REG | SP_WR_LEN_REG | SP_STATUS_REG
  | SP_DMA_FULL_REG | SP_DMA_BUSY_REG | SP_SEMAPHORE_REG

datatype sp_register2 = SP_PC_REG | SP_IBIST_REG

datatype sp_dma_dir = SP_DMA_READ | SP_DMA_WRITE

abbreviation SP_STATUS_HALT :: u32 where "SP_STATUS_HALT \<equiv> 0x0001"
abbreviation SP_STATUS_BROKE :: u32 where "SP_STATUS_BROKE \<equiv> 0x0002"
abbreviation SP_STATUS_DMA_BUSY :: u32 where "SP_STATUS_DMA_BUSY \<equiv> 0x0004"
abbreviation SP_STATUS_DMA_FULL :: u32 where "SP_STATUS_DMA_FULL \<equiv> 0x0008"
abbreviation SP_STATUS_SSTEP :: u32 where "SP_STATUS_SSTEP \<equiv> 0x0020"
abbreviation SP_STATUS_INTR_BREAK :: u32 where "SP_STATUS_INTR_BREAK \<equiv> 0x0040"
abbreviation SP_STATUS_SIG0 :: u32 where "SP_STATUS_SIG0 \<equiv> 0x0080"
abbreviation SP_STATUS_SIG1 :: u32 where "SP_STATUS_SIG1 \<equiv> 0x0100"
abbreviation SP_STATUS_SIG2 :: u32 where "SP_STATUS_SIG2 \<equiv> 0x0200"
abbreviation SP_STATUS_TASKDONE :: u32 where "SP_STATUS_TASKDONE \<equiv> 0x0200"
abbreviation SP_STATUS_SIG3 :: u32 where "SP_STATUS_SIG3 \<equiv> 0x0400"
abbreviation SP_STATUS_SIG4 :: u32 where "SP_STATUS_SIG4 \<equiv> 0x0800"
abbreviation SP_STATUS_SIG5 :: u32 where "SP_STATUS_SIG5 \<equiv> 0x1000"
abbreviation SP_STATUS_SIG6 :: u32 where "SP_STATUS_SIG6 \<equiv> 0x2000"
abbreviation SP_STATUS_SIG7 :: u32 where "SP_STATUS_SIG7 \<equiv> 0x4000"
abbreviation INTR_UNSAFE_RSP :: u32 where "INTR_UNSAFE_RSP \<equiv> 0x02"

record sp_dma =
  dma_dir :: sp_dma_dir
  dma_length :: u32
  dma_memaddr :: u32
  dma_dramaddr :: u32

record rsp_core =
  sp_mem :: "u8 list"
  sp_regs :: "sp_register \<Rightarrow> u32"
  sp_regs2 :: "sp_register2 \<Rightarrow> u32"
  rsp_task_locked :: bool
  fifo0 :: sp_dma
  fifo1 :: sp_dma

record rsp_sys = rdp_sys +
  sp :: rsp_core

record 's rcp_env =
  gfx :: "'s gfx_plugin"
  doRspCycles :: "'s \<Rightarrow> 's"
  new_frame :: "'s \<Rightarrow> 's"

abbreviation spr :: "'a rsp_sys_scheme \<Rightarrow> sp_register \<Rightarrow> u32" where
  "spr s x \<equiv> sp_regs (sp s) x"

definition set_spr :: "sp_register \<Rightarrow> u32 \<Rightarrow> 'a rsp_sys_scheme \<Rightarrow> 'a rsp_sys_scheme" where
  "set_spr x v s = s\<lparr>sp := (sp s)\<lparr>sp_regs := (sp_regs (sp s))(x := v)\<rparr>\<rparr>"

definition rsp_mem_address :: "u32 \<Rightarrow> u32" where
  "rsp_mem_address address = drop_bit 2 (address AND 0x1fff)"

definition rsp_reg :: "u32 \<Rightarrow> sp_register option" where
  "rsp_reg address =
     rd [SP_MEM_ADDR_REG, SP_DRAM_ADDR_REG, SP_RD_LEN_REG, SP_WR_LEN_REG, SP_STATUS_REG,
         SP_DMA_FULL_REG, SP_DMA_BUSY_REG, SP_SEMAPHORE_REG] (unat (drop_bit 2 (address AND 0xffff)))"

definition rsp_reg2 :: "u32 \<Rightarrow> sp_register2 option" where
  "rsp_reg2 address = rd [SP_PC_REG, SP_IBIST_REG] (unat (drop_bit 2 (address AND 0xffff)))"

section \<open>DMA\<close>

definition dma_row_length :: "u32 \<Rightarrow> u32" where
  "dma_row_length l = ((l AND 0xfff) OR 7) + 1"

definition dma_row_count :: "u32 \<Rightarrow> u32" where
  "dma_row_count l = (drop_bit 12 l AND 0xff) + 1"

definition dma_row_skip :: "u32 \<Rightarrow> u32" where
  "dma_row_skip l = drop_bit 20 l AND 0xfff"

definition dram_index :: "u32 \<Rightarrow> nat" where
  "dram_index a = unat ((a XOR 3) AND 0x7fffff)"

definition spmem_index :: "u32 \<Rightarrow> u32 \<Rightarrow> nat" where
  "spmem_index bank a = unat (bank AND 0x1000) + unat ((a XOR 3) AND 0xfff)"

text \<open>The two inner loops: one row from SP memory to DRAM, and one the other way.\<close>

definition dma_row_to_dram :: "u32 \<Rightarrow> u8 list \<Rightarrow> u32 \<Rightarrow> u32 \<Rightarrow> nat \<Rightarrow> u8 list \<Rightarrow> u8 list option" where
  "dma_row_to_dram bank spm memaddr dramaddr n d =
     for_range 0 n (\<lambda>i d. do {
       v \<leftarrow> rd spm (spmem_index bank (memaddr + word_of_nat i));
       wr d (dram_index (dramaddr + word_of_nat i)) v }) d"

definition dma_row_from_dram :: "u32 \<Rightarrow> u8 list \<Rightarrow> u32 \<Rightarrow> u32 \<Rightarrow> nat \<Rightarrow> u8 list \<Rightarrow> u8 list option" where
  "dma_row_from_dram bank d memaddr dramaddr n spm =
     for_range 0 n (\<lambda>i spm. do {
       v \<leftarrow> rd d (dram_index (dramaddr + word_of_nat i));
       wr spm (spmem_index bank (memaddr + word_of_nat i)) v }) spm"

definition sp_add_event :: "u32 \<Rightarrow> u32 \<Rightarrow> 'a r4300_sys_scheme \<Rightarrow> 'a r4300_sys_scheme option" where
  "sp_add_event ty delay s = upd_r4300 (\<lambda>r. upd_cp0 (\<lambda>c. add_interrupt_event c ty delay) (cp0_update_count r)) s"

definition do_sp_dma ::
  "'a rsp_sys_scheme gfx_plugin \<Rightarrow> 'a rsp_sys_scheme \<Rightarrow> sp_dma \<Rightarrow> 'a rsp_sys_scheme option" where
  "do_sp_dma gx s dma = do {
     let l = dma_length dma;
     let len = dma_row_length l;
     let count = dma_row_count l;
     let skip = dma_row_skip l;
     let bank = dma_memaddr dma;
     let memaddr = dma_memaddr dma AND 0xff8;
     let dramaddr = dma_dramaddr dma AND 0xfffff8;
     (s, memaddr, dramaddr) \<leftarrow> for_range 0 (unat count) (\<lambda>j (s, memaddr, dramaddr).
       if dma_dir dma = SP_DMA_READ then do {
         d \<leftarrow> dma_row_to_dram bank (sp_mem (sp s)) memaddr dramaddr (unat len) (dram (rdram s));
         let s = s\<lparr>rdram := (rdram s)\<lparr>dram := d\<rparr>\<rparr>;
         let dramaddr = dramaddr + len;
         s \<leftarrow> (if dramaddr \<le> 0x800000 then post_framebuffer_write gx (dramaddr - len) len s else Some s);
         Some (s, memaddr + len, dramaddr + skip) }
       else do {
         s \<leftarrow> (if dramaddr < 0x800000 then pre_framebuffer_read gx dramaddr s else Some s);
         m \<leftarrow> dma_row_from_dram bank (dram (rdram s)) memaddr dramaddr (unat len) (sp_mem (sp s));
         Some (s\<lparr>sp := (sp s)\<lparr>sp_mem := m\<rparr>\<rparr>, memaddr + len, dramaddr + len + skip) })
       (s, memaddr, dramaddr);
     let s = set_spr SP_MEM_ADDR_REG (memaddr AND 0xfff) s;
     let s = set_spr SP_DRAM_ADDR_REG (dramaddr AND 0xffffff) s;
     let s = set_spr SP_RD_LEN_REG 0xff8 s;
     sp_add_event RSP_DMA_EVT ((count * len) div 8) s }"

definition fifo_entry :: "'a rsp_sys_scheme \<Rightarrow> sp_dma_dir \<Rightarrow> sp_dma" where
  "fifo_entry s dir = \<lparr>dma_dir = dir,
     dma_length = (if dir = SP_DMA_READ then spr s SP_WR_LEN_REG else spr s SP_RD_LEN_REG),
     dma_memaddr = spr s SP_MEM_ADDR_REG, dma_dramaddr = spr s SP_DRAM_ADDR_REG\<rparr>"

definition fifo_push ::
  "'a rsp_sys_scheme gfx_plugin \<Rightarrow> 'a rsp_sys_scheme \<Rightarrow> sp_dma_dir \<Rightarrow> 'a rsp_sys_scheme option" where
  "fifo_push gx s dir =
     (if spr s SP_DMA_FULL_REG \<noteq> 0 then Some s
      else if spr s SP_DMA_BUSY_REG \<noteq> 0 then
        let s = s\<lparr>sp := (sp s)\<lparr>fifo1 := fifo_entry s dir\<rparr>\<rparr>;
            s = set_spr SP_DMA_FULL_REG 1 s
        in Some (set_spr SP_STATUS_REG (spr s SP_STATUS_REG OR SP_STATUS_DMA_FULL) s)
      else
        let s = s\<lparr>sp := (sp s)\<lparr>fifo0 := fifo_entry s dir\<rparr>\<rparr>;
            s = set_spr SP_DMA_BUSY_REG 1 s;
            s = set_spr SP_STATUS_REG (spr s SP_STATUS_REG OR SP_STATUS_DMA_BUSY) s
        in do_sp_dma gx s (fifo0 (sp s)))"

definition fifo_pop ::
  "'a rsp_sys_scheme gfx_plugin \<Rightarrow> 'a rsp_sys_scheme \<Rightarrow> 'a rsp_sys_scheme option" where
  "fifo_pop gx s =
     (if spr s SP_DMA_FULL_REG \<noteq> 0 then
        let s = s\<lparr>sp := (sp s)\<lparr>fifo0 := fifo1 (sp s)\<rparr>\<rparr>;
            s = set_spr SP_DMA_FULL_REG 0 s;
            s = set_spr SP_STATUS_REG (spr s SP_STATUS_REG AND NOT SP_STATUS_DMA_FULL) s
        in do_sp_dma gx s (fifo0 (sp s))
      else
        let s = set_spr SP_DMA_BUSY_REG 0 s
        in Some (set_spr SP_STATUS_REG (spr s SP_STATUS_REG AND NOT SP_STATUS_DMA_BUSY) s))"

section \<open>Tasks\<close>

definition set_pc_reg :: "u32 \<Rightarrow> 'a rsp_sys_scheme \<Rightarrow> 'a rsp_sys_scheme" where
  "set_pc_reg v s = s\<lparr>sp := (sp s)\<lparr>sp_regs2 := (sp_regs2 (sp s))(SP_PC_REG := v)\<rparr>\<rparr>"

text \<open>Running the plugin with the upper bits of the program counter hidden.\<close>

definition run_rsp :: "'a rsp_sys_scheme rcp_env \<Rightarrow> u32 \<Rightarrow> 'a rsp_sys_scheme \<Rightarrow> 'a rsp_sys_scheme" where
  "run_rsp env save_pc s =
     (let s = set_pc_reg (sp_regs2 (sp s) SP_PC_REG AND 0xfff) s;
          s = doRspCycles env s
      in set_pc_reg (sp_regs2 (sp s) SP_PC_REG OR save_pc) s)"

definition set_unsafe :: "(u32 \<Rightarrow> u32) \<Rightarrow> 'a r4300_sys_scheme \<Rightarrow> 'a r4300_sys_scheme" where
  "set_unsafe f s = s\<lparr>r4300 := (r4300 s)\<lparr>cp0 := (cp0 (r4300 s))
     \<lparr>interrupt_unsafe_state := f (interrupt_unsafe_state (cp0 (r4300 s)))\<rparr>\<rparr>\<rparr>"

definition gfx_task_done :: "'a rsp_sys_scheme \<Rightarrow> 'a rsp_sys_scheme option" where
  "gfx_task_done s =
     (if mreg s MI_INTR_REG AND MI_INTR_DP \<noteq> 0 then
        let s = set_mreg MI_INTR_REG (mreg s MI_INTR_REG AND NOT MI_INTR_DP) s
        in if dpc s DPC_STATUS_REG AND DPC_STATUS_FREEZE \<noteq> 0
           then Some (s\<lparr>dp := (dp s)\<lparr>do_on_unfreeze := do_on_unfreeze (dp s) OR DELAY_DP_INT\<rparr>\<rparr>)
           else sp_add_event DP_INT 4000 s
      else Some s)"

definition do_SP_Task ::
  "'a rsp_sys_scheme rcp_env \<Rightarrow> 'a rsp_sys_scheme \<Rightarrow> 'a rsp_sys_scheme option" where
  "do_SP_Task env s = do {
     let save_pc = sp_regs2 (sp s) SP_PC_REG AND NOT 0xfff;
     task \<leftarrow> get_le32 (sp_mem (sp s)) 0xfc0;
     (s, sp_delay_time) \<leftarrow>
       (if task = 1 then do {
          s \<leftarrow> unprotect_framebuffers s;
          s \<leftarrow> gfx_task_done (new_frame env (run_rsp env save_pc s));
          s \<leftarrow> protect_framebuffers (gfx env) s;
          Some (s, 1000) }
        else if task = 2 then Some (run_rsp env save_pc s, 4000)
        else Some (run_rsp env save_pc s, 0));
     let s = s\<lparr>sp := (sp s)\<lparr>rsp_task_locked := False\<rparr>\<rparr>;
     let s = set_unsafe (\<lambda>u. u AND NOT INTR_UNSAFE_RSP) s;
     let s = (if spr s SP_STATUS_REG AND (SP_STATUS_HALT OR SP_STATUS_BROKE) = 0 then
        let s = s\<lparr>sp := (sp s)\<lparr>rsp_task_locked := True\<rparr>\<rparr>;
            s = set_unsafe (\<lambda>u. u OR INTR_UNSAFE_RSP) s
        in set_mreg MI_INTR_REG (mreg s MI_INTR_REG OR MI_INTR_SP) s
       else s);
     s \<leftarrow> (if mreg s MI_INTR_REG AND MI_INTR_SP \<noteq> 0 then do {
         s \<leftarrow> sp_add_event SP_INT sp_delay_time s;
         Some (set_mreg MI_INTR_REG (mreg s MI_INTR_REG AND NOT MI_INTR_SP) s) }
       else Some s);
     Some (set_spr SP_STATUS_REG (spr s SP_STATUS_REG AND
             NOT (SP_STATUS_TASKDONE OR SP_STATUS_BROKE OR SP_STATUS_HALT)) s) }"

section \<open>Registers\<close>

text \<open>A two-bit command field: 1 clears \<open>m\<close>, 2 sets it, 0 and 3 leave it.\<close>

definition toggle :: "u32 \<Rightarrow> u32 \<Rightarrow> u32 \<Rightarrow> u32 \<Rightarrow> u32 \<Rightarrow> u32" where
  "toggle w cbit sbit m r =
     (let r = (if w AND (cbit OR sbit) = cbit then r AND NOT m else r)
      in if w AND (cbit OR sbit) = sbit then r OR m else r)"

definition sp_status_bits :: "u32 \<Rightarrow> u32 \<Rightarrow> u32" where
  "sp_status_bits w r =
     (let r = toggle w 0x20 0x40 SP_STATUS_SSTEP r;
          r = toggle w 0x80 0x100 SP_STATUS_INTR_BREAK r;
          r = toggle w 0x200 0x400 SP_STATUS_SIG0 r;
          r = toggle w 0x800 0x1000 SP_STATUS_SIG1 r;
          r = toggle w 0x2000 0x4000 SP_STATUS_SIG2 r;
          r = toggle w 0x8000 0x10000 SP_STATUS_SIG3 r;
          r = toggle w 0x20000 0x40000 SP_STATUS_SIG4 r;
          r = toggle w 0x80000 0x100000 SP_STATUS_SIG5 r;
          r = toggle w 0x200000 0x400000 SP_STATUS_SIG6 r
      in toggle w 0x800000 0x1000000 SP_STATUS_SIG7 r)"

definition update_sp_status ::
  "'a rsp_sys_scheme rcp_env \<Rightarrow> 'a rsp_sys_scheme \<Rightarrow> u32 \<Rightarrow> 'a rsp_sys_scheme option" where
  "update_sp_status env s w = do {
     let s = set_spr SP_STATUS_REG (toggle w 0x1 0x2 SP_STATUS_HALT (spr s SP_STATUS_REG)) s;
     let s = (if w AND 0x4 \<noteq> 0 then set_spr SP_STATUS_REG (spr s SP_STATUS_REG AND NOT SP_STATUS_BROKE) s else s);
     s \<leftarrow> (if w AND 0x18 = 0x8 then clear_rcp_interrupt s MI_INTR_SP else Some s);
     s \<leftarrow> (if w AND 0x18 = 0x10 then signal_rcp_interrupt s MI_INTR_SP else Some s);
     let s = set_spr SP_STATUS_REG (sp_status_bits w (spr s SP_STATUS_REG)) s;
     pending \<leftarrow> (if rsp_task_locked (sp s) then get_event (cp0_q (cp0 (r4300 s))) SP_INT else Some None);
     if rsp_task_locked (sp s) \<and> pending \<noteq> None then Some s
     else if \<not> w AND 0x3 = 1 \<and> w AND 0x4 = 0 \<and> \<not> rsp_task_locked (sp s) then Some s
     else if spr s SP_STATUS_REG AND SP_STATUS_HALT = 0 then do_SP_Task env s
     else Some s }"

definition poweron_rsp :: "'a rsp_sys_scheme \<Rightarrow> 'a rsp_sys_scheme option" where
  "poweron_rsp s = do {
     m \<leftarrow> memset (sp_mem (sp s)) 0 0 SP_MEM_SIZE;
     let z = \<lparr>dma_dir = SP_DMA_READ, dma_length = 0, dma_memaddr = 0, dma_dramaddr = 0\<rparr>;
     let s = s\<lparr>sp := (sp s)\<lparr>sp_mem := m,
       sp_regs := (\<lambda>_. 0)(SP_STATUS_REG := 1, SP_RD_LEN_REG := 0xff8, SP_WR_LEN_REG := 0xff8),
       sp_regs2 := (\<lambda>_. 0), rsp_task_locked := False, fifo0 := z, fifo1 := z\<rparr>\<rparr>;
     Some (set_unsafe (\<lambda>u. u AND NOT INTR_UNSAFE_RSP) s) }"

definition read_rsp_mem :: "rsp_core \<Rightarrow> u32 \<Rightarrow> u32 option" where
  "read_rsp_mem p address = get_le32 (sp_mem p) (4 * unat (rsp_mem_address address))"

definition write_rsp_mem :: "rsp_core \<Rightarrow> u32 \<Rightarrow> u32 \<Rightarrow> u32 \<Rightarrow> rsp_core option" where
  "write_rsp_mem p address value msk = do {
     let i = 4 * unat (rsp_mem_address address);
     w \<leftarrow> get_le32 (sp_mem p) i;
     m \<leftarrow> put_le32 (sp_mem p) i (masked_write w value msk);
     Some (p\<lparr>sp_mem := m\<rparr>) }"

definition read_rsp_regs :: "'a rsp_sys_scheme \<Rightarrow> u32 \<Rightarrow> (u32 \<times> 'a rsp_sys_scheme) option" where
  "read_rsp_regs s address = do {
     reg \<leftarrow> rsp_reg address;
     Some (spr s reg, if reg = SP_SEMAPHORE_REG then set_spr SP_SEMAPHORE_REG 1 s else s) }"

definition write_rsp_regs ::
  "'a rsp_sys_scheme rcp_env \<Rightarrow> 'a rsp_sys_scheme \<Rightarrow> u32 \<Rightarrow> u32 \<Rightarrow> u32 \<Rightarrow> 'a rsp_sys_scheme option" where
  "write_rsp_regs env s address value msk = do {
     reg \<leftarrow> rsp_reg address;
     if reg = SP_STATUS_REG then update_sp_status env s (value AND msk)
     else if reg = SP_DMA_FULL_REG \<or> reg = SP_DMA_BUSY_REG then Some s
     else do {
       let s = set_spr reg (masked_write (spr s reg) value msk) s;
       case reg of
         SP_RD_LEN_REG \<Rightarrow> fifo_push (gfx env) s SP_DMA_WRITE
       | SP_WR_LEN_REG \<Rightarrow> fifo_push (gfx env) s SP_DMA_READ
       | SP_SEMAPHORE_REG \<Rightarrow> Some (set_spr SP_SEMAPHORE_REG 0 s)
       | _ \<Rightarrow> Some s } }"

definition read_rsp_regs2 :: "rsp_core \<Rightarrow> u32 \<Rightarrow> u32 option" where
  "read_rsp_regs2 p address = do {
     reg \<leftarrow> rsp_reg2 address;
     Some (if reg = SP_PC_REG then sp_regs2 p reg AND 0xffc else sp_regs2 p reg) }"

definition write_rsp_regs2 :: "rsp_core \<Rightarrow> u32 \<Rightarrow> u32 \<Rightarrow> u32 \<Rightarrow> rsp_core option" where
  "write_rsp_regs2 p address value msk = do {
     reg \<leftarrow> rsp_reg2 address;
     let msk = (if reg = SP_PC_REG then msk AND 0xffc else msk);
     Some (p\<lparr>sp_regs2 := (sp_regs2 p)(reg := masked_write (sp_regs2 p reg) value msk)\<rparr>) }"

section \<open>Events\<close>

definition rsp_interrupt_event :: "'a rsp_sys_scheme \<Rightarrow> 'a rsp_sys_scheme option" where
  "rsp_interrupt_event s = do {
     let s = (if \<not> rsp_task_locked (sp s)
              then set_spr SP_STATUS_REG (spr s SP_STATUS_REG OR
                     (SP_STATUS_TASKDONE OR SP_STATUS_BROKE OR SP_STATUS_HALT)) s else s);
     if spr s SP_STATUS_REG AND SP_STATUS_INTR_BREAK \<noteq> 0
     then raise_rcp_interrupt s MI_INTR_SP else Some s }"

definition rsp_end_of_dma_event ::
  "'a rsp_sys_scheme gfx_plugin \<Rightarrow> 'a rsp_sys_scheme \<Rightarrow> 'a rsp_sys_scheme option" where
  "rsp_end_of_dma_event gx s = fifo_pop gx s"

end
