(* ===== verification/Cart.thy ===== *)
theory Cart
  imports Buffers "HOL-Library.Signed_Division"
begin

text \<open>
  The cartridge, \<^verbatim>\<open>device/cart\<close>: EEPROM, SRAM, flash RAM, the real-time clock, the ROM's DMA, the IS
  viewer, the joybus commands of the cartridge channel and the choice between SRAM and flash RAM
  behind domain 2. Reads that leave their destination alone take the destination's old value.

  A joybus message lies in one buffer (the PIF RAM); \<open>joybus_ptr\<close> holds the four pointers a device is
  given as offsets into it.
\<close>

section \<open>Joybus messages\<close>

record joybus_ptr =
  jp_tx :: nat
  jp_tx_buf :: nat
  jp_rx :: nat
  jp_rx_buf :: nat

abbreviation JCMD_STATUS :: u8 where "JCMD_STATUS \<equiv> 0x00"
abbreviation JCMD_CONTROLLER_READ :: u8 where "JCMD_CONTROLLER_READ \<equiv> 0x01"
abbreviation JCMD_PAK_READ :: u8 where "JCMD_PAK_READ \<equiv> 0x02"
abbreviation JCMD_PAK_WRITE :: u8 where "JCMD_PAK_WRITE \<equiv> 0x03"
abbreviation JCMD_EEPROM_READ :: u8 where "JCMD_EEPROM_READ \<equiv> 0x04"
abbreviation JCMD_EEPROM_WRITE :: u8 where "JCMD_EEPROM_WRITE \<equiv> 0x05"
abbreviation JCMD_AF_RTC_STATUS :: u8 where "JCMD_AF_RTC_STATUS \<equiv> 0x06"
abbreviation JCMD_AF_RTC_READ :: u8 where "JCMD_AF_RTC_READ \<equiv> 0x07"
abbreviation JCMD_AF_RTC_WRITE :: u8 where "JCMD_AF_RTC_WRITE \<equiv> 0x08"
abbreviation JCMD_RESET :: u8 where "JCMD_RESET \<equiv> 0xff"
abbreviation JDT_AF_RTC :: u16 where "JDT_AF_RTC \<equiv> 0x1000"
abbreviation JDT_EEPROM_4K :: u16 where "JDT_EEPROM_4K \<equiv> 0x8000"
abbreviation JDT_EEPROM_16K :: u16 where "JDT_EEPROM_16K \<equiv> 0xc000"

definition rx_or :: "u8 \<Rightarrow> joybus_ptr \<Rightarrow> u8 list \<Rightarrow> u8 list option" where
  "rx_or m p buf = do { r \<leftarrow> rd buf (jp_rx p); wr buf (jp_rx p) (r OR m) }"

text \<open>The macro \<^verbatim>\<open>JOYBUS_CHECK_COMMAND_FORMAT\<close> in front of the statements \<open>k\<close> of its case.\<close>

definition joybus_check ::
  "u8 \<Rightarrow> u8 \<Rightarrow> joybus_ptr \<Rightarrow> 'd \<Rightarrow> u8 list \<Rightarrow> ('d \<times> u8 list) option \<Rightarrow> ('d \<times> u8 list) option" where
  "joybus_check expected_tx expected_rx p d buf k = do {
     tx \<leftarrow> rd buf (jp_tx p);
     rx \<leftarrow> rd buf (jp_rx p);
     if tx \<noteq> expected_tx \<or> rx \<noteq> expected_rx
     then do { buf \<leftarrow> rx_or 0x40 p buf; Some (d, buf) }
     else k }"

section \<open>EEPROM\<close>

abbreviation EEPROM_BLOCK_SIZE :: nat where "EEPROM_BLOCK_SIZE \<equiv> 8"

record eeprom =
  ee_type :: u16
  ee_storage :: storage

definition format_eeprom :: "u8 list \<Rightarrow> nat \<Rightarrow> u8 list option" where
  "format_eeprom m sz = memset m 0 0xff sz"

definition eeprom_read_block :: "eeprom \<Rightarrow> u8 \<Rightarrow> u8 list \<Rightarrow> nat \<Rightarrow> u8 list option" where
  "eeprom_read_block e block buf data_off =
     (let address = unat block * EEPROM_BLOCK_SIZE
      in if address < length (st_data (ee_storage e))
         then memcpy buf data_off (st_data (ee_storage e)) address EEPROM_BLOCK_SIZE
         else Some buf)"

definition eeprom_write_block ::
  "eeprom \<Rightarrow> u8 \<Rightarrow> u8 list \<Rightarrow> nat \<Rightarrow> nat \<Rightarrow> (eeprom \<times> u8 list) option" where
  "eeprom_write_block e block buf data_off status_off =
     (let address = unat block * EEPROM_BLOCK_SIZE
      in if address < length (st_data (ee_storage e))
         then do {
           d \<leftarrow> memcpy (st_data (ee_storage e)) address buf data_off EEPROM_BLOCK_SIZE;
           let st = st_save address EEPROM_BLOCK_SIZE ((ee_storage e)\<lparr>st_data := d\<rparr>);
           buf \<leftarrow> wr buf status_off 0x00;
           Some (e\<lparr>ee_storage := st\<rparr>, buf) }
         else Some (e, buf))"

section \<open>SRAM\<close>

abbreviation SRAM_SIZE :: nat where "SRAM_SIZE \<equiv> 0x8000"
abbreviation SRAM_ADDR_MASK :: u32 where "SRAM_ADDR_MASK \<equiv> 0x0000ffff"

definition format_sram :: "u8 list \<Rightarrow> u8 list option" where
  "format_sram m = memset m 0 0xff SRAM_SIZE"

text \<open>Both return the duration of the transfer.\<close>

definition sram_dma_read ::
  "storage \<Rightarrow> u8 list \<Rightarrow> u32 \<Rightarrow> u32 \<Rightarrow> u32 \<Rightarrow> (u32 \<times> storage) option" where
  "sram_dma_read st d dram_addr cart_addr len = do {
     let a = unat (cart_addr AND SRAM_ADDR_MASK);
     m \<leftarrow> copy_s8 (st_data st) a d (unat dram_addr) (unat len);
     Some (0x1000, st_save a (unat len) (st\<lparr>st_data := m\<rparr>)) }"

definition sram_dma_write ::
  "storage \<Rightarrow> u8 list \<Rightarrow> u32 \<Rightarrow> u32 \<Rightarrow> u32 \<Rightarrow> (u32 \<times> u8 list) option" where
  "sram_dma_write st d dram_addr cart_addr len = do {
     d \<leftarrow> copy_s8 d (unat dram_addr) (st_data st) (unat (cart_addr AND SRAM_ADDR_MASK)) (unat len);
     Some (0x1000, d) }"

definition read_sram :: "storage \<Rightarrow> u32 \<Rightarrow> u32 option" where
  "read_sram st address = get_le32 (st_data st) (unat (address AND SRAM_ADDR_MASK))"

definition write_sram :: "storage \<Rightarrow> u32 \<Rightarrow> u32 \<Rightarrow> u32 \<Rightarrow> storage option" where
  "write_sram st address value msk = do {
     let a = unat (address AND SRAM_ADDR_MASK);
     w \<leftarrow> get_le32 (st_data st) a;
     m \<leftarrow> put_le32 (st_data st) a (masked_write w value msk);
     Some (st_save a 4 (st\<lparr>st_data := m\<rparr>)) }"

section \<open>Flash RAM\<close>

abbreviation FLASHRAM_SIZE :: nat where "FLASHRAM_SIZE \<equiv> 0x20000"
abbreviation FLASHRAM_TYPE_ID :: u32 where "FLASHRAM_TYPE_ID \<equiv> 0x11118001"
abbreviation MX29L0000_ID :: u32 where "MX29L0000_ID \<equiv> 0x00c20000"
abbreviation MX29L0001_ID :: u32 where "MX29L0001_ID \<equiv> 0x00c20001"
abbreviation MX29L1100_ID :: u32 where "MX29L1100_ID \<equiv> 0x00c2001e"
abbreviation MX29L1101_ID :: u32 where "MX29L1101_ID \<equiv> 0x00c2001d"

datatype flashram_mode =
    FLASHRAM_MODE_READ_ARRAY | FLASHRAM_MODE_READ_SILICON_ID | FLASHRAM_MODE_STATUS
  | FLASHRAM_MODE_SECTOR_ERASE | FLASHRAM_MODE_CHIP_ERASE | FLASHRAM_MODE_PAGE_PROGRAM

record flashram =
  page_buf :: "u8 list"
  silicon_id0 :: u32
  silicon_id1 :: u32
  fl_status :: u32
  erase_page :: u16
  fl_mode :: flashram_mode
  fl_storage :: storage

definition flash_save :: "nat \<Rightarrow> nat \<Rightarrow> u8 list \<Rightarrow> flashram \<Rightarrow> flashram" where
  "flash_save start sz m f = f\<lparr>fl_storage := st_save start sz ((fl_storage f)\<lparr>st_data := m\<rparr>)\<rparr>"

text \<open>The erase the chip performs in its current mode.\<close>

definition flash_erase :: "flashram \<Rightarrow> flashram option" where
  "flash_erase f =
     (let m = st_data (fl_storage f) in
      case fl_mode f of
        FLASHRAM_MODE_SECTOR_ERASE \<Rightarrow> do {
          let offset = unat (erase_page f AND 0xff80) * 128;
          m \<leftarrow> memset m offset 0xff (128 * 128);
          Some (flash_save offset (128 * 128) m f) }
      | FLASHRAM_MODE_CHIP_ERASE \<Rightarrow> do {
          m \<leftarrow> memset m 0 0xff FLASHRAM_SIZE;
          Some (flash_save 0 FLASHRAM_SIZE m f) }
      | _ \<Rightarrow> Some f)"

definition flash_program :: "flashram \<Rightarrow> nat \<Rightarrow> flashram option" where
  "flash_program f offset = do {
     m \<leftarrow> for_range 0 128 (\<lambda>i m. do { v \<leftarrow> rd (page_buf f) i; wr m (s8 (offset + i)) v }) (st_data (fl_storage f));
     Some (flash_save offset 128 m f) }"

definition flashram_command :: "flashram \<Rightarrow> u32 \<Rightarrow> flashram option" where
  "flashram_command f command =
     (let op = command AND 0xff000000 in
      if op = 0x3c000000 then Some (f\<lparr>fl_mode := FLASHRAM_MODE_CHIP_ERASE\<rparr>)
      else if op = 0x4b000000 then
        Some (f\<lparr>fl_mode := FLASHRAM_MODE_SECTOR_ERASE, erase_page := ucast (command AND 0xffff)\<rparr>)
      else if op = 0x78000000 then do {
        f \<leftarrow> flash_erase (f\<lparr>fl_status := fl_status f OR 0x02\<rparr>);
        Some (f\<lparr>fl_status := (fl_status f AND NOT 0x02) OR 0x08, fl_mode := FLASHRAM_MODE_STATUS\<rparr>) }
      else if op = 0xa5000000 then do {
        f \<leftarrow> flash_program (f\<lparr>fl_status := fl_status f OR 0x01\<rparr>) (unat (command AND 0xffff) * 128);
        Some (f\<lparr>fl_status := (fl_status f AND NOT 0x01) OR 0x04, fl_mode := FLASHRAM_MODE_STATUS\<rparr>) }
      else if op = 0xb4000000 then Some (f\<lparr>fl_mode := FLASHRAM_MODE_PAGE_PROGRAM\<rparr>)
      else if op = 0xd2000000 then Some (f\<lparr>fl_mode := FLASHRAM_MODE_STATUS\<rparr>)
      else if op = 0xe1000000 then
        Some (f\<lparr>fl_mode := FLASHRAM_MODE_READ_SILICON_ID, fl_status := fl_status f OR 0x01\<rparr>)
      else if op = 0xf0000000 then Some (f\<lparr>fl_mode := FLASHRAM_MODE_READ_ARRAY\<rparr>)
      else Some f)"

definition init_flashram :: "flashram \<Rightarrow> u32 \<Rightarrow> storage \<Rightarrow> flashram" where
  "init_flashram f flashram_id st =
     f\<lparr>silicon_id0 := FLASHRAM_TYPE_ID, silicon_id1 := flashram_id, fl_storage := st\<rparr>"

definition poweron_flashram :: "flashram \<Rightarrow> flashram" where
  "poweron_flashram f = f\<lparr>fl_mode := FLASHRAM_MODE_READ_ARRAY, fl_status := 0x00, erase_page := 0,
     page_buf := replicate 128 0xff\<rparr>"

definition format_flashram :: "u8 list \<Rightarrow> u8 list option" where
  "format_flashram m = memset m 0 0xff FLASHRAM_SIZE"

definition read_flashram :: "flashram \<Rightarrow> u32 \<Rightarrow> u32 \<Rightarrow> u32" where
  "read_flashram f address old =
     (if address AND 0x1ffff = 0 \<and> fl_mode f = FLASHRAM_MODE_STATUS then fl_status f
      else if address AND 0x1ffff = 0 \<and> fl_mode f = FLASHRAM_MODE_READ_ARRAY then 0
      else old)"

definition write_flashram :: "flashram \<Rightarrow> u32 \<Rightarrow> u32 \<Rightarrow> u32 \<Rightarrow> flashram option" where
  "write_flashram f address value msk =
     (if address AND 0x1ffff = 0 \<and> fl_mode f = FLASHRAM_MODE_STATUS
      then Some (f\<lparr>fl_status := (value AND msk) AND 0xff\<rparr>)
      else if address AND 0x1ffff = 0x10000 then flashram_command f (value AND msk)
      else Some f)"

definition flashram_dma_write ::
  "flashram \<Rightarrow> u8 list \<Rightarrow> u32 \<Rightarrow> u32 \<Rightarrow> u32 \<Rightarrow> (u32 \<times> u8 list) option" where
  "flashram_dma_write f d dram_addr cart_addr len = do {
     d \<leftarrow>
       (if cart_addr AND 0x1ffff = 0 \<and> len = 8 \<and> fl_mode f = FLASHRAM_MODE_READ_SILICON_ID then do {
          let i = 4 * (unat dram_addr div 4);
          d \<leftarrow> put_le32 d i (silicon_id0 f);
          put_le32 d (i + 4) (silicon_id1 f) }
        else if cart_addr AND 0x1ffff < 0x10000 \<and> fl_mode f = FLASHRAM_MODE_READ_ARRAY then
          let a = (if silicon_id1 f = MX29L1100_ID \<or> silicon_id1 f = MX29L0000_ID \<or> silicon_id1 f = MX29L0001_ID
                   then (cart_addr AND 0xffff) * 2 else cart_addr AND 0xffff)
          in copy_s8 d (unat dram_addr) (st_data (fl_storage f)) (unat a) (unat len)
        else Some d);
     Some (0x1000, d) }"

definition flashram_dma_read ::
  "flashram \<Rightarrow> u8 list \<Rightarrow> u32 \<Rightarrow> u32 \<Rightarrow> u32 \<Rightarrow> (u32 \<times> flashram) option" where
  "flashram_dma_read f d dram_addr cart_addr len = do {
     f \<leftarrow>
       (if cart_addr AND 0x1ffff = 0 \<and> len = 128 \<and> fl_mode f = FLASHRAM_MODE_PAGE_PROGRAM then do {
          pb \<leftarrow> for_range 0 (unat len) (\<lambda>i pb. do { v \<leftarrow> rd d (s8 (unat dram_addr + i)); wr pb i v }) (page_buf f);
          Some (f\<lparr>page_buf := pb\<rparr>) }
        else Some f);
     Some (0x1000, f) }"

section \<open>Real-time clock\<close>

text \<open>
  Times are \<^verbatim>\<open>time_t\<close> values as integers; \<open>localtime\<close> is the C library function and \<open>clk\<close> the value of
  the clock backend.
\<close>

record tm =
  tm_sec :: int
  tm_min :: int
  tm_hour :: int
  tm_mday :: int
  tm_mon :: int
  tm_year :: int
  tm_wday :: int

record af_rtc =
  rtc_control :: u16
  rtc_now :: int
  last_update_rtc :: int

definition byte2bcd :: "int \<Rightarrow> u8" where
  "byte2bcd n = (let n = n smod 100 in word_of_int (push_bit 4 (n sdiv 10) OR (n smod 10)))"

definition time2data :: "tm \<Rightarrow> u8 list" where
  "time2data t =
     [byte2bcd (tm_sec t), byte2bcd (tm_min t), 0x80 + byte2bcd (tm_hour t), byte2bcd (tm_mday t),
      byte2bcd (tm_wday t), byte2bcd (tm_mon t + 1), byte2bcd (tm_year t), byte2bcd (tm_year t sdiv 100)]"

definition update_rtc :: "int \<Rightarrow> af_rtc \<Rightarrow> af_rtc" where
  "update_rtc clk rtc = rtc\<lparr>rtc_now := rtc_now rtc + (clk - last_update_rtc rtc), last_update_rtc := clk\<rparr>"

definition poweron_af_rtc :: "af_rtc \<Rightarrow> af_rtc" where
  "poweron_af_rtc rtc = rtc\<lparr>rtc_control := 0x0200, rtc_now := 0, last_update_rtc := 0\<rparr>"

definition af_rtc_read_block ::
  "(int \<Rightarrow> tm) \<Rightarrow> int \<Rightarrow> af_rtc \<Rightarrow> u8 \<Rightarrow> u8 list \<Rightarrow> nat \<Rightarrow> nat \<Rightarrow> (af_rtc \<times> u8 list) option" where
  "af_rtc_read_block localtime clk rtc block buf data_off status_off =
     (if block = 0 then do {
        buf \<leftarrow> wr buf data_off (ucast (rtc_control rtc));
        buf \<leftarrow> wr buf (data_off + 1) (ucast (drop_bit 8 (rtc_control rtc)));
        buf \<leftarrow> wr buf status_off 0x00;
        Some (rtc, buf) }
      else if block = 2 then do {
        let rtc = update_rtc clk rtc;
        buf \<leftarrow> memcpy buf data_off (time2data (localtime (rtc_now rtc))) 0 8;
        buf \<leftarrow> wr buf status_off 0x00;
        Some (rtc, buf) }
      else Some (rtc, buf))"

definition af_rtc_write_block ::
  "af_rtc \<Rightarrow> u8 \<Rightarrow> u8 list \<Rightarrow> nat \<Rightarrow> nat \<Rightarrow> (af_rtc \<times> u8 list) option" where
  "af_rtc_write_block rtc block buf data_off status_off =
     (if block = 0 then do {
        d0 \<leftarrow> rd buf data_off;
        d1 \<leftarrow> rd buf (data_off + 1);
        buf \<leftarrow> wr buf status_off 0x00;
        Some (rtc\<lparr>rtc_control := push_bit 8 (ucast d1) OR ucast d0\<rparr>, buf) }
      else Some (rtc, buf))"

section \<open>Cartridge ROM\<close>

record cart_rom =
  rom :: "u8 list"
  last_write :: u32

abbreviation CART_ROM_ADDR_MASK :: u32 where "CART_ROM_ADDR_MASK \<equiv> 0x03ffffff"

definition rom_address :: "u32 \<Rightarrow> u32" where
  "rom_address address = address AND 0x03fffffc"

definition poweron_cart_rom :: "cart_rom \<Rightarrow> cart_rom" where
  "poweron_cart_rom c = c\<lparr>last_write := 0\<rparr>"

definition cart_rom_dma_read :: "u32" where
  "cart_rom_dma_read = 0x1000"

text \<open>
  The data part of \<^verbatim>\<open>cart_rom_dma_write\<close>: bytes beyond the end of the ROM read as zero. The bound
  is computed in 32 bits and compared with the ROM size.
\<close>

definition cart_rom_copy :: "cart_rom \<Rightarrow> u8 list \<Rightarrow> u32 \<Rightarrow> u32 \<Rightarrow> u32 \<Rightarrow> u8 list option" where
  "cart_rom_copy c d dram_addr cart_addr len =
     (let a = cart_addr AND CART_ROM_ADDR_MASK; rom_size = length (rom c) in
      if unat (a + len) < rom_size
      then copy_s8 d (unat dram_addr) (rom c) (unat a) (unat len)
      else do {
        let diff = (if rom_size \<le> unat a then 0 else rom_size - unat a);
        d \<leftarrow> copy_s8 d (unat dram_addr) (rom c) (unat a) diff;
        for_range diff (unat len - diff) (\<lambda>i d. wr d (s8 (unat dram_addr + i)) 0) d })"

section \<open>IS viewer\<close>

abbreviation IS_BUFFER_SIZE :: nat where "IS_BUFFER_SIZE \<equiv> 0x1000"

text \<open>\<open>is_log\<close> collects the messages printed, latest first.\<close>

record is_viewer =
  is_data :: "u8 list"
  output_buffer :: "u8 list"
  buffer_pos :: u32
  is_log :: "u8 list list"

definition poweron_is_viewer :: "is_viewer \<Rightarrow> is_viewer" where
  "poweron_is_viewer v = v\<lparr>is_data := replicate IS_BUFFER_SIZE 0,
     output_buffer := replicate IS_BUFFER_SIZE 0, buffer_pos := 0\<rparr>"

definition big32 :: "u32 \<Rightarrow> u32" where
  "big32 w = word_of_bytes (byte_of w 3) (byte_of w 2) (byte_of w 1) (byte_of w 0)"

definition read_is_viewer :: "is_viewer \<Rightarrow> u32 \<Rightarrow> u32 option" where
  "read_is_viewer v address = do { w \<leftarrow> get_le32 (is_data v) (unat (address AND 0xfff)); Some (big32 w) }"

text \<open>\<^verbatim>\<open>memchr(b, c, n)\<close> as the index found, for \<open>n\<close> at most the length of the buffer.\<close>

fun memchr :: "'a list \<Rightarrow> 'a \<Rightarrow> nat \<Rightarrow> nat option" where
  "memchr b c 0 = None"
| "memchr [] c (Suc n) = None"
| "memchr (x # b) c (Suc n) = (if x = c then Some 0 else map_option Suc (memchr b c n))"

lemma memchr_less: "memchr b c n = Some k \<Longrightarrow> k < n \<and> k < length b"
  by (induction b c n arbitrary: k rule: memchr.induct) (auto split: if_splits)

text \<open>
  The loop over the new lines: each prints the buffer up to the new line and moves the rest to the
  front. The overlapping \<^verbatim>\<open>memcpy\<close> of the source moves as \<^verbatim>\<open>memmove\<close> does.
\<close>

function process_newlines :: "u8 list \<Rightarrow> nat \<Rightarrow> u8 list list \<Rightarrow> u8 list \<times> nat \<times> u8 list list" where
  "process_newlines ob pos lg =
     (case memchr ob 10 pos of
        None \<Rightarrow> (ob, pos, lg)
      | Some k \<Rightarrow>
          let index = k + 1;
              ob = ob[k := 0];
              lg = takeWhile (\<lambda>b. b \<noteq> 0) ob # lg;
              ob = drop index ob @ drop (length ob - index) ob
          in process_newlines ob (pos - index) lg)"
  by auto
termination
  by (relation "measure (\<lambda>(ob, pos, lg). pos)") (auto dest: memchr_less)

declare process_newlines.simps [simp del]

definition write_is_viewer :: "is_viewer \<Rightarrow> u32 \<Rightarrow> u32 \<Rightarrow> u32 \<Rightarrow> is_viewer option" where
  "write_is_viewer v address value msk =
     (let a = address AND 0xfff; w = value AND msk in
      if a = 0x14 then
        if w > 0 then
          if unat (buffer_pos v + w) > IS_BUFFER_SIZE
          then Some (v\<lparr>output_buffer := replicate IS_BUFFER_SIZE 0, buffer_pos := 0\<rparr>)
          else do {
            ob \<leftarrow> memcpy (output_buffer v) (unat (buffer_pos v)) (is_data v) 0x20 (unat w);
            let (ob, pos, lg) = process_newlines ob (unat (buffer_pos v + w)) (is_log v);
            Some (v\<lparr>output_buffer := ob, buffer_pos := word_of_nat pos, is_log := lg\<rparr>) }
        else Some v
      else do {
        d \<leftarrow> put_le32 (is_data v) (unat a) (big32 w);
        Some (v\<lparr>is_data := d\<rparr>) })"

section \<open>The cartridge\<close>

record cart =
  c_rtc :: af_rtc
  c_rom :: cart_rom
  c_eeprom :: eeprom
  c_flashram :: flashram
  c_sram :: storage
  use_flashram :: int

datatype savetype = SAVETYPE_SRAM | SAVETYPE_FLASH_RAM | SAVETYPE_OTHER

definition init_use_flashram :: "savetype \<Rightarrow> int" where
  "init_use_flashram ty = (case ty of SAVETYPE_SRAM \<Rightarrow> -1 | SAVETYPE_FLASH_RAM \<Rightarrow> 1 | _ \<Rightarrow> 0)"

definition poweron_cart :: "cart \<Rightarrow> cart" where
  "poweron_cart c = c\<lparr>c_rtc := poweron_af_rtc (c_rtc c), c_rom := poweron_cart_rom (c_rom c),
     c_flashram := poweron_flashram (c_flashram c)\<rparr>"

definition process_cart_command ::
  "(int \<Rightarrow> tm) \<Rightarrow> int \<Rightarrow> joybus_ptr \<Rightarrow> cart \<Rightarrow> u8 list \<Rightarrow> (cart \<times> u8 list) option" where
  "process_cart_command localtime clk p c buf = do {
     cmd \<leftarrow> rd buf (jp_tx_buf p);
     if cmd = JCMD_RESET \<or> cmd = JCMD_STATUS then
       joybus_check 1 3 p c buf
         (if ee_type (c_eeprom c) \<noteq> 0 then do {
            buf \<leftarrow> wr buf (jp_rx_buf p) (ucast (ee_type (c_eeprom c)));
            buf \<leftarrow> wr buf (jp_rx_buf p + 1) (ucast (drop_bit 8 (ee_type (c_eeprom c))));
            buf \<leftarrow> wr buf (jp_rx_buf p + 2) 0x00;
            Some (c, buf) }
          else do { buf \<leftarrow> rx_or 0x80 p buf; Some (c, buf) })
     else if cmd = JCMD_EEPROM_READ then
       joybus_check 2 8 p c buf (do {
         b \<leftarrow> rd buf (jp_tx_buf p + 1);
         buf \<leftarrow> eeprom_read_block (c_eeprom c) b buf (jp_rx_buf p);
         Some (c, buf) })
     else if cmd = JCMD_EEPROM_WRITE then
       joybus_check 10 1 p c buf (do {
         b \<leftarrow> rd buf (jp_tx_buf p + 1);
         (e, buf) \<leftarrow> eeprom_write_block (c_eeprom c) b buf (jp_tx_buf p + 2) (jp_rx_buf p);
         Some (c\<lparr>c_eeprom := e\<rparr>, buf) })
     else if cmd = JCMD_AF_RTC_STATUS then
       joybus_check 1 3 p c buf (do {
         buf \<leftarrow> wr buf (jp_rx_buf p) (ucast JDT_AF_RTC);
         buf \<leftarrow> wr buf (jp_rx_buf p + 1) (ucast (drop_bit 8 JDT_AF_RTC));
         buf \<leftarrow> wr buf (jp_rx_buf p + 2) 0x00;
         Some (c, buf) })
     else if cmd = JCMD_AF_RTC_READ then
       joybus_check 2 9 p c buf (do {
         b \<leftarrow> rd buf (jp_tx_buf p + 1);
         (r, buf) \<leftarrow> af_rtc_read_block localtime clk (c_rtc c) b buf (jp_rx_buf p) (jp_rx_buf p + 8);
         Some (c\<lparr>c_rtc := r\<rparr>, buf) })
     else if cmd = JCMD_AF_RTC_WRITE then
       joybus_check 10 1 p c buf (do {
         b \<leftarrow> rd buf (jp_tx_buf p + 1);
         (r, buf) \<leftarrow> af_rtc_write_block (c_rtc c) b buf (jp_tx_buf p + 2) (jp_rx_buf p);
         Some (c\<lparr>c_rtc := r\<rparr>, buf) })
     else Some (c, buf) }"

definition read_cart_dom2 :: "cart \<Rightarrow> u32 \<Rightarrow> u32 \<Rightarrow> (u32 \<times> cart) option" where
  "read_cart_dom2 c address old =
     (if use_flashram c = -1 then do { v \<leftarrow> read_sram (c_sram c) address; Some (v, c) }
      else if address AND 0xffff \<noteq> 0 then Some (old, c)
      else Some (read_flashram (c_flashram c) address old, c\<lparr>use_flashram := 1\<rparr>))"

definition write_cart_dom2 :: "cart \<Rightarrow> u32 \<Rightarrow> u32 \<Rightarrow> u32 \<Rightarrow> cart option" where
  "write_cart_dom2 c address value msk =
     (if use_flashram c = -1 then do { st \<leftarrow> write_sram (c_sram c) address value msk; Some (c\<lparr>c_sram := st\<rparr>) }
      else if address AND 0xffff \<noteq> 0 then Some c
      else do {
        f \<leftarrow> write_flashram (c_flashram c) address value msk;
        Some (c\<lparr>use_flashram := 1, c_flashram := f\<rparr>) })"

definition cart_dom2_dma_read :: "cart \<Rightarrow> u8 list \<Rightarrow> u32 \<Rightarrow> u32 \<Rightarrow> u32 \<Rightarrow> (u32 \<times> cart) option" where
  "cart_dom2_dma_read c d dram_addr cart_addr len =
     (if use_flashram c \<noteq> 1 then do {
        (cycles, st) \<leftarrow> sram_dma_read (c_sram c) d dram_addr cart_addr len;
        Some (cycles, c\<lparr>c_sram := st, use_flashram := -1\<rparr>) }
      else do {
        (cycles, f) \<leftarrow> flashram_dma_read (c_flashram c) d dram_addr cart_addr len;
        Some (cycles, c\<lparr>c_flashram := f\<rparr>) })"

definition cart_dom2_dma_write ::
  "cart \<Rightarrow> u8 list \<Rightarrow> u32 \<Rightarrow> u32 \<Rightarrow> u32 \<Rightarrow> (u32 \<times> u8 list \<times> cart) option" where
  "cart_dom2_dma_write c d dram_addr cart_addr len =
     (if use_flashram c \<noteq> 1 then do {
        (cycles, d) \<leftarrow> sram_dma_write (c_sram c) d dram_addr cart_addr len;
        Some (cycles, d, c\<lparr>use_flashram := -1\<rparr>) }
      else do {
        (cycles, d) \<leftarrow> flashram_dma_write (c_flashram c) d dram_addr cart_addr len;
        Some (cycles, d, c) })"

end
