(* ===== verification/Pi.thy ===== *)
theory Pi
  imports Rsp Cart
begin

text \<open>
  The peripheral interface, \<^verbatim>\<open>device/rcp/pi/pi_controller.c\<close>, with the accesses of
  \<^verbatim>\<open>device/cart/cart_rom.c\<close> that depend on it and the handler selection \<^verbatim>\<open>get_pi_dma_handler\<close> of
  \<^verbatim>\<open>device/device.c\<close>. The disk drive's DMA functions are parameters, which \<open>Dd\<close> fills in.
\<close>

section \<open>Data\<close>

datatype pi_register =
    PI_DRAM_ADDR_REG | PI_CART_ADDR_REG | PI_RD_LEN_REG | PI_WR_LEN_REG | PI_STATUS_REG
  | PI_BSD_DOM1_LAT_REG | PI_BSD_DOM1_PWD_REG | PI_BSD_DOM1_PGS_REG | PI_BSD_DOM1_RLS_REG
  | PI_BSD_DOM2_LAT_REG | PI_BSD_DOM2_PWD_REG | PI_BSD_DOM2_PGS_REG | PI_BSD_DOM2_RLS_REG

abbreviation PI_STATUS_DMA_BUSY :: u32 where "PI_STATUS_DMA_BUSY \<equiv> 0x01"
abbreviation PI_STATUS_IO_BUSY :: u32 where "PI_STATUS_IO_BUSY \<equiv> 0x02"
abbreviation PI_STATUS_ERROR :: u32 where "PI_STATUS_ERROR \<equiv> 0x04"
abbreviation PI_STATUS_INTERRUPT :: u32 where "PI_STATUS_INTERRUPT \<equiv> 0x08"
abbreviation PI_STATUS_RESET :: u32 where "PI_STATUS_RESET \<equiv> 0x01"
abbreviation PI_STATUS_CLR_INTR :: u32 where "PI_STATUS_CLR_INTR \<equiv> 0x02"

record pi_controller =
  pi_regs :: "pi_register \<Rightarrow> u32"

record pi_sys = rsp_sys +
  pi_ctl :: pi_controller
  cart :: cart

datatype pi_dma_handler = DMA_cart_dom3 | DMA_cart_rom | DMA_cart_dom2 | DMA_dd_dom

text \<open>
  What a transfer reaches outside the modelled state: the disk drive's handlers (arguments
  \<^verbatim>\<open>dram_addr\<close>, \<^verbatim>\<open>cart_addr\<close>, \<^verbatim>\<open>length\<close>, result the duration) and the value of \<^verbatim>\<open>rand()\<close>.
\<close>

record 's pi_env =
  pi_gfx :: "'s gfx_plugin"
  dd_dom_dma_read :: "u32 \<Rightarrow> u32 \<Rightarrow> u32 \<Rightarrow> 's \<Rightarrow> (u32 \<times> 's) option"
  dd_dom_dma_write :: "u32 \<Rightarrow> u32 \<Rightarrow> u32 \<Rightarrow> 's \<Rightarrow> (u32 \<times> 's) option"
  pi_rand :: u32

abbreviation pir :: "'a pi_sys_scheme \<Rightarrow> pi_register \<Rightarrow> u32" where
  "pir s x \<equiv> pi_regs (pi_ctl s) x"

definition set_pir :: "pi_register \<Rightarrow> u32 \<Rightarrow> 'a pi_sys_scheme \<Rightarrow> 'a pi_sys_scheme" where
  "set_pir x v s = s\<lparr>pi_ctl := (pi_ctl s)\<lparr>pi_regs := (pi_regs (pi_ctl s))(x := v)\<rparr>\<rparr>"

definition pi_reg :: "u32 \<Rightarrow> pi_register option" where
  "pi_reg address =
     rd [PI_DRAM_ADDR_REG, PI_CART_ADDR_REG, PI_RD_LEN_REG, PI_WR_LEN_REG, PI_STATUS_REG,
         PI_BSD_DOM1_LAT_REG, PI_BSD_DOM1_PWD_REG, PI_BSD_DOM1_PGS_REG, PI_BSD_DOM1_RLS_REG,
         PI_BSD_DOM2_LAT_REG, PI_BSD_DOM2_PWD_REG, PI_BSD_DOM2_PGS_REG, PI_BSD_DOM2_RLS_REG]
        (unat (drop_bit 2 (address AND 0xffff)))"

section \<open>DMA handlers\<close>

definition get_pi_dma_handler :: "u32 \<Rightarrow> pi_dma_handler option" where
  "get_pi_dma_handler address =
     (if MM_CART_ROM \<le> address then
        if MM_CART_DOM3 \<le> address then Some DMA_cart_dom3 else Some DMA_cart_rom
      else if MM_DOM2_ADDR2 \<le> address then Some DMA_cart_dom2
      else if MM_DOM2_ADDR1 \<le> address then Some DMA_dd_dom
      else None)"

definition set_dram :: "u8 list \<Rightarrow> 'a pi_sys_scheme \<Rightarrow> 'a pi_sys_scheme" where
  "set_dram d s = s\<lparr>rdram := (rdram s)\<lparr>dram := d\<rparr>\<rparr>"

definition cart_rom_dma_write ::
  "u32 \<Rightarrow> u32 \<Rightarrow> u32 \<Rightarrow> u32 \<Rightarrow> 'a pi_sys_scheme \<Rightarrow> (u32 \<times> 'a pi_sys_scheme) option" where
  "cart_rom_dma_write rnd dram_addr cart_addr len s = do {
     d \<leftarrow> cart_rom_copy (c_rom (cart s)) (dram (rdram s)) dram_addr cart_addr len;
     s \<leftarrow> upd_r4300 invalidate_r4300_cached_code (set_dram d s);
     s \<leftarrow> upd_r4300 invalidate_r4300_cached_code s;
     Some (len div 8 + add_random_interrupt_time rnd (r4300 s), s) }"

definition pi_handler_read ::
  "'a pi_sys_scheme pi_env \<Rightarrow> pi_dma_handler \<Rightarrow> u32 \<Rightarrow> u32 \<Rightarrow> u32 \<Rightarrow> 'a pi_sys_scheme
    \<Rightarrow> (u32 \<times> 'a pi_sys_scheme) option" where
  "pi_handler_read env h dram_addr cart_addr len s =
     (case h of
        DMA_cart_dom3 \<Rightarrow> Some (cart_rom_dma_read, s)
      | DMA_cart_rom \<Rightarrow> Some (cart_rom_dma_read, s)
      | DMA_cart_dom2 \<Rightarrow> do {
          (cycles, c) \<leftarrow> cart_dom2_dma_read (cart s) (dram (rdram s)) dram_addr cart_addr len;
          Some (cycles, s\<lparr>cart := c\<rparr>) }
      | DMA_dd_dom \<Rightarrow> dd_dom_dma_read env dram_addr cart_addr len s)"

definition pi_handler_write ::
  "'a pi_sys_scheme pi_env \<Rightarrow> pi_dma_handler \<Rightarrow> u32 \<Rightarrow> u32 \<Rightarrow> u32 \<Rightarrow> 'a pi_sys_scheme
    \<Rightarrow> (u32 \<times> 'a pi_sys_scheme) option" where
  "pi_handler_write env h dram_addr cart_addr len s =
     (case h of
        DMA_cart_dom3 \<Rightarrow> cart_rom_dma_write (pi_rand env) dram_addr cart_addr len s
      | DMA_cart_rom \<Rightarrow> cart_rom_dma_write (pi_rand env) dram_addr cart_addr len s
      | DMA_cart_dom2 \<Rightarrow> do {
          (cycles, d, c) \<leftarrow> cart_dom2_dma_write (cart s) (dram (rdram s)) dram_addr cart_addr len;
          Some (cycles, (set_dram d s)\<lparr>cart := c\<rparr>) }
      | DMA_dd_dom \<Rightarrow> dd_dom_dma_write env dram_addr cart_addr len s)"

section \<open>Transfers\<close>

definition validate_pi_request :: "'a pi_sys_scheme \<Rightarrow> bool \<times> 'a pi_sys_scheme" where
  "validate_pi_request s =
     (if pir s PI_STATUS_REG AND (PI_STATUS_DMA_BUSY OR PI_STATUS_IO_BUSY) \<noteq> 0
      then (False, set_pir PI_STATUS_REG (pir s PI_STATUS_REG OR PI_STATUS_ERROR) s)
      else (True, s))"

definition pi_dram_addr :: "'a pi_sys_scheme \<Rightarrow> u32" where
  "pi_dram_addr s = pir s PI_DRAM_ADDR_REG AND 0xfffffe"

definition pi_cart_addr :: "'a pi_sys_scheme \<Rightarrow> u32" where
  "pi_cart_addr s = pir s PI_CART_ADDR_REG AND NOT 1"

text \<open>The length of a transfer to the cartridge, and of one from it, from the length register.\<close>

definition pi_round_length :: "u32 \<Rightarrow> u32" where
  "pi_round_length len = (if 0x7f \<le> len \<and> len AND 1 \<noteq> 0 then len + 1 else len)"

definition pi_read_length :: "u32 \<Rightarrow> u32" where
  "pi_read_length reg = pi_round_length ((reg AND 0x00ffffff) + 1)"

definition pi_write_length :: "u32 \<Rightarrow> u32 \<Rightarrow> u32" where
  "pi_write_length reg dram_addr =
     (let len = pi_round_length ((reg AND 0x00ffffff) + 1)
      in if len \<le> 0x80 then len - (dram_addr AND 0x7) else len)"

text \<open>The bookkeeping at the end of both directions.\<close>

definition pi_dma_started :: "u32 \<Rightarrow> u32 \<Rightarrow> 'a pi_sys_scheme \<Rightarrow> 'a pi_sys_scheme option" where
  "pi_dma_started cycles len s = do {
     let s = set_pir PI_STATUS_REG (pir s PI_STATUS_REG OR PI_STATUS_DMA_BUSY) s;
     let s = set_pir PI_DRAM_ADDR_REG ((pir s PI_DRAM_ADDR_REG + len + 7) AND NOT 7) s;
     let s = set_pir PI_CART_ADDR_REG ((pir s PI_CART_ADDR_REG + len + 1) AND NOT 1) s;
     sp_add_event PI_INT cycles s }"

definition dma_pi_read ::
  "'a pi_sys_scheme pi_env \<Rightarrow> 'a pi_sys_scheme \<Rightarrow> 'a pi_sys_scheme option" where
  "dma_pi_read env s =
     (case validate_pi_request s of
        (False, s) \<Rightarrow> Some s
      | (True, s) \<Rightarrow>
          (case get_pi_dma_handler (pi_cart_addr s) of
             None \<Rightarrow> Some s
           | Some h \<Rightarrow> do {
               let dram_addr = pi_dram_addr s;
               let cart_addr = pi_cart_addr s;
               let len = pi_read_length (pir s PI_RD_LEN_REG);
               s \<leftarrow> pre_framebuffer_read (pi_gfx env) dram_addr s;
               (cycles, s) \<leftarrow> pi_handler_read env h dram_addr cart_addr len s;
               pi_dma_started cycles len s }))"

definition dma_pi_write ::
  "'a pi_sys_scheme pi_env \<Rightarrow> 'a pi_sys_scheme \<Rightarrow> 'a pi_sys_scheme option" where
  "dma_pi_write env s =
     (case validate_pi_request s of
        (False, s) \<Rightarrow> Some s
      | (True, s) \<Rightarrow>
          (case get_pi_dma_handler (pi_cart_addr s) of
             None \<Rightarrow> Some s
           | Some h \<Rightarrow> do {
               let dram_addr = pi_dram_addr s;
               let cart_addr = pi_cart_addr s;
               let len = pi_write_length (pir s PI_WR_LEN_REG) dram_addr;
               (cycles, s) \<leftarrow> pi_handler_write env h dram_addr cart_addr len s;
               s \<leftarrow> post_framebuffer_write (pi_gfx env) dram_addr len s;
               pi_dma_started cycles len s }))"

section \<open>Registers\<close>

definition poweron_pi :: "pi_controller \<Rightarrow> pi_controller" where
  "poweron_pi p = p\<lparr>pi_regs := (\<lambda>_. 0)\<rparr>"

definition read_pi_regs :: "pi_controller \<Rightarrow> u32 \<Rightarrow> u32 option" where
  "read_pi_regs p address = do {
     reg \<leftarrow> pi_reg address;
     Some (case reg of
             PI_WR_LEN_REG \<Rightarrow> 0x7F
           | PI_RD_LEN_REG \<Rightarrow> 0x7F
           | PI_CART_ADDR_REG \<Rightarrow> pi_regs p reg AND 0xFFFFFFFE
           | PI_DRAM_ADDR_REG \<Rightarrow> pi_regs p reg AND 0xFFFFFE
           | _ \<Rightarrow> pi_regs p reg) }"

definition write_pi_regs ::
  "'a pi_sys_scheme pi_env \<Rightarrow> 'a pi_sys_scheme \<Rightarrow> u32 \<Rightarrow> u32 \<Rightarrow> u32 \<Rightarrow> 'a pi_sys_scheme option" where
  "write_pi_regs env s address value msk = do {
     reg \<leftarrow> pi_reg address;
     case reg of
       PI_DRAM_ADDR_REG \<Rightarrow> Some (set_pir reg (masked_write (pir s reg) value msk) s)
     | PI_CART_ADDR_REG \<Rightarrow> Some (set_pir reg (masked_write (pir s reg) value msk) s)
     | PI_RD_LEN_REG \<Rightarrow> dma_pi_read env (set_pir reg (masked_write (pir s reg) value msk) s)
     | PI_WR_LEN_REG \<Rightarrow> dma_pi_write env (set_pir reg (masked_write (pir s reg) value msk) s)
     | PI_STATUS_REG \<Rightarrow> do {
         s \<leftarrow> (if value AND msk AND PI_STATUS_CLR_INTR \<noteq> 0
              then clear_rcp_interrupt
                     (set_pir PI_STATUS_REG (pir s PI_STATUS_REG AND NOT PI_STATUS_INTERRUPT) s) MI_INTR_PI
              else Some s);
         Some (if value AND msk AND PI_STATUS_RESET \<noteq> 0 then set_pir PI_STATUS_REG 0 s else s) }
     | _ \<Rightarrow> Some (set_pir reg (masked_write (pir s reg) (value AND 0xff) msk) s) }"

definition pi_end_of_dma_event :: "'a pi_sys_scheme \<Rightarrow> 'a pi_sys_scheme option" where
  "pi_end_of_dma_event s = do {
     let s = set_pir PI_STATUS_REG ((pir s PI_STATUS_REG AND NOT (PI_STATUS_DMA_BUSY OR PI_STATUS_IO_BUSY))
               OR PI_STATUS_INTERRUPT) s;
     raise_rcp_interrupt s MI_INTR_PI }"

section \<open>Cartridge ROM accesses\<close>

definition read_cart_rom :: "'a pi_sys_scheme \<Rightarrow> u32 \<Rightarrow> u32 option" where
  "read_cart_rom s address =
     (if pir s PI_STATUS_REG AND PI_STATUS_IO_BUSY \<noteq> 0 then Some (last_write (c_rom (cart s)))
      else get_le32 (rom (c_rom (cart s))) (unat (rom_address address)))"

definition write_cart_rom :: "'a pi_sys_scheme \<Rightarrow> u32 \<Rightarrow> u32 \<Rightarrow> u32 \<Rightarrow> 'a pi_sys_scheme option" where
  "write_cart_rom s address value msk =
     (let s = s\<lparr>cart := (cart s)\<lparr>c_rom := (c_rom (cart s))\<lparr>last_write := value AND msk\<rparr>\<rparr>\<rparr> in
      case validate_pi_request s of
        (False, s) \<Rightarrow> Some s
      | (True, s) \<Rightarrow>
          sp_add_event PI_INT 0x1000 (set_pir PI_STATUS_REG (pir s PI_STATUS_REG OR PI_STATUS_IO_BUSY) s))"

section \<open>Facts\<close>

lemma pir_set_pir [simp]: "pir (set_pir x v s) y = (if y = x then v else pir s y)"
  by (simp add: set_pir_def)

lemma set_pir_frame [simp]:
  "rdram (set_pir x v s) = rdram s" "cart (set_pir x v s) = cart s" "r4300 (set_pir x v s) = r4300 s"
  "dp (set_pir x v s) = dp s" "mi (set_pir x v s) = mi s"
  by (simp_all add: set_pir_def)

end
