(* ===== verification/Cic.thy ===== *)
theory Cic
  imports Cart
begin

text \<open>
  The lock-out chip: identification by the checksum of the boot code (\<^verbatim>\<open>device/pif/cic.c\<close>) and the
  challenge/response algorithm of the 6105 (\<^verbatim>\<open>device/pif/n64_cic_nus_6105.c\<close>).
\<close>

section \<open>Identification\<close>

datatype cic_version =
    CIC_X101 | CIC_X102 | CIC_X103 | CIC_X105 | CIC_X106 | CIC_5101 | CIC_5167
  | CIC_8303 | CIC_8401 | CIC_8501

record cic =
  cic_name :: string
  cic_version :: cic_version
  cic_seed :: u32

definition cics :: "cic list" where
  "cics =
     [\<lparr>cic_name = ''5101'', cic_version = CIC_5101, cic_seed = 0xac\<rparr>,
      \<lparr>cic_name = ''X101'', cic_version = CIC_X101, cic_seed = 0x3f\<rparr>,
      \<lparr>cic_name = ''X102'', cic_version = CIC_X102, cic_seed = 0x3f\<rparr>,
      \<lparr>cic_name = ''X103'', cic_version = CIC_X103, cic_seed = 0x78\<rparr>,
      \<lparr>cic_name = ''X105'', cic_version = CIC_X105, cic_seed = 0x91\<rparr>,
      \<lparr>cic_name = ''X106'', cic_version = CIC_X106, cic_seed = 0x85\<rparr>,
      \<lparr>cic_name = ''5167'', cic_version = CIC_5167, cic_seed = 0xdd\<rparr>,
      \<lparr>cic_name = ''8303'', cic_version = CIC_8303, cic_seed = 0xdd\<rparr>,
      \<lparr>cic_name = ''8401'', cic_version = CIC_8401, cic_seed = 0xdd\<rparr>,
      \<lparr>cic_name = ''8501'', cic_version = CIC_8501, cic_seed = 0xde\<rparr>]"

text \<open>The sum of the words of the boot code, in 64 bits.\<close>

definition ipl3_crc :: "u8 list \<Rightarrow> u64 option" where
  "ipl3_crc ipl3 = for_range 0 (0xfc0 div 4)
     (\<lambda>i crc. do { w \<leftarrow> get_le32 ipl3 (4 * i); Some (crc + ucast w) }) 0"

definition cic_index :: "u64 \<Rightarrow> nat" where
  "cic_index crc =
     (if crc = 0x000000D0027FDF31 \<or> crc = 0x000000CFFB631223 then 1
      else if crc = 0x000000D6497E414B then 3
      else if crc = 0x0000011A49F60E96 then 4
      else if crc = 0x000000D6D5BE5580 then 5
      else if crc = 0x000001053BC19870 then 6
      else if crc = 0x000000A5F80BF620 then 0
      else if crc = 0x000000D2E53EF008 then 7
      else if crc = 0x000000D2E53EF39F then 8
      else if crc = 0x000000D2E53E5DDA then 9
      else 2)"

definition init_cic_using_ipl3 :: "u8 list \<Rightarrow> cic option" where
  "init_cic_using_ipl3 ipl3 = do { crc \<leftarrow> ipl3_crc ipl3; rd cics (cic_index crc) }"

section \<open>Challenge and response\<close>

definition lut0 :: "u8 list" where
  "lut0 = [0x4, 0x7, 0xA, 0x7, 0xE, 0x5, 0xE, 0x1, 0xC, 0xF, 0x8, 0xF, 0x6, 0x3, 0x6, 0x9]"

definition lut1 :: "u8 list" where
  "lut1 = [0x4, 0x1, 0xA, 0x7, 0xE, 0x5, 0xE, 0x1, 0xC, 0x9, 0x8, 0x5, 0x6, 0x3, 0xC, 0x9]"

text \<open>The table selected for the next nibble: \<open>second\<close> tells which one is current (true: \<open>lut1\<close>).\<close>

definition next_lut :: "bool \<Rightarrow> u8 \<Rightarrow> bool" where
  "next_lut second r =
     (let sgn = drop_bit 3 r AND 1;
          mag = (if sgn = 1 then NOT r else r) AND 7;
          md = (if mag mod 3 = 1 then sgn else 1 - sgn);
          md = (if second \<and> (r = 0x1 \<or> r = 0x9) then 1 else md);
          md = (if second \<and> (r = 0xB \<or> r = 0xE) then 0 else md)
      in md = 1)"

fun cic_loop :: "u8 \<Rightarrow> bool \<Rightarrow> u8 list \<Rightarrow> u8 list option" where
  "cic_loop key second [] = Some []"
| "cic_loop key second (c # chl) = do {
     let r = (key + 5 * c) AND 0xF;
     key \<leftarrow> rd (if second then lut1 else lut0) (unat r);
     rs \<leftarrow> cic_loop key (next_lut second r) chl;
     Some (r # rs) }"

definition n64_cic_nus_6105 :: "u8 list \<Rightarrow> u8 list option" where
  "n64_cic_nus_6105 chl = cic_loop 0xB False chl"

section \<open>The response determines the challenge\<close>

lemma and_15_less: "unat ((x :: u8) AND 0xF) < 16"
  using unat_and_mask [of x 4] by (simp add: mask_eq_exp_minus_1)

lemma cic_loop_total:
  "\<exists>rs. cic_loop key second chl = Some rs \<and> length rs = length chl \<and> (\<forall>r \<in> set rs. r < 16)"
proof (induction chl arbitrary: key second)
  case (Cons c chl)
  let ?r = "(key + 5 * c) AND 0xF" and ?l = "if second then lut1 else lut0"
  have lt: "unat ?r < 16" by (rule and_15_less)
  then have r: "unat ?r < length ?l" by (simp add: lut0_def lut1_def)
  have r16: "?r < 16" using lt by (simp add: word_less_nat_alt)
  obtain rs where rs: "cic_loop (?l ! unat ?r) (next_lut second ?r) chl = Some rs" "length rs = length chl"
      "\<forall>r \<in> set rs. r < 16"
    using Cons.IH [of "?l ! unat ?r" "next_lut second ?r"] by auto
  show ?case
    unfolding cic_loop.simps Let_def rd_Some [OF r] bind.bind_lunit rs(1) using rs(2,3) r16 by simp
qed simp

text \<open>Multiplication by 5 is invertible on nibbles.\<close>

lemma five_inverse: "16 dvd 5 * x \<Longrightarrow> 16 dvd (x :: int)"
proof (elim dvdE)
  fix k
  assume "5 * x = 16 * k"
  then have "x = 16 * (13 * k - 4 * x)" by simp
  then show "16 dvd x" by (rule dvdI)
qed

lemma nibble_inj:
  assumes "(key + 5 * c) AND 0xF = ((key :: u8) + 5 * d) AND 0xF" "c < 16" "d < 16"
  shows "c = d"
proof -
  have u: "unat ((key + 5 * x) AND 0xF) = (unat key + 5 * unat x) mod 16" for x :: u8
  proof -
    have "unat ((key + 5 * x) AND 0xF) = unat (key + 5 * x) mod 16"
      using unat_and_mask [of "key + 5 * x" 4] by (simp add: mask_eq_exp_minus_1)
    also have "\<dots> = ((unat key + 5 * unat x) mod 256) mod 16"
      by (simp add: unat_word_ariths mod_simps)
    finally show ?thesis by (simp add: mod_mod_cancel)
  qed
  have "(unat key + 5 * unat c) mod 16 = (unat key + 5 * unat d) mod 16"
    using u [of c] u [of d] assms(1) by simp
  then have "int (unat key + 5 * unat c) mod 16 = int (unat key + 5 * unat d) mod 16"
    by (metis zmod_int of_nat_numeral)
  then have "16 dvd int (unat key + 5 * unat c) - int (unat key + 5 * unat d)"
    by (simp only: mod_eq_dvd_iff)
  also have "\<dots> = 5 * (int (unat c) - int (unat d))" by simp
  finally have "16 dvd int (unat c) - int (unat d)" by (rule five_inverse)
  moreover have lt: "unat c < 16" "unat d < 16" using assms(2,3) by (simp_all add: word_less_nat_alt)
  ultimately have "int (unat c) - int (unat d) = 0"
    using dvd_imp_le_int [of "int (unat c) - int (unat d)" 16] by - (rule ccontr, linarith)
  then have "unat c = unat d" by linarith
  then show ?thesis by (simp add: word_unat_eq_iff)
qed

lemma cic_loop_inj:
  assumes "cic_loop key second a = Some rs" "cic_loop key second b = Some rs"
    and "\<forall>x \<in> set a. x < 16" "\<forall>x \<in> set b. x < 16"
  shows "a = b"
  using assms
proof (induction a arbitrary: b key second rs)
  case Nil
  then show ?case using cic_loop_total [of key second b] by auto
next
  case (Cons x a)
  then obtain y b' where b: "b = y # b'"
    using cic_loop_total [of key second "x # a"] cic_loop_total [of key second b] by (cases b) auto
  let ?r = "(key + 5 * x) AND 0xF"
  obtain r rs' where rs: "rs = r # rs'"
    using Cons.prems(1) cic_loop_total [of key second "x # a"] by (cases rs) auto
  have eq: "?r = r" "(key + 5 * y) AND 0xF = r"
    using Cons.prems(1,2) unfolding b rs by (simp_all only: cic_loop.simps Let_def) (auto split: bind_splits)
  then have "x = y" using nibble_inj [of key x y] Cons.prems(3,4) b by simp
  moreover obtain k where "rd (if second then lut1 else lut0) (unat r) = Some k"
      "cic_loop k (next_lut second r) a = Some rs'" "cic_loop k (next_lut second r) b' = Some rs'"
    using Cons.prems(1,2) eq unfolding b rs by (simp_all only: cic_loop.simps Let_def) (auto split: bind_splits)
  ultimately show ?case using Cons.IH [of k "next_lut second r" rs' b'] Cons.prems(3,4) b by simp
qed

end
