(* ===== verification/Si.thy ===== *)
theory Si
  imports Pi Cic
begin

text \<open>
  The serial interface and the peripheral chip behind it: \<^verbatim>\<open>device/rcp/si/si_controller.c\<close> and
  \<^verbatim>\<open>device/pif/pif.c\<close>. The PIF's memory is one byte array, boot ROM first and the 64 bytes of RAM from
  \<^verbatim>\<open>0x7c0\<close> on. A channel's four pointers point into that array or, for a reset, into the channel's
  static \<^verbatim>\<open>dummy_reset_buffer\<close>. Joybus devices are reached through function pointers and are
  parameters, as are the input plugin and netplay.
\<close>

section \<open>Data\<close>

datatype si_dma_dir = SI_NO_DMA | SI_DMA_READ | SI_DMA_WRITE

datatype si_register =
    SI_DRAM_ADDR_REG | SI_PIF_ADDR_RD64B_REG | SI_R2_REG | SI_R3_REG | SI_PIF_ADDR_WR64B_REG
  | SI_R5_REG | SI_STATUS_REG

abbreviation SI_STATUS_DMA_BUSY :: u32 where "SI_STATUS_DMA_BUSY \<equiv> 0x0001"
abbreviation SI_STATUS_IO_BUSY :: u32 where "SI_STATUS_IO_BUSY \<equiv> 0x0002"
abbreviation SI_STATUS_DMA_ERROR :: u32 where "SI_STATUS_DMA_ERROR \<equiv> 0x0008"
abbreviation SI_STATUS_INTERRUPT :: u32 where "SI_STATUS_INTERRUPT \<equiv> 0x1000"
abbreviation PIF_CHANNELS_COUNT :: nat where "PIF_CHANNELS_COUNT \<equiv> 5"

record si_controller =
  si_regs :: "si_register \<Rightarrow> u32"
  si_dma_dir :: si_dma_dir
  dma_duration :: u32

datatype chan_buf = In_pif | In_dummy nat

type_synonym pif_channel = "(chan_buf \<times> joybus_ptr) option"

record pif =
  pif_base :: "u8 list"
  channels :: "pif_channel list"
  dummy_reset_buffer :: "u8 list list"
  pif_cic :: cic

record si_sys = pi_sys +
  si :: si_controller
  pif :: pif

text \<open>
  \<open>jb_process\<close> and the optional \<open>jb_post_setup\<close> receive the pointers, the buffer they point into and
  the state.
\<close>

record 's joybus_ops =
  jb_process :: "joybus_ptr \<Rightarrow> u8 list \<Rightarrow> 's \<Rightarrow> (u8 list \<times> 's) option"
  jb_post_setup :: "(joybus_ptr \<Rightarrow> u8 list \<Rightarrow> 's \<Rightarrow> (u8 list \<times> 's) option) option"

record 's si_env =
  ijbd :: "nat \<Rightarrow> 's joybus_ops option"
  input_controllerCommand :: "'s \<Rightarrow> 's"
  input_readController :: "'s \<Rightarrow> 's"
  netplay_update_input :: "'s \<Rightarrow> 's"
  si_rand :: u32

definition si_reg :: "u32 \<Rightarrow> si_register option" where
  "si_reg address =
     rd [SI_DRAM_ADDR_REG, SI_PIF_ADDR_RD64B_REG, SI_R2_REG, SI_R3_REG, SI_PIF_ADDR_WR64B_REG,
         SI_R5_REG, SI_STATUS_REG] (unat (drop_bit 2 (address AND 0xffff)))"

abbreviation sir :: "'a si_sys_scheme \<Rightarrow> si_register \<Rightarrow> u32" where
  "sir s x \<equiv> si_regs (si s) x"

definition set_sir :: "si_register \<Rightarrow> u32 \<Rightarrow> 'a si_sys_scheme \<Rightarrow> 'a si_sys_scheme" where
  "set_sir x v s = s\<lparr>si := (si s)\<lparr>si_regs := (si_regs (si s))(x := v)\<rparr>\<rparr>"

section \<open>PIF memory\<close>

definition pif_ram :: "pif \<Rightarrow> nat \<Rightarrow> u8 option" where
  "pif_ram p i = rd (pif_base p) (PIF_ROM_SIZE + i)"

definition set_pif_ram :: "nat \<Rightarrow> u8 \<Rightarrow> pif \<Rightarrow> pif option" where
  "set_pif_ram i v p = do { b \<leftarrow> wr (pif_base p) (PIF_ROM_SIZE + i) v; Some (p\<lparr>pif_base := b\<rparr>) }"

definition pif_address :: "u32 \<Rightarrow> u32" where
  "pif_address address = address AND 0xfffc"

definition get_chan_buf :: "pif \<Rightarrow> chan_buf \<Rightarrow> u8 list option" where
  "get_chan_buf p b = (case b of In_pif \<Rightarrow> Some (pif_base p) | In_dummy k \<Rightarrow> rd (dummy_reset_buffer p) k)"

definition set_chan_buf :: "chan_buf \<Rightarrow> u8 list \<Rightarrow> pif \<Rightarrow> pif option" where
  "set_chan_buf b buf p =
     (case b of
        In_pif \<Rightarrow> Some (p\<lparr>pif_base := buf\<rparr>)
      | In_dummy k \<Rightarrow> do { ds \<leftarrow> wr (dummy_reset_buffer p) k buf; Some (p\<lparr>dummy_reset_buffer := ds\<rparr>) })"

text \<open>Calling a device with a buffer of the PIF.\<close>

definition call_device ::
  "(joybus_ptr \<Rightarrow> u8 list \<Rightarrow> 'a si_sys_scheme \<Rightarrow> (u8 list \<times> 'a si_sys_scheme) option)
    \<Rightarrow> chan_buf \<Rightarrow> joybus_ptr \<Rightarrow> 'a si_sys_scheme \<Rightarrow> 'a si_sys_scheme option" where
  "call_device f b jp s = do {
     buf \<leftarrow> get_chan_buf (pif s) b;
     (buf, s) \<leftarrow> f jp buf s;
     p \<leftarrow> set_chan_buf b buf (pif s);
     Some (s\<lparr>pif := p\<rparr>) }"

section \<open>Channels\<close>

definition and_byte :: "nat \<Rightarrow> u8 \<Rightarrow> u8 list \<Rightarrow> u8 list option" where
  "and_byte i m buf = do { v \<leftarrow> rd buf i; wr buf i (v AND m) }"

definition process_channel ::
  "'a si_sys_scheme si_env \<Rightarrow> nat \<Rightarrow> 'a si_sys_scheme \<Rightarrow> 'a si_sys_scheme option" where
  "process_channel env k s = do {
     ch \<leftarrow> rd (channels (pif s)) k;
     case ch of
       None \<Rightarrow> Some s
     | Some (b, jp) \<Rightarrow> do {
         buf \<leftarrow> get_chan_buf (pif s) b;
         buf \<leftarrow> and_byte (jp_tx jp) 0x3f buf;
         buf \<leftarrow> and_byte (jp_rx jp) 0x3f buf;
         p \<leftarrow> set_chan_buf b buf (pif s);
         let s = s\<lparr>pif := p\<rparr>;
         case ijbd env k of
           None \<Rightarrow> do {
             buf \<leftarrow> rx_or 0x80 jp buf;
             p \<leftarrow> set_chan_buf b buf (pif s);
             Some (s\<lparr>pif := p\<rparr>) }
         | Some ops \<Rightarrow> call_device (jb_process ops) b jp s } }"

definition post_setup_channel ::
  "'a si_sys_scheme si_env \<Rightarrow> nat \<Rightarrow> 'a si_sys_scheme \<Rightarrow> 'a si_sys_scheme option" where
  "post_setup_channel env k s =
     (case ijbd env k of
        None \<Rightarrow> Some s
      | Some ops \<Rightarrow>
          (case jb_post_setup ops of
             None \<Rightarrow> Some s
           | Some f \<Rightarrow> do {
               ch \<leftarrow> rd (channels (pif s)) k;
               (b, jp) \<leftarrow> ch;
               call_device f b jp s }))"

definition set_channel :: "nat \<Rightarrow> pif_channel \<Rightarrow> 'a si_sys_scheme \<Rightarrow> 'a si_sys_scheme option" where
  "set_channel k ch s = do {
     cs \<leftarrow> wr (channels (pif s)) k ch;
     Some (s\<lparr>pif := (pif s)\<lparr>channels := cs\<rparr>\<rparr>) }"

definition disable_pif_channel :: "nat \<Rightarrow> 'a si_sys_scheme \<Rightarrow> 'a si_sys_scheme option" where
  "disable_pif_channel k s = set_channel k None s"

text \<open>The pointers of a message that starts at offset \<open>o\<close> of a buffer.\<close>

definition message_ptr :: "u8 list \<Rightarrow> nat \<Rightarrow> (joybus_ptr \<times> nat) option" where
  "message_ptr buf off = do {
     b0 \<leftarrow> rd buf off;
     b1 \<leftarrow> rd buf (off + 1);
     let tx = unat (b0 AND 0x3f);
     let rx = unat (b1 AND 0x3f);
     Some (\<lparr>jp_tx = off, jp_tx_buf = off + 2, jp_rx = off + 1, jp_rx_buf = off + 2 + tx\<rparr>, 2 + tx + rx) }"

definition setup_pif_channel ::
  "'a si_sys_scheme si_env \<Rightarrow> nat \<Rightarrow> chan_buf \<Rightarrow> nat \<Rightarrow> 'a si_sys_scheme \<Rightarrow> (nat \<times> 'a si_sys_scheme) option" where
  "setup_pif_channel env k b off s = do {
     buf \<leftarrow> get_chan_buf (pif s) b;
     (jp, len) \<leftarrow> message_ptr buf off;
     s \<leftarrow> set_channel k (Some (b, jp)) s;
     s \<leftarrow> post_setup_channel env k s;
     Some (len, s) }"

text \<open>The body of the case \<^verbatim>\<open>0xfd\<close>.\<close>

definition setup_reset_channel ::
  "'a si_sys_scheme si_env \<Rightarrow> nat \<Rightarrow> 'a si_sys_scheme \<Rightarrow> 'a si_sys_scheme option" where
  "setup_reset_channel env k s = do {
     d \<leftarrow> rd (dummy_reset_buffer (pif s)) k;
     d \<leftarrow> wr d 0 0x01;
     d \<leftarrow> wr d 1 0x03;
     d \<leftarrow> wr d 2 0xff;
     p \<leftarrow> set_chan_buf (In_dummy k) d (pif s);
     (_, s) \<leftarrow> setup_pif_channel env k (In_dummy k) 0 (s\<lparr>pif := p\<rparr>);
     Some s }"

function format_loop ::
  "'a si_sys_scheme si_env \<Rightarrow> nat \<Rightarrow> nat \<Rightarrow> 'a si_sys_scheme \<Rightarrow> 'a si_sys_scheme option" where
  "format_loop env i k s =
     (if i < PIF_RAM_SIZE \<and> k < PIF_CHANNELS_COUNT then do {
        b \<leftarrow> pif_ram (pif s) i;
        if b = 0x00 then do { s \<leftarrow> disable_pif_channel k s; format_loop env (i + 1) (k + 1) s }
        else if b = 0xff then format_loop env (i + 1) k s
        else if b = 0xfe then for_range k (PIF_CHANNELS_COUNT - k) disable_pif_channel s
        else if b = 0xfd then do { s \<leftarrow> setup_reset_channel env k s; format_loop env (i + 1) (k + 1) s }
        else do {
          b1 \<leftarrow> (if i + 1 < PIF_RAM_SIZE then pif_ram (pif s) (i + 1) else Some 0);
          if b1 = 0xfe then format_loop env (i + 1) k s
          else if i + 2 \<ge> PIF_RAM_SIZE then format_loop env PIF_RAM_SIZE k s
          else do {
            (len, s) \<leftarrow> setup_pif_channel env k In_pif (PIF_ROM_SIZE + i) s;
            format_loop env (i + len) (k + 1) s } } }
      else Some s)"
  by auto
termination
  by (relation "measure (\<lambda>(env, i, k, s). (PIF_RAM_SIZE - i) + (PIF_CHANNELS_COUNT - k))") auto

declare format_loop.simps [simp del]

definition setup_channels_format ::
  "'a si_sys_scheme si_env \<Rightarrow> 'a si_sys_scheme \<Rightarrow> 'a si_sys_scheme option" where
  "setup_channels_format env s = do {
     s \<leftarrow> format_loop env 0 0 s;
     Some (input_controllerCommand env s) }"

section \<open>Reset and the lock-out challenge\<close>

definition pif24_value :: "cic \<Rightarrow> u32 \<Rightarrow> u32" where
  "pif24_value c reset_type =
     (let rom_type = (if cic_version c = CIC_8303 \<or> cic_version c = CIC_8401 \<or> cic_version c = CIC_8501
                      then 1 else 0);
          s7 = 0
      in push_bit 19 (rom_type AND 0x1) OR push_bit 18 (s7 AND 0x1) OR push_bit 17 (reset_type AND 0x1)
         OR push_bit 8 (cic_seed c AND 0xff) OR 0x3f)"

definition reset_pif :: "u32 \<Rightarrow> 'a si_sys_scheme \<Rightarrow> 'a si_sys_scheme option" where
  "reset_pif reset_type s =
     (if reset_type AND NOT 1 \<noteq> 0 then None
      else do {
        s \<leftarrow> for_range 0 PIF_CHANNELS_COUNT disable_pif_channel s;
        b \<leftarrow> put_le32 (pif_base (pif s)) (PIF_ROM_SIZE + 0x24) (big32 (pif24_value (pif_cic (pif s)) reset_type));
        p \<leftarrow> set_pif_ram 0x3f 0x00 ((pif s)\<lparr>pif_base := b\<rparr>);
        Some (s\<lparr>pif := p\<rparr>) })"

definition poweron_pif :: "'a si_sys_scheme \<Rightarrow> 'a si_sys_scheme option" where
  "poweron_pif s = do {
     b \<leftarrow> memset (pif_base (pif s)) PIF_ROM_SIZE 0 PIF_RAM_SIZE;
     reset_pif 0 (s\<lparr>pif := (pif s)\<lparr>pif_base := b\<rparr>\<rparr>) }"

text \<open>Bytes to nibbles and back.\<close>

fun nibbles :: "u8 list \<Rightarrow> u8 list" where
  "nibbles [] = []"
| "nibbles (b # bs) = (drop_bit 4 b AND 0x0f) # (b AND 0x0f) # nibbles bs"

fun bytes_of_nibbles :: "u8 list \<Rightarrow> u8 list" where
  "bytes_of_nibbles (h # l # ns) = (push_bit 4 h + l) # bytes_of_nibbles ns"
| "bytes_of_nibbles _ = []"

definition process_cic_challenge :: "pif \<Rightarrow> pif option" where
  "process_cic_challenge p =
     (if length (pif_base p) < PIF_ROM_SIZE + 0x30 + 15 then None
      else do {
        response \<leftarrow> n64_cic_nus_6105 (nibbles (take 15 (drop (PIF_ROM_SIZE + 0x30) (pif_base p))));
        p \<leftarrow> set_pif_ram 0x2e 0 p;
        p \<leftarrow> set_pif_ram 0x2f 0 p;
        b \<leftarrow> memcpy (pif_base p) (PIF_ROM_SIZE + 0x30) (bytes_of_nibbles response) 0 15;
        Some (p\<lparr>pif_base := b\<rparr>) })"

section \<open>PIF accesses\<close>

definition read_pif_mem :: "pif \<Rightarrow> u32 \<Rightarrow> u32 option" where
  "read_pif_mem p address = do {
     let addr = unat (pif_address address);
     v \<leftarrow> get_le32 (pif_base p) addr;
     Some (if PIF_ROM_SIZE \<le> addr then big32 v else v) }"

definition write_pif_mem :: "'a si_sys_scheme \<Rightarrow> u32 \<Rightarrow> u32 \<Rightarrow> u32 \<Rightarrow> 'a si_sys_scheme option" where
  "write_pif_mem s address value msk = do {
     let addr = unat (pif_address address);
     if addr < PIF_ROM_SIZE then Some s
     else do {
       w \<leftarrow> get_le32 (pif_base (pif s)) addr;
       b \<leftarrow> put_le32 (pif_base (pif s)) addr (masked_write w (big32 value) (big32 msk));
       let s = s\<lparr>pif := (pif s)\<lparr>pif_base := b\<rparr>, si := (si s)\<lparr>si_dma_dir := SI_DMA_WRITE\<rparr>\<rparr>;
       let s = set_sir SI_STATUS_REG (sir s SI_STATUS_REG OR (SI_STATUS_DMA_BUSY OR SI_STATUS_IO_BUSY)) s;
       sp_add_event SI_INT (dma_duration (si s)) s } }"

definition process_pif_ram ::
  "'a si_sys_scheme si_env \<Rightarrow> 'a si_sys_scheme \<Rightarrow> 'a si_sys_scheme option" where
  "process_pif_ram env s = do {
     flags \<leftarrow> pif_ram (pif s) 0x3f;
     if flags = 0 then Some s
     else do {
       s \<leftarrow> (if flags AND 0x01 \<noteq> 0 then setup_channels_format env s else Some s);
       s \<leftarrow> (if flags AND 0x02 \<noteq> 0 then do {
           s \<leftarrow> for_range 0 PIF_CHANNELS_COUNT disable_pif_channel s;
           p \<leftarrow> process_cic_challenge (pif s);
           Some (s\<lparr>pif := p\<rparr>) }
         else Some s);
       p \<leftarrow> (if flags AND 0x30 \<noteq> 0 then set_pif_ram 0x3f 0x80 (pif s) else Some (pif s));
       let clrmask = (flags AND 0x01) OR (flags AND 0x02) OR (flags AND 0x08);
       v \<leftarrow> pif_ram p 0x3f;
       p \<leftarrow> set_pif_ram 0x3f (v AND NOT clrmask) p;
       Some (s\<lparr>pif := p\<rparr>) } }"

definition update_pif_ram ::
  "'a si_sys_scheme si_env \<Rightarrow> 'a si_sys_scheme \<Rightarrow> 'a si_sys_scheme option" where
  "update_pif_ram env s = do {
     s \<leftarrow> for_range 0 PIF_CHANNELS_COUNT (process_channel env) s;
     Some (netplay_update_input env (input_readController env s)) }"

definition hw2_int_handler :: "'a r4300_sys_scheme \<Rightarrow> 'a r4300_sys_scheme option" where
  "hw2_int_handler s = upd_r4300 (\<lambda>r. raise_maskable_interrupt r CP0_CAUSE_IP4) s"

section \<open>The serial interface\<close>

definition validate_dma :: "si_register \<Rightarrow> 'a si_sys_scheme \<Rightarrow> bool \<times> 'a si_sys_scheme" where
  "validate_dma reg s =
     (if sir s reg AND 0x1fffffff \<noteq> 0x1fc007c0 then (False, s)
      else if sir s SI_STATUS_REG AND SI_STATUS_DMA_BUSY \<noteq> 0
      then (False, set_sir SI_STATUS_REG (sir s SI_STATUS_REG OR SI_STATUS_DMA_ERROR) s)
      else (True, s))"

definition copy_pif_rdram :: "'a si_sys_scheme \<Rightarrow> 'a si_sys_scheme option" where
  "copy_pif_rdram s = do {
     let a = unat (rdram_dram_address (sir s SI_DRAM_ADDR_REG AND NOT 3));
     case si_dma_dir (si s) of
       SI_DMA_WRITE \<Rightarrow> do {
         b \<leftarrow> for_range 0 (PIF_RAM_SIZE div 4) (\<lambda>i b. do {
             w \<leftarrow> get_le32 (dram (rdram s)) (4 * (a + i));
             put_le32 b (PIF_ROM_SIZE + 4 * i) (big32 w) }) (pif_base (pif s));
         Some (s\<lparr>pif := (pif s)\<lparr>pif_base := b\<rparr>\<rparr>) }
     | SI_DMA_READ \<Rightarrow> do {
         d \<leftarrow> for_range 0 (PIF_RAM_SIZE div 4) (\<lambda>i d. do {
             w \<leftarrow> get_le32 (pif_base (pif s)) (PIF_ROM_SIZE + 4 * i);
             put_le32 d (4 * (a + i)) (big32 w) }) (dram (rdram s));
         Some (s\<lparr>rdram := (rdram s)\<lparr>dram := d\<rparr>\<rparr>) }
     | SI_NO_DMA \<Rightarrow> Some s }"

definition si_dma_started :: "u32 \<Rightarrow> 'a si_sys_scheme \<Rightarrow> 'a si_sys_scheme option" where
  "si_dma_started rnd s =
     sp_add_event SI_INT (dma_duration (si s) + add_random_interrupt_time rnd (r4300 s))
       (set_sir SI_STATUS_REG (sir s SI_STATUS_REG OR SI_STATUS_DMA_BUSY) s)"

definition dma_si_write ::
  "'a si_sys_scheme si_env \<Rightarrow> 'a si_sys_scheme \<Rightarrow> 'a si_sys_scheme option" where
  "dma_si_write env s =
     (case validate_dma SI_PIF_ADDR_WR64B_REG s of
        (False, s) \<Rightarrow> Some s
      | (True, s) \<Rightarrow> do {
          s \<leftarrow> copy_pif_rdram (s\<lparr>si := (si s)\<lparr>si_dma_dir := SI_DMA_WRITE\<rparr>\<rparr>);
          si_dma_started (si_rand env) s })"

definition dma_si_read ::
  "'a si_sys_scheme si_env \<Rightarrow> 'a si_sys_scheme \<Rightarrow> 'a si_sys_scheme option" where
  "dma_si_read env s =
     (case validate_dma SI_PIF_ADDR_RD64B_REG s of
        (False, s) \<Rightarrow> Some s
      | (True, s) \<Rightarrow> do {
          s \<leftarrow> update_pif_ram env (s\<lparr>si := (si s)\<lparr>si_dma_dir := SI_DMA_READ\<rparr>\<rparr>);
          si_dma_started (si_rand env) s })"

definition poweron_si :: "si_controller \<Rightarrow> si_controller" where
  "poweron_si c = c\<lparr>si_regs := (\<lambda>_. 0), si_dma_dir := SI_NO_DMA\<rparr>"

definition read_si_regs :: "si_controller \<Rightarrow> u32 \<Rightarrow> u32 option" where
  "read_si_regs c address = do { reg \<leftarrow> si_reg address; Some (si_regs c reg) }"

definition write_si_regs ::
  "'a si_sys_scheme si_env \<Rightarrow> 'a si_sys_scheme \<Rightarrow> u32 \<Rightarrow> u32 \<Rightarrow> u32 \<Rightarrow> 'a si_sys_scheme option" where
  "write_si_regs env s address value msk =
     (case si_reg address of
        Some SI_DRAM_ADDR_REG \<Rightarrow>
          Some (set_sir SI_DRAM_ADDR_REG (masked_write (sir s SI_DRAM_ADDR_REG) value msk) s)
      | Some SI_PIF_ADDR_RD64B_REG \<Rightarrow>
          dma_si_read env (set_sir SI_PIF_ADDR_RD64B_REG (masked_write (sir s SI_PIF_ADDR_RD64B_REG) value msk) s)
      | Some SI_PIF_ADDR_WR64B_REG \<Rightarrow>
          dma_si_write env (set_sir SI_PIF_ADDR_WR64B_REG (masked_write (sir s SI_PIF_ADDR_WR64B_REG) value msk) s)
      | Some SI_STATUS_REG \<Rightarrow>
          clear_rcp_interrupt
            (set_sir SI_STATUS_REG (sir s SI_STATUS_REG AND NOT SI_STATUS_INTERRUPT) s) MI_INTR_SI
      | _ \<Rightarrow> Some s)"

definition si_end_of_dma_event ::
  "'a si_sys_scheme si_env \<Rightarrow> 'a si_sys_scheme \<Rightarrow> 'a si_sys_scheme option" where
  "si_end_of_dma_event env s = do {
     s \<leftarrow> (case si_dma_dir (si s) of
            SI_DMA_WRITE \<Rightarrow> process_pif_ram env s
          | SI_DMA_READ \<Rightarrow> copy_pif_rdram s
          | SI_NO_DMA \<Rightarrow> Some s);
     let s = s\<lparr>si := (si s)\<lparr>si_dma_dir := SI_NO_DMA\<rparr>\<rparr>;
     let s = set_sir SI_STATUS_REG ((sir s SI_STATUS_REG AND NOT (SI_STATUS_DMA_BUSY OR SI_STATUS_IO_BUSY))
               OR SI_STATUS_INTERRUPT) s;
     raise_rcp_interrupt s MI_INTR_SI }"

end
