(* ===== verification/Vi.thy ===== *)
theory Vi
  imports Si
begin

text \<open>
  The video and audio interfaces: \<^verbatim>\<open>device/rcp/vi/vi_controller.c\<close> and
  \<^verbatim>\<open>device/rcp/ai/ai_controller.c\<close>. The graphics plugin, the front end's \<^verbatim>\<open>new_vi\<close> and the audio
  backend are parameters, as is the scaling of a DMA duration by the floating-point
  \<^verbatim>\<open>dma_modifier\<close>. A division by zero is \<open>None\<close>.
\<close>

section \<open>Data\<close>

datatype m64p_system_type = SYSTEM_NTSC | SYSTEM_PAL | SYSTEM_MPAL

datatype vi_register =
    VI_STATUS_REG | VI_ORIGIN_REG | VI_WIDTH_REG | VI_V_INTR_REG | VI_CURRENT_REG | VI_BURST_REG
  | VI_V_SYNC_REG | VI_H_SYNC_REG | VI_LEAP_REG | VI_H_START_REG | VI_V_START_REG | VI_V_BURST_REG
  | VI_X_SCALE_REG | VI_Y_SCALE_REG

datatype ai_register =
    AI_DRAM_ADDR_REG | AI_LEN_REG | AI_CONTROL_REG | AI_STATUS_REG | AI_DACRATE_REG | AI_BITRATE_REG

abbreviation AI_STATUS_BUSY :: u32 where "AI_STATUS_BUSY \<equiv> 0x40000000"
abbreviation AI_STATUS_FULL :: u32 where "AI_STATUS_FULL \<equiv> 0x80000000"

record vi_controller =
  vi_regs :: "vi_register \<Rightarrow> u32"
  vi_field :: u32
  vi_delay :: u32
  vi_clock :: u32
  expected_refresh_rate :: u32
  count_per_scanline :: u32

record ai_dma =
  ai_address :: u32
  ai_length :: u32
  ai_duration :: u32

record ai_controller =
  ai_regs :: "ai_register \<Rightarrow> u32"
  ai_fifo0 :: ai_dma
  ai_fifo1 :: ai_dma
  samples_format_changed :: bool
  last_read :: u32
  delayed_carry :: bool

record vi_sys = si_sys +
  vi :: vi_controller
  ai :: ai_controller

record 's av_env =
  viStatusChanged :: "'s \<Rightarrow> 's"
  viWidthChanged :: "'s \<Rightarrow> 's"
  updateScreen :: "'s \<Rightarrow> 's"
  new_vi :: "'s \<Rightarrow> 's"
  CountPerScanlineOverride :: u32
  set_frequency :: "u32 \<Rightarrow> 's \<Rightarrow> 's"
  push_samples :: "u8 list \<Rightarrow> 's \<Rightarrow> 's"
  dma_modifier :: "u32 \<Rightarrow> u32"

definition vi_reg :: "u32 \<Rightarrow> vi_register option" where
  "vi_reg address =
     rd [VI_STATUS_REG, VI_ORIGIN_REG, VI_WIDTH_REG, VI_V_INTR_REG, VI_CURRENT_REG, VI_BURST_REG,
         VI_V_SYNC_REG, VI_H_SYNC_REG, VI_LEAP_REG, VI_H_START_REG, VI_V_START_REG, VI_V_BURST_REG,
         VI_X_SCALE_REG, VI_Y_SCALE_REG] (unat (drop_bit 2 (address AND 0xffff)))"

definition ai_reg :: "u32 \<Rightarrow> ai_register option" where
  "ai_reg address =
     rd [AI_DRAM_ADDR_REG, AI_LEN_REG, AI_CONTROL_REG, AI_STATUS_REG, AI_DACRATE_REG, AI_BITRATE_REG]
        (unat (drop_bit 2 (address AND 0xffff)))"

abbreviation vir :: "'a vi_sys_scheme \<Rightarrow> vi_register \<Rightarrow> u32" where
  "vir s x \<equiv> vi_regs (vi s) x"

definition set_vir :: "vi_register \<Rightarrow> u32 \<Rightarrow> 'a vi_sys_scheme \<Rightarrow> 'a vi_sys_scheme" where
  "set_vir x v s = s\<lparr>vi := (vi s)\<lparr>vi_regs := (vi_regs (vi s))(x := v)\<rparr>\<rparr>"

abbreviation air :: "'a vi_sys_scheme \<Rightarrow> ai_register \<Rightarrow> u32" where
  "air s x \<equiv> ai_regs (ai s) x"

definition set_air :: "ai_register \<Rightarrow> u32 \<Rightarrow> 'a vi_sys_scheme \<Rightarrow> 'a vi_sys_scheme" where
  "set_air x v s = s\<lparr>ai := (ai s)\<lparr>ai_regs := (ai_regs (ai s))(x := v)\<rparr>\<rparr>"

text \<open>Unsigned division of the C code.\<close>

definition udiv :: "u32 \<Rightarrow> u32 \<Rightarrow> u32 option" where
  "udiv a b = (if b = 0 then None else Some (a div b))"

section \<open>Video\<close>

definition vi_clock_from_tv_standard :: "m64p_system_type \<Rightarrow> u32" where
  "vi_clock_from_tv_standard ty =
     (case ty of SYSTEM_PAL \<Rightarrow> 49656530 | SYSTEM_MPAL \<Rightarrow> 48628316 | SYSTEM_NTSC \<Rightarrow> 48681812)"

definition vi_expected_refresh_rate_from_tv_standard :: "m64p_system_type \<Rightarrow> u32" where
  "vi_expected_refresh_rate_from_tv_standard ty =
     (case ty of SYSTEM_PAL \<Rightarrow> 50 | SYSTEM_NTSC \<Rightarrow> 60 | SYSTEM_MPAL \<Rightarrow> 60)"

definition vi_event :: "'a r4300_sys_scheme \<Rightarrow> u32 option option" where
  "vi_event s = get_event (cp0_q (cp0 (r4300 s))) VI_INT"

definition set_vi_vertical_interrupt :: "'a vi_sys_scheme \<Rightarrow> 'a vi_sys_scheme option" where
  "set_vi_vertical_interrupt s = do {
     e \<leftarrow> vi_event s;
     if e = None \<and> vir s VI_V_INTR_REG < vir s VI_V_SYNC_REG
     then sp_add_event VI_INT (vi_delay (vi s)) s
     else Some s }"

definition poweron_vi :: "u32 \<Rightarrow> vi_controller \<Rightarrow> vi_controller" where
  "poweron_vi override v = v\<lparr>vi_regs := (\<lambda>_. 0), vi_field := 0,
     vi_delay := (if override = 0 then 0 else 5000), count_per_scanline := override\<rparr>"

definition read_vi_regs :: "'a vi_sys_scheme \<Rightarrow> u32 \<Rightarrow> (u32 \<times> 'a vi_sys_scheme) option" where
  "read_vi_regs s address = do {
     reg \<leftarrow> vi_reg address;
     s \<leftarrow> (if reg = VI_CURRENT_REG then do {
         e \<leftarrow> vi_event s;
         s \<leftarrow> (case e of
                None \<Rightarrow> Some s
              | Some next_vi \<Rightarrow> do {
                  let s = s\<lparr>r4300 := cp0_update_count (r4300 s)\<rparr>;
                  v \<leftarrow> udiv (vi_delay (vi s) - (next_vi - creg (r4300 s) CP0_COUNT_REG)) (count_per_scanline (vi s));
                  Some (set_vir VI_CURRENT_REG
                    (if vir s VI_V_SYNC_REG \<le> v then v - vir s VI_V_SYNC_REG else v) s) });
         Some (set_vir VI_CURRENT_REG ((vir s VI_CURRENT_REG AND NOT 1) OR vi_field (vi s)) s) }
       else Some s);
     Some (vir s reg, s) }"

definition write_vi_regs ::
  "'a vi_sys_scheme av_env \<Rightarrow> 'a vi_sys_scheme \<Rightarrow> u32 \<Rightarrow> u32 \<Rightarrow> u32 \<Rightarrow> 'a vi_sys_scheme option" where
  "write_vi_regs env s address value msk = do {
     reg \<leftarrow> vi_reg address;
     let changed = vir s reg AND msk \<noteq> value AND msk;
     let written = set_vir reg (masked_write (vir s reg) value msk) s;
     case reg of
       VI_STATUS_REG \<Rightarrow> Some (if changed then viStatusChanged env written else s)
     | VI_WIDTH_REG \<Rightarrow> Some (if changed then viWidthChanged env written else s)
     | VI_CURRENT_REG \<Rightarrow> clear_rcp_interrupt s MI_INTR_VI
     | VI_V_SYNC_REG \<Rightarrow>
         if changed then do {
           let s = written;
           cps \<leftarrow> (if CountPerScanlineOverride env = 0 then do {
               r \<leftarrow> udiv (vi_clock (vi s)) (expected_refresh_rate (vi s));
               udiv r (vir s VI_V_SYNC_REG + 1) }
             else Some (CountPerScanlineOverride env));
           set_vi_vertical_interrupt (s\<lparr>vi := (vi s)\<lparr>count_per_scanline := cps,
             vi_delay := (vir s VI_V_SYNC_REG + 1) * cps\<rparr>\<rparr>) }
         else Some s
     | VI_V_INTR_REG \<Rightarrow> set_vi_vertical_interrupt written
     | _ \<Rightarrow> Some written }"

text \<open>The delay to the next vertical interrupt when the scanline override is active.\<close>

definition vi_next_delay :: "u32 \<Rightarrow> vi_controller \<Rightarrow> u32" where
  "vi_next_delay override v =
     (if override \<noteq> 0 then
        if vi_regs v VI_V_SYNC_REG = 0 then 500000 else (vi_regs v VI_V_SYNC_REG + 1) * count_per_scanline v
      else vi_delay v)"

definition vi_vertical_interrupt_event ::
  "'a vi_sys_scheme av_env \<Rightarrow> 'a vi_sys_scheme \<Rightarrow> 'a vi_sys_scheme option" where
  "vi_vertical_interrupt_event env s = do {
     let s = (if do_on_unfreeze (dp s) AND DELAY_DP_INT \<noteq> 0
              then s\<lparr>dp := (dp s)\<lparr>do_on_unfreeze := do_on_unfreeze (dp s) OR DELAY_UPDATESCREEN\<rparr>\<rparr>
              else updateScreen env s);
     let s = new_vi env s;
     let s = s\<lparr>vi := (vi s)\<lparr>vi_field := vi_field (vi s) XOR (drop_bit 6 (vir s VI_STATUS_REG) AND 0x1)\<rparr>\<rparr>;
     let s = s\<lparr>vi := (vi s)\<lparr>vi_delay := vi_next_delay (CountPerScanlineOverride env) (vi s)\<rparr>\<rparr>;
     e \<leftarrow> vi_event s;
     c \<leftarrow> e;
     let next_vi = c + vi_delay (vi s);
     s \<leftarrow> upd_r4300 (upd_cp0 (\<lambda>c. do {
            c \<leftarrow> remove_interrupt_event c;
            add_interrupt_event_count c VI_INT next_vi })) s;
     raise_rcp_interrupt s MI_INTR_VI }"

section \<open>Audio\<close>

definition get_remaining_dma_length :: "'a vi_sys_scheme \<Rightarrow> (u32 \<times> 'a vi_sys_scheme) option" where
  "get_remaining_dma_length s =
     (if ai_duration (ai_fifo0 (ai s)) = 0 then Some (0, s)
      else do {
        let s = s\<lparr>r4300 := cp0_update_count (r4300 s)\<rparr>;
        e \<leftarrow> get_event (cp0_q (cp0 (r4300 s))) AI_INT;
        case e of
          None \<Rightarrow> Some (0, s)
        | Some next_ai \<Rightarrow>
            if 0 \<le>s creg (r4300 s) CP0_COUNT_REG - next_ai then Some (0, s)
            else
              let remaining = next_ai - creg (r4300 s) CP0_COUNT_REG;
                  len = unat remaining * unat (ai_length (ai_fifo0 (ai s))) div unat (ai_duration (ai_fifo0 (ai s)))
              in Some (word_of_nat len AND NOT 7, s) })"

definition get_dma_duration :: "'a vi_sys_scheme \<Rightarrow> u32 option" where
  "get_dma_duration s = do {
     samples_per_sec \<leftarrow> udiv (vi_clock (vi s)) (1 + air s AI_DACRATE_REG);
     let bytes_per_sample = 4;
     let cpu_counts_per_sec = (if vi_delay (vi s) = 0 then vi_clock (vi s)
                               else vi_delay (vi s) * expected_refresh_rate (vi s));
     q \<leftarrow> udiv cpu_counts_per_sec (bytes_per_sample * samples_per_sec);
     Some (air s AI_LEN_REG * q) }"

text \<open>\<^verbatim>\<open>do_dma(ai, &ai->fifo[0])\<close>; both callers pass the head of the queue.\<close>

definition ai_do_dma :: "'a vi_sys_scheme av_env \<Rightarrow> 'a vi_sys_scheme \<Rightarrow> 'a vi_sys_scheme option" where
  "ai_do_dma env s = do {
     s \<leftarrow> (if samples_format_changed (ai s) then do {
         frequency \<leftarrow> (if air s AI_DACRATE_REG = 0 then Some 44100
                       else udiv (vi_clock (vi s)) (1 + air s AI_DACRATE_REG));
         let s = set_frequency env frequency s;
         Some (s\<lparr>ai := (ai s)\<lparr>samples_format_changed := False\<rparr>\<rparr>) }
       else Some s);
     let dma = ai_fifo0 (ai s);
     let dma = (if delayed_carry (ai s) then dma\<lparr>ai_address := ai_address dma + 0x2000\<rparr> else dma);
     let s = s\<lparr>ai := (ai s)\<lparr>last_read := ai_length dma, ai_fifo0 := dma,
               delayed_carry := ((ai_address dma + ai_length dma) AND 0x1FFF = 0)\<rparr>\<rparr>;
     sp_add_event AI_INT (ai_duration dma) s }"

definition ai_fifo_push :: "'a vi_sys_scheme av_env \<Rightarrow> 'a vi_sys_scheme \<Rightarrow> 'a vi_sys_scheme option" where
  "ai_fifo_push env s = do {
     d \<leftarrow> get_dma_duration s;
     let x = \<lparr>ai_address = air s AI_DRAM_ADDR_REG, ai_length = air s AI_LEN_REG AND NOT 7,
              ai_duration = dma_modifier env d\<rparr>;
     if air s AI_STATUS_REG AND AI_STATUS_BUSY \<noteq> 0 then
       let s = s\<lparr>ai := (ai s)\<lparr>ai_fifo1 := x\<rparr>\<rparr>
       in Some (set_air AI_STATUS_REG (air s AI_STATUS_REG OR AI_STATUS_FULL) s)
     else
       let s = s\<lparr>ai := (ai s)\<lparr>ai_fifo0 := x\<rparr>\<rparr>
       in ai_do_dma env (set_air AI_STATUS_REG (air s AI_STATUS_REG OR AI_STATUS_BUSY) s) }"

definition ai_fifo_pop :: "'a vi_sys_scheme av_env \<Rightarrow> 'a vi_sys_scheme \<Rightarrow> 'a vi_sys_scheme option" where
  "ai_fifo_pop env s =
     (if air s AI_STATUS_REG AND AI_STATUS_FULL \<noteq> 0 then
        let s = s\<lparr>ai := (ai s)\<lparr>ai_fifo0 := ai_fifo1 (ai s)\<rparr>\<rparr>
        in ai_do_dma env (set_air AI_STATUS_REG (air s AI_STATUS_REG AND NOT AI_STATUS_FULL) s)
      else
        let s = set_air AI_STATUS_REG (air s AI_STATUS_REG AND NOT AI_STATUS_BUSY) s
        in Some (s\<lparr>ai := (ai s)\<lparr>delayed_carry := False\<rparr>\<rparr>))"

definition poweron_ai :: "ai_controller \<Rightarrow> ai_controller" where
  "poweron_ai a =
     (let z = \<lparr>ai_address = 0, ai_length = 0, ai_duration = 0\<rparr>
      in a\<lparr>ai_regs := (\<lambda>_. 0), ai_fifo0 := z, ai_fifo1 := z, samples_format_changed := False,
           last_read := 0, delayed_carry := False\<rparr>)"

text \<open>
  \<^verbatim>\<open>push_samples(p + diff, n)\<close> with \<^verbatim>\<open>p\<close> the word of the transfer's address: the backend reads \<open>n\<close>
  bytes of RDRAM.
\<close>

definition ai_push :: "'a vi_sys_scheme av_env \<Rightarrow> u32 \<Rightarrow> 'a vi_sys_scheme \<Rightarrow> 'a vi_sys_scheme option" where
  "ai_push env n s = do {
     let diff = ai_length (ai_fifo0 (ai s)) - last_read (ai s);
     let p = 4 * (unat (ai_address (ai_fifo0 (ai s))) div 4) + unat diff;
     if p + unat n \<le> length (dram (rdram s))
     then Some (push_samples env (take (unat n) (drop p (dram (rdram s)))) s) else None }"

definition read_ai_regs ::
  "'a vi_sys_scheme av_env \<Rightarrow> 'a vi_sys_scheme \<Rightarrow> u32 \<Rightarrow> (u32 \<times> 'a vi_sys_scheme) option" where
  "read_ai_regs env s address = do {
     reg \<leftarrow> ai_reg address;
     if reg = AI_LEN_REG then do {
       (v, s) \<leftarrow> get_remaining_dma_length s;
       if v < last_read (ai s) then do {
         s \<leftarrow> ai_push env (last_read (ai s) - v) s;
         Some (v, s\<lparr>ai := (ai s)\<lparr>last_read := v\<rparr>\<rparr>) }
       else Some (v, s) }
     else Some (air s reg, s) }"

definition write_ai_regs ::
  "'a vi_sys_scheme av_env \<Rightarrow> 'a vi_sys_scheme \<Rightarrow> u32 \<Rightarrow> u32 \<Rightarrow> u32 \<Rightarrow> 'a vi_sys_scheme option" where
  "write_ai_regs env s address value msk = do {
     reg \<leftarrow> ai_reg address;
     let written = set_air reg (masked_write (air s reg) value msk) s;
     case reg of
       AI_LEN_REG \<Rightarrow> if air written AI_LEN_REG \<noteq> 0 then ai_fifo_push env written else Some written
     | AI_STATUS_REG \<Rightarrow> clear_rcp_interrupt s MI_INTR_AI
     | AI_DACRATE_REG \<Rightarrow>
         Some (if air s reg \<noteq> value AND msk
               then written\<lparr>ai := (ai written)\<lparr>samples_format_changed := True\<rparr>\<rparr> else written)
     | _ \<Rightarrow> Some written }"

definition ai_end_of_dma_event ::
  "'a vi_sys_scheme av_env \<Rightarrow> 'a vi_sys_scheme \<Rightarrow> 'a vi_sys_scheme option" where
  "ai_end_of_dma_event env s = do {
     s \<leftarrow> (if last_read (ai s) \<noteq> 0 then do {
         s \<leftarrow> ai_push env (last_read (ai s)) s;
         Some (s\<lparr>ai := (ai s)\<lparr>last_read := 0\<rparr>\<rparr>) }
       else Some s);
     s \<leftarrow> ai_fifo_pop env s;
     raise_rcp_interrupt s MI_INTR_AI }"

end
