(* ===== verification/Device.thy ===== *)
theory Device
  imports Vi
begin

text \<open>
  The machine put together: the memory accesses of \<^verbatim>\<open>device/r4300/r4300_core.c\<close> through the memory
  map to the device handlers, the interrupt table and power-on of \<^verbatim>\<open>device/device.c\<close>, the boot code
  of \<^verbatim>\<open>device/pif/bootrom_hle.c\<close> and the NMI handler of \<^verbatim>\<open>device/r4300/interrupt.c\<close>. The hard reset
  and the front end are parameters, and so is here the disk drive, which \<open>Dd\<close> fills in.
\<close>

section \<open>Data\<close>

record device = vi_sys +
  isv :: is_viewer

text \<open>
  Everything the machine calls outside itself. \<open>d_irq\<close> is the environment \<^verbatim>\<open>gen_interrupt\<close> runs in when
  a register write triggers it; \<open>device_irq\<close> below builds it from the device handlers. \<open>d_fpu\<close> gives the bits
  of the NaN results of the host's arithmetic, \<open>d_uninit\<close> the contents of a local that is read before it
  is written.
\<close>

record 's dev_env =
  d_irq :: "'s interrupt_env"
  d_rcp :: "'s rcp_env"
  d_pi :: "'s pi_env"
  d_si :: "'s si_env"
  d_av :: "'s av_env"
  d_ignore_tlb :: nat
  d_dd_regs_read :: "u32 \<Rightarrow> 's \<Rightarrow> (u32 \<times> 's) option"
  d_dd_regs_write :: "u32 \<Rightarrow> u32 \<Rightarrow> u32 \<Rightarrow> 's \<Rightarrow> 's option"
  d_dd_rom_read :: "u32 \<Rightarrow> 's \<Rightarrow> u32 option"
  d_dd_rom :: "u8 list"
  d_dd_int :: "nat \<Rightarrow> 's \<Rightarrow> 's option"
  d_reset_hard :: "'s \<Rightarrow> 's option"
  d_poweron_jbd :: "nat \<Rightarrow> 's \<Rightarrow> 's"
  d_poweron_dd :: "'s \<Rightarrow> 's option"
  d_tv_type :: m64p_system_type
  d_fpu :: fpu_host
  d_uninit :: u32
  d_savestates_get_job :: "'s \<Rightarrow> savestates_job"
  d_savestates_load :: "'s \<Rightarrow> 's option"
  d_savestates_save :: "'s \<Rightarrow> 's option"

section \<open>Memory accesses\<close>

text \<open>A handler's read function; \<open>old\<close> is what the destination of the read holds.\<close>

definition mem_read32 ::
  "'a device_scheme dev_env \<Rightarrow> mem_handler \<Rightarrow> u32 \<Rightarrow> u32 \<Rightarrow> 'a device_scheme \<Rightarrow> (u32 \<times> 'a device_scheme) option" where
  "mem_read32 env h a old s =
     (let pure = (\<lambda>v. do { v \<leftarrow> v; Some (v, s) }) in
      case h of
        H_open_bus \<Rightarrow> Some (read_open_bus a, s)
      | H_rdram_dram \<Rightarrow> pure (read_rdram_dram (rdram s) a)
      | H_rdram_dram_corrupted \<Rightarrow> pure (read_rdram_dram_corrupted (rdram s) a)
      | H_rdram_fb \<Rightarrow> read_rdram_fb (gfx (d_rcp env)) s a
      | H_rdram_regs \<Rightarrow> pure (read_rdram_regs (rdram s) a old)
      | H_rsp_mem \<Rightarrow> pure (read_rsp_mem (sp s) a)
      | H_rsp_regs \<Rightarrow> read_rsp_regs s a
      | H_rsp_regs2 \<Rightarrow> pure (read_rsp_regs2 (sp s) a)
      | H_dpc_regs \<Rightarrow> pure (read_dpc_regs (dp s) a)
      | H_dps_regs \<Rightarrow> pure (read_dps_regs (dp s) a)
      | H_mi_regs \<Rightarrow> pure (read_mi_regs s a)
      | H_vi_regs \<Rightarrow> read_vi_regs s a
      | H_ai_regs \<Rightarrow> read_ai_regs (d_av env) s a
      | H_pi_regs \<Rightarrow> pure (read_pi_regs (pi_ctl s) a)
      | H_ri_regs \<Rightarrow> pure (read_ri_regs (ri s) a)
      | H_si_regs \<Rightarrow> pure (read_si_regs (si s) a)
      | H_dd_regs \<Rightarrow> d_dd_regs_read env a s
      | H_dd_rom \<Rightarrow> pure (d_dd_rom_read env a s)
      | H_cart_dom2 \<Rightarrow> do { (v, c) \<leftarrow> read_cart_dom2 (cart s) a old; Some (v, s\<lparr>cart := c\<rparr>) }
      | H_is_viewer \<Rightarrow> pure (read_is_viewer (isv s) a)
      | H_cart_rom \<Rightarrow> pure (read_cart_rom s a)
      | H_pif_mem \<Rightarrow> pure (read_pif_mem (pif s) a)
      | H_with_bp_checks \<Rightarrow> Some (old, s))"

definition mem_write32 ::
  "'a device_scheme dev_env \<Rightarrow> mem_handler \<Rightarrow> u32 \<Rightarrow> u32 \<Rightarrow> u32 \<Rightarrow> 'a device_scheme \<Rightarrow> 'a device_scheme option" where
  "mem_write32 env h a v m s =
     (case h of
        H_open_bus \<Rightarrow> Some s
      | H_rdram_dram \<Rightarrow> do { r \<leftarrow> write_rdram_dram (rdram s) a v m; Some (s\<lparr>rdram := r\<rparr>) }
      | H_rdram_dram_corrupted \<Rightarrow> do { r \<leftarrow> write_rdram_dram (rdram s) a v m; Some (s\<lparr>rdram := r\<rparr>) }
      | H_rdram_fb \<Rightarrow> write_rdram_fb (gfx (d_rcp env)) s a v m
      | H_rdram_regs \<Rightarrow> write_rdram_regs s a v m
      | H_rsp_mem \<Rightarrow> do { p \<leftarrow> write_rsp_mem (sp s) a v m; Some (s\<lparr>sp := p\<rparr>) }
      | H_rsp_regs \<Rightarrow> write_rsp_regs (d_rcp env) s a v m
      | H_rsp_regs2 \<Rightarrow> do { p \<leftarrow> write_rsp_regs2 (sp s) a v m; Some (s\<lparr>sp := p\<rparr>) }
      | H_dpc_regs \<Rightarrow> write_dpc_regs (gfx (d_rcp env)) s a v m
      | H_dps_regs \<Rightarrow> do { d \<leftarrow> write_dps_regs (dp s) a v m; Some (s\<lparr>dp := d\<rparr>) }
      | H_mi_regs \<Rightarrow> write_mi_regs (d_irq env) s a v m
      | H_vi_regs \<Rightarrow> write_vi_regs (d_av env) s a v m
      | H_ai_regs \<Rightarrow> write_ai_regs (d_av env) s a v m
      | H_pi_regs \<Rightarrow> write_pi_regs (d_pi env) s a v m
      | H_ri_regs \<Rightarrow> do { r \<leftarrow> write_ri_regs (ri s) a v m; Some (s\<lparr>ri := r\<rparr>) }
      | H_si_regs \<Rightarrow> write_si_regs (d_si env) s a v m
      | H_dd_regs \<Rightarrow> d_dd_regs_write env a v m s
      | H_dd_rom \<Rightarrow> Some s
      | H_cart_dom2 \<Rightarrow> do { c \<leftarrow> write_cart_dom2 (cart s) a v m; Some (s\<lparr>cart := c\<rparr>) }
      | H_is_viewer \<Rightarrow> do { i \<leftarrow> write_is_viewer (isv s) a v m; Some (s\<lparr>isv := i\<rparr>) }
      | H_cart_rom \<Rightarrow> write_cart_rom s a v m
      | H_pif_mem \<Rightarrow> write_pif_mem s a v m
      | H_with_bp_checks \<Rightarrow> Some s)"

text \<open>
  Translation in front of an access: addresses of the two unmapped segments are taken as they are,
  the others go through the TLB. The result 0 of a miss becomes \<open>None\<close> in the first component.
\<close>

definition translate ::
  "nat \<Rightarrow> nat \<Rightarrow> u32 \<Rightarrow> 'a r4300_sys_scheme \<Rightarrow> (u32 option \<times> 'a r4300_sys_scheme) option" where
  "translate ignore_tlb w address s =
     (if address AND 0xc0000000 \<noteq> 0x80000000 then do {
        (a, r) \<leftarrow> virtual_to_physical_address ignore_tlb (r4300 s) address w;
        Some (if a = 0 then None else Some a, s\<lparr>r4300 := r\<rparr>) }
      else Some (Some address, s))"

text \<open>The results are the return value (1 or 0), the word read and the state.\<close>

definition r4300_read_aligned_word ::
  "'a device_scheme dev_env \<Rightarrow> u32 \<Rightarrow> u32 \<Rightarrow> 'a device_scheme \<Rightarrow> (bool \<times> u32 \<times> 'a device_scheme) option" where
  "r4300_read_aligned_word env address old s = do {
     (pa, s) \<leftarrow> translate (d_ignore_tlb env) 0 address s;
     case pa of
       None \<Rightarrow> Some (False, old, s)
     | Some a \<Rightarrow> do {
         let a = a AND 0x1ffffffc;
         (v, s) \<leftarrow> mem_read32 env (mem_get_handler (mem s) a) (a AND NOT 3) old s;
         Some (True, v, s) } }"

definition r4300_read_aligned_dword ::
  "'a device_scheme dev_env \<Rightarrow> u32 \<Rightarrow> u64 \<Rightarrow> 'a device_scheme \<Rightarrow> (bool \<times> u64 \<times> 'a device_scheme) option" where
  "r4300_read_aligned_dword env address old s = do {
     (pa, s) \<leftarrow> translate (d_ignore_tlb env) 0 address s;
     case pa of
       None \<Rightarrow> Some (False, old, s)
     | Some a \<Rightarrow> do {
         let a = a AND 0x1ffffffc;
         let h = mem_get_handler (mem s) a;
         (w0, s) \<leftarrow> mem_read32 env h a (d_uninit env) s;
         (w1, s) \<leftarrow> mem_read32 env h (a + 4) (d_uninit env) s;
         Some (True, push_bit 32 (ucast w0) OR ucast w1, s) } }"

definition invalidate :: "'a r4300_sys_scheme \<Rightarrow> 'a r4300_sys_scheme option" where
  "invalidate s = upd_r4300 invalidate_r4300_cached_code s"

definition translate_write ::
  "nat \<Rightarrow> u32 \<Rightarrow> 'a r4300_sys_scheme \<Rightarrow> (u32 option \<times> 'a r4300_sys_scheme) option" where
  "translate_write ignore_tlb address s = do {
     s \<leftarrow> (if address AND 0xc0000000 \<noteq> 0x80000000 then invalidate s else Some s);
     (pa, s) \<leftarrow> translate ignore_tlb 1 address s;
     case pa of
       None \<Rightarrow> Some (None, s)
     | Some a \<Rightarrow> do {
         s \<leftarrow> invalidate s;
         s \<leftarrow> invalidate s;
         Some (Some (a AND 0x1ffffffc), s) } }"

definition r4300_write_aligned_word ::
  "'a device_scheme dev_env \<Rightarrow> u32 \<Rightarrow> u32 \<Rightarrow> u32 \<Rightarrow> 'a device_scheme \<Rightarrow> (bool \<times> 'a device_scheme) option" where
  "r4300_write_aligned_word env address value msk s = do {
     (pa, s) \<leftarrow> translate_write (d_ignore_tlb env) address s;
     case pa of
       None \<Rightarrow> Some (False, s)
     | Some a \<Rightarrow> do {
         s \<leftarrow> mem_write32 env (mem_get_handler (mem s) a) (a AND NOT 3) value msk s;
         Some (True, s) } }"

definition r4300_write_aligned_dword ::
  "'a device_scheme dev_env \<Rightarrow> u32 \<Rightarrow> u64 \<Rightarrow> u64 \<Rightarrow> 'a device_scheme \<Rightarrow> (bool \<times> 'a device_scheme) option" where
  "r4300_write_aligned_dword env address value msk s = do {
     (pa, s) \<leftarrow> translate_write (d_ignore_tlb env) address s;
     case pa of
       None \<Rightarrow> Some (False, s)
     | Some a \<Rightarrow> do {
         let h = mem_get_handler (mem s) a;
         s \<leftarrow> mem_write32 env h a (ucast (drop_bit 32 value)) (ucast (drop_bit 32 msk)) s;
         s \<leftarrow> mem_write32 env h (a + 4) (ucast value) (ucast msk) s;
         Some (True, s) } }"

section \<open>Boot\<close>

abbreviation R4300_KSEG1 :: u32 where "R4300_KSEG1 \<equiv> 0xa0000000"

definition get_tv_type :: "m64p_system_type \<Rightarrow> u64" where
  "get_tv_type ty = (case ty of SYSTEM_NTSC \<Rightarrow> 1 | SYSTEM_PAL \<Rightarrow> 0 | SYSTEM_MPAL \<Rightarrow> 2)"

text \<open>\<^verbatim>\<open>r4300_write_aligned_word\<close> with the full mask and its result ignored.\<close>

definition poke :: "'a device_scheme dev_env \<Rightarrow> u32 \<Rightarrow> u32 \<Rightarrow> 'a device_scheme \<Rightarrow> 'a device_scheme option" where
  "poke env address value s = do {
     (_, s) \<leftarrow> r4300_write_aligned_word env (R4300_KSEG1 + address) value 0xffffffff s;
     Some s }"

definition set_gprs :: "(nat \<times> u64) list \<Rightarrow> 'a r4300_sys_scheme \<Rightarrow> 'a r4300_sys_scheme" where
  "set_gprs rs s = s\<lparr>r4300 := (r4300 s)\<lparr>gpr := fold (\<lambda>(i, v) g. g(i := v)) rs (gpr (r4300 s))\<rparr>\<rparr>"

definition imem_words :: "u32 list" where
  "imem_words = [0x3c0dbfc0, 0x8da807fc, 0x25ad07c0, 0x31080080, 0x5500fffc, 0x3c0dbfc0, 0x8da80024, 0x3c0bb000]"

definition pif_bootrom_hle_execute ::
  "'a device_scheme dev_env \<Rightarrow> 'a device_scheme \<Rightarrow> 'a device_scheme option" where
  "pif_bootrom_hle_execute env s =
     (if start_address (r4300 s) = 0xbfc00000 then Some s
      else do {
        let s = s\<lparr>r4300 := set_creg CP0_CONFIG_REG 0x7006e463 (set_creg CP0_STATUS_REG 0x34000000 (r4300 s))\<rparr>;
        s \<leftarrow> poke env (MM_RSP_REGS + 4 * 4) 0x0a s;
        s \<leftarrow> poke env (MM_PI_REGS + 4 * 4) 0x3 s;
        s \<leftarrow> poke env (MM_VI_REGS + 4 * 3) 1023 s;
        s \<leftarrow> poke env (MM_VI_REGS + 4 * 4) 0 s;
        s \<leftarrow> poke env (MM_VI_REGS + 4 * 9) 0 s;
        s \<leftarrow> poke env (MM_AI_REGS + 4 * 0) 0 s;
        s \<leftarrow> poke env (MM_AI_REGS + 4 * 1) 0 s;
        (_, pif24, s) \<leftarrow> r4300_read_aligned_word env (R4300_KSEG1 + MM_PIF_MEM + 0x7c0 + 0x24) (d_uninit env) s;
        let rom_type = drop_bit 19 pif24 AND 0x01;
        let s7 = drop_bit 18 pif24 AND 0x01;
        let reset_type = drop_bit 17 pif24 AND 0x01;
        let seed = drop_bit 8 pif24 AND 0xff;
        let s = set_gprs [(19, ucast rom_type), (20, get_tv_type (d_tv_type env)), (21, ucast reset_type),
                          (22, ucast seed), (23, ucast s7)] s;
        let rom_base = (if rom_type = 0 then MM_CART_ROM else MM_DD_ROM);
        (_, cfg, s) \<leftarrow> r4300_read_aligned_word env (R4300_KSEG1 + rom_base) (d_uninit env) s;
        s \<leftarrow> poke env (MM_PI_REGS + 4 * 5) (cfg AND 0xff) s;
        s \<leftarrow> poke env (MM_PI_REGS + 4 * 6) (drop_bit 8 cfg AND 0xff) s;
        s \<leftarrow> poke env (MM_PI_REGS + 4 * 7) (drop_bit 16 cfg AND 0x0f) s;
        s \<leftarrow> poke env (MM_PI_REGS + 4 * 8) (drop_bit 20 cfg AND 0x03) s;
        m \<leftarrow> memcpy (sp_mem (sp s)) 0x40 (if rom_type = 0 then rom (c_rom (cart s)) else d_dd_rom env) 0x40 0xfc0;
        m \<leftarrow> for_range 0 8 (\<lambda>i m. put_le32 m (0x1000 + 4 * i) (imem_words ! i)) m;
        let s = s\<lparr>sp := (sp s)\<lparr>sp_mem := m\<rparr>\<rparr>;
        let s = set_gprs [(11, 0xffffffffa4000040), (29, 0xffffffffa4001ff0), (31, 0xffffffffa4001550)] s;
        Some (s\<lparr>r4300 := (r4300 s)\<lparr>cp0 := (cp0 (r4300 s))\<lparr>last_addr := 0xa4000040\<rparr>\<rparr>\<rparr>) })"

definition nmi_int_handler ::
  "'a device_scheme dev_env \<Rightarrow> 'a device_scheme \<Rightarrow> 'a device_scheme option" where
  "nmi_int_handler env s = do {
     s \<leftarrow> reset_pif 1 s;
     let s = s\<lparr>r4300 := set_creg CP0_STATUS_REG
          ((creg (r4300 s) CP0_STATUS_REG AND NOT (CP0_STATUS_SR OR CP0_STATUS_TS OR 0x00080000))
           OR (CP0_STATUS_ERL OR CP0_STATUS_BEV OR CP0_STATUS_SR)) (r4300 s)\<rparr>;
     let s = s\<lparr>r4300 := set_creg CP0_CAUSE_REG 0 (r4300 s)\<rparr>;
     s \<leftarrow> pif_bootrom_hle_execute env s;
     let s = s\<lparr>r4300 := set_creg CP0_COUNT_REG 0 (r4300 s), g_gs_vi_counter := 0\<rparr>;
     s \<leftarrow> upd_r4300 (upd_cp0 init_interrupt) s;
     s \<leftarrow> upd_r4300 (upd_cp0 (\<lambda>c. add_interrupt_event c VI_INT (vi_delay (vi s)))) s;
     let s = set_air AI_STATUS_REG 0 s;
     let s = s\<lparr>r4300 := set_creg CP0_ERROREPC_REG (pc (r4300 s)) (r4300 s)\<rparr>;
     s \<leftarrow> invalidate s;
     let s = (if in_delay_slot (r4300 s)
              then s\<lparr>r4300 := set_creg CP0_ERROREPC_REG (creg (r4300 s) CP0_ERROREPC_REG - 4) (r4300 s)\<rparr> else s);
     upd_r4300 (\<lambda>r.
       let r = r\<lparr>delay_slot := 0, dyna_interp := 0\<rparr>;
           r = r\<lparr>cp0 := (cp0 r)\<lparr>last_addr := start_address r\<rparr>\<rparr>
       in generic_jump_to r (start_address r)) s }"

section \<open>Interrupt table and power-on\<close>

definition device_handlers ::
  "'a device_scheme dev_env \<Rightarrow> nat \<Rightarrow> 'a device_scheme \<Rightarrow> 'a device_scheme option" where
  "device_handlers env index s =
     (if index = 0 then vi_vertical_interrupt_event (d_av env) s
      else if index = 1 then upd_r4300 compare_int_handler s
      else if index = 2 then upd_r4300 check_int_handler s
      else if index = 3 then si_end_of_dma_event (d_si env) s
      else if index = 4 then pi_end_of_dma_event s
      else if index = 5 then upd_r4300 special_int_handler s
      else if index = 6 then ai_end_of_dma_event (d_av env) s
      else if index = 7 then rsp_interrupt_event s
      else if index = 8 then rdp_interrupt_event s
      else if index = 9 then hw2_int_handler s
      else if index = 10 then nmi_int_handler env s
      else if index = 11 then d_reset_hard env s
      else if index = 12 then rsp_end_of_dma_event (gfx (d_rcp env)) s
      else d_dd_int env index s)"

definition device_irq :: "'a device_scheme dev_env \<Rightarrow> 'a device_scheme interrupt_env" where
  "device_irq env = \<lparr>interrupt_handlers = device_handlers env,
     savestates_get_job = d_savestates_get_job env, savestates_load = d_savestates_load env,
     savestates_save = d_savestates_save env\<rparr>"

definition poweron_r4300 :: "r4300_core \<Rightarrow> r4300_core option" where
  "poweron_r4300 r = upd_cp0 poweron_cp0
     (r\<lparr>gpr := (\<lambda>_. 0), hi := 0, lo := 0, llbit := 0, delay_slot := 0, skip_jump := 0,
        reset_hard_job := 0, fast_memory := 1, dyna_interp := 0,
        cp1 := poweron_cp1 (cp1 r), cp2_latch := 0\<rparr>)"

definition poweron_device ::
  "'a device_scheme dev_env \<Rightarrow> bool \<Rightarrow> 'a device_scheme \<Rightarrow> 'a device_scheme option" where
  "poweron_device env has_dd s = do {
     rm \<leftarrow> poweron_rdram (rdram s);
     s \<leftarrow> upd_r4300 poweron_r4300 (s\<lparr>rdram := rm\<rparr>);
     let s = s\<lparr>dp := poweron_rdp (dp s)\<rparr>;
     s \<leftarrow> poweron_rsp s;
     let s = s\<lparr>ai := poweron_ai (ai s), mi := poweron_mi (mi s), pi_ctl := poweron_pi (pi_ctl s),
               ri := poweron_ri (ri s), si := poweron_si (si s),
               vi := poweron_vi (CountPerScanlineOverride (d_av env)) (vi s)\<rparr>;
     s \<leftarrow> poweron_pif s;
     let s = s\<lparr>cart := poweron_cart (cart s), isv := poweron_is_viewer (isv s)\<rparr>;
     let s = fold (d_poweron_jbd env) [0..<4] s;
     if has_dd then d_poweron_dd env s else Some s }"

definition stop_device :: "'a device_scheme \<Rightarrow> 'a device_scheme" where
  "stop_device s = s\<lparr>r4300 := (r4300 s)\<lparr>stop := 1\<rparr>\<rparr>"

definition hard_reset_device :: "'a device_scheme \<Rightarrow> 'a device_scheme" where
  "hard_reset_device s = s\<lparr>r4300 := (r4300 s)\<lparr>reset_hard_job := 1\<rparr>\<rparr>"

definition soft_reset_device :: "'a device_scheme \<Rightarrow> 'a device_scheme option" where
  "soft_reset_device s = upd_r4300 (upd_cp0 (\<lambda>c. do {
     c \<leftarrow> add_interrupt_event c HW2_INT 0;
     add_interrupt_event c NMI_INT 50000000 })) s"

end
