(* ===== verification/Mips.thy ===== *)
theory Mips
  imports R4300
begin

text \<open>
  The instructions of \<^verbatim>\<open>device/r4300/mips_instructions.def\<close> that touch nothing but the processor, with the
  operand macros of \<^verbatim>\<open>device/r4300/pure_interp.c\<close>: arithmetic, logic, shifts, multiplication and division,
  traps and exceptions, branches, and reads of coprocessor 0. An instruction takes its opcode word and
  the processor; the registers are 64-bit words read as signed where the code does. The three names
  that Isabelle reserves for bit operations carry the suffix \<open>_insn\<close>.
\<close>

section \<open>Operands\<close>

definition RD_OF :: "u32 \<Rightarrow> nat" where "RD_OF op = unat (drop_bit 11 op AND 0x1F)"
definition RS_OF :: "u32 \<Rightarrow> nat" where "RS_OF op = unat (drop_bit 21 op AND 0x1F)"
definition RT_OF :: "u32 \<Rightarrow> nat" where "RT_OF op = unat (drop_bit 16 op AND 0x1F)"
definition SA_OF :: "u32 \<Rightarrow> nat" where "SA_OF op = unat (drop_bit 6 op AND 0x1F)"
definition IMM16S_OF :: "u32 \<Rightarrow> u16" where "IMM16S_OF op = ucast op"
definition FD_OF :: "u32 \<Rightarrow> nat" where "FD_OF op = unat (drop_bit 6 op AND 0x1F)"
definition FS_OF :: "u32 \<Rightarrow> nat" where "FS_OF op = unat (drop_bit 11 op AND 0x1F)"
definition FT_OF :: "u32 \<Rightarrow> nat" where "FT_OF op = unat (drop_bit 16 op AND 0x1F)"
definition JUMP_OF :: "u32 \<Rightarrow> u32" where "JUMP_OF op = op AND 0x3FFFFFF"

definition SE8 :: "'a::len word \<Rightarrow> u64" where "SE8 a = scast (ucast a :: u8)"
definition SE16 :: "'a::len word \<Rightarrow> u64" where "SE16 a = scast (ucast a :: u16)"
definition SE32 :: "'a::len word \<Rightarrow> u64" where "SE32 a = scast (ucast a :: u32)"

text \<open>
  The register operands. \<open>irs\<close> and \<open>irt\<close> name the same registers as \<open>rrs\<close> and \<open>rrt\<close>; the immediate is
  used at three widths.
\<close>

definition rrs :: "u32 \<Rightarrow> r4300_core \<Rightarrow> u64" where "rrs op r = gpr r (RS_OF op)"
definition rrt :: "u32 \<Rightarrow> r4300_core \<Rightarrow> u64" where "rrt op r = gpr r (RT_OF op)"
definition rrs32 :: "u32 \<Rightarrow> r4300_core \<Rightarrow> u32" where "rrs32 op r = ucast (rrs op r)"
definition rrt32 :: "u32 \<Rightarrow> r4300_core \<Rightarrow> u32" where "rrt32 op r = ucast (rrt op r)"
definition imm_se32 :: "u32 \<Rightarrow> u32" where "imm_se32 op = scast (IMM16S_OF op)"
definition imm_se64 :: "u32 \<Rightarrow> u64" where "imm_se64 op = scast (IMM16S_OF op)"
definition imm_ze64 :: "u32 \<Rightarrow> u64" where "imm_ze64 op = ucast (IMM16S_OF op)"

definition set_gpr :: "nat \<Rightarrow> u64 \<Rightarrow> r4300_core \<Rightarrow> r4300_core" where
  "set_gpr i v r = r\<lparr>gpr := (gpr r)(i := v)\<rparr>"

definition ADD_TO_PC :: "r4300_core \<Rightarrow> r4300_core" where
  "ADD_TO_PC r = r\<lparr>pc := pc r + 4\<rparr>"

definition set_rd :: "u32 \<Rightarrow> u64 \<Rightarrow> r4300_core \<Rightarrow> r4300_core" where
  "set_rd op v r = ADD_TO_PC (set_gpr (RD_OF op) v r)"

definition set_rt :: "u32 \<Rightarrow> u64 \<Rightarrow> r4300_core \<Rightarrow> r4300_core" where
  "set_rt op v r = ADD_TO_PC (set_gpr (RT_OF op) v r)"

section \<open>Exceptions raised by instructions\<close>

abbreviation CP0_CAUSE_EXCCODE_SYS :: u32 where "CP0_CAUSE_EXCCODE_SYS \<equiv> 0x20"
abbreviation CP0_CAUSE_EXCCODE_BP :: u32 where "CP0_CAUSE_EXCCODE_BP \<equiv> 0x24"
abbreviation CP0_CAUSE_EXCCODE_RI :: u32 where "CP0_CAUSE_EXCCODE_RI \<equiv> 0x28"
abbreviation CP0_CAUSE_EXCCODE_TR :: u32 where "CP0_CAUSE_EXCCODE_TR \<equiv> 0x34"
abbreviation CP0_CAUSE_EXCCODE_FPE :: u32 where "CP0_CAUSE_EXCCODE_FPE \<equiv> 0x3C"
abbreviation CP0_CAUSE_IP0 :: u32 where "CP0_CAUSE_IP0 \<equiv> 0x100"
abbreviation CP0_CAUSE_IP1 :: u32 where "CP0_CAUSE_IP1 \<equiv> 0x200"

definition raise_exception :: "u32 \<Rightarrow> r4300_core \<Rightarrow> r4300_core option" where
  "raise_exception cause r = exception_general (set_creg CP0_CAUSE_REG cause r)"

definition RESERVED :: "r4300_core \<Rightarrow> r4300_core option" where
  "RESERVED = raise_exception CP0_CAUSE_EXCCODE_RI"

definition RESERVED_COP2 :: "r4300_core \<Rightarrow> r4300_core option" where
  "RESERVED_COP2 r = do {
     (unusable, r) \<leftarrow> check_cop2_unusable r;
     if unusable then Some r else raise_exception (CP0_CAUSE_EXCCODE_RI OR CP0_CAUSE_CE2) r }"

definition BREAK :: "r4300_core \<Rightarrow> r4300_core option" where
  "BREAK = raise_exception CP0_CAUSE_EXCCODE_BP"

definition SYSCALL :: "r4300_core \<Rightarrow> r4300_core option" where
  "SYSCALL = raise_exception CP0_CAUSE_EXCCODE_SYS"

text \<open>The message that reports an unimplemented opcode is not modelled.\<close>

definition NI :: "r4300_core \<Rightarrow> r4300_core" where
  "NI r = r\<lparr>stop := 1\<rparr>"

section \<open>Arithmetic and logic\<close>

definition ADD :: "u32 \<Rightarrow> r4300_core \<Rightarrow> r4300_core" where
  "ADD op r = set_rd op (SE32 (rrs32 op r + rrt32 op r)) r"

definition ADDU :: "u32 \<Rightarrow> r4300_core \<Rightarrow> r4300_core" where
  "ADDU op r = set_rd op (SE32 (rrs32 op r + rrt32 op r)) r"

definition ADDI :: "u32 \<Rightarrow> r4300_core \<Rightarrow> r4300_core" where
  "ADDI op r = set_rt op (SE32 (rrs32 op r + imm_se32 op)) r"

definition ADDIU :: "u32 \<Rightarrow> r4300_core \<Rightarrow> r4300_core" where
  "ADDIU op r = set_rt op (SE32 (rrs32 op r + imm_se32 op)) r"

definition DADD :: "u32 \<Rightarrow> r4300_core \<Rightarrow> r4300_core" where
  "DADD op r = set_rd op (rrs op r + rrt op r) r"

definition DADDU :: "u32 \<Rightarrow> r4300_core \<Rightarrow> r4300_core" where
  "DADDU op r = set_rd op (rrs op r + rrt op r) r"

definition DADDI :: "u32 \<Rightarrow> r4300_core \<Rightarrow> r4300_core" where
  "DADDI op r = set_rt op (rrs op r + imm_se64 op) r"

definition DADDIU :: "u32 \<Rightarrow> r4300_core \<Rightarrow> r4300_core" where
  "DADDIU op r = set_rt op (rrs op r + imm_se64 op) r"

definition SUB :: "u32 \<Rightarrow> r4300_core \<Rightarrow> r4300_core" where
  "SUB op r = set_rd op (SE32 (rrs32 op r - rrt32 op r)) r"

definition SUBU :: "u32 \<Rightarrow> r4300_core \<Rightarrow> r4300_core" where
  "SUBU op r = set_rd op (SE32 (rrs32 op r - rrt32 op r)) r"

definition DSUB :: "u32 \<Rightarrow> r4300_core \<Rightarrow> r4300_core" where
  "DSUB op r = set_rd op (rrs op r - rrt op r) r"

definition DSUBU :: "u32 \<Rightarrow> r4300_core \<Rightarrow> r4300_core" where
  "DSUBU op r = set_rd op (rrs op r - rrt op r) r"

definition SLT :: "u32 \<Rightarrow> r4300_core \<Rightarrow> r4300_core" where
  "SLT op r = set_rd op (if rrs op r <s rrt op r then 1 else 0) r"

definition SLTU :: "u32 \<Rightarrow> r4300_core \<Rightarrow> r4300_core" where
  "SLTU op r = set_rd op (if rrs op r < rrt op r then 1 else 0) r"

definition SLTI :: "u32 \<Rightarrow> r4300_core \<Rightarrow> r4300_core" where
  "SLTI op r = set_rt op (if rrs op r <s imm_se64 op then 1 else 0) r"

definition SLTIU :: "u32 \<Rightarrow> r4300_core \<Rightarrow> r4300_core" where
  "SLTIU op r = set_rt op (if rrs op r < imm_se64 op then 1 else 0) r"

definition AND_insn :: "u32 \<Rightarrow> r4300_core \<Rightarrow> r4300_core" where
  "AND_insn op r = set_rd op (rrs op r AND rrt op r) r"

definition ANDI :: "u32 \<Rightarrow> r4300_core \<Rightarrow> r4300_core" where
  "ANDI op r = set_rt op (rrs op r AND imm_ze64 op) r"

definition OR_insn :: "u32 \<Rightarrow> r4300_core \<Rightarrow> r4300_core" where
  "OR_insn op r = set_rd op (rrs op r OR rrt op r) r"

definition ORI :: "u32 \<Rightarrow> r4300_core \<Rightarrow> r4300_core" where
  "ORI op r = set_rt op (rrs op r OR imm_ze64 op) r"

definition XOR_insn :: "u32 \<Rightarrow> r4300_core \<Rightarrow> r4300_core" where
  "XOR_insn op r = set_rd op (rrs op r XOR rrt op r) r"

definition XORI :: "u32 \<Rightarrow> r4300_core \<Rightarrow> r4300_core" where
  "XORI op r = set_rt op (rrs op r XOR imm_ze64 op) r"

definition NOR :: "u32 \<Rightarrow> r4300_core \<Rightarrow> r4300_core" where
  "NOR op r = set_rd op (NOT (rrs op r OR rrt op r)) r"

definition LUI :: "u32 \<Rightarrow> r4300_core \<Rightarrow> r4300_core" where
  "LUI op r = set_rt op (SE32 (push_bit 16 (imm_se32 op))) r"

definition NOP :: "r4300_core \<Rightarrow> r4300_core" where
  "NOP r = ADD_TO_PC r"

section \<open>Shifts\<close>

text \<open>The variable shifts mask the amount; \<open>SRA\<close> shifts the whole 64-bit register before it takes 32 bits.\<close>

definition shamt32 :: "u32 \<Rightarrow> r4300_core \<Rightarrow> nat" where "shamt32 op r = unat (rrs32 op r AND 0x1F)"
definition shamt64 :: "u32 \<Rightarrow> r4300_core \<Rightarrow> nat" where "shamt64 op r = unat (rrs32 op r AND 0x3F)"

definition SLL :: "u32 \<Rightarrow> r4300_core \<Rightarrow> r4300_core" where
  "SLL op r = set_rd op (SE32 (push_bit (SA_OF op) (rrt32 op r))) r"

definition SLLV :: "u32 \<Rightarrow> r4300_core \<Rightarrow> r4300_core" where
  "SLLV op r = set_rd op (SE32 (push_bit (shamt32 op r) (rrt32 op r))) r"

definition DSLL :: "u32 \<Rightarrow> r4300_core \<Rightarrow> r4300_core" where
  "DSLL op r = set_rd op (push_bit (SA_OF op) (rrt op r)) r"

definition DSLLV :: "u32 \<Rightarrow> r4300_core \<Rightarrow> r4300_core" where
  "DSLLV op r = set_rd op (push_bit (shamt64 op r) (rrt op r)) r"

definition DSLL32 :: "u32 \<Rightarrow> r4300_core \<Rightarrow> r4300_core" where
  "DSLL32 op r = set_rd op (push_bit (32 + SA_OF op) (rrt op r)) r"

definition SRL :: "u32 \<Rightarrow> r4300_core \<Rightarrow> r4300_core" where
  "SRL op r = set_rd op (SE32 (drop_bit (SA_OF op) (rrt32 op r))) r"

definition SRLV :: "u32 \<Rightarrow> r4300_core \<Rightarrow> r4300_core" where
  "SRLV op r = set_rd op (SE32 (drop_bit (shamt32 op r) (rrt32 op r))) r"

definition DSRL :: "u32 \<Rightarrow> r4300_core \<Rightarrow> r4300_core" where
  "DSRL op r = set_rd op (drop_bit (SA_OF op) (rrt op r)) r"

definition DSRLV :: "u32 \<Rightarrow> r4300_core \<Rightarrow> r4300_core" where
  "DSRLV op r = set_rd op (drop_bit (shamt64 op r) (rrt op r)) r"

definition DSRL32 :: "u32 \<Rightarrow> r4300_core \<Rightarrow> r4300_core" where
  "DSRL32 op r = set_rd op (drop_bit (32 + SA_OF op) (rrt op r)) r"

definition SRA :: "u32 \<Rightarrow> r4300_core \<Rightarrow> r4300_core" where
  "SRA op r = set_rd op (SE32 (signed_drop_bit (SA_OF op) (rrt op r))) r"

definition SRAV :: "u32 \<Rightarrow> r4300_core \<Rightarrow> r4300_core" where
  "SRAV op r = set_rd op (SE32 (signed_drop_bit (shamt32 op r) (rrt op r))) r"

definition DSRA :: "u32 \<Rightarrow> r4300_core \<Rightarrow> r4300_core" where
  "DSRA op r = set_rd op (signed_drop_bit (SA_OF op) (rrt op r)) r"

definition DSRAV :: "u32 \<Rightarrow> r4300_core \<Rightarrow> r4300_core" where
  "DSRAV op r = set_rd op (signed_drop_bit (shamt64 op r) (rrt op r)) r"

definition DSRA32 :: "u32 \<Rightarrow> r4300_core \<Rightarrow> r4300_core" where
  "DSRA32 op r = set_rd op (signed_drop_bit (32 + SA_OF op) (rrt op r)) r"

section \<open>Multiplication and division\<close>

definition set_hilo :: "u64 \<Rightarrow> u64 \<Rightarrow> r4300_core \<Rightarrow> r4300_core" where
  "set_hilo h l r = ADD_TO_PC (r\<lparr>hi := h, lo := l\<rparr>)"

definition MULT :: "u32 \<Rightarrow> r4300_core \<Rightarrow> r4300_core" where
  "MULT op r =
     (let temp = SE32 (rrs32 op r) * SE32 (rrt32 op r)
      in set_hilo (signed_drop_bit 32 temp) (SE32 temp) r)"

definition MULTU :: "u32 \<Rightarrow> r4300_core \<Rightarrow> r4300_core" where
  "MULTU op r =
     (let temp = (ucast (rrs32 op r) :: u64) * ucast (rrt32 op r)
      in set_hilo (signed_drop_bit 32 temp) (SE32 temp) r)"

text \<open>
  The 128-bit product from four 32-bit products, as \<open>DMULT\<close> and \<open>DMULTU\<close> both spell it out: high and
  low half.
\<close>

definition mul_parts :: "u64 \<Rightarrow> u64 \<Rightarrow> u64 \<times> u64" where
  "mul_parts x y =
     (let op1 = x AND 0xFFFFFFFF; op2 = drop_bit 32 x AND 0xFFFFFFFF;
          op3 = y AND 0xFFFFFFFF; op4 = drop_bit 32 y AND 0xFFFFFFFF;
          temp1 = op1 * op3;
          temp2 = drop_bit 32 temp1 + op1 * op4;
          temp3 = op2 * op3;
          temp4 = drop_bit 32 temp3 + op2 * op4;
          result1 = temp1 AND 0xFFFFFFFF;
          result2 = temp2 + (temp3 AND 0xFFFFFFFF);
          result3 = drop_bit 32 result2 + temp4;
          result4 = drop_bit 32 result3
      in ((result3 AND 0xFFFFFFFF) OR push_bit 32 result4, result1 OR push_bit 32 result2))"

definition INT64_MIN :: u64 where "INT64_MIN = 0x8000000000000000"
definition INT32_MIN :: u32 where "INT32_MIN = 0x80000000"

text \<open>The operand of \<open>DMULT\<close> without its sign; negating \<^verbatim>\<open>INT64_MIN\<close> overflows.\<close>

definition dmult_operand :: "u64 \<Rightarrow> (u64 \<times> bool) option" where
  "dmult_operand x = (if x <s 0 then (if x = INT64_MIN then None else Some (- x, True)) else Some (x, False))"

definition DMULT :: "u32 \<Rightarrow> r4300_core \<Rightarrow> r4300_core option" where
  "DMULT op r = do {
     (x, negx) \<leftarrow> dmult_operand (rrs op r);
     (y, negy) \<leftarrow> dmult_operand (rrt op r);
     let (h, l) = mul_parts x y;
     let (h, l) = (if negx \<noteq> negy
                   then (if l = 0 then (NOT h + 1, l) else (NOT h, NOT l + 1))
                   else (h, l));
     Some (set_hilo h l r) }"

definition DMULTU :: "u32 \<Rightarrow> r4300_core \<Rightarrow> r4300_core" where
  "DMULTU op r = (case mul_parts (rrs op r) (rrt op r) of (h, l) \<Rightarrow> set_hilo h l r)"

text \<open>The quotient and remainder of the C operators on signed operands: rounded towards zero.\<close>

definition sdiv_C :: "'a::len word \<Rightarrow> 'a word \<Rightarrow> 'a word" where
  "sdiv_C a b = word_of_int (sgn (sint a) * sgn (sint b) * (\<bar>sint a\<bar> div \<bar>sint b\<bar>))"

definition smod_C :: "'a::len word \<Rightarrow> 'a word \<Rightarrow> 'a word" where
  "smod_C a b = word_of_int (sgn (sint a) * (\<bar>sint a\<bar> mod \<bar>sint b\<bar>))"

definition DIV :: "u32 \<Rightarrow> r4300_core \<Rightarrow> r4300_core" where
  "DIV op r =
     (let a = rrs32 op r; b = rrt32 op r in
      if b \<noteq> 0 then
        if a = INT32_MIN \<and> b = -1 then set_hilo 0 (SE32 a) r
        else set_hilo (SE32 (smod_C a b)) (SE32 (sdiv_C a b)) r
      else set_hilo (SE32 a) (if a <s 0 then 1 else -1) r)"

definition DIVU :: "u32 \<Rightarrow> r4300_core \<Rightarrow> r4300_core" where
  "DIVU op r =
     (let a = rrs32 op r; b = rrt32 op r in
      if b \<noteq> 0 then set_hilo (SE32 (a mod b)) (SE32 (a div b)) r
      else set_hilo (SE32 a) (-1) r)"

definition DDIV :: "u32 \<Rightarrow> r4300_core \<Rightarrow> r4300_core" where
  "DDIV op r =
     (let a = rrs op r; b = rrt op r in
      if b \<noteq> 0 then
        if a = INT64_MIN \<and> b = -1 then set_hilo 0 a r
        else set_hilo (smod_C a b) (sdiv_C a b) r
      else set_hilo a (if a <s 0 then 1 else -1) r)"

definition DDIVU :: "u32 \<Rightarrow> r4300_core \<Rightarrow> r4300_core" where
  "DDIVU op r =
     (let a = rrs op r; b = rrt op r in
      if b \<noteq> 0 then set_hilo (a mod b) (a div b) r else set_hilo a (-1) r)"

definition MFHI :: "u32 \<Rightarrow> r4300_core \<Rightarrow> r4300_core" where
  "MFHI op r = set_rd op (hi r) r"

definition MTHI :: "u32 \<Rightarrow> r4300_core \<Rightarrow> r4300_core" where
  "MTHI op r = ADD_TO_PC (r\<lparr>hi := rrs op r\<rparr>)"

definition MFLO :: "u32 \<Rightarrow> r4300_core \<Rightarrow> r4300_core" where
  "MFLO op r = set_rd op (lo r) r"

definition MTLO :: "u32 \<Rightarrow> r4300_core \<Rightarrow> r4300_core" where
  "MTLO op r = ADD_TO_PC (r\<lparr>lo := rrs op r\<rparr>)"

section \<open>Jumps and branches\<close>

text \<open>
  The arguments of \<^verbatim>\<open>DECLARE_JUMP\<close>, evaluated in the state before the jump: the condition, the
  destination, the number of the link register, and the two flags.
\<close>

record jump =
  j_taken :: bool
  j_target :: u32
  j_link :: nat
  j_likely :: bool
  j_cop1 :: bool

definition absolute_target :: "u32 \<Rightarrow> r4300_core \<Rightarrow> u32" where
  "absolute_target op r = push_bit 2 (JUMP_OF op) OR ((pc r + 4) AND 0xF0000000)"

definition relative_target :: "u32 \<Rightarrow> r4300_core \<Rightarrow> u32" where
  "relative_target op r = pc r + (imm_se32 op + 1) * 4"

definition jump_to :: "u32 \<Rightarrow> nat \<Rightarrow> jump" where
  "jump_to target link = \<lparr>j_taken = True, j_target = target, j_link = link, j_likely = False, j_cop1 = False\<rparr>"

definition branch :: "bool \<Rightarrow> nat \<Rightarrow> bool \<Rightarrow> u32 \<Rightarrow> r4300_core \<Rightarrow> jump" where
  "branch taken link likely op r =
     \<lparr>j_taken = taken, j_target = relative_target op r, j_link = link, j_likely = likely, j_cop1 = False\<rparr>"

definition fcond :: "r4300_core \<Rightarrow> bool" where
  "fcond r \<longleftrightarrow> fcr31 (cp1 r) AND FCR31_CMP_BIT \<noteq> 0"

definition cop1_branch :: "bool \<Rightarrow> bool \<Rightarrow> u32 \<Rightarrow> r4300_core \<Rightarrow> jump" where
  "cop1_branch taken likely op r = (branch taken 0 likely op r)\<lparr>j_cop1 := True\<rparr>"

definition J :: "u32 \<Rightarrow> r4300_core \<Rightarrow> jump" where
  "J op r = jump_to (absolute_target op r) 0"

definition JAL :: "u32 \<Rightarrow> r4300_core \<Rightarrow> jump" where
  "JAL op r = jump_to (absolute_target op r) 31"

definition JR :: "u32 \<Rightarrow> r4300_core \<Rightarrow> jump" where
  "JR op r = jump_to (rrs32 op r) 0"

definition JALR :: "u32 \<Rightarrow> r4300_core \<Rightarrow> jump" where
  "JALR op r = jump_to (rrs32 op r) (RD_OF op)"

definition BEQ :: "u32 \<Rightarrow> r4300_core \<Rightarrow> jump" where
  "BEQ op r = branch (rrs op r = rrt op r) 0 False op r"

definition BEQL :: "u32 \<Rightarrow> r4300_core \<Rightarrow> jump" where
  "BEQL op r = branch (rrs op r = rrt op r) 0 True op r"

definition BNE :: "u32 \<Rightarrow> r4300_core \<Rightarrow> jump" where
  "BNE op r = branch (rrs op r \<noteq> rrt op r) 0 False op r"

definition BNEL :: "u32 \<Rightarrow> r4300_core \<Rightarrow> jump" where
  "BNEL op r = branch (rrs op r \<noteq> rrt op r) 0 True op r"

definition BLEZ :: "u32 \<Rightarrow> r4300_core \<Rightarrow> jump" where
  "BLEZ op r = branch (rrs op r \<le>s 0) 0 False op r"

definition BLEZL :: "u32 \<Rightarrow> r4300_core \<Rightarrow> jump" where
  "BLEZL op r = branch (rrs op r \<le>s 0) 0 True op r"

definition BGTZ :: "u32 \<Rightarrow> r4300_core \<Rightarrow> jump" where
  "BGTZ op r = branch (0 <s rrs op r) 0 False op r"

definition BGTZL :: "u32 \<Rightarrow> r4300_core \<Rightarrow> jump" where
  "BGTZL op r = branch (0 <s rrs op r) 0 True op r"

definition BLTZ :: "u32 \<Rightarrow> r4300_core \<Rightarrow> jump" where
  "BLTZ op r = branch (rrs op r <s 0) 0 False op r"

definition BLTZAL :: "u32 \<Rightarrow> r4300_core \<Rightarrow> jump" where
  "BLTZAL op r = branch (rrs op r <s 0) 31 False op r"

definition BLTZL :: "u32 \<Rightarrow> r4300_core \<Rightarrow> jump" where
  "BLTZL op r = branch (rrs op r <s 0) 0 True op r"

definition BLTZALL :: "u32 \<Rightarrow> r4300_core \<Rightarrow> jump" where
  "BLTZALL op r = branch (rrs op r <s 0) 31 True op r"

definition BGEZ :: "u32 \<Rightarrow> r4300_core \<Rightarrow> jump" where
  "BGEZ op r = branch (0 \<le>s rrs op r) 0 False op r"

definition BGEZAL :: "u32 \<Rightarrow> r4300_core \<Rightarrow> jump" where
  "BGEZAL op r = branch (0 \<le>s rrs op r) 31 False op r"

definition BGEZL :: "u32 \<Rightarrow> r4300_core \<Rightarrow> jump" where
  "BGEZL op r = branch (0 \<le>s rrs op r) 0 True op r"

definition BGEZALL :: "u32 \<Rightarrow> r4300_core \<Rightarrow> jump" where
  "BGEZALL op r = branch (0 \<le>s rrs op r) 31 True op r"

definition BC1F :: "u32 \<Rightarrow> r4300_core \<Rightarrow> jump" where
  "BC1F op r = cop1_branch (\<not> fcond r) False op r"

definition BC1FL :: "u32 \<Rightarrow> r4300_core \<Rightarrow> jump" where
  "BC1FL op r = cop1_branch (\<not> fcond r) True op r"

definition BC1T :: "u32 \<Rightarrow> r4300_core \<Rightarrow> jump" where
  "BC1T op r = cop1_branch (fcond r) False op r"

definition BC1TL :: "u32 \<Rightarrow> r4300_core \<Rightarrow> jump" where
  "BC1TL op r = cop1_branch (fcond r) True op r"

section \<open>Instructions without effect\<close>

definition CACHE :: "u32 \<Rightarrow> r4300_core \<Rightarrow> r4300_core" where
  "CACHE op r = ADD_TO_PC r"

definition SYNC :: "u32 \<Rightarrow> r4300_core \<Rightarrow> r4300_core" where
  "SYNC op r = ADD_TO_PC r"

section \<open>Traps\<close>

definition trap :: "bool \<Rightarrow> r4300_core \<Rightarrow> r4300_core option" where
  "trap cond r = (if cond then raise_exception CP0_CAUSE_EXCCODE_TR r else Some (ADD_TO_PC r))"

definition TGE :: "u32 \<Rightarrow> r4300_core \<Rightarrow> r4300_core option" where
  "TGE op r = trap (rrt op r \<le>s rrs op r) r"

definition TGEU :: "u32 \<Rightarrow> r4300_core \<Rightarrow> r4300_core option" where
  "TGEU op r = trap (rrt op r \<le> rrs op r) r"

definition TGEI :: "u32 \<Rightarrow> r4300_core \<Rightarrow> r4300_core option" where
  "TGEI op r = trap (imm_se64 op \<le>s rrs op r) r"

definition TGEIU :: "u32 \<Rightarrow> r4300_core \<Rightarrow> r4300_core option" where
  "TGEIU op r = trap (imm_se64 op \<le> rrs op r) r"

definition TLT :: "u32 \<Rightarrow> r4300_core \<Rightarrow> r4300_core option" where
  "TLT op r = trap (rrs op r <s rrt op r) r"

definition TLTU :: "u32 \<Rightarrow> r4300_core \<Rightarrow> r4300_core option" where
  "TLTU op r = trap (rrs op r < rrt op r) r"

definition TLTI :: "u32 \<Rightarrow> r4300_core \<Rightarrow> r4300_core option" where
  "TLTI op r = trap (rrs op r <s imm_se64 op) r"

definition TLTIU :: "u32 \<Rightarrow> r4300_core \<Rightarrow> r4300_core option" where
  "TLTIU op r = trap (rrs op r < imm_se64 op) r"

definition TEQ :: "u32 \<Rightarrow> r4300_core \<Rightarrow> r4300_core option" where
  "TEQ op r = trap (rrs op r = rrt op r) r"

definition TEQI :: "u32 \<Rightarrow> r4300_core \<Rightarrow> r4300_core option" where
  "TEQI op r = trap (rrs op r = imm_se64 op) r"

definition TNE :: "u32 \<Rightarrow> r4300_core \<Rightarrow> r4300_core option" where
  "TNE op r = trap (rrs op r \<noteq> rrt op r) r"

definition TNEI :: "u32 \<Rightarrow> r4300_core \<Rightarrow> r4300_core option" where
  "TNEI op r = trap (rrs op r \<noteq> imm_se64 op) r"

section \<open>Reads of coprocessor 0\<close>

definition cp0_register_list :: "cp0_register list" where
  "cp0_register_list =
     [CP0_INDEX_REG, CP0_RANDOM_REG, CP0_ENTRYLO0_REG, CP0_ENTRYLO1_REG, CP0_CONTEXT_REG, CP0_PAGEMASK_REG,
      CP0_WIRED_REG, CP0_UNUSED_7, CP0_BADVADDR_REG, CP0_COUNT_REG, CP0_ENTRYHI_REG, CP0_COMPARE_REG,
      CP0_STATUS_REG, CP0_CAUSE_REG, CP0_EPC_REG, CP0_PREVID_REG, CP0_CONFIG_REG, CP0_LLADDR_REG,
      CP0_WATCHLO_REG, CP0_WATCHHI_REG, CP0_XCONTEXT_REG, CP0_UNUSED_21, CP0_UNUSED_22, CP0_UNUSED_23,
      CP0_UNUSED_24, CP0_UNUSED_25, CP0_PARITYERR_REG, CP0_CACHEERR_REG, CP0_TAGLO_REG, CP0_TAGHI_REG,
      CP0_ERROREPC_REG, CP0_UNUSED_31]"

text \<open>The coprocessor 0 register that the field \<^verbatim>\<open>rfs\<close> numbers.\<close>

definition rfs :: "u32 \<Rightarrow> cp0_register" where
  "rfs op = cp0_register_list ! FS_OF op"

definition latched :: "cp0_register \<Rightarrow> bool" where
  "latched x \<longleftrightarrow> x \<in> {CP0_UNUSED_7, CP0_UNUSED_21, CP0_UNUSED_22, CP0_UNUSED_23, CP0_UNUSED_24,
     CP0_UNUSED_25, CP0_UNUSED_31}"

text \<open>The division is by zero when \<^verbatim>\<open>count_per_op\<close> is 0 or the wired register is 32.\<close>

definition update_random :: "r4300_core \<Rightarrow> r4300_core option" where
  "update_random r =
     (let r = cp0_update_count r; wired = creg r CP0_WIRED_REG in
      if count_per_op (cp0 r) = 0 \<or> 32 - wired = 0 then None
      else Some (set_creg CP0_RANDOM_REG
             ((creg r CP0_COUNT_REG div count_per_op (cp0 r)) mod (32 - wired) + wired) r))"

definition MFC0 :: "u32 \<Rightarrow> r4300_core \<Rightarrow> r4300_core option" where
  "MFC0 op r =
     (if rfs op = CP0_RANDOM_REG then do {
        r \<leftarrow> update_random r;
        Some (set_rt op (SE32 (creg r (rfs op))) r) }
      else if rfs op = CP0_COUNT_REG then
        let r = cp0_update_count r in Some (set_rt op (SE32 (creg r (rfs op))) r)
      else if latched (rfs op) then Some (set_rt op (latch (cp0 r)) r)
      else Some (set_rt op (SE32 (creg r (rfs op))) r))"

definition DMFC0 :: "u32 \<Rightarrow> r4300_core \<Rightarrow> r4300_core option" where
  "DMFC0 op r =
     (if rfs op = CP0_RANDOM_REG then do {
        r \<leftarrow> update_random r;
        Some (set_rt op (ucast (creg r (rfs op))) r) }
      else if rfs op = CP0_COUNT_REG then
        let r = cp0_update_count r in Some (set_rt op (ucast (creg r (rfs op))) r)
      else if rfs op = CP0_EPC_REG then Some (set_rt op (SE32 (creg r (rfs op))) r)
      else if latched (rfs op) then Some (set_rt op (latch (cp0 r)) r)
      else Some (set_rt op (ucast (creg r (rfs op))) r))"

end
