(* ===== verification/Mips_Fpu.thy ===== *)
theory Mips_Fpu
  imports Mips
begin

text \<open>
  The instructions of coprocessors 1 and 2 in \<^verbatim>\<open>device/r4300/mips_instructions.def\<close> that do not access
  memory: moves, control registers, arithmetic, conversions and comparisons. Each tests first that the
  coprocessor is usable; the four double comparisons \<open>C_SF_D\<close>, \<open>C_NGLE_D\<close>, \<open>C_SEQ_D\<close> and \<open>C_NGL_D\<close> do not.
\<close>

section \<open>Guards\<close>

definition cop1 :: "(r4300_core \<Rightarrow> r4300_core option) \<Rightarrow> r4300_core \<Rightarrow> r4300_core option" where
  "cop1 f r = do {
     (unusable, r) \<leftarrow> check_cop1_unusable r;
     if unusable then Some r else f r }"

definition cop2 :: "(r4300_core \<Rightarrow> r4300_core option) \<Rightarrow> r4300_core \<Rightarrow> r4300_core option" where
  "cop2 f r = do {
     (unusable, r) \<leftarrow> check_cop2_unusable r;
     if unusable then Some r else f r }"

text \<open>A change of the coprocessor 1 state followed by the step of the program counter.\<close>

definition fpu :: "(cp1 \<Rightarrow> cp1) \<Rightarrow> r4300_core \<Rightarrow> r4300_core option" where
  "fpu f r = Some (ADD_TO_PC (r\<lparr>cp1 := f (cp1 r)\<rparr>))"

definition fpu_cast :: "(cp1 \<Rightarrow> cp1 option) \<Rightarrow> r4300_core \<Rightarrow> r4300_core option" where
  "fpu_cast f r = do {
     c \<leftarrow> f (cp1 r);
     Some (ADD_TO_PC (r\<lparr>cp1 := c\<rparr>)) }"

section \<open>Moves\<close>

definition MFC1 :: "u32 \<Rightarrow> r4300_core \<Rightarrow> r4300_core option" where
  "MFC1 op = cop1 (\<lambda>r. Some (set_rt op (SE32 (get_s (cp1 r) (FS_OF op))) r))"

definition DMFC1 :: "u32 \<Rightarrow> r4300_core \<Rightarrow> r4300_core option" where
  "DMFC1 op = cop1 (\<lambda>r. Some (set_rt op (get_d (cp1 r) (FS_OF op)) r))"

definition CFC1 :: "u32 \<Rightarrow> r4300_core \<Rightarrow> r4300_core option" where
  "CFC1 op = cop1 (\<lambda>r. Some (
     if FS_OF op = 31 then set_rt op (SE32 (fcr31 (cp1 r))) r
     else if FS_OF op = 0 then set_rt op (SE32 (fcr0 (cp1 r))) r
     else ADD_TO_PC r))"

definition unimplemented_operation :: "r4300_core \<Rightarrow> r4300_core option" where
  "unimplemented_operation = cop1 (\<lambda>r.
     raise_exception CP0_CAUSE_EXCCODE_FPE
       (r\<lparr>cp1 := (cp1 r)\<lparr>fcr31 := fcr31 (cp1 r) OR FCR31_CAUSE_UNIMPLOP_BIT\<rparr>\<rparr>))"

definition DCFC1 :: "r4300_core \<Rightarrow> r4300_core option" where
  "DCFC1 = unimplemented_operation"

definition MTC1 :: "u32 \<Rightarrow> r4300_core \<Rightarrow> r4300_core option" where
  "MTC1 op = cop1 (\<lambda>r. fpu (\<lambda>c. put_s c (FS_OF op) (rrt32 op r)) r)"

definition DMTC1 :: "u32 \<Rightarrow> r4300_core \<Rightarrow> r4300_core option" where
  "DMTC1 op = cop1 (\<lambda>r. fpu (\<lambda>c. put_d c (FS_OF op) (rrt op r)) r)"

definition CTC1 :: "u32 \<Rightarrow> r4300_core \<Rightarrow> r4300_core option" where
  "CTC1 op = cop1 (\<lambda>r. fpu (\<lambda>c.
     if FS_OF op = 31 then update_x86_rounding_mode (c\<lparr>fcr31 := rrt32 op r\<rparr>) else c) r)"

definition DCTC1 :: "r4300_core \<Rightarrow> r4300_core option" where
  "DCTC1 = unimplemented_operation"

definition MFC2 :: "u32 \<Rightarrow> r4300_core \<Rightarrow> r4300_core option" where
  "MFC2 op = cop2 (\<lambda>r. Some (set_rt op (SE32 (cp2_latch r)) r))"

definition DMFC2 :: "u32 \<Rightarrow> r4300_core \<Rightarrow> r4300_core option" where
  "DMFC2 op = cop2 (\<lambda>r. Some (set_rt op (cp2_latch r) r))"

definition CFC2 :: "u32 \<Rightarrow> r4300_core \<Rightarrow> r4300_core option" where
  "CFC2 op = cop2 (\<lambda>r. Some (set_rt op (SE32 (cp2_latch r)) r))"

definition MTC2 :: "u32 \<Rightarrow> r4300_core \<Rightarrow> r4300_core option" where
  "MTC2 op = cop2 (\<lambda>r. Some (ADD_TO_PC (r\<lparr>cp2_latch := rrt op r\<rparr>)))"

definition DMTC2 :: "u32 \<Rightarrow> r4300_core \<Rightarrow> r4300_core option" where
  "DMTC2 op = cop2 (\<lambda>r. Some (ADD_TO_PC (r\<lparr>cp2_latch := rrt op r\<rparr>)))"

definition CTC2 :: "u32 \<Rightarrow> r4300_core \<Rightarrow> r4300_core option" where
  "CTC2 op = cop2 (\<lambda>r. Some (ADD_TO_PC (r\<lparr>cp2_latch := rrt op r\<rparr>)))"

section \<open>Arithmetic\<close>

definition ABS_S :: "u32 \<Rightarrow> r4300_core \<Rightarrow> r4300_core option" where
  "ABS_S op = cop1 (fpu (abs_s (FS_OF op) (FD_OF op)))"

definition ABS_D :: "u32 \<Rightarrow> r4300_core \<Rightarrow> r4300_core option" where
  "ABS_D op = cop1 (fpu (abs_d (FS_OF op) (FD_OF op)))"

definition ADD_S :: "fpu_host \<Rightarrow> u32 \<Rightarrow> r4300_core \<Rightarrow> r4300_core option" where
  "ADD_S h op = cop1 (fpu (add_s h (FS_OF op) (FT_OF op) (FD_OF op)))"

definition ADD_D :: "fpu_host \<Rightarrow> u32 \<Rightarrow> r4300_core \<Rightarrow> r4300_core option" where
  "ADD_D h op = cop1 (fpu (add_d h (FS_OF op) (FT_OF op) (FD_OF op)))"

definition DIV_S :: "fpu_host \<Rightarrow> u32 \<Rightarrow> r4300_core \<Rightarrow> r4300_core option" where
  "DIV_S h op = cop1 (fpu (div_s h (FS_OF op) (FT_OF op) (FD_OF op)))"

definition DIV_D :: "fpu_host \<Rightarrow> u32 \<Rightarrow> r4300_core \<Rightarrow> r4300_core option" where
  "DIV_D h op = cop1 (fpu (div_d h (FS_OF op) (FT_OF op) (FD_OF op)))"

definition MOV_S :: "u32 \<Rightarrow> r4300_core \<Rightarrow> r4300_core option" where
  "MOV_S op = cop1 (fpu (mov_s (FS_OF op) (FD_OF op)))"

definition MOV_D :: "u32 \<Rightarrow> r4300_core \<Rightarrow> r4300_core option" where
  "MOV_D op = cop1 (fpu (mov_d (FS_OF op) (FD_OF op)))"

definition MUL_S :: "fpu_host \<Rightarrow> u32 \<Rightarrow> r4300_core \<Rightarrow> r4300_core option" where
  "MUL_S h op = cop1 (fpu (mul_s h (FS_OF op) (FT_OF op) (FD_OF op)))"

definition MUL_D :: "fpu_host \<Rightarrow> u32 \<Rightarrow> r4300_core \<Rightarrow> r4300_core option" where
  "MUL_D h op = cop1 (fpu (mul_d h (FS_OF op) (FT_OF op) (FD_OF op)))"

definition NEG_S :: "u32 \<Rightarrow> r4300_core \<Rightarrow> r4300_core option" where
  "NEG_S op = cop1 (fpu (neg_s (FS_OF op) (FD_OF op)))"

definition NEG_D :: "u32 \<Rightarrow> r4300_core \<Rightarrow> r4300_core option" where
  "NEG_D op = cop1 (fpu (neg_d (FS_OF op) (FD_OF op)))"

definition SQRT_S :: "fpu_host \<Rightarrow> u32 \<Rightarrow> r4300_core \<Rightarrow> r4300_core option" where
  "SQRT_S h op = cop1 (fpu (sqrt_s h (FS_OF op) (FD_OF op)))"

definition SQRT_D :: "fpu_host \<Rightarrow> u32 \<Rightarrow> r4300_core \<Rightarrow> r4300_core option" where
  "SQRT_D h op = cop1 (fpu (sqrt_d h (FS_OF op) (FD_OF op)))"

definition SUB_S :: "fpu_host \<Rightarrow> u32 \<Rightarrow> r4300_core \<Rightarrow> r4300_core option" where
  "SUB_S h op = cop1 (fpu (sub_s h (FS_OF op) (FT_OF op) (FD_OF op)))"

definition SUB_D :: "fpu_host \<Rightarrow> u32 \<Rightarrow> r4300_core \<Rightarrow> r4300_core option" where
  "SUB_D h op = cop1 (fpu (sub_d h (FS_OF op) (FT_OF op) (FD_OF op)))"

section \<open>Conversions\<close>

definition TRUNC_W_S :: "u32 \<Rightarrow> r4300_core \<Rightarrow> r4300_core option" where
  "TRUNC_W_S op = cop1 (fpu_cast (trunc_w_s (FS_OF op) (FD_OF op)))"

definition TRUNC_W_D :: "u32 \<Rightarrow> r4300_core \<Rightarrow> r4300_core option" where
  "TRUNC_W_D op = cop1 (fpu_cast (trunc_w_d (FS_OF op) (FD_OF op)))"

definition TRUNC_L_S :: "u32 \<Rightarrow> r4300_core \<Rightarrow> r4300_core option" where
  "TRUNC_L_S op = cop1 (fpu_cast (trunc_l_s (FS_OF op) (FD_OF op)))"

definition TRUNC_L_D :: "u32 \<Rightarrow> r4300_core \<Rightarrow> r4300_core option" where
  "TRUNC_L_D op = cop1 (fpu_cast (trunc_l_d (FS_OF op) (FD_OF op)))"

definition ROUND_W_S :: "u32 \<Rightarrow> r4300_core \<Rightarrow> r4300_core option" where
  "ROUND_W_S op = cop1 (fpu_cast (round_w_s (FS_OF op) (FD_OF op)))"

definition ROUND_W_D :: "u32 \<Rightarrow> r4300_core \<Rightarrow> r4300_core option" where
  "ROUND_W_D op = cop1 (fpu_cast (round_w_d (FS_OF op) (FD_OF op)))"

definition ROUND_L_S :: "u32 \<Rightarrow> r4300_core \<Rightarrow> r4300_core option" where
  "ROUND_L_S op = cop1 (fpu_cast (round_l_s (FS_OF op) (FD_OF op)))"

definition ROUND_L_D :: "u32 \<Rightarrow> r4300_core \<Rightarrow> r4300_core option" where
  "ROUND_L_D op = cop1 (fpu_cast (round_l_d (FS_OF op) (FD_OF op)))"

definition CEIL_W_S :: "u32 \<Rightarrow> r4300_core \<Rightarrow> r4300_core option" where
  "CEIL_W_S op = cop1 (fpu_cast (ceil_w_s (FS_OF op) (FD_OF op)))"

definition CEIL_W_D :: "u32 \<Rightarrow> r4300_core \<Rightarrow> r4300_core option" where
  "CEIL_W_D op = cop1 (fpu_cast (ceil_w_d (FS_OF op) (FD_OF op)))"

definition CEIL_L_S :: "u32 \<Rightarrow> r4300_core \<Rightarrow> r4300_core option" where
  "CEIL_L_S op = cop1 (fpu_cast (ceil_l_s (FS_OF op) (FD_OF op)))"

definition CEIL_L_D :: "u32 \<Rightarrow> r4300_core \<Rightarrow> r4300_core option" where
  "CEIL_L_D op = cop1 (fpu_cast (ceil_l_d (FS_OF op) (FD_OF op)))"

definition FLOOR_W_S :: "u32 \<Rightarrow> r4300_core \<Rightarrow> r4300_core option" where
  "FLOOR_W_S op = cop1 (fpu_cast (floor_w_s (FS_OF op) (FD_OF op)))"

definition FLOOR_W_D :: "u32 \<Rightarrow> r4300_core \<Rightarrow> r4300_core option" where
  "FLOOR_W_D op = cop1 (fpu_cast (floor_w_d (FS_OF op) (FD_OF op)))"

definition FLOOR_L_S :: "u32 \<Rightarrow> r4300_core \<Rightarrow> r4300_core option" where
  "FLOOR_L_S op = cop1 (fpu_cast (floor_l_s (FS_OF op) (FD_OF op)))"

definition FLOOR_L_D :: "u32 \<Rightarrow> r4300_core \<Rightarrow> r4300_core option" where
  "FLOOR_L_D op = cop1 (fpu_cast (floor_l_d (FS_OF op) (FD_OF op)))"

definition CVT_S_D :: "fpu_host \<Rightarrow> u32 \<Rightarrow> r4300_core \<Rightarrow> r4300_core option" where
  "CVT_S_D h op = cop1 (fpu (cvt_s_d h (FS_OF op) (FD_OF op)))"

definition CVT_S_W :: "u32 \<Rightarrow> r4300_core \<Rightarrow> r4300_core option" where
  "CVT_S_W op = cop1 (fpu (cvt_s_w (FS_OF op) (FD_OF op)))"

definition CVT_S_L :: "u32 \<Rightarrow> r4300_core \<Rightarrow> r4300_core option" where
  "CVT_S_L op = cop1 (fpu (cvt_s_l (FS_OF op) (FD_OF op)))"

definition CVT_D_S :: "fpu_host \<Rightarrow> u32 \<Rightarrow> r4300_core \<Rightarrow> r4300_core option" where
  "CVT_D_S h op = cop1 (fpu (cvt_d_s h (FS_OF op) (FD_OF op)))"

definition CVT_D_W :: "u32 \<Rightarrow> r4300_core \<Rightarrow> r4300_core option" where
  "CVT_D_W op = cop1 (fpu (cvt_d_w (FS_OF op) (FD_OF op)))"

definition CVT_D_L :: "u32 \<Rightarrow> r4300_core \<Rightarrow> r4300_core option" where
  "CVT_D_L op = cop1 (fpu (cvt_d_l (FS_OF op) (FD_OF op)))"

definition CVT_W_S :: "u32 \<Rightarrow> r4300_core \<Rightarrow> r4300_core option" where
  "CVT_W_S op = cop1 (fpu_cast (cvt_w_s (FS_OF op) (FD_OF op)))"

definition CVT_W_D :: "u32 \<Rightarrow> r4300_core \<Rightarrow> r4300_core option" where
  "CVT_W_D op = cop1 (fpu_cast (cvt_w_d (FS_OF op) (FD_OF op)))"

definition CVT_L_S :: "u32 \<Rightarrow> r4300_core \<Rightarrow> r4300_core option" where
  "CVT_L_S op = cop1 (fpu_cast (cvt_l_s (FS_OF op) (FD_OF op)))"

definition CVT_L_D :: "u32 \<Rightarrow> r4300_core \<Rightarrow> r4300_core option" where
  "CVT_L_D op = cop1 (fpu_cast (cvt_l_d (FS_OF op) (FD_OF op)))"

section \<open>Comparisons\<close>

text \<open>\<open>C_F_S\<close> takes its second operand from the destination field.\<close>

definition C_F_S :: "u32 \<Rightarrow> r4300_core \<Rightarrow> r4300_core option" where
  "C_F_S op = cop1 (fpu (c_f_s (FS_OF op) (FD_OF op)))"

definition C_F_D :: "u32 \<Rightarrow> r4300_core \<Rightarrow> r4300_core option" where
  "C_F_D op = cop1 (fpu c_f_d)"

definition C_UN_S :: "u32 \<Rightarrow> r4300_core \<Rightarrow> r4300_core option" where
  "C_UN_S op = cop1 (fpu (c_un_s (FS_OF op) (FT_OF op)))"

definition C_UN_D :: "u32 \<Rightarrow> r4300_core \<Rightarrow> r4300_core option" where
  "C_UN_D op = cop1 (fpu (c_un_d (FS_OF op) (FT_OF op)))"

definition C_EQ_S :: "u32 \<Rightarrow> r4300_core \<Rightarrow> r4300_core option" where
  "C_EQ_S op = cop1 (fpu (c_eq_s (FS_OF op) (FT_OF op)))"

definition C_EQ_D :: "u32 \<Rightarrow> r4300_core \<Rightarrow> r4300_core option" where
  "C_EQ_D op = cop1 (fpu (c_eq_d (FS_OF op) (FT_OF op)))"

definition C_UEQ_S :: "u32 \<Rightarrow> r4300_core \<Rightarrow> r4300_core option" where
  "C_UEQ_S op = cop1 (fpu (c_ueq_s (FS_OF op) (FT_OF op)))"

definition C_UEQ_D :: "u32 \<Rightarrow> r4300_core \<Rightarrow> r4300_core option" where
  "C_UEQ_D op = cop1 (fpu (c_ueq_d (FS_OF op) (FT_OF op)))"

definition C_OLT_S :: "u32 \<Rightarrow> r4300_core \<Rightarrow> r4300_core option" where
  "C_OLT_S op = cop1 (fpu (c_olt_s (FS_OF op) (FT_OF op)))"

definition C_OLT_D :: "u32 \<Rightarrow> r4300_core \<Rightarrow> r4300_core option" where
  "C_OLT_D op = cop1 (fpu (c_olt_d (FS_OF op) (FT_OF op)))"

definition C_ULT_S :: "u32 \<Rightarrow> r4300_core \<Rightarrow> r4300_core option" where
  "C_ULT_S op = cop1 (fpu (c_ult_s (FS_OF op) (FT_OF op)))"

definition C_ULT_D :: "u32 \<Rightarrow> r4300_core \<Rightarrow> r4300_core option" where
  "C_ULT_D op = cop1 (fpu (c_ult_d (FS_OF op) (FT_OF op)))"

definition C_OLE_S :: "u32 \<Rightarrow> r4300_core \<Rightarrow> r4300_core option" where
  "C_OLE_S op = cop1 (fpu (c_ole_s (FS_OF op) (FT_OF op)))"

definition C_OLE_D :: "u32 \<Rightarrow> r4300_core \<Rightarrow> r4300_core option" where
  "C_OLE_D op = cop1 (fpu (c_ole_d (FS_OF op) (FT_OF op)))"

definition C_ULE_S :: "u32 \<Rightarrow> r4300_core \<Rightarrow> r4300_core option" where
  "C_ULE_S op = cop1 (fpu (c_ule_s (FS_OF op) (FT_OF op)))"

definition C_ULE_D :: "u32 \<Rightarrow> r4300_core \<Rightarrow> r4300_core option" where
  "C_ULE_D op = cop1 (fpu (c_ule_d (FS_OF op) (FT_OF op)))"

definition C_SF_S :: "u32 \<Rightarrow> r4300_core \<Rightarrow> r4300_core option" where
  "C_SF_S op = cop1 (fpu (c_sf_s (FS_OF op) (FT_OF op)))"

definition C_SF_D :: "u32 \<Rightarrow> r4300_core \<Rightarrow> r4300_core option" where
  "C_SF_D op = fpu (c_sf_d (FS_OF op) (FT_OF op))"

definition C_NGLE_S :: "u32 \<Rightarrow> r4300_core \<Rightarrow> r4300_core option" where
  "C_NGLE_S op = cop1 (fpu (c_ngle_s (FS_OF op) (FT_OF op)))"

definition C_NGLE_D :: "u32 \<Rightarrow> r4300_core \<Rightarrow> r4300_core option" where
  "C_NGLE_D op = fpu (c_ngle_d (FS_OF op) (FT_OF op))"

definition C_SEQ_S :: "u32 \<Rightarrow> r4300_core \<Rightarrow> r4300_core option" where
  "C_SEQ_S op = cop1 (fpu (c_seq_s (FS_OF op) (FT_OF op)))"

definition C_SEQ_D :: "u32 \<Rightarrow> r4300_core \<Rightarrow> r4300_core option" where
  "C_SEQ_D op = fpu (c_seq_d (FS_OF op) (FT_OF op))"

definition C_NGL_S :: "u32 \<Rightarrow> r4300_core \<Rightarrow> r4300_core option" where
  "C_NGL_S op = cop1 (fpu (c_ngl_s (FS_OF op) (FT_OF op)))"

definition C_NGL_D :: "u32 \<Rightarrow> r4300_core \<Rightarrow> r4300_core option" where
  "C_NGL_D op = fpu (c_ngl_d (FS_OF op) (FT_OF op))"

definition C_LT_S :: "u32 \<Rightarrow> r4300_core \<Rightarrow> r4300_core option" where
  "C_LT_S op = cop1 (fpu (c_lt_s (FS_OF op) (FT_OF op)))"

definition C_LT_D :: "u32 \<Rightarrow> r4300_core \<Rightarrow> r4300_core option" where
  "C_LT_D op = cop1 (fpu (c_lt_d (FS_OF op) (FT_OF op)))"

definition C_NGE_S :: "u32 \<Rightarrow> r4300_core \<Rightarrow> r4300_core option" where
  "C_NGE_S op = cop1 (fpu (c_nge_s (FS_OF op) (FT_OF op)))"

definition C_NGE_D :: "u32 \<Rightarrow> r4300_core \<Rightarrow> r4300_core option" where
  "C_NGE_D op = cop1 (fpu (c_nge_d (FS_OF op) (FT_OF op)))"

definition C_LE_S :: "u32 \<Rightarrow> r4300_core \<Rightarrow> r4300_core option" where
  "C_LE_S op = cop1 (fpu (c_le_s (FS_OF op) (FT_OF op)))"

definition C_LE_D :: "u32 \<Rightarrow> r4300_core \<Rightarrow> r4300_core option" where
  "C_LE_D op = cop1 (fpu (c_le_d (FS_OF op) (FT_OF op)))"

definition C_NGT_S :: "u32 \<Rightarrow> r4300_core \<Rightarrow> r4300_core option" where
  "C_NGT_S op = cop1 (fpu (c_ngt_s (FS_OF op) (FT_OF op)))"

definition C_NGT_D :: "u32 \<Rightarrow> r4300_core \<Rightarrow> r4300_core option" where
  "C_NGT_D op = cop1 (fpu (c_ngt_d (FS_OF op) (FT_OF op)))"

end
