(* ===== verification/Mips_Mem.thy ===== *)
theory Mips_Mem
  imports Device Mips_Fpu
begin

text \<open>
  The instructions of \<^verbatim>\<open>device/r4300/mips_instructions.def\<close> that reach beyond the processor: loads and
  stores of every size and alignment, the linked pair, the memory instructions of coprocessor 1, the
  writes of coprocessor 0 and the return from an exception. The program counter is moved before the
  access, so an exception of the access sees the address of the next instruction.
\<close>

section \<open>Accesses\<close>

definition bshift :: "u32 \<Rightarrow> nat" where "bshift address = 8 * unat ((address AND 3) XOR 3)"
definition hshift :: "u32 \<Rightarrow> nat" where "hshift address = 8 * unat ((address AND 2) XOR 2)"

definition BITS_BELOW_MASK32 :: "nat \<Rightarrow> u32" where "BITS_BELOW_MASK32 x = push_bit x 1 - 1"
definition BITS_ABOVE_MASK32 :: "nat \<Rightarrow> u32" where "BITS_ABOVE_MASK32 x = NOT (BITS_BELOW_MASK32 x)"
definition BITS_BELOW_MASK64 :: "nat \<Rightarrow> u64" where "BITS_BELOW_MASK64 x = push_bit x 1 - 1"
definition BITS_ABOVE_MASK64 :: "nat \<Rightarrow> u64" where "BITS_ABOVE_MASK64 x = NOT (BITS_BELOW_MASK64 x)"

definition on_core :: "(r4300_core \<Rightarrow> r4300_core) \<Rightarrow> 'a r4300_sys_scheme \<Rightarrow> 'a r4300_sys_scheme" where
  "on_core f s = s\<lparr>r4300 := f (r4300 s)\<rparr>"

definition lsaddr :: "u32 \<Rightarrow> 'a r4300_sys_scheme \<Rightarrow> u32" where
  "lsaddr op s = rrs32 op (r4300 s) + imm_se32 op"

text \<open>
  A load reads the aligned word or doubleword and combines it with the old value of the destination;
  when the access raises an exception the destination keeps its value.
\<close>

definition load_word ::
  "'a device_scheme dev_env \<Rightarrow> (u32 \<Rightarrow> u32 \<Rightarrow> u64 \<Rightarrow> u64) \<Rightarrow> u32 \<Rightarrow> 'a device_scheme \<Rightarrow> 'a device_scheme option" where
  "load_word env f op s = do {
     let a = lsaddr op s;
     (ok, value, s) \<leftarrow> r4300_read_aligned_word env a (d_uninit env) (on_core ADD_TO_PC s);
     Some (if ok then on_core (\<lambda>r. set_gpr (RT_OF op) (f a value (rrt op r)) r) s else s) }"

definition load_dword ::
  "'a device_scheme dev_env \<Rightarrow> (u32 \<Rightarrow> u64 \<Rightarrow> u64 \<Rightarrow> u64) \<Rightarrow> u32 \<Rightarrow> 'a device_scheme \<Rightarrow> 'a device_scheme option" where
  "load_dword env f op s = do {
     let a = lsaddr op s;
     (ok, value, s) \<leftarrow> r4300_read_aligned_dword env (a AND NOT 7) (ucast (d_uninit env)) (on_core ADD_TO_PC s);
     Some (if ok then on_core (\<lambda>r. set_gpr (RT_OF op) (f a value (rrt op r)) r) s else s) }"

section \<open>Loads\<close>

definition LB :: "'a device_scheme dev_env \<Rightarrow> u32 \<Rightarrow> 'a device_scheme \<Rightarrow> 'a device_scheme option" where
  "LB env = load_word env (\<lambda>a value old. SE8 (drop_bit (bshift a) value AND 0xff))"

definition LBU :: "'a device_scheme dev_env \<Rightarrow> u32 \<Rightarrow> 'a device_scheme \<Rightarrow> 'a device_scheme option" where
  "LBU env = load_word env (\<lambda>a value old. ucast (drop_bit (bshift a) value AND 0xff))"

definition LH :: "'a device_scheme dev_env \<Rightarrow> u32 \<Rightarrow> 'a device_scheme \<Rightarrow> 'a device_scheme option" where
  "LH env = load_word env (\<lambda>a value old. SE16 (drop_bit (hshift a) value AND 0xffff))"

definition LHU :: "'a device_scheme dev_env \<Rightarrow> u32 \<Rightarrow> 'a device_scheme \<Rightarrow> 'a device_scheme option" where
  "LHU env = load_word env (\<lambda>a value old. ucast (drop_bit (hshift a) value AND 0xffff))"

definition LL :: "'a device_scheme dev_env \<Rightarrow> u32 \<Rightarrow> 'a device_scheme \<Rightarrow> 'a device_scheme option" where
  "LL env op s = do {
     let a = lsaddr op s;
     (ok, value, s) \<leftarrow> r4300_read_aligned_word env a (d_uninit env) (on_core ADD_TO_PC s);
     Some (if ok then on_core (\<lambda>r. (set_gpr (RT_OF op) (SE32 value) r)\<lparr>llbit := 1\<rparr>) s else s) }"

definition LW :: "'a device_scheme dev_env \<Rightarrow> u32 \<Rightarrow> 'a device_scheme \<Rightarrow> 'a device_scheme option" where
  "LW env = load_word env (\<lambda>a value old. SE32 value)"

definition LWU :: "'a device_scheme dev_env \<Rightarrow> u32 \<Rightarrow> 'a device_scheme \<Rightarrow> 'a device_scheme option" where
  "LWU env = load_word env (\<lambda>a value old. ucast value)"

definition lwl_merge :: "nat \<Rightarrow> u32 \<Rightarrow> u32 \<Rightarrow> u32" where
  "lwl_merge n old value = (old AND BITS_BELOW_MASK32 (8 * n)) OR push_bit (8 * n) value"

definition lwr_merge :: "nat \<Rightarrow> u32 \<Rightarrow> u32 \<Rightarrow> u32" where
  "lwr_merge n old value =
     (old AND (if n = 3 then 0 else BITS_ABOVE_MASK32 (8 * (n + 1)))) OR drop_bit (8 * (3 - n)) value"

definition ldl_merge :: "nat \<Rightarrow> u64 \<Rightarrow> u64 \<Rightarrow> u64" where
  "ldl_merge n old value = (old AND BITS_BELOW_MASK64 (8 * n)) OR push_bit (8 * n) value"

definition ldr_merge :: "nat \<Rightarrow> u64 \<Rightarrow> u64 \<Rightarrow> u64" where
  "ldr_merge n old value =
     (old AND (if n = 7 then 0 else BITS_ABOVE_MASK64 (8 * (n + 1)))) OR drop_bit (8 * (7 - n)) value"

definition LWL :: "'a device_scheme dev_env \<Rightarrow> u32 \<Rightarrow> 'a device_scheme \<Rightarrow> 'a device_scheme option" where
  "LWL env = load_word env (\<lambda>a value old. SE32 (lwl_merge (unat (a AND 3)) (ucast old) value))"

definition LWR :: "'a device_scheme dev_env \<Rightarrow> u32 \<Rightarrow> 'a device_scheme \<Rightarrow> 'a device_scheme option" where
  "LWR env = load_word env (\<lambda>a value old. SE32 (lwr_merge (unat (a AND 3)) (ucast old) value))"

definition LD :: "'a device_scheme dev_env \<Rightarrow> u32 \<Rightarrow> 'a device_scheme \<Rightarrow> 'a device_scheme option" where
  "LD env op s = do {
     let a = lsaddr op s;
     let s = on_core ADD_TO_PC s;
     (ok, value, s) \<leftarrow> r4300_read_aligned_dword env a (rrt op (r4300 s)) s;
     Some (if ok then on_core (set_gpr (RT_OF op) value) s else s) }"

definition LDL :: "'a device_scheme dev_env \<Rightarrow> u32 \<Rightarrow> 'a device_scheme \<Rightarrow> 'a device_scheme option" where
  "LDL env = load_dword env (\<lambda>a value old. ldl_merge (unat (a AND 7)) old value)"

definition LDR :: "'a device_scheme dev_env \<Rightarrow> u32 \<Rightarrow> 'a device_scheme \<Rightarrow> 'a device_scheme option" where
  "LDR env = load_dword env (\<lambda>a value old. ldr_merge (unat (a AND 7)) old value)"

section \<open>Stores\<close>

text \<open>\<open>addr\<close> is the address passed on; the result of the access is ignored.\<close>

definition store_word ::
  "'a device_scheme dev_env \<Rightarrow> u32 \<Rightarrow> u32 \<Rightarrow> u32 \<Rightarrow> 'a device_scheme \<Rightarrow> 'a device_scheme option" where
  "store_word env addr value msk s = do {
     (_, s) \<leftarrow> r4300_write_aligned_word env addr value msk (on_core ADD_TO_PC s);
     Some s }"

definition store_dword ::
  "'a device_scheme dev_env \<Rightarrow> u32 \<Rightarrow> u64 \<Rightarrow> u64 \<Rightarrow> 'a device_scheme \<Rightarrow> 'a device_scheme option" where
  "store_dword env addr value msk s = do {
     (_, s) \<leftarrow> r4300_write_aligned_dword env addr value msk (on_core ADD_TO_PC s);
     Some s }"

definition SB :: "'a device_scheme dev_env \<Rightarrow> u32 \<Rightarrow> 'a device_scheme \<Rightarrow> 'a device_scheme option" where
  "SB env op s =
     (let a = lsaddr op s; v = rrt32 op (r4300 s)
      in store_word env a (push_bit (bshift a) v) (push_bit (bshift a) 0xff) s)"

definition SH :: "'a device_scheme dev_env \<Rightarrow> u32 \<Rightarrow> 'a device_scheme \<Rightarrow> 'a device_scheme option" where
  "SH env op s =
     (let a = lsaddr op s; v = rrt32 op (r4300 s)
      in store_word env a (push_bit (hshift a) v) (push_bit (hshift a) 0xffff) s)"

definition SC :: "'a device_scheme dev_env \<Rightarrow> u32 \<Rightarrow> 'a device_scheme \<Rightarrow> 'a device_scheme option" where
  "SC env op s =
     (let a = lsaddr op s; s = on_core ADD_TO_PC s in
      if llbit (r4300 s) \<noteq> 0 then do {
        (ok, s) \<leftarrow> r4300_write_aligned_word env a (rrt32 op (r4300 s)) 0xFFFFFFFF s;
        Some (if ok then on_core (\<lambda>r. set_gpr (RT_OF op) 1 (r\<lparr>llbit := 0\<rparr>)) s else s) }
      else Some (on_core (set_gpr (RT_OF op) 0) s))"

definition SW :: "'a device_scheme dev_env \<Rightarrow> u32 \<Rightarrow> 'a device_scheme \<Rightarrow> 'a device_scheme option" where
  "SW env op s =
     (let a = lsaddr op s; v = rrt32 op (r4300 s)
      in store_word env a v 0xFFFFFFFF s)"

definition swl_mask :: "nat \<Rightarrow> u32" where
  "swl_mask n = (if n = 0 then 0xFFFFFFFF else BITS_BELOW_MASK32 (8 * (4 - n)))"

definition swr_mask :: "nat \<Rightarrow> u32" where
  "swr_mask n = BITS_ABOVE_MASK32 (8 * (3 - n))"

definition sdl_mask :: "nat \<Rightarrow> u64" where
  "sdl_mask n = (if n = 0 then 0xFFFFFFFFFFFFFFFF else BITS_BELOW_MASK64 (8 * (8 - n)))"

definition sdr_mask :: "nat \<Rightarrow> u64" where
  "sdr_mask n = BITS_ABOVE_MASK64 (8 * (7 - n))"

definition SWL :: "'a device_scheme dev_env \<Rightarrow> u32 \<Rightarrow> 'a device_scheme \<Rightarrow> 'a device_scheme option" where
  "SWL env op s =
     (let a = lsaddr op s; v = rrt32 op (r4300 s)
      in store_word env (a AND NOT 3) (drop_bit (8 * unat (a AND 3)) v) (swl_mask (unat (a AND 3))) s)"

definition SWR :: "'a device_scheme dev_env \<Rightarrow> u32 \<Rightarrow> 'a device_scheme \<Rightarrow> 'a device_scheme option" where
  "SWR env op s =
     (let a = lsaddr op s; v = rrt32 op (r4300 s)
      in store_word env (a AND NOT 3) (push_bit (8 * (3 - unat (a AND 3))) v) (swr_mask (unat (a AND 3))) s)"

definition SD :: "'a device_scheme dev_env \<Rightarrow> u32 \<Rightarrow> 'a device_scheme \<Rightarrow> 'a device_scheme option" where
  "SD env op s =
     (let a = lsaddr op s; v = rrt op (r4300 s)
      in store_dword env a v 0xFFFFFFFFFFFFFFFF s)"

definition SDL :: "'a device_scheme dev_env \<Rightarrow> u32 \<Rightarrow> 'a device_scheme \<Rightarrow> 'a device_scheme option" where
  "SDL env op s =
     (let a = lsaddr op s; v = rrt op (r4300 s)
      in store_dword env (a AND NOT 7) (drop_bit (8 * unat (a AND 7)) v) (sdl_mask (unat (a AND 7))) s)"

definition SDR :: "'a device_scheme dev_env \<Rightarrow> u32 \<Rightarrow> 'a device_scheme \<Rightarrow> 'a device_scheme option" where
  "SDR env op s =
     (let a = lsaddr op s; v = rrt op (r4300 s)
      in store_dword env (a AND NOT 7) (push_bit (8 * (7 - unat (a AND 7))) v) (sdr_mask (unat (a AND 7))) s)"

section \<open>Memory instructions of coprocessor 1\<close>

definition with_cop1 ::
  "('a r4300_sys_scheme \<Rightarrow> 'a r4300_sys_scheme option) \<Rightarrow> 'a r4300_sys_scheme \<Rightarrow> 'a r4300_sys_scheme option" where
  "with_cop1 f s = do {
     (unusable, r) \<leftarrow> check_cop1_unusable (r4300 s);
     if unusable then Some (s\<lparr>r4300 := r\<rparr>) else f (s\<lparr>r4300 := r\<rparr>) }"

definition LWC1 :: "'a device_scheme dev_env \<Rightarrow> u32 \<Rightarrow> 'a device_scheme \<Rightarrow> 'a device_scheme option" where
  "LWC1 env op s =
     (let a = lsaddr op s in with_cop1 (\<lambda>s. do {
        let s = on_core ADD_TO_PC s;
        (ok, value, s) \<leftarrow> r4300_read_aligned_word env a (get_s (cp1 (r4300 s)) (FT_OF op)) s;
        Some (if ok then on_core (\<lambda>r. r\<lparr>cp1 := put_s (cp1 r) (FT_OF op) value\<rparr>) s else s) }) s)"

definition LDC1 :: "'a device_scheme dev_env \<Rightarrow> u32 \<Rightarrow> 'a device_scheme \<Rightarrow> 'a device_scheme option" where
  "LDC1 env op s =
     (let a = lsaddr op s in with_cop1 (\<lambda>s. do {
        let s = on_core ADD_TO_PC s;
        (ok, value, s) \<leftarrow> r4300_read_aligned_dword env a (get_d (cp1 (r4300 s)) (FT_OF op)) s;
        Some (if ok then on_core (\<lambda>r. r\<lparr>cp1 := put_d (cp1 r) (FT_OF op) value\<rparr>) s else s) }) s)"

definition SWC1 :: "'a device_scheme dev_env \<Rightarrow> u32 \<Rightarrow> 'a device_scheme \<Rightarrow> 'a device_scheme option" where
  "SWC1 env op s =
     (let a = lsaddr op s
      in with_cop1 (\<lambda>s. store_word env a (get_s (cp1 (r4300 s)) (FT_OF op)) 0xFFFFFFFF s) s)"

definition SDC1 :: "'a device_scheme dev_env \<Rightarrow> u32 \<Rightarrow> 'a device_scheme \<Rightarrow> 'a device_scheme option" where
  "SDC1 env op s =
     (let a = lsaddr op s
      in with_cop1 (\<lambda>s. store_dword env a (get_d (cp1 (r4300 s)) (FT_OF op)) 0xFFFFFFFFFFFFFFFF s) s)"

section \<open>Writes of coprocessor 0\<close>

abbreviation INTR_UNSAFE_R4300 :: u32 where "INTR_UNSAFE_R4300 \<equiv> 1"

definition set_unsafe :: "r4300_core \<Rightarrow> r4300_core" where
  "set_unsafe r = r\<lparr>cp0 := (cp0 r)\<lparr>interrupt_unsafe_state := interrupt_unsafe_state (cp0 r) OR INTR_UNSAFE_R4300\<rparr>\<rparr>"

definition clear_unsafe :: "r4300_core \<Rightarrow> r4300_core" where
  "clear_unsafe r = r\<lparr>cp0 := (cp0 r)\<lparr>interrupt_unsafe_state := interrupt_unsafe_state (cp0 r) AND NOT INTR_UNSAFE_R4300\<rparr>\<rparr>"

text \<open>\<^verbatim>\<open>if (*cp0_cycle_count >= 0) { gen_interrupt(r4300); }\<close>\<close>

definition poll_interrupts ::
  "'a device_scheme dev_env \<Rightarrow> 'a device_scheme \<Rightarrow> 'a device_scheme option" where
  "poll_interrupts env s =
     (if 0 \<le>s cycle_count (cp0 (r4300 s)) then gen_interrupt (d_irq env) s else Some s)"

text \<open>The line of the RCP seen by \<^verbatim>\<open>r4300_check_interrupt\<close>.\<close>

definition check_rcp_interrupt :: "'a device_scheme \<Rightarrow> 'a device_scheme option" where
  "check_rcp_interrupt s = upd_r4300 (\<lambda>r. r4300_check_interrupt r CP0_CAUSE_IP2
     (mi_regs (mi s) MI_INTR_REG AND mi_regs (mi s) MI_INTR_MASK_REG)) s"

definition mtc0_plain :: "cp0_register \<Rightarrow> u32 \<Rightarrow> r4300_core \<Rightarrow> r4300_core" where
  "mtc0_plain x v r =
     (case x of
        CP0_INDEX_REG \<Rightarrow>
          (let r = set_creg x (v AND 0x8000003F) r
           in if 31 < creg r x AND 0x3F then r\<lparr>stop := 1\<rparr> else r)
      | CP0_ENTRYLO0_REG \<Rightarrow> set_creg x (v AND 0x3FFFFFFF) r
      | CP0_ENTRYLO1_REG \<Rightarrow> set_creg x (v AND 0x3FFFFFFF) r
      | CP0_CONTEXT_REG \<Rightarrow> set_creg x ((v AND 0xFF800000) OR (creg r x AND 0x007FFFF0)) r
      | CP0_PAGEMASK_REG \<Rightarrow> set_creg x (v AND 0x01FFE000) r
      | CP0_WIRED_REG \<Rightarrow> set_creg CP0_RANDOM_REG 31 (set_creg x (v AND 0x0000003F) r)
      | CP0_ENTRYHI_REG \<Rightarrow> set_creg x (v AND 0xFFFFE0FF) r
      | CP0_CAUSE_REG \<Rightarrow> set_creg x ((creg r x AND NOT (CP0_CAUSE_IP0 OR CP0_CAUSE_IP1))
                           OR (v AND (CP0_CAUSE_IP0 OR CP0_CAUSE_IP1))) r
      | CP0_EPC_REG \<Rightarrow> set_creg x v r
      | CP0_CONFIG_REG \<Rightarrow>
          set_creg x ((v AND 0x0000000F) OR (creg r x AND 0x00008000) OR (creg r x AND 0x7FFFFFFF)) r
      | CP0_LLADDR_REG \<Rightarrow> set_creg x v r
      | CP0_WATCHLO_REG \<Rightarrow> set_creg x v r
      | CP0_WATCHHI_REG \<Rightarrow> set_creg x v r
      | CP0_PARITYERR_REG \<Rightarrow> set_creg x (v AND 0x000000FF) r
      | CP0_TAGLO_REG \<Rightarrow> set_creg x (v AND 0x0FFFFFC0) r
      | CP0_TAGHI_REG \<Rightarrow> set_creg x 0 r
      | CP0_ERROREPC_REG \<Rightarrow> set_creg x v r
      | _ \<Rightarrow> r)"

definition mtc0_count ::
  "'a device_scheme dev_env \<Rightarrow> u32 \<Rightarrow> 'a device_scheme \<Rightarrow> 'a device_scheme option" where
  "mtc0_count env op s = do {
     s \<leftarrow> poll_interrupts env (on_core (\<lambda>r. set_unsafe (cp0_update_count r)) s);
     upd_r4300 (\<lambda>r. upd_cp0 (\<lambda>c. translate_event_queue c (rrt32 op r)) (clear_unsafe r)) s }"

definition mtc0_compare :: "u32 \<Rightarrow> r4300_core \<Rightarrow> r4300_core option" where
  "mtc0_compare v r = do {
     let r = cp0_update_count r;
     r \<leftarrow> upd_cp0 (\<lambda>c. do {
       qu \<leftarrow> remove_event (cp0_q c) COMPARE_INT;
       add_compare_event (c\<lparr>cp0_q := qu\<rparr>) v }) r;
     let r = set_creg CP0_COMPARE_REG v r;
     Some (set_creg CP0_CAUSE_REG (creg r CP0_CAUSE_REG AND NOT CP0_CAUSE_IP7) r) }"

text \<open>The assignment to \<^verbatim>\<open>rrt32\<close> clears the bit in the source register as well.\<close>

definition mtc0_status ::
  "'a device_scheme dev_env \<Rightarrow> u32 \<Rightarrow> 'a device_scheme \<Rightarrow> 'a device_scheme option" where
  "mtc0_status env op s = do {
     let s = on_core (\<lambda>r.
       let r = set_gpr (RT_OF op) (rrt op r AND NOT 0x080000) r;
           v = rrt32 op r;
           r = (if v AND CP0_STATUS_FR \<noteq> creg r CP0_STATUS_REG AND CP0_STATUS_FR
                then r\<lparr>cp1 := set_fpr_pointers (cp1 r) v\<rparr> else r)
       in cp0_update_count (ADD_TO_PC (set_creg CP0_STATUS_REG v r))) s;
     s \<leftarrow> check_rcp_interrupt s;
     s \<leftarrow> poll_interrupts env (on_core set_unsafe s);
     Some (on_core clear_unsafe s) }"

definition MTC0 ::
  "'a device_scheme dev_env \<Rightarrow> u32 \<Rightarrow> 'a device_scheme \<Rightarrow> 'a device_scheme option" where
  "MTC0 env op s =
     (let v = rrt32 op (r4300 s); s = on_core (\<lambda>r. r\<lparr>cp0 := (cp0 r)\<lparr>latch := SE32 v\<rparr>\<rparr>) s in
      if rfs op = CP0_COUNT_REG then do {
        s \<leftarrow> mtc0_count env op s;
        Some (on_core ADD_TO_PC s) }
      else if rfs op = CP0_COMPARE_REG then do {
        s \<leftarrow> upd_r4300 (mtc0_compare v) s;
        Some (on_core ADD_TO_PC s) }
      else if rfs op = CP0_STATUS_REG then mtc0_status env op s
      else Some (on_core (\<lambda>r. ADD_TO_PC (mtc0_plain (rfs op) v r)) s))"

section \<open>Return from an exception\<close>

definition ERET ::
  "'a device_scheme dev_env \<Rightarrow> 'a device_scheme \<Rightarrow> 'a device_scheme option" where
  "ERET env s = do {
     s \<leftarrow> upd_r4300 (\<lambda>r.
       let r = cp0_update_count r in
       if creg r CP0_STATUS_REG AND CP0_STATUS_ERL \<noteq> 0 then Some (r\<lparr>stop := 1\<rparr>)
       else let r = set_creg CP0_STATUS_REG (creg r CP0_STATUS_REG AND NOT CP0_STATUS_EXL) r
            in generic_jump_to r (creg r CP0_EPC_REG)) s;
     s \<leftarrow> check_rcp_interrupt (on_core (\<lambda>r. r\<lparr>llbit := 0\<rparr>) s);
     poll_interrupts env (on_core (\<lambda>r. r\<lparr>cp0 := (cp0 r)\<lparr>last_addr := pc r\<rparr>\<rparr>) s) }"

end
