(* ===== verification/Pure_Interp.thy ===== *)
theory Pure_Interp
  imports Mips_Mem
begin

text \<open>
  The pure interpreter, \<^verbatim>\<open>device/r4300/pure_interp.c\<close>: the instruction fetch, the decoder with one
  definition per level of the \<^verbatim>\<open>switch\<close>, jumps with their delay slot, the shortcut for idle loops, and the
  main loop. The delay slot is a recursive call, as in the code; a chain of jumps in delay slots that
  does not end, and an emulation that never stops, are the value \<open>None\<close>.
\<close>

section \<open>Instruction fetch\<close>

text \<open>
  The word behind a pointer of \<^verbatim>\<open>mem_base_u32\<close>: the arrays the devices keep in the allocation of the
  memory base. An address that belongs to none of them is not modelled.
\<close>

definition mem_word :: "'a device_scheme dev_env \<Rightarrow> u32 \<Rightarrow> 'a device_scheme \<Rightarrow> u32 option" where
  "mem_word env address s =
     (if unat address < RDRAM_MAX_SIZE then get_le32 (dram (rdram s)) (unat address)
      else if MM_RSP_MEM \<le> address \<and> address < MM_RSP_MEM + 0x2000
        then get_le32 (sp_mem (sp s)) (unat (address - MM_RSP_MEM))
      else if MM_DD_ROM \<le> address \<and> address < MM_DD_ROM + 0x400000
        then get_le32 (d_dd_rom env) (unat (address - MM_DD_ROM))
      else if MM_PIF_MEM \<le> address \<and> address < MM_PIF_MEM + 0x800
        then get_le32 (pif_base (pif s)) (unat (address - MM_PIF_MEM))
      else if MM_CART_ROM \<le> address \<and> address < MM_PIF_MEM
        then get_le32 (rom (c_rom (cart s))) (unat (address - MM_CART_ROM))
      else None)"

text \<open>The null pointer of a TLB miss is \<open>None\<close> in the first component.\<close>

definition fast_mem_access ::
  "'a device_scheme dev_env \<Rightarrow> u32 \<Rightarrow> 'a device_scheme \<Rightarrow> (u32 option \<times> 'a device_scheme) option" where
  "fast_mem_access env address s = do {
     (pa, s) \<leftarrow> translate (d_ignore_tlb env) 2 address s;
     case pa of
       None \<Rightarrow> Some (None, s)
     | Some a \<Rightarrow> do {
         w \<leftarrow> mem_word env (a AND 0x1ffffffc) s;
         Some (Some w, s) } }"

section \<open>Decoding\<close>

text \<open>
  What an opcode selects: an instruction, or a jump with the test that decides on its idle variant.
\<close>

datatype idle_test = No_idle | Relative_idle | Absolute_idle

datatype 'd decoded = Insn "'d \<Rightarrow> 'd option" | Jump idle_test "u32 \<Rightarrow> r4300_core \<Rightarrow> jump"

text \<open>A total and a partial instruction of the processor, and one that writes register number \<open>n\<close>.\<close>

definition core_insn :: "(u32 \<Rightarrow> r4300_core \<Rightarrow> r4300_core) \<Rightarrow> u32 \<Rightarrow> 'a r4300_sys_scheme decoded" where
  "core_insn f op = Insn (upd_r4300 (\<lambda>r. Some (f op r)))"

definition core_try :: "(r4300_core \<Rightarrow> r4300_core option) \<Rightarrow> 'a r4300_sys_scheme decoded" where
  "core_try f = Insn (upd_r4300 f)"

definition nop_if_zero :: "nat \<Rightarrow> 'a r4300_sys_scheme decoded \<Rightarrow> 'a r4300_sys_scheme decoded" where
  "nop_if_zero n d = (if n \<noteq> 0 then d else Insn (upd_r4300 (\<lambda>r. Some (NOP r))))"

definition decode_special :: "u32 \<Rightarrow> 'a r4300_sys_scheme decoded" where
  "decode_special op =
     (let f = unat (op AND 0x3F); w = (\<lambda>i. nop_if_zero (RD_OF op) (core_insn i op)) in
      if f = 0 then w SLL
      else if f = 2 then w SRL
      else if f = 3 then w SRA
      else if f = 4 then w SLLV
      else if f = 6 then w SRLV
      else if f = 7 then w SRAV
      else if f = 8 then Jump No_idle JR
      else if f = 9 then Jump No_idle JALR
      else if f = 12 then core_try SYSCALL
      else if f = 13 then core_try BREAK
      else if f = 15 then core_insn SYNC op
      else if f = 16 then w MFHI
      else if f = 17 then core_insn MTHI op
      else if f = 18 then w MFLO
      else if f = 19 then core_insn MTLO op
      else if f = 20 then w DSLLV
      else if f = 22 then w DSRLV
      else if f = 23 then w DSRAV
      else if f = 24 then core_insn MULT op
      else if f = 25 then core_insn MULTU op
      else if f = 26 then core_insn DIV op
      else if f = 27 then core_insn DIVU op
      else if f = 28 then core_try (DMULT op)
      else if f = 29 then core_insn DMULTU op
      else if f = 30 then core_insn DDIV op
      else if f = 31 then core_insn DDIVU op
      else if f = 32 then w ADD
      else if f = 33 then w ADDU
      else if f = 34 then w SUB
      else if f = 35 then w SUBU
      else if f = 36 then w AND_insn
      else if f = 37 then w OR_insn
      else if f = 38 then w XOR_insn
      else if f = 39 then w NOR
      else if f = 42 then w SLT
      else if f = 43 then w SLTU
      else if f = 44 then w DADD
      else if f = 45 then w DADDU
      else if f = 46 then w DSUB
      else if f = 47 then w DSUBU
      else if f = 48 then core_try (TGE op)
      else if f = 49 then core_try (TGEU op)
      else if f = 50 then core_try (TLT op)
      else if f = 51 then core_try (TLTU op)
      else if f = 52 then core_try (TEQ op)
      else if f = 54 then core_try (TNE op)
      else if f = 56 then w DSLL
      else if f = 58 then w DSRL
      else if f = 59 then w DSRA
      else if f = 60 then w DSLL32
      else if f = 62 then w DSRL32
      else if f = 63 then w DSRA32
      else core_try RESERVED)"

definition decode_regimm :: "u32 \<Rightarrow> 'a r4300_sys_scheme decoded" where
  "decode_regimm op =
     (let f = unat (drop_bit 16 op AND 0x1F) in
      if f = 0 then Jump Relative_idle BLTZ
      else if f = 1 then Jump Relative_idle BGEZ
      else if f = 2 then Jump Relative_idle BLTZL
      else if f = 3 then Jump Relative_idle BGEZL
      else if f = 8 then core_try (TGEI op)
      else if f = 9 then core_try (TGEIU op)
      else if f = 10 then core_try (TLTI op)
      else if f = 11 then core_try (TLTIU op)
      else if f = 12 then core_try (TEQI op)
      else if f = 14 then core_try (TNEI op)
      else if f = 16 then Jump Relative_idle BLTZAL
      else if f = 17 then Jump Relative_idle BGEZAL
      else if f = 18 then Jump Relative_idle BLTZALL
      else if f = 19 then Jump Relative_idle BGEZALL
      else core_try RESERVED)"

definition decode_cop0 :: "'a device_scheme dev_env \<Rightarrow> u32 \<Rightarrow> 'a device_scheme decoded" where
  "decode_cop0 env op =
     (let f = unat (drop_bit 21 op AND 0x1F); g = unat (op AND 0x3F) in
      if f = 0 then nop_if_zero (RT_OF op) (core_try (MFC0 op))
      else if f = 1 then nop_if_zero (RT_OF op) (core_try (DMFC0 op))
      else if f = 4 \<or> f = 5 then Insn (MTC0 env op)
      else if f = 16 then
        if g = 1 then core_try TLBR
        else if g = 2 then core_try TLBWI
        else if g = 6 then core_try TLBWR
        else if g = 8 then core_insn (\<lambda>_. TLBP) op
        else if g = 24 then Insn (ERET env)
        else core_try RESERVED
      else core_try RESERVED)"

definition decode_cop1_s :: "fpu_host \<Rightarrow> u32 \<Rightarrow> 'a r4300_sys_scheme decoded" where
  "decode_cop1_s h op =
     (let f = unat (op AND 0x3F) in
      if f = 0 then core_try (ADD_S h op)
      else if f = 1 then core_try (SUB_S h op)
      else if f = 2 then core_try (MUL_S h op)
      else if f = 3 then core_try (DIV_S h op)
      else if f = 4 then core_try (SQRT_S h op)
      else if f = 5 then core_try (ABS_S op)
      else if f = 6 then core_try (MOV_S op)
      else if f = 7 then core_try (NEG_S op)
      else if f = 8 then core_try (ROUND_L_S op)
      else if f = 9 then core_try (TRUNC_L_S op)
      else if f = 10 then core_try (CEIL_L_S op)
      else if f = 11 then core_try (FLOOR_L_S op)
      else if f = 12 then core_try (ROUND_W_S op)
      else if f = 13 then core_try (TRUNC_W_S op)
      else if f = 14 then core_try (CEIL_W_S op)
      else if f = 15 then core_try (FLOOR_W_S op)
      else if f = 33 then core_try (CVT_D_S h op)
      else if f = 36 then core_try (CVT_W_S op)
      else if f = 37 then core_try (CVT_L_S op)
      else if f = 48 then core_try (C_F_S op)
      else if f = 49 then core_try (C_UN_S op)
      else if f = 50 then core_try (C_EQ_S op)
      else if f = 51 then core_try (C_UEQ_S op)
      else if f = 52 then core_try (C_OLT_S op)
      else if f = 53 then core_try (C_ULT_S op)
      else if f = 54 then core_try (C_OLE_S op)
      else if f = 55 then core_try (C_ULE_S op)
      else if f = 56 then core_try (C_SF_S op)
      else if f = 57 then core_try (C_NGLE_S op)
      else if f = 58 then core_try (C_SEQ_S op)
      else if f = 59 then core_try (C_NGL_S op)
      else if f = 60 then core_try (C_LT_S op)
      else if f = 61 then core_try (C_NGE_S op)
      else if f = 62 then core_try (C_LE_S op)
      else if f = 63 then core_try (C_NGT_S op)
      else core_try RESERVED)"

definition decode_cop1_d :: "fpu_host \<Rightarrow> u32 \<Rightarrow> 'a r4300_sys_scheme decoded" where
  "decode_cop1_d h op =
     (let f = unat (op AND 0x3F) in
      if f = 0 then core_try (ADD_D h op)
      else if f = 1 then core_try (SUB_D h op)
      else if f = 2 then core_try (MUL_D h op)
      else if f = 3 then core_try (DIV_D h op)
      else if f = 4 then core_try (SQRT_D h op)
      else if f = 5 then core_try (ABS_D op)
      else if f = 6 then core_try (MOV_D op)
      else if f = 7 then core_try (NEG_D op)
      else if f = 8 then core_try (ROUND_L_D op)
      else if f = 9 then core_try (TRUNC_L_D op)
      else if f = 10 then core_try (CEIL_L_D op)
      else if f = 11 then core_try (FLOOR_L_D op)
      else if f = 12 then core_try (ROUND_W_D op)
      else if f = 13 then core_try (TRUNC_W_D op)
      else if f = 14 then core_try (CEIL_W_D op)
      else if f = 15 then core_try (FLOOR_W_D op)
      else if f = 32 then core_try (CVT_S_D h op)
      else if f = 36 then core_try (CVT_W_D op)
      else if f = 37 then core_try (CVT_L_D op)
      else if f = 48 then core_try (C_F_D op)
      else if f = 49 then core_try (C_UN_D op)
      else if f = 50 then core_try (C_EQ_D op)
      else if f = 51 then core_try (C_UEQ_D op)
      else if f = 52 then core_try (C_OLT_D op)
      else if f = 53 then core_try (C_ULT_D op)
      else if f = 54 then core_try (C_OLE_D op)
      else if f = 55 then core_try (C_ULE_D op)
      else if f = 56 then core_try (C_SF_D op)
      else if f = 57 then core_try (C_NGLE_D op)
      else if f = 58 then core_try (C_SEQ_D op)
      else if f = 59 then core_try (C_NGL_D op)
      else if f = 60 then core_try (C_LT_D op)
      else if f = 61 then core_try (C_NGE_D op)
      else if f = 62 then core_try (C_LE_D op)
      else if f = 63 then core_try (C_NGT_D op)
      else core_try RESERVED)"

definition decode_bc1 :: "u32 \<Rightarrow> 'a r4300_sys_scheme decoded" where
  "decode_bc1 op =
     (let f = unat (drop_bit 16 op AND 0x3) in
      Jump Relative_idle (if f = 0 then BC1F else if f = 1 then BC1T else if f = 2 then BC1FL else BC1TL))"

definition decode_cop1 :: "fpu_host \<Rightarrow> u32 \<Rightarrow> 'a r4300_sys_scheme decoded" where
  "decode_cop1 h op =
     (let f = unat (drop_bit 21 op AND 0x1F); g = unat (op AND 0x3F);
          w = (\<lambda>i. nop_if_zero (RT_OF op) (core_try i)) in
      if f = 0 then w (MFC1 op)
      else if f = 1 then w (DMFC1 op)
      else if f = 2 then w (CFC1 op)
      else if f = 3 then w DCFC1
      else if f = 4 then core_try (MTC1 op)
      else if f = 5 then core_try (DMTC1 op)
      else if f = 6 then core_try (CTC1 op)
      else if f = 7 then core_try DCTC1
      else if f = 8 then decode_bc1 op
      else if f = 16 then decode_cop1_s h op
      else if f = 17 then decode_cop1_d h op
      else if f = 20 then
        if g = 32 then core_try (CVT_S_W op)
        else if g = 33 then core_try (CVT_D_W op)
        else core_try RESERVED
      else if f = 21 then
        if g = 32 then core_try (CVT_S_L op)
        else if g = 33 then core_try (CVT_D_L op)
        else core_try RESERVED
      else core_try RESERVED)"

definition decode_cop2 :: "u32 \<Rightarrow> 'a r4300_sys_scheme decoded" where
  "decode_cop2 op =
     (let f = unat (drop_bit 21 op AND 0x1F); w = (\<lambda>i. nop_if_zero (RT_OF op) (core_try i)) in
      if f = 0 then w (MFC2 op)
      else if f = 1 then w (DMFC2 op)
      else if f = 2 then w (CFC2 op)
      else if f = 4 then core_try (MTC2 op)
      else if f = 5 then core_try (DMTC2 op)
      else if f = 6 then core_try (CTC2 op)
      else core_try RESERVED_COP2)"

definition decode :: "'a device_scheme dev_env \<Rightarrow> u32 \<Rightarrow> 'a device_scheme decoded" where
  "decode env op =
     (let f = unat (drop_bit 26 op AND 0x3F);
          w = (\<lambda>i. nop_if_zero (RT_OF op) (core_insn i op));
          m = (\<lambda>i. nop_if_zero (RT_OF op) (Insn (i env op))) in
      if f = 0 then decode_special op
      else if f = 1 then decode_regimm op
      else if f = 2 then Jump Absolute_idle J
      else if f = 3 then Jump Absolute_idle JAL
      else if f = 4 then Jump Relative_idle BEQ
      else if f = 5 then Jump Relative_idle BNE
      else if f = 6 then Jump Relative_idle BLEZ
      else if f = 7 then Jump Relative_idle BGTZ
      else if f = 8 then w ADDI
      else if f = 9 then w ADDIU
      else if f = 10 then w SLTI
      else if f = 11 then w SLTIU
      else if f = 12 then w ANDI
      else if f = 13 then w ORI
      else if f = 14 then w XORI
      else if f = 15 then w LUI
      else if f = 16 then decode_cop0 env op
      else if f = 17 then decode_cop1 (d_fpu env) op
      else if f = 18 then decode_cop2 op
      else if f = 20 then Jump Relative_idle BEQL
      else if f = 21 then Jump Relative_idle BNEL
      else if f = 22 then Jump Relative_idle BLEZL
      else if f = 23 then Jump Relative_idle BGTZL
      else if f = 24 then w DADDI
      else if f = 25 then w DADDIU
      else if f = 26 then m LDL
      else if f = 27 then m LDR
      else if f = 32 then m LB
      else if f = 33 then m LH
      else if f = 34 then m LWL
      else if f = 35 then m LW
      else if f = 36 then m LBU
      else if f = 37 then m LHU
      else if f = 38 then m LWR
      else if f = 39 then m LWU
      else if f = 40 then Insn (SB env op)
      else if f = 41 then Insn (SH env op)
      else if f = 42 then Insn (SWL env op)
      else if f = 43 then Insn (SW env op)
      else if f = 44 then Insn (SDL env op)
      else if f = 45 then Insn (SDR env op)
      else if f = 46 then Insn (SWR env op)
      else if f = 47 then core_insn CACHE op
      else if f = 48 then m LL
      else if f = 49 then Insn (LWC1 env op)
      else if f = 52 then core_insn (\<lambda>_. NI) op
      else if f = 53 then Insn (LDC1 env op)
      else if f = 55 then m LD
      else if f = 56 then m SC
      else if f = 57 then Insn (SWC1 env op)
      else if f = 60 then core_insn (\<lambda>_. NI) op
      else if f = 61 then Insn (SDC1 env op)
      else if f = 63 then Insn (SD env op)
      else core_try RESERVED)"

section \<open>Jumps\<close>

text \<open>The idle test reads the delay slot through a pointer that it does not compare with null.\<close>

definition delay_slot_is_nop ::
  "'a device_scheme dev_env \<Rightarrow> 'a device_scheme \<Rightarrow> bool option" where
  "delay_slot_is_nop env s = do {
     (w, _) \<leftarrow> fast_mem_access env (pc (r4300 s) + 4) s;
     case w of None \<Rightarrow> None | Some v \<Rightarrow> Some (v = 0) }"

definition is_idle_loop ::
  "'a device_scheme dev_env \<Rightarrow> idle_test \<Rightarrow> u32 \<Rightarrow> 'a device_scheme \<Rightarrow> bool option" where
  "is_idle_loop env t op s =
     (let addr = pc (r4300 s) in
      case t of
        No_idle \<Rightarrow> Some False
      | Relative_idle \<Rightarrow>
          (if IMM16S_OF op = -1 then delay_slot_is_nop env s else Some False)
      | Absolute_idle \<Rightarrow>
          (if JUMP_OF op = drop_bit 2 (addr AND 0x0FFFFFFF) \<and> addr AND 0x0FFFFFFF \<noteq> 0x0FFFFFFC
           then delay_slot_is_nop env s else Some False))"

definition jump_unusable :: "jump \<Rightarrow> r4300_core \<Rightarrow> (bool \<times> r4300_core) option" where
  "jump_unusable j r = (if j_cop1 j then check_cop1_unusable r else Some (False, r))"

text \<open>
  The body of \<^verbatim>\<open>DECLARE_JUMP\<close> in three parts: up to the delay slot, the delay slot itself (the recursive
  call), and the rest.
\<close>

definition jump_link :: "jump \<Rightarrow> r4300_core \<Rightarrow> r4300_core" where
  "jump_link j r = (if j_link j \<noteq> 0 then set_gpr (j_link j) (SE32 (pc r + 8)) r else r)"

definition enter_delay_slot :: "r4300_core \<Rightarrow> r4300_core" where
  "enter_delay_slot r = r\<lparr>pc := pc r + 4, delay_slot := 1\<rparr>"

definition leave_delay_slot :: "jump \<Rightarrow> r4300_core \<Rightarrow> r4300_core" where
  "leave_delay_slot j r =
     (let r = (cp0_update_count r)\<lparr>delay_slot := 0\<rparr>
      in if j_taken j \<and> skip_jump r = 0 then r\<lparr>pc := j_target j\<rparr> else r)"

definition nullify_delay_slot :: "r4300_core \<Rightarrow> r4300_core" where
  "nullify_delay_slot r = cp0_update_count (r\<lparr>pc := pc r + 8\<rparr>)"

definition jump_end ::
  "'a device_scheme dev_env \<Rightarrow> 'a device_scheme \<Rightarrow> 'a device_scheme option" where
  "jump_end env s = poll_interrupts env (on_core (\<lambda>r. r\<lparr>cp0 := (cp0 r)\<lparr>last_addr := pc r\<rparr>\<rparr>) s)"

definition run_jump ::
  "'a device_scheme dev_env \<Rightarrow> ('a device_scheme \<Rightarrow> 'a device_scheme option) \<Rightarrow>
     (u32 \<Rightarrow> r4300_core \<Rightarrow> jump) \<Rightarrow> u32 \<Rightarrow> 'a device_scheme \<Rightarrow> 'a device_scheme option" where
  "run_jump env interp jmp op s = do {
     let j = jmp op (r4300 s);
     (unusable, r) \<leftarrow> jump_unusable j (r4300 s);
     if unusable then Some (s\<lparr>r4300 := r\<rparr>)
     else do {
       let s = s\<lparr>r4300 := jump_link j r\<rparr>;
       s \<leftarrow> (if \<not> j_likely j \<or> j_taken j then do {
               s \<leftarrow> interp (on_core enter_delay_slot s);
               Some (on_core (leave_delay_slot j) s) }
             else Some (on_core nullify_delay_slot s));
       jump_end env s } }"

text \<open>The idle variant moves the count to the next event before it jumps.\<close>

definition skip_to_event :: "r4300_core \<Rightarrow> r4300_core" where
  "skip_to_event r =
     (let r = cp0_update_count r; c = cp0 r
      in if cycle_count c <s 0
         then r\<lparr>cp0 := c\<lparr>cp0_regs := (cp0_regs c)(CP0_COUNT_REG := cp0_regs c CP0_COUNT_REG - cycle_count c),
                         cycle_count := 0\<rparr>\<rparr>
         else r)"

definition run_idle_jump ::
  "'a device_scheme dev_env \<Rightarrow> ('a device_scheme \<Rightarrow> 'a device_scheme option) \<Rightarrow>
     (u32 \<Rightarrow> r4300_core \<Rightarrow> jump) \<Rightarrow> u32 \<Rightarrow> 'a device_scheme \<Rightarrow> 'a device_scheme option" where
  "run_idle_jump env interp jmp op s = do {
     let j = jmp op (r4300 s);
     (unusable, r) \<leftarrow> jump_unusable j (r4300 s);
     if unusable then Some (s\<lparr>r4300 := r\<rparr>)
     else run_jump env interp jmp op (s\<lparr>r4300 := (if j_taken j then skip_to_event r else r)\<rparr>) }"

text \<open>A jump uses its interpreter monotonically, so it may stand inside the recursion.\<close>

lemma run_jump_mono [partial_function_mono]:
  assumes "\<And>x. mono_option (\<lambda>f. interp f x)"
  shows "mono_option (\<lambda>f. run_jump env (interp f) jmp op s)"
  unfolding run_jump_def Let_def case_prod_beta
  by (intro bind_mono if_mono option.const_mono assms)

lemma run_idle_jump_mono [partial_function_mono]:
  assumes "\<And>x. mono_option (\<lambda>f. interp f x)"
  shows "mono_option (\<lambda>f. run_idle_jump env (interp f) jmp op s)"
  unfolding run_idle_jump_def Let_def case_prod_beta
  by (intro bind_mono if_mono option.const_mono run_jump_mono assms)

section \<open>The interpreter\<close>

partial_function (option) InterpretOpcode ::
  "'a device_scheme dev_env \<Rightarrow> 'a device_scheme \<Rightarrow> 'a device_scheme option" where
  "InterpretOpcode env s = do {
     (w, s) \<leftarrow> fast_mem_access env (pc (r4300 s)) s;
     case w of
       None \<Rightarrow> Some s
     | Some op \<Rightarrow> (case decode env op of
         Insn f \<Rightarrow> f s
       | Jump t jmp \<Rightarrow> do {
           idle \<leftarrow> is_idle_loop env t op s;
           if idle then run_idle_jump env (\<lambda>s. InterpretOpcode env s) jmp op s
           else run_jump env (\<lambda>s. InterpretOpcode env s) jmp op s }) }"

partial_function (option) interpreter_loop ::
  "'a device_scheme dev_env \<Rightarrow> 'a device_scheme \<Rightarrow> 'a device_scheme option" where
  "interpreter_loop env s =
     (if stop (r4300 s) \<noteq> 0 then Some s
      else do {
        s \<leftarrow> InterpretOpcode env s;
        interpreter_loop env s })"

definition run_pure_interpreter ::
  "'a device_scheme dev_env \<Rightarrow> 'a device_scheme \<Rightarrow> 'a device_scheme option" where
  "run_pure_interpreter env s = interpreter_loop env (on_core (\<lambda>r.
     r\<lparr>stop := 0, pc := start_address r, cp0 := (cp0 r)\<lparr>last_addr := start_address r\<rparr>\<rparr>) s)"

text \<open>Only the branch of the pure interpreter is modelled.\<close>

definition run_r4300 ::
  "'a device_scheme dev_env \<Rightarrow> 'a device_scheme \<Rightarrow> 'a device_scheme option" where
  "run_r4300 env s =
     (let s = on_core (\<lambda>r. r\<lparr>stop := 0\<rparr>) s
      in if emu_mode (r4300 s) = EMUMODE_PURE_INTERPRETER then run_pure_interpreter env s else None)"

end
