(* ===== verification/Scheduler.thy ===== *)
theory Scheduler
  imports R4300_Props
begin

text \<open>
  The event queue as a scheduler. The locale \<open>scheduler\<close> is the contract the devices rely on (an
  event that is added is delivered, delivery takes the head, nothing faults) and is interpreted on
  the operations of \<^verbatim>\<open>interrupt.c\<close>; the step relation \<open>qstep\<close> is what the processor does to the
  queue between power-on and an arbitrary later moment.
\<close>

section \<open>The contract\<close>

text \<open>Adding a batch of events, and delivering \<open>n\<close> of them in order.\<close>

primrec add_all :: "('s \<Rightarrow> u32 \<Rightarrow> u32 \<Rightarrow> 's option) \<Rightarrow> 's \<Rightarrow> interrupt_event list \<Rightarrow> 's option" where
  "add_all add s [] = Some s"
| "add_all add s (x # xs) = do { s \<leftarrow> add s (evt_type x) (evt_count x); add_all add s xs }"

primrec drain :: "('s \<Rightarrow> 's option) \<Rightarrow> ('s \<Rightarrow> interrupt_event list) \<Rightarrow> nat \<Rightarrow> 's \<Rightarrow> (interrupt_event list \<times> 's) option" where
  "drain pop evs 0 s = Some ([], s)"
| "drain pop evs (Suc n) s = do {
     s' \<leftarrow> pop s;
     (xs, s'') \<leftarrow> drain pop evs n s';
     Some (hd (evs s) # xs, s'') }"

locale scheduler =
  fixes inv :: "'s \<Rightarrow> bool"
    and evs :: "'s \<Rightarrow> interrupt_event list"
    and cap :: nat
    and add :: "'s \<Rightarrow> u32 \<Rightarrow> u32 \<Rightarrow> 's option"
    and pop :: "'s \<Rightarrow> 's option"
  assumes add_total: "inv s \<Longrightarrow> \<exists>s'. add s ty n = Some s' \<and> inv s'"
    and add_evs: "inv s \<Longrightarrow> length (evs s) < cap \<Longrightarrow> add s ty n = Some s' \<Longrightarrow>
      mset (evs s') = add_mset \<lparr>evt_type = ty, evt_count = n\<rparr> (mset (evs s))"
    and pop_total: "inv s \<Longrightarrow> evs s \<noteq> [] \<Longrightarrow> \<exists>s'. pop s = Some s' \<and> inv s' \<and> evs s' = tl (evs s)"
begin

lemma add_all_mset:
  "inv s \<Longrightarrow> length (evs s) + length xs \<le> cap \<Longrightarrow>
     \<exists>s'. add_all add s xs = Some s' \<and> inv s' \<and> mset (evs s') = mset (evs s) + mset xs"
proof (induction xs arbitrary: s)
  case Nil
  then show ?case by simp
next
  case (Cons x xs)
  obtain s1 where s1: "add s (evt_type x) (evt_count x) = Some s1" "inv s1"
    using add_total [OF Cons.prems(1)] by blast
  have m: "mset (evs s1) = add_mset x (mset (evs s))"
    using add_evs [OF Cons.prems(1) _ s1(1)] Cons.prems(2) by simp
  then have "length (evs s1) = Suc (length (evs s))"
    by (metis size_add_mset size_mset)
  then show ?case using Cons.IH [OF s1(2)] Cons.prems(2) s1(1) m by auto
qed

lemma drain_evs:
  "inv s \<Longrightarrow> n \<le> length (evs s) \<Longrightarrow>
     \<exists>s'. drain pop evs n s = Some (take n (evs s), s') \<and> inv s' \<and> evs s' = drop n (evs s)"
proof (induction n arbitrary: s)
  case 0
  then show ?case by simp
next
  case (Suc n)
  then have ne: "evs s \<noteq> []" by auto
  then obtain s1 where s1: "pop s = Some s1" "inv s1" "evs s1 = tl (evs s)"
    using pop_total Suc.prems(1) by blast
  then have "n \<le> length (evs s1)" using Suc.prems(2) by simp
  then obtain s2 where "drain pop evs n s1 = Some (take n (evs s1), s2)" "inv s2" "evs s2 = drop n (evs s1)"
    using Suc.IH [OF s1(2)] by blast
  then show ?case using s1 ne by (cases "evs s") auto
qed

text \<open>A batch added to an empty queue comes out complete, whatever the order it was added in.\<close>

lemma deliver_all:
  assumes "inv s" "evs s = []" "length xs \<le> cap"
  shows "\<exists>s1 ys s2. add_all add s xs = Some s1 \<and> inv s1 \<and> ys = evs s1
    \<and> drain pop evs (length xs) s1 = Some (ys, s2) \<and> mset ys = mset xs \<and> evs s2 = []"
proof -
  obtain s1 where s1: "add_all add s xs = Some s1" "inv s1" "mset (evs s1) = mset xs"
    using add_all_mset [of s xs] assms by auto
  then have "length (evs s1) = length xs" by (metis size_mset)
  then show ?thesis using s1 drain_evs [of s1 "length xs"] by auto
qed

end

interpretation eq: scheduler cp0_inv "\<lambda>c. events (cp0_q c)" INTERRUPT_NODES_POOL_CAPACITY
  add_interrupt_event_count remove_interrupt_event
proof
  fix c c' ty n
  assume inv: "cp0_inv c"
  then show "\<exists>c'. add_interrupt_event_count c ty n = Some c' \<and> cp0_inv c'" by (rule cp0_inv_add)
  assume "length (events (cp0_q c)) < INTERRUPT_NODES_POOL_CAPACITY" "add_interrupt_event_count c ty n = Some c'"
  then show "mset (events (cp0_q c')) = add_mset \<lparr>evt_type = ty, evt_count = n\<rparr> (mset (events (cp0_q c)))"
    using add_interrupt_event_count_spec [of c ty n] inv
    by (auto simp: cp0_inv_def mset_ins_event)
next
  fix c
  assume "cp0_inv c" "events (cp0_q c) \<noteq> []"
  then show "\<exists>c'. remove_interrupt_event c = Some c' \<and> cp0_inv c' \<and> events (cp0_q c') = tl (events (cp0_q c))"
    by (rule cp0_inv_remove)
qed

section \<open>Power-on\<close>

definition wf_pool :: "pool \<Rightarrow> bool" where
  "wf_pool p \<longleftrightarrow> length (nodes p) = INTERRUPT_NODES_POOL_CAPACITY"

lemma wf_clear_queue:
  assumes "wf_pool (q_pool qu)"
  shows "wf_queue (clear_queue qu)" "events (clear_queue qu) = []"
proof -
  have "pool_rep (clear_pool (q_pool qu)) []"
    using assms by (auto simp: pool_rep_def clear_pool_def wf_pool_def)
  then have "wf_queue (clear_queue qu)" "q_nodes (clear_queue qu) = []"
    using q_nodesI [of "clear_queue qu" "[]"] by (simp_all add: clear_queue_def)
  then show "wf_queue (clear_queue qu)" "events (clear_queue qu) = []" by (simp_all add: events_def)
qed

lemma add_count_frame:
  assumes "wf_queue (cp0_q c)" "add_interrupt_event_count c ty n = Some c'"
  shows "cp0_regs c' = cp0_regs c" "count_per_op c' = count_per_op c" "cp0_tlb c' = cp0_tlb c"
    "last_addr c' = last_addr c" "interrupt_unsafe_state c' = interrupt_unsafe_state c"
proof -
  consider "length (events (cp0_q c)) < INTERRUPT_NODES_POOL_CAPACITY"
    | "length (events (cp0_q c)) = INTERRUPT_NODES_POOL_CAPACITY"
    using length_events_le [OF assms(1)] by linarith
  then have "cp0_regs c' = cp0_regs c \<and> count_per_op c' = count_per_op c \<and> cp0_tlb c' = cp0_tlb c
      \<and> last_addr c' = last_addr c \<and> interrupt_unsafe_state c' = interrupt_unsafe_state c"
    using assms add_interrupt_event_count_spec [OF assms(1), of ty n]
      add_interrupt_event_count_full [OF assms(1), of ty n] by cases auto
  then show "cp0_regs c' = cp0_regs c" "count_per_op c' = count_per_op c" "cp0_tlb c' = cp0_tlb c"
    "last_addr c' = last_addr c" "interrupt_unsafe_state c' = interrupt_unsafe_state c" by simp_all
qed

lemma cp0_inv_empty: "wf_queue (cp0_q c) \<Longrightarrow> events (cp0_q c) = [] \<Longrightarrow> cp0_inv c"
  by (simp add: cp0_inv_def)

lemma add_to_empty:
  assumes "wf_queue (cp0_q c)" "events (cp0_q c) = []"
  shows "\<exists>qu. add_interrupt_event_count c ty n = Some (c\<lparr>cp0_q := qu, next_interrupt := n,
      cycle_count := cp0_regs c CP0_COUNT_REG - n\<rparr>)
    \<and> wf_queue qu \<and> events qu = [\<lparr>evt_type = ty, evt_count = n\<rparr>]"
  using add_interrupt_event_count_spec [OF assms(1), of ty n] assms(2)
  by (auto simp: ins_event_def INTERRUPT_NODES_POOL_CAPACITY_def)

lemma init_interrupt_spec:
  assumes "wf_pool (q_pool (cp0_q c))" "cp0_regs c CP0_COUNT_REG = 0x5000"
  shows "\<exists>qu. init_interrupt c = Some (c\<lparr>cp0_q := qu, next_interrupt := 0x80000000, cycle_count := 0x5000 - 0x80000000\<rparr>)
    \<and> wf_queue qu
    \<and> events qu = [\<lparr>evt_type = SPECIAL_INT, evt_count = 0x80000000\<rparr>, \<lparr>evt_type = COMPARE_INT, evt_count = 0\<rparr>]"
proof -
  let ?c = "c\<lparr>cp0_q := clear_queue (cp0_q c)\<rparr>"
  let ?s = "\<lparr>evt_type = SPECIAL_INT, evt_count = 0x80000000\<rparr>"
  let ?k = "\<lparr>evt_type = COMPARE_INT, evt_count = 0\<rparr>"
  have "wf_queue (cp0_q ?c)" "events (cp0_q ?c) = []" using wf_clear_queue [OF assms(1)] by simp_all
  from add_to_empty [OF this, where ty = SPECIAL_INT and n = "0x80000000"] obtain q1 where
    q1: "add_interrupt_event_count ?c SPECIAL_INT 0x80000000 =
        Some (c\<lparr>cp0_q := q1, next_interrupt := 0x80000000, cycle_count := 0x5000 - 0x80000000\<rparr>)"
      "wf_queue q1" "events q1 = [?s]"
    using assms(2) by auto
  let ?c1 = "c\<lparr>cp0_q := q1, next_interrupt := 0x80000000, cycle_count := 0x5000 - 0x80000000\<rparr>"
  have now: "now ?c1 = 0x5000" using assms(2) by (simp add: now_def sless_pos_iff)
  have "due ?c1 ?s \<le> due ?c1 ?k" unfolding due_def now by simp
  then have ins: "ins_event ?c1 ?k [?s] = [?s, ?k]" by (simp add: ins_event_def)
  from add_interrupt_event_count_spec [of ?c1 COMPARE_INT 0] q1 ins
  obtain qu where "add_interrupt_event_count ?c1 COMPARE_INT 0 =
      Some (c\<lparr>cp0_q := qu, next_interrupt := 0x80000000, cycle_count := 0x5000 - 0x80000000\<rparr>)"
      "wf_queue qu" "events qu = [?s, ?k]"
    using assms(2) by (auto simp: INTERRUPT_NODES_POOL_CAPACITY_def)
  then show ?thesis using q1(1) by (auto simp: init_interrupt_def)
qed

section \<open>Restoring the order from a weaker invariant\<close>

text \<open>
  \<open>cp0_ord\<close> holds between \<^verbatim>\<open>remove_event\<close> and the operation that follows it: the list is ordered, but
  \<^verbatim>\<open>next_interrupt\<close> and \<^verbatim>\<open>cycle_count\<close> may still describe the event that was removed.
\<close>

definition cp0_ord :: "cp0 \<Rightarrow> bool" where
  "cp0_ord c \<longleftrightarrow> wf_queue (cp0_q c) \<and> sorted (map (due c) (events (cp0_q c)))"

lemma now_after_sync:
  assumes c': "cycle_count c' = cp0_regs c CP0_COUNT_REG - evt_count y"
      "cp0_regs c' CP0_COUNT_REG = cp0_regs c CP0_COUNT_REG"
  shows "now c' - now c \<le> due c y"
proof (cases "0 <s cycle_count c'")
  case True
  then have "now c' = evt_count y" using c' by (intro now_head) simp_all
  then show ?thesis by (simp add: due_def)
next
  case False
  then have n': "now c' = cp0_regs c CP0_COUNT_REG" using c'(2) by (simp add: now_count)
  show ?thesis
  proof (cases "0 <s cycle_count c")
    case True
    let ?C = "cycle_count c" and ?k = "due c y"
    have n: "now c = cp0_regs c CP0_COUNT_REG - ?C" using True by (simp add: now_def)
    then have C: "now c' - now c = ?C" using n' by simp
    have "cycle_count c' = ?C - ?k" using c'(1) n by (simp add: due_def)
    then have neg: "\<not> 0 <s ?C - ?k" using False by simp
    show ?thesis
    proof (rule ccontr)
      assume "\<not> ?thesis"
      then have "?k < ?C" by (simp add: C)
      then have "unat (?C - ?k) = unat ?C - unat ?k" "unat ?k < unat ?C"
        by (simp_all add: unat_sub_if' word_less_nat_alt)
      moreover have "unat ?C < 0x80000000" using True by (simp add: sless_pos_iff word_less_nat_alt)
      ultimately have "0 <s ?C - ?k" by (simp add: sless_pos_iff word_less_nat_alt)
      with neg show False by simp
    qed
  next
    case nb: False
    then show ?thesis using n' by (simp add: now_count)
  qed
qed

lemma add_after_remove:
  assumes ord: "cp0_ord c" and room: "length (events (cp0_q c)) < INTERRUPT_NODES_POOL_CAPACITY"
  shows "\<exists>c'. add_interrupt_event_count c ty n = Some c' \<and> cp0_inv c' \<and> cp0_regs c' = cp0_regs c
    \<and> events (cp0_q c') = ins_event c \<lparr>evt_type = ty, evt_count = n\<rparr> (events (cp0_q c))"
proof -
  let ?evs = "ins_event c \<lparr>evt_type = ty, evt_count = n\<rparr> (events (cp0_q c))"
  have wf: "wf_queue (cp0_q c)" and s: "sorted (map (due c) ?evs)"
    using ord by (simp_all add: cp0_ord_def sorted_ins_event)
  from add_interrupt_event_count_spec [OF wf room, of ty n] obtain qu where
    qu: "add_interrupt_event_count c ty n = Some (c\<lparr>cp0_q := qu, next_interrupt := evt_count (hd ?evs),
        cycle_count := cp0_regs c CP0_COUNT_REG - evt_count (hd ?evs)\<rparr>)"
      "wf_queue qu" "events qu = ?evs" by blast
  let ?c = "c\<lparr>cp0_q := qu, next_interrupt := evt_count (hd ?evs),
        cycle_count := cp0_regs c CP0_COUNT_REG - evt_count (hd ?evs)\<rparr>"
  have "sorted (map (due ?c) ?evs)"
    by (rule sorted_due_shift [OF s]) (simp, rule now_after_sync, simp_all)
  then have "cp0_inv ?c" using qu by (simp add: cp0_inv_def)
  then show ?thesis using qu by (intro exI [of _ ?c]) simp
qed

lemma remove_event_ord:
  assumes "cp0_ord c"
  shows "\<exists>qu. remove_event (cp0_q c) ty = Some qu \<and> cp0_ord (c\<lparr>cp0_q := qu\<rparr>)
    \<and> events qu = del_type ty (events (cp0_q c))"
proof -
  obtain qu where qu: "remove_event (cp0_q c) ty = Some qu" "wf_queue qu" "events qu = del_type ty (events (cp0_q c))"
    using remove_event_spec assms unfolding cp0_ord_def by blast
  have "due (c\<lparr>cp0_q := qu\<rparr>) = due c" by (simp add: due_def [abs_def] now_def Let_def)
  then have "cp0_ord (c\<lparr>cp0_q := qu\<rparr>)"
    using assms qu by (simp add: cp0_ord_def sorted_map sorted_wrt_del_type)
  then show ?thesis using qu by blast
qed

lemma cp0_inv_ord: "cp0_inv c \<Longrightarrow> cp0_ord c"
  by (simp add: cp0_inv_def cp0_ord_def)

section \<open>Moving the time base\<close>

definition shift_event :: "u32 \<Rightarrow> u32 \<Rightarrow> interrupt_event \<Rightarrow> interrupt_event" where
  "shift_event cnt base x = x\<lparr>evt_count := (evt_count x - cnt) + base\<rparr>"

lemma shift_counts_spec:
  "qlist ns p as \<Longrightarrow> distinct as \<Longrightarrow>
    \<exists>ns'. shift_counts cnt base ns p = Some ns' \<and> length ns' = length ns \<and> qlist ns' p as
      \<and> map (\<lambda>a. data (ns' ! a)) as = map (\<lambda>a. shift_event cnt base (data (ns ! a))) as
      \<and> (\<forall>b. b \<notin> set as \<longrightarrow> ns' ! b = ns ! b)"
proof (induction as arbitrary: ns p)
  case Nil
  then show ?case by (simp add: shift_counts.simps [of _ _ _ None])
next
  case (Cons a as)
  then have p: "p = Some a" "a < length ns" "qlist ns (nxt (ns ! a)) as" "a \<notin> set as" "distinct as" by auto
  let ?x = "(ns ! a)\<lparr>data := (data (ns ! a))\<lparr>evt_count := (evt_count (data (ns ! a)) - cnt) + base\<rparr>\<rparr>"
  let ?ns = "ns[a := ?x]"
  have "qlist ?ns (nxt (ns ! a)) as" using p by (simp add: qseg_upd_other)
  from Cons.IH [OF this p(5)] obtain ns' where
    ns': "shift_counts cnt base ?ns (nxt (ns ! a)) = Some ns'" "length ns' = length ns" "qlist ns' (nxt (ns ! a)) as"
      "map (\<lambda>a. data (ns' ! a)) as = map (\<lambda>b. shift_event cnt base (data (?ns ! b))) as"
      "\<forall>b. b \<notin> set as \<longrightarrow> ns' ! b = ?ns ! b" by auto
  have a: "ns' ! a = ?x" using ns'(5) p by simp
  have "map (\<lambda>b. shift_event cnt base (data (?ns ! b))) as = map (\<lambda>b. shift_event cnt base (data (ns ! b))) as"
    using p(4) by (intro map_cong refl) (metis nth_list_update_neq)
  moreover have "shift_counts cnt base ns p = Some ns'"
    using p(1,2) ns'(1) by (simp add: shift_counts.simps [of _ _ _ "Some a"])
  ultimately show ?case
    using ns' a p by (auto simp: shift_event_def nth_list_update)
qed

lemma translate_nodes:
  assumes "wf_queue qu" "shift_counts cnt base (nodes (q_pool qu)) (q_first qu) = Some ns"
  shows "wf_queue (qu\<lparr>q_pool := (q_pool qu)\<lparr>nodes := ns\<rparr>\<rparr>)"
    "events (qu\<lparr>q_pool := (q_pool qu)\<lparr>nodes := ns\<rparr>\<rparr>) = map (shift_event cnt base) (events qu)"
proof -
  let ?q = "qu\<lparr>q_pool := (q_pool qu)\<lparr>nodes := ns\<rparr>\<rparr>"
  have ql: "qlist (nodes (q_pool qu)) (q_first qu) (q_nodes qu)" "distinct (q_nodes qu)"
    and rep: "pool_rep (q_pool qu) (q_nodes qu)"
    using assms(1) by (auto simp: wf_queue_def pool_rep_def)
  from shift_counts_spec [OF ql, of cnt base] assms(2)
  have ns: "length ns = length (nodes (q_pool qu))" "qlist ns (q_first qu) (q_nodes qu)"
    "map (\<lambda>a. data (ns ! a)) (q_nodes qu) = map (\<lambda>a. shift_event cnt base (data (nodes (q_pool qu) ! a))) (q_nodes qu)"
    by auto
  have q: "wf_queue ?q" "q_nodes ?q = q_nodes qu"
    by (rule q_nodesI; use ns rep in \<open>simp add: pool_rep_nodes\<close>)+
  show "wf_queue ?q" by (rule q(1))
  show "events ?q = map (shift_event cnt base) (events qu)"
    unfolding events_def q(2) using ns(3) by simp
qed

text \<open>The compare event: the insertion is made as if the count were one instruction later.\<close>

definition advance :: "cp0 \<Rightarrow> cp0" where
  "advance c = c\<lparr>cp0_regs := (cp0_regs c)(CP0_COUNT_REG := cp0_regs c CP0_COUNT_REG + count_per_op c),
     cycle_count := cycle_count c + count_per_op c\<rparr>"

lemma add_compare_event_spec:
  assumes wf: "wf_queue (cp0_q c)" and room: "length (events (cp0_q c)) < INTERRUPT_NODES_POOL_CAPACITY"
  shows "\<exists>c'. add_compare_event c cmp = Some c' \<and> wf_queue (cp0_q c') \<and> cp0_regs c' = cp0_regs c
    \<and> events (cp0_q c') = ins_event (advance c) \<lparr>evt_type = COMPARE_INT, evt_count = cmp\<rparr> (events (cp0_q c))
    \<and> next_interrupt c' = evt_count (hd (events (cp0_q c')))
    \<and> cycle_count c' = cp0_regs c' CP0_COUNT_REG - evt_count (hd (events (cp0_q c')))
    \<and> last_addr c' = last_addr c"
proof -
  let ?evs = "ins_event (advance c) \<lparr>evt_type = COMPARE_INT, evt_count = cmp\<rparr> (events (cp0_q c))"
  have "wf_queue (cp0_q (advance c))" "length (events (cp0_q (advance c))) < INTERRUPT_NODES_POOL_CAPACITY"
    using wf room by (simp_all add: advance_def)
  from add_interrupt_event_count_spec [OF this, of COMPARE_INT cmp] obtain qu where
    qu: "add_interrupt_event_count (advance c) COMPARE_INT cmp = Some ((advance c)\<lparr>cp0_q := qu,
        next_interrupt := evt_count (hd ?evs),
        cycle_count := cp0_regs (advance c) CP0_COUNT_REG - evt_count (hd ?evs)\<rparr>)"
      "wf_queue qu" "events qu = ?evs"
    by (auto simp: advance_def)
  have "events qu \<noteq> []" by (simp add: qu(3))
  then have d: "deref qu (q_first qu) = Some (nodes (q_pool qu) ! hd (q_nodes qu))" "q_nodes qu \<noteq> []"
    by (simp_all add: deref_first qu(2)) (auto simp: events_def)
  then have "evt_count (data (nodes (q_pool qu) ! hd (q_nodes qu))) = evt_count (hd ?evs)"
    using hd_events qu(3) by metis
  then show ?thesis
    using qu d(1) by (simp add: add_compare_event_def Let_def flip: advance_def) (simp add: advance_def)
qed

lemma translate_event_queue_ok:
  fixes c base
  defines "keep \<equiv> del_type SPECIAL_INT (del_type COMPARE_INT (events (cp0_q c)))"
  assumes ord: "cp0_ord c" and room: "length keep + 2 \<le> INTERRUPT_NODES_POOL_CAPACITY"
  shows "\<exists>c'. translate_event_queue c base = Some c' \<and> wf_queue (cp0_q c')
    \<and> cp0_regs c' = (cp0_regs c)(CP0_COUNT_REG := base)
    \<and> mset (events (cp0_q c')) = add_mset \<lparr>evt_type = COMPARE_INT, evt_count = cp0_regs c CP0_COMPARE_REG\<rparr>
        (add_mset \<lparr>evt_type = SPECIAL_INT, evt_count = special_count base\<rparr>
          (image_mset (shift_event (cp0_regs c CP0_COUNT_REG) base) (mset keep)))
    \<and> next_interrupt c' = evt_count (hd (events (cp0_q c')))
    \<and> cycle_count c' = base - evt_count (hd (events (cp0_q c')))"
proof -
  let ?n = "cp0_regs c CP0_COUNT_REG"
  obtain q1 where q1: "remove_event (cp0_q c) COMPARE_INT = Some q1" "cp0_ord (c\<lparr>cp0_q := q1\<rparr>)"
      "events q1 = del_type COMPARE_INT (events (cp0_q c))"
    using remove_event_ord [OF ord] by blast
  obtain q2 where q2: "remove_event q1 SPECIAL_INT = Some q2" "wf_queue q2" "events q2 = keep"
    using remove_event_ord [OF q1(2), of SPECIAL_INT] q1(3) by (auto simp: keep_def cp0_ord_def)
  have "qlist (nodes (q_pool q2)) (q_first q2) (q_nodes q2)" "distinct (q_nodes q2)"
    using q2(2) by (auto simp: wf_queue_def pool_rep_def)
  then obtain ns where ns: "shift_counts ?n base (nodes (q_pool q2)) (q_first q2) = Some ns"
    using shift_counts_spec by blast
  define q3 where "q3 = q2\<lparr>q_pool := (q_pool q2)\<lparr>nodes := ns\<rparr>\<rparr>"
  define c1 where "c1 = c\<lparr>cp0_q := q3, cp0_regs := (cp0_regs c)(CP0_COUNT_REG := base)\<rparr>"
  have q3: "wf_queue (cp0_q c1)" "events (cp0_q c1) = map (shift_event ?n base) keep"
    using translate_nodes [OF q2(2) ns] q2(3) by (simp_all add: q3_def c1_def)
  have "length (events (cp0_q c1)) < INTERRUPT_NODES_POOL_CAPACITY" using q3 room by simp
  from add_interrupt_event_count_spec [OF q3(1) this, of SPECIAL_INT "special_count base"] obtain c2 where
    c2: "add_interrupt_event_count c1 SPECIAL_INT (special_count base) = Some c2" "wf_queue (cp0_q c2)"
      "cp0_regs c2 = cp0_regs c1"
      "events (cp0_q c2) = ins_event c1 \<lparr>evt_type = SPECIAL_INT, evt_count = special_count base\<rparr> (events (cp0_q c1))"
    by force
  have "length (events (cp0_q c2)) < INTERRUPT_NODES_POOL_CAPACITY"
    using room by (simp add: c2(4) length_ins_event q3)
  from add_compare_event_spec [OF c2(2) this, of "cp0_regs c CP0_COMPARE_REG"] obtain c3 where
    c3: "add_compare_event c2 (cp0_regs c CP0_COMPARE_REG) = Some c3" "wf_queue (cp0_q c3)" "cp0_regs c3 = cp0_regs c2"
      "mset (events (cp0_q c3)) = add_mset \<lparr>evt_type = COMPARE_INT, evt_count = cp0_regs c CP0_COMPARE_REG\<rparr> (mset (events (cp0_q c2)))"
      "next_interrupt c3 = evt_count (hd (events (cp0_q c3)))"
      "cycle_count c3 = cp0_regs c3 CP0_COUNT_REG - evt_count (hd (events (cp0_q c3)))"
    by (auto simp: mset_ins_event)
  have "translate_event_queue c base = Some c3"
    using q1(1) q2(1) ns c2(1,3) c3(1)
    by (simp add: translate_event_queue_def Let_def flip: q3_def) (simp add: c1_def)
  then show ?thesis
    using c3 c2(3,4) q3(2) by (simp add: c1_def mset_ins_event)
qed

end
