(* ===== verification/Queue_Save.thy ===== *)
theory Queue_Save
  imports Scheduler
begin

text \<open>
  Saving the event queue into a byte buffer and loading it back: \<^verbatim>\<open>save_eventqueue_infos\<close> and
  \<^verbatim>\<open>load_eventqueue_infos\<close> of \<^verbatim>\<open>interrupt.c\<close>, the queue's part of a save state.
\<close>

section \<open>The buffer\<close>

text \<open>Pairs of words, type and count, from \<open>pos\<close> on.\<close>

primrec holds_events :: "u8 list \<Rightarrow> nat \<Rightarrow> interrupt_event list \<Rightarrow> bool" where
  "holds_events buf pos [] \<longleftrightarrow> True"
| "holds_events buf pos (x # xs) \<longleftrightarrow> get_le32 buf pos = Some (evt_type x)
     \<and> get_le32 buf (pos + 4) = Some (evt_count x) \<and> holds_events buf (pos + 8) xs"

lemma holds_events_cong:
  "(\<And>j. j + 3 < e \<Longrightarrow> get_le32 buf' j = get_le32 buf j) \<Longrightarrow> pos + 8 * length xs \<le> e \<Longrightarrow>
    holds_events buf' pos xs = holds_events buf pos xs"
  by (induction xs arbitrary: pos) auto

lemma save_nodes_spec:
  "qlist ns p as \<Longrightarrow> len + 8 * length as \<le> length buf \<Longrightarrow>
    \<exists>buf'. save_nodes ns p buf len = Some (buf', len + 8 * length as) \<and> length buf' = length buf
      \<and> holds_events buf' len (map (\<lambda>a. data (ns ! a)) as)
      \<and> (\<forall>j. j + 3 < len \<longrightarrow> get_le32 buf' j = get_le32 buf j)"
proof (induction as arbitrary: p buf len)
  case Nil
  then show ?case by (simp add: save_nodes.simps [of _ None])
next
  case (Cons a as)
  then have p: "p = Some a" "a < length ns" "qlist ns (nxt (ns ! a)) as" by auto
  have len: "len + 8 + 8 * length as \<le> length buf" using Cons.prems(2) by simp
  obtain b1 where b1: "put_le32 buf len (evt_type (data (ns ! a))) = Some b1" "length b1 = length buf"
    using len by (simp add: put_le32_Some)
  obtain b2 where b2: "put_le32 b1 (len + 4) (evt_count (data (ns ! a))) = Some b2" "length b2 = length buf"
    using len b1(2) by (simp add: put_le32_Some)
  from Cons.IH [OF p(3), of "len + 8" b2] len b2(2) obtain b3 where
    b3: "save_nodes ns (nxt (ns ! a)) b2 (len + 8) = Some (b3, len + 8 + 8 * length as)" "length b3 = length buf"
      "holds_events b3 (len + 8) (map (\<lambda>a. data (ns ! a)) as)"
      "\<And>j. j + 3 < len + 8 \<Longrightarrow> get_le32 b3 j = get_le32 b2 j"
    by auto
  have "get_le32 b3 len = Some (evt_type (data (ns ! a)))" "get_le32 b3 (len + 4) = Some (evt_count (data (ns ! a)))"
    using get_put_le32 [OF b1(1)] get_put_le32 [OF b2(1)] get_put_le32_other [OF b2(1), of len] b3(4)
    by auto
  moreover have "get_le32 b3 j = get_le32 buf j" if "j + 3 < len" for j
    using get_put_le32_other [OF b1(1), of j] get_put_le32_other [OF b2(1), of j] b3(4) [of j] that by simp
  moreover have "save_nodes ns p buf len = Some (b3, len + 8 * length (a # as))"
    using p(1,2) b1 b2 b3(1) by (simp add: save_nodes.simps [of _ "Some a"])
  ultimately show ?case using b3(2,3) by auto
qed

lemma save_eventqueue_infos_spec:
  assumes "wf_queue (cp0_q c)" "8 * length (events (cp0_q c)) + 4 \<le> length buf"
  shows "\<exists>buf'. save_eventqueue_infos c buf = Some (buf', 8 * length (events (cp0_q c)) + 4)
    \<and> length buf' = length buf \<and> holds_events buf' 0 (events (cp0_q c))
    \<and> get_le32 buf' (8 * length (events (cp0_q c))) = Some 0xFFFFFFFF"
proof -
  let ?n = "8 * length (events (cp0_q c))"
  have ql: "qlist (nodes (q_pool (cp0_q c))) (q_first (cp0_q c)) (q_nodes (cp0_q c))"
    using assms(1) by (simp add: wf_queue_def)
  obtain b1 where b1: "save_nodes (nodes (q_pool (cp0_q c))) (q_first (cp0_q c)) buf 0 = Some (b1, ?n)"
      "length b1 = length buf" "holds_events b1 0 (events (cp0_q c))"
    using save_nodes_spec [OF ql, of 0 buf] assms(2) by (auto simp: events_def)
  obtain b2 where b2: "put_le32 b1 ?n 0xFFFFFFFF = Some b2" "length b2 = length buf"
    using assms(2) b1(2) by (simp add: put_le32_Some)
  have "holds_events b2 0 (events (cp0_q c)) = holds_events b1 0 (events (cp0_q c))"
    by (rule holds_events_cong [of ?n]) (use get_put_le32_other [OF b2(1)] in auto)
  then show ?thesis using b1 b2 get_put_le32 [OF b2(1)] by (simp add: save_eventqueue_infos_def)
qed

section \<open>Loading\<close>

lemma length_del_type: "ty \<in> evt_type ` set xs \<Longrightarrow> length xs = Suc (length (del_type ty xs))"
  by (induction xs) auto

lemma due_cong:
  "cycle_count c' = cycle_count c \<Longrightarrow> cp0_regs c' CP0_COUNT_REG = cp0_regs c CP0_COUNT_REG \<Longrightarrow> due c' = due c"
  using now_cong [of c' c] by (auto simp: due_def fun_eq_iff)

lemma event_eta: "\<lparr>evt_type = evt_type x, evt_count = evt_count x\<rparr> = (x :: interrupt_event)"
  by simp

lemma ins_event_last: "(\<And>y. y \<in> set xs \<Longrightarrow> due c y \<le> due c x) \<Longrightarrow> ins_event c x xs = xs @ [x]"
  by (simp add: ins_event_def takeWhile_eq_all_conv [THEN iffD2] dropWhile_eq_Nil_conv [THEN iffD2])

text \<open>
  Events that were saved in order are appended one by one: from the first on, the reference count
  is that of the queue \<open>c0\<close> that was saved.
\<close>

lemma load_events_spec:
  assumes inv: "cp0_inv c0"
  shows "events (cp0_q c0) = pre @ xs \<Longrightarrow> holds_events buf pos xs \<Longrightarrow>
    get_le32 buf (pos + 8 * length xs) = Some 0xFFFFFFFF \<Longrightarrow> 0xFFFFFFFF \<notin> evt_type ` set xs \<Longrightarrow>
    wf_queue (cp0_q c) \<Longrightarrow> events (cp0_q c) = pre \<Longrightarrow> cp0_regs c CP0_COUNT_REG = cp0_regs c0 CP0_COUNT_REG \<Longrightarrow>
    (pre \<noteq> [] \<longrightarrow> cycle_count c = cycle_count c0 \<and> next_interrupt c = next_interrupt c0) \<Longrightarrow>
    \<exists>c'. load_events c buf pos = Some c' \<and> wf_queue (cp0_q c') \<and> events (cp0_q c') = pre @ xs
      \<and> cp0_regs c' = cp0_regs c
      \<and> (pre @ xs \<noteq> [] \<longrightarrow> cycle_count c' = cycle_count c0 \<and> next_interrupt c' = next_interrupt c0)"
proof (induction xs arbitrary: pre pos c)
  case Nil
  then show ?case by (simp add: load_events.simps [of c])
next
  case (Cons x xs)
  have room: "length (events (cp0_q c)) < INTERRUPT_NODES_POOL_CAPACITY"
    using length_events_le [of "cp0_q c0"] inv Cons.prems(1,6) by (simp add: cp0_inv_def)
  have le: "due c y \<le> due c x" if "y \<in> set pre" for y
  proof -
    have "due c = due c0" using that Cons.prems(7,8) by (intro due_cong) auto
    moreover have "sorted (map (due c0) (pre @ x # xs))" using inv Cons.prems(1) by (simp add: cp0_inv_def)
    ultimately show ?thesis using that by (simp add: sorted_append)
  qed
  then have ins: "ins_event c x (events (cp0_q c)) = pre @ [x]" using Cons.prems(6) by (simp add: ins_event_last)
  have head: "hd (pre @ [x]) = hd (events (cp0_q c0))" using Cons.prems(1) by (cases pre) simp_all
  from add_interrupt_event_count_spec [OF Cons.prems(5) room, of "evt_type x" "evt_count x", unfolded event_eta ins]
  obtain c1 where c1: "add_interrupt_event_count c (evt_type x) (evt_count x) = Some c1" "wf_queue (cp0_q c1)"
      "events (cp0_q c1) = pre @ [x]" "cp0_regs c1 = cp0_regs c"
      "next_interrupt c1 = next_interrupt c0" "cycle_count c1 = cycle_count c0"
    using inv head Cons.prems(1,7) by (auto simp: cp0_inv_def)
  have "\<exists>c'. load_events c1 buf (pos + 8) = Some c' \<and> wf_queue (cp0_q c') \<and> events (cp0_q c') = (pre @ [x]) @ xs
      \<and> cp0_regs c' = cp0_regs c1
      \<and> ((pre @ [x]) @ xs \<noteq> [] \<longrightarrow> cycle_count c' = cycle_count c0 \<and> next_interrupt c' = next_interrupt c0)"
    by (rule Cons.IH) (use Cons.prems c1 in \<open>auto simp: algebra_simps\<close>)
  then show ?case
    using Cons.prems(2,4) c1 by (subst load_events.simps) auto
qed

lemma load_eventqueue_infos_spec:
  assumes inv: "cp0_inv c0" and special: "SPECIAL_INT \<in> evt_type ` set (events (cp0_q c0))"
    and no_end: "0xFFFFFFFF \<notin> evt_type ` set (events (cp0_q c0))"
    and buf: "holds_events buf 0 (events (cp0_q c0))"
      "get_le32 buf (8 * length (events (cp0_q c0))) = Some 0xFFFFFFFF"
    and c: "wf_pool (q_pool (cp0_q c))" "cp0_regs c CP0_COUNT_REG = cp0_regs c0 CP0_COUNT_REG"
  shows "\<exists>c'. load_eventqueue_infos c buf = Some c' \<and> cp0_inv c' \<and> cp0_regs c' = cp0_regs c
    \<and> events (cp0_q c') =
        ins_event c0 \<lparr>evt_type = SPECIAL_INT, evt_count = special_count (cp0_regs c0 CP0_COUNT_REG)\<rparr>
          (del_type SPECIAL_INT (events (cp0_q c0)))"
proof -
  let ?evs = "events (cp0_q c0)" and ?c = "c\<lparr>cp0_q := clear_queue (cp0_q c)\<rparr>"
  let ?x = "\<lparr>evt_type = SPECIAL_INT, evt_count = special_count (cp0_regs c0 CP0_COUNT_REG)\<rparr>"
  have ne: "?evs \<noteq> []" using special by auto
  obtain c1 where c1: "load_events ?c buf 0 = Some c1" "wf_queue (cp0_q c1)" "events (cp0_q c1) = ?evs"
      "cp0_regs c1 = cp0_regs c" "cycle_count c1 = cycle_count c0" "next_interrupt c1 = next_interrupt c0"
    using load_events_spec [OF inv, of "[]" ?evs buf 0 ?c] wf_clear_queue [OF c(1)] buf no_end c(2) ne by auto
  have due: "due c1 = due c0" using c1 c(2) by (intro due_cong) simp_all
  have "cp0_ord c1" using inv c1 due by (simp add: cp0_inv_def cp0_ord_def)
  then obtain qu where qu: "remove_event (cp0_q c1) SPECIAL_INT = Some qu" "cp0_ord (c1\<lparr>cp0_q := qu\<rparr>)"
      "events qu = del_type SPECIAL_INT ?evs"
    using remove_event_ord [of c1 SPECIAL_INT] c1(3) by auto
  have "length (del_type SPECIAL_INT ?evs) < length ?evs"
    using length_del_type [OF special] by simp
  then have "length (events qu) < INTERRUPT_NODES_POOL_CAPACITY"
    using length_events_le [of "cp0_q c0"] inv qu(3) by (simp add: cp0_inv_def)
  then obtain c2 where c2: "add_interrupt_event_count (c1\<lparr>cp0_q := qu\<rparr>) SPECIAL_INT (special_count (cp0_regs c0 CP0_COUNT_REG)) = Some c2"
      "cp0_inv c2" "cp0_regs c2 = cp0_regs c1" "events (cp0_q c2) = ins_event (c1\<lparr>cp0_q := qu\<rparr>) ?x (events qu)"
    using add_after_remove [OF qu(2)] by fastforce
  have "due (c1\<lparr>cp0_q := qu\<rparr>) = due c0" unfolding due [symmetric] by (rule due_cong) simp_all
  then have "events (cp0_q c2) = ins_event c0 ?x (del_type SPECIAL_INT ?evs)"
    using c2(4) qu(3) by (simp add: ins_event_def)
  moreover have "load_eventqueue_infos c buf = Some c2"
    using c1(1,4) qu(1) c2(1) c(2) by (simp add: load_eventqueue_infos_def)
  ultimately show ?thesis using c2(2,3) c1(4) by auto
qed

section \<open>Properties\<close>

text \<open>
  C24: Saving the queue and loading it back restores every event. Whatever queue the loading
  coprocessor holds, if its count register is the one that was saved, the loaded queue satisfies the
  scheduling invariant and holds the saved events in the saved order, with the special event placed
  again at the special count of the current count. The saved image is 8 bytes for each event and a
  four-byte terminator, and nothing past the buffer is touched.
\<close>

theorem eventqueue_roundtrip:
  assumes "cp0_inv c0" "SPECIAL_INT \<in> evt_type ` set (events (cp0_q c0))"
    "0xFFFFFFFF \<notin> evt_type ` set (events (cp0_q c0))"
    "8 * length (events (cp0_q c0)) + 4 \<le> length buf"
    "wf_pool (q_pool (cp0_q c))" "cp0_regs c CP0_COUNT_REG = cp0_regs c0 CP0_COUNT_REG"
  shows "\<exists>buf' c'. save_eventqueue_infos c0 buf = Some (buf', 8 * length (events (cp0_q c0)) + 4)
    \<and> length buf' = length buf \<and> load_eventqueue_infos c buf' = Some c' \<and> cp0_inv c'
    \<and> events (cp0_q c') =
        ins_event c0 \<lparr>evt_type = SPECIAL_INT, evt_count = special_count (cp0_regs c0 CP0_COUNT_REG)\<rparr>
          (del_type SPECIAL_INT (events (cp0_q c0)))"
proof -
  have "wf_queue (cp0_q c0)" using assms(1) by (simp add: cp0_inv_def)
  from save_eventqueue_infos_spec [OF this assms(4)] obtain buf' where
    b: "save_eventqueue_infos c0 buf = Some (buf', 8 * length (events (cp0_q c0)) + 4)" "length buf' = length buf"
      "holds_events buf' 0 (events (cp0_q c0))" "get_le32 buf' (8 * length (events (cp0_q c0))) = Some 0xFFFFFFFF"
    by blast
  from load_eventqueue_infos_spec [OF assms(1,2,3) b(3,4) assms(5,6)] b(1,2) show ?thesis by blast
qed

end
