(* ===== verification/Queue_Claims.thy ===== *)
theory Queue_Claims
  imports Queue_Save
begin

text \<open>
  The properties of the event queue: refinement of its operations by operations on a sorted list,
  the invariant in every reachable state, the handlers and the dispatch of the head.
\<close>

section \<open>The state at power-on\<close>

text \<open>The zero-initialised coprocessor of \<^verbatim>\<open>g_dev\<close>, with the configured counter factor.\<close>

definition blank_cp0 :: cp0 where
  "blank_cp0 = \<lparr>cp0_regs = \<lambda>_. 0, latch = 0, interrupt_unsafe_state = 0,
     cp0_q = \<lparr>q_pool = \<lparr>nodes = replicate INTERRUPT_NODES_POOL_CAPACITY \<lparr>data = \<lparr>evt_type = 0, evt_count = 0\<rparr>, nxt = None\<rparr>,
                        stack = replicate INTERRUPT_NODES_POOL_CAPACITY 0, pidx = 0\<rparr>, q_first = None\<rparr>,
     next_interrupt = 0, cycle_count = 0, last_addr = 0, count_per_op = 2, count_per_op_denom_pot = 0,
     cp0_tlb = \<lparr>entries = [], LUT_r = \<lambda>_. 0, LUT_w = \<lambda>_. 0\<rparr>\<rparr>"

definition boot_cp0 :: cp0 where
  "boot_cp0 = the (poweron_cp0 blank_cp0)"

lemma cp0_inv_tlb [simp]: "cp0_inv (c\<lparr>cp0_tlb := t\<rparr>) = cp0_inv c"
proof -
  have "due (c\<lparr>cp0_tlb := t\<rparr>) = due c" by (rule due_cong) simp_all
  then show ?thesis by (simp add: cp0_inv_def)
qed

lemma poweron_cp0_spec:
  assumes "wf_pool (q_pool (cp0_q c))"
  shows "\<exists>c'. poweron_cp0 c = Some c' \<and> cp0_inv c' \<and> cp0_regs c' CP0_COUNT_REG = 0x5000
    \<and> cp0_regs c' CP0_COMPARE_REG = 0 \<and> count_per_op c' = count_per_op c \<and> wf_pool (q_pool (cp0_q c')) \<and> entries (cp0_tlb c') = replicate 32 zero_entry
    \<and> events (cp0_q c') = [\<lparr>evt_type = SPECIAL_INT, evt_count = 0x80000000\<rparr>, \<lparr>evt_type = COMPARE_INT, evt_count = 0\<rparr>]"
proof -
  let ?s = "\<lparr>evt_type = SPECIAL_INT, evt_count = 0x80000000\<rparr>"
  let ?k = "\<lparr>evt_type = COMPARE_INT, evt_count = 0\<rparr>"
  define c1 where "c1 = c\<lparr>
       cp0_regs := (\<lambda>_. 0)(CP0_RANDOM_REG := 31, CP0_STATUS_REG := 0x34000000,
         CP0_CONFIG_REG := 0x6e463, CP0_PREVID_REG := 0xb10, CP0_COUNT_REG := 0x5000,
         CP0_CAUSE_REG := 0x5c, CP0_CONTEXT_REG := 0x7ffff0, CP0_EPC_REG := 0xffffffff,
         CP0_BADVADDR_REG := 0xffffffff, CP0_ERROREPC_REG := 0xffffffff),
       interrupt_unsafe_state := 0, next_interrupt := 0, cycle_count := 0,
       last_addr := 0xbfc00000\<rparr>"
  have "wf_pool (q_pool (cp0_q c1))" "cp0_regs c1 CP0_COUNT_REG = 0x5000"
    using assms by (simp_all add: c1_def)
  from init_interrupt_spec [OF this] obtain qu where
    qu: "init_interrupt c1 = Some (c1\<lparr>cp0_q := qu, next_interrupt := 0x80000000, cycle_count := 0x5000 - 0x80000000\<rparr>)"
      "wf_queue qu" "events qu = [?s, ?k]" by blast
  let ?c = "c1\<lparr>cp0_q := qu, next_interrupt := 0x80000000, cycle_count := 0x5000 - 0x80000000\<rparr>"
  have now: "now ?c = 0x5000" by (simp add: now_def sless_pos_iff c1_def)
  have "due ?c ?s \<le> due ?c ?k" unfolding due_def now by simp
  then have "cp0_inv ?c" using qu by (simp add: cp0_inv_def c1_def)
  moreover have "wf_pool (q_pool qu)" using qu(2) by (simp add: wf_queue_def pool_rep_def wf_pool_def)
  moreover have "poweron_cp0 c = Some (?c\<lparr>cp0_tlb := poweron_tlb (cp0_tlb ?c)\<rparr>)"
    unfolding poweron_cp0_def c1_def [symmetric] qu(1) by simp
  ultimately show ?thesis using qu(3) by (auto simp: c1_def poweron_tlb_def)
qed

lemma boot_cp0_spec:
  "cp0_inv boot_cp0" "cp0_regs boot_cp0 CP0_COUNT_REG = 0x5000" "wf_pool (q_pool (cp0_q boot_cp0))"
  "events (cp0_q boot_cp0) = [\<lparr>evt_type = SPECIAL_INT, evt_count = 0x80000000\<rparr>, \<lparr>evt_type = COMPARE_INT, evt_count = 0\<rparr>]"
  "poweron_cp0 blank_cp0 = Some boot_cp0" "cp0_regs boot_cp0 CP0_COMPARE_REG = 0"
  "count_per_op boot_cp0 = 2"
proof -
  have "wf_pool (q_pool (cp0_q blank_cp0))" by (simp add: wf_pool_def blank_cp0_def)
  from poweron_cp0_spec [OF this] show
    "cp0_inv boot_cp0" "cp0_regs boot_cp0 CP0_COUNT_REG = 0x5000" "wf_pool (q_pool (cp0_q boot_cp0))"
    "events (cp0_q boot_cp0) = [\<lparr>evt_type = SPECIAL_INT, evt_count = 0x80000000\<rparr>, \<lparr>evt_type = COMPARE_INT, evt_count = 0\<rparr>]"
    "poweron_cp0 blank_cp0 = Some boot_cp0" "cp0_regs boot_cp0 CP0_COMPARE_REG = 0"
    "count_per_op boot_cp0 = 2"
    by (auto simp: boot_cp0_def) (simp add: blank_cp0_def)
qed

lemma boot_cp0_now: "now boot_cp0 = 0x5000"
proof -
  have "cycle_count boot_cp0 = 0x5000 - 0x80000000"
    using boot_cp0_spec(1,2,4) by (simp add: cp0_inv_def)
  then show ?thesis using boot_cp0_spec(2) by (simp add: now_def sless_pos_iff)
qed

section \<open>What the processor does to the queue\<close>

text \<open>
  The steps: a device schedules an event, the head is delivered, the special event is handled, an
  event is moved (\<^verbatim>\<open>remove_event\<close> followed by an insertion), and the count register advances, not so
  far that the head becomes overdue by $2^{31}$ counts (the special event is at most that far away).
\<close>

inductive qstep :: "r4300_core \<Rightarrow> r4300_core \<Rightarrow> bool" where
  schedule: "add_interrupt_event_count (cp0 r) ty n = Some c \<Longrightarrow> qstep r (r\<lparr>cp0 := c\<rparr>)"
| deliver: "events (cp0_q (cp0 r)) \<noteq> [] \<Longrightarrow> remove_interrupt_event (cp0 r) = Some c \<Longrightarrow> qstep r (r\<lparr>cp0 := c\<rparr>)"
| special: "events (cp0_q (cp0 r)) \<noteq> [] \<Longrightarrow> special_int_handler r = Some r' \<Longrightarrow> qstep r r'"
| move: "ty \<in> evt_type ` set (events (cp0_q (cp0 r))) \<Longrightarrow> remove_event (cp0_q (cp0 r)) ty = Some qu \<Longrightarrow>
    add_interrupt_event_count ((cp0 r)\<lparr>cp0_q := qu\<rparr>) ty n = Some c \<Longrightarrow> qstep r (r\<lparr>cp0 := c\<rparr>)"
| advance: "(events (cp0_q (cp0 r)) \<noteq> [] \<Longrightarrow>
      elapsed_count r \<le> due (cp0 r) (hd (events (cp0_q (cp0 r)))) \<or> 0 <s cycle_count (cp0 r) + elapsed_count r) \<Longrightarrow>
    qstep r (cp0_update_count r)"

inductive_cases qstepE: "qstep r r'"

lemma special_int_handler_spec:
  assumes "cp0_inv (cp0 r)" "events (cp0_q (cp0 r)) \<noteq> []"
  shows "\<exists>c. special_int_handler r = Some (r\<lparr>cp0 := c\<rparr>) \<and> cp0_inv c \<and> cp0_regs c = cp0_regs (cp0 r)
    \<and> mset (events (cp0_q c)) = add_mset \<lparr>evt_type = SPECIAL_INT, evt_count = special_count (creg r CP0_COUNT_REG)\<rparr>
        (mset (tl (events (cp0_q (cp0 r)))))"
proof -
  obtain x xs where x: "events (cp0_q (cp0 r)) = x # xs" using assms(2) by (cases "events (cp0_q (cp0 r))") auto
  have wf: "wf_queue (cp0_q (cp0 r))" using assms(1) by (simp add: cp0_inv_def)
  obtain c1 where c1: "remove_interrupt_event (cp0 r) = Some c1" "cp0_inv c1" "events (cp0_q c1) = xs"
    using cp0_inv_remove [OF assms] x by auto
  have regs: "cp0_regs c1 = cp0_regs (cp0 r)"
    using remove_interrupt_event_spec [OF wf x] c1(1) by auto
  have room: "length (events (cp0_q c1)) < INTERRUPT_NODES_POOL_CAPACITY"
    using length_events_le [OF wf] x c1(3) by simp
  obtain c2 where "add_interrupt_event_count c1 SPECIAL_INT (special_count (creg r CP0_COUNT_REG)) = Some c2"
      "cp0_inv c2" "cp0_regs c2 = cp0_regs c1"
      "events (cp0_q c2) = ins_event c1 \<lparr>evt_type = SPECIAL_INT, evt_count = special_count (creg r CP0_COUNT_REG)\<rparr> xs"
    using add_after_remove [OF cp0_inv_ord [OF c1(2)] room] c1(3) by fastforce
  then show ?thesis
    using c1 regs x by (auto simp: special_int_handler_def upd_cp0_def mset_ins_event)
qed

lemma qstep_inv: "qstep r r' \<Longrightarrow> cp0_inv (cp0 r) \<Longrightarrow> cp0_inv (cp0 r')"
proof (induction rule: qstep.induct)
  case (schedule r ty n c)
  then show ?case using cp0_inv_add [of "cp0 r" ty n] by auto
next
  case (deliver r c)
  then show ?case using cp0_inv_remove [of "cp0 r"] by auto
next
  case (special r r')
  then show ?case using special_int_handler_spec [of r] by auto
next
  case (move ty r qu n c)
  from remove_event_ord [OF cp0_inv_ord [OF move.prems], of ty] move.hyps(2)
  have qu: "cp0_ord ((cp0 r)\<lparr>cp0_q := qu\<rparr>)" "events qu = del_type ty (events (cp0_q (cp0 r)))" by auto
  have "length (events qu) < INTERRUPT_NODES_POOL_CAPACITY"
    using length_del_type [OF move.hyps(1)] qu(2) length_events_le [of "cp0_q (cp0 r)"] move.prems
    by (simp add: cp0_inv_def)
  then show ?case using add_after_remove [OF qu(1), of ty n] move.hyps(3) by auto
next
  case (advance r)
  then show ?case by (intro cp0_inv_update_count) auto
qed

lemma reachable_inv: "qstep\<^sup>*\<^sup>* r r' \<Longrightarrow> cp0_inv (cp0 r) \<Longrightarrow> cp0_inv (cp0 r')"
  by (induction rule: rtranclp_induct) (auto intro: qstep_inv)

section \<open>Properties\<close>

text \<open>
  C1: Scheduling an event on the linked list implements insertion into a list sorted by the distance
  from the current count. From a state that satisfies the scheduling invariant the operation returns,
  the invariant holds again (list and pool well formed, no node lost or shared, events ordered by
  distance, \<^verbatim>\<open>next_interrupt\<close> and \<^verbatim>\<open>cycle_count\<close> those of the head), the coprocessor registers are
  unchanged, and the new event stands after every event that is due no later and before the first
  one that is due later; with the pool exhausted the queue is unchanged.
\<close>

theorem add_interrupt_event_refines:
  assumes "cp0_inv c"
  shows "\<exists>c'. add_interrupt_event c ty delay = Some c' \<and> cp0_inv c' \<and> cp0_regs c' = cp0_regs c
    \<and> events (cp0_q c') =
        (let x = \<lparr>evt_type = ty, evt_count = cp0_regs c CP0_COUNT_REG + delay\<rparr>
         in if length (events (cp0_q c)) < INTERRUPT_NODES_POOL_CAPACITY
            then takeWhile (\<lambda>y. due c y \<le> due c x) (events (cp0_q c)) @
                 x # dropWhile (\<lambda>y. due c y \<le> due c x) (events (cp0_q c))
            else events (cp0_q c))"
proof (cases "length (events (cp0_q c)) < INTERRUPT_NODES_POOL_CAPACITY")
  case True
  then show ?thesis
    using add_after_remove [OF cp0_inv_ord [OF assms] True, of ty "cp0_regs c CP0_COUNT_REG + delay"]
    by (simp add: add_interrupt_event_def ins_event_def Let_def)
next
  case False
  then have "length (events (cp0_q c)) = INTERRUPT_NODES_POOL_CAPACITY"
    using length_events_le [of "cp0_q c"] assms by (simp add: cp0_inv_def)
  then show ?thesis
    using assms by (simp add: add_interrupt_event_def add_interrupt_event_count_full cp0_inv_def)
qed

theorem add_interrupt_event_refines_witness:
  "\<exists>c'. add_interrupt_event boot_cp0 AI_INT 0x100 = Some c' \<and> cp0_inv c'
    \<and> map evt_count (events (cp0_q c')) = [0x5100, 0x80000000, 0]"
  using add_interrupt_event_refines [OF boot_cp0_spec(1), of AI_INT "0x100"]
  by (auto simp: boot_cp0_spec due_def boot_cp0_now INTERRUPT_NODES_POOL_CAPACITY_def)


definition boot_r4300 :: r4300_core where
  "boot_r4300 = \<lparr>gpr = \<lambda>_. 0, hi = 0, lo = 0, llbit = 0, pc = 0xbfc00000, delay_slot = 0, skip_jump = 0,
     stop = 0, reset_hard_job = 0, dyna_interp = 0, fast_memory = 0, emu_mode = EMUMODE_PURE_INTERPRETER,
     cp0 = boot_cp0, randomize_interrupt = 0, start_address = 0,
     cp1 = poweron_cp1 \<lparr>fpr = (\<lambda>_. 0), fcr0 = 0, fcr31 = 0, regs_simple = (\<lambda>i. (i, 0)), regs_double = (\<lambda>i. i),
       rounding_mode = 0, fe_round = FE_TONEAREST\<rparr>, cp2_latch = 0\<rparr>"


text \<open>
  C9: A batch of at most 16 events scheduled on an empty queue, in any order, is delivered completely,
  once each, and in order of distance from the reference count at which delivery starts.
\<close>

theorem scheduled_batch_delivered:
  assumes "cp0_inv c" "events (cp0_q c) = []" "length xs \<le> INTERRUPT_NODES_POOL_CAPACITY"
  shows "\<exists>c1 ys c2. add_all add_interrupt_event_count c xs = Some c1
    \<and> drain remove_interrupt_event (\<lambda>c. events (cp0_q c)) (length xs) c1 = Some (ys, c2)
    \<and> mset ys = mset xs \<and> sorted (map (due c1) ys) \<and> events (cp0_q c2) = []"
proof -
  obtain c1 ys c2 where "add_all add_interrupt_event_count c xs = Some c1" "cp0_inv c1" "ys = events (cp0_q c1)"
    "drain remove_interrupt_event (\<lambda>c. events (cp0_q c)) (length xs) c1 = Some (ys, c2)" "mset ys = mset xs"
    "events (cp0_q c2) = []"
    using eq.deliver_all [OF assms] by blast
  then show ?thesis by (auto simp: cp0_inv_def)
qed

theorem scheduled_batch_delivered_witness:
  "\<exists>c1 ys c2. add_all add_interrupt_event_count (boot_cp0\<lparr>cp0_q := clear_queue (cp0_q boot_cp0)\<rparr>)
       [\<lparr>evt_type = SI_INT, evt_count = 0x9000\<rparr>, \<lparr>evt_type = PI_INT, evt_count = 0x7000\<rparr>] = Some c1
    \<and> drain remove_interrupt_event (\<lambda>c. events (cp0_q c)) 2 c1 = Some (ys, c2)
    \<and> mset ys = {#\<lparr>evt_type = SI_INT, evt_count = 0x9000\<rparr>, \<lparr>evt_type = PI_INT, evt_count = 0x7000\<rparr>#}"
proof -
  let ?c = "boot_cp0\<lparr>cp0_q := clear_queue (cp0_q boot_cp0)\<rparr>"
  have "cp0_inv ?c" "events (cp0_q ?c) = []"
    using wf_clear_queue [OF boot_cp0_spec(3)] by (simp_all add: cp0_inv_empty)
  from scheduled_batch_delivered [OF this,
      of "[\<lparr>evt_type = SI_INT, evt_count = 0x9000\<rparr>, \<lparr>evt_type = PI_INT, evt_count = 0x7000\<rparr>]"]
  show ?thesis by (auto simp: INTERRUPT_NODES_POOL_CAPACITY_def numeral_2_eq_2)
qed

text \<open>
  Handling the special event keeps the count register within reach of the queue: the handler
  returns, the invariant holds, the head is replaced by one new special event, and that event lies
  ahead of the current count by at least 1 and at most $2^{31}$.
\<close>

theorem special_int_handler_keeps_horizon:
  assumes "cp0_inv (cp0 r)" "events (cp0_q (cp0 r)) \<noteq> []"
  shows "\<exists>r' x. special_int_handler r = Some r' \<and> cp0_inv (cp0 r') \<and> evt_type x = SPECIAL_INT
    \<and> mset (events (cp0_q (cp0 r'))) = add_mset x (mset (tl (events (cp0_q (cp0 r)))))
    \<and> 0 < unat (evt_count x - creg r' CP0_COUNT_REG) \<and> unat (evt_count x - creg r' CP0_COUNT_REG) \<le> 0x80000000"
proof -
  let ?x = "\<lparr>evt_type = SPECIAL_INT, evt_count = special_count (creg r CP0_COUNT_REG)\<rparr>"
  obtain c where "special_int_handler r = Some (r\<lparr>cp0 := c\<rparr>)" "cp0_inv c" "cp0_regs c = cp0_regs (cp0 r)"
    "mset (events (cp0_q c)) = add_mset ?x (mset (tl (events (cp0_q (cp0 r)))))"
    using special_int_handler_spec [OF assms] by blast
  then show ?thesis
    using special_count_distance [of "creg r CP0_COUNT_REG"]
    by (intro exI [of _ "r\<lparr>cp0 := c\<rparr>"] exI [of _ ?x]) simp
qed

theorem special_int_handler_keeps_horizon_witness:
  "\<exists>r'. special_int_handler boot_r4300 = Some r' \<and> cp0_inv (cp0 r')"
  using special_int_handler_keeps_horizon [of boot_r4300] boot_cp0_spec by (auto simp: boot_r4300_def)

text \<open>
  C29: Writing the count register moves the time base and nothing else: \<^verbatim>\<open>translate_event_queue\<close>
  returns, the count is the new base, every event other than the compare and special events keeps its
  distance to the count, one compare event stands at the compare register and one special event at
  the special count of the new base, and \<^verbatim>\<open>next_interrupt\<close> and \<^verbatim>\<open>cycle_count\<close> are those of the new head.
\<close>

theorem translate_event_queue_spec:
  fixes c base
  defines "keep \<equiv> del_type SPECIAL_INT (del_type COMPARE_INT (events (cp0_q c)))"
  assumes "cp0_inv c" "length keep + 2 \<le> INTERRUPT_NODES_POOL_CAPACITY"
  shows "\<exists>c'. translate_event_queue c base = Some c' \<and> wf_queue (cp0_q c')
    \<and> cp0_regs c' = (cp0_regs c)(CP0_COUNT_REG := base)
    \<and> mset (events (cp0_q c')) = add_mset \<lparr>evt_type = COMPARE_INT, evt_count = cp0_regs c CP0_COMPARE_REG\<rparr>
        (add_mset \<lparr>evt_type = SPECIAL_INT, evt_count = special_count base\<rparr>
          (image_mset (\<lambda>x. x\<lparr>evt_count := base + (evt_count x - cp0_regs c CP0_COUNT_REG)\<rparr>) (mset keep)))
    \<and> next_interrupt c' = evt_count (hd (events (cp0_q c')))
    \<and> cycle_count c' = base - evt_count (hd (events (cp0_q c')))"
proof -
  have "shift_event (cp0_regs c CP0_COUNT_REG) base = (\<lambda>x. x\<lparr>evt_count := base + (evt_count x - cp0_regs c CP0_COUNT_REG)\<rparr>)"
    by (simp add: shift_event_def fun_eq_iff add.commute)
  then show ?thesis
    using translate_event_queue_ok [OF cp0_inv_ord [OF assms(2)], of base] assms(3) unfolding keep_def by simp
qed

theorem translate_event_queue_spec_witness:
  "\<exists>c'. translate_event_queue boot_cp0 0x12345678 = Some c' \<and> cp0_regs c' CP0_COUNT_REG = 0x12345678
    \<and> mset (map evt_count (events (cp0_q c'))) = {#0, 0x80000000#}"
proof -
  have "length (del_type SPECIAL_INT (del_type COMPARE_INT (events (cp0_q boot_cp0)))) + 2 \<le> INTERRUPT_NODES_POOL_CAPACITY"
    by (simp add: boot_cp0_spec INTERRUPT_NODES_POOL_CAPACITY_def)
  from translate_event_queue_spec [OF boot_cp0_spec(1) this, of "0x12345678"] obtain c' where
    c': "translate_event_queue boot_cp0 0x12345678 = Some c'"
      "cp0_regs c' = (cp0_regs boot_cp0)(CP0_COUNT_REG := 0x12345678)"
      "mset (events (cp0_q c')) = {#\<lparr>evt_type = COMPARE_INT, evt_count = cp0_regs boot_cp0 CP0_COMPARE_REG\<rparr>,
        \<lparr>evt_type = SPECIAL_INT, evt_count = special_count 0x12345678\<rparr>#}"
    by (auto simp: boot_cp0_spec)
  have "cp0_regs boot_cp0 CP0_COMPARE_REG = 0" by (rule boot_cp0_spec(6))
  then have "mset (map evt_count (events (cp0_q c'))) = {#0, 0x80000000#}"
    using c'(3) by (simp add: special_count_def)
  then show ?thesis using c' by auto
qed

lemma gen_interrupt_removes:
  assumes "cp0_inv (cp0 (r4300 s))" "events (cp0_q (cp0 (r4300 s))) = x # xs"
    and "dispatch_of (evt_type x) = Some (True, h)"
    and "stop (r4300 s) \<noteq> 1" "reset_hard_job (r4300 s) = 0" "skip_jump (r4300 s) = 0"
    and "\<And>s. savestates_get_job env s = savestates_job_nothing"
  shows "\<exists>c. gen_interrupt env s = interrupt_handlers env h (s\<lparr>r4300 := (r4300 s)\<lparr>cp0 := c\<rparr>\<rparr>)
    \<and> cp0_inv c \<and> events (cp0_q c) = xs \<and> cp0_regs c = cp0_regs (cp0 (r4300 s))"
proof -
  let ?c = "cp0 (r4300 s)"
  have wf: "wf_queue (cp0_q ?c)" using assms(1) by (simp add: cp0_inv_def)
  obtain c where c: "remove_interrupt_event ?c = Some c" "cp0_inv c" "events (cp0_q c) = xs"
    using cp0_inv_remove [OF assms(1)] assms(2) by auto
  have regs: "cp0_regs c = cp0_regs ?c" using remove_interrupt_event_spec [OF wf assms(2)] c(1) by auto
  have ne: "q_nodes (cp0_q ?c) \<noteq> []" using assms(2) by (auto simp: events_def)
  then have hd: "data (nodes (q_pool (cp0_q ?c)) ! hd (q_nodes (cp0_q ?c))) = x"
    using hd_events [of "cp0_q ?c"] assms(2) by simp
  have h: "h < 16" using assms(3) by (auto simp: dispatch_of_def split: if_splits)
  have "dispatch_head env s = interrupt_handlers env h (s\<lparr>r4300 := (r4300 s)\<lparr>cp0 := c\<rparr>\<rparr>)"
    using assms(2,3) c(1) hd h
    by (simp add: dispatch_head_def deref_first [OF wf] upd_r4300_def upd_cp0_def call_interrupt_handler_def)
  then have "gen_interrupt env s = interrupt_handlers env h (s\<lparr>r4300 := (r4300 s)\<lparr>cp0 := c\<rparr>\<rparr>)"
    using assms(4-7)
    by (cases "interrupt_handlers env h (s\<lparr>r4300 := (r4300 s)\<lparr>cp0 := c\<rparr>\<rparr>)") (simp_all add: gen_interrupt_def)
  then show ?thesis using c regs by blast
qed

text \<open>
  Dispatching the head calls the handler of its type, exactly that one. With no save state job, no
  pending reset and no pending jump, for an event type that the \<^verbatim>\<open>switch\<close> of \<^verbatim>\<open>gen_interrupt\<close> removes
  first, the handler runs on the state with exactly the head removed and the invariant intact, and its
  outcome, with no save pending afterwards, is the outcome of \<^verbatim>\<open>gen_interrupt\<close>.
\<close>

theorem gen_interrupt_dispatch:
  assumes "cp0_inv (cp0 (r4300 s))" "events (cp0_q (cp0 (r4300 s))) = x # xs"
    and "dispatch_of (evt_type x) = Some (True, h)"
    and "stop (r4300 s) \<noteq> 1" "reset_hard_job (r4300 s) = 0" "skip_jump (r4300 s) = 0"
    and "\<And>s. savestates_get_job env s = savestates_job_nothing"
  shows "\<exists>c. gen_interrupt env s = interrupt_handlers env h (s\<lparr>r4300 := (r4300 s)\<lparr>cp0 := c\<rparr>\<rparr>)
    \<and> cp0_inv c \<and> events (cp0_q c) = xs \<and> cp0_regs c = cp0_regs (cp0 (r4300 s))"
  using assms by (rule gen_interrupt_removes)

definition idle_env :: "(nat \<Rightarrow> 's \<Rightarrow> 's option) \<Rightarrow> 's interrupt_env" where
  "idle_env hs = \<lparr>interrupt_handlers = hs, savestates_get_job = \<lambda>_. savestates_job_nothing,
     savestates_load = Some, savestates_save = Some\<rparr>"

theorem gen_interrupt_dispatch_witness:
  "\<exists>c1 c2. add_interrupt_event_count boot_cp0 PI_INT 0x5002 = Some c1
    \<and> gen_interrupt (idle_env (\<lambda>h s. Some (s\<lparr>g_gs_vi_counter := word_of_nat h\<rparr>)))
        \<lparr>r4300 = boot_r4300\<lparr>cp0 := c1\<rparr>, g_gs_vi_counter = 0\<rparr>
      = Some \<lparr>r4300 = boot_r4300\<lparr>cp0 := c2\<rparr>, g_gs_vi_counter = 4\<rparr>
    \<and> events (cp0_q c2) = events (cp0_q boot_cp0)"
proof -
  have "ins_event boot_cp0 \<lparr>evt_type = PI_INT, evt_count = 0x5002\<rparr> (events (cp0_q boot_cp0))
      = \<lparr>evt_type = PI_INT, evt_count = 0x5002\<rparr> # events (cp0_q boot_cp0)"
    by (simp add: ins_event_def due_def boot_cp0_now boot_cp0_spec)
  then obtain c1 where c1: "add_interrupt_event_count boot_cp0 PI_INT 0x5002 = Some c1" "cp0_inv c1"
      "events (cp0_q c1) = \<lparr>evt_type = PI_INT, evt_count = 0x5002\<rparr> # events (cp0_q boot_cp0)"
    using add_after_remove [OF cp0_inv_ord [OF boot_cp0_spec(1)], of PI_INT "0x5002"]
    by (auto simp: boot_cp0_spec INTERRUPT_NODES_POOL_CAPACITY_def)
  let ?s = "\<lparr>r4300 = boot_r4300\<lparr>cp0 := c1\<rparr>, g_gs_vi_counter = 0\<rparr>"
  let ?env = "idle_env (\<lambda>h s. Some (s\<lparr>g_gs_vi_counter := word_of_nat h\<rparr>)) :: r4300_sys interrupt_env"
  have "\<exists>c. gen_interrupt ?env ?s = interrupt_handlers ?env 4 (?s\<lparr>r4300 := (r4300 ?s)\<lparr>cp0 := c\<rparr>\<rparr>)
      \<and> cp0_inv c \<and> events (cp0_q c) = events (cp0_q boot_cp0) \<and> cp0_regs c = cp0_regs (cp0 (r4300 ?s))"
    by (rule gen_interrupt_dispatch [where x = "\<lparr>evt_type = PI_INT, evt_count = 0x5002\<rparr>"])
      (use c1 in \<open>simp_all add: boot_r4300_def idle_env_def dispatch_of_def\<close>)
  then show ?thesis using c1(1) by (auto simp: idle_env_def boot_r4300_def)
qed

text \<open>
  The round trip of the saved queue at a concrete state: the queue at power-on, saved into the
  1024-byte buffer of \<^verbatim>\<open>savestates.c\<close> and loaded into a coprocessor whose queue was emptied.
\<close>

theorem eventqueue_roundtrip_witness:
  "\<exists>buf' c'. save_eventqueue_infos boot_cp0 (replicate 1024 0) = Some (buf', 20)
    \<and> load_eventqueue_infos (boot_cp0\<lparr>cp0_q := clear_queue (cp0_q boot_cp0)\<rparr>) buf' = Some c'
    \<and> events (cp0_q c') = events (cp0_q boot_cp0)"
proof -
  have "wf_pool (q_pool (cp0_q (boot_cp0\<lparr>cp0_q := clear_queue (cp0_q boot_cp0)\<rparr>)))"
    using boot_cp0_spec(3) by (simp add: wf_pool_def clear_queue_def clear_pool_def)
  moreover have "ins_event boot_cp0 \<lparr>evt_type = SPECIAL_INT, evt_count = special_count 0x5000\<rparr>
      (del_type SPECIAL_INT (events (cp0_q boot_cp0))) = events (cp0_q boot_cp0)"
    by (simp add: ins_event_def due_def boot_cp0_now boot_cp0_spec special_count_def)
  ultimately show ?thesis
    using eventqueue_roundtrip [OF boot_cp0_spec(1), of "replicate 1024 0"
      "boot_cp0\<lparr>cp0_q := clear_queue (cp0_q boot_cp0)\<rparr>"]
    by (simp add: boot_cp0_spec) blast
qed

end
