(* ===== verification/Tlb_Claims.thy ===== *)
theory Tlb_Claims
  imports Queue_Claims
begin

text \<open>
  The properties of address translation: what writing a TLB entry does to later translations, the
  instructions that read and probe the entries, the exceptions of a miss, and the entry on which
  expanding the page tables does not end.
\<close>

section \<open>Lookups after mapping\<close>

text \<open>The page table that a lookup consults for an access of kind \<open>w\<close> (1 is a write).\<close>

definition lut_of :: "tlb \<Rightarrow> nat \<Rightarrow> nat \<Rightarrow> u32" where
  "lut_of t w = (if w = 1 then LUT_w t else LUT_r t)"

lemma tlb_lookup_lut:
  "tlb_lookup t a w = (if lut_of t w (page_of a) \<noteq> 0
     then Some ((lut_of t w (page_of a) AND 0xFFFFF000) OR (a AND 0xFFF)) else None)"
  by (simp add: tlb_lookup_def lut_of_def Let_def)

lemma lut_of_half_tables:
  "lut_of (half_tables on d f s e t) w p =
     (if on \<and> (w = 1 \<longrightarrow> d) then half_fill f s e (lut_of t w) p else lut_of t w p)"
  by (auto simp: half_tables_def lut_of_def)

lemma odd_pages:
  assumes fit: "entry_fits e sz" and a: "te_start_odd e \<le> a" "a \<le> te_end_odd e"
  shows "page_of (te_start_odd e) \<le> page_of a" "4096 * page_of a < unat (te_end_odd e)"
proof -
  note u = entry_fits_unat [OF fit]
  obtain s z where sz: "unat (te_start_even e) = 4096 * s" "unat sz = 4096 * z"
    using fit by (auto simp: entry_fits_def elim!: dvdE)
  have n: "4096 * s + 4096 * z + 4096 \<le> unat a" "unat a \<le> 4096 * s + 2 * (4096 * z) + 0x1FFF"
    using a u sz by (simp_all add: word_le_nat_alt)
  show "page_of (te_start_odd e) \<le> page_of a"
    using n(1) u sz by (simp add: page_of_nat div_le_mono)
  have "unat a div 4096 \<le> s + 2 * z + 1" using n(2) by auto
  then show "4096 * page_of a < unat (te_end_odd e)" by (simp add: page_of_nat u sz)
qed

text \<open>Conditions under which an access of kind \<open>w\<close> to \<open>a\<close> goes through the even or the odd half.\<close>

definition hits_even :: "tlb_entry \<Rightarrow> u32 \<Rightarrow> nat \<Rightarrow> bool" where
  "hits_even e a w \<longleftrightarrow> te_start_even e \<le> a \<and> a \<le> te_end_even e \<and> te_v_even e \<noteq> 0
     \<and> lut_mappable (te_start_even e) (te_end_even e) (te_phys_even e) \<and> (w = 1 \<longrightarrow> te_d_even e \<noteq> 0)"

definition hits_odd :: "tlb_entry \<Rightarrow> u32 \<Rightarrow> nat \<Rightarrow> bool" where
  "hits_odd e a w \<longleftrightarrow> te_start_odd e \<le> a \<and> a \<le> te_end_odd e \<and> te_v_odd e \<noteq> 0
     \<and> lut_mappable (te_start_odd e) (te_end_odd e) (te_phys_odd e) \<and> (w = 1 \<longrightarrow> te_d_odd e \<noteq> 0)"

lemma lookup_lut_value:
  assumes "lut_of t w (page_of a) = lut_value phys start (page_addr (page_of a))"
    "4096 dvd unat phys" "4096 dvd unat start"
  shows "tlb_lookup t a w = Some (0x80000000 OR (phys + (a - start)))"
  using assms lut_value_nonzero lut_value_translates by (simp add: tlb_lookup_lut)

lemma tlb_map_lookup:
  assumes map: "tlb_map t idx = Some t'" "idx < 32" "idx < length (entries t)" "entries t ! idx = e"
    and fit: "entry_fits e sz" and al: "4096 dvd unat (te_phys_even e)" "4096 dvd unat (te_phys_odd e)"
  shows "hits_even e a w \<Longrightarrow> tlb_lookup t' a w = Some (0x80000000 OR (te_phys_even e + (a - te_start_even e)))"
    and "hits_odd e a w \<Longrightarrow> tlb_lookup t' a w = Some (0x80000000 OR (te_phys_odd e + (a - te_start_odd e)))"
proof -
  have wf: "wf_entry e" using fit by (rule entry_fits_wf)
  have t': "t' = half_tables (te_v_odd e \<noteq> 0 \<and> lut_mappable (te_start_odd e) (te_end_odd e) (te_phys_odd e))
        (te_d_odd e \<noteq> 0) (lut_value (te_phys_odd e) (te_start_odd e)) (te_start_odd e) (te_end_odd e)
      (half_tables (te_v_even e \<noteq> 0 \<and> lut_mappable (te_start_even e) (te_end_even e) (te_phys_even e))
        (te_d_even e \<noteq> 0) (lut_value (te_phys_even e) (te_start_even e)) (te_start_even e) (te_end_even e) t)"
    using tlb_map_spec [of idx t] map wf by (simp add: Let_def)
  have start: "4096 dvd unat (te_start_even e)" "4096 dvd unat (te_start_odd e)"
    using wf by (auto simp: wf_entry_def wf_half_def)
  show "tlb_lookup t' a w = Some (0x80000000 OR (te_phys_even e + (a - te_start_even e)))" if h: "hits_even e a w"
  proof (rule lookup_lut_value)
    show "lut_of t' w (page_of a) = lut_value (te_phys_even e) (te_start_even e) (page_addr (page_of a))"
      using even_pages [OF fit, of a] h
      by (auto simp: t' lut_of_half_tables half_fill_def hits_even_def)
  qed (use al start in auto)
  show "tlb_lookup t' a w = Some (0x80000000 OR (te_phys_odd e + (a - te_start_odd e)))" if h: "hits_odd e a w"
  proof (rule lookup_lut_value)
    show "lut_of t' w (page_of a) = lut_value (te_phys_odd e) (te_start_odd e) (page_addr (page_of a))"
      using odd_pages [OF fit, of a] h
      by (auto simp: t' lut_of_half_tables half_fill_def hits_odd_def)
  qed (use al start in auto)
qed

lemma tlb_entry_of_regs_pfn:
  "te_phys_even (tlb_entry_of_regs cr e) = push_bit 12 (drop_bit 6 (cr CP0_ENTRYLO0_REG AND 0x3FFFFFC0))"
  "te_phys_odd (tlb_entry_of_regs cr e) = push_bit 12 (drop_bit 6 (cr CP0_ENTRYLO1_REG AND 0x3FFFFFC0))"
  by (simp_all add: tlb_entry_of_regs_def Let_def)

lemma tlb_entry_of_regs_phys:
  "4096 dvd unat (te_phys_even (tlb_entry_of_regs cr e))" "4096 dvd unat (te_phys_odd (tlb_entry_of_regs cr e))"
  unfolding tlb_entry_of_regs_pfn by (rule dvd_push_bit, simp)+

section \<open>The loop that does not end\<close>

lemma tlb_map_diverges:
  assumes "n < 32" "n < length (entries t)" "te_v_odd (entries t ! n) \<noteq> 0"
    "lut_mappable (te_start_odd (entries t ! n)) (te_end_odd (entries t ! n)) (te_phys_odd (entries t ! n))"
    "0xFFFFF000 < unat (te_end_odd (entries t ! n))" "4096 dvd unat (te_start_odd (entries t ! n))"
  shows "tlb_map t n = None"
  using assms by (auto simp: tlb_map_def lut_fill_diverges Option.bind_eq_None_conv)

text \<open>The invariant of the table of entries: there are 32 of them.\<close>

lemma tlb_entries_frame:
  "tlb_map t n = Some t' \<Longrightarrow> entries t' = entries t"
  "tlb_unmap t n = Some t' \<Longrightarrow> entries t' = entries t"
  by (auto simp: tlb_map_def tlb_unmap_def split: bind_splits if_splits)

lemma TLBWrite_entries:
  assumes "TLBWrite r idx = Some r'"
  shows "entries (cp0_tlb (cp0 r')) = entries (cp0_tlb (cp0 r))
    \<or> entries (cp0_tlb (cp0 r')) = (entries (cp0_tlb (cp0 r)))[idx := tlb_entry_of_regs (cp0_regs (cp0 r)) (entries (cp0_tlb (cp0 r)) ! idx)]"
  using assms
  by (auto simp: TLBWrite_def rd_eq_Some_iff wr_eq_Some_iff dest!: tlb_entries_frame split: bind_splits if_splits)

section \<open>Fields of a register\<close>

lemma push_drop_bit: "push_bit n (drop_bit n w) = w AND NOT (mask n :: 'a::len word)"
  by (rule bit_word_eqI) (auto simp: bit_simps)

lemma ucast_u8: "(ucast (ucast (w :: u32) :: u8) :: u32) = w AND 0xFF"
proof -
  have m: "(0xFF :: u32) = mask 8" by (simp add: mask_eq_exp_minus_1)
  show ?thesis unfolding m by (rule bit_word_eqI) (auto simp: bit_simps)
qed

lemma scast_u16: "(scast (ucast (w AND 0xFFF :: u32) :: u16) :: u32) = w AND 0xFFF"
proof -
  have m: "(0xFFF :: u32) = mask 12" by (simp add: mask_eq_exp_minus_1)
  show ?thesis unfolding m by (rule bit_word_eqI) (auto simp: bit_simps)
qed

lemmas field_simps_u32 = push_drop_bit mask_eq_exp_minus_1 and.assoc

text \<open>Writing the fields of an entry-low register and reading them back.\<close>

lemma entrylo_fields:
  fixes x g :: u32
  shows "push_bit 6 (drop_bit 6 (x AND 0x3FFFFFC0)) OR push_bit 3 (ucast (ucast (drop_bit 3 (x AND 0x38)) :: u8))
    OR push_bit 2 (ucast (ucast (drop_bit 2 (x AND 0x4)) :: u8)) OR push_bit 1 (ucast (ucast (drop_bit 1 (x AND 0x2)) :: u8))
    OR ucast (ucast (g AND 1) :: u8) = (x AND 0x3FFFFFFE) OR (g AND 1)"
proof -
  have "push_bit 6 (drop_bit 6 (x AND 0x3FFFFFC0)) = x AND 0x3FFFFFC0"
    "push_bit 3 (ucast (ucast (drop_bit 3 (x AND 0x38)) :: u8)) = x AND 0x38"
    "push_bit 2 (ucast (ucast (drop_bit 2 (x AND 0x4)) :: u8)) = x AND 0x4"
    "push_bit 1 (ucast (ucast (drop_bit 1 (x AND 0x2)) :: u8)) = x AND 0x2"
    "ucast (ucast (g AND 1) :: u8) = g AND 1"
    unfolding ucast_u8 by (simp_all add: field_simps_u32)
  moreover have "(x AND 0x3FFFFFC0) OR (x AND 0x38) OR (x AND 0x4) OR (x AND 0x2) = x AND 0x3FFFFFFE"
    by (simp flip: bit.conj_disj_distrib add: or.assoc)
  ultimately show ?thesis by (simp only: or.assoc [symmetric])
qed

lemma entryhi_fields:
  "push_bit 13 (drop_bit 13 (x AND 0xFFFFE000)) OR ucast (ucast (x AND 0xFF) :: u8) = x AND (0xFFFFE0FF :: u32)"
proof -
  have "push_bit 13 (drop_bit 13 (x AND 0xFFFFE000)) = x AND 0xFFFFE000" by (simp add: field_simps_u32)
  moreover have "(x AND 0xFFFFE000) OR (x AND 0xFF) = x AND 0xFFFFE0FF" by (simp flip: bit.conj_disj_distrib)
  ultimately show ?thesis unfolding ucast_u8 by (simp add: and.assoc)
qed

lemma pagemask_field:
  "push_bit 13 (scast (ucast (drop_bit 13 (x AND 0x1FFE000)) :: u16)) = x AND (0x1FFE000 :: u32)"
proof -
  have "drop_bit 13 (x AND 0x1FFE000) = drop_bit 13 x AND 0xFFF" by simp
  then show ?thesis by (simp only: scast_u16) (simp add: field_simps_u32)
qed

lemma index_fields:
  assumes "unat (x AND 0x3F :: u32) < 32"
  shows "unat (x AND 0x1F) = unat (x AND 0x3F)"
proof -
  have "unat (x AND 0x3F) = unat x mod 64" "unat (x AND 0x1F) = unat x mod 32"
    using unat_and_mask [of x 6] unat_and_mask [of x 5] by (simp_all add: mask_eq_exp_minus_1)
  moreover have "unat x mod 64 mod 32 = unat x mod 32" by (simp add: mod_mod_cancel)
  ultimately show ?thesis using assms by simp
qed

lemma tlb_entry_of_regs_fields:
  "te_mask (tlb_entry_of_regs cr e) = ucast (drop_bit 13 (cr CP0_PAGEMASK_REG AND 0x1FFE000))"
  "te_vpn2 (tlb_entry_of_regs cr e) = drop_bit 13 (cr CP0_ENTRYHI_REG AND 0xFFFFE000)"
  "te_asid (tlb_entry_of_regs cr e) = ucast (cr CP0_ENTRYHI_REG AND 0xFF)"
  "te_g (tlb_entry_of_regs cr e) = ucast ((cr CP0_ENTRYLO0_REG AND cr CP0_ENTRYLO1_REG) AND 1)"
  "te_pfn_even (tlb_entry_of_regs cr e) = drop_bit 6 (cr CP0_ENTRYLO0_REG AND 0x3FFFFFC0)"
  "te_c_even (tlb_entry_of_regs cr e) = ucast (drop_bit 3 (cr CP0_ENTRYLO0_REG AND 0x38))"
  "te_d_even (tlb_entry_of_regs cr e) = ucast (drop_bit 2 (cr CP0_ENTRYLO0_REG AND 0x4))"
  "te_v_even (tlb_entry_of_regs cr e) = ucast (drop_bit 1 (cr CP0_ENTRYLO0_REG AND 0x2))"
  "te_pfn_odd (tlb_entry_of_regs cr e) = drop_bit 6 (cr CP0_ENTRYLO1_REG AND 0x3FFFFFC0)"
  "te_c_odd (tlb_entry_of_regs cr e) = ucast (drop_bit 3 (cr CP0_ENTRYLO1_REG AND 0x38))"
  "te_d_odd (tlb_entry_of_regs cr e) = ucast (drop_bit 2 (cr CP0_ENTRYLO1_REG AND 0x4))"
  "te_v_odd (tlb_entry_of_regs cr e) = ucast (drop_bit 1 (cr CP0_ENTRYLO1_REG AND 0x2))"
  by (simp_all add: tlb_entry_of_regs_def Let_def and.assoc)

lemma TLBR_regs:
  assumes "rd (entries (cp0_tlb (cp0 r))) (unat (creg r CP0_INDEX_REG AND 0x1F)) = Some e"
  shows "\<exists>r'. TLBR r = Some r' \<and> pc r' = pc r + 4
    \<and> creg r' CP0_PAGEMASK_REG = push_bit 13 (scast (te_mask e))
    \<and> creg r' CP0_ENTRYHI_REG = push_bit 13 (te_vpn2 e) OR ucast (te_asid e)
    \<and> creg r' CP0_ENTRYLO0_REG = push_bit 6 (te_pfn_even e) OR push_bit 3 (ucast (te_c_even e)) OR push_bit 2 (ucast (te_d_even e))
        OR push_bit 1 (ucast (te_v_even e)) OR ucast (te_g e)
    \<and> creg r' CP0_ENTRYLO1_REG = push_bit 6 (te_pfn_odd e) OR push_bit 3 (ucast (te_c_odd e)) OR push_bit 2 (ucast (te_d_odd e))
        OR push_bit 1 (ucast (te_v_odd e)) OR ucast (te_g e)"
  using assms by (auto simp: TLBR_def creg_set_creg frame_simps)

section \<open>Properties\<close>

text \<open>
  C7: An address covered by a TLB entry that was just written translates to the entry's physical
  page. For the interpreter, when the entry's two ranges stay below the last page of the address space,
  \<^verbatim>\<open>TLBWrite\<close> returns, and afterwards every read of an address in a valid mappable half (every write,
  if the half is also marked dirty) translates to the half's physical base plus the offset in the half,
  in the unmapped segment, without an exception and without changing the processor.
\<close>

theorem TLBWrite_translates:
  fixes r :: r4300_core and idx
  defines "e \<equiv> tlb_entry_of_regs (cp0_regs (cp0 r)) (entries (cp0_tlb (cp0 r)) ! idx)"
    and "sz \<equiv> push_bit 12 (drop_bit 13 (creg r CP0_PAGEMASK_REG AND 0x1FFE000)) :: u32"
  assumes "emu_mode r = EMUMODE_PURE_INTERPRETER" "length (entries (cp0_tlb (cp0 r))) = 32" "idx < 32"
    and "wf_entry (entries (cp0_tlb (cp0 r)) ! idx)" "\<not> in_entry_range (pc r) (entries (cp0_tlb (cp0 r)) ! idx)"
    and "unat (te_start_even e) + 2 * unat sz + 0x2000 \<le> 0xFFFFF000"
  shows "\<exists>r'. TLBWrite r idx = Some r'
    \<and> (\<forall>a w. hits_even e a w \<longrightarrow> virtual_to_physical_address ign r' a w
          = Some (0x80000000 OR (te_phys_even e + (a - te_start_even e)), r'))
    \<and> (\<forall>a w. hits_odd e a w \<longrightarrow> virtual_to_physical_address ign r' a w
          = Some (0x80000000 OR (te_phys_odd e + (a - te_start_odd e)), r'))"
proof -
  have fit: "entry_fits e sz" unfolding e_def sz_def
    by (rule tlb_entry_of_regs_fits) (use assms(8) in \<open>simp add: e_def sz_def\<close>)
  obtain t t' where t: "TLBWrite r idx = Some (r\<lparr>cp0 := (cp0 r)\<lparr>cp0_tlb := t'\<rparr>\<rparr>)" "tlb_map t idx = Some t'"
      "entries t = (entries (cp0_tlb (cp0 r)))[idx := e]"
    using TLBWrite_spec [OF assms(3-7) e_def [THEN meta_eq_to_obj_eq] entry_fits_wf [OF fit]] by blast
  have "idx < length (entries t)" "entries t ! idx = e" using t(3) assms(4,5) by simp_all
  note look = tlb_map_lookup [OF t(2) assms(5) this fit]
  show ?thesis
    using t(1) look tlb_entry_of_regs_phys unfolding e_def by (auto simp: virtual_to_physical_address_def)
qed

definition tlb_demo :: r4300_core where
  "tlb_demo = boot_r4300\<lparr>cp0 := (cp0 boot_r4300)\<lparr>
     cp0_regs := (\<lambda>_. 0)(CP0_ENTRYHI_REG := 0x00400000, CP0_ENTRYLO0_REG := 0x00040006, CP0_ENTRYLO1_REG := 0x00080002),
     cp0_tlb := poweron_tlb (cp0_tlb (cp0 boot_r4300))\<rparr>\<rparr>"

theorem TLBWrite_translates_witness:
  "\<exists>r'. TLBWrite tlb_demo 3 = Some r'
    \<and> virtual_to_physical_address 0 r' 0x00400123 1 = Some (0x81000123, r')
    \<and> virtual_to_physical_address 0 r' 0x00401abc 0 = Some (0x82000abc, r')"
proof -
  let ?e = "tlb_entry_of_regs (cp0_regs (cp0 tlb_demo)) (entries (cp0_tlb (cp0 tlb_demo)) ! 3)"
  have s: "emu_mode tlb_demo = EMUMODE_PURE_INTERPRETER" "length (entries (cp0_tlb (cp0 tlb_demo))) = 32"
    "wf_entry (entries (cp0_tlb (cp0 tlb_demo)) ! 3)" "\<not> in_entry_range (pc tlb_demo) (entries (cp0_tlb (cp0 tlb_demo)) ! 3)"
    by (simp_all add: tlb_demo_def boot_r4300_def poweron_tlb_def zero_entry_def wf_entry_def wf_half_def in_entry_range_def)
  have r: "te_start_even ?e = 0x00400000" "te_end_even ?e = 0x00400FFF" "te_phys_even ?e = 0x01000000"
      "te_start_odd ?e = 0x00401000" "te_end_odd ?e = 0x00401FFF" "te_phys_odd ?e = 0x02000000"
      "te_v_even ?e = 1" "te_v_odd ?e = 1" "te_d_even ?e = 1"
    by (simp_all add: tlb_demo_def tlb_entry_of_regs_def)
  have fit: "unat (te_start_even ?e) + 2 * unat (push_bit 12 (drop_bit 13 (creg tlb_demo CP0_PAGEMASK_REG AND 0x1FFE000)) :: u32)
      + 0x2000 \<le> 0xFFFFF000"
    unfolding r by (simp add: tlb_demo_def)
  have "hits_even ?e 0x00400123 1" "hits_odd ?e 0x00401abc 0"
    unfolding hits_even_def hits_odd_def lut_mappable_def r by simp_all
  then show ?thesis
    using TLBWrite_translates [OF s(1,2) _ s(3,4) fit, where ign = 0] unfolding r by fastforce
qed

text \<open>
  Writing an entry for the last pages of the address space never returns: with VPN2 of all ones,
  page size 4 KiB and a valid odd page in the mappable physical range, the loop that expands the odd
  page steps its 32-bit counter past 0xFFFFF000 back to 0, below the end 0xFFFFFFFF, for ever. The
  old entry is taken out without a fault; it is that loop, whatever it stores, which does not return.
\<close>

theorem TLBWrite_last_page_diverges:
  assumes "emu_mode r = EMUMODE_PURE_INTERPRETER" "idx < 32" "length (entries (cp0_tlb (cp0 r))) = 32"
    and "wf_entry (entries (cp0_tlb (cp0 r)) ! idx)" "\<not> in_entry_range (pc r) (entries (cp0_tlb (cp0 r)) ! idx)"
    and "creg r CP0_ENTRYHI_REG AND 0xFFFFE000 = 0xFFFFE000" "creg r CP0_PAGEMASK_REG AND 0x1FFE000 = 0"
    and "creg r CP0_ENTRYLO1_REG AND 0x2 = 0x2" "creg r CP0_ENTRYLO1_REG AND 0x3FFFFFC0 = 0"
  shows "TLBWrite r idx = None \<and> tlb_unmap (cp0_tlb (cp0 r)) idx \<noteq> None
    \<and> (\<forall>f lut. lut_fill f 0xFFFFF000 0xFFFFFFFF lut = None)"
proof -
  let ?e = "tlb_entry_of_regs (cp0_regs (cp0 r)) (entries (cp0_tlb (cp0 r)) ! idx)"
  have odd: "te_start_odd ?e = 0xFFFFF000" "te_end_odd ?e = 0xFFFFFFFF" "te_phys_odd ?e = 0" "te_v_odd ?e \<noteq> 0"
    unfolding tlb_entry_of_regs_def Let_def assms(6-9) by simp_all
  have div: "tlb_map (t\<lparr>entries := (entries t)[idx := ?e]\<rparr>) idx = None" if "length (entries t) = 32" for t
    by (rule tlb_map_diverges) (use that assms(2) odd in \<open>simp_all add: lut_mappable_def\<close>)
  obtain t where t: "tlb_unmap (cp0_tlb (cp0 r)) idx = Some t"
    using assms(2-4) by (simp add: tlb_unmap_spec Let_def)
  then have "length (entries t) = 32" using tlb_entries_frame(2) assms(3) by metis
  note t' = this div [OF this]
  have "wr (entries t) idx ?e = Some ((entries t)[idx := ?e])" using t'(1) assms(2) by simp
  then have "TLBWrite r idx = None"
    using assms(1-5) t t'(2) unfolding TLBWrite_def in_entry_range_def by (auto simp del: list_update_beyond)
  moreover have "lut_fill f 0xFFFFF000 0xFFFFFFFF lut = None" for f lut
    by (rule lut_fill_diverges) (simp_all add: dvd_eq_mod_eq_0 del: mod_greater_zero_iff_not_dvd)
  ultimately show ?thesis using t by simp
qed

theorem TLBWrite_last_page_diverges_witness:
  "TLBWrite (tlb_demo\<lparr>cp0 := (cp0 tlb_demo)\<lparr>cp0_regs := (\<lambda>_. 0)
     (CP0_ENTRYHI_REG := 0xFFFFE000, CP0_ENTRYLO1_REG := 0x2)\<rparr>\<rparr>) 0 = None"
  by (rule conjunct1 [OF TLBWrite_last_page_diverges])
    (simp_all add: tlb_demo_def boot_r4300_def poweron_tlb_def zero_entry_def in_entry_range_def wf_entry_def wf_half_def)

text \<open>
  C25: Writing the indexed TLB entry and reading it back returns the registers: \<^verbatim>\<open>TLBWI\<close> followed by
  \<^verbatim>\<open>TLBR\<close> leaves in the page mask, entry-high and entry-low registers exactly their architected
  fields, the global bit of both entry-low registers being the conjunction of the two that were written.
\<close>

theorem TLBWI_TLBR_roundtrip:
  fixes r :: r4300_core
  defines "idx \<equiv> unat (creg r CP0_INDEX_REG AND 0x3F)"
  assumes "emu_mode r = EMUMODE_PURE_INTERPRETER" "length (entries (cp0_tlb (cp0 r))) = 32" "idx < 32"
    and "wf_entry (entries (cp0_tlb (cp0 r)) ! idx)" "\<not> in_entry_range (pc r) (entries (cp0_tlb (cp0 r)) ! idx)"
    and "wf_entry (tlb_entry_of_regs (cp0_regs (cp0 r)) (entries (cp0_tlb (cp0 r)) ! idx))"
  shows "\<exists>r1 r2. TLBWI r = Some r1 \<and> TLBR r1 = Some r2
    \<and> creg r2 CP0_PAGEMASK_REG = creg r CP0_PAGEMASK_REG AND 0x1FFE000
    \<and> creg r2 CP0_ENTRYHI_REG = creg r CP0_ENTRYHI_REG AND 0xFFFFE0FF
    \<and> creg r2 CP0_ENTRYLO0_REG = (creg r CP0_ENTRYLO0_REG AND 0x3FFFFFFE)
         OR (creg r CP0_ENTRYLO0_REG AND creg r CP0_ENTRYLO1_REG AND 1)
    \<and> creg r2 CP0_ENTRYLO1_REG = (creg r CP0_ENTRYLO1_REG AND 0x3FFFFFFE)
         OR (creg r CP0_ENTRYLO0_REG AND creg r CP0_ENTRYLO1_REG AND 1)
    \<and> pc r2 = pc r + 8"
proof -
  let ?cr = "cp0_regs (cp0 r)" and ?old = "entries (cp0_tlb (cp0 r)) ! idx"
  let ?e = "tlb_entry_of_regs ?cr ?old"
  obtain t t' where t: "TLBWrite r idx = Some (r\<lparr>cp0 := (cp0 r)\<lparr>cp0_tlb := t'\<rparr>\<rparr>)" "tlb_map t idx = Some t'"
      "entries t = (entries (cp0_tlb (cp0 r)))[idx := ?e]"
    using TLBWrite_spec [OF assms(2-6) refl assms(7)] by blast
  then have e: "rd (entries t') idx = Some ?e" using tlb_entries_frame(1) assms(3,4) by simp
  let ?r1 = "r\<lparr>cp0 := (cp0 r)\<lparr>cp0_tlb := t'\<rparr>, pc := pc r + 4\<rparr>"
  have w: "TLBWI r = Some ?r1" using t(1) by (simp add: TLBWI_def idx_def)
  have i: "unat (creg ?r1 CP0_INDEX_REG AND 0x1F) = idx"
    using index_fields assms(4) by (simp add: idx_def)
  have fields: "push_bit 13 (scast (te_mask ?e)) = ?cr CP0_PAGEMASK_REG AND 0x1FFE000"
    "push_bit 13 (te_vpn2 ?e) OR ucast (te_asid ?e) = ?cr CP0_ENTRYHI_REG AND 0xFFFFE0FF"
    "push_bit 6 (te_pfn_even ?e) OR push_bit 3 (ucast (te_c_even ?e)) OR push_bit 2 (ucast (te_d_even ?e))
      OR push_bit 1 (ucast (te_v_even ?e)) OR ucast (te_g ?e)
      = (?cr CP0_ENTRYLO0_REG AND 0x3FFFFFFE) OR (?cr CP0_ENTRYLO0_REG AND ?cr CP0_ENTRYLO1_REG AND 1)"
    "push_bit 6 (te_pfn_odd ?e) OR push_bit 3 (ucast (te_c_odd ?e)) OR push_bit 2 (ucast (te_d_odd ?e))
      OR push_bit 1 (ucast (te_v_odd ?e)) OR ucast (te_g ?e)
      = (?cr CP0_ENTRYLO1_REG AND 0x3FFFFFFE) OR (?cr CP0_ENTRYLO0_REG AND ?cr CP0_ENTRYLO1_REG AND 1)"
    unfolding tlb_entry_of_regs_fields entrylo_fields entryhi_fields pagemask_field by (simp_all only: and.assoc)
  have "rd (entries (cp0_tlb (cp0 ?r1))) (unat (creg ?r1 CP0_INDEX_REG AND 0x1F)) = Some ?e" using e i by simp
  from TLBR_regs [OF this, unfolded fields] show ?thesis using w by auto
qed

theorem TLBWI_TLBR_roundtrip_witness:
  "\<exists>r1 r2. TLBWI tlb_demo = Some r1 \<and> TLBR r1 = Some r2
    \<and> creg r2 CP0_ENTRYHI_REG = 0x00400000 \<and> creg r2 CP0_ENTRYLO0_REG = 0x00040006"
proof -
  have "creg tlb_demo CP0_INDEX_REG = 0" by (simp add: tlb_demo_def)
  then have i: "unat (creg tlb_demo CP0_INDEX_REG AND 0x3F) = 0" by simp
  let ?e = "tlb_entry_of_regs (cp0_regs (cp0 tlb_demo)) (entries (cp0_tlb (cp0 tlb_demo)) ! 0)"
  have "te_start_even ?e = 0x00400000" "te_end_even ?e = 0x00400FFF" "te_start_odd ?e = 0x00401000" "te_end_odd ?e = 0x00401FFF"
    by (simp_all add: tlb_demo_def tlb_entry_of_regs_def)
  then have "wf_entry ?e" unfolding wf_entry_def wf_half_def by simp
  moreover have "emu_mode tlb_demo = EMUMODE_PURE_INTERPRETER" "length (entries (cp0_tlb (cp0 tlb_demo))) = 32"
    "wf_entry (entries (cp0_tlb (cp0 tlb_demo)) ! 0)" "\<not> in_entry_range (pc tlb_demo) (entries (cp0_tlb (cp0 tlb_demo)) ! 0)"
    by (simp_all add: tlb_demo_def boot_r4300_def poweron_tlb_def zero_entry_def wf_entry_def wf_half_def in_entry_range_def)
  ultimately obtain r1 r2 where "TLBWI tlb_demo = Some r1" "TLBR r1 = Some r2"
    "creg r2 CP0_ENTRYHI_REG = creg tlb_demo CP0_ENTRYHI_REG AND 0xFFFFE0FF"
    "creg r2 CP0_ENTRYLO0_REG = (creg tlb_demo CP0_ENTRYLO0_REG AND 0x3FFFFFFE)
         OR (creg tlb_demo CP0_ENTRYLO0_REG AND creg tlb_demo CP0_ENTRYLO1_REG AND 1)"
    using TLBWI_TLBR_roundtrip [of tlb_demo] unfolding i by auto
  then show ?thesis by (simp add: tlb_demo_def)
qed

text \<open>
  A random TLB write never touches a wired entry. With a wired register below 32 the index that
  \<^verbatim>\<open>TLBWR\<close> computes from the count register lies between the wired register and 31, the write is the
  indexed write at that index, and every entry below the wired register is unchanged.
\<close>

theorem TLBWR_respects_wired:
  assumes "creg r CP0_WIRED_REG < 32" "count_per_op (cp0 r) \<noteq> 0"
  shows "\<exists>idx. unat (creg r CP0_WIRED_REG) \<le> idx \<and> idx < 32
    \<and> TLBWR r = do { r1 \<leftarrow> TLBWrite (set_creg CP0_RANDOM_REG (word_of_nat idx) (cp0_update_count r)) idx;
                   Some (r1\<lparr>pc := pc r1 + 4\<rparr>) }
    \<and> (\<forall>r' i. TLBWR r = Some r' \<longrightarrow> i < unat (creg r CP0_WIRED_REG) \<longrightarrow>
         entries (cp0_tlb (cp0 r')) ! i = entries (cp0_tlb (cp0 r)) ! i)"
proof -
  let ?r = "cp0_update_count r" and ?w = "creg r CP0_WIRED_REG"
  let ?d = "creg ?r CP0_COUNT_REG div count_per_op (cp0 r)"
  let ?idx = "unat (?d mod (32 - ?w) + ?w)"
  have w: "unat ?w < 32" using assms(1) by (simp add: word_less_nat_alt)
  have d: "unat (32 - ?w) = 32 - unat ?w" using w by (simp add: unat_sub_if')
  have "unat (?d mod (32 - ?w)) < 32 - unat ?w" using w d by (simp add: unat_mod)
  then have u: "?idx = unat (?d mod (32 - ?w)) + unat ?w" "?idx < 32"
    using w by (simp_all add: unat_add_u32)
  have ne: "32 - ?w \<noteq> 0" using d w by (metis unat_0 zero_less_diff less_irrefl)
  have eq: "TLBWR r = do { r1 \<leftarrow> TLBWrite (set_creg CP0_RANDOM_REG (word_of_nat ?idx) ?r) ?idx;
                   Some (r1\<lparr>pc := pc r1 + 4\<rparr>) }"
    using assms(2) ne by (simp add: TLBWR_def Let_def frame_simps) (simp add: cp0_update_count_def Let_def)
  have "entries (cp0_tlb (cp0 r')) ! i = entries (cp0_tlb (cp0 r)) ! i" if h: "TLBWR r = Some r'" "i < unat ?w" for r' i
  proof -
    obtain r1 where r1: "TLBWrite (set_creg CP0_RANDOM_REG (word_of_nat ?idx) ?r) ?idx = Some r1" "r' = r1\<lparr>pc := pc r1 + 4\<rparr>"
      using h(1) unfolding eq by (auto simp: bind_eq_Some_conv)
    from TLBWrite_entries [OF r1(1)] show ?thesis using r1(2) u h(2) by (auto simp: frame_simps)
  qed
  then show ?thesis using u eq by (intro exI [of _ ?idx]) auto
qed

theorem TLBWR_respects_wired_witness:
  "\<exists>idx. 8 \<le> idx \<and> idx < 32
    \<and> TLBWR (set_creg CP0_WIRED_REG 8 boot_r4300)
      = do { r1 \<leftarrow> TLBWrite (set_creg CP0_RANDOM_REG (word_of_nat idx) (cp0_update_count (set_creg CP0_WIRED_REG 8 boot_r4300))) idx;
             Some (r1\<lparr>pc := pc r1 + 4\<rparr>) }"
  using TLBWR_respects_wired [of "set_creg CP0_WIRED_REG 8 boot_r4300"] boot_cp0_spec(7)
  by (auto simp: set_creg_def boot_r4300_def)

text \<open>
  A maskable interrupt is taken exactly when it may be. In the interpreter, raising a cause line
  always returns; when interrupts are enabled (IE set, EXL and ERL clear) and some pending line is
  unmasked, the processor continues at 0x80000180 with EXL set and the exception program counter at the
  interrupted instruction (at the branch, with BD set, when it stands in a delay slot); otherwise only
  the cause register changes. The event queue is untouched in both cases.
\<close>

theorem raise_maskable_interrupt_spec:
  fixes r ip
  defines "cause \<equiv> (creg r CP0_CAUSE_REG OR ip) AND NOT CP0_CAUSE_EXCCODE_MASK"
  assumes "emu_mode r = EMUMODE_PURE_INTERPRETER"
  shows "\<exists>r'. raise_maskable_interrupt r ip = Some r' \<and> cp0_q (cp0 r') = cp0_q (cp0 r) \<and>
    (if int_enabled r \<and> creg r CP0_STATUS_REG AND cause AND 0xff00 \<noteq> 0
     then pc r' = 0x80000180 \<and> creg r' CP0_STATUS_REG = creg r CP0_STATUS_REG OR CP0_STATUS_EXL
       \<and> creg r' CP0_EPC_REG = (if in_delay_slot r then pc r - 4 else pc r)
       \<and> creg r' CP0_CAUSE_REG = (if in_delay_slot r then cause OR CP0_CAUSE_BD else cause AND NOT CP0_CAUSE_BD)
     else r' = set_creg CP0_CAUSE_REG cause r)"
proof (cases "int_enabled r \<and> creg r CP0_STATUS_REG AND cause AND 0xff00 \<noteq> 0")
  case True
  let ?r = "set_creg CP0_CAUSE_REG cause r"
  have "raise_maskable_interrupt r ip = exception_general ?r"
    using True by (auto simp: raise_maskable_interrupt_def int_enabled_def cause_def creg_set_creg Let_def)
  moreover have "emu_mode ?r = EMUMODE_PURE_INTERPRETER" using assms(2) by (simp add: frame_simps)
  ultimately show ?thesis
    using exception_general_spec [of ?r] True by (auto simp: creg_set_creg frame_simps in_delay_slot_def)
next
  case False
  then have "raise_maskable_interrupt r ip = Some (set_creg CP0_CAUSE_REG cause r)"
    unfolding cause_def by (intro raise_maskable_masked) (auto simp: int_enabled_def cause_def)
  then show ?thesis using False by (auto simp: frame_simps)
qed

theorem raise_maskable_interrupt_spec_witness:
  "\<exists>r'. raise_maskable_interrupt (set_creg CP0_STATUS_REG 0xff01 boot_r4300) CP0_CAUSE_IP2 = Some r'
    \<and> pc r' = 0x80000180 \<and> creg r' CP0_EPC_REG = 0xbfc00000"
proof -
  let ?r = "set_creg CP0_STATUS_REG 0xff01 boot_r4300"
  have m: "emu_mode ?r = EMUMODE_PURE_INTERPRETER" by (simp add: boot_r4300_def frame_simps)
  have "bit (0xff01 AND ((creg ?r CP0_CAUSE_REG OR CP0_CAUSE_IP2) AND NOT CP0_CAUSE_EXCCODE_MASK) AND 0xff00 :: u32) 10"
    by (simp add: bit_simps bit_numeral_rec)
  then have "0xff01 AND ((creg ?r CP0_CAUSE_REG OR CP0_CAUSE_IP2) AND NOT CP0_CAUSE_EXCCODE_MASK) AND 0xff00 \<noteq> (0 :: u32)"
    by auto
  then show ?thesis
    using raise_maskable_interrupt_spec [OF m, of CP0_CAUSE_IP2]
    by (auto simp: creg_set_creg int_enabled_def in_delay_slot_def boot_r4300_def frame_simps)
qed

text \<open>
  C39: A data access that misses the TLB raises the refill exception with the faulting address. In the
  interpreter, outside a delay slot and outside exception level, the translation returns the null
  address and the processor stands at the refill vector 0x80000000, or at the general vector 0x80000180
  when the address is in an unmapped segment or in the range of some entry; the exception program
  counter is the instruction before the program counter, the bad-address, entry-high and context
  registers hold the address, the cause is the load or the store code, and the queue is unchanged.
\<close>

theorem tlb_miss_exception:
  assumes "emu_mode r = EMUMODE_PURE_INTERPRETER" "tlb_lookup (cp0_tlb (cp0 r)) a w = None" "ign \<noteq> 2" "w < 2"
    and "creg r CP0_STATUS_REG AND CP0_STATUS_EXL = 0" "delay_slot r = 0"
  shows "\<exists>r'. virtual_to_physical_address ign r a w = Some (0, r')
    \<and> pc r' = (if 0x80000000 \<le> a \<and> a < 0xc0000000
                 \<or> (\<exists>e \<in> set (take 32 (entries (cp0_tlb (cp0 r)))). in_entry_range a e)
               then 0x80000180 else 0x80000000)
    \<and> creg r' CP0_EPC_REG = pc r - 4 \<and> creg r' CP0_STATUS_REG = creg r CP0_STATUS_REG OR CP0_STATUS_EXL
    \<and> creg r' CP0_CAUSE_REG = (if w = 1 then CP0_CAUSE_EXCCODE_TLBS else CP0_CAUSE_EXCCODE_TLBL)
    \<and> creg r' CP0_BADVADDR_REG = a \<and> creg r' CP0_ENTRYHI_REG = a AND 0xFFFFE000
    \<and> creg r' CP0_CONTEXT_REG = (creg r CP0_CONTEXT_REG AND 0xFF80000F) OR (drop_bit 9 a AND 0x007FFFF0)
    \<and> cp0_q (cp0 r') = cp0_q (cp0 r) \<and> cp0_tlb (cp0 r') = cp0_tlb (cp0 r)"
  using assms unfolding virtual_to_physical_address_def TLB_refill_exception_def
  by (simp add: r4300_simps list_ex_iff exception_epilog_def)

theorem tlb_miss_exception_witness:
  "\<exists>r'. virtual_to_physical_address 0 tlb_demo 0x00001234 0 = Some (0, r')
    \<and> creg r' CP0_BADVADDR_REG = 0x00001234 \<and> creg r' CP0_EPC_REG = 0xbfbffffc"
proof -
  have "tlb_lookup (cp0_tlb (cp0 tlb_demo)) 0x00001234 0 = None"
    by (simp add: tlb_lookup_def tlb_demo_def poweron_tlb_def)
  from tlb_miss_exception [OF _ this, of 0] show ?thesis
    by (auto simp: tlb_demo_def boot_r4300_def)
qed

end
