(* ===== verification/Bus_Claims.thy ===== *)
theory Bus_Claims
  imports Rdram Tlb_Claims
begin

text \<open>
  The properties of the MIPS interface, of the physical memory map with its breakpoints, and of the
  words of RDRAM. The locale \<open>line_controller\<close> is what the devices rely on when they drive their
  interrupt lines; it is interpreted on the operations of \<^verbatim>\<open>mi_controller.c\<close>.
\<close>

section \<open>Interrupt lines\<close>

datatype line_op = Signal u32 | Clear u32

primrec apply_line :: "line_op \<Rightarrow> u32 \<Rightarrow> u32" where
  "apply_line (Signal m) l = l OR m"
| "apply_line (Clear m) l = l AND NOT m"

primrec run_lines ::
  "('s \<Rightarrow> u32 \<Rightarrow> 's option) \<Rightarrow> ('s \<Rightarrow> u32 \<Rightarrow> 's option) \<Rightarrow> line_op list \<Rightarrow> 's \<Rightarrow> 's option" where
  "run_lines sig clr [] s = Some s"
| "run_lines sig clr (x # xs) s = do {
     s \<leftarrow> (case x of Signal m \<Rightarrow> sig s m | Clear m \<Rightarrow> clr s m);
     run_lines sig clr xs s }"

text \<open>
  \<open>room n s\<close>: the state takes \<open>n\<close> more operations; an operation may schedule one check event.
\<close>

locale line_controller =
  fixes room :: "nat \<Rightarrow> 's \<Rightarrow> bool"
    and line_reg :: "'s \<Rightarrow> u32"
    and mask_reg :: "'s \<Rightarrow> u32"
    and asserted :: "'s \<Rightarrow> bool"
    and sig :: "'s \<Rightarrow> u32 \<Rightarrow> 's option"
    and clr :: "'s \<Rightarrow> u32 \<Rightarrow> 's option"
  assumes sig_ok: "room (Suc n) s \<Longrightarrow> \<exists>s'. sig s m = Some s' \<and> room n s' \<and> line_reg s' = line_reg s OR m
      \<and> mask_reg s' = mask_reg s \<and> (asserted s' \<longleftrightarrow> line_reg s' AND mask_reg s' \<noteq> 0)"
    and clr_ok: "room (Suc n) s \<Longrightarrow> \<exists>s'. clr s m = Some s' \<and> room n s' \<and> line_reg s' = line_reg s AND NOT m
      \<and> mask_reg s' = mask_reg s \<and> (asserted s' \<longleftrightarrow> line_reg s' AND mask_reg s' \<noteq> 0)"
begin

lemma run_step:
  assumes "room (Suc n) s"
  shows "\<exists>s'. (case x of Signal m \<Rightarrow> sig s m | Clear m \<Rightarrow> clr s m) = Some s' \<and> room n s'
    \<and> line_reg s' = apply_line x (line_reg s) \<and> mask_reg s' = mask_reg s
    \<and> (asserted s' \<longleftrightarrow> line_reg s' AND mask_reg s' \<noteq> 0)"
  using sig_ok [OF assms] clr_ok [OF assms] by (cases x) auto

lemma run_lines_ok:
  "room (length xs + n) s \<Longrightarrow> (asserted s \<longleftrightarrow> line_reg s AND mask_reg s \<noteq> 0) \<Longrightarrow>
    \<exists>s'. run_lines sig clr xs s = Some s' \<and> room n s' \<and> line_reg s' = fold apply_line xs (line_reg s)
      \<and> mask_reg s' = mask_reg s \<and> (asserted s' \<longleftrightarrow> line_reg s' AND mask_reg s' \<noteq> 0)"
proof (induction xs arbitrary: s)
  case Nil
  then show ?case by auto
next
  case (Cons x xs)
  then have "room (Suc (length xs + n)) s" by simp
  from run_step [OF this, of x] obtain s1 where
    s1: "(case x of Signal m \<Rightarrow> sig s m | Clear m \<Rightarrow> clr s m) = Some s1" "room (length xs + n) s1"
      "line_reg s1 = apply_line x (line_reg s)" "mask_reg s1 = mask_reg s"
      "asserted s1 \<longleftrightarrow> line_reg s1 AND mask_reg s1 \<noteq> 0" by blast
  from Cons.IH [OF s1(2,5)] s1 show ?case by auto
qed

end

definition mi_room :: "nat \<Rightarrow> 'a mi_sys_scheme \<Rightarrow> bool" where
  "mi_room n s \<longleftrightarrow> wf_queue (cp0_q (cp0 (r4300 s)))
     \<and> length (events (cp0_q (cp0 (r4300 s)))) + n \<le> INTERRUPT_NODES_POOL_CAPACITY"

definition ip2 :: "'a mi_sys_scheme \<Rightarrow> bool" where
  "ip2 s \<longleftrightarrow> bit (creg (r4300 s) CP0_CAUSE_REG) 10"

lemma check_mi_room:
  assumes "mi_room (Suc n) s"
  shows "\<exists>s'. check_mi s = Some s' \<and> mi_room n s' \<and> mi s' = mi s
    \<and> (ip2 s' \<longleftrightarrow> mreg s MI_INTR_REG AND mreg s MI_INTR_MASK_REG \<noteq> 0)"
proof -
  let ?l = "mreg s MI_INTR_REG AND mreg s MI_INTR_MASK_REG"
  have "wf_queue (cp0_q (cp0 (r4300 s)))" "length (events (cp0_q (cp0 (r4300 s)))) < INTERRUPT_NODES_POOL_CAPACITY"
    using assms by (auto simp: mi_room_def)
  from check_interrupt_total [OF this, of CP0_CAUSE_IP2 ?l] obtain r' where
    r': "r4300_check_interrupt (r4300 s) CP0_CAUSE_IP2 ?l = Some r'" "wf_queue (cp0_q (cp0 r'))"
      "creg r' = (cp0_regs (cp0 (r4300 s)))(CP0_CAUSE_REG := pending_cause (r4300 s) CP0_CAUSE_IP2 ?l)"
      "length (events (cp0_q (cp0 r'))) \<le> Suc (length (events (cp0_q (cp0 (r4300 s)))))"
    by auto
  then show ?thesis
    using assms by (auto simp: check_mi_def upd_r4300_def mi_room_def ip2_def bit_pending_cause)
qed

lemma mi_room_set_mreg [simp]: "mi_room n (set_mreg x v s) = mi_room n s"
  by (simp add: mi_room_def)

interpretation rcp: line_controller mi_room "\<lambda>s. mreg s MI_INTR_REG" "\<lambda>s. mreg s MI_INTR_MASK_REG" ip2
  signal_rcp_interrupt clear_rcp_interrupt
proof
  fix n m and s :: "'a mi_sys_scheme"
  assume room: "mi_room (Suc n) s"
  show "\<exists>s'. signal_rcp_interrupt s m = Some s' \<and> mi_room n s' \<and> mreg s' MI_INTR_REG = mreg s MI_INTR_REG OR m
      \<and> mreg s' MI_INTR_MASK_REG = mreg s MI_INTR_MASK_REG
      \<and> (ip2 s' \<longleftrightarrow> mreg s' MI_INTR_REG AND mreg s' MI_INTR_MASK_REG \<noteq> 0)"
    using check_mi_room [of n "set_mreg MI_INTR_REG (mreg s MI_INTR_REG OR m) s"] room
    by (auto simp: signal_rcp_interrupt_def)
  show "\<exists>s'. clear_rcp_interrupt s m = Some s' \<and> mi_room n s' \<and> mreg s' MI_INTR_REG = mreg s MI_INTR_REG AND NOT m
      \<and> mreg s' MI_INTR_MASK_REG = mreg s MI_INTR_MASK_REG
      \<and> (ip2 s' \<longleftrightarrow> mreg s' MI_INTR_REG AND mreg s' MI_INTR_MASK_REG \<noteq> 0)"
    using check_mi_room [of n "set_mreg MI_INTR_REG (mreg s MI_INTR_REG AND NOT m) s"] room
    by (auto simp: clear_rcp_interrupt_def)
qed

section \<open>Single bits\<close>

lemma and_bit_nonzero: "w AND push_bit n 1 \<noteq> (0 :: u32) \<longleftrightarrow> bit w n"
proof -
  have eq: "w AND push_bit n 1 = (if bit w n then push_bit n 1 else 0)"
    by (rule bit_word_eqI) (auto simp: bit_simps)
  have "push_bit n (1 :: u32) \<noteq> 0" if "bit w n"
  proof -
    have "bit (push_bit n (1 :: u32)) n" using bit_imp_le_length [OF that] by (simp add: bit_simps)
    then show ?thesis by (auto dest: bit_imp_le_length)
  qed
  then show ?thesis unfolding eq by auto
qed

text \<open>The effect of one pair of command bits on bit \<open>n\<close>, when the line is bit \<open>k\<close>.\<close>

lemma bit_clear_set_line:
  assumes "k < 32"
  shows "bit (clear_set w (push_bit i 1) (push_bit j 1) (push_bit k 1) r) n \<longleftrightarrow>
     (if n = k then bit w j \<or> (\<not> bit w i \<and> bit r n) else bit r n)"
proof -
  have "bit (push_bit k (1 :: u32)) n \<longleftrightarrow> n = k" using assms by (auto simp: bit_simps)
  then show ?thesis
    unfolding bit_clear_set and_bit_nonzero using and_bit_nonzero [of w i] by auto
qed

lemma update_mi_intr_mask_bits:
  "update_mi_intr_mask r w =
     clear_set w (push_bit 10 1) (push_bit 11 1) (push_bit 5 1)
    (clear_set w (push_bit 8 1) (push_bit 9 1) (push_bit 4 1)
    (clear_set w (push_bit 6 1) (push_bit 7 1) (push_bit 3 1)
    (clear_set w (push_bit 4 1) (push_bit 5 1) (push_bit 2 1)
    (clear_set w (push_bit 2 1) (push_bit 3 1) (push_bit 1 1)
    (clear_set w (push_bit 0 1) (push_bit 1 1) (push_bit 0 1) r)))))"
  by (simp add: update_mi_intr_mask_def)

section \<open>The end of the cartridge\<close>

lemma rom_end_address:
  assumes "unat rom_size = Suc n" "n < 0x4000000"
  shows "unat (MM_CART_ROM OR ucast (rom_size - 1 :: u64)) = 0x10000000 + n"
proof -
  have "word_of_nat (unat rom_size) = rom_size" by simp
  then have "1 + word_of_nat n = rom_size" using assms(1) by simp
  then have r: "rom_size - 1 = word_of_nat n" by (metis add_diff_cancel_left')
  have u: "unat (word_of_nat n :: u32) = n" by (rule unat_word_of_nat_lt) (use assms in simp)
  have k: "(ucast (word_of_nat n :: u64) :: u32) = word_of_nat n"
    using assms(2) by (simp add: word_unat_eq_iff unsigned_ucast_eq unsigned_of_nat take_bit_nat_eq_self)
  have "MM_CART_ROM AND (word_of_nat n :: u32) = 0"
  proof -
    have "(word_of_nat n :: u32) = take_bit 26 (word_of_nat n)"
      using assms(2) u by (simp add: word_unat_eq_iff unsigned_take_bit_eq take_bit_nat_eq_self)
    also have "MM_CART_ROM AND take_bit 26 (word_of_nat n) = (MM_CART_ROM AND mask 26) AND word_of_nat n"
      by (simp only: take_bit_eq_mask ac_simps)
    also have "\<dots> = 0" by (simp add: mask_eq_exp_minus_1)
    finally show ?thesis .
  qed
  then have "MM_CART_ROM OR (word_of_nat n :: u32) = MM_CART_ROM + word_of_nat n"
    by (simp only: add_disjoint_or)
  then show ?thesis unfolding r k using u assms(2) by (simp add: unat_add_u32)
qed

section \<open>Properties of the MIPS interface\<close>


definition boot_mi :: mi_sys where
  "boot_mi = \<lparr>r4300 = boot_r4300\<lparr>cp0 := boot_cp0\<lparr>cp0_regs := (\<lambda>_. 0)(CP0_STATUS_REG := 0xff01)\<rparr>\<rparr>,
     g_gs_vi_counter = 0, mi = \<lparr>mi_regs = (\<lambda>_. 0)(MI_INTR_MASK_REG := 0x3f)\<rparr>\<rparr>"


text \<open>
  Writing the mask register sets and clears each of the six lines by its own pair of command bits:
  line \<open>k\<close> is enabled afterwards exactly when bit \<open>2k+1\<close> of the written value is set, or bit \<open>2k\<close> is
  clear and the line was enabled; no other bit of the register changes.
\<close>

theorem update_mi_intr_mask_spec:
  "bit (update_mi_intr_mask r w) k \<longleftrightarrow>
     (if k < 6 then bit w (2 * k + 1) \<or> (bit r k \<and> \<not> bit w (2 * k)) else bit r k)"
proof -
  have l: "(0 :: nat) < 32" "(1 :: nat) < 32" "(2 :: nat) < 32" "(3 :: nat) < 32" "(4 :: nat) < 32" "(5 :: nat) < 32"
    by simp_all
  have "bit (update_mi_intr_mask r w) k \<longleftrightarrow>
     (if k = 5 then bit w 11 \<or> \<not> bit w 10 \<and> bit r k
      else if k = 4 then bit w 9 \<or> \<not> bit w 8 \<and> bit r k
      else if k = 3 then bit w 7 \<or> \<not> bit w 6 \<and> bit r k
      else if k = 2 then bit w 5 \<or> \<not> bit w 4 \<and> bit r k
      else if k = 1 then bit w 3 \<or> \<not> bit w 2 \<and> bit r k
      else if k = 0 then bit w 1 \<or> \<not> bit w 0 \<and> bit r k
      else bit r k)"
    unfolding update_mi_intr_mask_bits bit_clear_set_line [OF l(1)] bit_clear_set_line [OF l(2)]
      bit_clear_set_line [OF l(3)] bit_clear_set_line [OF l(4)] bit_clear_set_line [OF l(5)]
      bit_clear_set_line [OF l(6)] by auto
  then show ?thesis by (auto simp: less_Suc_eq numeral_eq_Suc)
qed

section \<open>Properties of the memory map\<close>

lemma device_mappings_handler:
  assumes "0 < rom_size" "rom_size \<le> 0x3f00000"
  shows "mem_get_handler (init_memory m (device_mappings rom_size 0)) a =
    (let p = unat a div 0x10000 in
     if p < 0x3f0 then H_rdram_dram else if p < 0x400 then H_rdram_regs
     else if p = 0x400 then H_rsp_mem else if p = 0x404 then H_rsp_regs else if p = 0x408 then H_rsp_regs2
     else if p = 0x410 then H_dpc_regs else if p = 0x420 then H_dps_regs else if p = 0x430 then H_mi_regs
     else if p = 0x440 then H_vi_regs else if p = 0x450 then H_ai_regs else if p = 0x460 then H_pi_regs
     else if p = 0x470 then H_ri_regs else if p = 0x480 then H_si_regs
     else if p = 0x800 \<or> p = 0x801 then H_cart_dom2
     else if 0x1000 \<le> p \<and> p \<le> 0x1000 + (unat rom_size - 1) div 0x10000 then H_cart_rom
     else if p = 0x13ff then H_is_viewer else if p = 0x1fc0 then H_pif_mem else H_open_bus)"
proof -
  define n where "n = unat rom_size - 1"
  have n: "n < 0x3f00000" "unat rom_size = Suc n"
    using assms by (auto simp: n_def word_less_nat_alt word_le_nat_alt unat_gt_0)
  have e: "unat (MM_CART_ROM OR ucast (rom_size - 1)) = 0x10000000 + n"
    by (rule rom_end_address) (use n in auto)
  obtain p where p: "unat a div 0x10000 = p" by simp
  obtain q where q: "n div 0x10000 = q" "q < 0x3f0" using n(1) by auto
  have d: "(0x10000000 + n) div 0x10000 = 0x1000 + q" using q(1) by simp
  have c: "region_of x \<le> region_of y \<longleftrightarrow> unat x div 0x10000 \<le> unat y div 0x10000" for x y
    by (simp add: word_le_nat_alt region_of_nat)
  have "p < 0x10000" using unat_u32_less [of a] p by auto
  then show ?thesis
    unfolding init_memory_handler device_mappings_def mapping_A_def Let_def n_def [symmetric] q(1) p
    using q(2) by (simp add: c e d p)
qed

text \<open>
  C32: The physical memory map. Without a disk drive, for a cartridge of at most 63 MiB, every address of
  the map that \<^verbatim>\<open>init_device\<close> builds has the handler of its device: RDRAM and its registers, the
  processors' memories and register banks, the cartridge's second domain, ROM for exactly the 64 KiB
  pages that the cartridge reaches, the debug viewer, the boot ROM, and the open bus everywhere else.
\<close>

theorem device_memory_map:
  assumes "0 < rom_size" "rom_size \<le> 0x3f00000"
  shows "mem_get_handler (init_memory m (device_mappings rom_size 0)) a =
    (let p = unat a div 0x10000 in
     if p < 0x3f0 then H_rdram_dram else if p < 0x400 then H_rdram_regs
     else if p = 0x400 then H_rsp_mem else if p = 0x404 then H_rsp_regs else if p = 0x408 then H_rsp_regs2
     else if p = 0x410 then H_dpc_regs else if p = 0x420 then H_dps_regs else if p = 0x430 then H_mi_regs
     else if p = 0x440 then H_vi_regs else if p = 0x450 then H_ai_regs else if p = 0x460 then H_pi_regs
     else if p = 0x470 then H_ri_regs else if p = 0x480 then H_si_regs
     else if p = 0x800 \<or> p = 0x801 then H_cart_dom2
     else if 0x1000 \<le> p \<and> p \<le> 0x1000 + (unat rom_size - 1) div 0x10000 then H_cart_rom
     else if p = 0x13ff then H_is_viewer else if p = 0x1fc0 then H_pif_mem else H_open_bus)"
  using assms by (rule device_mappings_handler)

definition blank_mem :: memory where
  "blank_mem = \<lparr>handlers = \<lambda>_. H_open_bus, memtype = \<lambda>_. M64P_MEM_NOTHING, bp_checks = \<lambda>_. 0,
     saved_handlers = \<lambda>_. H_open_bus, dbg_handler = H_with_bp_checks\<rparr>"

theorem device_memory_map_witness:
  "mem_get_handler (init_memory blank_mem (device_mappings 0x800000 0)) 0x107fffff = H_cart_rom
    \<and> mem_get_handler (init_memory blank_mem (device_mappings 0x800000 0)) 0x10800000 = H_open_bus"
  using device_memory_map [of "0x800000" blank_mem "0x107fffff"] device_memory_map [of "0x800000" blank_mem "0x10800000"]
  by simp

text \<open>
  A memory is consistent with a map \<open>h\<close> of handlers when every region with a breakpoint bit has the
  checking handler installed and the handler of \<open>h\<close> saved, and every other region has the handler of \<open>h\<close>.
\<close>

definition has_break :: "memory \<Rightarrow> u16 \<Rightarrow> bool" where
  "has_break m r \<longleftrightarrow> bp_checks m r AND (BP_CHECK_READ OR BP_CHECK_WRITE) \<noteq> 0"

definition bp_consistent :: "(u16 \<Rightarrow> mem_handler) \<Rightarrow> memory \<Rightarrow> bool" where
  "bp_consistent h m \<longleftrightarrow> (\<forall>r. if has_break m r then handlers m r = dbg_handler m \<and> saved_handlers m r = h r
     else handlers m r = h r)"

lemma activate_consistent:
  "k = 1 \<or> k = 2 \<Longrightarrow> bp_consistent h m \<Longrightarrow> bp_consistent h (activate_memory_break k m a)"
  unfolding bp_consistent_def has_break_def activate_memory_break_def Let_def no_bits_word8
  by (auto simp: bit_or_iff bit_numeral_rec)

lemma deactivate_consistent:
  "k = 1 \<or> k = 2 \<Longrightarrow> bp_consistent h m \<Longrightarrow> has_break m (region_of a) \<Longrightarrow>
    bp_consistent h (deactivate_memory_break k m a)"
  unfolding bp_consistent_def has_break_def deactivate_memory_break_def Let_def no_bits_word8
  by (auto simp: bit_and_iff bit_not_iff bit_numeral_rec)

text \<open>
  Memory breakpoints are transparent. Setting read and write breakpoints, and clearing those of a
  region that has one, in any order and nesting, keeps a memory consistent with the same map of
  handlers: a watched region has the checking handler installed and its own saved, and clearing the last
  breakpoint of a region restores its own handler.
\<close>

theorem memory_breaks_transparent:
  assumes "bp_consistent h m"
  shows "bp_consistent h (activate_memory_break_read m a) \<and> bp_consistent h (activate_memory_break_write m a)
    \<and> (has_break m (region_of a) \<longrightarrow> bp_consistent h (deactivate_memory_break_read m a)
         \<and> bp_consistent h (deactivate_memory_break_write m a))"
  using assms activate_consistent [of 1 h m a] activate_consistent [of 2 h m a]
    deactivate_consistent [of 1 h m a] deactivate_consistent [of 2 h m a]
  by (simp add: activate_memory_break_read_def activate_memory_break_write_def
      deactivate_memory_break_read_def deactivate_memory_break_write_def)

theorem memory_breaks_transparent_witness:
  "bp_consistent (\<lambda>_. H_open_bus) (activate_memory_break_write blank_mem 0x04400000)
    \<and> has_break (activate_memory_break_write blank_mem 0x04400000) (region_of 0x04400000)
    \<and> bp_consistent (\<lambda>_. H_open_bus)
        (deactivate_memory_break_write (activate_memory_break_write blank_mem 0x04400000) 0x04400000)"
proof -
  have "bp_consistent (\<lambda>_. H_open_bus) blank_mem"
    by (simp add: bp_consistent_def has_break_def blank_mem_def)
  then have c: "bp_consistent (\<lambda>_. H_open_bus) (activate_memory_break_write blank_mem 0x04400000)"
    using memory_breaks_transparent [of "\<lambda>_. H_open_bus" blank_mem "0x04400000"] by blast
  moreover have "has_break (activate_memory_break_write blank_mem 0x04400000) (region_of 0x04400000)"
    by (simp add: has_break_def activate_memory_break_write_def activate_memory_break_def blank_mem_def Let_def)
  ultimately show ?thesis
    using memory_breaks_transparent [OF c, of "0x04400000"] by blast
qed

section \<open>Properties of RDRAM\<close>

lemma write_read_rdram_dram:
  assumes "wf_rdram rm"
  shows "\<exists>rm'. write_rdram_dram rm a v msk = Some rm' \<and> wf_rdram rm'
    \<and> (unat a < dram_size rm \<longrightarrow> (\<exists>w. read_rdram_dram rm a = Some w
         \<and> (\<forall>b. unat b div 4 = unat a div 4 \<longrightarrow> unat b < dram_size rm \<longrightarrow>
               read_rdram_dram rm' b = Some (masked_write w v msk))
         \<and> (\<forall>b. unat b div 4 \<noteq> unat a div 4 \<longrightarrow> read_rdram_dram rm' b = read_rdram_dram rm b)))
    \<and> (\<not> unat a < dram_size rm \<longrightarrow> rm' = rm \<and> read_rdram_dram rm' a = Some 0)"
proof (cases "unat a < dram_size rm")
  case True
  from write_rdram_dram_hit [OF assms True, of v msk] obtain w d where
    w: "read_rdram_dram rm a = Some w" and
    d: "put_le32 (dram rm) (4 * (unat a div 4)) (masked_write w v msk) = Some d" and
    wr: "write_rdram_dram rm a v msk = Some (rm\<lparr>dram := d\<rparr>)"
    by blast
  have read: "read_rdram_dram x b = get_le32 (dram x) (4 * (unat b div 4))"
    if "unat b < dram_size rm" "dram_size x = dram_size rm" for x b
  proof -
    have "unat (rdram_dram_address b) = unat b div 4"
      using that(1) assms by (intro rdram_dram_address_nat) (auto simp: wf_rdram_def)
    then show ?thesis using that by (simp add: read_rdram_dram_def dram_word_def)
  qed
  have same: "read_rdram_dram (rm\<lparr>dram := d\<rparr>) b = Some (masked_write w v msk)"
    if "unat b div 4 = unat a div 4" "unat b < dram_size rm" for b
    using get_put_le32 [OF d] that by (simp add: read)
  have other: "read_rdram_dram (rm\<lparr>dram := d\<rparr>) b = read_rdram_dram rm b" if "unat b div 4 \<noteq> unat a div 4" for b
  proof (cases "unat b < dram_size rm")
    case True
    have "4 * (unat b div 4) + 3 < 4 * (unat a div 4) \<or> 4 * (unat a div 4) + 3 < 4 * (unat b div 4)"
      using that by linarith
    then show ?thesis using True get_put_le32_other [OF d] by (simp add: read)
  qed (simp add: read_rdram_dram_def)
  have "wf_rdram (rm\<lparr>dram := d\<rparr>)" using assms put_le32_length [OF d] by (simp add: wf_rdram_def)
  then show ?thesis using True w wr same other by auto
next
  case False
  then show ?thesis using assms by (simp add: write_rdram_dram_def read_rdram_dram_def)
qed

text \<open>
  A word of RDRAM holds what was written. A masked write to a fitted address returns, a read of any
  address in the same word then gives the old word with exactly the masked bits replaced, every other
  word reads as before, and the memory stays well formed. A write beyond the fitted memory changes
  nothing and reads there give 0.
\<close>

theorem rdram_write_read:
  assumes "wf_rdram rm"
  shows "\<exists>rm'. write_rdram_dram rm a v msk = Some rm' \<and> wf_rdram rm'
    \<and> (unat a < dram_size rm \<longrightarrow> (\<exists>w. read_rdram_dram rm a = Some w
         \<and> (\<forall>b. unat b div 4 = unat a div 4 \<longrightarrow> unat b < dram_size rm \<longrightarrow>
               read_rdram_dram rm' b = Some (masked_write w v msk))
         \<and> (\<forall>b. unat b div 4 \<noteq> unat a div 4 \<longrightarrow> read_rdram_dram rm' b = read_rdram_dram rm b)))
    \<and> (\<not> unat a < dram_size rm \<longrightarrow> rm' = rm \<and> read_rdram_dram rm' a = Some 0)"
  using assms by (rule write_read_rdram_dram)

definition small_rdram :: rdram where
  "small_rdram = \<lparr>rdram_regs = replicate RDRAM_MAX_MODULES_COUNT (\<lambda>_. 0), dram = replicate 16 0, dram_size = 16\<rparr>"

theorem rdram_write_read_witness:
  "\<exists>rm'. write_rdram_dram small_rdram 4 0x12345678 0xffff0000 = Some rm' \<and> read_rdram_dram rm' 4 = Some 0x12340000"
proof -
  have wf: "wf_rdram small_rdram" by (simp add: wf_rdram_def small_rdram_def)
  have "read_rdram_dram small_rdram 4 = Some 0"
    by (simp add: read_rdram_dram_def small_rdram_def dram_word_def get_le32_def rdram_dram_address_def word_of_bytes_def)
  then show ?thesis
    using rdram_write_read [OF wf, of 4 "0x12345678" "0xffff0000"]
    by (auto simp: small_rdram_def masked_write_def)
qed

end
