(* ===== verification/Cart_Props.thy ===== *)
theory Cart_Props
  imports Cart
begin

text \<open>
  Properties of the cartridge's memories: block and page round trips, what an erase or a program
  leaves alone, and the addresses at which the code leaves its buffers.
\<close>

section \<open>EEPROM\<close>

lemma eeprom_write_read:
  assumes e: "unat block * 8 + 8 \<le> length (st_data (ee_storage e))"
    and buf: "data_off + 8 \<le> length buf" "status_off < length buf"
    and out: "out_off + 8 \<le> length out"
  shows "\<exists>e' buf' out'. eeprom_write_block e block buf data_off status_off = Some (e', buf')
    \<and> buf' = buf[status_off := 0]
    \<and> eeprom_read_block e' block out out_off = Some out'
    \<and> take 8 (drop out_off out') = take 8 (drop data_off buf)
    \<and> st_saves (ee_storage e') = (unat block * 8, 8) # st_saves (ee_storage e)"
proof -
  let ?m = "st_data (ee_storage e)" and ?a = "unat block * 8"
  obtain m where m: "memcpy ?m ?a buf data_off 8 = Some m" using e buf by (simp add: memcpy_def)
  have len: "length m = length ?m" using m by (rule memcpy_length)
  let ?e = "e\<lparr>ee_storage := st_save ?a 8 ((ee_storage e)\<lparr>st_data := m\<rparr>)\<rparr>"
  have w: "eeprom_write_block e block buf data_off status_off = Some (?e, buf[status_off := 0])"
    using m e buf by (simp add: eeprom_write_block_def Let_def)
  obtain o' where o': "memcpy out out_off m ?a 8 = Some o'" using e out len by (simp add: memcpy_def)
  have r: "eeprom_read_block ?e block out out_off = Some o'"
    using o' e len by (simp add: eeprom_read_block_def Let_def st_save_def)
  have "take 8 (drop out_off o') = take 8 (drop data_off buf)"
  proof (rule nth_equalityI)
    fix i
    assume "i < length (take 8 (drop out_off o'))"
    then have i: "i < 8" by simp
    have "o' ! (out_off + i) = m ! (?a + i)"
      using memcpy_nth [OF o', of "out_off + i"] i out by simp
    also have "\<dots> = buf ! (data_off + i)"
      using memcpy_nth [OF m, of "?a + i"] i e by simp
    finally show "take 8 (drop out_off o') ! i = take 8 (drop data_off buf) ! i"
      using i out buf memcpy_length [OF o'] by simp
  qed (use out buf memcpy_length [OF o'] in simp)
  then show ?thesis using w r by (auto simp: st_save_def)
qed

section \<open>Flash RAM\<close>

lemma flash_program_spec:
  assumes "length (page_buf f) = 128" "4 dvd length (st_data (fl_storage f))"
    and "offset + 128 \<le> length (st_data (fl_storage f))"
  shows "\<exists>m. flash_program f offset = Some (flash_save offset 128 m f)
    \<and> length m = length (st_data (fl_storage f))
    \<and> (\<forall>i<128. m ! s8 (offset + i) = page_buf f ! i)
    \<and> (\<forall>x. (\<forall>i<128. x \<noteq> s8 (offset + i)) \<longrightarrow> m ! x = st_data (fl_storage f) ! x)"
proof -
  let ?m = "st_data (fl_storage f)"
  let ?P = "\<lambda>k m. length m = length ?m \<and> (\<forall>i<k. m ! s8 (offset + i) = page_buf f ! i)
    \<and> (\<forall>x. (\<forall>i<k. x \<noteq> s8 (offset + i)) \<longrightarrow> m ! x = ?m ! x)"
  have "\<exists>m. for_range 0 128 (\<lambda>i m. do { v \<leftarrow> rd (page_buf f) i; wr m (s8 (offset + i)) v }) ?m = Some m
      \<and> ?P (0 + 128) m"
  proof (rule for_range_inv)
    fix j m
    assume j: "j < 0 + 128" "?P j m"
    then have "s8 (offset + j) < length m" using assms by (simp add: s8_less)
    then show "\<exists>m'. do { v \<leftarrow> rd (page_buf f) j; wr m (s8 (offset + j)) v } = Some m' \<and> ?P (Suc j) m'"
      using j assms(1) by (auto simp: nth_list_update less_Suc_eq)
  qed simp
  then show ?thesis by (auto simp: flash_program_def)
qed

lemma flashram_page_load:
  assumes "length (page_buf f) = 128" "4 dvd length d" "unat dram_addr + 128 \<le> length d"
    and "fl_mode f = FLASHRAM_MODE_PAGE_PROGRAM" "cart_addr AND 0x1ffff = 0"
  shows "\<exists>pb. flashram_dma_read f d dram_addr cart_addr 128 = Some (0x1000, f\<lparr>page_buf := pb\<rparr>)
    \<and> length pb = 128 \<and> (\<forall>i<128. pb ! i = d ! s8 (unat dram_addr + i))"
proof -
  let ?P = "\<lambda>k pb. length pb = 128 \<and> (\<forall>i<k. pb ! i = d ! s8 (unat dram_addr + i))"
  have "\<exists>pb. for_range 0 128 (\<lambda>i pb. do { v \<leftarrow> rd d (s8 (unat dram_addr + i)); wr pb i v }) (page_buf f) = Some pb
      \<and> ?P (0 + 128) pb"
  proof (rule for_range_inv)
    fix j pb
    assume j: "j < 0 + 128" "?P j pb"
    then have "s8 (unat dram_addr + j) < length d" using assms by (simp add: s8_less)
    then show "\<exists>pb'. do { v \<leftarrow> rd d (s8 (unat dram_addr + j)); wr pb j v } = Some pb' \<and> ?P (Suc j) pb'"
      using j by (auto simp: nth_list_update less_Suc_eq)
  qed (use assms in simp)
  then show ?thesis using assms(4,5) by (auto simp: flashram_dma_read_def)
qed

lemma flash_sector_erase_spec:
  assumes "fl_mode f = FLASHRAM_MODE_SECTOR_ERASE"
    and "unat (erase_page f AND 0xff80) * 128 + 0x4000 \<le> length (st_data (fl_storage f))"
  shows "\<exists>m. flash_erase f = Some (flash_save (unat (erase_page f AND 0xff80) * 128) 0x4000 m f)
    \<and> length m = length (st_data (fl_storage f))
    \<and> (\<forall>x < length m. m ! x =
         (if unat (erase_page f AND 0xff80) * 128 \<le> x \<and> x < unat (erase_page f AND 0xff80) * 128 + 0x4000
          then 0xff else st_data (fl_storage f) ! x))"
proof -
  let ?o = "unat (erase_page f AND 0xff80) * 128"
  obtain m where m: "memset (st_data (fl_storage f)) ?o 0xff 0x4000 = Some m"
    using assms(2) by (simp add: memset_def)
  then show ?thesis
    using assms(1) memset_length [OF m] memset_nth [OF m] by (auto simp: flash_erase_def Let_def)
qed

lemma flash_sector_erase_oob:
  assumes "fl_mode f = FLASHRAM_MODE_SECTOR_ERASE" "length (st_data (fl_storage f)) = FLASHRAM_SIZE"
    and "0x400 \<le> unat (erase_page f AND 0xff80)"
  shows "flash_erase f = None"
  using assms by (simp add: flash_erase_def memset_def Let_def)

section \<open>IS viewer\<close>

lemma process_newlines_inv:
  assumes "pos \<le> length ob" "process_newlines ob pos lg = (ob', pos', lg')"
  shows "length ob' = length ob \<and> pos' \<le> pos \<and> memchr ob' 10 pos' = None"
  using assms
proof (induction ob pos lg rule: process_newlines.induct)
  case (1 ob pos lg)
  show ?case
  proof (cases "memchr ob 10 pos")
    case None
    then show ?thesis using "1.prems" by (simp add: process_newlines.simps [of ob])
  next
    case (Some k)
    note k = memchr_less [OF Some]
    let ?ob = "drop (k + 1) (ob[k := 0]) @ drop (length (ob[k := 0]) - (k + 1)) (ob[k := 0])"
    have l: "length ?ob = length ob" using k by (simp, linarith)
    have "length ob' = length ?ob \<and> pos' \<le> pos - (k + 1) \<and> memchr ob' 10 pos' = None"
      by (rule "1.IH" [OF Some refl refl refl refl])
         (use "1.prems" Some l in \<open>auto simp: process_newlines.simps [of ob] Let_def\<close>)
    then show ?thesis using l by auto
  qed
qed

end
