(* ===== verification/Cart_Claims.thy ===== *)
theory Cart_Claims
  imports Cart_Props
begin

text \<open>
  Claims about the cartridge at the level of what the console sees: joybus commands for the EEPROM,
  the command sequences of the flash chip, and the text window of the IS viewer.
\<close>

section \<open>Joybus messages\<close>

definition joybus_msg :: "u8 list \<Rightarrow> joybus_ptr \<Rightarrow> u8 \<Rightarrow> u8 \<Rightarrow> u8 \<Rightarrow> bool" where
  "joybus_msg buf p tx rx cmd \<longleftrightarrow>
     rd buf (jp_tx p) = Some tx \<and> rd buf (jp_rx p) = Some rx \<and> rd buf (jp_tx_buf p) = Some cmd"

lemma joybus_check_ok:
  "joybus_msg buf p tx rx cmd \<Longrightarrow> joybus_check tx rx p d buf k = k"
  by (simp add: joybus_msg_def joybus_check_def)

lemma joybus_check_bad:
  assumes "joybus_msg buf p tx rx cmd" "tx \<noteq> etx \<or> rx \<noteq> erx"
  shows "joybus_check etx erx p d buf k = Some (d, buf[jp_rx p := rx OR 0x40])"
  using assms by (auto simp: joybus_msg_def joybus_check_def rx_or_def rd_eq_Some_iff)

lemma eeprom_write_other:
  assumes "eeprom_write_block e blk buf data_off status_off = Some (e', buf')"
    and "unat blk * 8 + 8 \<le> length (st_data (ee_storage e))" "i div 8 \<noteq> unat blk" "i < length (st_data (ee_storage e))"
  shows "st_data (ee_storage e') ! i = st_data (ee_storage e) ! i"
proof -
  obtain m where m: "memcpy (st_data (ee_storage e)) (unat blk * 8) buf data_off 8 = Some m"
      "st_data (ee_storage e') = m"
    using assms(1,2) by (auto simp: eeprom_write_block_def Let_def st_save_def split: bind_splits)
  have "\<not> (unat blk * 8 \<le> i \<and> i < unat blk * 8 + 8)" using assms(3) by (auto simp: div_nat_eqI)
  then show ?thesis using memcpy_nth [OF m(1)] assms(4) m(2) by auto
qed

text \<open>
  C37: An EEPROM block written with a joybus write command is the block that a read command returns.
  For well-formed messages and a block of the chip both commands succeed, the write answers status 0,
  the eight bytes of the answer are the eight bytes that were sent, the read changes nothing, and every
  byte outside the block keeps its value.
\<close>

theorem eeprom_command_roundtrip:
  assumes w: "joybus_msg bw pw 10 1 JCMD_EEPROM_WRITE" "rd bw (jp_tx_buf pw + 1) = Some blk"
      "jp_tx_buf pw + 10 \<le> length bw" "jp_rx_buf pw < length bw"
    and r: "joybus_msg br pr 2 8 JCMD_EEPROM_READ" "rd br (jp_tx_buf pr + 1) = Some blk"
      "jp_rx_buf pr + 8 \<le> length br"
    and blk: "unat blk * 8 + 8 \<le> length (st_data (ee_storage (c_eeprom c)))"
  shows "\<exists>e br'. process_cart_command lt clk pw c bw = Some (c\<lparr>c_eeprom := e\<rparr>, bw[jp_rx_buf pw := 0])
    \<and> process_cart_command lt clk' pr (c\<lparr>c_eeprom := e\<rparr>) br = Some (c\<lparr>c_eeprom := e\<rparr>, br')
    \<and> take 8 (drop (jp_rx_buf pr) br') = take 8 (drop (jp_tx_buf pw + 2) bw)
    \<and> (\<forall>i < length (st_data (ee_storage (c_eeprom c))). i div 8 \<noteq> unat blk \<longrightarrow>
         st_data (ee_storage e) ! i = st_data (ee_storage (c_eeprom c)) ! i)"
proof -
  obtain e br' where e: "eeprom_write_block (c_eeprom c) blk bw (jp_tx_buf pw + 2) (jp_rx_buf pw)
        = Some (e, bw[jp_rx_buf pw := 0])"
      "eeprom_read_block e blk br (jp_rx_buf pr) = Some br'"
      "take 8 (drop (jp_rx_buf pr) br') = take 8 (drop (jp_tx_buf pw + 2) bw)"
    using eeprom_write_read [OF blk _ w(4) r(3), of "jp_tx_buf pw + 2"] w(3) by auto
  have "process_cart_command lt clk pw c bw = Some (c\<lparr>c_eeprom := e\<rparr>, bw[jp_rx_buf pw := 0])"
    using w(1) unfolding process_cart_command_def joybus_check_ok [OF w(1)] w(2) e(1)
    by (simp add: joybus_msg_def e(1) del: add_2_eq_Suc')
  moreover have "process_cart_command lt clk' pr (c\<lparr>c_eeprom := e\<rparr>) br = Some (c\<lparr>c_eeprom := e\<rparr>, br')"
    using r(1) unfolding process_cart_command_def joybus_check_ok [OF r(1)] r(2)
    by (simp add: joybus_msg_def e(2))
  ultimately show ?thesis using e(3) eeprom_write_other [OF e(1) blk] by blast
qed

definition blank_cart :: cart where
  "blank_cart =
     \<lparr>c_rtc = \<lparr>rtc_control = 0, rtc_now = 0, last_update_rtc = 0\<rparr>,
      c_rom = \<lparr>rom = replicate 64 0, last_write = 0\<rparr>,
      c_eeprom = \<lparr>ee_type = JDT_EEPROM_4K, ee_storage = \<lparr>st_data = replicate 0x200 0xff, st_saves = []\<rparr>\<rparr>,
      c_flashram = \<lparr>page_buf = replicate 128 0xff, silicon_id0 = FLASHRAM_TYPE_ID, silicon_id1 = MX29L1100_ID,
        fl_status = 0, erase_page = 0, fl_mode = FLASHRAM_MODE_READ_ARRAY,
        fl_storage = \<lparr>st_data = replicate FLASHRAM_SIZE 0xff, st_saves = []\<rparr>\<rparr>,
      c_sram = \<lparr>st_data = replicate SRAM_SIZE 0xff, st_saves = []\<rparr>, use_flashram = 0\<rparr>"

theorem eeprom_command_roundtrip_witness:
  "\<exists>e br'. process_cart_command (\<lambda>_. undefined) 0 \<lparr>jp_tx = 0, jp_tx_buf = 2, jp_rx = 1, jp_rx_buf = 12\<rparr> blank_cart
      [10, 1, 5, 3, 11, 12, 13, 14, 15, 16, 17, 18, 0xAA] =
        Some (blank_cart\<lparr>c_eeprom := e\<rparr>, [10, 1, 5, 3, 11, 12, 13, 14, 15, 16, 17, 18, 0])
    \<and> process_cart_command (\<lambda>_. undefined) 9 \<lparr>jp_tx = 0, jp_tx_buf = 2, jp_rx = 1, jp_rx_buf = 4\<rparr>
        (blank_cart\<lparr>c_eeprom := e\<rparr>) [2, 8, 4, 3, 0, 0, 0, 0, 0, 0, 0, 0] = Some (blank_cart\<lparr>c_eeprom := e\<rparr>, br')
    \<and> take 8 (drop 4 br') = [11, 12, 13, 14, 15, 16, 17, 18]"
  using eeprom_command_roundtrip [of "[10, 1, 5, 3, 11, 12, 13, 14, 15, 16, 17, 18, 0xAA]"
      "\<lparr>jp_tx = 0, jp_tx_buf = 2, jp_rx = 1, jp_rx_buf = 12\<rparr>" 3 "[2, 8, 4, 3, 0, 0, 0, 0, 0, 0, 0, 0]"
      "\<lparr>jp_tx = 0, jp_tx_buf = 2, jp_rx = 1, jp_rx_buf = 4\<rparr>" blank_cart "\<lambda>_. undefined" 0 9]
  by (auto simp: joybus_msg_def blank_cart_def rd_def)

section \<open>Flash RAM\<close>

lemma flash_page_word:
  assumes "p < (0x400 :: u32)"
  shows "(0xa5000000 OR p) AND 0xff000000 = 0xa5000000" "(0xa5000000 OR p) AND 0xffff = p"
    "unat (p * 64 AND 0xffff) = unat p * 64" "unat ((p * 64 AND 0xffff) * 2) = unat p * 128"
    "p * 64 AND 0x1ffff < 0x10000"
proof -
  have lt: "unat p < 0x400" using assms by (simp add: word_less_nat_alt)
  have p: "p AND 0x3ff = p"
    by (rule word_unat_eq_iff [THEN iffD2]) (use unat_and_mask [of p 10] lt in \<open>simp add: mask_eq_exp_minus_1\<close>)
  have "p AND 0xff000000 = p AND (0x3ff AND 0xff000000)" "p AND 0xffff = p AND (0x3ff AND 0xffff)"
    by (simp_all only: and.assoc [symmetric] p)
  then have "p AND 0xff000000 = 0" "p AND 0xffff = p" using p by simp_all
  then show "(0xa5000000 OR p) AND 0xff000000 = 0xa5000000" "(0xa5000000 OR p) AND 0xffff = p"
    by (simp_all add: bit.conj_disj_distrib2)
  have m: "unat (p * 64) = unat p * 64" using lt by (simp add: unat_word_ariths)
  then show a: "unat (p * 64 AND 0xffff) = unat p * 64"
    using unat_and_mask [of "p * 64" 16] lt by (simp add: mask_eq_exp_minus_1)
  then show "unat ((p * 64 AND 0xffff) * 2) = unat p * 128"
    using lt by (simp only: unat_word_ariths) simp
  show "p * 64 AND 0x1ffff < 0x10000"
    unfolding word_less_nat_alt using unat_and_mask [of "p * 64" 17] m lt by (simp add: mask_eq_exp_minus_1)
qed

lemma write_flashram_command:
  "write_flashram f 0x08010000 command 0xffffffff = flashram_command f command"
  unfolding write_flashram_def and_u32_full by simp

text \<open>What the console does to store a page and to fetch it again.\<close>

definition flash_store_page :: "flashram \<Rightarrow> u8 list \<Rightarrow> u32 \<Rightarrow> u32 \<Rightarrow> flashram option" where
  "flash_store_page f d src page = do {
     f \<leftarrow> write_flashram f 0x08010000 0xb4000000 0xffffffff;
     (_, f) \<leftarrow> flashram_dma_read f d src 0x08000000 128;
     write_flashram f 0x08010000 (0xa5000000 OR page) 0xffffffff }"

definition flash_fetch_page :: "flashram \<Rightarrow> u8 list \<Rightarrow> u32 \<Rightarrow> u32 \<Rightarrow> (u8 list \<times> flashram) option" where
  "flash_fetch_page f d dst page = do {
     f \<leftarrow> write_flashram f 0x08010000 0xf0000000 0xffffffff;
     (_, d) \<leftarrow> flashram_dma_write f d dst (page * 64) 128;
     Some (d, f) }"

lemma flash_store_page_spec:
  assumes "length (page_buf f) = 128" "length (st_data (fl_storage f)) = FLASHRAM_SIZE"
    and "4 dvd length d" "unat src + 128 \<le> length d" "page < 0x400"
  shows "\<exists>f'. flash_store_page f d src page = Some f' \<and> fl_mode f' = FLASHRAM_MODE_STATUS
    \<and> silicon_id1 f' = silicon_id1 f \<and> length (st_data (fl_storage f')) = FLASHRAM_SIZE
    \<and> (\<forall>i<128. st_data (fl_storage f') ! s8 (unat page * 128 + i) = d ! s8 (unat src + i))
    \<and> (\<forall>x. (\<forall>i<128. x \<noteq> s8 (unat page * 128 + i)) \<longrightarrow> st_data (fl_storage f') ! x = st_data (fl_storage f) ! x)"
proof -
  let ?f = "f\<lparr>fl_mode := FLASHRAM_MODE_PAGE_PROGRAM\<rparr>"
  have lt: "unat page < 0x400" using assms(5) by (simp add: word_less_nat_alt)
  obtain pb where pb: "flashram_dma_read ?f d src 0x08000000 128 = Some (0x1000, ?f\<lparr>page_buf := pb\<rparr>)"
      "length pb = 128" "\<forall>i<128. pb ! i = d ! s8 (unat src + i)"
    using flashram_page_load [of ?f d src "0x08000000"] assms by auto
  let ?g = "?f\<lparr>page_buf := pb\<rparr>\<lparr>fl_status := fl_status ?f OR 0x01\<rparr>"
  obtain m where m: "flash_program ?g (unat page * 128) = Some (flash_save (unat page * 128) 128 m ?g)"
      "length m = FLASHRAM_SIZE" "\<forall>i<128. m ! s8 (unat page * 128 + i) = pb ! i"
      "\<forall>x. (\<forall>i<128. x \<noteq> s8 (unat page * 128 + i)) \<longrightarrow> m ! x = st_data (fl_storage f) ! x"
    using flash_program_spec [of ?g "unat page * 128"] assms lt pb(2) by auto
  have "flash_store_page f d src page = Some ((flash_save (unat page * 128) 128 m ?g)
      \<lparr>fl_status := (fl_status (flash_save (unat page * 128) 128 m ?g) AND NOT 0x01) OR 0x04,
       fl_mode := FLASHRAM_MODE_STATUS\<rparr>)"
    unfolding flash_store_page_def write_flashram_command flashram_command_def Let_def flash_page_word [OF assms(5)]
    using pb(1) m(1) by simp
  then show ?thesis using m pb(3) by (auto simp: flash_save_def st_save_def)
qed

text \<open>
  C36: A page programmed into the flash chip is read back. On a chip of the first generation, loading
  128 bytes of RDRAM into the page buffer, programming them into any of the 1024 pages and reading that
  page with a DMA puts the same bytes, in console order, at the destination; every byte of the chip
  outside the page keeps its value.
\<close>

theorem flash_page_roundtrip:
  assumes "length (page_buf f) = 128" "length (st_data (fl_storage f)) = FLASHRAM_SIZE"
    and "4 dvd length d" "unat src + 128 \<le> length d" "unat dst + 128 \<le> length d" "page < 0x400"
    and "silicon_id1 f = MX29L1100_ID"
  shows "\<exists>f1 f2 d'. flash_store_page f d src page = Some f1 \<and> flash_fetch_page f1 d dst page = Some (d', f2)
    \<and> length d' = length d \<and> (\<forall>i<128. d' ! s8 (unat dst + i) = d ! s8 (unat src + i))
    \<and> (\<forall>x. (\<forall>i<128. x \<noteq> s8 (unat page * 128 + i)) \<longrightarrow> st_data (fl_storage f2) ! x = st_data (fl_storage f) ! x)"
proof -
  have lt: "unat page < 0x400" using assms(6) by (simp add: word_less_nat_alt)
  obtain f1 where f1: "flash_store_page f d src page = Some f1" "silicon_id1 f1 = MX29L1100_ID"
      "length (st_data (fl_storage f1)) = FLASHRAM_SIZE"
      "\<forall>i<128. st_data (fl_storage f1) ! s8 (unat page * 128 + i) = d ! s8 (unat src + i)"
      "\<forall>x. (\<forall>i<128. x \<noteq> s8 (unat page * 128 + i)) \<longrightarrow> st_data (fl_storage f1) ! x = st_data (fl_storage f) ! x"
    using flash_store_page_spec [OF assms(1-4,6)] assms(7) by auto
  let ?f = "f1\<lparr>fl_mode := FLASHRAM_MODE_READ_ARRAY\<rparr>"
  obtain d' where d': "copy_s8 d (unat dst) (st_data (fl_storage f1)) (unat page * 128) 128 = Some d'"
      "length d' = length d" "\<forall>i<128. d' ! s8 (unat dst + i) = st_data (fl_storage f1) ! s8 (unat page * 128 + i)"
    using copy_s8_Some [of d "st_data (fl_storage f1)" "unat dst" 128 "unat page * 128"] assms(3,5) f1(3) lt by auto
  have "flash_fetch_page f1 d dst page = Some (d', ?f)"
    unfolding flash_fetch_page_def write_flashram_command flashram_command_def flashram_dma_write_def Let_def
    using d'(1) f1(2) flash_page_word [OF assms(6)] by simp
  then show ?thesis using f1 d' by auto
qed

theorem flash_page_roundtrip_witness:
  "\<exists>f1 f2 d'. flash_store_page (c_flashram blank_cart) (replicate 0x1000 7) 0x100 5 = Some f1
    \<and> flash_fetch_page f1 (replicate 0x1000 7) 0x200 5 = Some (d', f2) \<and> length d' = 0x1000
    \<and> st_data (fl_storage f2) ! 0 = 0xff"
proof -
  have "s8 (640 + i) \<noteq> 0" for i using s8_inj [of "640 + i" "s8 0"] by (simp add: s8_def)
  then show ?thesis
    using flash_page_roundtrip [of "c_flashram blank_cart" "replicate 0x1000 7" "0x100" "0x200" 5]
    by (fastforce simp: blank_cart_def dvd_eq_mod_eq_0)
qed

section \<open>IS viewer\<close>

text \<open>The complete lines of a text and the unfinished rest.\<close>

fun split_lines :: "u8 list \<Rightarrow> u8 list list \<times> u8 list" where
  "split_lines [] = ([], [])"
| "split_lines (c # cs) =
     (if c = 10 then ([] # fst (split_lines cs), snd (split_lines cs))
      else case fst (split_lines cs) of
             [] \<Rightarrow> ([], c # snd (split_lines cs))
           | l # ls \<Rightarrow> ((c # l) # ls, snd (split_lines cs)))"

lemma split_lines_none: "10 \<notin> set cs \<Longrightarrow> split_lines cs = ([], cs)"
  by (induction cs) auto

lemma split_lines_first:
  "10 \<notin> set l \<Longrightarrow> split_lines (l @ 10 # cs) = (l # fst (split_lines cs), snd (split_lines cs))"
  by (induction l) auto

lemma memchr_None: "n \<le> length b \<Longrightarrow> memchr b c n = None \<longleftrightarrow> c \<notin> set (take n b)"
  by (induction b c n rule: memchr.induct) auto

lemma memchr_Some:
  "memchr b c n = Some k \<Longrightarrow> n \<le> length b \<Longrightarrow>
     take n b = take k b @ c # take (n - Suc k) (drop (Suc k) b) \<and> c \<notin> set (take k b)"
  by (induction b c n arbitrary: k rule: memchr.induct) (auto split: if_splits)

lemma process_newlines_splits:
  assumes "pos \<le> length ob" "0 \<notin> set (take pos ob)" "process_newlines ob pos lg = (ob', pos', lg')"
  shows "lg' = rev (fst (split_lines (take pos ob))) @ lg \<and> take pos' ob' = snd (split_lines (take pos ob))
    \<and> pos' \<le> length ob'"
  using assms
proof (induction ob pos lg rule: process_newlines.induct)
  case (1 ob pos lg)
  show ?case
  proof (cases "memchr ob 10 pos")
    case None
    then have "ob' = ob" "pos' = pos" "lg' = lg"
      using "1.prems"(3) by (simp_all add: process_newlines.simps [of ob])
    then show ?thesis
      using split_lines_none [of "take pos ob"] memchr_None [of pos ob 10] None "1.prems"(1) by simp
  next
    case (Some k)
    note k = memchr_less [OF Some] and cut = memchr_Some [OF Some "1.prems"(1)]
    let ?ob = "drop (k + 1) (ob[k := 0]) @ drop (length (ob[k := 0]) - (k + 1)) (ob[k := 0])"
    have line: "takeWhile (\<lambda>b. b \<noteq> 0) (ob[k := 0]) = take k ob"
    proof -
      have "0 \<notin> set (take k ob)"
        using cut "1.prems"(2) by (metis Un_iff set_append)
      moreover have "ob[k := 0] = take k ob @ 0 # drop (Suc k) ob" using k by (simp add: upd_conv_take_nth_drop)
      ultimately show ?thesis by (simp only: takeWhile_append) auto
    qed
    have rest: "take (pos - (k + 1)) ?ob = take (pos - Suc k) (drop (Suc k) ob)"
      using k "1.prems"(1) by simp
    have l: "length ?ob = length ob" using k by (simp, linarith)
    have "lg' = rev (fst (split_lines (take (pos - (k + 1)) ?ob))) @ (take k ob # lg)
      \<and> take pos' ob' = snd (split_lines (take (pos - (k + 1)) ?ob)) \<and> pos' \<le> length ob'"
    proof (rule "1.IH" [OF Some refl refl _ refl])
      show "take k ob # lg = takeWhile (\<lambda>b. b \<noteq> 0) (ob[k := 0]) # lg" by (simp add: line)
      show "pos - (k + 1) \<le> length ?ob" using l "1.prems"(1) by simp
      show "0 \<notin> set (take (pos - (k + 1)) ?ob)"
        unfolding rest using cut "1.prems"(2) by (metis Un_iff set_append list.set_intros(2))
      show "process_newlines ?ob (pos - (k + 1)) (take k ob # lg) = (ob', pos', lg')"
        using "1.prems"(3) Some by (simp add: process_newlines.simps [of ob] Let_def line)
    qed
    moreover have "split_lines (take pos ob) =
        (take k ob # fst (split_lines (take (pos - Suc k) (drop (Suc k) ob))),
         snd (split_lines (take (pos - Suc k) (drop (Suc k) ob))))"
      using cut split_lines_first [of "take k ob"] by metis
    ultimately show ?thesis unfolding rest by simp
  qed
qed

text \<open>
  The IS viewer prints every complete line once. When the console announces \<open>n\<close> bytes of text in
  the window, none of them zero, and they fit in the line buffer, the text that was waiting followed by
  the new text is cut at its new lines: each complete line is printed, in order, and what follows the
  last new line is what waits.
\<close>

theorem is_viewer_prints_lines:
  assumes "length (is_data v) = IS_BUFFER_SIZE" "length (output_buffer v) = IS_BUFFER_SIZE"
    and "0 < n" "unat (buffer_pos v) + unat n \<le> IS_BUFFER_SIZE" "0x20 + unat n \<le> IS_BUFFER_SIZE"
    and "0 \<notin> set (take (unat (buffer_pos v)) (output_buffer v) @ take (unat n) (drop 0x20 (is_data v)))"
    and "a AND 0xfff = 0x14"
  shows "\<exists>v'. write_is_viewer v a n 0xffffffff = Some v'
    \<and> is_log v' = rev (fst (split_lines (take (unat (buffer_pos v)) (output_buffer v) @
                              take (unat n) (drop 0x20 (is_data v))))) @ is_log v
    \<and> take (unat (buffer_pos v')) (output_buffer v') =
        snd (split_lines (take (unat (buffer_pos v)) (output_buffer v) @ take (unat n) (drop 0x20 (is_data v))))"
proof -
  let ?p = "unat (buffer_pos v)" and ?txt = "take (unat n) (drop 0x20 (is_data v))"
  have sum: "unat (buffer_pos v + n) = ?p + unat n" using assms(4) by (simp add: unat_add_u32)
  obtain ob where ob: "memcpy (output_buffer v) ?p (is_data v) 0x20 (unat n) = Some ob"
    using assms(1,2,4,5) by (simp add: memcpy_def)
  have len: "length ob = IS_BUFFER_SIZE" using memcpy_length [OF ob] assms(2) by simp
  have whole: "take (?p + unat n) ob = take ?p (output_buffer v) @ ?txt"
    using ob assms(1,2,4,5) by (auto simp: memcpy_def split: if_splits)
  obtain ob' pos' lg' where p: "process_newlines ob (?p + unat n) (is_log v) = (ob', pos', lg')"
    by (metis prod_cases3)
  have r: "lg' = rev (fst (split_lines (take ?p (output_buffer v) @ ?txt))) @ is_log v"
      "take pos' ob' = snd (split_lines (take ?p (output_buffer v) @ ?txt))"
    using process_newlines_splits [OF _ _ p] len assms(4,6) unfolding whole by auto
  have "pos' \<le> ?p + unat n" using process_newlines_inv [OF _ p] len assms(4) by simp
  then have "unat (word_of_nat pos' :: u32) = pos'" using assms(4) by (simp add: unat_word_of_nat_lt)
  moreover have "write_is_viewer v a n 0xffffffff =
      Some (v\<lparr>output_buffer := ob', buffer_pos := word_of_nat pos', is_log := lg'\<rparr>)"
    unfolding write_is_viewer_def and_u32_full Let_def using assms(3,4,7) ob p sum by simp
  ultimately show ?thesis using r by simp
qed

theorem is_viewer_prints_lines_witness:
  "\<exists>v'. write_is_viewer \<lparr>is_data = replicate 0x20 0 @ [72, 105, 10, 33] @ replicate 0xfdc 0,
          output_buffer = replicate 0x1000 0, buffer_pos = 0, is_log = []\<rparr> 0x13ff0014 4 0xffffffff = Some v'
    \<and> is_log v' = [[72, 105]] \<and> take (unat (buffer_pos v')) (output_buffer v') = [33]"
  using is_viewer_prints_lines [of "\<lparr>is_data = replicate 0x20 0 @ [72, 105, 10, 33] @ replicate 0xfdc 0,
      output_buffer = replicate 0x1000 0, buffer_pos = 0, is_log = []\<rparr>" 4 "0x13ff0014"] by simp

end
