(* ===== verification/Console.thy ===== *)
theory Console
  imports Device Bus_Claims Cart_Claims
begin

text \<open>
  A concrete machine: 8 MiB of RDRAM, a 4 KiB cartridge, no joybus devices, the processor as
  \<^verbatim>\<open>poweron_cp0\<close> leaves it, plugins and front end that do nothing. The examples of the other theories
  run on it.
\<close>

definition blank_gfx :: "'s gfx_plugin" where
  "blank_gfx = \<lparr>gfx_fb_api = False, gfx_fBRead = (\<lambda>_ s. s), gfx_fBWrite = (\<lambda>_ _ s. s),
     gfx_fBGetFrameBufferInfo = (\<lambda>_. []), gfx_updateScreen = (\<lambda>s. s), gfx_processRDPList = (\<lambda>s. s)\<rparr>"

definition blank_av :: "'s av_env" where
  "blank_av = \<lparr>viStatusChanged = (\<lambda>s. s), viWidthChanged = (\<lambda>s. s), updateScreen = (\<lambda>s. s), new_vi = (\<lambda>s. s),
     CountPerScanlineOverride = 0, set_frequency = (\<lambda>_ s. s), push_samples = (\<lambda>_ s. s), dma_modifier = (\<lambda>d. d)\<rparr>"

definition blank_pi :: "'s pi_env" where
  "blank_pi = \<lparr>pi_gfx = blank_gfx, dd_dom_dma_read = (\<lambda>_ _ _ s. Some (0, s)),
     dd_dom_dma_write = (\<lambda>_ _ _ s. Some (0, s)), pi_rand = 0\<rparr>"

definition blank_si :: "'s si_env" where
  "blank_si = \<lparr>ijbd = (\<lambda>_. None), input_controllerCommand = (\<lambda>s. s), input_readController = (\<lambda>s. s),
     netplay_update_input = (\<lambda>s. s), si_rand = 0\<rparr>"

definition console_env :: "'s dev_env" where
  "console_env = \<lparr>d_irq = idle_env (\<lambda>_ s. Some s),
     d_rcp = \<lparr>gfx = blank_gfx, doRspCycles = (\<lambda>s. s), new_frame = (\<lambda>s. s)\<rparr>, d_pi = blank_pi, d_si = blank_si,
     d_av = blank_av, d_ignore_tlb = 0, d_dd_regs_read = (\<lambda>_ s. Some (0, s)), d_dd_regs_write = (\<lambda>_ _ _ s. Some s),
     d_dd_rom_read = (\<lambda>_ _. Some 0), d_dd_rom = [], d_dd_int = (\<lambda>_ s. Some s), d_reset_hard = Some,
     d_poweron_jbd = (\<lambda>_ s. s), d_poweron_dd = Some, d_tv_type = SYSTEM_NTSC,
     d_fpu = \<lparr>nan_s = (\<lambda>_. 0x7fc00000), nan_d = (\<lambda>_. 0x7ff8000000000000), nan_s_d = (\<lambda>_. 0x7fc00000),
       nan_d_s = (\<lambda>_. 0x7ff8000000000000)\<rparr>, d_uninit = 0,
     d_savestates_get_job = (\<lambda>_. savestates_job_nothing), d_savestates_load = Some, d_savestates_save = Some\<rparr>"

definition console :: device where
  "console =
     \<lparr>r4300 = boot_r4300\<lparr>cp0 := boot_cp0\<lparr>last_addr := 0xbfc00000, count_per_op_denom_pot := 0\<rparr>\<rparr>, g_gs_vi_counter = 0, mi = \<lparr>mi_regs = \<lambda>_. 0\<rparr>,
      mem = init_memory blank_mem (device_mappings 0x1000 0),
      rdram = \<lparr>rdram_regs = replicate RDRAM_MAX_MODULES_COUNT (\<lambda>_. 0), dram = replicate RDRAM_MAX_SIZE 0,
        dram_size = RDRAM_MAX_SIZE\<rparr>,
      ri = \<lparr>ri_regs = \<lambda>_. 0\<rparr>,
      dp = \<lparr>dpc_regs = \<lambda>_. 0, dps_regs = \<lambda>_. 0, do_on_unfreeze = 0,
        rdp_fb = \<lparr>dirty_page = replicate FB_DIRTY_PAGES_COUNT False,
          infos = replicate FB_INFOS_COUNT \<lparr>fbi_addr = 0, fbi_size = 0, fbi_width = 0, fbi_height = 0\<rparr>,
          once = True\<rparr>\<rparr>,
      sp = \<lparr>sp_mem = replicate SP_MEM_SIZE 0, sp_regs = (\<lambda>_. 0)(SP_STATUS_REG := 1), sp_regs2 = \<lambda>_. 0,
        rsp_task_locked = False,
        fifo0 = \<lparr>dma_dir = SP_DMA_READ, dma_length = 0, dma_memaddr = 0, dma_dramaddr = 0\<rparr>,
        fifo1 = \<lparr>dma_dir = SP_DMA_READ, dma_length = 0, dma_memaddr = 0, dma_dramaddr = 0\<rparr>\<rparr>,
      pi_ctl = \<lparr>pi_regs = \<lambda>_. 0\<rparr>,
      cart = blank_cart\<lparr>c_rom := \<lparr>rom = replicate 0x1000 7, last_write = 0\<rparr>\<rparr>,
      si = \<lparr>si_regs = \<lambda>_. 0, si_dma_dir = SI_NO_DMA, dma_duration = 0x900\<rparr>,
      pif = \<lparr>pif_base = replicate 0x800 0, channels = replicate PIF_CHANNELS_COUNT None,
        dummy_reset_buffer = replicate PIF_CHANNELS_COUNT (replicate 6 0), pif_cic = hd cics\<rparr>,
      vi = \<lparr>vi_regs = \<lambda>_. 0, vi_field = 0, vi_delay = 5000, vi_clock = 48681812, expected_refresh_rate = 60,
        count_per_scanline = 1500\<rparr>,
      ai = \<lparr>ai_regs = \<lambda>_. 0, ai_fifo0 = \<lparr>ai_address = 0, ai_length = 0, ai_duration = 0\<rparr>,
        ai_fifo1 = \<lparr>ai_address = 0, ai_length = 0, ai_duration = 0\<rparr>, samples_format_changed = False,
        last_read = 0, delayed_carry = False\<rparr>,
      isv = \<lparr>is_data = replicate IS_BUFFER_SIZE 0, output_buffer = replicate IS_BUFFER_SIZE 0, buffer_pos = 0,
        is_log = []\<rparr>\<rparr>"

lemma console_r4300: "r4300 console = boot_r4300\<lparr>cp0 := boot_cp0\<lparr>last_addr := 0xbfc00000, count_per_op_denom_pot := 0\<rparr>\<rparr>"
  by (simp add: console_def)

lemma console_queue:
  "cp0_q (cp0 (r4300 console)) = cp0_q boot_cp0" "creg (r4300 console) = cp0_regs boot_cp0"
  "emu_mode (r4300 console) = EMUMODE_PURE_INTERPRETER" "elapsed_count (r4300 console) = 0"
  "cp0_inv (cp0 (r4300 console))" "pc (r4300 console) = 0xbfc00000"
proof -
  have "due (c\<lparr>last_addr := n, count_per_op_denom_pot := 0\<rparr>) = due c" for c n by (rule ext) (simp add: due_def now_def Let_def)
  then have "cp0_inv (c\<lparr>last_addr := n, count_per_op_denom_pot := 0\<rparr>) = cp0_inv c" for c n by (simp add: cp0_inv_def)
  then show "cp0_inv (cp0 (r4300 console))" using boot_cp0_spec(1) by (simp add: console_r4300)
qed (simp_all add: console_r4300 boot_r4300_def elapsed_count_def Let_def)

lemma console_facts:
  "queue_room console" "fb_absent (fb_of console) = Some True" "wf_rdram (rdram console)"
  "length (dram (rdram console)) = RDRAM_MAX_SIZE" "length (sp_mem (sp console)) = SP_MEM_SIZE"
  "length (pif_base (pif console)) = 0x800" "rom (c_rom (cart console)) = replicate 0x1000 7"
  "pi_regs (pi_ctl console) = (\<lambda>_. 0)"
proof -
  show "queue_room console"
    using boot_cp0_spec(1,4) unfolding queue_room_def console_queue
    by (simp add: cp0_inv_def INTERRUPT_NODES_POOL_CAPACITY_def)
  show "wf_rdram (rdram console)" by (simp add: console_def wf_rdram_def)
  show "fb_absent (fb_of console) = Some True" by (simp add: console_def fb_absent_def)
qed (simp_all add: console_def)

end
