(* ===== verification/Mips_Arith.thy ===== *)
theory Mips_Arith
  imports Pure_Interp Console
begin

text \<open>
  What the arithmetic instructions compute: the products of the multiplications against exact integer
  products, the quotients and remainders of the divisions, and the sign-extended form of 32-bit
  results.
\<close>

section \<open>Exact products\<close>

lemma unat_low32: "unat (x AND 0xFFFFFFFF :: u64) = unat x mod 2 ^ 32"
proof -
  have "(0xFFFFFFFF :: u64) = mask 32" by (simp add: mask_eq_exp_minus_1)
  then show ?thesis by (simp only: unat_and_mask)
qed

lemma high32_and: "drop_bit 32 x AND 0xFFFFFFFF = (drop_bit 32 x :: u64)"
proof -
  have m: "(0xFFFFFFFF :: u64) = mask 32" by (simp add: mask_eq_exp_minus_1)
  have "unat (drop_bit 32 x) < 2 ^ 32" using unsigned_less [of x, where ?'a = nat]
    by (simp add: unat_drop_bit less_mult_imp_div_less)
  then show ?thesis unfolding m by (rule and_mask_self)
qed

lemma unat_push_bit_word: "unat (push_bit n (x :: 'a::len word)) = (unat x * 2 ^ n) mod 2 ^ LENGTH('a)"
  by (subst unsigned_push_bit_eq) (simp only: push_bit_eq_mult take_bit_eq_mod)

lemma unat_push32: "unat (push_bit 32 x :: u64) = (unat x mod 2 ^ 32) * 2 ^ 32"
  unfolding unat_push_bit_word mult_mod_left by simp

lemma or_push32:
  assumes "unat (x :: u64) < 2 ^ 32"
  shows "unat (x OR push_bit 32 y) = unat x + (unat y mod 2 ^ 32) * 2 ^ 32"
proof -
  have "x OR push_bit 32 y = x + push_bit 32 y"
    by (rule disjunctive_add [symmetric]) (auto simp: bit_simps dest: bit_less_exp [OF assms])
  moreover have "unat x + unat (push_bit 32 y) < 2 ^ 64"
  proof -
    have "unat y mod 2 ^ 32 < 2 ^ 32" by (rule mod_less_divisor) simp
    with assms show ?thesis unfolding unat_push32 by simp
  qed
  ultimately show ?thesis by (simp only: unat_word_ariths unat_push32) simp
qed

lemma join_bits: "(x AND mask n) OR push_bit n (drop_bit n x) = (x :: 'a::len word)"
  by (rule bit_word_eqI) (simp add: bit_simps, metis le_add_diff_inverse not_le)

lemma join32: "(x AND 0xFFFFFFFF) OR push_bit 32 (drop_bit 32 x) = (x :: u64)"
proof -
  have "(0xFFFFFFFF :: u64) = mask 32" by (simp add: mask_eq_exp_minus_1)
  then show ?thesis by (simp only: join_bits)
qed


text \<open>The schoolbook scheme on natural numbers: four partial products below \<open>P\<^sup>2\<close>.\<close>

lemma schoolbook:
  fixes a0 a1 b0 b1 P :: nat
  defines "t1 \<equiv> a0 * b0"
  defines "t2 \<equiv> t1 div P + a0 * b1"
  defines "t3 \<equiv> a1 * b0"
  defines "t4 \<equiv> t3 div P + a1 * b1"
  defines "r2 \<equiv> t2 + t3 mod P"
  defines "r3 \<equiv> r2 div P + t4"
  assumes "a0 < P" "a1 < P" "b0 < P" "b1 < P"
  shows "t1 < P * P" "t2 < P * P" "t3 < P * P" "t4 < P * P" "r2 < P * P" "r3 < P * P"
    and "r3 * (P * P) + (t1 mod P + (r2 mod P) * P) = (a1 * P + a0) * (b1 * P + b0)"
proof -
  have P: "0 < P" using assms(7) by simp
  have m: "x < P \<Longrightarrow> y < P \<Longrightarrow> x * y \<le> (P - 1) * (P - 1)" for x y :: nat
    by (intro mult_le_mono) simp_all
  have sq: "(P - 1) * (P - 1) + 2 * (P - 1) + 1 = P * P"
    using P by (cases P) (simp_all add: algebra_simps)
  have le: "t1 \<le> (P - 1) * (P - 1)" "t3 \<le> (P - 1) * (P - 1)"
    "a0 * b1 \<le> (P - 1) * (P - 1)" "a1 * b1 \<le> (P - 1) * (P - 1)"
    unfolding t1_def t3_def using m assms(7-10) by simp_all
  have dv: "x div P \<le> P - 1" if "x \<le> (P - 1) * (P - 1)" for x
  proof -
    have "x \<le> (P - 1) * P" using that by (rule le_trans) (simp add: mult_le_mono2)
    then have "x div P \<le> (P - 1) * P div P" by (rule div_le_mono)
    then show ?thesis using P by simp
  qed
  show "t1 < P * P" "t3 < P * P" using le sq by linarith+
  have t2: "t2 \<le> (P - 1) * (P - 1) + (P - 1)" using dv [OF le(1)] le(3) unfolding t2_def by linarith
  have t4: "t4 \<le> (P - 1) * (P - 1) + (P - 1)" using dv [OF le(2)] le(4) unfolding t4_def by linarith
  show "t2 < P * P" "t4 < P * P" using t2 t4 sq by linarith+
  have r2: "r2 \<le> (P - 1) * (P - 1) + 2 * (P - 1)"
    using t2 mod_less_divisor [OF P, of t3] unfolding r2_def by linarith
  then show "r2 < P * P" using sq by linarith
  then have "r2 div P \<le> P - 1" using P by (simp add: less_mult_imp_div_less flip: less_Suc_eq_le)
  then show "r3 < P * P" using t4 sq unfolding r3_def by linarith
  have e: "x mod P + x div P * P = x" for x by simp
  have "r3 * (P * P) + (t1 mod P + (r2 mod P) * P)
      = t4 * (P * P) + (r2 mod P + r2 div P * P) * P + t1 mod P"
    unfolding r3_def by (simp only: algebra_simps)
  also have "\<dots> = (t4 * P + r2) * P + t1 mod P" unfolding e by (simp add: algebra_simps)
  also have "\<dots> = (a1 * b1 * P + (t3 mod P + t3 div P * P) + t2) * P + t1 mod P"
    unfolding r2_def t4_def by (simp add: algebra_simps)
  also have "\<dots> = (a1 * b1 * P + t3 + a0 * b1) * P + (t1 mod P + t1 div P * P)"
    unfolding e t2_def by (simp add: algebra_simps)
  also have "\<dots> = (a1 * P + a0) * (b1 * P + b0)"
    unfolding e t1_def t3_def by (simp add: algebra_simps)
  finally show "r3 * (P * P) + (t1 mod P + (r2 mod P) * P) = (a1 * P + a0) * (b1 * P + b0)" .
qed

lemma unat_mult_u64: "unat (x * y :: u64) = unat x * unat y" if "unat x * unat y < 2 ^ 32 * 2 ^ 32"
  using that by (simp add: unat_word_ariths)

lemma unat_add_u64: "unat (x + y :: u64) = unat x + unat y" if "unat x + unat y < 2 ^ 32 * 2 ^ 32"
  using that by (simp add: unat_word_ariths)

lemma mul_parts_exact:
  assumes "mul_parts x y = (h, l)"
  shows "unat h * 2 ^ 64 + unat l = unat x * unat y"
proof -
  define P :: nat where "P = 2 ^ 32"
  define a0 a1 b0 b1 where d: "a0 = unat x mod P" "a1 = unat x div P" "b0 = unat y mod P" "b1 = unat y div P"
  have u: "unat (z :: u64) < P * P" for z using unsigned_less [of z, where ?'a = nat] by (simp add: P_def)
  have lt: "a0 < P" "a1 < P" "b0 < P" "b1 < P"
    using u [of x] u [of y] by (simp_all add: d P_def less_mult_imp_div_less)
  note sb = schoolbook [OF lt]
  define t1 where "t1 = (x AND 0xFFFFFFFF) * (y AND 0xFFFFFFFF)"
  define t2 where "t2 = drop_bit 32 t1 + (x AND 0xFFFFFFFF) * drop_bit 32 y"
  define t3 where "t3 = drop_bit 32 x * (y AND 0xFFFFFFFF)"
  define t4 where "t4 = drop_bit 32 t3 + drop_bit 32 x * drop_bit 32 y"
  define r2 where "r2 = t2 + (t3 AND 0xFFFFFFFF)"
  define r3 where "r3 = drop_bit 32 r2 + t4"
  have lo: "unat (z AND 0xFFFFFFFF) = unat z mod P" for z :: u64 by (simp only: unat_low32 P_def)
  have hi: "unat (drop_bit 32 z) = unat z div P" for z :: u64 by (simp only: unat_drop_bit P_def)
  have n1: "unat t1 = a0 * b0" using sb(1) unfolding t1_def
    by (subst unat_mult_u64) (simp_all only: lo d P_def)
  have "a0 * b1 < P * P" "a1 * b1 < P * P" using sb(2,4) by linarith+
  then have m: "unat ((x AND 0xFFFFFFFF) * drop_bit 32 y) = a0 * b1" "unat (drop_bit 32 x * drop_bit 32 y) = a1 * b1"
    by (subst unat_mult_u64; simp only: lo hi d P_def)+
  have n2: "unat t2 = a0 * b0 div P + a0 * b1" using sb(2) unfolding t2_def
    by (subst unat_add_u64) (simp_all only: hi n1 m P_def)
  have n3: "unat t3 = a1 * b0" using sb(3) unfolding t3_def
    by (subst unat_mult_u64) (simp_all only: lo hi d P_def)
  have n4: "unat t4 = a1 * b0 div P + a1 * b1" using sb(4) unfolding t4_def
    by (subst unat_add_u64) (simp_all only: hi n3 m P_def)
  have n5: "unat r2 = a0 * b0 div P + a0 * b1 + a1 * b0 mod P" using sb(5) unfolding r2_def
    by (subst unat_add_u64) (simp_all only: lo n2 n3 P_def)
  have n6: "unat r3 = (a0 * b0 div P + a0 * b1 + a1 * b0 mod P) div P + (a1 * b0 div P + a1 * b1)"
    using sb(6) unfolding r3_def by (subst unat_add_u64) (simp_all only: hi n4 n5 P_def)
  have e: "h = r3" "l = (t1 AND 0xFFFFFFFF) OR push_bit 32 r2"
    using assms unfolding mul_parts_def Let_def high32_and
    by (simp_all only: prod.inject join32 t1_def t2_def t3_def t4_def r2_def r3_def)
  have "unat (t1 AND 0xFFFFFFFF) < 2 ^ 32" unfolding unat_low32 by (rule mod_less_divisor) simp
  then have l: "unat l = a0 * b0 mod P + (unat r2 mod P) * P" unfolding e by (simp only: or_push32 lo n1 P_def)
  have "(2 :: nat) ^ 64 = P * P" by (simp add: P_def)
  then have "unat h * 2 ^ 64 + unat l = (a1 * P + a0) * (b1 * P + b0)"
    unfolding l e(1) using sb(7) by (simp only: n5 n6)
  then show ?thesis by (simp add: d)
qed

section \<open>Signed values\<close>

lemma sint_of_int64: "sint (word_of_int k :: u64) = k" if "- (2 ^ 63) \<le> k" "k < 2 ^ 63"
  unfolding signed_of_int of_int_eq_id id_apply by (rule signed_take_bit_int_eq_self) (use that in simp_all)

lemma sint_of_int32: "sint (word_of_int k :: u32) = k" if "- (2 ^ 31) \<le> k" "k < 2 ^ 31"
  unfolding signed_of_int of_int_eq_id id_apply by (rule signed_take_bit_int_eq_self) (use that in simp_all)

lemma sint_range32: "- (2 ^ 31) \<le> sint (w :: u32)" "sint w < 2 ^ 31"
  using sint_greater_eq [of w] sint_less [of w] by simp_all

lemma sint_range64: "- (2 ^ 63) \<le> sint (w :: u64)" "sint w < 2 ^ 63"
  using sint_greater_eq [of w] sint_less [of w] by simp_all

lemma SE32_word: "SE32 (w :: u32) = word_of_int (sint w)"
  unfolding SE32_def scast_eq by simp

lemma sint_SE32: "sint (SE32 (w :: u32)) = sint w"
  unfolding SE32_word by (rule sint_of_int64) (use sint_range32 [of w] in simp_all)

lemma ucast_scast32: "ucast (scast (w :: u32) :: u64) = w"
proof (rule bit_word_eqI)
  fix n assume "n < LENGTH(32)"
  then show "bit (ucast (scast w :: u64) :: u32) n = bit w n" by (cases "n = 31") (simp_all add: bit_simps min_def)
qed

lemma ucast_SE32: "ucast (SE32 (w :: u32)) = w"
  by (simp add: SE32_def ucast_scast32)

lemma low_half_sint: "ucast (v :: u64) = (word_of_int (sint v) :: u32)"
  by (rule bit_word_eqI) (simp add: bit_simps min_def)

text \<open>A register holds a sign-extended 32-bit value.\<close>

definition sext32 :: "u64 \<Rightarrow> bool" where
  "sext32 v \<longleftrightarrow> v = SE32 v"

lemma SE32_ucast: "SE32 (v :: u64) = SE32 (ucast v :: u32)"
  by (simp add: SE32_def)

lemma sext32_SE32 [simp]: "sext32 (SE32 (w :: 'a::len word))"
  by (simp add: sext32_def SE32_def ucast_scast32)

lemma sext32_range:
  assumes "- (2 ^ 31) \<le> sint v" "sint v < 2 ^ 31"
  shows "sext32 v"
proof -
  have "sint (ucast v :: u32) = sint v" using sint_of_int32 [OF assms] by (simp only: low_half_sint)
  then have "SE32 v = word_of_int (sint v)" by (simp only: SE32_ucast SE32_word)
  then show ?thesis by (simp add: sext32_def)
qed

lemma uint_low_half: "uint (ucast v :: u32) = sint (v :: u64) mod 2 ^ 32"
  unfolding low_half_sint uint_word_of_int by simp

lemma product_bound: "\<bar>x * y\<bar> \<le> B * B" if "\<bar>x\<bar> \<le> B" "\<bar>y\<bar> \<le> B" for x y B :: int
  using that by (simp add: abs_mult mult_mono)

section \<open>Multiplication\<close>

definition product128 :: "u64 \<Rightarrow> u64 \<Rightarrow> int" where
  "product128 h l = sint h * 2 ^ 64 + uint l"

lemma hi_lo_set_hilo [simp]: "hi (set_hilo h l r) = h" "lo (set_hilo h l r) = l"
  by (simp_all add: set_hilo_def ADD_TO_PC_def)

lemma MULT_exact:
  "sint (hi (MULT op r)) * 2 ^ 32 + uint (ucast (lo (MULT op r)) :: u32) = sint (rrs32 op r) * sint (rrt32 op r)
   \<and> sext32 (hi (MULT op r)) \<and> sext32 (lo (MULT op r))"
proof -
  define a b t where d: "a = rrs32 op r" "b = rrt32 op r" "t = SE32 a * SE32 b"
  have "\<bar>sint a\<bar> \<le> 2 ^ 31" "\<bar>sint b\<bar> \<le> 2 ^ 31" using sint_range32 [of a] sint_range32 [of b] by linarith+
  from product_bound [OF this] have p: "\<bar>sint a * sint b\<bar> \<le> 2 ^ 62" by simp
  have "t = word_of_int (sint a * sint b)" by (simp only: d SE32_word of_int_mult)
  then have t: "sint t = sint a * sint b" using sint_of_int64 [of "sint a * sint b"] p by simp
  have h: "sint (signed_drop_bit 32 t) = (sint a * sint b) div 2 ^ 32"
    by (simp only: sint_signed_drop_bit_eq t drop_bit_eq_div)
  have l: "uint (ucast (SE32 t) :: u32) = (sint a * sint b) mod 2 ^ 32"
    by (simp only: SE32_ucast ucast_SE32 uint_low_half t)
  have "sext32 (signed_drop_bit 32 t)" by (rule sext32_range) (use p in \<open>simp_all add: h\<close>)
  moreover have "MULT op r = set_hilo (signed_drop_bit 32 t) (SE32 t) r" by (simp only: MULT_def Let_def d)
  ultimately show ?thesis by (simp only: hi_lo_set_hilo h l sext32_SE32 d [symmetric] div_mult_mod_eq simp_thms)
qed

lemma MULTU_exact:
  "uint (ucast (hi (MULTU op r)) :: u32) * 2 ^ 32 + uint (ucast (lo (MULTU op r)) :: u32)
     = uint (rrs32 op r) * uint (rrt32 op r)
   \<and> sext32 (hi (MULTU op r)) \<and> sext32 (lo (MULTU op r))"
proof -
  define a b and t :: u64 where d: "a = rrs32 op r" "b = rrt32 op r" "t = ucast a * ucast b"
  have ab: "unat a < 2 ^ 32" "unat b < 2 ^ 32" using unsigned_less [of a, where ?'a = nat] unsigned_less [of b, where ?'a = nat] by simp_all
  then have "unat a * unat b < 2 ^ 32 * 2 ^ 32" by (intro mult_strict_mono') simp_all
  moreover have u: "unat (ucast x :: u64) = unat x" for x :: u32 by (simp add: unsigned_ucast_eq take_bit_nat_eq_self unsigned_less [THEN less_le_trans])
  ultimately have t: "unat t = unat a * unat b" unfolding d by (subst unat_mult_u64) (simp_all only: u)
  have h: "ucast (signed_drop_bit 32 t) = (ucast (drop_bit 32 t) :: u32)"
    by (rule bit_word_eqI) (simp add: bit_simps)
  have "unat (ucast (drop_bit 32 t) :: u32) = unat t div 2 ^ 32"
  proof -
    have "unat t div 2 ^ 32 < 2 ^ 32" using unsigned_less [of t, where ?'a = nat] by (simp add: less_mult_imp_div_less)
    then have "take_bit 32 (unat t div 2 ^ 32) = unat t div 2 ^ 32" by (rule take_bit_nat_eq_self)
    then show ?thesis by (simp add: unsigned_ucast_eq unat_drop_bit)
  qed
  moreover have "unat (ucast (SE32 t) :: u32) = unat t mod 2 ^ 32"
    unfolding SE32_ucast ucast_SE32 by (simp add: unsigned_ucast_eq take_bit_eq_mod)
  ultimately have "unat (ucast (signed_drop_bit 32 t) :: u32) * 2 ^ 32 + unat (ucast (SE32 t) :: u32) = unat a * unat b"
    by (simp only: h t div_mult_mod_eq)
  then have e: "uint (ucast (signed_drop_bit 32 t) :: u32) * 2 ^ 32 + uint (ucast (SE32 t) :: u32) = uint a * uint b"
    unfolding uint_nat by (metis of_nat_add of_nat_mult of_nat_numeral of_nat_power)
  have "sext32 (signed_drop_bit 32 t)"
    by (rule sext32_range; simp only: sint_signed_drop_bit_eq drop_bit_eq_div; use sint_range64 [of t] in simp)
  moreover have "MULTU op r = set_hilo (signed_drop_bit 32 t) (SE32 t) r" by (simp only: MULTU_def Let_def d)
  ultimately show ?thesis using e by (simp only: hi_lo_set_hilo sext32_SE32 d [symmetric] simp_thms)
qed

lemma DMULTU_exact: "uint (hi (DMULTU op r)) * 2 ^ 64 + uint (lo (DMULTU op r)) = uint (rrs op r) * uint (rrt op r)"
proof -
  obtain h l where p: "mul_parts (rrs op r) (rrt op r) = (h, l)" by (cases "mul_parts (rrs op r) (rrt op r)")
  from mul_parts_exact [OF p] have "int (unat h * 2 ^ 64 + unat l) = int (unat (rrs op r) * unat (rrt op r))" by (simp only:)
  then have "uint h * 2 ^ 64 + uint l = uint (rrs op r) * uint (rrt op r)"
    unfolding uint_nat by (simp only: of_nat_add of_nat_mult of_nat_power of_nat_numeral)
  then show ?thesis by (simp add: DMULTU_def p)
qed

lemma uint_of_neg: "uint (- x) = (if x = 0 then 0 else 2 ^ 64 - uint (x :: u64))"
proof (cases "x = 0")
  case False
  have "uint x > 0" "uint x < 2 ^ 64" using False uint_bounded [of x] by (simp_all add: word_neq_0_conv word_less_def)
  then show ?thesis using False by (simp add: uint_word_ariths zmod_zminus1_eq_if)
qed simp

text \<open>The sign change of \<^verbatim>\<open>DMULT\<close> on the two halves is the negation of the 128-bit value.\<close>

lemma negate128:
  fixes h l :: u64
  assumes "uint h < 2 ^ 63"
  shows "sint (if l = 0 then NOT h + 1 else NOT h) * 2 ^ 64 + uint (if l = 0 then l else NOT l + 1)
    = - (uint h * 2 ^ 64 + uint l)"
proof -
  have h: "NOT h + 1 = word_of_int (- uint h)" "NOT h = word_of_int (- uint h - 1)"
    by (simp_all add: not_eq_complement)
  have g: "0 \<le> uint h" by simp
  have "sint (word_of_int (- uint h) :: u64) = - uint h" "sint (word_of_int (- uint h - 1) :: u64) = - uint h - 1"
    by (rule sint_of_int64; use assms g in linarith)+
  note w = this
  have s: "sint (NOT h + 1) = - uint h" using w(1) unfolding h(1) [symmetric] .
  have s': "sint (NOT h) = - uint h - 1" using w(2) unfolding h(2) [symmetric] .
  have "NOT l + 1 = - l" by (simp add: not_eq_complement)
  then show ?thesis using s s' by (cases "l = 0") (simp_all only: if_True if_False uint_of_neg simp_thms, simp_all)
qed

lemma dmult_operand_spec:
  "x \<noteq> INT64_MIN \<Longrightarrow> dmult_operand x = Some (if sint x < 0 then - x else x, sint x < 0)"
  "dmult_operand INT64_MIN = None"
  by (simp_all add: dmult_operand_def word_sless_alt INT64_MIN_def)

lemma dmult_operand_abs:
  assumes "x \<noteq> INT64_MIN"
  shows "uint (if sint x < 0 then - x else x) = \<bar>sint x\<bar>" "\<bar>sint x\<bar> < 2 ^ 63"
proof -
  have m: "sint x \<noteq> - (2 ^ 63)"
  proof
    assume "sint x = - (2 ^ 63)"
    then have "word_of_int (sint x) = (word_of_int (- (2 ^ 63)) :: u64)" by (simp only:)
    then show False using assms by (simp add: INT64_MIN_def)
  qed
  then show b: "\<bar>sint x\<bar> < 2 ^ 63" using sint_range64 [of x] by linarith
  have "(if sint x < 0 then - x else x) = word_of_int \<bar>sint x\<bar>" by auto
  moreover have "\<bar>sint x\<bar> mod 2 ^ 64 = \<bar>sint x\<bar>" using b by (intro mod_pos_pos_trivial) simp_all
  ultimately show "uint (if sint x < 0 then - x else x) = \<bar>sint x\<bar>" by (simp only: uint_word_of_int) simp
qed

lemma DMULT_exact:
  "if rrs op r = INT64_MIN \<or> rrt op r = INT64_MIN then DMULT op r = None
   else \<exists>r'. DMULT op r = Some r' \<and> sint (hi r') * 2 ^ 64 + uint (lo r') = sint (rrs op r) * sint (rrt op r)"
proof -
  define a b where d: "a = rrs op r" "b = rrt op r"
  show ?thesis
  proof (cases "a = INT64_MIN \<or> b = INT64_MIN")
    case True
    then show ?thesis by (cases "a = INT64_MIN") (auto simp: DMULT_def dmult_operand_spec d [symmetric])
  next
    case False
    define x y where xy: "x = (if sint a < 0 then - a else a)" "y = (if sint b < 0 then - b else b)"
    obtain h l where p: "mul_parts x y = (h, l)" by (cases "mul_parts x y")
    have ab: "uint x = \<bar>sint a\<bar>" "uint y = \<bar>sint b\<bar>" "\<bar>sint a\<bar> < 2 ^ 63" "\<bar>sint b\<bar> < 2 ^ 63"
      using dmult_operand_abs [of a] dmult_operand_abs [of b] False unfolding xy by blast+
    from mul_parts_exact [OF p] have "int (unat h * 2 ^ 64 + unat l) = int (unat x * unat y)" by (simp only:)
    then have pr: "uint h * 2 ^ 64 + uint l = \<bar>sint a * sint b\<bar>"
      unfolding uint_nat [symmetric] of_nat_add of_nat_mult of_nat_power of_nat_numeral ab abs_mult .
    have "\<bar>sint a * sint b\<bar> \<le> 2 ^ 63 * 2 ^ 63" using product_bound [of "sint a" "2 ^ 63" "sint b"] ab by simp
    moreover have "uint h * 2 ^ 64 \<le> uint h * 2 ^ 64 + uint l" by simp
    ultimately have hb: "uint h < 2 ^ 63" unfolding pr by simp
    then have hs: "sint h = uint h" using sint_of_int64 [of "uint h"] uint_ge_0 [of h] by simp
    have "DMULT op r = Some (if (sint a < 0) \<noteq> (sint b < 0)
        then set_hilo (if l = 0 then NOT h + 1 else NOT h) (if l = 0 then l else NOT l + 1) r else set_hilo h l r)"
      using False by (simp add: DMULT_def dmult_operand_spec d [symmetric] xy [symmetric] p Let_def)
    moreover have "(sint a < 0) \<noteq> (sint b < 0) \<Longrightarrow> - \<bar>sint a * sint b\<bar> = sint a * sint b"
      by (auto simp: abs_if mult_less_0_iff zero_less_mult_iff not_less)
    moreover have "(sint a < 0) = (sint b < 0) \<Longrightarrow> \<bar>sint a * sint b\<bar> = sint a * sint b"
      by (auto simp: abs_if mult_less_0_iff)
    ultimately show ?thesis using False negate128 [OF hb, of l] pr hs
      by (simp only: d [symmetric] if_False) (cases "(sint a < 0) = (sint b < 0)"; simp only: hi_lo_set_hilo; force)
  qed
qed

text \<open>
  C5: The multiplications are exact. \<^verbatim>\<open>MULT\<close> and \<^verbatim>\<open>MULTU\<close> leave the 64-bit product of the low words in the
  halves of \<^verbatim>\<open>hi\<close> and \<^verbatim>\<open>lo\<close>, both sign-extended; \<^verbatim>\<open>DMULTU\<close> and \<^verbatim>\<open>DMULT\<close>, which assemble four 32-bit
  products and change the sign afterwards, leave the 128-bit product. Only \<^verbatim>\<open>DMULT\<close> of the least
  64-bit number is undefined, since it negates its operands.
\<close>

theorem multiply_exact:
  "sint (hi (MULT op r)) * 2 ^ 32 + uint (ucast (lo (MULT op r)) :: u32) = sint (rrs32 op r) * sint (rrt32 op r)
   \<and> sext32 (hi (MULT op r)) \<and> sext32 (lo (MULT op r))
   \<and> uint (ucast (hi (MULTU op r)) :: u32) * 2 ^ 32 + uint (ucast (lo (MULTU op r)) :: u32)
       = uint (rrs32 op r) * uint (rrt32 op r)
   \<and> sext32 (hi (MULTU op r)) \<and> sext32 (lo (MULTU op r))
   \<and> uint (hi (DMULTU op r)) * 2 ^ 64 + uint (lo (DMULTU op r)) = uint (rrs op r) * uint (rrt op r)
   \<and> (if rrs op r = INT64_MIN \<or> rrt op r = INT64_MIN then DMULT op r = None
      else \<exists>r'. DMULT op r = Some r' \<and> sint (hi r') * 2 ^ 64 + uint (lo r') = sint (rrs op r) * sint (rrt op r))"
  using MULT_exact [of op r] MULTU_exact [of op r] DMULTU_exact [of op r] DMULT_exact [of op r]
  by (simp only: simp_thms)

section \<open>Division\<close>

text \<open>Quotient and remainder rounded towards zero: the remainder has the sign of the dividend.\<close>

definition is_division :: "int \<Rightarrow> int \<Rightarrow> int \<Rightarrow> int \<Rightarrow> bool" where
  "is_division a b q r \<longleftrightarrow> a = q * b + r \<and> \<bar>r\<bar> < \<bar>b\<bar> \<and> (r = 0 \<or> sgn r = sgn a)"

lemma truncated_division:
  assumes "b \<noteq> (0 :: int)"
  shows "is_division a b (sgn a * sgn b * (\<bar>a\<bar> div \<bar>b\<bar>)) (sgn a * (\<bar>a\<bar> mod \<bar>b\<bar>))"
proof -
  have m: "0 \<le> \<bar>a\<bar> mod \<bar>b\<bar>" "\<bar>a\<bar> mod \<bar>b\<bar> < \<bar>b\<bar>" using assms by simp_all
  have "sgn a * sgn b * (\<bar>a\<bar> div \<bar>b\<bar>) * b + sgn a * (\<bar>a\<bar> mod \<bar>b\<bar>) = sgn a * (\<bar>a\<bar> div \<bar>b\<bar> * \<bar>b\<bar> + \<bar>a\<bar> mod \<bar>b\<bar>)"
    unfolding abs_sgn [of b] by (simp add: algebra_simps)
  also have "\<dots> = a" unfolding div_mult_mod_eq by (simp add: mult_sgn_abs)
  finally show ?thesis using m by (auto simp: is_division_def abs_mult sgn_mult sgn_if)
qed

lemma truncated_bounds:
  assumes "- B \<le> a" "a < B" "b \<noteq> 0" "\<not> (a = - B \<and> b = - 1)" "(2 :: int) \<le> B"
  shows "- B \<le> sgn a * sgn b * (\<bar>a\<bar> div \<bar>b\<bar>)" "sgn a * sgn b * (\<bar>a\<bar> div \<bar>b\<bar>) < B"
    "- B \<le> sgn a * (\<bar>a\<bar> mod \<bar>b\<bar>)" "sgn a * (\<bar>a\<bar> mod \<bar>b\<bar>) < B"
proof -
  have aB: "\<bar>a\<bar> \<le> B" using assms by auto
  have "- B \<le> sgn a * sgn b * (\<bar>a\<bar> div \<bar>b\<bar>) \<and> sgn a * sgn b * (\<bar>a\<bar> div \<bar>b\<bar>) < B"
  proof (cases "\<bar>b\<bar> = 1")
    case True
    then have "b = 1 \<or> b = - 1" by auto
    then show ?thesis using assms by (auto simp: sgn_if)
  next
    case False
    then have "2 \<le> \<bar>b\<bar>" using assms(3) by auto
    then have "\<bar>a\<bar> div \<bar>b\<bar> \<le> \<bar>a\<bar> div 2" by (intro zdiv_mono2) simp_all
    then have "\<bar>a\<bar> div \<bar>b\<bar> < B" using aB assms(5) by linarith
    moreover have "0 \<le> \<bar>a\<bar> div \<bar>b\<bar>" using assms(3) by (simp add: pos_imp_zdiv_nonneg_iff)
    ultimately show ?thesis by (auto simp: sgn_if)
  qed
  then show "- B \<le> sgn a * sgn b * (\<bar>a\<bar> div \<bar>b\<bar>)" "sgn a * sgn b * (\<bar>a\<bar> div \<bar>b\<bar>) < B" by blast+
  have "0 \<le> \<bar>a\<bar> mod \<bar>b\<bar>" "\<bar>a\<bar> mod \<bar>b\<bar> \<le> \<bar>a\<bar>" using assms(3) by (simp_all add: zmod_le_nonneg_dividend)
  moreover have "- B \<le> sgn a * m \<and> sgn a * m < B" if "0 \<le> m" "m \<le> \<bar>a\<bar>" for m
    using that assms(1,2,5) by (cases a "0 :: int" rule: linorder_cases) auto
  ultimately show "- B \<le> sgn a * (\<bar>a\<bar> mod \<bar>b\<bar>)" "sgn a * (\<bar>a\<bar> mod \<bar>b\<bar>) < B" by blast+
qed

lemma sint_neq_0: "b \<noteq> 0 \<Longrightarrow> sint (b :: 'a::len word) \<noteq> 0"
  by (simp add: signed_eq_0_iff)

lemma sdiv_C_spec32:
  fixes a b :: u32
  assumes "b \<noteq> 0" "\<not> (a = INT32_MIN \<and> b = - 1)"
  shows "is_division (sint a) (sint b) (sint (sdiv_C a b)) (sint (smod_C a b))"
proof -
  have b: "sint b \<noteq> 0" using assms(1) by (rule sint_neq_0)
  have "\<not> (sint a = - (2 ^ 31) \<and> sint b = - 1)"
  proof
    assume "sint a = - (2 ^ 31) \<and> sint b = - 1"
    then have "word_of_int (sint a) = (word_of_int (- (2 ^ 31)) :: u32)" "word_of_int (sint b) = (word_of_int (- 1) :: u32)" by simp_all
    then show False using assms(2) by (simp add: INT32_MIN_def)
  qed
  from truncated_bounds [OF sint_range32 [of a] b this] have
    "sint (sdiv_C a b) = sgn (sint a) * sgn (sint b) * (\<bar>sint a\<bar> div \<bar>sint b\<bar>)"
    "sint (smod_C a b) = sgn (sint a) * (\<bar>sint a\<bar> mod \<bar>sint b\<bar>)"
    unfolding sdiv_C_def smod_C_def by (intro sint_of_int32; simp)+
  then show ?thesis using truncated_division [OF b] by simp
qed

lemma sdiv_C_spec64:
  fixes a b :: u64
  assumes "b \<noteq> 0" "\<not> (a = INT64_MIN \<and> b = - 1)"
  shows "is_division (sint a) (sint b) (sint (sdiv_C a b)) (sint (smod_C a b))"
proof -
  have b: "sint b \<noteq> 0" using assms(1) by (rule sint_neq_0)
  have "\<not> (sint a = - (2 ^ 63) \<and> sint b = - 1)"
  proof
    assume "sint a = - (2 ^ 63) \<and> sint b = - 1"
    then have "word_of_int (sint a) = (word_of_int (- (2 ^ 63)) :: u64)" "word_of_int (sint b) = (word_of_int (- 1) :: u64)" by simp_all
    then show False using assms(2) by (simp add: INT64_MIN_def)
  qed
  from truncated_bounds [OF sint_range64 [of a] b this] have
    "sint (sdiv_C a b) = sgn (sint a) * sgn (sint b) * (\<bar>sint a\<bar> div \<bar>sint b\<bar>)"
    "sint (smod_C a b) = sgn (sint a) * (\<bar>sint a\<bar> mod \<bar>sint b\<bar>)"
    unfolding sdiv_C_def smod_C_def by (intro sint_of_int64; simp)+
  then show ?thesis using truncated_division [OF b] by simp
qed

text \<open>
  C19: The divisions leave the quotient rounded towards zero in \<^verbatim>\<open>lo\<close> and the remainder, with the sign
  of the dividend, in \<^verbatim>\<open>hi\<close>. Dividing the least number by -1 gives that number and remainder 0; dividing
  by zero gives 1 or -1 against the sign of the dividend (all ones when unsigned) and the dividend as
  remainder. No case is undefined.
\<close>

theorem divide_exact:
  "(if rrt32 op r = 0 then hi (DIV op r) = SE32 (rrs32 op r) \<and> lo (DIV op r) = (if sint (rrs32 op r) < 0 then 1 else - 1)
    else if rrs32 op r = INT32_MIN \<and> rrt32 op r = - 1 then hi (DIV op r) = 0 \<and> lo (DIV op r) = SE32 INT32_MIN
    else is_division (sint (rrs32 op r)) (sint (rrt32 op r)) (sint (lo (DIV op r))) (sint (hi (DIV op r))))
   \<and> (if rrt32 op r = 0 then hi (DIVU op r) = SE32 (rrs32 op r) \<and> lo (DIVU op r) = - 1
      else lo (DIVU op r) = SE32 (rrs32 op r div rrt32 op r) \<and> hi (DIVU op r) = SE32 (rrs32 op r mod rrt32 op r))
   \<and> (if rrt op r = 0 then hi (DDIV op r) = rrs op r \<and> lo (DDIV op r) = (if sint (rrs op r) < 0 then 1 else - 1)
      else if rrs op r = INT64_MIN \<and> rrt op r = - 1 then hi (DDIV op r) = 0 \<and> lo (DDIV op r) = INT64_MIN
      else is_division (sint (rrs op r)) (sint (rrt op r)) (sint (lo (DDIV op r))) (sint (hi (DDIV op r))))
   \<and> (if rrt op r = 0 then hi (DDIVU op r) = rrs op r \<and> lo (DDIVU op r) = - 1
      else uint (lo (DDIVU op r)) * uint (rrt op r) + uint (hi (DDIVU op r)) = uint (rrs op r)
         \<and> uint (hi (DDIVU op r)) < uint (rrt op r))"
proof (intro conjI)
  show "if rrt op r = 0 then hi (DDIVU op r) = rrs op r \<and> lo (DDIVU op r) = - 1
      else uint (lo (DDIVU op r)) * uint (rrt op r) + uint (hi (DDIVU op r)) = uint (rrs op r)
         \<and> uint (hi (DDIVU op r)) < uint (rrt op r)"
    by (simp add: DDIVU_def Let_def uint_div uint_mod word_less_def word_neq_0_conv)
qed (simp_all add: DIV_def DIVU_def DDIV_def Let_def sdiv_C_spec32 sdiv_C_spec64 sint_SE32 word_sless_alt)

end
