(* ===== verification/Dma_Claims.thy ===== *)
theory Dma_Claims
  imports Console
begin

text \<open>
  Claims about the transfers of the peripheral, serial, audio and signal processor interfaces and about
  the events that end them. Every such device schedules its completion with \<^verbatim>\<open>cp0_update_count\<close> and
  \<^verbatim>\<open>add_interrupt_event\<close>; what that does is stated once.
\<close>

section \<open>Scheduling a completion\<close>

text \<open>The count at which an event requested now with a given delay is due.\<close>

definition deadline :: "'a r4300_sys_scheme \<Rightarrow> u32 \<Rightarrow> u32" where
  "deadline s delay = creg (r4300 s) CP0_COUNT_REG + elapsed_count (r4300 s) + delay"

definition queued :: "'a r4300_sys_scheme \<Rightarrow> interrupt_event list" where
  "queued s = events (cp0_q (cp0 (r4300 s)))"

lemma sp_add_event_spec:
  assumes "queue_room s"
  shows "\<exists>r'. sp_add_event ty delay s = Some (s\<lparr>r4300 := r'\<rparr>) \<and> wf_queue (cp0_q (cp0 r'))
    \<and> mset (events (cp0_q (cp0 r'))) = add_mset \<lparr>evt_type = ty, evt_count = deadline s delay\<rparr> (mset (queued s))
    \<and> emu_mode r' = emu_mode (r4300 s) \<and> (\<forall>x. x \<noteq> CP0_COUNT_REG \<longrightarrow> creg r' x = creg (r4300 s) x)"
proof -
  let ?r = "cp0_update_count (r4300 s)"
  have wf: "wf_queue (cp0_q (cp0 ?r))" "length (events (cp0_q (cp0 ?r))) < INTERRUPT_NODES_POOL_CAPACITY"
    using assms by (simp_all add: queue_room_def frame_simps)
  obtain c' where c': "add_interrupt_event (cp0 ?r) ty delay = Some c'" "wf_queue (cp0_q c')" "cp0_regs c' = cp0_regs (cp0 ?r)"
      "events (cp0_q c') = ins_event (cp0 ?r) \<lparr>evt_type = ty, evt_count = creg ?r CP0_COUNT_REG + delay\<rparr>
         (events (cp0_q (cp0 ?r)))"
    using add_interrupt_event_count_spec [OF wf, of ty "creg ?r CP0_COUNT_REG + delay"]
    unfolding add_interrupt_event_def by auto
  have "creg ?r CP0_COUNT_REG + delay = deadline s delay"
    by (simp add: cp0_update_count_def Let_def deadline_def)
  then have "mset (events (cp0_q c')) = add_mset \<lparr>evt_type = ty, evt_count = deadline s delay\<rparr> (mset (queued s))"
    using c'(4) by (simp add: mset_ins_event frame_simps queued_def)
  then show ?thesis
    using c' by (auto simp: sp_add_event_def upd_r4300_def upd_cp0_def frame_simps)
qed

section \<open>Block copies\<close>

lemma fill_s8:
  assumes "4 dvd length d" "base + k + n \<le> length d"
  shows "\<exists>r. for_range k n (\<lambda>i d. wr d (s8 (base + i)) v) d = Some r \<and> length r = length d
    \<and> (\<forall>x. r ! x = (if \<exists>i. k \<le> i \<and> i < k + n \<and> x = s8 (base + i) then v else d ! x))"
proof -
  let ?P = "\<lambda>j r. length r = length d
    \<and> (\<forall>x. r ! x = (if \<exists>i. k \<le> i \<and> i < j \<and> x = s8 (base + i) then v else d ! x))"
  have "\<exists>r. for_range k n (\<lambda>i d. wr d (s8 (base + i)) v) d = Some r \<and> ?P (k + n) r"
  proof (rule for_range_inv)
    fix j r
    assume j: "k \<le> j" "j < k + n" "?P j r"
    then have "s8 (base + j) < length r" using assms by (simp add: s8_less)
    moreover have "?P (Suc j) (r[s8 (base + j) := v])"
      using j calculation by (auto simp: nth_list_update less_Suc_eq)
    ultimately show "\<exists>r'. wr r (s8 (base + j)) v = Some r' \<and> ?P (Suc j) r'" by simp
  qed auto
  then show ?thesis by simp
qed

text \<open>
  What a transfer from the cartridge ROM leaves in RDRAM: the bytes of the ROM in console order, zeros
  past its end, and nothing else changed.
\<close>

lemma cart_rom_copy_spec:
  fixes c d dram_addr cart_addr len
  defines "a \<equiv> unat (cart_addr AND CART_ROM_ADDR_MASK)"
  assumes dv: "4 dvd length d" "4 dvd length (rom c)"
    and fit: "unat dram_addr + unat len \<le> length d" "unat len \<le> 0x1000080"
  shows "\<exists>d'. cart_rom_copy c d dram_addr cart_addr len = Some d' \<and> length d' = length d
    \<and> (\<forall>j < unat len. d' ! s8 (unat dram_addr + j) = (if a + j < length (rom c) then rom c ! s8 (a + j) else 0))
    \<and> (\<forall>x. (\<forall>j < unat len. x \<noteq> s8 (unat dram_addr + j)) \<longrightarrow> d' ! x = d ! x)"
proof -
  have a: "a < 0x4000000"
    using unat_and_mask [of cart_addr 26] by (simp add: a_def mask_eq_exp_minus_1)
  have sum: "unat ((cart_addr AND CART_ROM_ADDR_MASK) + len) = a + unat len"
    using a fit(2) by (simp add: unat_add_u32 a_def)
  show ?thesis
  proof (cases "a + unat len < length (rom c)")
    case True
    obtain d' where d': "copy_s8 d (unat dram_addr) (rom c) a (unat len) = Some d'" "length d' = length d"
        "\<forall>j < unat len. d' ! s8 (unat dram_addr + j) = rom c ! s8 (a + j)"
        "\<forall>x. (\<forall>j < unat len. x \<noteq> s8 (unat dram_addr + j)) \<longrightarrow> d' ! x = d ! x"
      using copy_s8_Some [OF dv fit(1), of a] True by auto
    then show ?thesis using True sum by (auto simp: cart_rom_copy_def Let_def a_def)
  next
    case False
    define k where "k = (if length (rom c) \<le> a then 0 else length (rom c) - a)"
    have k: "k \<le> unat len" "a + k \<le> length (rom c) \<or> k = 0"
      "\<And>j. j < k \<longleftrightarrow> a + j < length (rom c)"
      using False by (auto simp: k_def)
    obtain d1 where d1: "copy_s8 d (unat dram_addr) (rom c) a k = Some d1" "length d1 = length d"
        "\<forall>j<k. d1 ! s8 (unat dram_addr + j) = rom c ! s8 (a + j)"
        "\<forall>x. (\<forall>j<k. x \<noteq> s8 (unat dram_addr + j)) \<longrightarrow> d1 ! x = d ! x"
    proof (cases "k = 0")
      case True
      then show ?thesis using that [of d] by (simp add: copy_s8_def)
    next
      case False
      then show ?thesis
        using copy_s8_Some [OF dv, of "unat dram_addr" k a] k fit(1) that by auto
    qed
    obtain d' where d': "for_range k (unat len - k) (\<lambda>i d. wr d (s8 (unat dram_addr + i)) 0) d1 = Some d'"
        "length d' = length d1"
        "\<forall>x. d' ! x = (if \<exists>i. k \<le> i \<and> i < k + (unat len - k) \<and> x = s8 (unat dram_addr + i) then 0 else d1 ! x)"
      using fill_s8 [of d1 "unat dram_addr" k "unat len - k" 0] dv d1(2) fit(1) k(1) by auto
    have "cart_rom_copy c d dram_addr cart_addr len = Some d'"
      unfolding cart_rom_copy_def Let_def sum a_def [symmetric] k_def [symmetric]
      using False d1(1) d'(1) by simp
    moreover have "d' ! s8 (unat dram_addr + j) = (if a + j < length (rom c) then rom c ! s8 (a + j) else 0)"
      if "j < unat len" for j
      using d'(3) d1(3) k(1) that unfolding k(3) [symmetric] by auto
    moreover have "d' ! x = d ! x" if x: "\<forall>j < unat len. x \<noteq> s8 (unat dram_addr + j)" for x
      using d'(3) d1(4) k(1) x by auto
    ultimately show ?thesis using d'(2) d1(2) by auto
  qed
qed

section \<open>Peripheral interface\<close>

definition pi_busy :: "'a pi_sys_scheme \<Rightarrow> bool" where
  "pi_busy s \<longleftrightarrow> pir s PI_STATUS_REG AND (PI_STATUS_DMA_BUSY OR PI_STATUS_IO_BUSY) \<noteq> 0"

lemma pi_write_length_aligned:
  assumes "dram_addr AND 0x7 = 0"
  shows "unat (pi_write_length reg dram_addr) \<le> 0x1000080"
proof -
  have l: "unat (reg AND 0x00ffffff) < 0x1000000"
    using unat_and_mask [of reg 24] by (simp add: mask_eq_exp_minus_1)
  then have "unat ((reg AND 0x00ffffff) + 1) \<le> 0x1000000" by (simp add: unat_add_u32)
  moreover have "unat (pi_round_length x) \<le> 0x1000001" if "unat x \<le> 0x1000000" for x
    using that unfolding pi_round_length_def by (auto simp: unat_add_u32)
  ultimately have "unat (pi_round_length ((reg AND 0x00ffffff) + 1)) \<le> 0x1000001" by blast
  then show ?thesis using assms by (simp add: pi_write_length_def Let_def)
qed

lemma queue_room_frame:
  "queue_room (set_pir x v s) = queue_room s" "queued (set_pir x v s) = queued s"
  "deadline (set_pir x v s) n = deadline s n" "queue_room (set_dram d s) = queue_room s"
  "queued (set_dram d s) = queued s" "deadline (set_dram d s) n = deadline s n"
  by (simp_all add: queue_room_def queued_def deadline_def set_dram_def)

lemma pi_dma_started_spec:
  assumes "queue_room s"
  shows "\<exists>r' p'. pi_dma_started cycles len s = Some (s\<lparr>pi_ctl := p', r4300 := r'\<rparr>)
    \<and> mset (events (cp0_q (cp0 r'))) = add_mset \<lparr>evt_type = PI_INT, evt_count = deadline s cycles\<rparr> (mset (queued s))
    \<and> pi_regs p' PI_STATUS_REG = pir s PI_STATUS_REG OR PI_STATUS_DMA_BUSY
    \<and> pi_regs p' PI_DRAM_ADDR_REG = (pir s PI_DRAM_ADDR_REG + len + 7) AND NOT 7
    \<and> pi_regs p' PI_CART_ADDR_REG = (pir s PI_CART_ADDR_REG + len + 1) AND NOT 1"
proof -
  define s1 where "s1 = set_pir PI_CART_ADDR_REG ((pir s PI_CART_ADDR_REG + len + 1) AND NOT 1)
    (set_pir PI_DRAM_ADDR_REG ((pir s PI_DRAM_ADDR_REG + len + 7) AND NOT 7)
      (set_pir PI_STATUS_REG (pir s PI_STATUS_REG OR PI_STATUS_DMA_BUSY) s))"
  have room: "queue_room s1" "queued s1 = queued s" "deadline s1 cycles = deadline s cycles"
    using assms by (simp_all add: s1_def queue_room_frame)
  obtain r' where r': "sp_add_event PI_INT cycles s1 = Some (s1\<lparr>r4300 := r'\<rparr>)"
      "mset (events (cp0_q (cp0 r'))) = add_mset \<lparr>evt_type = PI_INT, evt_count = deadline s cycles\<rparr> (mset (queued s))"
    using sp_add_event_spec [OF room(1), of PI_INT cycles] room(2,3) by auto
  moreover have "s1\<lparr>r4300 := r'\<rparr> = s\<lparr>pi_ctl := pi_ctl s1, r4300 := r'\<rparr>"
    by (simp add: s1_def set_pir_def)
  moreover have "pi_dma_started cycles len s = sp_add_event PI_INT cycles s1"
    by (simp add: pi_dma_started_def s1_def Let_def)
  moreover have "pir s1 PI_STATUS_REG = pir s PI_STATUS_REG OR PI_STATUS_DMA_BUSY"
      "pir s1 PI_DRAM_ADDR_REG = (pir s PI_DRAM_ADDR_REG + len + 7) AND NOT 7"
      "pir s1 PI_CART_ADDR_REG = (pir s PI_CART_ADDR_REG + len + 1) AND NOT 1"
    by (simp_all add: s1_def)
  ultimately show ?thesis by metis
qed

text \<open>
  C11: A cartridge DMA puts the bytes of the ROM into RDRAM. In the interpreter, with the interface
  idle, no frame buffer tracked and a target that is aligned to 8 bytes and lies in RDRAM, the transfer
  returns; byte \<open>j\<close> of the target is byte \<open>j\<close> of the source in console order, zero past the end of the
  ROM, for exactly the length the registers ask for; no other byte of RDRAM changes; the interface is
  busy and its completion is scheduled once, after an eighth of the length plus the random delay.
\<close>

theorem pi_rom_dma_copies:
  fixes s :: "'a pi_sys_scheme" and env
  defines "len \<equiv> pi_write_length (pir s PI_WR_LEN_REG) (pi_dram_addr s)"
    and "a \<equiv> unat (pi_cart_addr s AND CART_ROM_ADDR_MASK)" and "m \<equiv> rom (c_rom (cart s))"
  assumes "emu_mode (r4300 s) = EMUMODE_PURE_INTERPRETER" "queue_room s" "fb_absent (fb_of s) = Some True"
    and "\<not> pi_busy s" "MM_CART_ROM \<le> pi_cart_addr s" "pi_dram_addr s AND 0x7 = 0"
    and "4 dvd length (dram (rdram s))" "4 dvd length m" "unat (pi_dram_addr s) + unat len \<le> length (dram (rdram s))"
  shows "\<exists>s'. dma_pi_write env s = Some s' \<and> length (dram (rdram s')) = length (dram (rdram s))
    \<and> (\<forall>j < unat len. dram (rdram s') ! s8 (unat (pi_dram_addr s) + j) = (if a + j < length m then m ! s8 (a + j) else 0))
    \<and> (\<forall>x. (\<forall>j < unat len. x \<noteq> s8 (unat (pi_dram_addr s) + j)) \<longrightarrow> dram (rdram s') ! x = dram (rdram s) ! x)
    \<and> pir s' PI_STATUS_REG = pir s PI_STATUS_REG OR PI_STATUS_DMA_BUSY
    \<and> mset (queued s') = add_mset \<lparr>evt_type = PI_INT,
         evt_count = deadline s (len div 8 + add_random_interrupt_time (pi_rand env) (r4300 s))\<rparr> (mset (queued s))"
proof -
  let ?cyc = "len div 8 + add_random_interrupt_time (pi_rand env) (r4300 s)"
  have len: "unat len \<le> 0x1000080" unfolding len_def by (rule pi_write_length_aligned) (rule assms(9))
  obtain d' where d': "cart_rom_copy (c_rom (cart s)) (dram (rdram s)) (pi_dram_addr s) (pi_cart_addr s) len = Some d'"
      "length d' = length (dram (rdram s))"
      "\<forall>j < unat len. d' ! s8 (unat (pi_dram_addr s) + j) = (if a + j < length m then m ! s8 (a + j) else 0)"
      "\<forall>x. (\<forall>j < unat len. x \<noteq> s8 (unat (pi_dram_addr s) + j)) \<longrightarrow> d' ! x = dram (rdram s) ! x"
    using cart_rom_copy_spec [OF assms(10) assms(11) [unfolded m_def] assms(12) len, of "pi_cart_addr s"]
    unfolding a_def m_def by blast
  have "cart_rom_dma_write (pi_rand env) (pi_dram_addr s) (pi_cart_addr s) len s = Some (?cyc, set_dram d' s)"
    using d'(1) assms(4)
    by (simp add: cart_rom_dma_write_def upd_r4300_def invalidate_r4300_cached_code_def set_dram_def)
  moreover have "get_pi_dma_handler (pi_cart_addr s) = Some DMA_cart_dom3
      \<or> get_pi_dma_handler (pi_cart_addr s) = Some DMA_cart_rom"
    using assms(8) by (simp add: get_pi_dma_handler_def)
  ultimately have "dma_pi_write env s = pi_dma_started ?cyc len (set_dram d' s)"
    using assms(6,7) unfolding dma_pi_write_def validate_pi_request_def pi_busy_def len_def
    by (auto simp: pi_handler_write_def set_dram_def Let_def)
  moreover obtain r' p' where "pi_dma_started ?cyc len (set_dram d' s) = Some ((set_dram d' s)\<lparr>pi_ctl := p', r4300 := r'\<rparr>)"
      "mset (events (cp0_q (cp0 r'))) = add_mset \<lparr>evt_type = PI_INT, evt_count = deadline s ?cyc\<rparr> (mset (queued s))"
      "pi_regs p' PI_STATUS_REG = pir s PI_STATUS_REG OR PI_STATUS_DMA_BUSY"
    using pi_dma_started_spec [of "set_dram d' s" ?cyc len] assms(5) by (auto simp: queue_room_frame) (auto simp: set_dram_def)
  ultimately show ?thesis using d'(2-4) by (auto simp: set_dram_def queued_def)
qed

theorem pi_rom_dma_copies_witness:
  "\<exists>s'. dma_pi_write blank_pi (set_pir PI_CART_ADDR_REG 0x10000ff8 (set_pir PI_WR_LEN_REG 0xf
         (set_pir PI_DRAM_ADDR_REG 0x400 console))) = Some s'
    \<and> dram (rdram s') ! s8 0x400 = 7 \<and> dram (rdram s') ! s8 0x408 = 0"
proof -
  let ?s = "set_pir PI_CART_ADDR_REG 0x10000ff8 (set_pir PI_WR_LEN_REG 0xf (set_pir PI_DRAM_ADDR_REG 0x400 console))"
  have a: "pi_dram_addr ?s = 0x400" "pi_cart_addr ?s = 0x10000ff8" "pi_write_length (pir ?s PI_WR_LEN_REG) 0x400 = 0x10"
    by (simp_all add: pi_dram_addr_def pi_cart_addr_def pi_write_length_def pi_round_length_def)
  have "\<not> pi_busy ?s" by (simp add: pi_busy_def console_facts)
  then obtain s' where s': "dma_pi_write blank_pi ?s = Some s'"
      "\<forall>j < 0x10. dram (rdram s') ! s8 (0x400 + j) = (if 0xff8 + j < 0x1000 then replicate 0x1000 7 ! s8 (0xff8 + j) else 0)"
    using pi_rom_dma_copies [of ?s blank_pi] unfolding a by (auto simp: console_facts console_queue queue_room_frame)
  have "s8 0xff8 = 0xffb" by (simp add: s8_eq)
  then have "dram (rdram s') ! s8 0x400 = 7" using s'(2) [rule_format, of 0] by simp
  moreover have "dram (rdram s') ! s8 0x408 = 0" using s'(2) [rule_format, of 8] by simp
  ultimately show ?thesis using s'(1) by blast
qed

text \<open>
  A short transfer from the cartridge to a misaligned address overruns RDRAM. When the requested
  length is smaller than the misalignment of the target, the length that the code subtracts it from wraps
  below zero, and the byte loop leaves the array.
\<close>

theorem pi_short_dma_overruns:
  fixes s :: "'a pi_sys_scheme"
  defines "a \<equiv> unat (pi_cart_addr s AND CART_ROM_ADDR_MASK)"
  assumes "\<not> pi_busy s" "MM_CART_ROM \<le> pi_cart_addr s"
    and "unat (pir s PI_WR_LEN_REG AND 0x00ffffff) + 1 < unat (pi_dram_addr s AND 0x7)"
    and "4 dvd length (dram (rdram s))" "unat (pi_dram_addr s) \<le> length (dram (rdram s))"
    and "length (dram (rdram s)) \<le> RDRAM_MAX_SIZE" "8 \<le> a" "a < length (rom (c_rom (cart s)))"
  shows "dma_pi_write env s = None"
proof -
  define x k where "x = (pir s PI_WR_LEN_REG AND 0x00ffffff) + 1" and "k = pi_dram_addr s AND 0x7"
  have k: "unat k < 8" using unat_and_mask [of "pi_dram_addr s" 3] by (simp add: k_def mask_eq_exp_minus_1)
  have "unat x = unat (pir s PI_WR_LEN_REG AND 0x00ffffff) + 1"
    using assms(4) k unfolding x_def k_def by (simp add: unat_add_u32)
  then have x: "unat x < unat k" "0 < unat x" using assms(4) by (simp_all add: k_def)
  have "pi_round_length x = x" "x \<le> 0x80"
    using x k by (auto simp: pi_round_length_def word_le_nat_alt)
  then have l: "pi_write_length (pir s PI_WR_LEN_REG) (pi_dram_addr s) = x - k"
    by (simp add: pi_write_length_def Let_def x_def k_def)
  have len: "unat (x - k) = 0x100000000 - (unat k - unat x)"
    unfolding unat_diff_u32 using x k by simp
  have sum: "unat ((pi_cart_addr s AND CART_ROM_ADDR_MASK) + (x - k)) < length (rom (c_rom (cart s)))"
  proof -
    have "a < 0x4000000"
      using unat_and_mask [of "pi_cart_addr s" 26] by (simp add: a_def mask_eq_exp_minus_1)
    then have "(a + (0x100000000 - (unat k - unat x))) mod 0x100000000 = a - (unat k - unat x)"
      using assms(8) x k by (subst mod_if) (auto simp: mod_if)
    then show ?thesis unfolding unat_add_u32 len a_def [symmetric] using assms(9) by linarith
  qed
  have "copy_s8 (dram (rdram s)) (unat (pi_dram_addr s)) (rom (c_rom (cart s))) a (unat (x - k)) = None"
    by (rule copy_s8_None) (use assms(5-7) len k in auto)
  then have "cart_rom_dma_write (pi_rand env) (pi_dram_addr s) (pi_cart_addr s) (x - k) s = None"
    using sum by (simp add: cart_rom_dma_write_def cart_rom_copy_def Let_def a_def)
  then have "pi_handler_write env h (pi_dram_addr s) (pi_cart_addr s) (x - k) s = None"
    if "h = DMA_cart_dom3 \<or> h = DMA_cart_rom" for h
    using that by (auto simp: pi_handler_write_def)
  then show ?thesis
    using assms(2,3) unfolding dma_pi_write_def validate_pi_request_def pi_busy_def get_pi_dma_handler_def Let_def
    by (auto simp: l)
qed

theorem pi_short_dma_overruns_witness:
  "dma_pi_write blank_pi (set_pir PI_CART_ADDR_REG 0x10000100 (set_pir PI_DRAM_ADDR_REG 0x406 console)) = None"
  by (rule pi_short_dma_overruns)
    (simp_all add: pi_busy_def pi_cart_addr_def pi_dram_addr_def console_facts dvd_eq_mod_eq_0)

section \<open>Serial interface\<close>

lemma byte_of_word_of_bytes:
  "byte_of (word_of_bytes b0 b1 b2 b3) 0 = b0" "byte_of (word_of_bytes b0 b1 b2 b3) 1 = b1"
  "byte_of (word_of_bytes b0 b1 b2 b3) 2 = b2" "byte_of (word_of_bytes b0 b1 b2 b3) 3 = b3"
  by (rule bit_word_eqI;
      auto simp: bit_byte_of word_of_bytes_def bit_or_iff bit_push_bit_iff bit_ucast_iff dest: bit_imp_le_length)+

lemma less_four: "k < 4 \<longleftrightarrow> k = 0 \<or> k = 1 \<or> k = 2 \<or> k = (3 :: nat)" by auto

lemma get_le32_bytes: "get_le32 buf i = Some w \<Longrightarrow> k < 4 \<Longrightarrow> byte_of w k = buf ! (i + k)"
  by (auto simp: get_le32_def rd_eq_Some_iff less_four byte_of_word_of_bytes
      byte_of_word_of_bytes(2) [unfolded One_nat_def] split: bind_splits)

lemma byte_of_big32: "k < 4 \<Longrightarrow> byte_of (big32 w) k = byte_of w (3 - k)"
  by (auto simp: big32_def less_four byte_of_word_of_bytes byte_of_word_of_bytes(2) [unfolded One_nat_def])

lemma put_le32_nth:
  assumes "put_le32 buf i w = Some buf'"
  shows "buf' ! x = (if i \<le> x \<and> x < i + 4 then byte_of w (x - i) else buf ! x)"
proof -
  have "i + 3 < length buf" by (rule put_le32_fits [OF assms])
  then show ?thesis using assms
    by (auto simp: put_le32_Some nth_list_update eval_nat_numeral not_less_eq less_Suc_eq)
qed

text \<open>The words of one array copied, bytes reversed, to words of another; \<open>src\<close> and \<open>dst\<close> are byte offsets.\<close>

lemma copy_words_big32:
  assumes "4 dvd src" "src + 4 * n \<le> length m" "dst + 4 * n \<le> length b"
  shows "\<exists>r. for_range 0 n (\<lambda>i b. do { w \<leftarrow> get_le32 m (src + 4 * i); put_le32 b (dst + 4 * i) (big32 w) }) b = Some r
    \<and> length r = length b \<and> (\<forall>x < 4 * n. r ! (dst + x) = m ! s8 (src + x))
    \<and> (\<forall>x. x < dst \<or> dst + 4 * n \<le> x \<longrightarrow> r ! x = b ! x)"
proof -
  let ?f = "\<lambda>i b. do { w \<leftarrow> get_le32 m (src + 4 * i); put_le32 b (dst + 4 * i) (big32 w) }"
  let ?P = "\<lambda>j r. length r = length b \<and> (\<forall>x < 4 * j. r ! (dst + x) = m ! s8 (src + x))
    \<and> (\<forall>x. x < dst \<or> dst + 4 * n \<le> x \<longrightarrow> r ! x = b ! x)"
  have "\<exists>r. for_range 0 n ?f b = Some r \<and> ?P (0 + n) r"
  proof (rule for_range_inv)
    fix j r
    assume j: "j < 0 + n" "?P j r"
    have "src + 4 * j + 3 < length m" "dst + 4 * j + 3 < length r" using assms j by auto
    then obtain w r' where w: "get_le32 m (src + 4 * j) = Some w" and r': "put_le32 r (dst + 4 * j) (big32 w) = Some r'"
      by (auto simp: get_le32_def put_le32_def)
    have "r' ! (dst + x) = m ! s8 (src + x)" if x: "x < 4 * Suc j" for x
    proof (cases "x < 4 * j")
      case True
      then show ?thesis using j put_le32_nth [OF r', of "dst + x"] by simp
    next
      case False
      then obtain k where k: "x = 4 * j + k" "k < 4" using x by (metis add_diff_inverse_nat le_add_diff_inverse linorder_not_less mult_Suc_right nat_add_left_cancel_less add.commute)
      obtain q where q: "src = 4 * q" using assms(1) by (elim dvdE)
      have "s8 (src + x) = src + 4 * j + (3 - k)"
        unfolding s8_eq q k(1) using k(2) by simp
      then show ?thesis
        using put_le32_nth [OF r', of "dst + x"] k byte_of_big32 [of k w] get_le32_bytes [OF w, of "3 - k"]
        by (simp add: add.assoc)
    qed
    moreover have "r' ! x = b ! x" if "x < dst \<or> dst + 4 * n \<le> x" for x
      using put_le32_nth [OF r', of x] j that by auto
    ultimately show "\<exists>r'. ?f j r = Some r' \<and> ?P (Suc j) r'"
      using w r' j put_le32_length [OF r'] by simp
  qed simp
  then show ?thesis by simp
qed

lemma s8_add: "s8 (4 * q + x) = 4 * q + s8 x"
  unfolding s8_eq by simp

text \<open>The byte of RDRAM at which a serial transfer starts.\<close>

definition si_dram :: "'a si_sys_scheme \<Rightarrow> nat" where
  "si_dram s = 4 * unat (rdram_dram_address (sir s SI_DRAM_ADDR_REG AND NOT 3))"

lemma copy_to_pif:
  assumes "si_dma_dir (si s) = SI_DMA_WRITE" "length (pif_base (pif s)) = PIF_ROM_SIZE + PIF_RAM_SIZE"
    and "si_dram s + PIF_RAM_SIZE \<le> length (dram (rdram s))"
  shows "\<exists>b. copy_pif_rdram s = Some (s\<lparr>pif := (pif s)\<lparr>pif_base := b\<rparr>\<rparr>)
    \<and> length b = PIF_ROM_SIZE + PIF_RAM_SIZE \<and> (\<forall>x < PIF_ROM_SIZE. b ! x = pif_base (pif s) ! x)
    \<and> (\<forall>x < PIF_RAM_SIZE. b ! (PIF_ROM_SIZE + x) = dram (rdram s) ! s8 (si_dram s + x))"
proof -
  have "4 dvd si_dram s" by (simp add: si_dram_def)
  then obtain b where b: "for_range 0 16 (\<lambda>i b. do {
         w \<leftarrow> get_le32 (dram (rdram s)) (si_dram s + 4 * i);
         put_le32 b (PIF_ROM_SIZE + 4 * i) (big32 w) }) (pif_base (pif s)) = Some b"
      "length b = length (pif_base (pif s))"
      "\<forall>x < 4 * 16. b ! (PIF_ROM_SIZE + x) = dram (rdram s) ! s8 (si_dram s + x)"
      "\<forall>x. x < PIF_ROM_SIZE \<or> PIF_ROM_SIZE + 4 * 16 \<le> x \<longrightarrow> b ! x = pif_base (pif s) ! x"
    using copy_words_big32 [of "si_dram s" 16 "dram (rdram s)" PIF_ROM_SIZE "pif_base (pif s)"] assms(2,3)
    by force
  have "copy_pif_rdram s = Some (s\<lparr>pif := (pif s)\<lparr>pif_base := b\<rparr>\<rparr>)"
    using assms(1) b(1) unfolding copy_pif_rdram_def si_dram_def Let_def distrib_left by simp
  then show ?thesis by (intro exI [of _ b] conjI) (use b(2-4) assms(2) in simp_all)
qed

lemma copy_from_pif:
  assumes "si_dma_dir (si s) = SI_DMA_READ" "length (pif_base (pif s)) = PIF_ROM_SIZE + PIF_RAM_SIZE"
    and "si_dram s + PIF_RAM_SIZE \<le> length (dram (rdram s))"
  shows "\<exists>d. copy_pif_rdram s = Some (s\<lparr>rdram := (rdram s)\<lparr>dram := d\<rparr>\<rparr>) \<and> length d = length (dram (rdram s))
    \<and> (\<forall>x < PIF_RAM_SIZE. d ! s8 (si_dram s + x) = pif_base (pif s) ! (PIF_ROM_SIZE + x))
    \<and> (\<forall>x. x < si_dram s \<or> si_dram s + PIF_RAM_SIZE \<le> x \<longrightarrow> d ! x = dram (rdram s) ! x)"
proof -
  have "4 dvd PIF_ROM_SIZE" by (simp add: dvd_eq_mod_eq_0)
  then obtain d where d: "for_range 0 16 (\<lambda>i d. do {
         w \<leftarrow> get_le32 (pif_base (pif s)) (PIF_ROM_SIZE + 4 * i);
         put_le32 d (si_dram s + 4 * i) (big32 w) }) (dram (rdram s)) = Some d"
      "length d = length (dram (rdram s))"
      "\<forall>x < 4 * 16. d ! (si_dram s + x) = pif_base (pif s) ! s8 (PIF_ROM_SIZE + x)"
      "\<forall>x. x < si_dram s \<or> si_dram s + 4 * 16 \<le> x \<longrightarrow> d ! x = dram (rdram s) ! x"
    using copy_words_big32 [of PIF_ROM_SIZE 16 "pif_base (pif s)" "si_dram s" "dram (rdram s)"] assms(2,3)
    by force
  have copied: "copy_pif_rdram s = Some (s\<lparr>rdram := (rdram s)\<lparr>dram := d\<rparr>\<rparr>)"
    using assms(1) d(1) unfolding copy_pif_rdram_def si_dram_def Let_def distrib_left by simp
  have "d ! s8 (si_dram s + x) = pif_base (pif s) ! (PIF_ROM_SIZE + x)" if "x < PIF_RAM_SIZE" for x
  proof -
    have "s8 (si_dram s + x) = si_dram s + s8 x" "s8 (PIF_ROM_SIZE + s8 x) = PIF_ROM_SIZE + x"
      using s8_add [of "unat (rdram_dram_address (sir s SI_DRAM_ADDR_REG AND NOT 3))" x] s8_add [of "0x1f0" "s8 x"]
      by (simp_all add: si_dram_def)
    moreover have "s8 x < PIF_RAM_SIZE" using that by (simp add: s8_less dvd_eq_mod_eq_0)
    ultimately show ?thesis using d(3) by simp
  qed
  then show ?thesis by (intro exI [of _ d] conjI) (use copied d(2,4) in simp_all)
qed

text \<open>
  C34: A serial transfer moves 64 bytes in console order, both ways. A write transfer fills the PIF RAM
  with the 64 bytes of RDRAM at the address register and leaves the boot ROM alone; a read transfer
  that follows, to whatever address, puts those same bytes there and changes nothing else in RDRAM.
\<close>

theorem si_dma_roundtrip:
  fixes s :: "'a si_sys_scheme"
  assumes "si_dma_dir (si s) = SI_DMA_WRITE" "length (pif_base (pif s)) = PIF_ROM_SIZE + PIF_RAM_SIZE"
    and "si_dram s + PIF_RAM_SIZE \<le> length (dram (rdram s))"
  shows "\<exists>s1. copy_pif_rdram s = Some s1 \<and> rdram s1 = rdram s
    \<and> (\<forall>x < PIF_ROM_SIZE. pif_base (pif s1) ! x = pif_base (pif s) ! x)
    \<and> (\<forall>x < PIF_RAM_SIZE. pif_base (pif s1) ! (PIF_ROM_SIZE + x) = dram (rdram s) ! s8 (si_dram s + x))
    \<and> (\<forall>a. let s2 = set_sir SI_DRAM_ADDR_REG a (s1\<lparr>si := (si s1)\<lparr>si_dma_dir := SI_DMA_READ\<rparr>\<rparr>) in
         si_dram s2 + PIF_RAM_SIZE \<le> length (dram (rdram s)) \<longrightarrow>
         (\<exists>s3. copy_pif_rdram s2 = Some s3
            \<and> (\<forall>x < PIF_RAM_SIZE. dram (rdram s3) ! s8 (si_dram s2 + x) = dram (rdram s) ! s8 (si_dram s + x))
            \<and> (\<forall>x. x < si_dram s2 \<or> si_dram s2 + PIF_RAM_SIZE \<le> x \<longrightarrow> dram (rdram s3) ! x = dram (rdram s) ! x)))"
proof -
  obtain b where b: "copy_pif_rdram s = Some (s\<lparr>pif := (pif s)\<lparr>pif_base := b\<rparr>\<rparr>)"
      "length b = PIF_ROM_SIZE + PIF_RAM_SIZE" "\<forall>x < PIF_ROM_SIZE. b ! x = pif_base (pif s) ! x"
      "\<forall>x < PIF_RAM_SIZE. b ! (PIF_ROM_SIZE + x) = dram (rdram s) ! s8 (si_dram s + x)"
    using copy_to_pif [OF assms] by blast
  let ?s1 = "s\<lparr>pif := (pif s)\<lparr>pif_base := b\<rparr>\<rparr>"
  have "\<exists>s3. copy_pif_rdram s2 = Some s3
      \<and> (\<forall>x < PIF_RAM_SIZE. dram (rdram s3) ! s8 (si_dram s2 + x) = dram (rdram s) ! s8 (si_dram s + x))
      \<and> (\<forall>x. x < si_dram s2 \<or> si_dram s2 + PIF_RAM_SIZE \<le> x \<longrightarrow> dram (rdram s3) ! x = dram (rdram s) ! x)"
    if s2: "s2 = set_sir SI_DRAM_ADDR_REG a (?s1\<lparr>si := (si ?s1)\<lparr>si_dma_dir := SI_DMA_READ\<rparr>\<rparr>)"
      "si_dram s2 + PIF_RAM_SIZE \<le> length (dram (rdram s))" for s2 a
  proof -
    have "si_dma_dir (si s2) = SI_DMA_READ" "pif_base (pif s2) = b" "rdram s2 = rdram s"
      by (simp_all add: s2(1) set_sir_def)
    then show ?thesis using copy_from_pif [of s2] b(2,4) s2(2) by auto
  qed
  then show ?thesis using b(1,3,4) by (auto simp: Let_def)
qed

theorem si_dma_roundtrip_witness:
  "\<exists>s1. copy_pif_rdram (console\<lparr>si := (si console)\<lparr>si_dma_dir := SI_DMA_WRITE\<rparr>\<rparr>) = Some s1
    \<and> pif_base (pif s1) ! 0x7c0 = 0"
proof -
  let ?s = "console\<lparr>si := (si console)\<lparr>si_dma_dir := SI_DMA_WRITE\<rparr>\<rparr>"
  have a: "si_dram ?s = 0" by (simp add: si_dram_def console_def rdram_dram_address_def)
  have z: "dram (rdram ?s) ! s8 0 = 0" by (simp add: console_def s8_eq)
  obtain s1 where "copy_pif_rdram ?s = Some s1"
      "\<forall>x < PIF_RAM_SIZE. pif_base (pif s1) ! (PIF_ROM_SIZE + x) = dram (rdram ?s) ! s8 (0 + x)"
    using si_dma_roundtrip [of ?s] unfolding a by (auto simp: console_facts)
  then show ?thesis using z by force
qed

end
