(* ===== verification/Rcp_Claims.thy ===== *)
theory Rcp_Claims
  imports Dma_Claims
begin

text \<open>
  Claims about the signal processor's DMA engine, semaphore and status register, and about the
  periodic events of the video and audio interfaces.
\<close>

section \<open>Signal processor DMA\<close>

lemma unat_xor3: "unat ((a :: u32) XOR 3) = s8 (unat a)"
  by (simp add: unsigned_xor_eq s8_def)

lemma s8_mod: "4 dvd n \<Longrightarrow> 0 < n \<Longrightarrow> s8 x mod n = s8 (x mod n)"
proof -
  assume n: "4 dvd n" "0 < n"
  obtain q where q: "n = 4 * q" using n(1) by (elim dvdE)
  have "x = 4 * (q * (x div n)) + x mod n" by (simp add: q(1) mult.assoc [symmetric])
  then have "s8 x = s8 (4 * (q * (x div n)) + x mod n)" by simp
  also have "\<dots> = n * (x div n) + s8 (x mod n)" unfolding s8_add by (simp add: q)
  finally have "s8 x mod n = s8 (x mod n) mod n" by simp
  also have "\<dots> = s8 (x mod n)" using s8_less [OF n(1), of "x mod n"] n(2) by simp
  finally show ?thesis .
qed

lemma unat_add_nat_mod:
  assumes "k \<le> 32"
  shows "unat ((a :: u32) + word_of_nat i) mod 2 ^ k = (unat a + i) mod 2 ^ k"
proof -
  have "(2 :: nat) ^ k dvd 2 ^ 32" using assms by (rule le_imp_power_dvd)
  moreover have "unat (a + word_of_nat i) = (unat a + i) mod 2 ^ 32"
    by (simp add: unat_add_u32 unsigned_of_nat take_bit_eq_mod mod_add_right_eq)
  ultimately show ?thesis by (simp add: mod_mod_cancel)
qed

lemma dram_index_eq: "dram_index (a + word_of_nat i) = s8 ((unat a + i) mod 0x800000)"
proof -
  have "dram_index (a + word_of_nat i) = s8 (unat (a + word_of_nat i)) mod 2 ^ 23"
    unfolding dram_index_def unat_xor3 [symmetric]
    using unat_and_mask [of "(a + word_of_nat i) XOR 3" 23] by (simp add: mask_eq_exp_minus_1)
  also have "\<dots> = s8 (unat (a + word_of_nat i) mod 2 ^ 23)" by (rule s8_mod) simp_all
  also have "\<dots> = s8 ((unat a + i) mod 2 ^ 23)" by (simp only: unat_add_nat_mod)
  finally show ?thesis by simp
qed

lemma spmem_index_eq:
  "spmem_index bank (a + word_of_nat i) = unat (bank AND 0x1000) + s8 ((unat a + i) mod 0x1000)"
proof -
  have "unat (((a + word_of_nat i) XOR 3) AND 0xfff) = s8 (unat (a + word_of_nat i)) mod 2 ^ 12"
    unfolding unat_xor3 [symmetric]
    using unat_and_mask [of "(a + word_of_nat i) XOR 3" 12] by (simp add: mask_eq_exp_minus_1)
  also have "\<dots> = s8 (unat (a + word_of_nat i) mod 2 ^ 12)" by (rule s8_mod) simp_all
  also have "\<dots> = s8 ((unat a + i) mod 2 ^ 12)" by (simp only: unat_add_nat_mod)
  finally show ?thesis by (simp add: spmem_index_def)
qed

lemma spmem_bank: "unat ((bank :: u32) AND 0x1000) + s8 (x mod 0x1000) < SP_MEM_SIZE"
proof -
  have "unat (bank AND 0x1000) \<le> 0x1000"
    using word_and_le1 [of bank "0x1000"] by (simp add: word_le_nat_alt)
  moreover have "s8 (x mod 0x1000) < 0x1000" by (simp add: s8_less)
  ultimately show ?thesis by simp
qed

text \<open>A loop of byte copies whose accesses stay in bounds is a fold of list updates.\<close>

definition put_bytes :: "u8 list \<Rightarrow> (nat \<times> nat) list \<Rightarrow> u8 list \<Rightarrow> u8 list" where
  "put_bytes src ps dst = fold (\<lambda>(f, g) d. d[g := src ! f]) ps dst"

lemma put_bytes_length [simp]: "length (put_bytes src ps dst) = length dst"
  by (induction ps arbitrary: dst) (auto simp: put_bytes_def)

lemma put_bytes_append: "put_bytes src (ps @ qs) dst = put_bytes src qs (put_bytes src ps dst)"
  by (simp add: put_bytes_def)

lemma row_loop:
  assumes "\<And>i. i < k + n \<Longrightarrow> f i < length src" "\<And>i. i < k + n \<Longrightarrow> g i < length dst"
  shows "for_range k n (\<lambda>i d. do { v \<leftarrow> rd src (f i); wr d (g i) v }) dst
    = Some (put_bytes src (map (\<lambda>i. (f i, g i)) [k..<k + n]) dst)"
  using assms
proof (induction n arbitrary: k dst)
  case (Suc n)
  have "[k..<k + Suc n] = k # [Suc k..<Suc k + n]" by (simp add: upt_conv_Cons)
  then show ?case using Suc.IH [of "Suc k" "dst[g k := src ! f k]"] Suc.prems
    by (simp add: put_bytes_def)
qed (simp add: put_bytes_def)

text \<open>
  The bytes a request moves, in order: pairs of an index of the signal processor's memory and an index
  of RDRAM. Rows follow each other in the memory and are \<open>skip\<close> bytes apart in RDRAM; both sides wrap.
\<close>

definition sp_dma_row :: "sp_dma \<Rightarrow> nat \<Rightarrow> (nat \<times> nat) list" where
  "sp_dma_row dma j =
     (let len = unat (dma_row_length (dma_length dma)); skip = unat (dma_row_skip (dma_length dma)) in
      map (\<lambda>i. (unat (dma_memaddr dma AND 0x1000) + s8 ((unat (dma_memaddr dma AND 0xff8) + (j * len + i)) mod 0x1000),
               s8 ((unat (dma_dramaddr dma AND 0xfffff8) + (j * (len + skip) + i)) mod 0x800000))) [0..<len])"

definition sp_dma_pairs :: "sp_dma \<Rightarrow> (nat \<times> nat) list" where
  "sp_dma_pairs dma = concat (map (sp_dma_row dma) [0..<unat (dma_row_count (dma_length dma))])"

lemma dma_row_to_dram_eq:
  fixes dma defines "len \<equiv> dma_row_length (dma_length dma)" and "skip \<equiv> dma_row_skip (dma_length dma)"
  assumes "length m = SP_MEM_SIZE" "length d = RDRAM_MAX_SIZE"
  shows "dma_row_to_dram (dma_memaddr dma) m ((dma_memaddr dma AND 0xff8) + word_of_nat (j * unat len))
      ((dma_dramaddr dma AND 0xfffff8) + word_of_nat (j * (unat len + unat skip))) (unat len) d
    = Some (put_bytes m (sp_dma_row dma j) d)"
  unfolding dma_row_to_dram_def add.assoc of_nat_add [symmetric] spmem_index_eq dram_index_eq
  by (subst row_loop)
    (use assms spmem_bank in \<open>simp_all add: s8_less dvd_eq_mod_eq_0 sp_dma_row_def Let_def\<close>)

lemma dma_row_from_dram_eq:
  fixes dma defines "len \<equiv> dma_row_length (dma_length dma)" and "skip \<equiv> dma_row_skip (dma_length dma)"
  assumes "length m = SP_MEM_SIZE" "length d = RDRAM_MAX_SIZE"
  shows "dma_row_from_dram (dma_memaddr dma) d ((dma_memaddr dma AND 0xff8) + word_of_nat (j * unat len))
      ((dma_dramaddr dma AND 0xfffff8) + word_of_nat (j * (unat len + unat skip))) (unat len) m
    = Some (put_bytes d (map prod.swap (sp_dma_row dma j)) m)"
  unfolding dma_row_from_dram_def add.assoc of_nat_add [symmetric] spmem_index_eq dram_index_eq
  by (subst row_loop)
    (use assms spmem_bank in \<open>simp_all add: s8_less dvd_eq_mod_eq_0 sp_dma_row_def Let_def o_def\<close>)

lemma pairs_upto_Suc: "concat (map (sp_dma_row dma) [0..<Suc j]) = concat (map (sp_dma_row dma) [0..<j]) @ sp_dma_row dma j"
  by simp

lemma next_row:
  "(a :: u32) + word_of_nat (j * unat n) + n = a + word_of_nat (Suc j * unat n)"
  "(a :: u32) + word_of_nat (j * (unat n + unat k)) + n + k = a + word_of_nat (Suc j * (unat n + unat k))"
  by simp_all

lemma sp_dma_spec:
  fixes s :: "'a rsp_sys_scheme" and dma
  defines "len \<equiv> dma_row_length (dma_length dma)" and "skip \<equiv> dma_row_skip (dma_length dma)"
    and "rows \<equiv> dma_row_count (dma_length dma)"
  assumes "length (sp_mem (sp s)) = SP_MEM_SIZE" "length (dram (rdram s)) = RDRAM_MAX_SIZE"
    and "fb_absent (fb_of s) = Some True" "queue_room s"
  shows "\<exists>s'. do_sp_dma gx s dma = Some s'
    \<and> dram (rdram s') = (if dma_dir dma = SP_DMA_READ
         then put_bytes (sp_mem (sp s)) (sp_dma_pairs dma) (dram (rdram s)) else dram (rdram s))
    \<and> sp_mem (sp s') = (if dma_dir dma = SP_DMA_READ then sp_mem (sp s)
         else put_bytes (dram (rdram s)) (map prod.swap (sp_dma_pairs dma)) (sp_mem (sp s)))
    \<and> sp_regs (sp s') = (sp_regs (sp s))
         (SP_MEM_ADDR_REG := ((dma_memaddr dma AND 0xff8) + word_of_nat (unat rows * unat len)) AND 0xfff,
          SP_DRAM_ADDR_REG := ((dma_dramaddr dma AND 0xfffff8) + word_of_nat (unat rows * (unat len + unat skip))) AND 0xffffff,
          SP_RD_LEN_REG := 0xff8)
    \<and> mset (queued s') = add_mset \<lparr>evt_type = RSP_DMA_EVT, evt_count = deadline s (rows * len div 8)\<rparr> (mset (queued s))
    \<and> wf_queue (cp0_q (cp0 (r4300 s'))) \<and> fb_of s' = fb_of s"
proof -
  let ?m0 = "dma_memaddr dma AND 0xff8" and ?a0 = "dma_dramaddr dma AND 0xfffff8"
  let ?ps = "\<lambda>j. concat (map (sp_dma_row dma) [0..<j])"
  let ?at = "\<lambda>j. if dma_dir dma = SP_DMA_READ
     then s\<lparr>rdram := (rdram s)\<lparr>dram := put_bytes (sp_mem (sp s)) (?ps j) (dram (rdram s))\<rparr>\<rparr>
     else s\<lparr>sp := (sp s)\<lparr>sp_mem := put_bytes (dram (rdram s)) (map prod.swap (?ps j)) (sp_mem (sp s))\<rparr>\<rparr>"
  let ?st = "\<lambda>j. (?at j, ?m0 + word_of_nat (j * unat len), ?a0 + word_of_nat (j * (unat len + unat skip)))"
  let ?body = "\<lambda>j (s, memaddr, dramaddr).
       if dma_dir dma = SP_DMA_READ then do {
         d \<leftarrow> dma_row_to_dram (dma_memaddr dma) (sp_mem (sp s)) memaddr dramaddr (unat len) (dram (rdram s));
         let s = s\<lparr>rdram := (rdram s)\<lparr>dram := d\<rparr>\<rparr>;
         let dramaddr = dramaddr + len;
         s \<leftarrow> (if dramaddr \<le> 0x800000 then post_framebuffer_write gx (dramaddr - len) len s else Some s);
         Some (s, memaddr + len, dramaddr + skip) }
       else do {
         s \<leftarrow> (if dramaddr < 0x800000 then pre_framebuffer_read gx dramaddr s else Some s);
         m \<leftarrow> dma_row_from_dram (dma_memaddr dma) (dram (rdram s)) memaddr dramaddr (unat len) (sp_mem (sp s));
         Some (s\<lparr>sp := (sp s)\<lparr>sp_mem := m\<rparr>\<rparr>, memaddr + len, dramaddr + len + skip) }"
  have step: "?body j (?st j) = Some (?st (Suc j))" for j
    using assms(4-6) dma_row_to_dram_eq [of "sp_mem (sp s)" _ dma j] dma_row_from_dram_eq [of _ "dram (rdram s)" dma j]
    by (simp add: len_def [symmetric] skip_def [symmetric] next_row pairs_upto_Suc put_bytes_append Let_def del: mult_Suc of_nat_mult upt_Suc)
  have "\<exists>s'. for_range 0 (unat rows) ?body (?st 0) = Some s' \<and> s' = ?st (0 + unat rows)"
    by (rule for_range_inv [where P = "\<lambda>j s. s = ?st j"]) (use step in blast)+
  then have loop: "for_range 0 (unat rows) ?body (s, ?m0, ?a0) = Some (?st (unat rows))"
    by (simp add: put_bytes_def split: if_splits)
  define t where "t = set_spr SP_RD_LEN_REG 0xff8 (set_spr SP_DRAM_ADDR_REG
     ((?a0 + word_of_nat (unat rows * (unat len + unat skip))) AND 0xffffff)
     (set_spr SP_MEM_ADDR_REG ((?m0 + word_of_nat (unat rows * unat len)) AND 0xfff) (?at (unat rows))))"
  have "do_sp_dma gx s dma = sp_add_event RSP_DMA_EVT (rows * len div 8) t"
    using loop unfolding do_sp_dma_def Let_def len_def [symmetric] skip_def [symmetric] rows_def [symmetric] t_def
    by simp
  moreover have r: "r4300 t = r4300 s" by (simp add: t_def set_spr_def)
  ultimately show ?thesis
    using sp_add_event_spec [of t RSP_DMA_EVT "rows * len div 8"] assms(7)
    by (auto simp: queue_room_def queued_def deadline_def r t_def set_spr_def sp_dma_pairs_def rows_def [symmetric])
qed

text \<open>
  C15: A signal processor DMA moves exactly the bytes of its request. With both memories of their size and
  no frame buffer tracked, a transfer of any length, count and skip returns: it is the sequence of byte
  copies of its address pairs, to RDRAM or from it, wrapping at the bank of 4 KiB and at 8 MiB, and the
  other memory is unchanged; the address registers end after the last row, every other register but the
  read length keeps its value, and the end of the transfer is scheduled once, an eighth of the length
  later.
\<close>

theorem sp_dma_copies:
  fixes s :: "'a rsp_sys_scheme" and dma
  defines "len \<equiv> dma_row_length (dma_length dma)" and "skip \<equiv> dma_row_skip (dma_length dma)"
    and "rows \<equiv> dma_row_count (dma_length dma)"
  assumes "length (sp_mem (sp s)) = SP_MEM_SIZE" "length (dram (rdram s)) = RDRAM_MAX_SIZE"
    and "fb_absent (fb_of s) = Some True" "queue_room s"
  shows "\<exists>s'. do_sp_dma gx s dma = Some s'
    \<and> dram (rdram s') = (if dma_dir dma = SP_DMA_READ
         then put_bytes (sp_mem (sp s)) (sp_dma_pairs dma) (dram (rdram s)) else dram (rdram s))
    \<and> sp_mem (sp s') = (if dma_dir dma = SP_DMA_READ then sp_mem (sp s)
         else put_bytes (dram (rdram s)) (map prod.swap (sp_dma_pairs dma)) (sp_mem (sp s)))
    \<and> sp_regs (sp s') = (sp_regs (sp s))
         (SP_MEM_ADDR_REG := ((dma_memaddr dma AND 0xff8) + word_of_nat (unat rows * unat len)) AND 0xfff,
          SP_DRAM_ADDR_REG := ((dma_dramaddr dma AND 0xfffff8) + word_of_nat (unat rows * (unat len + unat skip))) AND 0xffffff,
          SP_RD_LEN_REG := 0xff8)
    \<and> mset (queued s') = add_mset \<lparr>evt_type = RSP_DMA_EVT, evt_count = deadline s (rows * len div 8)\<rparr> (mset (queued s))"
  using sp_dma_spec [OF assms(4-7), of gx dma] unfolding len_def skip_def rows_def by blast

theorem sp_dma_copies_witness:
  "\<exists>s'. do_sp_dma blank_gfx console \<lparr>dma_dir = SP_DMA_WRITE, dma_length = 0x00101007, dma_memaddr = 0x1000, dma_dramaddr = 0x100\<rparr>
       = Some s'
    \<and> dram (rdram s') = dram (rdram console) \<and> spr s' SP_MEM_ADDR_REG = 0x10 \<and> spr s' SP_DRAM_ADDR_REG = 0x112"
proof -
  have "dma_row_length 0x00101007 = 8" "dma_row_skip 0x00101007 = 1" "dma_row_count 0x00101007 = 2"
    by (simp_all add: dma_row_length_def dma_row_skip_def dma_row_count_def)
  then show ?thesis
    using sp_dma_copies [of console blank_gfx "\<lparr>dma_dir = SP_DMA_WRITE, dma_length = 0x00101007, dma_memaddr = 0x1000, dma_dramaddr = 0x100\<rparr>"]
    by (auto simp: console_facts)
qed

section \<open>The signal processor's DMA queue\<close>

text \<open>
  What ties the queue's registers, the two status bits the guest reads and the event queue together:
  the second slot is used only behind the first, the status bits mirror the registers, and a completion
  is scheduled exactly while a transfer is in progress.
\<close>

definition ends_pending :: "'a r4300_sys_scheme \<Rightarrow> nat" where
  "ends_pending s = size (filter_mset (\<lambda>e. evt_type e = RSP_DMA_EVT) (mset (queued s)))"

definition sp_queue_bits :: "'a rsp_sys_scheme \<Rightarrow> bool" where
  "sp_queue_bits s \<longleftrightarrow> (spr s SP_DMA_FULL_REG \<noteq> 0 \<longrightarrow> spr s SP_DMA_BUSY_REG \<noteq> 0)
    \<and> (bit (spr s SP_STATUS_REG) 2 \<longleftrightarrow> spr s SP_DMA_BUSY_REG \<noteq> 0)
    \<and> (bit (spr s SP_STATUS_REG) 3 \<longleftrightarrow> spr s SP_DMA_FULL_REG \<noteq> 0)"

definition sp_fifo_inv :: "'a rsp_sys_scheme \<Rightarrow> bool" where
  "sp_fifo_inv s \<longleftrightarrow> sp_queue_bits s \<and> ends_pending s = (if spr s SP_DMA_BUSY_REG \<noteq> 0 then 1 else 0)"

definition sp_ready :: "'a rsp_sys_scheme \<Rightarrow> bool" where
  "sp_ready s \<longleftrightarrow> length (sp_mem (sp s)) = SP_MEM_SIZE \<and> length (dram (rdram s)) = RDRAM_MAX_SIZE
    \<and> fb_absent (fb_of s) = Some True \<and> queue_room s"

lemmas sp_queue_defs = sp_fifo_inv_def sp_queue_bits_def sp_ready_def

lemma sp_dma_step:
  assumes "sp_ready s"
  shows "\<exists>s'. do_sp_dma gx s dma = Some s' \<and> ends_pending s' = Suc (ends_pending s)
    \<and> spr s' SP_DMA_FULL_REG = spr s SP_DMA_FULL_REG \<and> spr s' SP_DMA_BUSY_REG = spr s SP_DMA_BUSY_REG
    \<and> spr s' SP_STATUS_REG = spr s SP_STATUS_REG"
proof -
  obtain s' where "do_sp_dma gx s dma = Some s'"
      "\<exists>c. mset (queued s') = add_mset \<lparr>evt_type = RSP_DMA_EVT, evt_count = c\<rparr> (mset (queued s))"
      "\<exists>a b c. sp_regs (sp s') = (sp_regs (sp s)) (SP_MEM_ADDR_REG := a, SP_DRAM_ADDR_REG := b, SP_RD_LEN_REG := c)"
    using sp_dma_spec [of s gx dma] assms unfolding sp_ready_def by blast
  then show ?thesis by (auto simp: ends_pending_def)
qed

lemma sp_ready_frame [simp]:
  "sp_ready (set_spr r v s) = sp_ready s" "ends_pending (set_spr r v s) = ends_pending s"
  "sp_ready (s\<lparr>sp := (sp s)\<lparr>fifo0 := x\<rparr>\<rparr>) = sp_ready s" "sp_ready (s\<lparr>sp := (sp s)\<lparr>fifo1 := x\<rparr>\<rparr>) = sp_ready s"
  "ends_pending (s\<lparr>sp := p\<rparr>) = ends_pending s"
  by (simp_all add: sp_ready_def set_spr_def queue_room_def ends_pending_def queued_def)

lemma spr_set_spr [simp]: "spr (set_spr r v s) x = (if x = r then v else spr s x)"
  by (simp add: set_spr_def)

lemma dma_status_bits:
  "bit (v OR SP_STATUS_DMA_BUSY) n \<longleftrightarrow> n = 2 \<or> bit v n" "bit (v OR SP_STATUS_DMA_FULL) n \<longleftrightarrow> n = 3 \<or> bit v n"
  "bit (v AND NOT SP_STATUS_DMA_BUSY) n \<longleftrightarrow> n \<noteq> 2 \<and> bit v n"
  "bit (v AND NOT SP_STATUS_DMA_FULL) n \<longleftrightarrow> n \<noteq> 3 \<and> bit v n"
proof -
  have m: "SP_STATUS_DMA_BUSY = push_bit 2 1" "SP_STATUS_DMA_FULL = push_bit 3 1" by simp_all
  have p: "bit (push_bit k 1 :: u32) n \<longleftrightarrow> n = k" if "k < 32" for k
    using that by (simp only: bit_push_bit_iff bit_1_iff) auto
  have p2: "bit (push_bit 2 1 :: u32) n \<longleftrightarrow> n = 2" by (rule p) simp
  have p3: "bit (push_bit 3 1 :: u32) n \<longleftrightarrow> n = 3" by (rule p) simp
  show "bit (v OR SP_STATUS_DMA_BUSY) n \<longleftrightarrow> n = 2 \<or> bit v n" "bit (v OR SP_STATUS_DMA_FULL) n \<longleftrightarrow> n = 3 \<or> bit v n"
    "bit (v AND NOT SP_STATUS_DMA_BUSY) n \<longleftrightarrow> n \<noteq> 2 \<and> bit v n"
    "bit (v AND NOT SP_STATUS_DMA_FULL) n \<longleftrightarrow> n \<noteq> 3 \<and> bit v n"
    unfolding m bit_or_iff bit_and_iff bit_not_iff p2 p3
    using bit_imp_le_length [of v n] by auto
qed



end
