(* ===== verification/Pif_Claims.thy ===== *)
theory Pif_Claims
  imports Console
begin

text \<open>
  Claims about the PIF: whatever 64 bytes the console leaves in its RAM, parsing them into channels and
  serving empty channels never faults; and the lock-out chip's answer determines the challenge.
\<close>

section \<open>Well-formed PIF\<close>

definition wf_channel :: "pif_channel \<Rightarrow> bool" where
  "wf_channel ch = (case ch of
       None \<Rightarrow> True
     | Some (In_pif, jp) \<Rightarrow> jp_tx jp < 0x800 \<and> jp_rx jp < 0x800
     | Some (In_dummy k, jp) \<Rightarrow> k < PIF_CHANNELS_COUNT \<and> jp_tx jp < 6 \<and> jp_rx jp < 6)"

definition wf_pif :: "pif \<Rightarrow> bool" where
  "wf_pif p \<longleftrightarrow> length (pif_base p) = PIF_ROM_SIZE + PIF_RAM_SIZE \<and> length (channels p) = PIF_CHANNELS_COUNT
     \<and> length (dummy_reset_buffer p) = PIF_CHANNELS_COUNT \<and> (\<forall>d \<in> set (dummy_reset_buffer p). length d = 6)
     \<and> (\<forall>ch \<in> set (channels p). wf_channel ch)"

definition no_devices :: "'s si_env \<Rightarrow> bool" where
  "no_devices env \<longleftrightarrow> (\<forall>k. ijbd env k = None)"

text \<open>The joybus side of the input plugin and of netplay does not reach into the PIF.\<close>

definition input_frame :: "'a si_sys_scheme si_env \<Rightarrow> bool" where
  "input_frame env \<longleftrightarrow> (\<forall>s. pif (input_controllerCommand env s) = pif s
     \<and> pif (input_readController env s) = pif s \<and> pif (netplay_update_input env s) = pif s)"

lemma set_channel_ok:
  assumes "wf_pif (pif s)" "k < PIF_CHANNELS_COUNT" "wf_channel ch"
  shows "\<exists>s'. set_channel k ch s = Some s' \<and> wf_pif (pif s')"
  using assms by (auto simp: set_channel_def wf_pif_def dest!: set_update_subset_insert [THEN subsetD])

lemma disable_ok:
  assumes "wf_pif (pif s)" "k < PIF_CHANNELS_COUNT"
  shows "\<exists>s'. disable_pif_channel k s = Some s' \<and> wf_pif (pif s')"
  unfolding disable_pif_channel_def by (rule set_channel_ok) (use assms in \<open>simp_all add: wf_channel_def\<close>)

lemma disable_all_ok:
  assumes "wf_pif (pif s)" "k + n = PIF_CHANNELS_COUNT"
  shows "\<exists>s'. for_range k n disable_pif_channel s = Some s' \<and> wf_pif (pif s')"
  using for_range_inv [of "\<lambda>_ s. wf_pif (pif s)" k s n disable_pif_channel] assms disable_ok by auto

lemma setup_ok:
  assumes "wf_pif (pif s)" "k < PIF_CHANNELS_COUNT" "no_devices env"
    and "get_chan_buf (pif s) b = Some buf" "off + 1 < length buf"
    and "\<And>jp. jp_tx jp = off \<Longrightarrow> jp_rx jp = off + 1 \<Longrightarrow> wf_channel (Some (b, jp))"
  shows "\<exists>len s'. setup_pif_channel env k b off s = Some (len, s') \<and> wf_pif (pif s')"
proof -
  obtain jp len where m: "message_ptr buf off = Some (jp, len)" "jp_tx jp = off" "jp_rx jp = off + 1"
    using assms(5) by (auto simp: message_ptr_def Let_def)
  then obtain s' where "set_channel k (Some (b, jp)) s = Some s'" "wf_pif (pif s')"
    using set_channel_ok [OF assms(1,2) assms(6)] by blast
  then show ?thesis
    using assms(3,4) m(1) by (simp add: setup_pif_channel_def post_setup_channel_def no_devices_def)
qed

lemma setup_reset_ok:
  assumes "wf_pif (pif s)" "k < PIF_CHANNELS_COUNT" "no_devices env"
  shows "\<exists>s'. setup_reset_channel env k s = Some s' \<and> wf_pif (pif s')"
proof -
  let ?ds = "dummy_reset_buffer (pif s)"
  let ?d = "(?ds ! k)[0 := 0x01, 1 := 0x03, 2 := 0xff]"
  let ?s = "s\<lparr>pif := (pif s)\<lparr>dummy_reset_buffer := ?ds[k := ?d]\<rparr>\<rparr>"
  have k: "k < length ?ds" "length (?ds ! k) = 6" using assms by (auto simp: wf_pif_def)
  have "wf_pif (pif ?s)"
    using assms(1) k by (auto simp: wf_pif_def dest!: set_update_subset_insert [THEN subsetD])
  moreover have "get_chan_buf (pif ?s) (In_dummy k) = Some ?d" using k by (simp add: get_chan_buf_def)
  ultimately have "\<exists>len s'. setup_pif_channel env k (In_dummy k) 0 ?s = Some (len, s') \<and> wf_pif (pif s')"
    by (rule setup_ok [OF _ assms(2,3)]) (use k assms(2) in \<open>simp_all add: wf_channel_def\<close>)
  then show ?thesis using k by (auto simp: setup_reset_channel_def set_chan_buf_def)
qed

lemma pif_ram_ok: "wf_pif p \<Longrightarrow> i < PIF_RAM_SIZE \<Longrightarrow> \<exists>b. pif_ram p i = Some b"
  by (simp add: pif_ram_def wf_pif_def)

lemma format_loop_ok:
  assumes "wf_pif (pif s)" "no_devices env"
  shows "\<exists>s'. format_loop env i k s = Some s' \<and> wf_pif (pif s')"
  using assms
proof (induction env i k s rule: format_loop.induct)
  case (1 env i k s)
  show ?case
  proof (cases "i < PIF_RAM_SIZE \<and> k < PIF_CHANNELS_COUNT")
    case True
    obtain b where b: "pif_ram (pif s) i = Some b" using pif_ram_ok "1.prems"(1) True by blast
    have "\<exists>b1. (if i + 1 < PIF_RAM_SIZE then pif_ram (pif s) (i + 1) else Some 0) = Some b1"
      using pif_ram_ok [OF "1.prems"(1), of "i + 1"] by simp
    then obtain b1 where b1: "(if i + 1 < PIF_RAM_SIZE then pif_ram (pif s) (i + 1) else Some 0) = Some b1" ..
    obtain s1 where s1: "disable_pif_channel k s = Some s1" "wf_pif (pif s1)"
      using disable_ok [OF "1.prems"(1)] True by blast
    obtain s2 where s2: "setup_reset_channel env k s = Some s2" "wf_pif (pif s2)"
      using setup_reset_ok [OF "1.prems"(1) _ "1.prems"(2)] True by blast
    obtain len s3 where s3: "setup_pif_channel env k In_pif (PIF_ROM_SIZE + i) s = Some (len, s3)" "wf_pif (pif s3)"
      if "i + 2 < PIF_RAM_SIZE"
      using setup_ok [OF "1.prems"(1) _ "1.prems"(2), of k In_pif "pif_base (pif s)" "PIF_ROM_SIZE + i"] True "1.prems"(1)
      by (fastforce simp: get_chan_buf_def wf_channel_def wf_pif_def)
    note unf = format_loop.simps [of env i k s] if_P [OF True] b b1 bind.bind_lunit
    show ?thesis
      using "1.IH"(1) [OF True b _ s1(1) s1(2) "1.prems"(2)] "1.IH"(2) [OF True b _ _ "1.prems"]
        "1.IH"(3) [OF True b _ _ _ _ s2(1) s2(2) "1.prems"(2)] "1.IH"(4) [OF True b _ _ _ _ b1 _ "1.prems"]
        "1.IH"(5) [OF True b _ _ _ _ b1 _ _ "1.prems"] "1.IH"(6) [OF True b _ _ _ _ b1 _ _ s3(1) refl s3(2) "1.prems"(2)]
        disable_all_ok [OF "1.prems"(1), of k "PIF_CHANNELS_COUNT - k"] True s1(1) s2(1) s3(1)
      unfolding unf by (auto simp: Let_def not_le)
  next
    case False
    then show ?thesis using "1.prems"(1) unfolding format_loop.simps [of env i k s] if_not_P [OF False] by simp
  qed
qed

section \<open>Serving the channels\<close>

lemma chan_buf_ok:
  assumes "wf_pif p" "wf_channel (Some (b, jp))"
  shows "\<exists>buf. get_chan_buf p b = Some buf \<and> jp_tx jp < length buf \<and> jp_rx jp < length buf"
  using assms by (cases b) (auto simp: wf_channel_def wf_pif_def get_chan_buf_def)

lemma set_chan_buf_ok:
  assumes "wf_pif p" "get_chan_buf p b = Some buf" "length buf' = length buf"
  shows "\<exists>p'. set_chan_buf b buf' p = Some p' \<and> wf_pif p' \<and> channels p' = channels p
    \<and> get_chan_buf p' b = Some buf'"
proof (cases b)
  case In_pif
  then show ?thesis using assms by (auto simp: set_chan_buf_def get_chan_buf_def wf_pif_def)
next
  case (In_dummy k)
  then show ?thesis
    using assms by (auto simp: set_chan_buf_def get_chan_buf_def wf_pif_def rd_eq_Some_iff
        dest!: set_update_subset_insert [THEN subsetD])
qed

lemma process_channel_ok:
  assumes "wf_pif (pif s)" "k < PIF_CHANNELS_COUNT" "no_devices env"
  shows "\<exists>s'. process_channel env k s = Some s' \<and> wf_pif (pif s')"
proof (cases "channels (pif s) ! k")
  case None
  then show ?thesis using assms by (simp add: process_channel_def wf_pif_def)
next
  case (Some bj)
  obtain b jp where bj: "bj = (b, jp)" by (cases bj)
  have k: "k < length (channels (pif s))" using assms by (simp add: wf_pif_def)
  then have ch: "wf_channel (Some (b, jp))" using assms(1) Some bj nth_mem [OF k] by (auto simp: wf_pif_def)
  obtain buf where buf: "get_chan_buf (pif s) b = Some buf" "jp_tx jp < length buf" "jp_rx jp < length buf"
    using chan_buf_ok [OF assms(1) ch] by blast
  let ?b1 = "buf[jp_tx jp := buf ! jp_tx jp AND 0x3f]"
  let ?b2 = "?b1[jp_rx jp := ?b1 ! jp_rx jp AND 0x3f]"
  obtain p where p: "set_chan_buf b ?b2 (pif s) = Some p" "wf_pif p" "get_chan_buf p b = Some ?b2"
    using set_chan_buf_ok [OF assms(1) buf(1), of ?b2] by auto
  let ?b3 = "?b2[jp_rx jp := ?b2 ! jp_rx jp OR 0x80]"
  obtain p' where "set_chan_buf b ?b3 p = Some p'" "wf_pif p'"
    using set_chan_buf_ok [OF p(2,3), of ?b3] by auto
  then show ?thesis
    using Some bj k buf p assms(3)
    by (simp add: process_channel_def and_byte_def rx_or_def no_devices_def)
qed

section \<open>The challenge\<close>

lemma nibbles_length [simp]: "length (nibbles bs) = 2 * length bs"
  by (induction bs) auto

lemma bytes_of_nibbles_length: "length (bytes_of_nibbles ns) = length ns div 2"
  by (induction ns rule: bytes_of_nibbles.induct) auto

lemma cic_challenge_ok:
  assumes "length (pif_base p) = PIF_ROM_SIZE + PIF_RAM_SIZE"
  shows "\<exists>rs. n64_cic_nus_6105 (nibbles (take 15 (drop (PIF_ROM_SIZE + 0x30) (pif_base p)))) = Some rs
    \<and> (\<forall>r \<in> set rs. r < 16) \<and> length rs = 30
    \<and> (\<exists>b. process_cic_challenge p = Some (p\<lparr>pif_base := b\<rparr>) \<and> length b = length (pif_base p)
         \<and> take 15 (drop (PIF_ROM_SIZE + 0x30) b) = bytes_of_nibbles rs \<and> b ! (PIF_ROM_SIZE + 0x3f) = pif_base p ! (PIF_ROM_SIZE + 0x3f)
         \<and> take (PIF_ROM_SIZE + 0x2e) b = take (PIF_ROM_SIZE + 0x2e) (pif_base p))"
proof -
  let ?c = "nibbles (take 15 (drop (PIF_ROM_SIZE + 0x30) (pif_base p)))"
  obtain rs where rs: "n64_cic_nus_6105 ?c = Some rs" "length rs = length ?c" "\<forall>r \<in> set rs. r < 16"
    using cic_loop_total [of "0xB" False ?c] unfolding n64_cic_nus_6105_def by blast
  have l: "length rs = 30" "length (bytes_of_nibbles rs) = 15"
    using rs(2) assms by (simp_all add: bytes_of_nibbles_length)
  let ?b = "(pif_base p)[PIF_ROM_SIZE + 0x2e := 0, PIF_ROM_SIZE + 0x2f := 0]"
  obtain b where b: "memcpy ?b (PIF_ROM_SIZE + 0x30) (bytes_of_nibbles rs) 0 15 = Some b"
    using assms l(2) by (simp add: memcpy_def)
  have "process_cic_challenge p = Some (p\<lparr>pif_base := b\<rparr>)"
    using assms rs(1) b by (simp add: process_cic_challenge_def set_pif_ram_def)
  moreover have "b = take (PIF_ROM_SIZE + 0x30) ?b @ bytes_of_nibbles rs @ drop (PIF_ROM_SIZE + 0x30 + 15) ?b"
    using b l(2) by (simp add: memcpy_def split: if_splits)
  moreover have "b ! (PIF_ROM_SIZE + 0x3f) = pif_base p ! (PIF_ROM_SIZE + 0x3f)"
    using memcpy_nth [OF b, of "PIF_ROM_SIZE + 0x3f"] assms by simp
  moreover have "take (PIF_ROM_SIZE + 0x2e) b = take (PIF_ROM_SIZE + 0x2e) (pif_base p)"
    by (rule nth_equalityI) (use memcpy_length [OF b] memcpy_nth [OF b] assms in auto)
  ultimately show ?thesis using rs l assms memcpy_length [OF b] by auto
qed

lemma wf_pif_base: "wf_pif p \<Longrightarrow> length b = length (pif_base p) \<Longrightarrow> wf_pif (p\<lparr>pif_base := b\<rparr>)"
  by (simp add: wf_pif_def)

lemma set_pif_ram_ok:
  "wf_pif p \<Longrightarrow> i < PIF_RAM_SIZE \<Longrightarrow> \<exists>p'. set_pif_ram i v p = Some p' \<and> wf_pif p'"
  by (simp add: set_pif_ram_def wf_pif_def)

lemma challenge_step_ok:
  assumes "wf_pif (pif s)"
  shows "\<exists>s'. do { s \<leftarrow> for_range 0 PIF_CHANNELS_COUNT disable_pif_channel s;
                 p \<leftarrow> process_cic_challenge (pif s); Some (s\<lparr>pif := p\<rparr>) } = Some s' \<and> wf_pif (pif s')"
proof -
  obtain s1 where s1: "for_range 0 PIF_CHANNELS_COUNT disable_pif_channel s = Some s1" "wf_pif (pif s1)"
    using disable_all_ok [OF assms, of 0 PIF_CHANNELS_COUNT] by auto
  then obtain b where "process_cic_challenge (pif s1) = Some ((pif s1)\<lparr>pif_base := b\<rparr>)"
      "length b = length (pif_base (pif s1))"
    using cic_challenge_ok [of "pif s1"] by (auto simp: wf_pif_def)
  then show ?thesis using s1 wf_pif_base by auto
qed

lemma flags_step_ok:
  assumes "wf_pif p"
  shows "\<exists>p'. do { p \<leftarrow> (if f then set_pif_ram 0x3f 0x80 p else Some p);
                 v \<leftarrow> pif_ram p 0x3f; set_pif_ram 0x3f (v AND m) p } = Some p' \<and> wf_pif p'"
proof -
  obtain p1 where p1: "(if f then set_pif_ram 0x3f 0x80 p else Some p) = Some p1" "wf_pif p1"
    using set_pif_ram_ok [OF assms, of "0x3f" "0x80"] assms by (cases f) auto
  moreover obtain v where "pif_ram p1 0x3f = Some v" using pif_ram_ok [OF p1(2), of "0x3f"] by auto
  ultimately show ?thesis using set_pif_ram_ok [OF p1(2), of "0x3f" "v AND m"] by auto
qed



lemma nibble_bound: "(b :: u8) AND 0x0f < 16"
  using and_15_less [of b] by (simp add: word_less_nat_alt)

lemma nibbles_bound: "\<forall>n \<in> set (nibbles bs). n < 16"
  by (induction bs) (auto simp: nibble_bound)

lemma byte_from_nibbles:
  assumes "drop_bit 4 b AND 0x0f = drop_bit 4 c AND (0x0f :: u8)" "b AND 0x0f = c AND 0x0f"
  shows "b = (c :: u8)"
proof (rule bit_word_eqI)
  have f: "(0x0f :: u8) = mask 4" by (simp add: mask_eq_exp_minus_1)
  fix n
  assume n: "n < LENGTH(8)"
  have "bit (b AND mask 4) n = bit (c AND mask 4) n" using assms(2) f by simp
  moreover have "bit (drop_bit 4 b AND mask 4) (n - 4) = bit (drop_bit 4 c AND mask 4) (n - 4)"
    using assms(1) f by simp
  ultimately show "bit b n = bit c n"
    using n by (cases "n < 4") (auto simp: bit_and_iff bit_mask_iff bit_drop_bit_eq)
qed

lemma nibbles_inj: "nibbles a = nibbles b \<Longrightarrow> a = b"
proof (induction a arbitrary: b)
  case Nil
  then show ?case by (cases b) auto
next
  case (Cons x a)
  then show ?case by (cases b) (auto dest: byte_from_nibbles)
qed

lemma nibble_pair_inj:
  assumes "push_bit 4 h + l = push_bit 4 h' + (l' :: u8)" "h < 16" "h' < 16" "l < 16" "l' < 16"
  shows "h = h' \<and> l = l'"
proof -
  have u: "unat (push_bit 4 x + y) = unat x * 16 + unat y" if "x < 16" "y < (16 :: u8)" for x y
  proof -
    have lt: "unat x < 16" "unat y < 16" using that by (simp_all add: word_less_nat_alt)
    then have "unat (push_bit 4 x) = unat x * 16"
      by (simp only: push_bit_eq_mult) (simp add: unat_word_ariths)
    then show ?thesis using lt by (simp only: unat_word_ariths) simp
  qed
  have "unat h * 16 + unat l = unat h' * 16 + unat l'" using u [of h l] u [of h' l'] assms by simp
  moreover have "unat l < 16" "unat l' < 16" using assms(4,5) by (simp_all add: word_less_nat_alt)
  moreover have "a = c \<and> b = d" if "a * 16 + b = c * 16 + d" "b < 16" "d < 16" for a b c d :: nat
  proof -
    have "a = (a * 16 + b) div 16" "c = (c * 16 + d) div 16" using that(2,3) by simp_all
    then have "a = c" using that(1) by metis
    then show ?thesis using that(1) by simp
  qed
  ultimately have "unat h = unat h' \<and> unat l = unat l'" by blast
  then show ?thesis by (simp add: word_unat_eq_iff)
qed

lemma bytes_of_nibbles_inj:
  "bytes_of_nibbles a = bytes_of_nibbles b \<Longrightarrow> even (length a) \<Longrightarrow> even (length b) \<Longrightarrow>
    \<forall>x \<in> set a. x < 16 \<Longrightarrow> \<forall>x \<in> set b. x < 16 \<Longrightarrow> a = b"
proof (induction a arbitrary: b rule: bytes_of_nibbles.induct)
  case (1 h l a)
  then obtain h' l' b' where b: "b = h' # l' # b'"
    by (cases b rule: bytes_of_nibbles.cases) auto
  have "push_bit 4 h + l = push_bit 4 h' + l'" using "1.prems"(1) unfolding b by (simp only: bytes_of_nibbles.simps list.inject)
  then have "h = h' \<and> l = l'" by (rule nibble_pair_inj) (use "1.prems" b in auto)
  then show ?case using "1.IH" [of b'] "1.prems" b by auto
next
  case "2_1"
  then show ?case by (cases b rule: bytes_of_nibbles.cases) auto
qed simp

text \<open>
  The answer of the lock-out chip determines the challenge. Answering a challenge never faults and
  keeps the rest of the PIF RAM below the challenge and the command byte; two PIFs that were given
  different 15-byte challenges hold different answers.
\<close>

theorem cic_answer_determines_challenge:
  fixes p q :: pif
  defines "msg \<equiv> \<lambda>b. take 15 (drop (PIF_ROM_SIZE + 0x30) b) :: u8 list"
  assumes "length (pif_base p) = PIF_ROM_SIZE + PIF_RAM_SIZE" "length (pif_base q) = PIF_ROM_SIZE + PIF_RAM_SIZE"
  shows "\<exists>p' q'. process_cic_challenge p = Some p' \<and> process_cic_challenge q = Some q'
    \<and> take (PIF_ROM_SIZE + 0x2e) (pif_base p') = take (PIF_ROM_SIZE + 0x2e) (pif_base p)
    \<and> pif_base p' ! (PIF_ROM_SIZE + 0x3f) = pif_base p ! (PIF_ROM_SIZE + 0x3f)
    \<and> (msg (pif_base p') = msg (pif_base q') \<longleftrightarrow> msg (pif_base p) = msg (pif_base q))"
proof -
  obtain rp bp where rp: "n64_cic_nus_6105 (nibbles (msg (pif_base p))) = Some rp" "\<forall>r \<in> set rp. r < 16" "length rp = 30"
      "process_cic_challenge p = Some (p\<lparr>pif_base := bp\<rparr>)" "msg bp = bytes_of_nibbles rp"
      "take (PIF_ROM_SIZE + 0x2e) bp = take (PIF_ROM_SIZE + 0x2e) (pif_base p)"
      "bp ! (PIF_ROM_SIZE + 0x3f) = pif_base p ! (PIF_ROM_SIZE + 0x3f)"
    using cic_challenge_ok [OF assms(2)] unfolding msg_def by blast
  obtain rq bq where rq: "n64_cic_nus_6105 (nibbles (msg (pif_base q))) = Some rq" "\<forall>r \<in> set rq. r < 16" "length rq = 30"
      "process_cic_challenge q = Some (q\<lparr>pif_base := bq\<rparr>)" "msg bq = bytes_of_nibbles rq"
    using cic_challenge_ok [OF assms(3)] unfolding msg_def by blast
  have "msg (pif_base p) = msg (pif_base q)" if "msg bp = msg bq"
  proof -
    have "rp = rq" by (rule bytes_of_nibbles_inj) (use that rp(2,3,5) rq(2,3,5) in auto)
    then have "nibbles (msg (pif_base p)) = nibbles (msg (pif_base q))"
      using rp(1) rq(1) nibbles_bound unfolding n64_cic_nus_6105_def by (auto intro: cic_loop_inj)
    then show ?thesis by (rule nibbles_inj)
  qed
  moreover have "msg bp = msg bq" if "msg (pif_base p) = msg (pif_base q)"
    using that rp(1,5) rq(1,5) by simp
  ultimately show ?thesis using rp(4,6,7) rq(4) by auto
qed

theorem cic_answer_determines_challenge_witness:
  "\<exists>p' q'. process_cic_challenge (pif console) = Some p'
    \<and> process_cic_challenge ((pif console)\<lparr>pif_base := replicate 0x7ff 1 @ [0]\<rparr>) = Some q'
    \<and> take 15 (drop 0x7f0 (pif_base p')) \<noteq> take 15 (drop 0x7f0 (pif_base q'))"
proof -
  let ?q = "(pif console)\<lparr>pif_base := replicate 0x7ff 1 @ [0]\<rparr>"
  have "take 15 (drop 0x7f0 (pif_base (pif console))) \<noteq> take 15 (drop 0x7f0 (pif_base ?q))"
    by (simp add: console_def)
  then show ?thesis
    using cic_answer_determines_challenge [of "pif console" ?q] by (auto simp: console_facts)
qed

end
