(* ===== verification/Gb.thy ===== *)
theory Gb
  imports Cart
begin

text \<open>
  Game Boy cartridges behind the transfer pak: the clock of \<^verbatim>\<open>device/gb/mbc3_rtc.c\<close>, the image sensor
  of \<^verbatim>\<open>device/gb/m64282fp.c\<close> and the mappers of \<^verbatim>\<open>device/gb/gb_cart.c\<close>. A read gets the old contents of
  its destination block and returns the new ones; the block's length is \<^verbatim>\<open>size\<close>. A missing storage
  interface (a null pointer in C) is \<open>None\<close> in the record, and using it faults. Time, the rumble
  backend's log and the captured picture are explicit.
\<close>

section \<open>MBC3 clock\<close>

abbreviation MBC3_RTC_SECONDS :: nat where "MBC3_RTC_SECONDS \<equiv> 0"
abbreviation MBC3_RTC_MINUTES :: nat where "MBC3_RTC_MINUTES \<equiv> 1"
abbreviation MBC3_RTC_HOURS :: nat where "MBC3_RTC_HOURS \<equiv> 2"
abbreviation MBC3_RTC_DAYS_L :: nat where "MBC3_RTC_DAYS_L \<equiv> 3"
abbreviation MBC3_RTC_DAYS_H :: nat where "MBC3_RTC_DAYS_H \<equiv> 4"
abbreviation MBC3_RTC_REGS_COUNT :: nat where "MBC3_RTC_REGS_COUNT \<equiv> 5"

record mbc3_rtc =
  rtc_regs :: "nat \<Rightarrow> u8"
  rtc_latch :: u32
  latched_regs :: "nat \<Rightarrow> u8"
  last_time :: int

text \<open>One register with its carry into the next: \<open>lo\<close> gains \<open>n\<close> and wraps at \<open>m\<close>.\<close>

definition carry_step :: "nat \<Rightarrow> nat \<Rightarrow> u8 \<Rightarrow> int \<Rightarrow> (nat \<Rightarrow> u8) \<Rightarrow> (nat \<Rightarrow> u8)" where
  "carry_step lo hi m n r =
     (let r = r(lo := r lo + word_of_int n)
      in if m \<le> r lo then let r = r(lo := r lo - m) in r(hi := r hi + 1) else r)"

definition days_step :: "int \<Rightarrow> (nat \<Rightarrow> u8) \<Rightarrow> (nat \<Rightarrow> u8)" where
  "days_step diff r =
     (let days = (push_bit 8 (ucast (r MBC3_RTC_DAYS_H) AND 0x01) OR ucast (r MBC3_RTC_DAYS_L)) + word_of_int diff :: u32;
          r = r(MBC3_RTC_DAYS_L := ucast (days AND 0xff));
          r = r(MBC3_RTC_DAYS_H := ucast ((ucast (r MBC3_RTC_DAYS_H) AND NOT 0x01) OR (days AND 0x100)))
      in if 511 < days then r(MBC3_RTC_DAYS_H := r MBC3_RTC_DAYS_H OR 0x80) else r)"

definition update_rtc_regs :: "int \<Rightarrow> mbc3_rtc \<Rightarrow> mbc3_rtc" where
  "update_rtc_regs clk rtc =
     (let diff = clk - last_time rtc;
          rtc = rtc\<lparr>last_time := clk\<rparr>
      in if 0 < diff then
           let r = carry_step MBC3_RTC_SECONDS MBC3_RTC_MINUTES 60 (diff mod 60) (rtc_regs rtc);
               diff = diff div 60;
               r = carry_step MBC3_RTC_MINUTES MBC3_RTC_HOURS 60 (diff mod 60) r;
               diff = diff div 60;
               r = carry_step MBC3_RTC_HOURS MBC3_RTC_DAYS_L 24 (diff mod 24) r;
               diff = diff div 24
           in rtc\<lparr>rtc_regs := days_step diff r\<rparr>
         else rtc)"

definition poweron_mbc3_rtc :: "mbc3_rtc \<Rightarrow> mbc3_rtc" where
  "poweron_mbc3_rtc rtc = rtc\<lparr>rtc_regs := (\<lambda>_. 0), latched_regs := (\<lambda>_. 0), rtc_latch := 0, last_time := 0\<rparr>"

definition read_mbc3_rtc_regs :: "int \<Rightarrow> mbc3_rtc \<Rightarrow> nat \<Rightarrow> (u8 \<times> mbc3_rtc) option" where
  "read_mbc3_rtc_regs clk rtc reg =
     (if MBC3_RTC_REGS_COUNT \<le> reg then None
      else if rtc_latch rtc \<noteq> 0 then Some (latched_regs rtc reg, rtc)
      else let rtc = update_rtc_regs clk rtc in Some (rtc_regs rtc reg, rtc))"

definition write_mbc3_rtc_regs :: "mbc3_rtc \<Rightarrow> nat \<Rightarrow> u8 \<Rightarrow> mbc3_rtc option" where
  "write_mbc3_rtc_regs rtc reg value =
     (if MBC3_RTC_REGS_COUNT \<le> reg then None else Some (rtc\<lparr>rtc_regs := (rtc_regs rtc)(reg := value)\<rparr>))"

definition latch_mbc3_rtc_regs :: "int \<Rightarrow> mbc3_rtc \<Rightarrow> u8 \<Rightarrow> mbc3_rtc" where
  "latch_mbc3_rtc_regs clk rtc v =
     (let rtc = (if rtc_latch rtc = 0 \<and> v = 1
                 then let rtc = update_rtc_regs clk rtc in rtc\<lparr>latched_regs := rtc_regs rtc\<rparr> else rtc)
      in rtc\<lparr>rtc_latch := ucast (v AND 0x1)\<rparr>)"

section \<open>The image sensor\<close>

abbreviation M64282FP_SENSOR_W :: nat where "M64282FP_SENSOR_W \<equiv> 128"
abbreviation M64282FP_SENSOR_H :: nat where "M64282FP_SENSOR_H \<equiv> 128"

type_synonym image = "nat \<Rightarrow> nat \<Rightarrow> int"

record m64282fp_regs =
  fp_N_VH_G :: u8
  fp_C_LO :: u8
  fp_C_HI :: u8
  fp_P :: u8
  fp_M :: u8
  fp_E_I_V :: u8

definition set_px :: "nat \<Rightarrow> nat \<Rightarrow> int \<Rightarrow> image \<Rightarrow> image" where
  "set_px y x v img = img(y := (img y)(x := v))"

definition clamp :: "int \<Rightarrow> int \<Rightarrow> int \<Rightarrow> int" where
  "clamp v low high = min high (max low v)"

text \<open>The double loop over the pixels, row by row.\<close>

definition for_pixels :: "(nat \<Rightarrow> nat \<Rightarrow> 's \<Rightarrow> 's) \<Rightarrow> (nat \<Rightarrow> 's \<Rightarrow> 's) \<Rightarrow> 's \<Rightarrow> 's" where
  "for_pixels f row s =
     fold (\<lambda>y s. fold (\<lambda>x s. f y x s) [0..<M64282FP_SENSOR_W] (row y s)) [0..<M64282FP_SENSOR_H] s"

definition map_pixels :: "(int \<Rightarrow> int) \<Rightarrow> image \<Rightarrow> image" where
  "map_pixels f img = for_pixels (\<lambda>y x img. set_px y x (f (img y x)) img) (\<lambda>y img. img) img"

definition do_kernel_filtering :: "int \<Rightarrow> int list \<Rightarrow> image \<Rightarrow> image" where
  "do_kernel_filtering a k img =
     fst (for_pixels
       (\<lambda>y x (img, tmp).
          let px = img y x;
              ms = img (min (y + 1) (M64282FP_SENSOR_H - 1)) x;
              me = img y (min (x + 1) (M64282FP_SENSOR_W - 1));
              mn = tmp x;
              mw = tmp M64282FP_SENSOR_W
          in (set_px y x (k ! 0 * px +
                (a * (k ! 1 * px + k ! 2 * mn + k ! 3 * mw + k ! 4 * me + k ! 5 * ms)) sdiv 4) img,
              tmp(x := px, M64282FP_SENSOR_W := px)))
       (\<lambda>y (img, tmp). (img, tmp(M64282FP_SENSOR_W := img y 0)))
       (img, img 0))"

definition do_1d_filtering :: "u8 \<Rightarrow> u8 \<Rightarrow> image \<Rightarrow> image" where
  "do_1d_filtering p m img =
     for_pixels
       (\<lambda>y x img.
          let s = (\<lambda>i. img (min (y + i) (M64282FP_SENSOR_H - 1)) x);
              add = (\<lambda>r b i v. if r AND b \<noteq> (0 :: u8) then v + s i else v);
              del = (\<lambda>r b i v. if r AND b \<noteq> (0 :: u8) then v - s i else v);
              v = add p 0x08 3 (add p 0x04 2 (add p 0x02 1 (add p 0x01 0 0)));
              v = del m 0x08 3 (del m 0x04 2 (del m 0x02 1 (del m 0x01 0 v)))
          in set_px y x v img)
       (\<lambda>y img. img) img"

definition kernels :: "int list list" where
  "kernels =
     [[1, 2, 0, -1, -1, 0], [0, 2, 0, -1, -1, 0], [1, 2, -1, 0, 0, -1],
      [0, 2, -1, 0, 0, -1], [1, 4, -1, -1, -1, -1], [0, 4, -1, -1, -1, -1]]"

definition alpha_lut :: "int list" where
  "alpha_lut = [2, 3, 4, 5, 8, 12, 16, 20]"

definition m64282fp_mode :: "m64282fp_regs \<Rightarrow> nat" where
  "m64282fp_mode regs = unat
     (push_bit 3 (drop_bit 7 (fp_N_VH_G regs AND 0x80)) OR
      push_bit 1 (drop_bit 5 (fp_N_VH_G regs AND 0x60)) OR drop_bit 7 (fp_E_I_V regs AND 0x80))"

definition expose :: "nat \<Rightarrow> int \<Rightarrow> int" where
  "expose exposure v =
     (let v = (v * int exposure) sdiv 0x0300;
          v = ((v - 128) sdiv 8) + 128
      in clamp v 0 255)"

definition process_m64282fp_image :: "m64282fp_regs \<Rightarrow> image \<Rightarrow> image" where
  "process_m64282fp_image regs img =
     (let exposure = unat (push_bit 8 (ucast (fp_C_HI regs)) OR ucast (fp_C_LO regs) :: u16);
          img = map_pixels (expose exposure) img;
          img = (if fp_E_I_V regs AND 0x8 \<noteq> 0 then map_pixels (\<lambda>v. 255 - v) img else img);
          tmp = map_pixels (\<lambda>v. v - 128) img;
          mode = m64282fp_mode regs;
          alpha = alpha_lut ! unat (drop_bit 4 (fp_E_I_V regs AND 0x70));
          tmp = (if mode = 0x0 then do_1d_filtering (fp_P regs) (fp_M regs) tmp
                 else if mode = 0x1 then map_pixels (\<lambda>_. 0) tmp
                 else if mode = 0x2 then do_1d_filtering (fp_P regs) (fp_M regs) (do_kernel_filtering alpha (kernels ! 0) tmp)
                 else if mode = 0x3 then do_1d_filtering (fp_P regs) (fp_M regs) (do_kernel_filtering alpha (kernels ! 1) tmp)
                 else if mode = 0xc then do_kernel_filtering alpha (kernels ! 2) tmp
                 else if mode = 0xd then do_kernel_filtering alpha (kernels ! 3) tmp
                 else if mode = 0xe then do_kernel_filtering alpha (kernels ! 4) tmp
                 else if mode = 0xf then do_kernel_filtering alpha (kernels ! 5) tmp
                 else tmp)
      in map_pixels (\<lambda>v. clamp (128 + v) 0 255) tmp)"

section \<open>Cartridge\<close>

abbreviation GED_NONE :: u32 where "GED_NONE \<equiv> 0x00"
abbreviation GED_RAM :: u32 where "GED_RAM \<equiv> 0x01"
abbreviation GED_BATTERY :: u32 where "GED_BATTERY \<equiv> 0x02"
abbreviation GED_RTC :: u32 where "GED_RTC \<equiv> 0x04"
abbreviation GED_RUMBLE :: u32 where "GED_RUMBLE \<equiv> 0x08"
abbreviation GED_ACCELEROMETER :: u32 where "GED_ACCELEROMETER \<equiv> 0x10"
abbreviation GED_CAMERA :: u32 where "GED_CAMERA \<equiv> 0x20"
abbreviation POCKET_CAM_REGS_COUNT :: nat where "POCKET_CAM_REGS_COUNT \<equiv> 0x36"

datatype rumble_action = RUMBLE_START | RUMBLE_STOP

text \<open>The pair of functions a cartridge type installs; those not listed below do nothing.\<close>

datatype mapper =
    nombc | mbc1 | mbc2 | mmm01 | mbc3 | mbc5 | mbc6 | mbc7 | pocket_cam | bandai_tama5 | huc3 | huc1

record gb_cart =
  gb_rom :: "storage option"
  gb_ram :: "storage option"
  rom_bank :: u32
  ram_bank :: u32
  ram_enable :: bool
  mbc1_mode :: u32
  extra_devices :: u32
  gb_rtc :: mbc3_rtc
  cam_regs :: "u8 list"
  gb_rumble :: "rumble_action list"
  gb_mapper :: "mapper option"

text \<open>The host: current time and the picture of the capture backend, if it delivers one (blue, green, red).\<close>

record gb_env =
  gb_clk :: int
  gb_picture :: "(nat \<Rightarrow> nat \<Rightarrow> u8 \<times> u8 \<times> u8) option"

section \<open>ROM and RAM accesses\<close>

definition read_rom :: "storage option \<Rightarrow> u16 \<Rightarrow> u8 list \<Rightarrow> u8 list option" where
  "read_rom rm address dat = do {
     r \<leftarrow> rm;
     if dat = [] then None
     else if unat address + length dat > length (st_data r) then Some dat
     else Some (take (length dat) (drop (unat address) (st_data r))) }"

definition read_ram :: "storage option \<Rightarrow> bool \<Rightarrow> u16 \<Rightarrow> u8 list \<Rightarrow> u8 \<Rightarrow> u8 list option" where
  "read_ram ram enabled address dat msk =
     (if dat = [] then None
      else if \<not> enabled then Some (replicate (length dat) 0xff)
      else do {
        r \<leftarrow> ram;
        if unat address + length dat > length (st_data r) then Some dat
        else Some (map (\<lambda>b. b AND msk) (take (length dat) (drop (unat address) (st_data r)))) })"

definition write_ram :: "storage option \<Rightarrow> bool \<Rightarrow> u16 \<Rightarrow> u8 list \<Rightarrow> u8 \<Rightarrow> storage option option" where
  "write_ram ram enabled address dat msk =
     (if dat = [] then None
      else if \<not> enabled then Some ram
      else do {
        r \<leftarrow> ram;
        if unat address + length dat > length (st_data r) then Some ram
        else do {
          m \<leftarrow> memcpy (st_data r) (unat address) (map (\<lambda>b. b AND msk) dat) 0 (length dat);
          Some (Some (st_save (unat address) (length dat) (r\<lparr>st_data := m\<rparr>))) } })"

definition set_ram_enable :: "u8 \<Rightarrow> gb_cart \<Rightarrow> gb_cart" where
  "set_ram_enable value g = g\<lparr>ram_enable := (value AND 0x0f = 0x0a)\<rparr>"

definition put_ram :: "u16 \<Rightarrow> u8 list \<Rightarrow> u8 \<Rightarrow> bool \<Rightarrow> gb_cart \<Rightarrow> gb_cart option" where
  "put_ram address dat msk enabled g = do {
     r \<leftarrow> write_ram (gb_ram g) enabled address dat msk;
     Some (g\<lparr>gb_ram := r\<rparr>) }"

text \<open>The address arithmetic of the bank windows, truncated to the 16 bits of the callee's parameter.\<close>

definition rom_window :: "gb_cart \<Rightarrow> u16 \<Rightarrow> u16" where
  "rom_window g address = ucast ((ucast address - 0x4000) + rom_bank g * 0x4000 :: u32)"

definition ram_window :: "u32 \<Rightarrow> u16 \<Rightarrow> u16" where
  "ram_window bank address = ucast ((ucast address - 0xa000) + bank * 0x2000 :: u32)"

text \<open>The part every banked mapper shares: bank 0 below \<^verbatim>\<open>0x4000\<close>, the selected bank below \<^verbatim>\<open>0x8000\<close>.\<close>

definition read_banked ::
  "gb_cart \<Rightarrow> u16 \<Rightarrow> u8 list \<Rightarrow> (u8 list \<times> gb_cart) option \<Rightarrow> (u8 list \<times> gb_cart) option" where
  "read_banked g address dat ram_part =
     (let sel = unat (drop_bit 13 address) in
      if sel < 2 then do { d \<leftarrow> read_rom (gb_rom g) address dat; Some (d, g) }
      else if sel < 4 then do { d \<leftarrow> read_rom (gb_rom g) (rom_window g address) dat; Some (d, g) }
      else if sel = 5 then ram_part
      else Some (dat, g))"

section \<open>Mappers\<close>

definition read_gb_cart_nombc :: "gb_cart \<Rightarrow> u16 \<Rightarrow> u8 list \<Rightarrow> (u8 list \<times> gb_cart) option" where
  "read_gb_cart_nombc g address dat =
     (let sel = unat (drop_bit 13 address) in
      if sel < 4 then do { d \<leftarrow> read_rom (gb_rom g) address dat; Some (d, g) }
      else if sel = 5 then do { d \<leftarrow> read_ram (gb_ram g) True (address - 0xa000) dat 0xff; Some (d, g) }
      else Some (dat, g))"

definition write_gb_cart_nombc :: "gb_cart \<Rightarrow> u16 \<Rightarrow> u8 list \<Rightarrow> gb_cart option" where
  "write_gb_cart_nombc g address dat =
     (if unat (drop_bit 13 address) = 5 then put_ram (address - 0xa000) dat 0xff True g else Some g)"

definition read_gb_cart_mbc1 :: "gb_cart \<Rightarrow> u16 \<Rightarrow> u8 list \<Rightarrow> (u8 list \<times> gb_cart) option" where
  "read_gb_cart_mbc1 g address dat = read_banked g address dat (do {
     d \<leftarrow> read_ram (gb_ram g) (ram_enable g) (ram_window (ram_bank g) address) dat 0xff; Some (d, g) })"

definition write_gb_cart_mbc1 :: "gb_cart \<Rightarrow> u16 \<Rightarrow> u8 list \<Rightarrow> gb_cart option" where
  "write_gb_cart_mbc1 g address dat = do {
     value \<leftarrow> rd dat (length dat - 1);
     let sel = unat (drop_bit 13 address);
     if sel = 0 then Some (set_ram_enable value g)
     else if sel = 1 then
       let bank = ucast (value AND 0x1f)
       in Some (g\<lparr>rom_bank := (rom_bank g AND NOT 0x1f) OR (if bank = 0 then 1 else bank)\<rparr>)
     else if sel = 2 then
       let bank = ucast (value AND 0x3)
       in Some (if mbc1_mode g = 0 then g\<lparr>rom_bank := (rom_bank g AND 0x1f) OR push_bit 5 bank\<rparr>
                else g\<lparr>ram_bank := bank\<rparr>)
     else if sel = 3 then
       let g = g\<lparr>mbc1_mode := ucast (value AND 0x1)\<rparr>
       in Some (if mbc1_mode g = 0 then g\<lparr>ram_bank := 0\<rparr> else g\<lparr>rom_bank := rom_bank g AND 0x1f\<rparr>)
     else if sel = 5 then put_ram (ram_window (ram_bank g) address) dat 0xff (ram_enable g) g
     else Some g }"

definition read_gb_cart_mbc2 :: "gb_cart \<Rightarrow> u16 \<Rightarrow> u8 list \<Rightarrow> (u8 list \<times> gb_cart) option" where
  "read_gb_cart_mbc2 g address dat = read_banked g address dat (do {
     d \<leftarrow> read_ram (gb_ram g) (ram_enable g) (address - 0xa000) dat 0x0f; Some (d, g) })"

definition write_gb_cart_mbc2 :: "gb_cart \<Rightarrow> u16 \<Rightarrow> u8 list \<Rightarrow> gb_cart option" where
  "write_gb_cart_mbc2 g address dat = do {
     value \<leftarrow> rd dat (length dat - 1);
     let sel = unat (drop_bit 13 address);
     if sel = 0 then Some (if address AND 0x0100 = 0 then set_ram_enable value g else g)
     else if sel = 1 then
       let bank = ucast (value AND 0x0f)
       in Some (if address AND 0x0100 \<noteq> 0 then g\<lparr>rom_bank := (if bank = 0 then 1 else bank)\<rparr> else g)
     else if sel = 5 then put_ram (address - 0xa000) dat 0x0f (ram_enable g) g
     else Some g }"

definition read_gb_cart_mbc3 :: "gb_env \<Rightarrow> gb_cart \<Rightarrow> u16 \<Rightarrow> u8 list \<Rightarrow> (u8 list \<times> gb_cart) option" where
  "read_gb_cart_mbc3 env g address dat = read_banked g address dat
     (if ram_bank g \<le> 0x07 then do {
        d \<leftarrow> read_ram (gb_ram g) (ram_enable g) (ram_window (ram_bank g) address) dat 0xff; Some (d, g) }
      else if ram_bank g \<le> 0x0c then
        if \<not> ram_enable g \<or> extra_devices g AND GED_RTC = 0 then Some (replicate (length dat) 0xff, g)
        else do {
          (v, rtc) \<leftarrow> read_mbc3_rtc_regs (gb_clk env) (gb_rtc g) (unat (ram_bank g - 0x08));
          Some (replicate (length dat) v, g\<lparr>gb_rtc := rtc\<rparr>) }
      else Some (dat, g))"

definition write_gb_cart_mbc3 :: "gb_env \<Rightarrow> gb_cart \<Rightarrow> u16 \<Rightarrow> u8 list \<Rightarrow> gb_cart option" where
  "write_gb_cart_mbc3 env g address dat = do {
     value \<leftarrow> rd dat (length dat - 1);
     let sel = unat (drop_bit 13 address);
     if sel = 0 then Some (set_ram_enable value g)
     else if sel = 1 then
       let bank = ucast (value AND 0x7f) in Some (g\<lparr>rom_bank := (if bank = 0 then 1 else bank)\<rparr>)
     else if sel = 2 then Some (g\<lparr>ram_bank := ucast value\<rparr>)
     else if sel = 3 then
       Some (if extra_devices g AND GED_RTC = 0 then g
             else g\<lparr>gb_rtc := latch_mbc3_rtc_regs (gb_clk env) (gb_rtc g) value\<rparr>)
     else if sel = 5 then
       if ram_bank g \<le> 0x07 then put_ram (ram_window (ram_bank g) address) dat 0xff (ram_enable g) g
       else if ram_bank g \<le> 0x0c then
         if \<not> ram_enable g \<or> extra_devices g AND GED_RTC = 0 then Some g
         else do {
           rtc \<leftarrow> write_mbc3_rtc_regs (gb_rtc g) (unat (ram_bank g - 0x08)) value;
           Some (g\<lparr>gb_rtc := rtc\<rparr>) }
       else Some g
     else Some g }"

definition read_gb_cart_mbc5 :: "gb_cart \<Rightarrow> u16 \<Rightarrow> u8 list \<Rightarrow> (u8 list \<times> gb_cart) option" where
  "read_gb_cart_mbc5 g address dat = read_banked g address dat (do {
     d \<leftarrow> read_ram (gb_ram g) (ram_enable g) (ram_window (ram_bank g AND 0x7) address) dat 0xff; Some (d, g) })"

definition write_gb_cart_mbc5 :: "gb_cart \<Rightarrow> u16 \<Rightarrow> u8 list \<Rightarrow> gb_cart option" where
  "write_gb_cart_mbc5 g address dat = do {
     value \<leftarrow> rd dat (length dat - 1);
     let sel = unat (drop_bit 13 address);
     if sel = 0 then Some (set_ram_enable value g)
     else if sel = 1 then
       Some (if address < 0x3000 then g\<lparr>rom_bank := (rom_bank g AND 0xff00) OR ucast value\<rparr>
             else g\<lparr>rom_bank := (rom_bank g AND 0x00ff) OR push_bit 8 (ucast (value AND 0x01))\<rparr>)
     else if sel = 2 then
       let g = g\<lparr>ram_bank := ucast (value AND 0x0f)\<rparr>
       in Some (if extra_devices g AND GED_RUMBLE \<noteq> 0
                then g\<lparr>gb_rumble := (if ram_bank g AND 0x8 = 0 then RUMBLE_STOP else RUMBLE_START) # gb_rumble g\<rparr>
                else g)
     else if sel = 5 then put_ram (ram_window (ram_bank g AND 0x07) address) dat 0xff (ram_enable g) g
     else Some g }"

section \<open>The camera\<close>

definition apply_dithering_matrix :: "u8 list \<Rightarrow> u8 \<Rightarrow> nat \<Rightarrow> nat \<Rightarrow> u8 option" where
  "apply_dithering_matrix d value x y = do {
     let i = ((y mod 4) * 4 + (x mod 4)) * 3;
     d0 \<leftarrow> rd d i;
     d1 \<leftarrow> rd d (i + 1);
     d2 \<leftarrow> rd d (i + 2);
     Some (if value < d0 then 0x00 else if value < d1 then 0x40 else if value < d2 then 0x80 else 0xc0) }"

definition cam_sensor_regs :: "u8 list \<Rightarrow> m64282fp_regs" where
  "cam_sensor_regs r =
     (let pm = [(0x00, 0x01), (0x01, 0x00), (0x01, 0x02), (0x01, 0x02)] ! unat (drop_bit 1 (r ! 0) AND 0x3)
      in \<lparr>fp_N_VH_G = r ! 1, fp_C_LO = r ! 3, fp_C_HI = r ! 2, fp_P = fst pm, fp_M = snd pm, fp_E_I_V = r ! 4\<rparr>)"

definition gray :: "u8 \<times> u8 \<times> u8 \<Rightarrow> int" where
  "gray p = (case p of (b, g, r) \<Rightarrow> (uint b + 5 * uint g + 2 * uint r) div 8)"

definition encode_tiles :: "u8 list \<Rightarrow> image \<Rightarrow> u8 list option" where
  "encode_tiles r img =
     for_range 0 M64282FP_SENSOR_H (\<lambda>y tiles.
       for_range 0 M64282FP_SENSOR_W (\<lambda>x tiles. do {
         v \<leftarrow> apply_dithering_matrix (drop 6 r) (word_of_int (img y x)) x y;
         let c = 0xc0 - v;
         let base = (y div 8) * 256 + (x div 8) * 16 + 2 * (y mod 8);
         let b = push_bit (7 - x mod 8) 1;
         t0 \<leftarrow> rd tiles base;
         t1 \<leftarrow> rd tiles (base + 1);
         tiles \<leftarrow> wr tiles base (if c AND 0x40 \<noteq> 0 then t0 OR b else t0);
         wr tiles (base + 1) (if c AND 0x80 \<noteq> 0 then t1 OR b else t1) }) tiles)
       (replicate 4096 0)"

definition grab_pocket_cam_image :: "gb_env \<Rightarrow> gb_cart \<Rightarrow> gb_cart option" where
  "grab_pocket_cam_image env g = do {
     r \<leftarrow> gb_ram g;
     tiles \<leftarrow> (case gb_picture env of
                None \<Rightarrow> Some (replicate 4096 0xff)
              | Some p \<Rightarrow> encode_tiles (cam_regs g)
                  (process_m64282fp_image (cam_sensor_regs (cam_regs g)) (\<lambda>y x. gray (p y x))));
     m \<leftarrow> memcpy (st_data r) 0 tiles 0 4096;
     Some (g\<lparr>gb_ram := Some (r\<lparr>st_data := m\<rparr>)\<rparr>) }"

definition read_pocket_cam_regs :: "u8 list \<Rightarrow> nat \<Rightarrow> u8 option" where
  "read_pocket_cam_regs r reg = (if reg = 0 then rd r 0 else Some 0x00)"

definition write_pocket_cam_regs :: "gb_env \<Rightarrow> nat \<Rightarrow> u8 \<Rightarrow> gb_cart \<Rightarrow> gb_cart option" where
  "write_pocket_cam_regs env reg value g =
     (if POCKET_CAM_REGS_COUNT \<le> reg then Some g
      else do {
        r \<leftarrow> wr (cam_regs g) reg value;
        if reg = 0 then do {
          let v = value AND 0x7;
          r \<leftarrow> wr r 0 v;
          if v AND 0x1 \<noteq> 0 then do {
            g \<leftarrow> grab_pocket_cam_image env (g\<lparr>cam_regs := r\<rparr>);
            r \<leftarrow> wr (cam_regs g) 0 (v AND NOT 0x01);
            Some (g\<lparr>cam_regs := r\<rparr>) }
          else Some (g\<lparr>cam_regs := r\<rparr>) }
        else Some (g\<lparr>cam_regs := r\<rparr>) })"

definition read_gb_cart_pocket_cam :: "gb_cart \<Rightarrow> u16 \<Rightarrow> u8 list \<Rightarrow> (u8 list \<times> gb_cart) option" where
  "read_gb_cart_pocket_cam g address dat = read_banked g address dat
     (if ram_bank g AND 0x10 \<noteq> 0 then do {
        d \<leftarrow> for_range 0 (length dat) (\<lambda>i d. do {
               v \<leftarrow> read_pocket_cam_regs (cam_regs g) ((unat address + i) mod 0x80);
               wr d i v }) dat;
        Some (d, g) }
      else do { d \<leftarrow> read_ram (gb_ram g) True (ram_window (ram_bank g) address) dat 0xff; Some (d, g) })"

definition write_gb_cart_pocket_cam :: "gb_env \<Rightarrow> gb_cart \<Rightarrow> u16 \<Rightarrow> u8 list \<Rightarrow> gb_cart option" where
  "write_gb_cart_pocket_cam env g address dat = do {
     value \<leftarrow> rd dat (length dat - 1);
     let sel = unat (drop_bit 13 address);
     if sel = 0 then Some (set_ram_enable value g)
     else if sel = 1 then Some (g\<lparr>rom_bank := ucast (value AND 0x3f)\<rparr>)
     else if sel = 2 then
       Some (g\<lparr>ram_bank := (if value AND 0x10 \<noteq> 0 then ucast value else ucast (value AND 0x0f))\<rparr>)
     else if sel = 5 then
       if ram_bank g AND 0x10 \<noteq> 0
       then for_range 0 (length dat) (\<lambda>i g. do {
              v \<leftarrow> rd dat i;
              write_pocket_cam_regs env ((unat address + i) mod 0x80) v g }) g
       else put_ram (ram_window (ram_bank g) address) dat 0xff (ram_enable g) g
     else Some g }"

section \<open>Cartridge types\<close>

definition parse_cart_type :: "u8 \<Rightarrow> (mapper \<times> u32) option" where
  "parse_cart_type ty = map_of
     [(0x00, nombc, GED_NONE), (0x01, mbc1, GED_NONE), (0x02, mbc1, GED_RAM),
      (0x03, mbc1, GED_RAM OR GED_BATTERY), (0x05, mbc2, GED_NONE), (0x06, mbc2, GED_RAM OR GED_BATTERY),
      (0x08, nombc, GED_RAM), (0x09, nombc, GED_RAM OR GED_BATTERY),
      (0x0b, mmm01, GED_NONE), (0x0c, mmm01, GED_RAM), (0x0d, mmm01, GED_RAM OR GED_BATTERY),
      (0x0f, mbc3, GED_BATTERY OR GED_RTC), (0x10, mbc3, GED_RAM OR GED_BATTERY OR GED_RTC),
      (0x11, mbc3, GED_NONE), (0x12, mbc3, GED_RAM), (0x13, mbc3, GED_RAM OR GED_BATTERY),
      (0x19, mbc5, GED_NONE), (0x1a, mbc5, GED_RAM), (0x1b, mbc5, GED_RAM OR GED_BATTERY),
      (0x1c, mbc5, GED_RUMBLE), (0x1d, mbc5, GED_RAM OR GED_RUMBLE),
      (0x1e, mbc5, GED_RAM OR GED_BATTERY OR GED_RUMBLE),
      (0x20, mbc6, GED_RAM OR GED_BATTERY), (0x22, mbc7, GED_RAM OR GED_BATTERY OR GED_ACCELEROMETER),
      (0xfc, pocket_cam, GED_RAM OR GED_CAMERA), (0xfd, bandai_tama5, GED_NONE),
      (0xfe, huc3, GED_NONE), (0xff, huc1, GED_RAM OR GED_BATTERY)] ty"

definition gb_ram_size :: "mapper \<Rightarrow> u8 \<Rightarrow> nat" where
  "gb_ram_size m code =
     (if code = 0x00 then if m = mbc2 then 0x200 else 0
      else if code = 0x01 then 1 * 0x800
      else if code = 0x02 then 4 * 0x800
      else if code = 0x03 then 16 * 0x800
      else if code = 0x04 then 64 * 0x800
      else if code = 0x05 then 32 * 0x800
      else 0)"

definition zero_rtc :: mbc3_rtc where
  "zero_rtc = \<lparr>rtc_regs = (\<lambda>_. 0), rtc_latch = 0, latched_regs = (\<lambda>_. 0), last_time = 0\<rparr>"

text \<open>The cleared structure after an error or without a cartridge.\<close>

definition no_gb_cart :: gb_cart where
  "no_gb_cart = \<lparr>gb_rom = None, gb_ram = None, rom_bank = 0, ram_bank = 0, ram_enable = False,
     mbc1_mode = 0, extra_devices = 0, gb_rtc = zero_rtc, cam_regs = replicate POCKET_CAM_REGS_COUNT 0,
     gb_rumble = [], gb_mapper = None\<rparr>"

text \<open>
  \<open>rm\<close> is what \<^verbatim>\<open>init_rom\<close> delivers and \<open>init_ram\<close> the function that opens a RAM file of a given size.
  A camera without RAM dereferences the missing interface.
\<close>

definition init_gb_cart :: "storage option \<Rightarrow> (nat \<Rightarrow> storage option) \<Rightarrow> gb_cart \<Rightarrow> gb_cart option" where
  "init_gb_cart rm init_ram g =
     (case rm of
        None \<Rightarrow> Some no_gb_cart
      | Some r \<Rightarrow>
          if length (st_data r) < 0x8000 then Some no_gb_cart
          else (case parse_cart_type (st_data r ! 0x147) of
             None \<Rightarrow> Some no_gb_cart
           | Some (m, devices) \<Rightarrow>
               (let ram_size = (if devices AND GED_RAM \<noteq> 0 then gb_ram_size m (st_data r ! 0x149) else 0);
                    ram = (if ram_size \<noteq> 0 then init_ram ram_size else None)
                in if ram_size \<noteq> 0 \<and> (case ram of None \<Rightarrow> True | Some st \<Rightarrow> length (st_data st) \<noteq> ram_size)
                   then Some no_gb_cart
                   else if devices AND GED_CAMERA \<noteq> 0 \<and> ram = None then None
                   else Some (g\<lparr>gb_rom := Some r, gb_ram := ram, extra_devices := devices, gb_rtc := zero_rtc,
                          cam_regs := replicate POCKET_CAM_REGS_COUNT 0, gb_mapper := Some m\<rparr>))))"

definition poweron_gb_cart :: "gb_cart \<Rightarrow> gb_cart" where
  "poweron_gb_cart g =
     (let g = g\<lparr>rom_bank := 1, ram_bank := 0, ram_enable := False, mbc1_mode := 0\<rparr>;
          g = (if extra_devices g AND GED_RTC \<noteq> 0 then g\<lparr>gb_rtc := poweron_mbc3_rtc (gb_rtc g)\<rparr> else g);
          g = (if extra_devices g AND GED_CAMERA \<noteq> 0
               then g\<lparr>cam_regs := replicate POCKET_CAM_REGS_COUNT 0\<rparr> else g)
      in if extra_devices g AND GED_RUMBLE \<noteq> 0 then g\<lparr>gb_rumble := RUMBLE_STOP # gb_rumble g\<rparr> else g)"

definition read_gb_cart :: "gb_env \<Rightarrow> gb_cart \<Rightarrow> u16 \<Rightarrow> u8 list \<Rightarrow> (u8 list \<times> gb_cart) option" where
  "read_gb_cart env g address dat = do {
     m \<leftarrow> gb_mapper g;
     case m of
       nombc \<Rightarrow> read_gb_cart_nombc g address dat
     | mbc1 \<Rightarrow> read_gb_cart_mbc1 g address dat
     | mbc2 \<Rightarrow> read_gb_cart_mbc2 g address dat
     | mbc3 \<Rightarrow> read_gb_cart_mbc3 env g address dat
     | mbc5 \<Rightarrow> read_gb_cart_mbc5 g address dat
     | pocket_cam \<Rightarrow> read_gb_cart_pocket_cam g address dat
     | _ \<Rightarrow> Some (dat, g) }"

definition write_gb_cart :: "gb_env \<Rightarrow> gb_cart \<Rightarrow> u16 \<Rightarrow> u8 list \<Rightarrow> gb_cart option" where
  "write_gb_cart env g address dat = do {
     m \<leftarrow> gb_mapper g;
     case m of
       nombc \<Rightarrow> write_gb_cart_nombc g address dat
     | mbc1 \<Rightarrow> write_gb_cart_mbc1 g address dat
     | mbc2 \<Rightarrow> write_gb_cart_mbc2 g address dat
     | mbc3 \<Rightarrow> write_gb_cart_mbc3 env g address dat
     | mbc5 \<Rightarrow> write_gb_cart_mbc5 g address dat
     | pocket_cam \<Rightarrow> write_gb_cart_pocket_cam env g address dat
     | _ \<Rightarrow> Some g }"

end
