(* ===== verification/Paks.thy ===== *)
theory Paks
  imports Gb
begin

text \<open>
  Game controllers and their accessories: \<^verbatim>\<open>device/controllers/game_controller.c\<close> and
  \<^verbatim>\<open>device/controllers/paks\<close>. The four kinds of pak are one datatype; the C code selects their
  functions through \<^verbatim>\<open>pak_interface\<close>. Blocks are lists as in the theory of the Game Boy cartridges.
\<close>

section \<open>Memory pak\<close>

abbreviation MEMPAK_SIZE :: nat where "MEMPAK_SIZE \<equiv> 0x8000"

definition be16 :: "u16 \<Rightarrow> u8 list" where
  "be16 v = [ucast (drop_bit 8 v), ucast v]"

definition be32 :: "u32 \<Rightarrow> u8 list" where
  "be32 v = [byte_of v 3, byte_of v 2, byte_of v 1, byte_of v 0]"

fun sum_be16 :: "u8 list \<Rightarrow> u16" where
  "sum_be16 (h # l # bs) = (push_bit 8 (ucast h) OR ucast l) + sum_be16 bs"
| "sum_be16 _ = 0"

text \<open>The sum of the 14 big-endian half words in front of it, and its complement to \<^verbatim>\<open>0xfff2\<close>.\<close>

definition checksum_id_block :: "u8 list \<Rightarrow> u16 \<times> u16" where
  "checksum_id_block b = (let accu = sum_be16 (take 28 b) in (accu, 0xfff2 - accu))"

definition checksum_index_table :: "u8 list \<Rightarrow> u8" where
  "checksum_index_table b = ucast (fold (\<lambda>x s. s + ucast x) b (0 :: u32))"

definition serialize_id_block :: "u32 list \<Rightarrow> u16 \<Rightarrow> u8 \<Rightarrow> u8 \<Rightarrow> u8 list" where
  "serialize_id_block serial device_id banks version =
     (let b = concat (map be32 (take 6 serial)) @ be16 device_id @ [banks, version];
          (sm, isum) = checksum_id_block b
      in b @ be16 sm @ be16 isum)"

text \<open>The page with the index table: 5 reserved inodes, 123 free ones, the checksum in byte 1.\<close>

definition index_page :: "u8 list" where
  "index_page =
     (let nodes = concat (replicate 123 (be16 0x0003))
      in [0, checksum_index_table nodes] @ replicate 8 0 @ nodes)"

definition format_mempak :: "u8 list \<Rightarrow> u32 list \<Rightarrow> u16 \<Rightarrow> u8 \<Rightarrow> u8 \<Rightarrow> u8 list option" where
  "format_mempak m serial device_id banks version =
     (if length m < MEMPAK_SIZE \<or> length serial < 6 then None
      else
        let idb = serialize_id_block serial device_id banks version;
            z = replicate 32 0;
            page_0 = z @ idb @ z @ idb @ idb @ z @ idb @ z
        in Some (page_0 @ index_page @ index_page @ replicate (MEMPAK_SIZE - 3 * 256) 0 @ drop MEMPAK_SIZE m))"

definition read_mempak :: "storage \<Rightarrow> u16 \<Rightarrow> u8 list \<Rightarrow> u8 list option" where
  "read_mempak st address dat =
     (if address < 0x8000 then memcpy dat 0 (st_data st) (unat address) (length dat)
      else Some (replicate (length dat) 0x00))"

definition write_mempak :: "storage \<Rightarrow> u16 \<Rightarrow> u8 list \<Rightarrow> storage option" where
  "write_mempak st address dat =
     (if address < 0x8000 then do {
        m \<leftarrow> memcpy (st_data st) (unat address) dat 0 (length dat);
        Some (st_save (unat address) (length dat) (st\<lparr>st_data := m\<rparr>)) }
      else Some st)"

section \<open>Rumble pak and bio pak\<close>

record rumblepak =
  rpk_state :: u8
  rpk_log :: "rumble_action list"

definition set_rumble_reg :: "u8 \<Rightarrow> rumblepak \<Rightarrow> rumblepak" where
  "set_rumble_reg value r =
     r\<lparr>rpk_state := value, rpk_log := (if value = 0 then RUMBLE_STOP else RUMBLE_START) # rpk_log r\<rparr>"

definition poweron_rumblepak :: "rumblepak \<Rightarrow> rumblepak" where
  "poweron_rumblepak r = set_rumble_reg 0x00 r"

definition read_rumblepak :: "u16 \<Rightarrow> u8 list \<Rightarrow> u8 list" where
  "read_rumblepak address dat =
     replicate (length dat) (if 0x8000 \<le> address \<and> address < 0x9000 then 0x80 else 0x00)"

definition write_rumblepak :: "rumblepak \<Rightarrow> u16 \<Rightarrow> u8 list \<Rightarrow> rumblepak option" where
  "write_rumblepak r address dat =
     (if address = 0xc000 then do { v \<leftarrow> rd dat (length dat - 1); Some (set_rumble_reg v r) } else Some r)"

text \<open>\<open>t\<close> is \<^verbatim>\<open>time(NULL)\<close>.\<close>

definition read_biopak :: "nat \<Rightarrow> u32 \<Rightarrow> u16 \<Rightarrow> u8 list \<Rightarrow> u8 list option" where
  "read_biopak t bpm address dat =
     (if address = 0xc000 then
        if bpm = 0 \<or> 60000 div bpm = 0 then None
        else
          let period = 60000 div bpm;
              k = word_of_nat ((t * 1000) mod unat period)
          in Some (replicate (length dat) (if 2 * k < period then 0x00 else 0x03))
      else Some dat)"

section \<open>Transfer pak\<close>

abbreviation CART_NOT_INSERTED :: u8 where "CART_NOT_INSERTED \<equiv> 0x40"
abbreviation CART_ACCESS_MODE_0 :: u8 where "CART_ACCESS_MODE_0 \<equiv> 0x80"
abbreviation CART_ACCESS_MODE_1 :: u8 where "CART_ACCESS_MODE_1 \<equiv> 0x89"

record transferpak =
  tpk_enabled :: bool
  tpk_bank :: u32
  access_mode :: u8
  access_mode_changed :: u8
  tpk_cart :: "gb_cart option"

definition gb_cart_address :: "u32 \<Rightarrow> u16 \<Rightarrow> u16" where
  "gb_cart_address bank address = (address AND 0x3fff) OR ucast ((bank AND 0x3) * 0x4000)"

definition poweron_transferpak :: "transferpak \<Rightarrow> transferpak" where
  "poweron_transferpak t = t\<lparr>tpk_enabled := False, tpk_bank := 0,
     access_mode := (if tpk_cart t = None then CART_NOT_INSERTED else CART_ACCESS_MODE_0),
     access_mode_changed := 0x44, tpk_cart := map_option poweron_gb_cart (tpk_cart t)\<rparr>"

definition change_gb_cart :: "gb_cart option \<Rightarrow> transferpak \<Rightarrow> transferpak" where
  "change_gb_cart g t = t\<lparr>tpk_enabled := False,
     access_mode := (if g = None then CART_NOT_INSERTED else CART_ACCESS_MODE_0),
     tpk_cart := map_option poweron_gb_cart g\<rparr>"

definition read_transferpak :: "gb_env \<Rightarrow> transferpak \<Rightarrow> u16 \<Rightarrow> u8 list \<Rightarrow> (u8 list \<times> transferpak) option" where
  "read_transferpak env t address dat =
     (let sel = drop_bit 12 address in
      if sel = 0x8 then Some (replicate (length dat) (if tpk_enabled t then 0x84 else 0x00), t)
      else if sel = 0xb then
        if tpk_enabled t then do {
          let d = replicate (length dat) (access_mode t);
          d \<leftarrow> (if access_mode t \<noteq> CART_NOT_INSERTED then do {
                 v \<leftarrow> rd d 0; wr d 0 (v OR access_mode_changed t) } else Some d);
          Some (d, t\<lparr>access_mode_changed := 0\<rparr>) }
        else Some (dat, t)
      else if 0xc \<le> sel then
        if tpk_enabled t then
          (case tpk_cart t of
             None \<Rightarrow> Some (dat, t)
           | Some g \<Rightarrow> do {
               (d, g) \<leftarrow> read_gb_cart env g (gb_cart_address (tpk_bank t) address) dat;
               Some (d, t\<lparr>tpk_cart := Some g\<rparr>) })
        else Some (dat, t)
      else Some (dat, t))"

definition write_transferpak :: "gb_env \<Rightarrow> transferpak \<Rightarrow> u16 \<Rightarrow> u8 list \<Rightarrow> transferpak option" where
  "write_transferpak env t address dat = do {
     value \<leftarrow> rd dat (length dat - 1);
     let sel = drop_bit 12 address;
     if sel = 0x8 then
       Some (if value = 0xfe then t\<lparr>tpk_enabled := False\<rparr>
             else if value = 0x84 then t\<lparr>tpk_enabled := True\<rparr> else t)
     else if sel = 0xa then Some (if tpk_enabled t then t\<lparr>tpk_bank := ucast value\<rparr> else t)
     else if sel = 0xb then
       Some (if tpk_enabled t
             then t\<lparr>access_mode_changed := 0x04,
                    access_mode := (if value AND 1 = 0 then CART_ACCESS_MODE_0 else CART_ACCESS_MODE_1)\<rparr>
             else t)
     else if 0xc \<le> sel then
       (case tpk_cart t of
          None \<Rightarrow> Some t
        | Some g \<Rightarrow> do {
            g \<leftarrow> write_gb_cart env g (gb_cart_address (tpk_bank t) address) dat;
            Some (t\<lparr>tpk_cart := Some g\<rparr>) })
     else Some t }"

section \<open>Paks\<close>

datatype pak = Mempak storage | Rumblepak rumblepak | Biopak u32 | Transferpak transferpak

record pak_env =
  pak_gb :: gb_env
  pak_time :: nat

definition pak_plug :: "pak \<Rightarrow> pak" where
  "pak_plug p =
     (case p of
        Rumblepak r \<Rightarrow> Rumblepak (poweron_rumblepak r)
      | Transferpak t \<Rightarrow> Transferpak (poweron_transferpak t)
      | _ \<Rightarrow> p)"

definition pak_unplug :: "pak \<Rightarrow> pak" where
  "pak_unplug p = (case p of Rumblepak r \<Rightarrow> Rumblepak (set_rumble_reg 0x00 r) | _ \<Rightarrow> p)"

definition pak_read :: "pak_env \<Rightarrow> pak \<Rightarrow> u16 \<Rightarrow> u8 list \<Rightarrow> (u8 list \<times> pak) option" where
  "pak_read env p address dat =
     (case p of
        Mempak st \<Rightarrow> do { d \<leftarrow> read_mempak st address dat; Some (d, p) }
      | Rumblepak r \<Rightarrow> Some (read_rumblepak address dat, p)
      | Biopak bpm \<Rightarrow> do { d \<leftarrow> read_biopak (pak_time env) bpm address dat; Some (d, p) }
      | Transferpak t \<Rightarrow> do { (d, t) \<leftarrow> read_transferpak (pak_gb env) t address dat; Some (d, Transferpak t) })"

definition pak_write :: "pak_env \<Rightarrow> pak \<Rightarrow> u16 \<Rightarrow> u8 list \<Rightarrow> pak option" where
  "pak_write env p address dat =
     (case p of
        Mempak st \<Rightarrow> do { st \<leftarrow> write_mempak st address dat; Some (Mempak st) }
      | Rumblepak r \<Rightarrow> do { r \<leftarrow> write_rumblepak r address dat; Some (Rumblepak r) }
      | Biopak bpm \<Rightarrow> Some p
      | Transferpak t \<Rightarrow> do { t \<leftarrow> write_transferpak (pak_gb env) t address dat; Some (Transferpak t) })"

section \<open>Controllers\<close>

abbreviation PAK_CHUNK_SIZE :: nat where "PAK_CHUNK_SIZE \<equiv> 0x20"
abbreviation CONT_STATUS_PAK_PRESENT :: u8 where "CONT_STATUS_PAK_PRESENT \<equiv> 0x01"
abbreviation CONT_STATUS_PAK_CHANGED :: u8 where "CONT_STATUS_PAK_CHANGED \<equiv> 0x02"

datatype flavor = standard_controller | mouse_controller

record game_controller =
  cont_status :: u8
  cont_flavor :: flavor
  cont_pak :: "pak option"

definition flavor_type :: "flavor \<Rightarrow> u16" where
  "flavor_type f = (case f of standard_controller \<Rightarrow> 0x0001 OR 0x0004 | mouse_controller \<Rightarrow> 0x0002)"

definition flavor_reset :: "game_controller \<Rightarrow> game_controller" where
  "flavor_reset c =
     (case cont_flavor c of
        standard_controller \<Rightarrow>
          c\<lparr>cont_status := (if cont_pak c \<noteq> None then CONT_STATUS_PAK_PRESENT else CONT_STATUS_PAK_CHANGED)\<rparr>
      | mouse_controller \<Rightarrow> c\<lparr>cont_status := 0x00\<rparr>)"

text \<open>The controller with its new pak, and the old pak after it has been unplugged.\<close>

definition change_pak :: "pak option \<Rightarrow> game_controller \<Rightarrow> game_controller \<times> pak option" where
  "change_pak p c =
     (let st = cont_status c AND NOT (CONT_STATUS_PAK_PRESENT OR CONT_STATUS_PAK_CHANGED);
          st = (if cont_pak c \<noteq> None then st OR CONT_STATUS_PAK_CHANGED else st);
          st = (if p \<noteq> None then st OR CONT_STATUS_PAK_PRESENT else st)
      in (c\<lparr>cont_status := st, cont_pak := map_option pak_plug p\<rparr>, map_option pak_unplug (cont_pak c)))"

text \<open>One step of the checksum register: the input bit is shifted in, the tap is \<^verbatim>\<open>0x85\<close>.\<close>

definition crc_bit :: "u8 \<Rightarrow> bool \<Rightarrow> u8" where
  "crc_bit crc b =
     (let xor_tap = (if crc AND 0x80 \<noteq> 0 then 0x85 else 0x00);
          crc = push_bit 1 crc;
          crc = (if b then crc OR 1 else crc)
      in crc XOR xor_tap)"

definition crc_byte :: "u8 \<Rightarrow> u8 \<Rightarrow> u8" where
  "crc_byte v crc = fold (\<lambda>n crc. crc_bit crc (bit v n)) [7, 6, 5, 4, 3, 2, 1, 0] crc"

text \<open>The extra round of the loop (\<^verbatim>\<open>i == size\<close>) shifts in a zero byte.\<close>

definition pak_data_crc :: "u8 list \<Rightarrow> u8" where
  "pak_data_crc dat = crc_byte 0 (fold crc_byte dat 0)"

definition block_address :: "u8 \<Rightarrow> u8 \<Rightarrow> u16" where
  "block_address a0 a1 = push_bit 8 (ucast a0) OR ucast (a1 AND 0xe0)"

definition slice :: "'a list \<Rightarrow> nat \<Rightarrow> nat \<Rightarrow> 'a list option" where
  "slice xs i n = (if i + n \<le> length xs then Some (take n (drop i xs)) else None)"

definition pak_read_block ::
  "pak_env \<Rightarrow> game_controller \<Rightarrow> nat \<Rightarrow> nat \<Rightarrow> nat \<Rightarrow> u8 list \<Rightarrow> (game_controller \<times> u8 list) option" where
  "pak_read_block env c addr_off data_off dcrc_off buf = do {
     a0 \<leftarrow> rd buf addr_off;
     a1 \<leftarrow> rd buf (addr_off + 1);
     dat \<leftarrow> slice buf data_off PAK_CHUNK_SIZE;
     case cont_pak c of
       Some p \<Rightarrow> do {
         (d, p) \<leftarrow> pak_read env p (block_address a0 a1) dat;
         buf \<leftarrow> memcpy buf data_off d 0 PAK_CHUNK_SIZE;
         buf \<leftarrow> wr buf dcrc_off (pak_data_crc d);
         Some (c\<lparr>cont_pak := Some p\<rparr>, buf) }
     | None \<Rightarrow> do {
         buf \<leftarrow> wr buf dcrc_off (NOT (pak_data_crc dat));
         Some (c, buf) } }"

definition pak_write_block ::
  "pak_env \<Rightarrow> game_controller \<Rightarrow> nat \<Rightarrow> nat \<Rightarrow> nat \<Rightarrow> u8 list \<Rightarrow> (game_controller \<times> u8 list) option" where
  "pak_write_block env c addr_off data_off dcrc_off buf = do {
     a0 \<leftarrow> rd buf addr_off;
     a1 \<leftarrow> rd buf (addr_off + 1);
     dat \<leftarrow> slice buf data_off PAK_CHUNK_SIZE;
     case cont_pak c of
       Some p \<Rightarrow> do {
         p \<leftarrow> pak_write env p (block_address a0 a1) dat;
         buf \<leftarrow> wr buf dcrc_off (pak_data_crc dat);
         Some (c\<lparr>cont_pak := Some p\<rparr>, buf) }
     | None \<Rightarrow> do {
         buf \<leftarrow> wr buf dcrc_off (NOT (pak_data_crc dat));
         Some (c, buf) } }"

definition poweron_game_controller :: "game_controller \<Rightarrow> game_controller" where
  "poweron_game_controller c =
     (let c = flavor_reset c
      in if cont_flavor c = standard_controller then c\<lparr>cont_pak := map_option pak_plug (cont_pak c)\<rparr> else c)"

text \<open>\<open>inp\<close> is the answer of the input backend: the buttons, or nothing when polling fails.\<close>

definition process_controller_command ::
  "pak_env \<Rightarrow> u32 option \<Rightarrow> joybus_ptr \<Rightarrow> game_controller \<Rightarrow> u8 list \<Rightarrow> (game_controller \<times> u8 list) option" where
  "process_controller_command env inp p c buf = do {
     cmd \<leftarrow> rd buf (jp_tx_buf p);
     case inp of
       None \<Rightarrow> do { buf \<leftarrow> rx_or 0x80 p buf; Some (c, buf) }
     | Some input_ \<Rightarrow>
         if cmd = JCMD_RESET \<or> cmd = JCMD_STATUS then do {
           let c = (if cmd = JCMD_RESET then flavor_reset c else c);
           joybus_check 1 3 p c buf (do {
             buf \<leftarrow> wr buf (jp_rx_buf p) (ucast (flavor_type (cont_flavor c)));
             buf \<leftarrow> wr buf (jp_rx_buf p + 1) (ucast (drop_bit 8 (flavor_type (cont_flavor c))));
             buf \<leftarrow> wr buf (jp_rx_buf p + 2) (cont_status c);
             Some (c, buf) }) }
         else if cmd = JCMD_CONTROLLER_READ then
           joybus_check 1 4 p c buf (do { buf \<leftarrow> put_le32 buf (jp_rx_buf p) input_; Some (c, buf) })
         else if cmd = JCMD_PAK_READ then
           joybus_check 3 33 p c buf (pak_read_block env c (jp_tx_buf p + 1) (jp_rx_buf p) (jp_rx_buf p + 32) buf)
         else if cmd = JCMD_PAK_WRITE then
           joybus_check 35 1 p c buf (pak_write_block env c (jp_tx_buf p + 1) (jp_tx_buf p + 3) (jp_rx_buf p) buf)
         else Some (c, buf) }"

end
