(* ===== verification/Storage_Claims.thy ===== *)
theory Storage_Claims
  imports Cart_Props Paks Rsp
begin

text \<open>
  The memories that hold what was last written to them, behind one interface. The locale
  \<open>block_memory\<close> is the contract of a memory of blocks: a block that is stored is fetched, and storing it
  changes no other block. Its client lemma is about whole sequences of stores: the last store to an
  address wins. The memory pak (blocks of 32 bytes), the EEPROM (8 bytes), the cartridge SRAM and the
  memory of the signal processor (words) provide the contract.
\<close>

section \<open>The interface\<close>

primrec put_all :: "('m \<Rightarrow> 'a \<Rightarrow> 'b \<Rightarrow> 'm option) \<Rightarrow> 'm \<Rightarrow> ('a \<times> 'b) list \<Rightarrow> 'm option" where
  "put_all put m [] = Some m"
| "put_all put m (w # ws) = do { m \<leftarrow> put m (fst w) (snd w); put_all put m ws }"

locale block_memory =
  fixes valid :: "'m \<Rightarrow> 'a \<Rightarrow> bool" and fits :: "'b \<Rightarrow> bool"
    and put :: "'m \<Rightarrow> 'a \<Rightarrow> 'b \<Rightarrow> 'm option" and get :: "'m \<Rightarrow> 'a \<Rightarrow> 'b option"
  assumes put_get: "valid m a \<Longrightarrow> fits b \<Longrightarrow> \<exists>m'. put m a b = Some m' \<and> get m' a = Some b"
    and put_other: "put m a b = Some m' \<Longrightarrow> valid m a \<Longrightarrow> valid m c \<Longrightarrow> fits b \<Longrightarrow> a \<noteq> c \<Longrightarrow> get m' c = get m c"
    and put_valid: "put m a b = Some m' \<Longrightarrow> valid m' c = valid m c"
begin

lemma put_all_get:
  assumes "\<forall>w \<in> set ws. valid m (fst w) \<and> fits (snd w)"
  shows "\<exists>m'. put_all put m ws = Some m' \<and> (\<forall>a. valid m' a = valid m a)
    \<and> (\<forall>a. valid m a \<longrightarrow> get m' a = (case map_of (rev ws) a of None \<Rightarrow> get m a | Some b \<Rightarrow> Some b))"
  using assms
proof (induction ws arbitrary: m)
  case (Cons w ws)
  obtain a b where w: "w = (a, b)" by (cases w)
  obtain m1 where m1: "put m a b = Some m1" "get m1 a = Some b"
    using put_get [of m a b] Cons.prems w by auto
  note v = put_valid [OF m1(1)]
  obtain m2 where m2: "put_all put m1 ws = Some m2" "\<forall>c. valid m2 c = valid m1 c"
      "\<forall>c. valid m1 c \<longrightarrow> get m2 c = (case map_of (rev ws) c of None \<Rightarrow> get m1 c | Some b \<Rightarrow> Some b)"
    using Cons.IH [of m1] Cons.prems v by auto
  have "get m2 c = (case map_of (rev (w # ws)) c of None \<Rightarrow> get m c | Some b \<Rightarrow> Some b)" if c: "valid m c" for c
  proof (cases "c = a")
    case True
    then show ?thesis using m2(3) c v m1(2) w by (auto simp: map_add_def split: option.splits)
  next
    case False
    then have "get m1 c = get m c" using put_other [OF m1(1) _ c] Cons.prems w by auto
    then show ?thesis using m2(3) c v w False by (auto simp: map_add_def split: option.splits)
  qed
  then show ?case using m1(1) m2(1,2) v w by auto
qed simp

lemma put_twice:
  assumes "valid m a" "fits b" "fits c"
  shows "\<exists>m'. put_all put m [(a, b), (a, c)] = Some m' \<and> get m' a = Some c"
  using put_all_get [of "[(a, b), (a, c)]" m] assms by auto

end

section \<open>Memory pak\<close>

definition pak_block :: "storage \<Rightarrow> u16 \<Rightarrow> bool" where
  "pak_block st a \<longleftrightarrow> a < 0x8000 \<and> 32 dvd unat a \<and> 0x8000 \<le> length (st_data st)"

definition get_pak_block :: "storage \<Rightarrow> u16 \<Rightarrow> u8 list option" where
  "get_pak_block st a = read_mempak st a (replicate 32 0)"

lemma memcpy_whole: "memcpy (replicate n x) 0 src i n = Some r \<longleftrightarrow> i + n \<le> length src \<and> r = take n (drop i src)"
  by (auto simp: memcpy_def)

lemma get_pak_block_eq:
  "pak_block st a \<Longrightarrow> get_pak_block st a = Some (take 32 (drop (unat a) (st_data st)))"
  unfolding pak_block_def get_pak_block_def read_mempak_def
  by (auto simp: memcpy_def word_less_nat_alt elim!: dvdE)

lemma take_drop_splice_same:
  "i + length b \<le> length m \<Longrightarrow> take (length b) (drop i (take i m @ b @ drop (i + length b) m)) = b"
  by simp

lemma take_drop_splice_other:
  assumes "i + length b \<le> length m" "j + n \<le> length m" "j + n \<le> i \<or> i + length b \<le> j"
  shows "take n (drop j (take i m @ b @ drop (i + length b) m)) = take n (drop j m)"
  by (rule nth_equalityI) (use assms in \<open>auto simp: nth_append\<close>)

lemma blocks_apart:
  assumes "n dvd (i :: nat)" "n dvd j" "i \<noteq> j" "0 < n"
  shows "j + n \<le> i \<or> i + n \<le> j"
proof -
  obtain k l where kl: "i = n * k" "j = n * l" using assms by (auto elim!: dvdE)
  consider "k < l" | "l < k" using assms(3) kl by fastforce
  then show ?thesis
  proof cases
    case 1
    then have "n * Suc k \<le> n * l" by (simp del: mult_Suc_right)
    then show ?thesis using kl by simp
  next
    case 2
    then have "n * Suc l \<le> n * k" by (simp del: mult_Suc_right)
    then show ?thesis using kl by simp
  qed
qed

lemma write_mempak_eq:
  assumes "pak_block st a" "length b = 32"
  shows "write_mempak st a b = Some (st_save (unat a) 32
    (st\<lparr>st_data := take (unat a) (st_data st) @ b @ drop (unat a + 32) (st_data st)\<rparr>))"
    and "unat a + 32 \<le> length (st_data st)"
proof -
  obtain k where "unat a = 32 * k" using assms(1) by (auto simp: pak_block_def elim!: dvdE)
  moreover have "unat a < 0x8000" using assms(1) by (simp add: pak_block_def word_less_nat_alt)
  ultimately show fit: "unat a + 32 \<le> length (st_data st)" using assms(1) by (simp add: pak_block_def)
  show "write_mempak st a b = Some (st_save (unat a) 32
    (st\<lparr>st_data := take (unat a) (st_data st) @ b @ drop (unat a + 32) (st_data st)\<rparr>))"
    using assms fit by (simp add: write_mempak_def pak_block_def memcpy_def)
qed

lemma st_data_save [simp]: "st_data (st_save i n st) = st_data st"
  by (simp add: st_save_def)

lemma write_mempak_length: "write_mempak st a b = Some st' \<Longrightarrow> length (st_data st') = length (st_data st)"
  by (auto simp: write_mempak_def dest: memcpy_length split: if_splits bind_splits)

interpretation mp: block_memory pak_block "\<lambda>b. length b = 32" write_mempak get_pak_block
proof
  fix st st' :: storage and a c :: u16 and b :: "u8 list"
  show "\<exists>st'. write_mempak st a b = Some st' \<and> get_pak_block st' a = Some b"
    if h: "pak_block st a" "length b = 32"
  proof -
    note w = write_mempak_eq [OF h]
    have "pak_block (st_save (unat a) 32
        (st\<lparr>st_data := take (unat a) (st_data st) @ b @ drop (unat a + 32) (st_data st)\<rparr>)) a"
      using h w(2) by (simp add: pak_block_def)
    then show ?thesis using w h by (simp add: get_pak_block_eq)
  qed
  show valid: "pak_block st' c = pak_block st c" if "write_mempak st a b = Some st'"
    using write_mempak_length [OF that] by (simp add: pak_block_def)
  show "get_pak_block st' c = get_pak_block st c"
    if h: "write_mempak st a b = Some st'" "pak_block st a" "pak_block st c" "length b = 32" "a \<noteq> c"
  proof -
    note w = write_mempak_eq [OF h(2,4)] and fit = write_mempak_eq(2) [OF h(3,4)]
    have "unat a \<noteq> unat c" using h(5) by (simp add: word_unat_eq_iff)
    then have "unat c + 32 \<le> unat a \<or> unat a + 32 \<le> unat c"
      using blocks_apart [of 32 "unat a" "unat c"] h(2,3) by (auto simp: pak_block_def)
    moreover have "pak_block st' c" using valid [OF h(1)] h(3) by simp
    ultimately show ?thesis
      using w h fit take_drop_splice_other [of "unat a" b "st_data st" "unat c" 32]
      by (auto simp: get_pak_block_eq)
  qed
qed

section \<open>EEPROM\<close>

text \<open>Blocks travel in the message buffer of the joybus command: here the block and its status byte.\<close>

definition put_eeprom_block :: "eeprom \<Rightarrow> u8 \<Rightarrow> u8 list \<Rightarrow> eeprom option" where
  "put_eeprom_block e a b = map_option fst (eeprom_write_block e a (b @ [0]) 0 8)"

definition get_eeprom_block :: "eeprom \<Rightarrow> u8 \<Rightarrow> u8 list option" where
  "get_eeprom_block e a = eeprom_read_block e a (replicate 8 0) 0"

definition eeprom_block :: "eeprom \<Rightarrow> u8 \<Rightarrow> bool" where
  "eeprom_block e a \<longleftrightarrow> unat a * 8 + 8 \<le> length (st_data (ee_storage e))"

lemma get_eeprom_block_eq:
  "eeprom_block e a \<Longrightarrow> get_eeprom_block e a = Some (take 8 (drop (unat a * 8) (st_data (ee_storage e))))"
  by (auto simp: eeprom_block_def get_eeprom_block_def eeprom_read_block_def memcpy_def Let_def)

lemma put_eeprom_block_eq:
  assumes "eeprom_block e a" "length b = 8"
  shows "put_eeprom_block e a b = Some (e\<lparr>ee_storage := st_save (unat a * 8) 8 ((ee_storage e)\<lparr>st_data :=
    take (unat a * 8) (st_data (ee_storage e)) @ b @ drop (unat a * 8 + 8) (st_data (ee_storage e))\<rparr>)\<rparr>)"
  using assms by (auto simp: put_eeprom_block_def eeprom_block_def eeprom_write_block_def memcpy_def Let_def)

lemma put_eeprom_block_length:
  "put_eeprom_block e a b = Some e' \<Longrightarrow> length (st_data (ee_storage e')) = length (st_data (ee_storage e))"
  by (auto simp: put_eeprom_block_def eeprom_write_block_def Let_def dest: memcpy_length split: if_splits bind_splits)

interpretation ee: block_memory eeprom_block "\<lambda>b. length b = 8" put_eeprom_block get_eeprom_block
proof
  fix e e' :: eeprom and a c :: u8 and b :: "u8 list"
  show "\<exists>e'. put_eeprom_block e a b = Some e' \<and> get_eeprom_block e' a = Some b"
    if h: "eeprom_block e a" "length b = 8"
    using put_eeprom_block_eq [OF h] h by (auto simp: get_eeprom_block_eq eeprom_block_def)
  show valid: "eeprom_block e' c = eeprom_block e c" if "put_eeprom_block e a b = Some e'"
    using put_eeprom_block_length [OF that] by (simp add: eeprom_block_def)
  show "get_eeprom_block e' c = get_eeprom_block e c"
    if h: "put_eeprom_block e a b = Some e'" "eeprom_block e a" "eeprom_block e c" "length b = 8" "a \<noteq> c"
  proof -
    have "unat a * 8 \<noteq> unat c * 8" using h(5) by (simp add: word_unat_eq_iff)
    then have "unat c * 8 + 8 \<le> unat a * 8 \<or> unat a * 8 + 8 \<le> unat c * 8"
      using blocks_apart [of 8 "unat a * 8" "unat c * 8"] by auto
    moreover have "eeprom_block e' c" using valid [OF h(1)] h(3) by simp
    ultimately show ?thesis
      using put_eeprom_block_eq [OF h(2,4)] h
        take_drop_splice_other [of "unat a * 8" b "st_data (ee_storage e)" "unat c * 8" 8]
      by (auto simp: get_eeprom_block_eq eeprom_block_def)
  qed
qed

section \<open>Word memories\<close>

text \<open>
  A memory of 32-bit words over a byte array: \<open>canon\<close> singles out one address for each word, \<open>index\<close> is
  its place in the array. Every such memory is a block memory.
\<close>

locale word_array =
  fixes bytes :: "'m \<Rightarrow> u8 list" and canon :: "u32 \<Rightarrow> bool" and index :: "u32 \<Rightarrow> nat"
    and load :: "'m \<Rightarrow> u32 \<Rightarrow> u32 option" and store :: "'m \<Rightarrow> u32 \<Rightarrow> u32 \<Rightarrow> 'm option"
  assumes index_aligned: "canon a \<Longrightarrow> 4 dvd index a"
    and index_inj: "canon a \<Longrightarrow> canon c \<Longrightarrow> index a = index c \<Longrightarrow> a = c"
    and load_eq: "load m a = get_le32 (bytes m) (index a)"
    and store_ok: "index a + 3 < length (bytes m) \<Longrightarrow> store m a v \<noteq> None"
    and store_bytes: "store m a v = Some m' \<Longrightarrow> put_le32 (bytes m) (index a) v = Some (bytes m')"
begin

lemma store_apart:
  assumes "store m a v = Some m'" "canon a" "canon c" "a \<noteq> c"
  shows "load m' c = load m c"
proof -
  have "index c + 3 < index a \<or> index a + 3 < index c"
    using blocks_apart [of 4 "index a" "index c"] index_aligned index_inj assms(2-4) by fastforce
  then show ?thesis using get_put_le32_other [OF store_bytes [OF assms(1)]] by (auto simp: load_eq)
qed

end

sublocale word_array \<subseteq> block_memory
  "\<lambda>m a. canon a \<and> index a + 3 < length (bytes m)" "\<lambda>_. True" store load
proof
  fix m m' :: 'm and a c v :: u32
  show "\<exists>m'. store m a v = Some m' \<and> load m' a = Some v" if "canon a \<and> index a + 3 < length (bytes m)"
    using store_ok [of a m v] that get_put_le32 [OF store_bytes] by (auto simp: load_eq)
  show "(canon c \<and> index c + 3 < length (bytes m')) = (canon c \<and> index c + 3 < length (bytes m))"
    if "store m a v = Some m'"
    using put_le32_length [OF store_bytes [OF that]] by simp
  show "load m' c = load m c"
    if "store m a v = Some m'" "canon a \<and> index a + 3 < length (bytes m)"
      "canon c \<and> index c + 3 < length (bytes m)" "a \<noteq> c"
    using store_apart that by blast
qed

definition word_address :: "nat \<Rightarrow> u32 \<Rightarrow> bool" where
  "word_address n a \<longleftrightarrow> unat a < n \<and> 4 dvd unat a"

lemma rsp_index: "word_address 0x2000 a \<Longrightarrow> 4 * unat (rsp_mem_address a) = unat a"
proof -
  assume a: "word_address 0x2000 a"
  have "unat (a AND 0x1fff) = unat a mod 0x2000"
    using unat_and_mask [of a 13] by (simp add: mask_eq_exp_minus_1)
  then have "unat (rsp_mem_address a) = unat a div 4"
    unfolding rsp_mem_address_def unat_drop_bit using a by (simp add: word_address_def)
  then show ?thesis using a by (simp add: word_address_def)
qed

lemma sram_index: "word_address 0x10000 a \<Longrightarrow> unat (a AND SRAM_ADDR_MASK) = unat a"
  using unat_and_mask [of a 16] by (simp add: mask_eq_exp_minus_1 word_address_def)

lemma get_le32_None: "length buf \<le> i + 3 \<Longrightarrow> get_le32 buf i = None"
  by (auto simp: get_le32_def rd_def)

lemma get_le32_Some: "i + 3 < length buf \<Longrightarrow> get_le32 buf i \<noteq> None"
  by (simp add: get_le32_def)

interpretation spm: word_array sp_mem "word_address 0x2000" "\<lambda>a. 4 * unat (rsp_mem_address a)" read_rsp_mem
  "\<lambda>p a v. write_rsp_mem p a v 0xFFFFFFFF"
proof
  fix a c v :: u32 and p p' :: rsp_core
  show "write_rsp_mem p a v 0xFFFFFFFF \<noteq> None" if "4 * unat (rsp_mem_address a) + 3 < length (sp_mem p)"
    using that get_le32_Some [OF that] by (auto simp: write_rsp_mem_def put_le32_Some Let_def)
  show "a = c" if "word_address 0x2000 a" "word_address 0x2000 c"
      "4 * unat (rsp_mem_address a) = 4 * unat (rsp_mem_address c)"
    using that by (simp only: rsp_index word_unat_eq_iff)
qed (auto simp: read_rsp_mem_def write_rsp_mem_def Let_def split: bind_splits)

interpretation srm: word_array st_data "word_address 0x10000" "\<lambda>a. unat (a AND SRAM_ADDR_MASK)" read_sram
  "\<lambda>st a v. write_sram st a v 0xFFFFFFFF"
proof
  fix a c v :: u32 and st st' :: storage
  show "4 dvd unat (a AND SRAM_ADDR_MASK)" if "word_address 0x10000 a"
    unfolding sram_index [OF that] using that by (simp add: word_address_def)
  show "write_sram st a v 0xFFFFFFFF \<noteq> None" if "unat (a AND SRAM_ADDR_MASK) + 3 < length (st_data st)"
    using that get_le32_Some [OF that] by (auto simp: write_sram_def put_le32_Some Let_def)
  show "a = c" if "word_address 0x10000 a" "word_address 0x10000 c"
      "unat (a AND SRAM_ADDR_MASK) = unat (c AND SRAM_ADDR_MASK)"
    using that by (simp only: sram_index word_unat_eq_iff)
qed (auto simp: read_sram_def write_sram_def Let_def split: bind_splits)

section \<open>Claims\<close>

text \<open>
  A memory pak holds what was last written to it. Any sequence of block writes to a pak of full
  size, in any order and with any repetitions, runs to its end, and a read of any block then gives the
  block of the last write to its address, or what the pak held before if there was none.
\<close>

theorem mempak_last_write_wins:
  assumes "\<forall>w \<in> set ws. pak_block st (fst w) \<and> length (snd w) = 32"
  shows "\<exists>st'. put_all write_mempak st ws = Some st'
    \<and> (\<forall>a. pak_block st a \<longrightarrow> read_mempak st' a (replicate 32 0) =
         (case map_of (rev ws) a of None \<Rightarrow> read_mempak st a (replicate 32 0) | Some b \<Rightarrow> Some b))"
  using mp.put_all_get [OF assms] unfolding get_pak_block_def by blast

definition blank_pak :: storage where
  "blank_pak = \<lparr>st_data = replicate 0x8000 0, st_saves = []\<rparr>"

theorem mempak_last_write_wins_witness:
  "\<exists>st'. put_all write_mempak blank_pak
       [(0x20, replicate 32 1), (0x40, replicate 32 2), (0x20, replicate 32 3)] = Some st'
    \<and> read_mempak st' 0x20 (replicate 32 0) = Some (replicate 32 3)"
proof -
  have v: "pak_block blank_pak 0x20" "pak_block blank_pak 0x40"
    by (simp_all add: pak_block_def blank_pak_def)
  show ?thesis
    using mempak_last_write_wins
      [of "[(0x20, replicate 32 1), (0x40, replicate 32 2), (0x20, replicate 32 3)]" blank_pak] v
    by fastforce
qed

text \<open>
  The memory of the signal processor holds, word for word, what was last written: any sequence of
  full-word writes to its 8 KiB runs to its end, and a read of any word gives the value of the last
  write to its address, or the old word if there was none.
\<close>

theorem rsp_mem_last_write_wins:
  assumes "length (sp_mem p) = SP_MEM_SIZE" "\<forall>w \<in> set ws. word_address SP_MEM_SIZE (fst w)"
  shows "\<exists>p'. put_all (\<lambda>p a v. write_rsp_mem p a v 0xFFFFFFFF) p ws = Some p'
    \<and> (\<forall>a. word_address SP_MEM_SIZE a \<longrightarrow> read_rsp_mem p' a =
         (case map_of (rev ws) a of None \<Rightarrow> read_rsp_mem p a | Some v \<Rightarrow> Some v))"
proof -
  have "4 * unat (rsp_mem_address a) + 3 < length (sp_mem p)" if h: "word_address SP_MEM_SIZE a" for a
  proof -
    have "unat a < 0x2000" "4 dvd unat a" using h by (simp_all add: word_address_def)
    then have "unat a + 3 < 0x2000" by presburger
    then show ?thesis unfolding rsp_index [OF h] assms(1) by simp
  qed
  then show ?thesis using spm.put_all_get [of ws p] assms(2) by blast
qed

theorem rsp_mem_last_write_wins_witness:
  "\<exists>p'. put_all (\<lambda>p a v. write_rsp_mem p a v 0xFFFFFFFF)
       \<lparr>sp_mem = replicate 0x2000 0, sp_regs = (\<lambda>_. 0), sp_regs2 = (\<lambda>_. 0), rsp_task_locked = False,
        fifo0 = \<lparr>dma_dir = SP_DMA_READ, dma_length = 0, dma_memaddr = 0, dma_dramaddr = 0\<rparr>,
        fifo1 = \<lparr>dma_dir = SP_DMA_READ, dma_length = 0, dma_memaddr = 0, dma_dramaddr = 0\<rparr>\<rparr>
       [(0x1ffc, 0xCAFE), (0x10, 7), (0x1ffc, 0xBEEF)] = Some p' \<and> read_rsp_mem p' 0x1ffc = Some 0xBEEF"
proof -
  let ?p = "\<lparr>sp_mem = replicate 0x2000 0, sp_regs = (\<lambda>_. 0), sp_regs2 = (\<lambda>_. 0), rsp_task_locked = False,
        fifo0 = \<lparr>dma_dir = SP_DMA_READ, dma_length = 0, dma_memaddr = 0, dma_dramaddr = 0\<rparr>,
        fifo1 = \<lparr>dma_dir = SP_DMA_READ, dma_length = 0, dma_memaddr = 0, dma_dramaddr = 0\<rparr>\<rparr> :: rsp_core"
  have v: "word_address SP_MEM_SIZE 0x1ffc" "word_address SP_MEM_SIZE 0x10"
    by (simp_all add: word_address_def dvd_eq_mod_eq_0)
  show ?thesis
    using rsp_mem_last_write_wins [of ?p "[(0x1ffc, 0xCAFE), (0x10, 7), (0x1ffc, 0xBEEF)]"] v by fastforce
qed

end
