(* ===== verification/Pak_Claims.thy ===== *)
theory Pak_Claims
  imports Storage_Claims Cart_Claims
begin

text \<open>
  Claims about controllers and paks: the check byte of a block transfer detects every error within one
  byte, a formatted memory pak carries valid checksums, and a block sent to a memory pak through the
  controller comes back with its check byte.
\<close>

section \<open>The check byte\<close>

lemma bit_crc_bit:
  "bit (crc_bit c b) n \<longleftrightarrow> n < 8 \<and> ((if n = 0 then b else bit c (n - 1)) \<noteq> (bit c 7 \<and> bit (0x85 :: u8) n))"
proof -
  have top: "c AND 0x80 \<noteq> 0 \<longleftrightarrow> bit c 7" for c :: u8
    using and_exp_eq_0_iff_not_bit [of c 7] by simp
  define p where "p = push_bit 1 c"
  have push: "bit p n \<longleftrightarrow> 0 < n \<and> n < 8 \<and> bit c (n - 1)"
    unfolding p_def by (simp only: bit_push_bit_iff) (auto simp: Suc_le_eq)
  have tap: "bit (0x85 :: u8) n \<Longrightarrow> n < 8" using bit_imp_le_length [of "0x85 :: u8" n] by simp
  show ?thesis
    unfolding crc_bit_def top Let_def p_def [symmetric]
    by (cases "n = 0"; cases "bit c 7"; cases b)
      (use push tap in \<open>auto simp: bit_xor_iff bit_or_iff bit_1_iff\<close>)
qed

lemma crc_bit_linear: "crc_bit (a XOR b) (p \<noteq> q) = crc_bit a p XOR crc_bit b q"
  by (rule bit_word_eqI) (auto simp: bit_crc_bit bit_xor_iff)

lemma crc_byte_unfold:
  "crc_byte v c = crc_bit (crc_bit (crc_bit (crc_bit (crc_bit (crc_bit (crc_bit (crc_bit c
     (bit v 7)) (bit v 6)) (bit v 5)) (bit v 4)) (bit v 3)) (bit v 2)) (bit v 1)) (bit v 0)"
  by (simp add: crc_byte_def)

lemma crc_byte_linear: "crc_byte (v XOR w) (c XOR d) = crc_byte v c XOR crc_byte w d"
  unfolding crc_byte_unfold bit_xor_iff by (simp only: crc_bit_linear)

lemma crc_byte_start: "crc_byte v 0 = v"
proof (rule bit_word_eqI)
  fix n
  assume "n < LENGTH(8)"
  then consider "n = 0" | "n = 1" | "n = 2" | "n = 3" | "n = 4" | "n = 5" | "n = 6" | "n = 7" by fastforce
  then show "bit (crc_byte v 0) n = bit v n"
    by cases (simp_all add: crc_byte_unfold bit_crc_bit)
qed

lemma crc_byte_split: "crc_byte v c = v XOR crc_byte 0 c"
  using crc_byte_linear [of v 0 0 c] by (simp add: crc_byte_start)

lemma crc_bit_zero:
  assumes "crc_bit c False = 0"
  shows "c = 0"
proof (rule bit_word_eqI)
  fix n
  assume n: "n < LENGTH(8)"
  have b: "\<not> bit (crc_bit c False) k" for k using assms by simp
  have top: "\<not> bit c 7" using b [of 0] by (simp add: bit_crc_bit)
  show "bit c n = bit 0 n"
    using b [of "Suc n"] top n by (cases "n = 7") (auto simp: bit_crc_bit)
qed

lemma xor_cancel: "a XOR c = b XOR c \<Longrightarrow> a = (b :: 'a::semiring_bit_operations)"
proof -
  assume "a XOR c = b XOR c"
  then have "(a XOR c) XOR c = (b XOR c) XOR c" by simp
  then show "a = b" by (simp only: xor.assoc xor_self_eq xor.right_neutral)
qed

lemma crc_bit_inj:
  assumes "crc_bit a p = crc_bit b p"
  shows "a = b"
proof -
  have "crc_bit (a XOR b) False = 0" using crc_bit_linear [of a b p p] assms by simp
  then have "a XOR b = b XOR b" using crc_bit_zero [of "a XOR b"] by simp
  then show ?thesis by (rule xor_cancel)
qed

lemma crc_byte_inj: "crc_byte v a = crc_byte v b \<Longrightarrow> a = b"
  unfolding crc_byte_unfold by (blast dest: crc_bit_inj)

lemma crc_fold_inj: "fold crc_byte ys a = fold crc_byte ys b \<Longrightarrow> a = b"
  by (induction ys arbitrary: a b) (auto dest: crc_byte_inj)

text \<open>
  C40: The check byte of a block transfer detects every error confined to one byte: two blocks that
  differ in exactly one byte, whatever the difference and wherever it is, have different check bytes.
\<close>

theorem pak_data_crc_detects:
  assumes "v \<noteq> w"
  shows "pak_data_crc (xs @ v # ys) \<noteq> pak_data_crc (xs @ w # ys)"
proof
  assume "pak_data_crc (xs @ v # ys) = pak_data_crc (xs @ w # ys)"
  then have "crc_byte v (fold crc_byte xs 0) = crc_byte w (fold crc_byte xs 0)"
    unfolding pak_data_crc_def by (auto dest!: crc_byte_inj crc_fold_inj)
  then have "v XOR crc_byte 0 (fold crc_byte xs 0) = w XOR crc_byte 0 (fold crc_byte xs 0)"
    using crc_byte_split [of v "fold crc_byte xs 0"] crc_byte_split [of w "fold crc_byte xs 0"] by simp
  then have "v = w" by (rule xor_cancel)
  with assms show False by simp
qed

theorem pak_data_crc_detects_witness:
  "pak_data_crc ([0x12, 0x34] @ 0x56 # replicate 29 0) \<noteq> pak_data_crc ([0x12, 0x34] @ 0x57 # replicate 29 0)"
  by (rule pak_data_crc_detects) simp

section \<open>Formatting\<close>

lemma concat_be32_length: "length (concat (map be32 xs)) = 4 * length xs"
  by (induction xs) (simp_all add: be32_def)

lemma concat_be16_length: "length (concat (replicate n (be16 v))) = 2 * n"
  by (induction n) (simp_all add: be16_def)

lemma serialize_id_block_spec:
  fixes serial device_id banks version
  defines "b \<equiv> serialize_id_block serial device_id banks version"
  assumes "6 \<le> length serial"
  shows "length b = 32" "drop 28 b = be16 (fst (checksum_id_block b)) @ be16 (snd (checksum_id_block b))"
proof -
  let ?h = "concat (map be32 (take 6 serial)) @ be16 device_id @ [banks, version]"
  have h: "length ?h = 28" using assms(2) by (simp add: concat_be32_length be16_def)
  have b: "b = ?h @ be16 (fst (checksum_id_block ?h)) @ be16 (snd (checksum_id_block ?h))"
    unfolding b_def serialize_id_block_def Let_def by (simp add: case_prod_beta)
  then show "length b = 32" using h by (simp add: be16_def)
  have "take 28 b = ?h" "take 28 ?h = ?h" using h unfolding b by simp_all
  then have "checksum_id_block b = checksum_id_block ?h" unfolding checksum_id_block_def by simp
  then show "drop 28 b = be16 (fst (checksum_id_block b)) @ be16 (snd (checksum_id_block b))"
    using b h by simp
qed

lemma index_page_spec:
  "length index_page = 256" "index_page ! 1 = checksum_index_table (take 246 (drop 10 index_page))"
  by (simp_all add: index_page_def Let_def concat_be16_length)

text \<open>
  A freshly formatted memory pak is valid. Formatting keeps the size of the pak, each of the four
  copies of the identification block ends with the checksum of its first 28 bytes and with the
  complement that makes the two add up to 0xfff2, and byte 1 of both copies of the index table is the
  checksum of its 123 free inodes.
\<close>

theorem format_mempak_checksums:
  assumes "MEMPAK_SIZE \<le> length m" "6 \<le> length serial"
  shows "\<exists>m'. format_mempak m serial device_id banks version = Some m' \<and> length m' = length m
    \<and> (\<forall>off \<in> {0x20, 0x60, 0x80, 0xc0}. let b = take 32 (drop off m'); (sm, isum) = checksum_id_block b in
         drop 28 b = be16 sm @ be16 isum \<and> sm + isum = 0xfff2)
    \<and> (\<forall>off \<in> {0x100, 0x200}. m' ! (off + 1) = checksum_index_table (take 246 (drop (off + 10) m')))
    \<and> drop MEMPAK_SIZE m' = drop MEMPAK_SIZE m"
proof -
  let ?b = "serialize_id_block serial device_id banks version" and ?z = "replicate 32 0 :: u8 list"
  note b = serialize_id_block_spec [OF assms(2), of device_id banks version]
  define m' where "m' = (?z @ ?b @ ?z @ ?b @ ?b @ ?z @ ?b @ ?z) @ index_page @ index_page @
    replicate (MEMPAK_SIZE - 3 * 256) 0 @ drop MEMPAK_SIZE m"
  have f: "format_mempak m serial device_id banks version = Some m'"
    using assms by (simp add: format_mempak_def m'_def Let_def)
  have sum: "fst (checksum_id_block ?b) + snd (checksum_id_block ?b) = 0xfff2"
    by (simp add: checksum_id_block_def Let_def)
  define t where "t = replicate (MEMPAK_SIZE - 3 * 256) 0 @ drop MEMPAK_SIZE m"
  have cut: "take 32 (drop (length p) (p @ ?b @ q)) = ?b" for p q using b(1) by simp
  have blk: "take 32 (drop off m') = ?b" if "off \<in> {0x20, 0x60, 0x80, 0xc0}" for off
    using that b(1) cut [of ?z] cut [of "?z @ ?b @ ?z"] cut [of "?z @ ?b @ ?z @ ?b"]
      cut [of "?z @ ?b @ ?z @ ?b @ ?b @ ?z"]
    unfolding m'_def t_def [symmetric] by (auto simp del: drop_append take_append)
  have idx: "m' ! (off + 1) = index_page ! 1 \<and> take 246 (drop (off + 10) m') = take 246 (drop 10 index_page)"
    if "off \<in> {0x100, 0x200}" for off
  proof -
    have at: "(p @ index_page @ q) ! (length p + 1) = index_page ! 1
        \<and> take 246 (drop (length p + 10) (p @ index_page @ q)) = take 246 (drop 10 index_page)" for p q
      using index_page_spec(1) by (simp add: nth_append)
    let ?p = "?z @ ?b @ ?z @ ?b @ ?b @ ?z @ ?b @ ?z"
    have "length ?p = 0x100" "length (?p @ index_page) = 0x200" using b(1) index_page_spec(1) by simp_all
    then show ?thesis
      using that at [of ?p "index_page @ t"] at [of "?p @ index_page" t]
      unfolding m'_def t_def [symmetric] append_assoc by fastforce
  qed
  have "\<forall>off \<in> {0x100, 0x200}. m' ! (off + 1) = checksum_index_table (take 246 (drop (off + 10) m'))"
    using idx index_page_spec(2) by metis
  moreover have "\<forall>off \<in> {0x20, 0x60, 0x80, 0xc0}. let b = take 32 (drop off m'); (sm, isum) = checksum_id_block b in
      drop 28 b = be16 sm @ be16 isum \<and> sm + isum = 0xfff2"
    using b(2) sum by (simp add: blk case_prod_beta Let_def)
  moreover have "length m' = length m" "drop MEMPAK_SIZE m' = drop MEMPAK_SIZE m"
    using assms(1) b(1) index_page_spec(1) unfolding m'_def by simp_all
  ultimately show ?thesis using f by blast
qed

theorem format_mempak_checksums_witness:
  "\<exists>m'. format_mempak (replicate 0x8000 0) [1, 2, 3, 4, 5, 6] 1 1 0 = Some m' \<and> length m' = 0x8000"
  using format_mempak_checksums [of "replicate 0x8000 0" "[1, 2, 3, 4, 5, 6]" 1 1 0] by auto

section \<open>Block transfers\<close>

lemma block_address_aligned: "32 dvd unat (block_address a0 a1)"
proof -
  have e0: "\<not> bit (0xe0 :: u8) k" if k: "k < 5" for k
  proof -
    consider "k = 0" | "k = 1" | "k = 2" | "k = 3" | "k = 4" using k by linarith
    then show ?thesis by cases simp_all
  qed
  have "block_address a0 a1 AND mask 5 = 0"
    unfolding block_address_def
    by (rule bit_word_eqI) (use e0 in \<open>auto simp: bit_simps\<close>)
  then show ?thesis using unat_and_mask [of "block_address a0 a1" 5] by (simp add: dvd_eq_mod_eq_0)
qed

lemma block_address_less:
  assumes "a0 < 0x80"
  shows "block_address a0 a1 < 0x8000"
proof -
  have a0: "bit a0 k \<Longrightarrow> k < 7" for k
    by (rule bit_less_exp [of a0]) (use assms in \<open>simp_all add: word_less_nat_alt\<close>)
  have "unat (block_address a0 a1) < 2 ^ 15"
    by (rule unat_less_exp) (auto simp: block_address_def bit_simps dest: a0 bit_imp_le_length)
  then show ?thesis by (simp add: word_less_nat_alt)
qed

text \<open>
  C35: A block sent to a memory pak comes back. For a controller with a memory pak of full size, an
  address below 0x8000 and well-formed messages, the write command and a read command for the same
  address both succeed; the 32 bytes of the answer are the 32 bytes that were sent, and the check byte
  of the write answer and of the read answer is the check byte of those bytes.
\<close>

theorem controller_pak_roundtrip:
  assumes pak: "cont_pak c = Some (Mempak st)" "MEMPAK_SIZE \<le> length (st_data st)" "a0 < 0x80"
    and w: "joybus_msg bw pw 35 1 JCMD_PAK_WRITE" "rd bw (jp_tx_buf pw + 1) = Some a0"
      "rd bw (jp_tx_buf pw + 2) = Some a1" "jp_tx_buf pw + 35 \<le> length bw" "jp_rx_buf pw < length bw"
    and r: "joybus_msg br pr 3 33 JCMD_PAK_READ" "rd br (jp_tx_buf pr + 1) = Some a0"
      "rd br (jp_tx_buf pr + 2) = Some a1" "jp_rx_buf pr + 33 \<le> length br"
  shows "\<exists>c' bw' br'. process_controller_command env (Some inp) pw c bw = Some (c', bw')
    \<and> process_controller_command env (Some inp') pr c' br = Some (c', br')
    \<and> take 32 (drop (jp_rx_buf pr) br') = take 32 (drop (jp_tx_buf pw + 3) bw)
    \<and> bw' ! jp_rx_buf pw = pak_data_crc (take 32 (drop (jp_tx_buf pw + 3) bw))
    \<and> br' ! (jp_rx_buf pr + 32) = bw' ! jp_rx_buf pw"
proof -
  define dat a where "dat = take 32 (drop (jp_tx_buf pw + 3) bw)" and "a = block_address a0 a1"
  have dat: "slice bw (jp_tx_buf pw + 3) 32 = Some dat" "length dat = 32"
    using w(4) by (simp_all add: slice_def dat_def)
  have blk: "pak_block st a"
    using block_address_less [OF pak(3)] block_address_aligned pak(2) by (simp add: pak_block_def a_def)
  obtain st' where st': "write_mempak st a dat = Some st'" "get_pak_block st' a = Some dat"
    using mp.put_get [OF blk dat(2)] by auto
  define c' bw' where "c' = c\<lparr>cont_pak := Some (Mempak st')\<rparr>" and "bw' = bw[jp_rx_buf pw := pak_data_crc dat]"
  have "pak_write_block env c (jp_tx_buf pw + 1) (jp_tx_buf pw + 3) (jp_rx_buf pw) bw = Some (c', bw')"
    using w(2,3,5) dat(1) pak(1) st'(1)
    by (simp add: pak_write_block_def pak_write_def c'_def bw'_def a_def)
  then have W: "process_controller_command env (Some inp) pw c bw = Some (c', bw')"
    using w(1) unfolding process_controller_command_def joybus_check_ok [OF w(1)] by (simp add: joybus_msg_def)
  have blk': "pak_block st' a" using mp.put_valid [OF st'(1)] blk by simp
  have old: "slice br (jp_rx_buf pr) 32 = Some (take 32 (drop (jp_rx_buf pr) br))"
    using r(4) by (simp add: slice_def)
  have "read_mempak st' a (take 32 (drop (jp_rx_buf pr) br)) = Some dat"
    using get_pak_block_eq [OF blk'] st'(2) write_mempak_eq(2) [OF blk' dat(2)] r(4) blk'
    by (auto simp: read_mempak_def memcpy_def pak_block_def)
  moreover obtain br1 where br1: "memcpy br (jp_rx_buf pr) dat 0 32 = Some br1"
    using r(4) dat(2) by (simp add: memcpy_def)
  note len = memcpy_length [OF br1]
  define br' where "br' = br1[jp_rx_buf pr + 32 := pak_data_crc dat]"
  have "pak_read_block env c' (jp_tx_buf pr + 1) (jp_rx_buf pr) (jp_rx_buf pr + 32) br = Some (c', br')"
    using r(2-4) old br1 len calculation
    by (simp add: pak_read_block_def pak_read_def c'_def br'_def a_def)
  then have R: "process_controller_command env (Some inp') pr c' br = Some (c', br')"
    using r(1) unfolding process_controller_command_def joybus_check_ok [OF r(1)] by (simp add: joybus_msg_def)
  have "take 32 (drop (jp_rx_buf pr) br') = dat"
    using memcpy_nth [OF br1] len r(4) dat(2) unfolding br'_def by (intro nth_equalityI) auto
  then show ?thesis using W R r(4) w(5) len unfolding dat_def [symmetric] by (auto simp: br'_def bw'_def)
qed

theorem controller_pak_roundtrip_witness:
  "\<exists>c' bw' br'. process_controller_command undefined (Some 0) \<lparr>jp_tx = 0, jp_tx_buf = 2, jp_rx = 1, jp_rx_buf = 37\<rparr>
       \<lparr>cont_status = 1, cont_flavor = standard_controller, cont_pak = Some (Mempak blank_pak)\<rparr>
       ([35, 1, 3, 0x01, 0x20] @ replicate 32 9 @ [0]) = Some (c', bw')
    \<and> process_controller_command undefined (Some 0) \<lparr>jp_tx = 0, jp_tx_buf = 2, jp_rx = 1, jp_rx_buf = 5\<rparr> c'
       ([3, 33, 2, 0x01, 0x20] @ replicate 33 0) = Some (c', br')
    \<and> take 32 (drop 5 br') = replicate 32 9"
  using controller_pak_roundtrip [of "\<lparr>cont_status = 1, cont_flavor = standard_controller,
        cont_pak = Some (Mempak blank_pak)\<rparr>" blank_pak 1 "[35, 1, 3, 0x01, 0x20] @ replicate 32 9 @ [0]"
      "\<lparr>jp_tx = 0, jp_tx_buf = 2, jp_rx = 1, jp_rx_buf = 37\<rparr>" "0x20" "[3, 33, 2, 0x01, 0x20] @ replicate 33 0"
      "\<lparr>jp_tx = 0, jp_tx_buf = 2, jp_rx = 1, jp_rx_buf = 5\<rparr>" undefined 0 0]
  by (fastforce simp: joybus_msg_def blank_pak_def rd_def)

end
