(* ===== verification/System_Claims.thy ===== *)
theory System_Claims
  imports Rcp_Claims Pif_Claims Pak_Claims
begin

text \<open>
  Claims about the machine as a whole: loads and stores through translation, memory map and RDRAM,
  events delivered through \<^verbatim>\<open>gen_interrupt\<close> to the devices' handlers, power-on and reset.
\<close>

section \<open>Loads and stores\<close>

text \<open>
  Address \<open>a\<close> reaches the word at the physical address \<open>p\<close> without an exception, through an unmapped
  segment or the TLB; \<open>w\<close> is 0 for a load and 1 for a store.
\<close>

definition reaches :: "nat \<Rightarrow> nat \<Rightarrow> 'a r4300_sys_scheme \<Rightarrow> u32 \<Rightarrow> u32 \<Rightarrow> bool" where
  "reaches ign w s a p \<longleftrightarrow> (\<exists>x. translate ign w a s = Some (Some x, s) \<and> p = x AND 0x1ffffffc)"

lemma unmapped_reaches: "a AND 0xc0000000 = 0x80000000 \<Longrightarrow> reaches ign w s a (a AND 0x1ffffffc)"
  by (simp add: reaches_def translate_def)

lemma mapped_reaches:
  assumes "a AND 0xc0000000 \<noteq> 0x80000000" "tlb_lookup (cp0_tlb (cp0 (r4300 s))) a w = Some x" "x \<noteq> 0"
  shows "reaches ign w s a (x AND 0x1ffffffc)"
  using assms by (simp add: reaches_def translate_def virtual_to_physical_address_def)

lemma reaches_iff:
  "reaches ign w s a p \<longleftrightarrow>
     (if a AND 0xc0000000 = 0x80000000 then p = a AND 0x1ffffffc
      else \<exists>x. virtual_to_physical_address ign (r4300 s) a w = Some (x, r4300 s) \<and> x \<noteq> 0 \<and> p = x AND 0x1ffffffc)"
proof -
  have same: "s\<lparr>r4300 := r\<rparr> = s \<longleftrightarrow> r = r4300 s" for r
    using r4300_sys.surjective [of s] by (metis r4300_sys.ext_inject r4300_sys.update_convs(1))
  show ?thesis
    by (auto simp: reaches_def translate_def same split: bind_splits if_splits)
qed

lemma reaches_frame: "r4300 s' = r4300 s \<Longrightarrow> reaches ign w s' a p = reaches ign w s a p"
  by (simp add: reaches_iff)

lemma and_word_mask: "(x AND 0x1ffffffc) AND NOT 3 = x AND (0x1ffffffc :: u32)"
  by (simp add: and.assoc)

lemma load_rdram:
  assumes "reaches (d_ignore_tlb env) 0 s a p" "mem_get_handler (mem s) p = H_rdram_dram"
  shows "r4300_read_aligned_word env a old s = do { v \<leftarrow> read_rdram_dram (rdram s) p; Some (True, v, s) }"
proof -
  obtain x where x: "translate (d_ignore_tlb env) 0 a s = Some (Some x, s)" "p = x AND 0x1ffffffc"
    using assms(1) by (auto simp: reaches_def)
  then show ?thesis using assms(2) and_word_mask [of x]
    by (simp add: r4300_read_aligned_word_def mem_read32_def Let_def)
qed

lemma store_rdram:
  assumes "reaches (d_ignore_tlb env) 1 s a p" "mem_get_handler (mem s) p = H_rdram_dram"
    and "emu_mode (r4300 s) = EMUMODE_PURE_INTERPRETER"
  shows "r4300_write_aligned_word env a v msk s
    = do { rm \<leftarrow> write_rdram_dram (rdram s) p v msk; Some (True, s\<lparr>rdram := rm\<rparr>) }"
proof -
  obtain x where x: "translate (d_ignore_tlb env) 1 a s = Some (Some x, s)" "p = x AND 0x1ffffffc"
    using assms(1) by (auto simp: reaches_def)
  have inv: "invalidate s = Some s"
    using assms(3) by (simp add: invalidate_def upd_r4300_def invalidate_r4300_cached_code_def)
  then have "translate_write (d_ignore_tlb env) a s = Some (Some p, s)"
    using x by (simp add: translate_write_def)
  then show ?thesis using assms(2) and_word_mask [of x] x(2)
    by (simp add: r4300_write_aligned_word_def mem_write32_def)
qed

text \<open>
  C4: A word stored is the word loaded, through every view of it. For the interpreter, a store to an
  address that reaches fitted RDRAM, unmapped, cached or not, or through the TLB, returns without an
  exception; afterwards a load through any address that reaches the same physical word gives the old word
  with exactly the masked bits replaced, a load that reaches any other word of RDRAM gives what it gave
  before, and loads change nothing.
\<close>

theorem store_then_load:
  assumes "emu_mode (r4300 s) = EMUMODE_PURE_INTERPRETER" "wf_rdram (rdram s)"
    and "reaches (d_ignore_tlb env) 1 s a p" "reaches (d_ignore_tlb env) 0 s a p"
    and "mem_get_handler (mem s) p = H_rdram_dram" "unat p < dram_size (rdram s)"
  shows "\<exists>w s'. r4300_read_aligned_word env a old s = Some (True, w, s)
    \<and> r4300_write_aligned_word env a v msk s = Some (True, s')
    \<and> (\<forall>b. reaches (d_ignore_tlb env) 0 s b p \<longrightarrow>
         r4300_read_aligned_word env b old s' = Some (True, masked_write w v msk, s'))
    \<and> (\<forall>b q. reaches (d_ignore_tlb env) 0 s b q \<longrightarrow> unat q div 4 \<noteq> unat p div 4 \<longrightarrow>
         mem_get_handler (mem s) q = H_rdram_dram \<longrightarrow>
         map_option (fst \<circ> snd) (r4300_read_aligned_word env b old s')
           = map_option (fst \<circ> snd) (r4300_read_aligned_word env b old s))"
proof -
  obtain rm' w where rm': "write_rdram_dram (rdram s) p v msk = Some rm'" "read_rdram_dram (rdram s) p = Some w"
      "read_rdram_dram rm' p = Some (masked_write w v msk)"
      "\<forall>b. unat b div 4 \<noteq> unat p div 4 \<longrightarrow> read_rdram_dram rm' b = read_rdram_dram (rdram s) b"
    using write_read_rdram_dram [OF assms(2), of p v msk] assms(6) by blast
  let ?s' = "s\<lparr>rdram := rm'\<rparr>"
  have load': "r4300_read_aligned_word env b old ?s' = do { v \<leftarrow> read_rdram_dram rm' q; Some (True, v, ?s') }"
    if "reaches (d_ignore_tlb env) 0 s b q" "mem_get_handler (mem s) q = H_rdram_dram" for b q
    using load_rdram [of env ?s' b q old] that by (simp add: reaches_frame [of ?s' s])
  show ?thesis
  proof (intro exI [of _ w] exI [of _ ?s'] conjI allI impI)
    show "r4300_read_aligned_word env a old s = Some (True, w, s)"
      using load_rdram [OF assms(4,5)] rm'(2) by simp
    show "r4300_write_aligned_word env a v msk s = Some (True, ?s')"
      using store_rdram [OF assms(3,5,1)] rm'(1) by simp
    show "r4300_read_aligned_word env b old ?s' = Some (True, masked_write w v msk, ?s')"
      if "reaches (d_ignore_tlb env) 0 s b p" for b
      using load' [OF that assms(5)] rm'(3) by simp
    show "map_option (fst \<circ> snd) (r4300_read_aligned_word env b old ?s')
           = map_option (fst \<circ> snd) (r4300_read_aligned_word env b old s)"
      if "reaches (d_ignore_tlb env) 0 s b q" "unat q div 4 \<noteq> unat p div 4"
        "mem_get_handler (mem s) q = H_rdram_dram" for b q
      using load' [OF that(1,3)] load_rdram [OF that(1,3), of old] rm'(4) that(2)
      by (cases "read_rdram_dram (rdram s) q") simp_all
  qed
qed

text \<open>A page of the TLB at 0x00400000 over the RDRAM page at 0x1000, stored to and read back in KSEG1.\<close>

definition mapped_console :: device where
  "mapped_console = console\<lparr>r4300 := (r4300 console)\<lparr>cp0 := (cp0 (r4300 console))\<lparr>cp0_tlb :=
     \<lparr>entries = [], LUT_r = (\<lambda>_. 0)(0x400 := 0x80001fff), LUT_w = (\<lambda>_. 0)(0x400 := 0x80001fff)\<rparr>\<rparr>\<rparr>\<rparr>"

lemma console_rdram_handler: "unat p < 0x3f00000 \<Longrightarrow> mem_get_handler (mem console) p = H_rdram_dram"
proof -
  assume "unat p < 0x3f00000"
  then have "unat p div 0x10000 < 0x3f0" by (simp add: less_mult_imp_div_less)
  then show ?thesis by (simp add: console_def device_mappings_handler)
qed

theorem store_then_load_witness:
  "\<exists>s'. r4300_write_aligned_word console_env 0x00400010 0x12345678 0xffffffff mapped_console = Some (True, s')
    \<and> r4300_read_aligned_word console_env 0xa0001010 0 s' = Some (True, 0x12345678, s')"
proof -
  have t: "cp0_tlb (cp0 (r4300 mapped_console)) =
      \<lparr>entries = [], LUT_r = (\<lambda>_. 0)(0x400 := 0x80001fff), LUT_w = (\<lambda>_. 0)(0x400 := 0x80001fff)\<rparr>"
    by (simp add: mapped_console_def)
  have "page_of 0x00400010 = 0x400" by (simp add: page_of_nat)
  then have l: "tlb_lookup (cp0_tlb (cp0 (r4300 mapped_console))) 0x00400010 w = Some 0x80001010" for w
    by (simp add: t tlb_lookup_def Let_def)
  have r: "reaches ign w mapped_console 0x00400010 0x00001010" for ign w
    using mapped_reaches [of "0x00400010" mapped_console w "0x80001010" ign] l [of w] by simp
  have k: "reaches ign w mapped_console 0xa0001010 0x00001010" for ign w
    using unmapped_reaches [of "0xa0001010" ign w mapped_console] by simp
  have m: "emu_mode (r4300 mapped_console) = EMUMODE_PURE_INTERPRETER" "wf_rdram (rdram mapped_console)"
      "mem_get_handler (mem mapped_console) 0x00001010 = H_rdram_dram" "dram_size (rdram mapped_console) = 0x800000"
    using console_rdram_handler [of "0x1010"] console_facts(3)
    by (simp_all add: mapped_console_def console_queue) (simp add: console_def)
  show ?thesis
    using store_then_load [OF m(1,2) r r m(3), where v = "0x12345678" and msk = "0xffffffff" and old = 0 and env = console_env] k m(4)
    by auto
qed

section \<open>Raising an interrupt line\<close>

text \<open>The processor takes an interrupt raised now.\<close>

definition takes_interrupt :: "r4300_core \<Rightarrow> u32 \<Rightarrow> bool" where
  "takes_interrupt r ip \<longleftrightarrow> int_enabled r
     \<and> creg r CP0_STATUS_REG AND ((creg r CP0_CAUSE_REG OR ip) AND NOT CP0_CAUSE_EXCCODE_MASK) AND 0xff00 \<noteq> 0"

lemma raise_maskable_total:
  assumes "emu_mode r = EMUMODE_PURE_INTERPRETER"
  shows "\<exists>r'. raise_maskable_interrupt r ip = Some r' \<and> cp0_q (cp0 r') = cp0_q (cp0 r)
    \<and> (if takes_interrupt r ip then pc r' = 0x80000180 \<and> bit (creg r' CP0_STATUS_REG) 1 else pc r' = pc r)"
proof (cases "takes_interrupt r ip")
  case False
  then show ?thesis using raise_maskable_masked [of r ip]
    by (auto simp: takes_interrupt_def int_enabled_def set_creg_def)
next
  case True
  let ?r = "set_creg CP0_CAUSE_REG ((creg r CP0_CAUSE_REG OR ip) AND NOT CP0_CAUSE_EXCCODE_MASK) r"
  have "raise_maskable_interrupt r ip = exception_general ?r"
    using True by (auto simp: raise_maskable_interrupt_def takes_interrupt_def int_enabled_def creg_set_creg Let_def and.assoc)
  moreover have "emu_mode ?r = EMUMODE_PURE_INTERPRETER" "cp0_q (cp0 ?r) = cp0_q (cp0 r)"
    using assms by (simp_all add: set_creg_def)
  ultimately show ?thesis using exception_general_spec [of ?r] True
    by (auto simp: bit_or_iff)
qed

lemma raise_rcp_spec:
  fixes s :: "'a mi_sys_scheme"
  assumes "emu_mode (r4300 s) = EMUMODE_PURE_INTERPRETER"
  shows "\<exists>r'. raise_rcp_interrupt s m = Some ((set_mreg MI_INTR_REG (mreg s MI_INTR_REG OR m) s)\<lparr>r4300 := r'\<rparr>)
    \<and> cp0_q (cp0 r') = cp0_q (cp0 (r4300 s))
    \<and> pc r' = (if (mreg s MI_INTR_REG OR m) AND mreg s MI_INTR_MASK_REG \<noteq> 0 \<and> takes_interrupt (r4300 s) CP0_CAUSE_IP2
               then 0x80000180 else pc (r4300 s))"
proof (cases "(mreg s MI_INTR_REG OR m) AND mreg s MI_INTR_MASK_REG = 0")
  case True
  have "set_mreg MI_INTR_REG v s\<lparr>r4300 := r4300 s\<rparr> = set_mreg MI_INTR_REG v s" for v
    by (simp add: set_mreg_def)
  then show ?thesis using True by (intro exI [of _ "r4300 s"]) (simp add: raise_rcp_interrupt_def Let_def)
next
  case False
  then show ?thesis using raise_maskable_total [OF assms, of CP0_CAUSE_IP2]
    by (auto simp: raise_rcp_interrupt_def Let_def upd_r4300_def)
qed

section \<open>Completions\<close>

lemma status_bits:
  "((x AND NOT m) OR k) AND m = k AND (m :: u32)" "((x AND NOT m) OR k) AND k = k"
  by (rule bit_word_eqI; auto simp: bit_simps)+

lemma dispatched_pi: "dispatch_of PI_INT = Some (True, 4)"
  by (simp add: dispatch_of_def)

text \<open>
  C14: The end of a cartridge transfer reaches the guest. When the event that ends it is the head of the
  queue, the interpreter's \<^verbatim>\<open>gen_interrupt\<close> returns: exactly that event is gone, the interface is no
  longer busy and shows its interrupt, the line of the interface is up, and the processor continues at the
  general exception vector exactly when the guest has the line unmasked and takes interrupts, and at the
  same instruction otherwise.
\<close>

theorem pi_completion_delivered:
  fixes s :: "'a device_scheme"
  assumes "cp0_inv (cp0 (r4300 s))" "events (cp0_q (cp0 (r4300 s))) = x # xs" "evt_type x = PI_INT"
    and "stop (r4300 s) \<noteq> 1" "reset_hard_job (r4300 s) = 0" "skip_jump (r4300 s) = 0"
    and "emu_mode (r4300 s) = EMUMODE_PURE_INTERPRETER"
    and "\<And>s. d_savestates_get_job env s = savestates_job_nothing"
  shows "\<exists>s'. gen_interrupt (device_irq env) s = Some s' \<and> queued s' = xs
    \<and> \<not> pi_busy s' \<and> pir s' PI_STATUS_REG AND PI_STATUS_INTERRUPT \<noteq> 0
    \<and> mreg s' MI_INTR_REG = mreg s MI_INTR_REG OR MI_INTR_PI \<and> rdram s' = rdram s
    \<and> pc (r4300 s') = (if (mreg s MI_INTR_REG OR MI_INTR_PI) AND mreg s MI_INTR_MASK_REG \<noteq> 0
          \<and> takes_interrupt (r4300 s) CP0_CAUSE_IP2 then 0x80000180 else pc (r4300 s))"
proof -
  obtain c where c: "gen_interrupt (device_irq env) s = device_handlers env 4 (s\<lparr>r4300 := (r4300 s)\<lparr>cp0 := c\<rparr>\<rparr>)"
      "events (cp0_q c) = xs" "cp0_regs c = cp0_regs (cp0 (r4300 s))"
    using gen_interrupt_removes [OF assms(1,2), of 4 "device_irq env"] assms(3-6,8) dispatched_pi
    by (auto simp: device_irq_def)
  let ?s = "s\<lparr>r4300 := (r4300 s)\<lparr>cp0 := c\<rparr>\<rparr>"
  let ?v = "(pir s PI_STATUS_REG AND NOT (PI_STATUS_DMA_BUSY OR PI_STATUS_IO_BUSY)) OR PI_STATUS_INTERRUPT"
  define t where "t = set_pir PI_STATUS_REG ?v ?s"
  have t: "r4300 t = (r4300 s)\<lparr>cp0 := c\<rparr>" "mi t = mi s" "rdram t = rdram s" "pir t PI_STATUS_REG = ?v"
    by (simp_all add: t_def set_pir_def)
  have eq: "gen_interrupt (device_irq env) s = raise_rcp_interrupt t MI_INTR_PI"
    by (simp add: c(1) device_handlers_def pi_end_of_dma_event_def t_def set_pir_def)
  have takes: "takes_interrupt ((r4300 s)\<lparr>cp0 := c\<rparr>) ip = takes_interrupt (r4300 s) ip" for ip
    using c(3) by (simp add: takes_interrupt_def int_enabled_def)
  obtain r' where r': "raise_rcp_interrupt t MI_INTR_PI
        = Some ((set_mreg MI_INTR_REG (mreg t MI_INTR_REG OR MI_INTR_PI) t)\<lparr>r4300 := r'\<rparr>)"
      "cp0_q (cp0 r') = cp0_q c"
      "pc r' = (if (mreg s MI_INTR_REG OR MI_INTR_PI) AND mreg s MI_INTR_MASK_REG \<noteq> 0 \<and> takes_interrupt (r4300 s) CP0_CAUSE_IP2
               then 0x80000180 else pc (r4300 s))"
    using raise_rcp_spec [of t MI_INTR_PI] assms(7) by (auto simp: t(1,2) takes)
  have v: "?v AND (PI_STATUS_DMA_BUSY OR PI_STATUS_IO_BUSY) = 0" "?v AND PI_STATUS_INTERRUPT \<noteq> 0"
    unfolding status_bits by simp_all
  show ?thesis
    using eq r' c(2) v t
    by (intro exI [of _ "(set_mreg MI_INTR_REG (mreg t MI_INTR_REG OR MI_INTR_PI) t)\<lparr>r4300 := r'\<rparr>"])
      (simp add: queued_def pi_busy_def set_mreg_def)
qed

lemma boot_event_first:
  "\<exists>c. add_interrupt_event_count boot_cp0 ty 0x5002 = Some c \<and> cp0_inv c
    \<and> events (cp0_q c) = \<lparr>evt_type = ty, evt_count = 0x5002\<rparr> # events (cp0_q boot_cp0)"
proof -
  have "ins_event boot_cp0 \<lparr>evt_type = ty, evt_count = 0x5002\<rparr> (events (cp0_q boot_cp0))
      = \<lparr>evt_type = ty, evt_count = 0x5002\<rparr> # events (cp0_q boot_cp0)"
    by (simp add: ins_event_def due_def boot_cp0_now boot_cp0_spec)
  then show ?thesis
    using add_after_remove [OF cp0_inv_ord [OF boot_cp0_spec(1)], of ty "0x5002"]
    by (auto simp: boot_cp0_spec INTERRUPT_NODES_POOL_CAPACITY_def)
qed

theorem pi_completion_delivered_witness:
  "\<exists>c s'. add_interrupt_event_count boot_cp0 PI_INT 0x5002 = Some c
    \<and> gen_interrupt (device_irq console_env) (set_pir PI_STATUS_REG 1 (console\<lparr>r4300 := boot_r4300\<lparr>cp0 := c\<rparr>\<rparr>)) = Some s'
    \<and> queued s' = events (cp0_q boot_cp0) \<and> \<not> pi_busy s' \<and> mreg s' MI_INTR_REG = MI_INTR_PI"
proof -
  obtain c where c: "add_interrupt_event_count boot_cp0 PI_INT 0x5002 = Some c" "cp0_inv c"
      "events (cp0_q c) = \<lparr>evt_type = PI_INT, evt_count = 0x5002\<rparr> # events (cp0_q boot_cp0)"
    using boot_event_first [of PI_INT] by blast
  let ?s = "set_pir PI_STATUS_REG 1 (console\<lparr>r4300 := boot_r4300\<lparr>cp0 := c\<rparr>\<rparr>)"
  have r: "r4300 ?s = boot_r4300\<lparr>cp0 := c\<rparr>" "mreg ?s MI_INTR_REG = 0"
    by (simp_all add: set_pir_def console_def)
  have "d_savestates_get_job console_env s = savestates_job_nothing" for s by (simp add: console_env_def)
  then obtain s' where "gen_interrupt (device_irq console_env) ?s = Some s'" "queued s' = events (cp0_q boot_cp0)"
      "\<not> pi_busy s'" "mreg s' MI_INTR_REG = MI_INTR_PI"
    using pi_completion_delivered [of ?s "\<lparr>evt_type = PI_INT, evt_count = 0x5002\<rparr>" "events (cp0_q boot_cp0)" console_env] c(2,3)
    unfolding r by (auto simp: boot_r4300_def)
  then show ?thesis using c(1) by blast
qed



section \<open>Power-on\<close>

lemma poweron_rdram_spec:
  assumes "dram_size rm \<le> length (dram rm)" "dram_size rm \<le> RDRAM_MAX_SIZE" "4 dvd length (dram rm)"
  shows "\<exists>rm'. poweron_rdram rm = Some rm' \<and> wf_rdram rm' \<and> dram_size rm' = dram_size rm
    \<and> (\<forall>x < dram_size rm. dram rm' ! x = 0)"
proof -
  let ?f = "\<lambda>i (regs :: (rdram_register \<Rightarrow> u32) list). do { m \<leftarrow> rd regs i;
        wr regs i (m(RDRAM_CONFIG_REG := 0xb5190010, RDRAM_DEVICE_ID_REG := 0,
          RDRAM_DELAY_REG := 0x230b0223, RDRAM_MODE_REG := 0xc4c0c0c0, RDRAM_REF_ROW_REG := 0,
          RDRAM_MIN_INTERVAL_REG := 0x0040c0e0, RDRAM_ADDR_SELECT_REG := 0, RDRAM_DEVICE_MANUF_REG := 0x00000500)) }"
  have "dram_size rm div 0x200000 \<le> RDRAM_MAX_SIZE div 0x200000" using assms(2) by (rule div_le_mono)
  then have "get_modules_count rm \<le> RDRAM_MAX_MODULES_COUNT" by (simp add: get_modules_count_def)
  then obtain regs where r: "for_range 0 (get_modules_count rm) ?f (replicate RDRAM_MAX_MODULES_COUNT (\<lambda>_. 0)) = Some regs"
      "length regs = RDRAM_MAX_MODULES_COUNT"
    using for_range_inv [of "\<lambda>_ r. length r = RDRAM_MAX_MODULES_COUNT" 0
        "replicate RDRAM_MAX_MODULES_COUNT (\<lambda>_. 0)" "get_modules_count rm" ?f] by auto
  obtain d where d: "memset (dram rm) 0 0 (dram_size rm) = Some d" using assms(1) by (simp add: memset_def)
  have "length d = length (dram rm)" "\<forall>x < dram_size rm. d ! x = 0"
    using memset_length [OF d] memset_nth [OF d] assms(1) by auto
  then show ?thesis using r d assms by (simp add: poweron_rdram_def Let_def wf_rdram_def)
qed

lemma disable_step:
  assumes "wf_pif p" "k < PIF_CHANNELS_COUNT"
  shows "\<exists>p'. disable_pif_channel k (s\<lparr>pif := p\<rparr>) = Some (s\<lparr>pif := p'\<rparr>) \<and> wf_pif p'"
proof (intro exI conjI)
  show "disable_pif_channel k (s\<lparr>pif := p\<rparr>) = Some (s\<lparr>pif := p\<lparr>channels := (channels p)[k := None]\<rparr>\<rparr>)"
    using assms by (simp add: disable_pif_channel_def set_channel_def wf_pif_def)
  show "wf_pif (p\<lparr>channels := (channels p)[k := None]\<rparr>)"
    using assms by (auto simp: wf_pif_def wf_channel_def dest!: set_update_subset_insert [THEN subsetD])
qed

lemma reset_pif_spec:
  fixes s :: "'a si_sys_scheme"
  assumes "wf_pif (pif s)" "reset_type = 0 \<or> reset_type = 1"
  shows "\<exists>p. reset_pif reset_type s = Some (s\<lparr>pif := p\<rparr>) \<and> wf_pif p"
proof -
  have "\<exists>t. for_range 0 PIF_CHANNELS_COUNT disable_pif_channel s = Some t \<and> (\<exists>p. t = s\<lparr>pif := p\<rparr> \<and> wf_pif p)"
  proof (rule for_range_inv [where P = "\<lambda>_ t. \<exists>p. t = s\<lparr>pif := p\<rparr> \<and> wf_pif p"])
    show "\<exists>p. s = s\<lparr>pif := p\<rparr> \<and> wf_pif p" using assms(1) by (intro exI [of _ "pif s"]) simp
  qed (use disable_step [of _ _ s] in force)
  then obtain p where p: "for_range 0 PIF_CHANNELS_COUNT disable_pif_channel s = Some (s\<lparr>pif := p\<rparr>)" "wf_pif p"
    by blast
  let ?w = "big32 (pif24_value (pif_cic p) reset_type)"
  obtain b where b: "put_le32 (pif_base p) (PIF_ROM_SIZE + 0x24) ?w = Some b"
    using p(2) by (simp add: wf_pif_def put_le32_def)
  have "wf_pif (p\<lparr>pif_base := b\<rparr>)" using p(2) put_le32_length [OF b] by (rule wf_pif_base)
  then obtain p' where "set_pif_ram 0x3f 0 (p\<lparr>pif_base := b\<rparr>) = Some p'" "wf_pif p'"
    using set_pif_ram_ok [of "p\<lparr>pif_base := b\<rparr>" "0x3f" 0] by auto
  moreover have "reset_type AND NOT 1 = 0" using assms(2) by auto
  ultimately show ?thesis using p(1) b by (intro exI [of _ p']) (simp add: reset_pif_def)
qed

text \<open>What the parts of the machine that a joybus device is handed may do: change only what lies outside.\<close>

definition outside_machine :: "('a device_scheme \<Rightarrow> 'a device_scheme) \<Rightarrow> bool" where
  "outside_machine f \<longleftrightarrow> (\<forall>s. device.truncate (f s) = device.truncate s)"

text \<open>
  C18: Power-on establishes what the other claims start from. For buffers of their sizes, whatever they and
  all registers hold, with joybus devices that keep to their own state, \<^verbatim>\<open>poweron_device\<close> returns a machine
  whose event queue satisfies the scheduling invariant and holds the special and the compare event, whose
  RDRAM is well formed and reads 0 everywhere, which tracks no frame buffer, in which no interrupt line is
  up or unmasked, the signal processor is halted with an idle transfer queue, the peripheral interface is
  idle, and the PIF is well formed.
\<close>

theorem poweron_device_ready:
  fixes s :: "'a device_scheme"
  assumes "wf_pool (q_pool (cp0_q (cp0 (r4300 s))))"
    and "dram_size (rdram s) \<le> length (dram (rdram s))" "dram_size (rdram s) \<le> RDRAM_MAX_SIZE"
      "4 dvd length (dram (rdram s))"
    and "length (sp_mem (sp s)) = SP_MEM_SIZE" "wf_pif (pif s)" "\<And>i. outside_machine (d_poweron_jbd env i)"
  shows "\<exists>s'. poweron_device env False s = Some s'
    \<and> cp0_inv (cp0 (r4300 s')) \<and> map evt_type (queued s') = [SPECIAL_INT, COMPARE_INT]
    \<and> wf_rdram (rdram s') \<and> dram_size (rdram s') = dram_size (rdram s) \<and> (\<forall>x < dram_size (rdram s). dram (rdram s') ! x = 0)
    \<and> fb_absent (fb_of s') = Some True \<and> mreg s' MI_INTR_REG = 0 \<and> mreg s' MI_INTR_MASK_REG = 0
    \<and> bit (spr s' SP_STATUS_REG) 0 \<and> sp_fifo_inv s' \<and> spr s' SP_DMA_BUSY_REG = 0
    \<and> \<not> pi_busy s' \<and> wf_pif (pif s')"
proof -
  obtain rm where rm: "poweron_rdram (rdram s) = Some rm" "wf_rdram rm" "dram_size rm = dram_size (rdram s)"
      "\<forall>x < dram_size (rdram s). dram rm ! x = 0"
    using poweron_rdram_spec [OF assms(2-4)] by blast
  obtain c where c: "poweron_cp0 (cp0 (r4300 s)) = Some c" "cp0_inv c"
      "events (cp0_q c) = [\<lparr>evt_type = SPECIAL_INT, evt_count = 0x80000000\<rparr>, \<lparr>evt_type = COMPARE_INT, evt_count = 0\<rparr>]"
    using poweron_cp0_spec [OF assms(1)] by blast
  obtain r where r: "poweron_r4300 (r4300 s) = Some r" "cp0 r = c"
    using c(1) by (simp add: poweron_r4300_def upd_cp0_def)
  obtain m where m: "memset (sp_mem (sp s)) 0 0 SP_MEM_SIZE = Some m" using assms(5) by (simp add: memset_def)
  obtain b where b: "memset (pif_base (pif s)) PIF_ROM_SIZE 0 PIF_RAM_SIZE = Some b"
    using assms(6) by (simp add: wf_pif_def memset_def)
  have wfb: "wf_pif ((pif s)\<lparr>pif_base := b\<rparr>)" by (rule wf_pif_base [OF assms(6) memset_length [OF b]])
  define z where "z = \<lparr>dma_dir = SP_DMA_READ, dma_length = 0, dma_memaddr = 0, dma_dramaddr = 0\<rparr>"
  define s1 where "s1 = set_unsafe (\<lambda>u. u AND NOT INTR_UNSAFE_RSP)
     (s\<lparr>rdram := rm, r4300 := r, dp := poweron_rdp (dp s), sp := (sp s)\<lparr>sp_mem := m,
       sp_regs := (\<lambda>_. 0)(SP_STATUS_REG := 1, SP_RD_LEN_REG := 0xff8, SP_WR_LEN_REG := 0xff8),
       sp_regs2 := (\<lambda>_. 0), rsp_task_locked := False, fifo0 := z, fifo1 := z\<rparr>\<rparr>)"
  define s2 where "s2 = s1\<lparr>ai := poweron_ai (ai s), mi := poweron_mi (mi s), pi_ctl := poweron_pi (pi_ctl s),
      ri := poweron_ri (ri s), si := poweron_si (si s), vi := poweron_vi (CountPerScanlineOverride (d_av env)) (vi s)\<rparr>"
  have "poweron_rsp (s\<lparr>rdram := rm, r4300 := r, dp := poweron_rdp (dp s)\<rparr>) = Some s1"
    using m by (simp add: poweron_rsp_def s1_def z_def Let_def)
  moreover obtain p where p: "poweron_pif s2 = Some (s2\<lparr>pif := p\<rparr>)" "wf_pif p"
  proof -
    have "pif s2 = pif s" by (simp add: s2_def s1_def set_unsafe_def)
    then have "poweron_pif s2 = reset_pif 0 (s2\<lparr>pif := (pif s)\<lparr>pif_base := b\<rparr>\<rparr>)"
      using b by (simp add: poweron_pif_def)
    then show ?thesis using reset_pif_spec [of "s2\<lparr>pif := (pif s)\<lparr>pif_base := b\<rparr>\<rparr>" 0] wfb that by auto
  qed
  define s3 where "s3 = s2\<lparr>pif := p, cart := poweron_cart (cart s), isv := poweron_is_viewer (isv s)\<rparr>"
  define s' where "s' = fold (d_poweron_jbd env) [0..<4] s3"
  moreover have "ai s1 = ai s" "mi s1 = mi s" "pi_ctl s1 = pi_ctl s" "ri s1 = ri s" "si s1 = si s" "vi s1 = vi s"
      "cart s2 = cart s" "isv s2 = isv s"
    by (simp_all add: s1_def s2_def set_unsafe_def)
  ultimately have on: "poweron_device env False s = Some s'"
    by (simp add: poweron_device_def upd_r4300_def rm(1) r(1) p(1) s2_def [symmetric] s3_def [symmetric] s'_def [symmetric] Let_def)
  have "device.truncate (fold (d_poweron_jbd env) ks t) = device.truncate t" for ks t
    using assms(7) by (induction ks arbitrary: t) (auto simp: outside_machine_def)
  then have "device.truncate s' = device.truncate s3" by (simp add: s'_def)
  then have same: "r4300 s' = r4300 s3" "rdram s' = rdram s3" "dp s' = dp s3" "mi s' = mi s3" "sp s' = sp s3"
      "pi_ctl s' = pi_ctl s3" "pif s' = pif s3"
    by (simp_all add: device.truncate_def)
  have f: "rdram s3 = rm" "dp s3 = poweron_rdp (dp s)" "mi s3 = poweron_mi (mi s)" "pi_ctl s3 = poweron_pi (pi_ctl s)"
      "pif s3 = p" "sp_regs (sp s3) = (\<lambda>_. 0)(SP_STATUS_REG := 1, SP_RD_LEN_REG := 0xff8, SP_WR_LEN_REG := 0xff8)"
      "cp0 (r4300 s3) = c\<lparr>interrupt_unsafe_state := interrupt_unsafe_state c AND NOT INTR_UNSAFE_RSP\<rparr>"
    by (simp_all add: s3_def s2_def s1_def set_unsafe_def r(2))
  have "cp0_inv (c\<lparr>interrupt_unsafe_state := u\<rparr>)" for u
  proof -
    have "due (c\<lparr>interrupt_unsafe_state := u\<rparr>) = due c" by (rule ext) (simp add: due_def now_def Let_def)
    then show ?thesis using c(2) by (simp add: cp0_inv_def)
  qed
  then show ?thesis
    using on rm(2-4) c(3) p(2)
    by (intro exI [of _ s'])
      (simp add: same f queued_def fb_absent_poweron poweron_rdp_def poweron_mi_def poweron_pi_def pi_busy_def
        sp_fifo_inv_def sp_queue_bits_def ends_pending_def bit_1_iff)
qed

theorem poweron_device_ready_witness:
  "\<exists>s'. poweron_device console_env False (console\<lparr>pi_ctl := \<lparr>pi_regs = \<lambda>_. 0xffffffff\<rparr>\<rparr>) = Some s'
    \<and> \<not> pi_busy s' \<and> dram (rdram s') ! 0x1234 = 0"
proof -
  let ?s = "console\<lparr>pi_ctl := \<lparr>pi_regs = \<lambda>_. 0xffffffff\<rparr>\<rparr>"
  have "wf_pool (q_pool (cp0_q (cp0 (r4300 console))))" by (simp add: console_queue boot_cp0_spec)
  moreover have "dram_size (rdram console) = RDRAM_MAX_SIZE" by (simp add: console_def)
  moreover have "wf_pif (pif console)" by (auto simp: wf_pif_def console_def wf_channel_def)
  moreover have "outside_machine (d_poweron_jbd console_env i :: device \<Rightarrow> device)" for i
    by (simp add: outside_machine_def console_env_def)
  ultimately show ?thesis
    using poweron_device_ready [of ?s console_env] by (auto simp: console_facts dvd_eq_mod_eq_0)
qed

end
