(* ===== verification/Interp_Props.thy ===== *)
theory Interp_Props
  imports Mips_Arith System_Claims
begin

text \<open>
  The interpreter on code in the two unmapped segments: what a fetch returns, one step on a plain
  instruction, and the stages of a jump around its delay slot.
\<close>

section \<open>Fetches\<close>

definition code_at :: "'a device_scheme dev_env \<Rightarrow> 'a device_scheme \<Rightarrow> u32 \<Rightarrow> u32 \<Rightarrow> bool" where
  "code_at env s a w \<longleftrightarrow> a AND 0xc0000000 = 0x80000000 \<and> mem_word env (a AND 0x1ffffffc) s = Some w"

lemma mem_word_r4300 [simp]: "mem_word env a (s\<lparr>r4300 := r\<rparr>) = mem_word env a s"
  by (simp add: mem_word_def)

lemma code_at_r4300 [simp]: "code_at env (s\<lparr>r4300 := r\<rparr>) a w = code_at env s a w"
  by (simp add: code_at_def)

lemma code_at_on_core [simp]: "code_at env (on_core f s) a w = code_at env s a w"
  by (simp add: on_core_def)

lemma fetch_code: "code_at env s a w \<Longrightarrow> fast_mem_access env a s = Some (Some w, s)"
  by (simp add: code_at_def fast_mem_access_def translate_def)

lemma r4300_on_core [simp]: "r4300 (on_core f s) = f (r4300 s)"
  by (simp add: on_core_def)

lemma interpret_insn:
  assumes "code_at env s (pc (r4300 s)) op" "decode env op = Insn f"
  shows "InterpretOpcode env s = f s"
  by (subst InterpretOpcode.simps) (simp add: fetch_code [OF assms(1)] assms(2))

lemma not_idle:
  assumes "code_at env s (pc (r4300 s) + 4) slot" "slot \<noteq> 0"
  shows "is_idle_loop env t op s = Some False"
  by (cases t) (simp_all add: is_idle_loop_def delay_slot_is_nop_def fetch_code [OF assms(1)] assms(2) Let_def)

lemma interpret_jump:
  assumes "code_at env s (pc (r4300 s)) op" "decode env op = Jump t jmp"
    and "code_at env s (pc (r4300 s) + 4) slot" "slot \<noteq> 0"
  shows "InterpretOpcode env s = run_jump env (InterpretOpcode env) jmp op s"
  by (subst InterpretOpcode.simps) (simp add: fetch_code [OF assms(1)] assms(2) not_idle [OF assms(3,4)])

section \<open>The pending jump\<close>

lemma sync_next_total:
  assumes "wf_queue (cp0_q c)"
  shows "\<exists>n k. sync_next c = Some (c\<lparr>next_interrupt := n, cycle_count := k\<rparr>)"
proof (cases "q_first (cp0_q c)")
  case None
  then show ?thesis by (auto simp: sync_next_def)
next
  case (Some a)
  then have "q_nodes (cp0_q c) \<noteq> []" using assms by (auto simp: wf_queue_def)
  from deref_first [OF assms] this Some obtain n where "rd (nodes (q_pool (cp0_q c))) a = Some n"
    by (auto simp: deref_def events_def)
  then show ?thesis using Some by (auto simp: sync_next_def)
qed

text \<open>After an exception in a delay slot the dispatcher resumes at the address the exception chose.\<close>

lemma gen_interrupt_pending_jump:
  assumes "wf_queue (cp0_q (cp0 (r4300 s)))" "skip_jump (r4300 s) \<noteq> 0" "reset_hard_job (r4300 s) = 0"
    and "stop (r4300 s) \<noteq> 1" "savestates_get_job env s \<noteq> savestates_job_load"
    and "emu_mode (r4300 s) = EMUMODE_PURE_INTERPRETER"
  shows "\<exists>n k. gen_interrupt env s = Some (s\<lparr>r4300 := (r4300 s)\<lparr>skip_jump := 0, pc := skip_jump (r4300 s),
    cp0 := (cp0 (r4300 s))\<lparr>next_interrupt := n, cycle_count := k, last_addr := skip_jump (r4300 s)\<rparr>\<rparr>\<rparr>)"
proof -
  obtain n k where "sync_next (cp0 (r4300 s)) = Some ((cp0 (r4300 s))\<lparr>next_interrupt := n, cycle_count := k\<rparr>)"
    using sync_next_total [OF assms(1)] by blast
  then show ?thesis using assms
    by - (rule exI [of _ n], rule exI [of _ k],
       simp add: gen_interrupt_def upd_r4300_def upd_cp0_def generic_jump_to_def Let_def)
qed

section \<open>Exceptions in a delay slot\<close>

lemma drop_bit_mask_word: "drop_bit n (push_bit n 1 - 1 :: u32) = 0"
proof -
  have "push_bit n 1 - 1 = (mask n :: u32)" by (simp add: mask_eq_exp_minus_1 push_bit_eq_mult)
  then show ?thesis by (simp only:) (rule bit_word_eqI, simp add: bit_simps)
qed

lemma elapsed_none: "pc r = last_addr (cp0 r) \<Longrightarrow> elapsed_count r = 0"
  using drop_bit_mask_word by (simp add: elapsed_count_def Let_def)

lemma update_count_none: "pc r = last_addr (cp0 r) \<Longrightarrow> cp0_update_count r = r"
  by (simp add: cp0_update_count_def elapsed_none Let_def)

lemma exception_general_full:
  assumes "emu_mode r = EMUMODE_PURE_INTERPRETER" "delay_slot r = 1"
  shows "\<exists>cnt. exception_general r = Some (r\<lparr>pc := 0x80000180, skip_jump := 0x80000180, dyna_interp := 0,
    cp0 := (cp0 r)\<lparr>cp0_regs := (cp0_regs (cp0 r))(
        CP0_COUNT_REG := cnt,
        CP0_STATUS_REG := creg r CP0_STATUS_REG OR CP0_STATUS_EXL,
        CP0_EPC_REG := pc r - 4,
        CP0_CAUSE_REG := creg r CP0_CAUSE_REG OR CP0_CAUSE_BD),
      next_interrupt := 0, cycle_count := 0, last_addr := 0x80000180\<rparr>\<rparr>)"
  using assms
  by (intro exI [of _ "creg r CP0_COUNT_REG + elapsed_count r"])
    (simp add: exception_general_def r4300_simps exception_epilog_def set_creg_def cp0_update_count_def fun_upd_twist)

section \<open>A machine for examples\<close>

definition le_bytes :: "u32 \<Rightarrow> u8 list" where
  "le_bytes w = map (byte_of w) [0, 1, 2, 3]"

text \<open>The console with a program at the start of a small memory, about to run it.\<close>

definition running :: "u32 list \<Rightarrow> device" where
  "running ws = console\<lparr>rdram := (rdram console)\<lparr>dram := concat (map le_bytes ws), dram_size := 4 * length ws\<rparr>,
     r4300 := (r4300 console)\<lparr>pc := 0x80000000, cp0 := (cp0 (r4300 console))\<lparr>last_addr := 0x80000000\<rparr>\<rparr>\<rparr>"

lemma length_le_bytes: "length (concat (map le_bytes ws)) = 4 * length ws"
  by (induction ws) (simp_all add: le_bytes_def)

lemma nth_le_bytes: "i < length ws \<Longrightarrow> k < 4 \<Longrightarrow> concat (map le_bytes ws) ! (4 * i + k) = byte_of (ws ! i) k"
proof (induction ws arbitrary: i)
  case (Cons w ws)
  then show ?case
    by (cases i) (auto simp: le_bytes_def nth_append nth_Cons' numeral_eq_Suc less_Suc_eq)
qed simp

lemma get_le32_program: "i < length ws \<Longrightarrow> get_le32 (concat (map le_bytes ws)) (4 * i) = Some (ws ! i)"
  using nth_le_bytes [of i ws 0] nth_le_bytes [of i ws 1] nth_le_bytes [of i ws 2] nth_le_bytes [of i ws 3]
  by (simp add: get_le32_def rd_def length_le_bytes)

lemma mem_word_running:
  "i < length ws \<Longrightarrow> unat a = 4 * i \<Longrightarrow> 4 * i < RDRAM_MAX_SIZE \<Longrightarrow> mem_word env a (running ws) = Some (ws ! i)"
  by (simp add: mem_word_def running_def get_le32_program)

lemma code_at_running:
  "code_at env (running (w0 # ws)) 0x80000000 w0"
  "code_at env (running (w0 # w1 # ws)) 0x80000004 w1"
  "code_at env (running (w0 # w1 # w2 # ws)) 0x80000008 w2"
  using mem_word_running [of 0 "w0 # ws" 0 env] mem_word_running [of 1 "w0 # w1 # ws" 4 env]
    mem_word_running [of 2 "w0 # w1 # w2 # ws" 8 env]
  by (simp_all add: code_at_def)

lemma running_facts:
  "pc (r4300 (running ws)) = 0x80000000" "last_addr (cp0 (r4300 (running ws))) = 0x80000000"
  "emu_mode (r4300 (running ws)) = EMUMODE_PURE_INTERPRETER" "stop (r4300 (running ws)) = 0"
  "reset_hard_job (r4300 (running ws)) = 0" "skip_jump (r4300 (running ws)) = 0" "delay_slot (r4300 (running ws)) = 0"
  "gpr (r4300 (running ws)) = (\<lambda>_. 0)" "cp0_inv (cp0 (r4300 (running ws)))"
proof -
  have "due (c\<lparr>last_addr := n\<rparr>) = due c" for c n by (rule ext) (simp add: due_def now_def Let_def)
  then have "cp0_inv (c\<lparr>last_addr := n\<rparr>) = cp0_inv c" for c n by (simp add: cp0_inv_def)
  then show "cp0_inv (cp0 (r4300 (running ws)))" using console_queue(5) by (simp add: running_def)
qed (simp_all add: running_def console_r4300 boot_r4300_def)

lemma console_env_jobs: "savestates_get_job (d_irq console_env) s = savestates_job_nothing"
  by (simp add: console_env_def idle_env_def)

end
