(* ===== verification/Interp_Claims.thy ===== *)
theory Interp_Claims
  imports Interp_Props
begin

text \<open>
  Properties of the interpreter on delay slots, idle loops and the writes of coprocessor 0 that poll
  for interrupts.
\<close>

section \<open>An exception in a delay slot\<close>

lemma jump_link_frame [simp]:
  "pc (jump_link j r) = pc r" "cp0 (jump_link j r) = cp0 r" "emu_mode (jump_link j r) = emu_mode r"
  "stop (jump_link j r) = stop r" "reset_hard_job (jump_link j r) = reset_hard_job r"
  "skip_jump (jump_link j r) = skip_jump r" "delay_slot (jump_link j r) = delay_slot r"
  "cp1 (jump_link j r) = cp1 r"
  by (simp_all add: jump_link_def set_gpr_def)

text \<open>
  C6: An instruction that raises an exception in the delay slot of a jump: the exception is taken with
  the address of the jump as return address and the delay slot bit set, at the general vector, and the
  jump does not happen although its link register is written; no jump stays pending. The queue of
  events is in order, no save state and no reset is requested, and the code is in an unmapped segment.
\<close>

theorem exception_in_delay_slot:
  assumes "code_at env s (pc (r4300 s)) op" "code_at env s (pc (r4300 s) + 4) slot" "slot \<noteq> 0"
    and "decode env op = Jump t jmp" "decode env slot = core_try (raise_exception c)"
    and "\<not> j_cop1 (jmp op (r4300 s))" "\<not> j_likely (jmp op (r4300 s)) \<or> j_taken (jmp op (r4300 s))"
    and "emu_mode (r4300 s) = EMUMODE_PURE_INTERPRETER" "stop (r4300 s) = 0" "reset_hard_job (r4300 s) = 0"
    and "wf_queue (cp0_q (cp0 (r4300 s)))" "\<And>s. savestates_get_job (d_irq env) s = savestates_job_nothing"
  shows "\<exists>s'. InterpretOpcode env s = Some s' \<and> pc (r4300 s') = 0x80000180
    \<and> creg (r4300 s') CP0_EPC_REG = pc (r4300 s)
    \<and> creg (r4300 s') CP0_CAUSE_REG = c OR CP0_CAUSE_BD
    \<and> creg (r4300 s') CP0_STATUS_REG = creg (r4300 s) CP0_STATUS_REG OR CP0_STATUS_EXL
    \<and> gpr (r4300 s') = gpr (jump_link (jmp op (r4300 s)) (r4300 s))
    \<and> delay_slot (r4300 s') = 0 \<and> skip_jump (r4300 s') = 0"
proof -
  let ?j = "jmp op (r4300 s)"
  let ?s1 = "on_core enter_delay_slot (s\<lparr>r4300 := jump_link ?j (r4300 s)\<rparr>)"
  let ?r1 = "set_creg CP0_CAUSE_REG c (r4300 ?s1)"
  have at: "code_at env ?s1 (pc (r4300 ?s1)) slot" using assms(2) by (simp add: enter_delay_slot_def)
  obtain r2 where r2: "exception_general ?r1 = Some r2"
    "pc r2 = 0x80000180" "skip_jump r2 = 0x80000180" "last_addr (cp0 r2) = 0x80000180" "cycle_count (cp0 r2) = 0"
    "creg r2 CP0_EPC_REG = pc (r4300 s)" "creg r2 CP0_CAUSE_REG = c OR CP0_CAUSE_BD"
    "creg r2 CP0_STATUS_REG = creg (r4300 s) CP0_STATUS_REG OR CP0_STATUS_EXL"
    "gpr r2 = gpr (jump_link ?j (r4300 s))" "cp0_q (cp0 r2) = cp0_q (cp0 (r4300 s))"
    "emu_mode r2 = EMUMODE_PURE_INTERPRETER" "stop r2 = 0" "reset_hard_job r2 = 0"
    using exception_general_full [of ?r1] assms(8-10)
    by (auto simp: enter_delay_slot_def set_creg_def)
  have slot: "InterpretOpcode env ?s1 = Some (?s1\<lparr>r4300 := r2\<rparr>)"
    unfolding interpret_insn [OF at assms(5) [unfolded core_try_def]]
    using r2(1) by (simp add: upd_r4300_def raise_exception_def)
  let ?s3 = "on_core (\<lambda>r. r\<lparr>cp0 := (cp0 r)\<lparr>last_addr := pc r\<rparr>\<rparr>) (on_core (leave_delay_slot ?j) (?s1\<lparr>r4300 := r2\<rparr>))"
  have r3: "r4300 ?s3 = r2\<lparr>delay_slot := 0, cp0 := (cp0 r2)\<lparr>last_addr := 0x80000180\<rparr>\<rparr>"
    using r2 by (simp add: leave_delay_slot_def update_count_none Let_def)
  have "InterpretOpcode env s = poll_interrupts env ?s3"
    unfolding interpret_jump [OF assms(1,4,2,3)] run_jump_def
    using assms(6,7) slot by (simp add: jump_unusable_def jump_end_def Let_def)
  also have "\<dots> = gen_interrupt (d_irq env) ?s3"
    using r2(5) unfolding poll_interrupts_def r3 by simp
  finally have e: "InterpretOpcode env s = gen_interrupt (d_irq env) ?s3" .
  have "wf_queue (cp0_q (cp0 (r4300 ?s3)))" "skip_jump (r4300 ?s3) \<noteq> 0" "reset_hard_job (r4300 ?s3) = 0"
    "stop (r4300 ?s3) \<noteq> 1" "savestates_get_job (d_irq env) ?s3 \<noteq> savestates_job_load"
    "emu_mode (r4300 ?s3) = EMUMODE_PURE_INTERPRETER"
    unfolding r3 using r2 assms(11,12) by simp_all
  from gen_interrupt_pending_jump [OF this] obtain s' where g: "gen_interrupt (d_irq env) ?s3 = Some s'"
    "pc (r4300 s') = skip_jump (r4300 ?s3)" "skip_jump (r4300 s') = 0" "gpr (r4300 s') = gpr (r4300 ?s3)"
    "cp0_regs (cp0 (r4300 s')) = cp0_regs (cp0 (r4300 ?s3))" "delay_slot (r4300 s') = delay_slot (r4300 ?s3)" by auto
  show ?thesis unfolding e using g r2 unfolding r3 by simp
qed

text \<open>\<open>JAL 0x80000400\<close> with \<open>SYSCALL\<close> in its delay slot.\<close>

theorem exception_in_delay_slot_witness:
  "\<exists>s'. InterpretOpcode console_env (running [0x0C000100, 0x0000000C]) = Some s'
    \<and> pc (r4300 s') = 0x80000180 \<and> creg (r4300 s') CP0_EPC_REG = 0x80000000
    \<and> creg (r4300 s') CP0_CAUSE_REG = 0x80000020 \<and> gpr (r4300 s') 31 = 0xFFFFFFFF80000008"
proof -
  let ?s = "running [0x0C000100, 0x0000000C]"
  have d: "decode console_env 0x0C000100 = Jump Absolute_idle JAL" "decode console_env 0x0000000C = core_try (raise_exception 0x20)"
    by (simp_all add: decode_def decode_special_def SYSCALL_def Let_def)
  have j: "JAL 0x0C000100 (r4300 ?s) = \<lparr>j_taken = True, j_target = 0x80000400, j_link = 31, j_likely = False, j_cop1 = False\<rparr>"
    by (simp add: JAL_def jump_to_def absolute_target_def JUMP_OF_def running_facts)
  have w: "wf_queue (cp0_q (cp0 (r4300 ?s)))" using running_facts(9) by (simp add: cp0_inv_def)
  show ?thesis
    using exception_in_delay_slot [of console_env ?s "0x0C000100" "0x0000000C" Absolute_idle JAL "0x20", OF _ _ _ d _ _ _ _ _ w]
    by (auto simp: running_facts code_at_running j console_env_jobs jump_link_def set_gpr_def SE32_def)
qed

section \<open>Branches and their delay slot\<close>

text \<open>A plain instruction changes the general registers and moves to the next address.\<close>

definition straight :: "(r4300_core \<Rightarrow> r4300_core) \<Rightarrow> bool" where
  "straight f \<longleftrightarrow> (\<forall>r. \<exists>g h l. f r = r\<lparr>gpr := g, hi := h, lo := l, pc := pc r + 4\<rparr>)"

lemma straight_set_rd: "(\<And>r. f r = set_rd op (v r) r) \<Longrightarrow> straight f"
  unfolding straight_def
  by (rule allI, rule_tac x = "(gpr r)(RD_OF op := v r)" in exI, rule_tac x = "hi r" in exI, rule_tac x = "lo r" in exI)
    (simp add: set_rd_def set_gpr_def ADD_TO_PC_def)

lemma straight_set_rt: "(\<And>r. f r = set_rt op (v r) r) \<Longrightarrow> straight f"
  unfolding straight_def
  by (rule allI, rule_tac x = "(gpr r)(RT_OF op := v r)" in exI, rule_tac x = "hi r" in exI, rule_tac x = "lo r" in exI)
    (simp add: set_rt_def set_gpr_def ADD_TO_PC_def)

lemma update_count_cp0:
  "cp0 r = cp0 r' \<Longrightarrow> pc r = pc r' \<Longrightarrow> cp0 (cp0_update_count r) = cp0 (cp0_update_count r')"
  by (simp add: cp0_update_count_def elapsed_count_def Let_def)

lemma update_count_gpr [simp]: "gpr (cp0_update_count r) = gpr r" "skip_jump (cp0_update_count r) = skip_jump r"
  by (simp_all add: cp0_update_count_def Let_def)

lemma update_count_core: "cp0_update_count r = r\<lparr>cp0 := cp0 (cp0_update_count r)\<rparr>"
  by (simp add: cp0_update_count_def Let_def)

text \<open>
  C2: A jump or branch executes exactly one more instruction, the one in its delay slot, unless it is a
  branch-likely that is not taken, which executes none; it continues at its target when taken and after
  the delay slot otherwise, writes its link register before the slot runs, and charges the clock for
  both instructions. The slot holds a plain instruction and no event falls due.
\<close>

theorem branch_and_delay_slot:
  fixes s :: "'a device_scheme"
  defines "a \<equiv> pc (r4300 s)"
  assumes "code_at env s a op" "code_at env s (a + 4) slot"
    and "decode env op = Jump t jmp" "is_idle_loop env t op s = Some False"
    and "decode env slot = core_insn f slot" "straight (f slot)"
    and "\<not> j_cop1 (jmp op (r4300 s))" "skip_jump (r4300 s) = 0"
    and "cycle_count (cp0 (cp0_update_count ((r4300 s)\<lparr>pc := a + 8\<rparr>))) <s 0"
  shows "\<exists>s'. InterpretOpcode env s = Some s'
    \<and> (let j = jmp op (r4300 s); r1 = jump_link j (r4300 s); r' = r4300 s' in
        pc r' = (if j_taken j then j_target j else a + 8)
      \<and> gpr r' = (if j_likely j \<and> \<not> j_taken j then gpr r1 else gpr (f slot (enter_delay_slot r1)))
      \<and> cp0 r' = (cp0 (cp0_update_count ((r4300 s)\<lparr>pc := a + 8\<rparr>)))\<lparr>last_addr := pc r'\<rparr>
      \<and> skip_jump r' = 0)"
proof -
  let ?j = "jmp op (r4300 s)"
  let ?r1 = "jump_link ?j (r4300 s)"
  let ?c = "cp0 (cp0_update_count ((r4300 s)\<lparr>pc := a + 8\<rparr>))"
  let ?s1 = "on_core enter_delay_slot (s\<lparr>r4300 := ?r1\<rparr>)"
  have step: "InterpretOpcode env s = run_jump env (InterpretOpcode env) jmp op s"
    by (subst InterpretOpcode.simps) (simp add: fetch_code [OF assms(2)] assms(4,5) flip: a_def)
  have poll: "poll_interrupts env (on_core (\<lambda>r. r\<lparr>cp0 := (cp0 r)\<lparr>last_addr := pc r\<rparr>\<rparr>) s2)
      = Some (on_core (\<lambda>r. r\<lparr>cp0 := (cp0 r)\<lparr>last_addr := pc r\<rparr>\<rparr>) s2)"
    if "cp0 (r4300 s2) = ?c" for s2 :: "'a device_scheme"
    using assms(10) that by (simp add: poll_interrupts_def word_sle_eq word_sless_alt)
  show ?thesis
  proof (cases "j_likely ?j \<and> \<not> j_taken ?j")
    case True
    let ?s2 = "on_core nullify_delay_slot (s\<lparr>r4300 := ?r1\<rparr>)"
    have c: "cp0 (r4300 ?s2) = ?c"
      by (simp add: nullify_delay_slot_def a_def) (rule update_count_cp0; simp)
    have "InterpretOpcode env s = Some (on_core (\<lambda>r. r\<lparr>cp0 := (cp0 r)\<lparr>last_addr := pc r\<rparr>\<rparr>) ?s2)"
      unfolding step run_jump_def using True assms(8) poll [OF c]
      by (simp add: jump_unusable_def jump_end_def Let_def)
    then show ?thesis using True c assms(9)
      by (simp add: nullify_delay_slot_def frame_simps a_def Let_def)
  next
    case False
    have "code_at env ?s1 (pc (r4300 ?s1)) slot" using assms(3) by (simp add: enter_delay_slot_def a_def)
    from interpret_insn [OF this assms(6) [unfolded core_insn_def]]
    have slot: "InterpretOpcode env ?s1 = Some (?s1\<lparr>r4300 := f slot (enter_delay_slot ?r1)\<rparr>)"
      by (simp add: upd_r4300_def)
    obtain g h l where f: "f slot (enter_delay_slot ?r1) =
        (enter_delay_slot ?r1)\<lparr>gpr := g, hi := h, lo := l, pc := pc (enter_delay_slot ?r1) + 4\<rparr>"
      using assms(7) unfolding straight_def by meson
    let ?s2 = "on_core (leave_delay_slot ?j) (?s1\<lparr>r4300 := f slot (enter_delay_slot ?r1)\<rparr>)"
    have y: "skip_jump (f slot (enter_delay_slot ?r1)) = 0" "pc (f slot (enter_delay_slot ?r1)) = a + 8"
      unfolding f using assms(9) by (simp_all add: enter_delay_slot_def a_def)
    have "cp0 (cp0_update_count (f slot (enter_delay_slot ?r1))) = ?c"
      unfolding f by (rule update_count_cp0) (simp_all add: enter_delay_slot_def a_def)
    then have u: "cp0_update_count (f slot (enter_delay_slot ?r1)) = (f slot (enter_delay_slot ?r1))\<lparr>cp0 := ?c\<rparr>"
      by (subst update_count_core) simp
    have r2: "r4300 ?s2 = (f slot (enter_delay_slot ?r1))\<lparr>cp0 := ?c, delay_slot := 0,
        pc := if j_taken ?j then j_target ?j else a + 8\<rparr>"
      using y u by (simp add: leave_delay_slot_def Let_def)
    then have c: "cp0 (r4300 ?s2) = ?c" by simp
    have "InterpretOpcode env s = Some (on_core (\<lambda>r. r\<lparr>cp0 := (cp0 r)\<lparr>last_addr := pc r\<rparr>\<rparr>) ?s2)"
      unfolding step run_jump_def using False assms(8) poll [OF c] slot
      by (simp add: jump_unusable_def jump_end_def Let_def)
    then show ?thesis using False r2 y(1) by (auto simp: Let_def)
  qed
qed

lemma boot_cp0_cycle: "cycle_count boot_cp0 = 0x80005000"
  using boot_cp0_spec(1,2,4) by (simp add: cp0_inv_def)

text \<open>\<open>BEQ r0, r0, +4\<close> with \<open>ADDIU r8, r0, 5\<close> in its delay slot.\<close>

theorem branch_and_delay_slot_witness:
  "\<exists>s'. InterpretOpcode console_env (running [0x10000004, 0x24080005]) = Some s'
    \<and> pc (r4300 s') = 0x80000014 \<and> gpr (r4300 s') 8 = 5"
proof -
  let ?s = "running [0x10000004, 0x24080005]"
  have d: "decode console_env 0x10000004 = Jump Relative_idle BEQ" "decode console_env 0x24080005 = core_insn ADDIU 0x24080005"
    by (simp_all add: decode_def nop_if_zero_def RT_OF_def)
  have j: "BEQ 0x10000004 (r4300 ?s) = \<lparr>j_taken = True, j_target = 0x80000014, j_link = 0, j_likely = False, j_cop1 = False\<rparr>"
    by (simp add: BEQ_def branch_def relative_target_def imm_se32_def IMM16S_OF_def rrs_def rrt_def running_facts)
  have n: "is_idle_loop console_env Relative_idle 0x10000004 ?s = Some False"
    by (rule not_idle [of _ _ "0x24080005"]) (simp_all add: running_facts code_at_running)
  have f: "straight (ADDIU 0x24080005)" by (rule straight_set_rt) (simp add: ADDIU_def)
  have c: "cycle_count (cp0 (cp0_update_count ((r4300 ?s)\<lparr>pc := pc (r4300 ?s) + 8\<rparr>))) <s 0"
    using boot_cp0_cycle
    by (simp add: cp0_update_count_def elapsed_count_def running_def console_r4300 boot_r4300_def boot_cp0_spec word_sless_alt Let_def)
  show ?thesis
    using branch_and_delay_slot [of console_env ?s, OF _ _ d(1) n d(2) f _ _ c]
    by (auto simp: running_facts code_at_running j jump_link_def set_gpr_def ADDIU_def set_rt_def enter_delay_slot_def SE32_def
      rrs32_def rrs_def imm_se32_def IMM16S_OF_def RT_OF_def RS_OF_def ADD_TO_PC_def Let_def)
qed

section \<open>Idle loops\<close>

lemma skip_to_event_inv:
  assumes "cp0_inv (cp0 r)" "events (cp0_q (cp0 r)) = e # es" "cycle_count (cp0 (cp0_update_count r)) <s 0"
  shows "skip_to_event r = r\<lparr>cp0 := (cp0 r)\<lparr>cp0_regs := (cp0_regs (cp0 r))(CP0_COUNT_REG := evt_count e),
    cycle_count := 0, last_addr := pc r\<rparr>\<rparr>"
  using assms by (simp add: skip_to_event_def cp0_update_count_def cp0_inv_def Let_def)

lemma decode_nop: "decode env 0 = Insn (upd_r4300 (\<lambda>r. Some (ADD_TO_PC r)))"
  by (simp add: decode_def decode_special_def nop_if_zero_def RD_OF_def NOP_def)

text \<open>
  C8: A jump to itself with an empty delay slot does not spin: when the next event is still ahead, one
  step of the interpreter sets the count register to the count of that event plus the cost of the two
  instructions, and enters the dispatcher with the program counter at the jump and the registers, the
  queue and the rest of the machine as they were.
\<close>

theorem idle_loop_reaches_event:
  fixes s :: "'a device_scheme"
  defines "a \<equiv> pc (r4300 s)"
  defines "n \<equiv> elapsed_count ((r4300 s)\<lparr>pc := a + 8, cp0 := (cp0 (r4300 s))\<lparr>last_addr := a\<rparr>\<rparr>)"
  assumes "code_at env s a op" "code_at env s (a + 4) 0"
    and "decode env op = Jump t jmp" "is_idle_loop env t op s = Some True"
    and "\<And>r. pc r = a \<Longrightarrow> gpr r = gpr (r4300 s) \<Longrightarrow> jmp op r = \<lparr>j_taken = True, j_target = a, j_link = 0, j_likely = lk, j_cop1 = False\<rparr>"
    and "cp0_inv (cp0 (r4300 s))" "events (cp0_q (cp0 (r4300 s))) = e # es"
    and "cycle_count (cp0 (cp0_update_count (r4300 s))) <s 0" "0 \<le>s n" "skip_jump (r4300 s) = 0"
  shows "InterpretOpcode env s = gen_interrupt (d_irq env) (s\<lparr>r4300 := (r4300 s)\<lparr>delay_slot := 0,
    cp0 := (cp0 (r4300 s))\<lparr>cp0_regs := (creg (r4300 s))(CP0_COUNT_REG := evt_count e + n),
      cycle_count := n, last_addr := a\<rparr>\<rparr>\<rparr>)"
proof -
  let ?r = "skip_to_event (r4300 s)"
  let ?s = "s\<lparr>r4300 := ?r\<rparr>"
  let ?s1 = "on_core enter_delay_slot ?s"
  note skip = skip_to_event_inv [OF assms(8-10)]
  have j: "jmp op (r4300 s) = \<lparr>j_taken = True, j_target = a, j_link = 0, j_likely = lk, j_cop1 = False\<rparr>"
    "jmp op ?r = \<lparr>j_taken = True, j_target = a, j_link = 0, j_likely = lk, j_cop1 = False\<rparr>"
    using assms(7) skip by (simp_all add: a_def)
  have step: "InterpretOpcode env s = run_jump env (InterpretOpcode env) jmp op ?s"
    by (subst InterpretOpcode.simps)
      (simp add: fetch_code [OF assms(3)] assms(5,6) run_idle_jump_def jump_unusable_def j Let_def flip: a_def)
  have "code_at env ?s1 (pc (r4300 ?s1)) 0" using assms(4) skip by (simp add: enter_delay_slot_def a_def)
  from interpret_insn [OF this decode_nop]
  have slot: "InterpretOpcode env ?s1 = Some (?s1\<lparr>r4300 := ADD_TO_PC (enter_delay_slot ?r)\<rparr>)"
    by (simp add: upd_r4300_def)
  have el: "elapsed_count (ADD_TO_PC (enter_delay_slot ?r)) = n"
    by (simp add: skip n_def elapsed_count_def enter_delay_slot_def ADD_TO_PC_def a_def Let_def)
  then have r: "leave_delay_slot (jmp op ?r) (ADD_TO_PC (enter_delay_slot ?r)) = (r4300 s)\<lparr>delay_slot := 0,
    cp0 := (cp0 (r4300 s))\<lparr>cp0_regs := (creg (r4300 s))(CP0_COUNT_REG := evt_count e + n),
      cycle_count := n, last_addr := a + 8\<rparr>\<rparr>"
    using assms(12) unfolding leave_delay_slot_def cp0_update_count_def el j(2)
    by (simp add: skip enter_delay_slot_def ADD_TO_PC_def a_def Let_def add.commute)
  show ?thesis
    unfolding step run_jump_def
    using slot r assms(11) by (simp add: jump_unusable_def j jump_link_def jump_end_def poll_interrupts_def on_core_def a_def Let_def)
qed

text \<open>\<open>BEQ r0, r0, -1\<close>: the next event of the example machine is the special event.\<close>

theorem idle_loop_reaches_event_witness:
  "\<exists>s'. InterpretOpcode console_env (running [0x1000FFFF, 0]) = gen_interrupt (d_irq console_env) s'
    \<and> creg (r4300 s') CP0_COUNT_REG = 0x80000004 \<and> pc (r4300 s') = 0x80000000"
proof -
  let ?s = "running [0x1000FFFF, 0]"
  have d: "decode console_env 0x1000FFFF = Jump Relative_idle BEQ" by (simp add: decode_def)
  have j: "BEQ 0x1000FFFF r = \<lparr>j_taken = True, j_target = 0x80000000, j_link = 0, j_likely = False, j_cop1 = False\<rparr>"
    if "pc r = 0x80000000" "gpr r = gpr (r4300 ?s)" for r
    using that by (simp add: BEQ_def branch_def relative_target_def imm_se32_def IMM16S_OF_def rrs_def rrt_def running_facts)
  have i: "is_idle_loop console_env Relative_idle 0x1000FFFF ?s = Some True"
    by (simp add: is_idle_loop_def delay_slot_is_nop_def IMM16S_OF_def running_facts fetch_code [OF code_at_running(2)] Let_def)
  have ev: "events (cp0_q (cp0 (r4300 ?s))) = [\<lparr>evt_type = SPECIAL_INT, evt_count = 0x80000000\<rparr>, \<lparr>evt_type = COMPARE_INT, evt_count = 0\<rparr>]"
    by (simp add: running_def console_r4300 boot_r4300_def boot_cp0_spec)
  have c: "cycle_count (cp0 (cp0_update_count (r4300 ?s))) <s 0"
    using boot_cp0_cycle
    by (simp add: cp0_update_count_def elapsed_count_def running_def console_r4300 boot_r4300_def boot_cp0_spec word_sless_alt Let_def)
  have n: "elapsed_count ((r4300 ?s)\<lparr>pc := pc (r4300 ?s) + 8, cp0 := (cp0 (r4300 ?s))\<lparr>last_addr := pc (r4300 ?s)\<rparr>\<rparr>) = 4"
    by (simp add: elapsed_count_def running_def console_r4300 boot_r4300_def boot_cp0_spec Let_def)
  show ?thesis
    using idle_loop_reaches_event [of console_env ?s "0x1000FFFF" _ _ False, OF _ _ d i _ running_facts(9) ev c, unfolded n] j
    by (simp add: running_facts code_at_running word_sle_eq) (rule exI, rule conjI, rule refl, simp add: running_facts)
qed

section \<open>Writing the compare register\<close>

lemma filter_ins_event:
  "filter (\<lambda>x. evt_type x = ty) xs = [] \<Longrightarrow> evt_type e = ty \<Longrightarrow> filter (\<lambda>x. evt_type x = ty) (ins_event c e xs) = [e]"
  using filter_append [of "\<lambda>x. evt_type x = ty" "takeWhile (\<lambda>y. due c y \<le> due c e) xs" "dropWhile (\<lambda>y. due c y \<le> due c e) xs"]
  by (simp add: ins_event_def)

lemma del_type_none: "distinct (map evt_type xs) \<Longrightarrow> x \<in> set (del_type ty xs) \<Longrightarrow> evt_type x \<noteq> ty"
  by (induction xs) (auto split: if_splits simp: image_iff)

lemma del_type_length: "length (del_type ty xs) \<le> length xs"
  by (induction xs) auto

lemma filter_ins_event_other:
  "evt_type e = ty \<Longrightarrow> filter (\<lambda>x. evt_type x \<noteq> ty) (ins_event c e xs) = filter (\<lambda>x. evt_type x \<noteq> ty) xs"
  using filter_append [of "\<lambda>x. evt_type x \<noteq> ty" "takeWhile (\<lambda>y. due c y \<le> due c e) xs" "dropWhile (\<lambda>y. due c y \<le> due c e) xs"]
  by (simp add: ins_event_def)

lemma filter_del_type: "filter (\<lambda>x. evt_type x \<noteq> ty) (del_type ty xs) = filter (\<lambda>x. evt_type x \<noteq> ty) xs"
  by (induction xs) auto

text \<open>
  C23: \<^verbatim>\<open>MTC0\<close> to the compare register replaces the timer event. Exactly one compare event remains, at the
  value written, placed by its distance from the next instruction, so that a value equal to the count
  is a full period away; the other events keep their order; the head is what the processor waits for;
  the timer line is lowered and no other register but the count changes.
\<close>

theorem mtc0_compare_spec:
  fixes r v
  defines "r1 \<equiv> cp0_update_count r"
  defines "evs \<equiv> events (cp0_q (cp0 r))"
  defines "e \<equiv> \<lparr>evt_type = COMPARE_INT, evt_count = v\<rparr>"
  assumes "cp0_inv (cp0 r1)" "distinct (map evt_type evs)" "length evs < INTERRUPT_NODES_POOL_CAPACITY"
    and "sorted (map (due (advance (cp0 r1))) evs)"
  shows "\<exists>r'. mtc0_compare v r = Some r' \<and> wf_queue (cp0_q (cp0 r'))
    \<and> (let evs' = events (cp0_q (cp0 r')) in
        filter (\<lambda>x. evt_type x = COMPARE_INT) evs' = [e]
      \<and> filter (\<lambda>x. evt_type x \<noteq> COMPARE_INT) evs' = filter (\<lambda>x. evt_type x \<noteq> COMPARE_INT) evs
      \<and> sorted (map (due (advance (cp0 r1))) evs')
      \<and> next_interrupt (cp0 r') = evt_count (hd evs')
      \<and> cycle_count (cp0 r') = creg r' CP0_COUNT_REG - evt_count (hd evs'))
    \<and> creg r' = (creg r1)(CP0_COMPARE_REG := v, CP0_CAUSE_REG := creg r CP0_CAUSE_REG AND NOT CP0_CAUSE_IP7)
    \<and> gpr r' = gpr r \<and> pc r' = pc r"
proof -
  have q: "cp0_q (cp0 r1) = cp0_q (cp0 r)" by (simp add: r1_def frame_simps)
  obtain qu where qu: "remove_event (cp0_q (cp0 r1)) COMPARE_INT = Some qu" "wf_queue qu"
      "events qu = del_type COMPARE_INT evs"
    using remove_event_ord [OF cp0_inv_ord [OF assms(4)], of COMPARE_INT] q by (auto simp: cp0_ord_def evs_def)
  let ?c = "(cp0 r1)\<lparr>cp0_q := qu\<rparr>"
  have len: "length (events (cp0_q ?c)) < INTERRUPT_NODES_POOL_CAPACITY"
    using assms(6) del_type_length [of COMPARE_INT evs] by (simp add: qu(3))
  obtain c' where c': "add_compare_event ?c v = Some c'" "wf_queue (cp0_q c')" "cp0_regs c' = cp0_regs (cp0 r1)"
      "events (cp0_q c') = ins_event (advance ?c) e (del_type COMPARE_INT evs)"
      "next_interrupt c' = evt_count (hd (events (cp0_q c')))"
      "cycle_count c' = cp0_regs c' CP0_COUNT_REG - evt_count (hd (events (cp0_q c')))"
    using add_compare_event_spec [OF _ len, of v] qu by (auto simp: e_def)
  have due: "due (advance ?c) = due (advance (cp0 r1))"
    by (simp add: due_def [abs_def] now_def advance_def Let_def)
  have ins: "ins_event (advance ?c) e = ins_event (advance (cp0 r1)) e"
    by (simp add: ins_event_def due fun_eq_iff)
  have one: "filter (\<lambda>x. evt_type x = COMPARE_INT) (ins_event c e (del_type COMPARE_INT evs)) = [e]" for c
    by (rule filter_ins_event) (auto simp: e_def filter_empty_conv dest: del_type_none [OF assms(5)])
  have others: "filter (\<lambda>x. evt_type x \<noteq> COMPARE_INT) (ins_event c e (del_type COMPARE_INT evs))
      = filter (\<lambda>x. evt_type x \<noteq> COMPARE_INT) evs" for c
    by (subst filter_ins_event_other) (simp_all add: e_def filter_del_type)
  have s: "sorted (map (due (advance (cp0 r1))) (ins_event (advance (cp0 r1)) e (del_type COMPARE_INT evs)))"
    using assms(7) by (intro sorted_ins_event) (simp add: sorted_map sorted_wrt_del_type)
  have "mtc0_compare v r = Some (set_creg CP0_CAUSE_REG (creg r CP0_CAUSE_REG AND NOT CP0_CAUSE_IP7)
      (set_creg CP0_COMPARE_REG v (r1\<lparr>cp0 := c'\<rparr>)))"
    using qu(1) c'(1,3) by (simp add: mtc0_compare_def upd_cp0_def creg_set_creg r1_def frame_simps Let_def)
  then show ?thesis
    using c' [unfolded ins] one others s by (simp add: set_creg_def frame_simps r1_def Let_def)
qed

theorem mtc0_compare_spec_witness:
  "\<exists>r'. mtc0_compare 0x6000 (r4300 console) = Some r' \<and> creg r' CP0_COMPARE_REG = 0x6000
    \<and> filter (\<lambda>x. evt_type x = COMPARE_INT) (events (cp0_q (cp0 r'))) = [\<lparr>evt_type = COMPARE_INT, evt_count = 0x6000\<rparr>]"
proof -
  let ?r = "r4300 console"
  have u: "cp0_update_count ?r = ?r"
    by (rule update_count_none) (simp add: console_r4300 boot_r4300_def)
  have ev: "events (cp0_q (cp0 ?r)) = [\<lparr>evt_type = SPECIAL_INT, evt_count = 0x80000000\<rparr>, \<lparr>evt_type = COMPARE_INT, evt_count = 0\<rparr>]"
    by (simp add: console_queue boot_cp0_spec)
  have n: "now (advance (cp0 ?r)) = 0x5002"
    using boot_cp0_cycle by (simp add: now_def advance_def console_r4300 boot_cp0_spec word_sless_alt Let_def)
  have s: "sorted (map (due (advance (cp0 ?r))) (events (cp0_q (cp0 ?r))))"
    unfolding ev due_def [abs_def] n by simp
  show ?thesis
    using mtc0_compare_spec [of ?r "0x6000", unfolded u, OF console_queue(5) _ _ s] unfolding ev
    by (auto simp: INTERRUPT_NODES_POOL_CAPACITY_def Let_def)
qed

end
