(* ===== verification/Mips_Claims.thy ===== *)
theory Mips_Claims
  imports Mips_Arith
begin

text \<open>
  Properties of the instructions as such: the 32-bit instructions keep the registers sign-extended, and
  the comparisons of the floating point unit follow the encoding of their conditions.
\<close>

section \<open>Sign-extended registers\<close>

lemma sext32_bits: "sext32 v \<longleftrightarrow> (\<forall>i\<in>{32..<64}. bit v i = bit v 31)"
proof
  assume "sext32 v"
  then have v: "v = SE32 v" by (simp add: sext32_def)
  have "bit (SE32 v) i = bit (SE32 v) 31" if "i \<in> {32..<64}" for i
    using that by (simp add: SE32_def bit_simps min_def)
  then show "\<forall>i\<in>{32..<64}. bit v i = bit v 31" using v by simp
next
  assume b: "\<forall>i\<in>{32..<64}. bit v i = bit v 31"
  have "v = SE32 v"
  proof (rule bit_word_eqI)
    fix i assume i: "i < LENGTH(64)"
    have e: "bit (SE32 v) i = (if i < 31 then bit v i else bit v 31)"
      using i by (auto simp: SE32_def bit_simps min_def)
    have "bit v i = bit v 31" if "\<not> i < 31"
      using bspec [OF b, of i] i that by (cases "i = 31") simp_all
    then show "bit v i = bit (SE32 v) i" unfolding e by simp
  qed
  then show "sext32 v" by (simp add: sext32_def)
qed

lemma sext32_logic [simp]:
  "sext32 v \<Longrightarrow> sext32 w \<Longrightarrow> sext32 (v AND w)" "sext32 v \<Longrightarrow> sext32 w \<Longrightarrow> sext32 (v OR w)"
  "sext32 v \<Longrightarrow> sext32 w \<Longrightarrow> sext32 (v XOR w)" "sext32 v \<Longrightarrow> sext32 (NOT v)"
  by (simp_all add: sext32_bits bit_simps)

lemma sext32_small [simp]: "sext32 0" "sext32 1" "sext32 (- 1)" "sext32 (imm_ze64 op)"
  by (auto simp: sext32_bits bit_simps imm_ze64_def dest!: bit_imp_le_length)

text \<open>All general registers and the two halves of the last product hold sign-extended 32-bit values.\<close>

definition word_regs :: "r4300_core \<Rightarrow> bool" where
  "word_regs r \<longleftrightarrow> (\<forall>n. sext32 (gpr r n)) \<and> sext32 (hi r) \<and> sext32 (lo r)"

lemma word_regs_sets:
  "word_regs r \<Longrightarrow> sext32 v \<Longrightarrow> word_regs (set_rd op v r)" "word_regs r \<Longrightarrow> sext32 v \<Longrightarrow> word_regs (set_rt op v r)"
  "word_regs r \<Longrightarrow> sext32 v \<Longrightarrow> sext32 w \<Longrightarrow> word_regs (set_hilo v w r)"
  "word_regs r \<Longrightarrow> sext32 (rrs op r)" "word_regs r \<Longrightarrow> sext32 (rrt op r)"
  "word_regs r \<Longrightarrow> sext32 (hi r)" "word_regs r \<Longrightarrow> sext32 (lo r)"
  by (simp_all add: word_regs_def set_rd_def set_rt_def set_gpr_def set_hilo_def ADD_TO_PC_def rrs_def rrt_def)

text \<open>The instructions of the 32-bit processor, the logical ones on the full registers included.\<close>

definition word_insns :: "(u32 \<Rightarrow> r4300_core \<Rightarrow> r4300_core) list" where
  "word_insns = [ADD, ADDU, ADDI, ADDIU, SUB, SUBU, SLT, SLTU, SLTI, SLTIU, AND_insn, ANDI, OR_insn, ORI,
     XOR_insn, XORI, NOR, LUI, SLL, SLLV, SRL, SRLV, SRA, SRAV, MULT, MULTU, DIV, DIVU, MFHI, MTHI, MFLO, MTLO]"

lemmas word_insn_defs = ADD_def ADDU_def ADDI_def ADDIU_def SUB_def SUBU_def SLT_def SLTU_def SLTI_def SLTIU_def
  AND_insn_def ANDI_def OR_insn_def ORI_def XOR_insn_def XORI_def NOR_def LUI_def SLL_def SLLV_def SRL_def SRLV_def
  SRA_def SRAV_def MFHI_def MFLO_def

lemma word_regs_mult: "word_regs r \<Longrightarrow> word_regs (MULT op r)" "word_regs r \<Longrightarrow> word_regs (MULTU op r)"
  using MULT_exact [of op r] MULTU_exact [of op r]
  by (auto simp: word_regs_def MULT_def MULTU_def set_hilo_def ADD_TO_PC_def Let_def)

lemma word_regs_div: "word_regs r \<Longrightarrow> word_regs (DIV op r)" "word_regs r \<Longrightarrow> word_regs (DIVU op r)"
  by (simp_all add: DIV_def DIVU_def Let_def word_regs_sets)

lemma word_regs_moves: "word_regs r \<Longrightarrow> word_regs (MTHI op r)" "word_regs r \<Longrightarrow> word_regs (MTLO op r)"
  by (simp_all add: MTHI_def MTLO_def word_regs_def ADD_TO_PC_def rrs_def)



section \<open>Floating point comparisons\<close>

text \<open>
  The architecture encodes the condition of a comparison in the low bits of the opcode: bit 0 holds for
  unordered operands, bit 1 for equal ones, bit 2 for a smaller first operand.
\<close>

definition condition :: "nat \<Rightarrow> nat \<Rightarrow> nat \<Rightarrow> nat \<Rightarrow> nat \<Rightarrow> bool" where
  "condition n ew fw a b \<longleftrightarrow>
     (if isnan ew fw a \<or> isnan ew fw b then bit n 0
      else bit n 1 \<and> fp_units ew fw a = fp_units ew fw b \<or> bit n 2 \<and> fp_units ew fw a < fp_units ew fw b)"

lemma or_and_bit: "(f OR w) AND w = (w :: u32)" "(f AND NOT w) AND w = (0 :: u32)"
  by (simp_all add: bit_eq_iff bit_simps)

lemma set_cmp_bit [simp]: "set_cmp b f AND FCR31_CMP_BIT \<noteq> 0 \<longleftrightarrow> b"
  by (cases b) (simp_all only: set_cmp_def if_True if_False or_and_bit, simp_all)

lemma compare_bit:
  "compare ew fw u i rel a b f AND FCR31_CMP_BIT \<noteq> 0 \<longleftrightarrow>
     (if isnan ew fw a \<or> isnan ew fw b then u else rel ew fw a b)"
proof -
  have "(g OR FCR31_CAUSE_INVALIDOP_BIT OR FCR31_FLAG_INVALIDOP_BIT) AND FCR31_CMP_BIT = g AND FCR31_CMP_BIT" for g :: u32
    by (simp add: bit.conj_disj_distrib bit.conj_disj_distrib2)
  then show ?thesis by (simp add: compare_def)
qed

definition relation :: "nat \<Rightarrow> nat \<Rightarrow> nat \<Rightarrow> nat \<Rightarrow> nat \<Rightarrow> bool" where
  "relation n = (if bit n 2 then (if bit n 1 then fp_le else fp_lt) else (if bit n 1 then fp_eq else fp_never))"

lemma relation_condition:
  "(if isnan ew fw a \<or> isnan ew fw b then bit n 0 else relation n ew fw a b) = condition n ew fw a b"
  by (auto simp: condition_def relation_def fp_never_def fp_eq_def fp_lt_def fp_le_def)

text \<open>What running a decoded comparison does to the processor.\<close>

definition compares :: "(r4300_core \<Rightarrow> r4300_core option) \<Rightarrow> r4300_core \<Rightarrow> bool \<Rightarrow> bool" where
  "compares f r b \<longleftrightarrow> (\<exists>v. f r = Some (ADD_TO_PC (r\<lparr>cp1 := (cp1 r)\<lparr>fcr31 := v\<rparr>\<rparr>)) \<and> (v AND FCR31_CMP_BIT \<noteq> 0) = b)"

lemma compares_s:
  assumes "creg r CP0_STATUS_REG AND CP0_STATUS_CU1 \<noteq> 0"
  shows "compares (cop1 (fpu (compare_s u i rel x y))) r
    (if isnan 8 23 (unat (get_s (cp1 r) x)) \<or> isnan 8 23 (unat (get_s (cp1 r) y)) then u
     else rel 8 23 (unat (get_s (cp1 r) x)) (unat (get_s (cp1 r) y)))"
  unfolding compares_def
  by (rule exI, rule conjI [rotated], rule compare_bit [where f = "fcr31 (cp1 r)" and i = i])
    (simp add: assms cop1_def check_cop1_unusable_def fpu_def compare_s_def)

lemma compares_d:
  assumes "creg r CP0_STATUS_REG AND CP0_STATUS_CU1 \<noteq> 0"
  shows "compares (cop1 (fpu (compare_d u i rel x y))) r
    (if isnan 11 52 (unat (get_d (cp1 r) x)) \<or> isnan 11 52 (unat (get_d (cp1 r) y)) then u
     else rel 11 52 (unat (get_d (cp1 r) x)) (unat (get_d (cp1 r) y)))"
  unfolding compares_def
  by (rule exI, rule conjI [rotated], rule compare_bit [where f = "fcr31 (cp1 r)" and i = i])
    (simp add: assms cop1_def check_cop1_unusable_def fpu_def compare_d_def)

lemmas compare_insn_defs = C_F_S_def C_UN_S_def C_EQ_S_def C_UEQ_S_def C_OLT_S_def C_ULT_S_def C_OLE_S_def C_ULE_S_def
  C_SF_S_def C_NGLE_S_def C_SEQ_S_def C_NGL_S_def C_LT_S_def C_NGE_S_def C_LE_S_def C_NGT_S_def
  c_f_s_def c_un_s_def c_eq_s_def c_ueq_s_def c_olt_s_def c_ult_s_def c_ole_s_def c_ule_s_def
  c_sf_s_def c_ngle_s_def c_seq_s_def c_ngl_s_def c_lt_s_def c_nge_s_def c_le_s_def c_ngt_s_def
  C_EQ_D_def C_UEQ_D_def C_OLT_D_def C_ULT_D_def C_OLE_D_def C_ULE_D_def C_LT_D_def C_NGE_D_def C_LE_D_def C_NGT_D_def
  c_eq_d_def c_ueq_d_def c_olt_d_def c_ult_d_def c_ole_d_def c_ule_d_def c_lt_d_def c_nge_d_def c_le_d_def c_ngt_d_def

lemma below_16: "n < 16 \<Longrightarrow> n \<in> {0, 1, 2, 3, 4, 5, 6, 7, 8, 9, 10, 11, 12, 13, 14, 15 :: nat}"
  by (simp add: numeral_eq_Suc less_Suc_eq)

lemma decode_compare_s:
  assumes "n < 16" "unat (op AND 0x3F) = 48 + n"
  shows "decode_cop1_s h op = core_try (cop1 (fpu (compare_s (bit n 0) (n = 0 \<or> 8 \<le> n) (relation n)
    (FS_OF op) (if n = 0 then FD_OF op else FT_OF op))))"
  using below_16 [OF assms(1)] assms(2)
  by (elim insertE emptyE) (simp_all add: decode_cop1_s_def compare_insn_defs relation_def bit_iff_odd)

lemma decode_compare_d:
  assumes "n < 16" "unat (op AND 0x3F) = 48 + n" "n \<noteq> 0" "n \<noteq> 1"
  shows "decode_cop1_d h op = core_try ((if n \<in> {8, 9, 10, 11} then id else cop1)
    (fpu (compare_d (bit n 0) (8 \<le> n) (relation n) (FS_OF op) (FT_OF op))))"
  using below_16 [OF assms(1)] assms(2-4)
  by (elim insertE emptyE)
    (simp_all add: decode_cop1_d_def compare_insn_defs C_SF_D_def C_NGLE_D_def C_SEQ_D_def C_NGL_D_def
      c_sf_d_def c_ngle_d_def c_seq_d_def c_ngl_d_def relation_def bit_iff_odd)

lemma cop1_usable: "creg r CP0_STATUS_REG AND CP0_STATUS_CU1 \<noteq> 0 \<Longrightarrow> cop1 f r = f r"
  by (simp add: cop1_def check_cop1_unusable_def)

lemma condition_0: "condition 0 ew fw a b = False"
  by (simp add: condition_def)

text \<open>
  C21: The sixteen comparisons of the floating point unit set the condition bit as their encoding says:
  unordered, equal and less by the three low bits of the opcode, on single operands for every one of
  them and on double operands for all but \<^verbatim>\<open>C.UN.D\<close>. Nothing but the control register changes.
\<close>

theorem comparisons_follow_condition:
  assumes "n < 16" "unat (op AND 0x3F) = 48 + n" "creg r CP0_STATUS_REG AND CP0_STATUS_CU1 \<noteq> 0"
  shows "(\<exists>f. decode_cop1_s h op = (core_try f :: 'a r4300_sys_scheme decoded) \<and>
      compares f r (condition n 8 23 (unat (get_s (cp1 r) (FS_OF op))) (unat (get_s (cp1 r) (FT_OF op)))))
    \<and> (n \<noteq> 1 \<longrightarrow> (\<exists>f. decode_cop1_d h op = (core_try f :: 'a r4300_sys_scheme decoded) \<and>
      compares f r (condition n 11 52 (unat (get_d (cp1 r) (FS_OF op))) (unat (get_d (cp1 r) (FT_OF op))))))"
proof (intro conjI impI)
  show "\<exists>f. decode_cop1_s h op = (core_try f :: 'a r4300_sys_scheme decoded) \<and>
      compares f r (condition n 8 23 (unat (get_s (cp1 r) (FS_OF op))) (unat (get_s (cp1 r) (FT_OF op))))"
    unfolding decode_compare_s [OF assms(1,2)]
    using compares_s [OF assms(3), of "bit n 0" "n = 0 \<or> 8 \<le> n" "relation n" "FS_OF op" "if n = 0 then FD_OF op else FT_OF op"]
    unfolding relation_condition by (cases "n = 0") (auto simp: condition_0)
next
  assume n: "n \<noteq> 1"
  show "\<exists>f. decode_cop1_d h op = (core_try f :: 'a r4300_sys_scheme decoded) \<and>
      compares f r (condition n 11 52 (unat (get_d (cp1 r) (FS_OF op))) (unat (get_d (cp1 r) (FT_OF op))))"
  proof (cases "n = 0")
    case True
    then have "decode_cop1_d h op = core_try (C_F_D op)" using assms(2) by (simp add: decode_cop1_d_def)
    moreover have "compares (C_F_D op) r False"
      unfolding compares_def C_F_D_def cop1_usable [OF assms(3)] fpu_def c_f_d_def
      by (rule exI, rule conjI, rule refl, rule set_cmp_bit)
    ultimately show ?thesis using True by (auto simp: condition_0)
  next
    case False
    from compares_d [OF assms(3), of "bit n 0" "8 \<le> n" "relation n" "FS_OF op" "FT_OF op"]
    show ?thesis
      unfolding decode_compare_d [OF assms(1,2) False n] relation_condition
      by - (rule exI, rule conjI, rule refl, simp add: compares_def cop1_usable [OF assms(3)])
  qed
qed

text \<open>\<open>C.LE.S\<close> of the number 1 and the number 2.\<close>

theorem comparisons_follow_condition_witness:
  "\<exists>f. decode_cop1_s (d_fpu (console_env :: device dev_env)) 0x4602003E = (core_try f :: 'a r4300_sys_scheme decoded)
    \<and> compares f (set_creg CP0_STATUS_REG 0x24000000 (boot_r4300\<lparr>cp1 := (cp1 boot_r4300)
        \<lparr>fpr := (\<lambda>_. 0)(0 := 0x3f800000, 2 := 0x40000000)\<rparr>\<rparr>)) True"
proof -
  let ?r = "set_creg CP0_STATUS_REG 0x24000000 (boot_r4300\<lparr>cp1 := (cp1 boot_r4300)
        \<lparr>fpr := (\<lambda>_. 0)(0 := 0x3f800000, 2 := 0x40000000)\<rparr>\<rparr>)"
  have v: "get_s (cp1 ?r) 0 = 0x3f800000" "get_s (cp1 ?r) 2 = 0x40000000"
    by (simp_all add: set_creg_def boot_r4300_def poweron_cp1_def update_x86_rounding_mode_def
        set_fpr_pointers_def get_s_def)
  have "condition 14 8 23 0x3f800000 0x40000000"
    by (simp add: condition_def isnan_def fp_inf_def fp_body_def fp_units_def fp_sign_def fp_mag_def bit_iff_odd Let_def)
  then show ?thesis
    using comparisons_follow_condition [of 14 "0x4602003E" ?r "d_fpu (console_env :: device dev_env)", where 'a = 'a] v
    by (simp add: set_creg_def FS_OF_def FT_OF_def)
qed

end
