(* ===== verification/Access_Claims.thy ===== *)
theory Access_Claims
  imports Interp_Props
begin

text \<open>
  Unaligned accesses: the pairs of instructions that load or store a word at any address, over the bytes
  of RDRAM in console order.
\<close>

section \<open>Bytes of RDRAM\<close>

text \<open>The byte at a physical address: the most significant byte of a word comes first.\<close>

definition dram_byte :: "rdram \<Rightarrow> nat \<Rightarrow> u8 option" where
  "dram_byte rm x = map_option (\<lambda>w. byte_of w (3 - x mod 4)) (read_rdram_dram rm (word_of_nat (4 * (x div 4))))"

text \<open>A mask that selects whole bytes.\<close>

definition byte_mask :: "u32 \<Rightarrow> (nat \<Rightarrow> bool) \<Rightarrow> bool" where
  "byte_mask msk sel \<longleftrightarrow> (\<forall>k i. k < 4 \<longrightarrow> i < 8 \<longrightarrow> bit msk (8 * k + i) = sel k)"

lemma byte_of_masked:
  assumes "byte_mask msk sel" "k < 4"
  shows "byte_of (masked_write w v msk) k = (if sel k then byte_of v k else byte_of w k)"
  by (rule bit_word_eqI) (use assms in \<open>auto simp: bit_byte_of bit_masked_write byte_mask_def\<close>)

lemma bytes_eqI:
  assumes "\<And>k. k < 4 \<Longrightarrow> byte_of v k = byte_of w k"
  shows "v = w"
proof -
  have "byte_of v 0 = byte_of w 0" "byte_of v 1 = byte_of w 1" "byte_of v 2 = byte_of w 2" "byte_of v 3 = byte_of w 3"
    by (rule assms, simp)+
  then have "word_of_bytes (byte_of v 0) (byte_of v 1) (byte_of v 2) (byte_of v 3) =
      word_of_bytes (byte_of w 0) (byte_of w 1) (byte_of w 2) (byte_of w 3)" by (simp only:)
  then show ?thesis by (simp only: word_of_bytes_byte_of)
qed

lemma read_rdram_dram_hit:
  "wf_rdram rm \<Longrightarrow> unat a < dram_size rm \<Longrightarrow> read_rdram_dram rm a = get_le32 (dram rm) (4 * (unat a div 4))"
  using rdram_dram_address_nat [of a] by (simp add: read_rdram_dram_def dram_word_def wf_rdram_def)

lemma write_bytes:
  assumes "wf_rdram rm" "unat p < dram_size rm" "byte_mask msk sel"
  shows "\<exists>rm'. write_rdram_dram rm p v msk = Some rm' \<and> wf_rdram rm' \<and> dram_size rm' = dram_size rm
    \<and> (\<forall>x. x < 2 ^ 32 \<longrightarrow> dram_byte rm' x =
        (if x div 4 = unat p div 4 \<and> sel (3 - x mod 4) then Some (byte_of v (3 - x mod 4)) else dram_byte rm x))"
proof -
  obtain rm' w where rm': "write_rdram_dram rm p v msk = Some rm'" "wf_rdram rm'" "read_rdram_dram rm p = Some w"
      "\<And>b. unat b div 4 = unat p div 4 \<Longrightarrow> unat b < dram_size rm \<Longrightarrow> read_rdram_dram rm' b = Some (masked_write w v msk)"
      "\<And>b. unat b div 4 \<noteq> unat p div 4 \<Longrightarrow> read_rdram_dram rm' b = read_rdram_dram rm b"
    using write_read_rdram_dram [OF assms(1), of p v msk] assms(2) by blast
  have sz: "dram_size rm' = dram_size rm"
    using rm'(1) assms(2) by (auto simp: write_rdram_dram_def Let_def split: bind_splits)
  have "dram_byte rm' x =
      (if x div 4 = unat p div 4 \<and> sel (3 - x mod 4) then Some (byte_of v (3 - x mod 4)) else dram_byte rm x)"
    if x: "x < 2 ^ 32" for x
  proof -
    let ?b = "word_of_nat (4 * (x div 4)) :: u32"
    have b: "unat ?b = 4 * (x div 4)" using x by (intro unat_word_of_nat_lt) simp
    show ?thesis
    proof (cases "x div 4 = unat p div 4")
      case False
      then show ?thesis using rm'(5) [of ?b] b by (simp add: dram_byte_def)
    next
      case True
      have "4 * (unat p div 4) \<le> unat p" by simp
      then have "unat ?b < dram_size rm" using True b assms(2) by simp
      then have "read_rdram_dram rm' ?b = Some (masked_write w v msk)" using rm'(4) [of ?b] True b by simp
      moreover have "read_rdram_dram rm ?b = Some w"
        using rm'(3) True b assms(1,2) \<open>unat ?b < dram_size rm\<close> by (simp add: read_rdram_dram_hit)
      ultimately show ?thesis using True byte_of_masked [OF assms(3), of "3 - x mod 4" w v] by (simp add: dram_byte_def)
    qed
  qed
  then show ?thesis using rm'(1,2) sz by blast
qed

section \<open>The masks and merges of the unaligned instructions\<close>

lemma bit_below_mask: "bit (BITS_BELOW_MASK32 n) i \<longleftrightarrow> i < n \<and> i < 32"
proof -
  have "BITS_BELOW_MASK32 n = mask n" by (simp add: BITS_BELOW_MASK32_def mask_eq_exp_minus_1 push_bit_eq_mult)
  then show ?thesis by (auto simp: bit_simps)
qed

lemma bit_above_mask: "bit (BITS_ABOVE_MASK32 n) i \<longleftrightarrow> n \<le> i \<and> i < 32"
  unfolding BITS_ABOVE_MASK32_def by (auto simp: bit_simps bit_below_mask)

lemma byte_mask_all: "byte_mask 0xFFFFFFFF (\<lambda>k. True)"
proof -
  have "bit (mask 32 :: u32) (8 * k + i)" if "k < 4" "i < 8" for k i :: nat
    using that by (simp add: bit_simps)
  then show ?thesis by (simp add: byte_mask_def mask_eq_exp_minus_1)
qed

lemma byte_mask_swl: "n < 4 \<Longrightarrow> byte_mask (swl_mask n) (\<lambda>k. k + n < 4)"
proof (cases "n = 0")
  case True
  then show ?thesis using byte_mask_all by (simp add: swl_mask_def byte_mask_def)
next
  case False
  assume "n < 4"
  with False show ?thesis by (auto simp: swl_mask_def byte_mask_def bit_below_mask)
qed

lemma byte_mask_swr: "n < 4 \<Longrightarrow> byte_mask (swr_mask n) (\<lambda>k. 3 \<le> k + n)"
  by (auto simp: swr_mask_def byte_mask_def bit_above_mask)

lemma byte_of_drop: "byte_of (drop_bit (8 * n) v) k = byte_of v (k + n)"
  by (rule bit_word_eqI) (simp add: bit_byte_of bit_simps algebra_simps)

lemma byte_of_push: "n \<le> k \<Longrightarrow> k < 4 \<Longrightarrow> byte_of (push_bit (8 * n) v) k = byte_of v (k - n)"
  by (rule bit_word_eqI) (auto simp: bit_byte_of bit_simps algebra_simps)

lemma byte_of_lwl:
  "n < 4 \<Longrightarrow> k < 4 \<Longrightarrow> byte_of (lwl_merge n old w) k = (if k < n then byte_of old k else byte_of w (k - n))"
  by (rule bit_word_eqI) (auto simp: lwl_merge_def bit_byte_of bit_simps bit_below_mask algebra_simps)

lemma byte_of_lwr:
  "n < 4 \<Longrightarrow> k < 4 \<Longrightarrow> byte_of (lwr_merge n old w) k = (if n < k then byte_of old k else byte_of w (k + (3 - n)))"
  by (rule bit_word_eqI) (auto simp: lwr_merge_def bit_byte_of bit_simps bit_above_mask algebra_simps dest: bit_imp_le_length)

section \<open>Accesses of RDRAM through the unmapped segments\<close>

text \<open>A machine whose RDRAM is reached directly: no watched page, the interpreter in use.\<close>

definition plain_rdram :: "'a device_scheme \<Rightarrow> bool" where
  "plain_rdram s \<longleftrightarrow> emu_mode (r4300 s) = EMUMODE_PURE_INTERPRETER \<and> wf_rdram (rdram s)
     \<and> (\<forall>p. unat p < dram_size (rdram s) \<longrightarrow> mem_get_handler (mem s) p = H_rdram_dram)"

text \<open>Address \<open>a\<close> of an unmapped segment over the physical byte address \<open>x\<close>.\<close>

definition over :: "u32 \<Rightarrow> nat \<Rightarrow> bool" where
  "over a x \<longleftrightarrow> a AND 0xc0000000 = 0x80000000 \<and> unat a mod 2 ^ 29 = x"

lemma and_word_address: "(a :: u32) AND 0x1ffffffc = push_bit 2 (drop_bit 2 (a AND mask 29))"
proof -
  have e: "(0x1ffffffc :: u32) = mask 29 AND NOT (mask 2)" by (simp add: mask_eq_exp_minus_1)
  show ?thesis unfolding e by (rule bit_word_eqI) (auto simp: bit_simps not_less dest!: le_Suc_ex)
qed

lemma over_word:
  assumes "over a x"
  shows "unat (a AND 0x1ffffffc) = 4 * (x div 4)" "unat (a AND 3) = x mod 4" "(a AND NOT 3) AND 0xc0000000 = 0x80000000"
    "(a AND NOT 3) AND 0x1ffffffc = a AND 0x1ffffffc"
proof -
  have x: "unat (a AND mask 29) = x" using assms unat_and_mask [of a 29] by (simp only: over_def)
  have "unat (a AND mask 2) = unat a mod 4" using unat_and_mask [of a 2] by simp
  also have "\<dots> = x mod 4" using assms by (auto simp: over_def mod_mod_cancel)
  finally show "unat (a AND 3) = x mod 4" by (simp add: mask_eq_exp_minus_1)
  have "x < 2 ^ 29" using assms by (auto simp: over_def)
  then have "4 * (x div 4) < 2 ^ 32" by simp
  moreover have d: "unat (drop_bit 2 (a AND mask 29)) = x div 4" by (simp only: unat_drop_bit x) simp
  ultimately show "unat (a AND 0x1ffffffc) = 4 * (x div 4)"
    unfolding and_word_address unat_push_bit_word d by simp
  show "(a AND NOT 3) AND 0xc0000000 = 0x80000000" using assms by (simp add: over_def and.assoc)
  show "(a AND NOT 3) AND 0x1ffffffc = a AND 0x1ffffffc" by (simp add: and.assoc)
qed

lemma load_word_plain:
  assumes "plain_rdram s" "over (lsaddr op s) x" "x < dram_size (rdram s)"
  shows "\<exists>w. read_rdram_dram (rdram s) (word_of_nat (4 * (x div 4))) = Some w
    \<and> load_word env f op s = Some (on_core (\<lambda>r. set_gpr (RT_OF op) (f (lsaddr op s) w (rrt op (r4300 s))) (ADD_TO_PC r)) s)"
proof -
  let ?a = "lsaddr op s" and ?s = "on_core ADD_TO_PC s"
  let ?p = "?a AND 0x1ffffffc"
  have p: "unat ?p = 4 * (x div 4)" by (rule over_word(1) [OF assms(2)])
  then have eq: "?p = word_of_nat (4 * (x div 4))" by (simp flip: p)
  have lt: "unat ?p < dram_size (rdram s)" unfolding p using assms(3) by simp
  have "mem_get_handler (mem ?s) ?p = H_rdram_dram" using assms(1) lt by (simp add: plain_rdram_def on_core_def)
  moreover have "reaches (d_ignore_tlb env) 0 ?s ?a ?p"
    by (rule unmapped_reaches) (use assms(2) in \<open>simp add: over_def\<close>)
  ultimately have l: "r4300_read_aligned_word env ?a old ?s = do { v \<leftarrow> read_rdram_dram (rdram ?s) ?p; Some (True, v, ?s) }" for old
    by (intro load_rdram)
  obtain w where w: "read_rdram_dram (rdram s) ?p = Some w"
    using write_read_rdram_dram [of "rdram s" ?p 0 0] assms(1) lt unfolding plain_rdram_def by blast
  then show ?thesis unfolding eq [symmetric] load_word_def Let_def l
    by (simp add: on_core_def rrt_def ADD_TO_PC_def)
qed

lemma store_word_plain:
  assumes "plain_rdram s" "over a x" "x < dram_size (rdram s)" "byte_mask msk sel"
  shows "\<exists>rm. store_word env (a AND NOT 3) v msk s = Some (on_core ADD_TO_PC s\<lparr>rdram := rm\<rparr>)
    \<and> plain_rdram (on_core ADD_TO_PC s\<lparr>rdram := rm\<rparr>) \<and> dram_size rm = dram_size (rdram s)
    \<and> (\<forall>y. y < 2 ^ 32 \<longrightarrow> dram_byte rm y =
        (if y div 4 = x div 4 \<and> sel (3 - y mod 4) then Some (byte_of v (3 - y mod 4)) else dram_byte (rdram s) y))"
proof -
  let ?s = "on_core ADD_TO_PC s" and ?p = "a AND 0x1ffffffc"
  have p: "unat ?p = 4 * (x div 4)" by (rule over_word(1) [OF assms(2)])
  have lt: "unat ?p < dram_size (rdram s)" unfolding p using assms(3) by simp
  have pl: "plain_rdram ?s" using assms(1) by (simp add: plain_rdram_def on_core_def ADD_TO_PC_def)
  obtain rm where rm: "write_rdram_dram (rdram s) ?p v msk = Some rm" "wf_rdram rm" "dram_size rm = dram_size (rdram s)"
      "\<forall>y. y < 2 ^ 32 \<longrightarrow> dram_byte rm y =
        (if y div 4 = x div 4 \<and> sel (3 - y mod 4) then Some (byte_of v (3 - y mod 4)) else dram_byte (rdram s) y)"
    using write_bytes [of "rdram s" ?p msk sel v] assms(1,4) lt p by (auto simp: plain_rdram_def)
  have "reaches (d_ignore_tlb env) 1 ?s (a AND NOT 3) ?p"
    using unmapped_reaches [OF over_word(3) [OF assms(2)]] unfolding over_word(4) [OF assms(2)] .
  moreover have "mem_get_handler (mem ?s) ?p = H_rdram_dram" "emu_mode (r4300 ?s) = EMUMODE_PURE_INTERPRETER"
    using pl lt by (simp_all add: plain_rdram_def on_core_def)
  ultimately have "r4300_write_aligned_word env (a AND NOT 3) v msk ?s
      = do { rm \<leftarrow> write_rdram_dram (rdram ?s) ?p v msk; Some (True, ?s\<lparr>rdram := rm\<rparr>) }"
    by (intro store_rdram)
  then show ?thesis using rm pl
    by (intro exI [of _ rm]) (simp add: store_word_def on_core_def plain_rdram_def)
qed

section \<open>Pairs of unaligned accesses\<close>

lemma same_word_order:
  assumes "y div 4 = x div (4 :: nat)"
  shows "(3 - y mod 4) + x mod 4 < 4 \<longleftrightarrow> x \<le> y" "3 \<le> (3 - y mod 4) + x mod 4 \<longleftrightarrow> y \<le> x"
    "x \<le> y \<Longrightarrow> (3 - y mod 4) + x mod 4 = 3 - (y - x)" "y \<le> x \<Longrightarrow> (3 - y mod 4) - (3 - x mod 4) = x - y"
proof -
  define q m n where "q = x div 4" and "m = x mod 4" and "n = y mod 4"
  have xy: "x = 4 * q + m" "y = 4 * q + n" "m < 4" "n < 4"
    using assms by (simp_all add: q_def m_def n_def mult_div_mod_eq flip: assms) (simp add: assms)
  show "(3 - y mod 4) + x mod 4 < 4 \<longleftrightarrow> x \<le> y" "3 \<le> (3 - y mod 4) + x mod 4 \<longleftrightarrow> y \<le> x"
    unfolding m_def [symmetric] n_def [symmetric] using xy by auto
  show "(3 - y mod 4) + x mod 4 = 3 - (y - x)" if "x \<le> y"
    unfolding m_def [symmetric] n_def [symmetric] using xy that by simp
  show "(3 - y mod 4) - (3 - x mod 4) = x - y" if "y \<le> x"
    unfolding m_def [symmetric] n_def [symmetric] using xy that by simp
qed

lemma SWL_bytes:
  assumes "plain_rdram s" "over (lsaddr op s) x" "x < dram_size (rdram s)"
  shows "\<exists>rm. SWL env op s = Some (on_core ADD_TO_PC s\<lparr>rdram := rm\<rparr>)
    \<and> plain_rdram (on_core ADD_TO_PC s\<lparr>rdram := rm\<rparr>) \<and> dram_size rm = dram_size (rdram s)
    \<and> (\<forall>y. y < 2 ^ 32 \<longrightarrow> dram_byte rm y =
        (if y div 4 = x div 4 \<and> x \<le> y then Some (byte_of (rrt32 op (r4300 s)) (3 - (y - x))) else dram_byte (rdram s) y))"
proof -
  let ?v = "rrt32 op (r4300 s)"
  have n: "x mod 4 < 4" by simp
  have e: "(if y div 4 = x div 4 \<and> 3 - y mod 4 + x mod 4 < 4
        then Some (byte_of (drop_bit (8 * (x mod 4)) ?v) (3 - y mod 4)) else d)
      = (if y div 4 = x div 4 \<and> x \<le> y then Some (byte_of ?v (3 - (y - x))) else d)" for y d
  proof (cases "y div 4 = x div 4 \<and> x \<le> y")
    case True
    then show ?thesis unfolding byte_of_drop using same_word_order(1,3) [of y x] by (simp only: simp_thms if_True)
  next
    case False
    then show ?thesis using same_word_order(1) [of y x] by (simp only: simp_thms if_False) metis
  qed
  show ?thesis
    using store_word_plain [OF assms byte_mask_swl [OF n], of env "drop_bit (8 * (x mod 4)) ?v"]
    unfolding SWL_def Let_def over_word(2) [OF assms(2)] e .
qed

lemma SWR_bytes:
  assumes "plain_rdram s" "over (lsaddr op s) x" "x < dram_size (rdram s)"
  shows "\<exists>rm. SWR env op s = Some (on_core ADD_TO_PC s\<lparr>rdram := rm\<rparr>)
    \<and> plain_rdram (on_core ADD_TO_PC s\<lparr>rdram := rm\<rparr>) \<and> dram_size rm = dram_size (rdram s)
    \<and> (\<forall>y. y < 2 ^ 32 \<longrightarrow> dram_byte rm y =
        (if y div 4 = x div 4 \<and> y \<le> x then Some (byte_of (rrt32 op (r4300 s)) (x - y)) else dram_byte (rdram s) y))"
proof -
  let ?v = "rrt32 op (r4300 s)"
  have n: "x mod 4 < 4" by simp
  have e: "(if y div 4 = x div 4 \<and> 3 \<le> 3 - y mod 4 + x mod 4
        then Some (byte_of (push_bit (8 * (3 - x mod 4)) ?v) (3 - y mod 4)) else d)
      = (if y div 4 = x div 4 \<and> y \<le> x then Some (byte_of ?v (x - y)) else d)" for y d
  proof (cases "y div 4 = x div 4 \<and> y \<le> x")
    case True
    then have "byte_of (push_bit (8 * (3 - x mod 4)) ?v) (3 - y mod 4) = byte_of ?v (3 - y mod 4 - (3 - x mod 4))"
      using same_word_order(2) [of y x] by (intro byte_of_push) linarith+
    then show ?thesis using True same_word_order(2,4) [of y x] by (simp only: simp_thms if_True)
  next
    case False
    then show ?thesis using same_word_order(2) [of y x] by (simp only: simp_thms if_False) metis
  qed
  show ?thesis
    using store_word_plain [OF assms byte_mask_swr [OF n], of env "push_bit (8 * (3 - x mod 4)) ?v"]
    unfolding SWR_def Let_def over_word(2) [OF assms(2)] e .
qed

lemma dram_byte_word:
  assumes "read_rdram_dram rm (word_of_nat (4 * (x div 4))) = Some w" "y div 4 = x div 4" "y mod 4 = 3 - k" "k < 4"
  shows "dram_byte rm y = Some (byte_of w k)"
  using assms by (simp add: dram_byte_def)

lemma LWL_bytes:
  assumes "plain_rdram s" "over (lsaddr op s) x" "x < dram_size (rdram s)"
  shows "\<exists>w. LWL env op s = Some (on_core (\<lambda>r. set_gpr (RT_OF op) (SE32 w) (ADD_TO_PC r)) s)
    \<and> (\<forall>j < 4. Some (byte_of w j) =
        (if j < x mod 4 then Some (byte_of (rrt32 op (r4300 s)) j) else dram_byte (rdram s) (x + 3 - j)))"
proof -
  obtain w where w: "read_rdram_dram (rdram s) (word_of_nat (4 * (x div 4))) = Some w"
    "LWL env op s = Some (on_core (\<lambda>r. set_gpr (RT_OF op)
       (SE32 (lwl_merge (x mod 4) (rrt32 op (r4300 s)) w)) (ADD_TO_PC r)) s)"
    using load_word_plain [OF assms, of env "\<lambda>a value old. SE32 (lwl_merge (unat (a AND 3)) (ucast old) value)"]
    unfolding over_word(2) [OF assms(2)] LWL_def rrt32_def by blast
  have "dram_byte (rdram s) (x + 3 - j) = Some (byte_of w (j - x mod 4))" if "j < 4" "\<not> j < x mod 4" for j
  proof (rule dram_byte_word [OF w(1)])
    have y: "x + 3 - j = 4 * (x div 4) + (3 - (j - x mod 4))" "3 - (j - x mod 4) < 4"
      using that mult_div_mod_eq [of 4 x] by linarith+
    show "(x + 3 - j) div 4 = x div 4" "(x + 3 - j) mod 4 = 3 - (j - x mod 4)" unfolding y(1) using y(2) by simp_all
    show "j - x mod 4 < 4" using that by simp
  qed
  then show ?thesis using w(2) by (intro exI [of _ "lwl_merge (x mod 4) (rrt32 op (r4300 s)) w"]) (simp add: byte_of_lwl)
qed

lemma LWR_bytes:
  assumes "plain_rdram s" "over (lsaddr op s) x" "x < dram_size (rdram s)"
  shows "\<exists>w. LWR env op s = Some (on_core (\<lambda>r. set_gpr (RT_OF op) (SE32 w) (ADD_TO_PC r)) s)
    \<and> (\<forall>j < 4. Some (byte_of w j) =
        (if x mod 4 < j then Some (byte_of (rrt32 op (r4300 s)) j) else dram_byte (rdram s) (x - j)))"
proof -
  obtain w where w: "read_rdram_dram (rdram s) (word_of_nat (4 * (x div 4))) = Some w"
    "LWR env op s = Some (on_core (\<lambda>r. set_gpr (RT_OF op)
       (SE32 (lwr_merge (x mod 4) (rrt32 op (r4300 s)) w)) (ADD_TO_PC r)) s)"
    using load_word_plain [OF assms, of env "\<lambda>a value old. SE32 (lwr_merge (unat (a AND 3)) (ucast old) value)"]
    unfolding over_word(2) [OF assms(2)] LWR_def rrt32_def by blast
  have "dram_byte (rdram s) (x - j) = Some (byte_of w (j + (3 - x mod 4)))" if "j < 4" "\<not> x mod 4 < j" for j
  proof (rule dram_byte_word [OF w(1)])
    have n: "x mod 4 < 4" by simp
    have y: "x - j = 4 * (x div 4) + (x mod 4 - j)" "x mod 4 - j < 4" "x mod 4 - j = 3 - (j + (3 - x mod 4))"
      using that n mult_div_mod_eq [of 4 x] by linarith+
    show "(x - j) div 4 = x div 4" "(x - j) mod 4 = 3 - (j + (3 - x mod 4))" unfolding y(1) y(3) [symmetric] using y(2) by simp_all
    show "j + (3 - x mod 4) < 4" using that n by linarith
  qed
  then show ?thesis using w(2) by (intro exI [of _ "lwr_merge (x mod 4) (rrt32 op (r4300 s)) w"]) (simp add: byte_of_lwr)
qed

lemma unaligned_words:
  fixes x y :: nat
  shows "y div 4 = (x + 3) div 4 \<Longrightarrow> x \<le> y"
    "x \<le> y \<Longrightarrow> y \<le> x + 3 \<Longrightarrow> y div 4 = x div 4 \<or> y div 4 = (x + 3) div 4"
    "y div 4 = x div 4 \<Longrightarrow> y \<le> x + 3"
proof -
  show "y div 4 = (x + 3) div 4 \<Longrightarrow> x \<le> y" "y div 4 = x div 4 \<Longrightarrow> y \<le> x + 3"
    using mult_div_mod_eq [of 4 y] mult_div_mod_eq [of 4 x] mult_div_mod_eq [of 4 "x + 3"]
      mod_less_divisor [of 4 x] mod_less_divisor [of 4 y] mod_less_divisor [of 4 "x + 3"] by linarith+
  assume "x \<le> y" "y \<le> x + 3"
  then have "x div 4 \<le> y div 4" "y div 4 \<le> (x + 3) div 4" by (auto intro: div_le_mono)
  moreover have "(x + 3) div 4 \<le> x div 4 + 1" by simp
  ultimately show "y div 4 = x div 4 \<or> y div 4 = (x + 3) div 4" by linarith
qed

text \<open>The four bytes from \<open>x\<close> on hold the word \<open>v\<close>, the others what they held.\<close>

definition word_at :: "nat \<Rightarrow> u32 \<Rightarrow> (nat \<Rightarrow> u8 option) \<Rightarrow> nat \<Rightarrow> u8 option" where
  "word_at x v f y = (if x \<le> y \<and> y \<le> x + 3 then Some (byte_of v (3 - (y - x))) else f y)"

lemma store_pair:
  assumes "plain_rdram s" "over a x" "over (a + 3) (x + 3)" "x + 3 < dram_size (rdram s)"
    and "lsaddr swl s = a" "lsaddr swr s = a + 3" "RT_OF swr = RT_OF swl"
  shows "\<exists>s1 s2. SWL env swl s = Some s1 \<and> SWR env swr s1 = Some s2 \<and> plain_rdram s2
    \<and> dram_size (rdram s2) = dram_size (rdram s) \<and> gpr (r4300 s2) = gpr (r4300 s)
    \<and> (\<forall>y < 2 ^ 32. dram_byte (rdram s2) y = word_at x (rrt32 swl (r4300 s)) (dram_byte (rdram s)) y)"
proof -
  let ?v = "rrt32 swl (r4300 s)"
  have lt: "x < dram_size (rdram s)" using assms(4) by simp
  obtain rm1 where s1: "SWL env swl s = Some (on_core ADD_TO_PC s\<lparr>rdram := rm1\<rparr>)"
      "plain_rdram (on_core ADD_TO_PC s\<lparr>rdram := rm1\<rparr>)" "dram_size rm1 = dram_size (rdram s)"
      "\<And>y. y < 2 ^ 32 \<Longrightarrow> dram_byte rm1 y = (if y div 4 = x div 4 \<and> x \<le> y then Some (byte_of ?v (3 - (y - x))) else dram_byte (rdram s) y)"
    using SWL_bytes [of s swl x env] assms(1,2,5) lt by metis
  let ?s1 = "on_core ADD_TO_PC s\<lparr>rdram := rm1\<rparr>"
  have g1: "gpr (r4300 ?s1) = gpr (r4300 s)" by (simp add: on_core_def ADD_TO_PC_def)
  have "lsaddr swr ?s1 = a + 3" "rrt32 swr (r4300 ?s1) = ?v"
    using assms(6,7) g1 by (simp_all add: lsaddr_def rrs32_def rrs_def rrt32_def rrt_def)
  then obtain rm2 where s2: "SWR env swr ?s1 = Some (on_core ADD_TO_PC ?s1\<lparr>rdram := rm2\<rparr>)"
      "plain_rdram (on_core ADD_TO_PC ?s1\<lparr>rdram := rm2\<rparr>)" "dram_size rm2 = dram_size (rdram s)"
      "\<And>y. y < 2 ^ 32 \<Longrightarrow> dram_byte rm2 y =
         (if y div 4 = (x + 3) div 4 \<and> y \<le> x + 3 then Some (byte_of ?v (x + 3 - y)) else dram_byte rm1 y)"
    using SWR_bytes [of ?s1 swr "x + 3" env] s1(2,3) assms(3,4) by auto
  have "dram_byte rm2 y = word_at x ?v (dram_byte (rdram s)) y" if "y < 2 ^ 32" for y
  proof (cases "y div 4 = (x + 3) div 4 \<and> y \<le> x + 3")
    case True
    then have "x \<le> y" "x + 3 - y = 3 - (y - x)" using unaligned_words(1) [of y x] by simp_all
    then show ?thesis using s2(4) [OF that] True by (simp only: word_at_def simp_thms if_True)
  next
    case False
    then have "(x \<le> y \<and> y \<le> x + 3) = (y div 4 = x div 4 \<and> x \<le> y)"
      using unaligned_words(2) [of x y] unaligned_words(3) [of y x] by blast
    then show ?thesis using s1(4) [OF that] s2(4) [OF that] False by (simp only: word_at_def if_False)
  qed
  then show ?thesis using s1(1) s2(1-3) by (auto simp: ADD_TO_PC_def)
qed

lemma load_pair:
  assumes "plain_rdram s" "over a x" "over (a + 3) (x + 3)" "x + 3 < dram_size (rdram s)"
    and "lsaddr lwl s = a" "lsaddr lwr s = a + 3" "RT_OF lwr = RT_OF lwl" "RS_OF lwr \<noteq> RT_OF lwl"
    and "\<And>j. j < 4 \<Longrightarrow> dram_byte (rdram s) (x + 3 - j) = Some (byte_of v j)"
  shows "\<exists>s1 s2. LWL env lwl s = Some s1 \<and> LWR env lwr s1 = Some s2 \<and> rdram s2 = rdram s
    \<and> gpr (r4300 s2) = (gpr (r4300 s))(RT_OF lwl := SE32 v)"
proof -
  have lt: "x < dram_size (rdram s)" using assms(4) by simp
  obtain w3 where s3: "LWL env lwl s = Some (on_core (\<lambda>r. set_gpr (RT_OF lwl) (SE32 w3) (ADD_TO_PC r)) s)"
      "\<And>j. j < 4 \<Longrightarrow> Some (byte_of w3 j) = (if j < x mod 4 then Some (byte_of (rrt32 lwl (r4300 s)) j) else dram_byte (rdram s) (x + 3 - j))"
    using LWL_bytes [of s lwl x env] assms(1,2,5) lt by auto
  let ?s3 = "on_core (\<lambda>r. set_gpr (RT_OF lwl) (SE32 w3) (ADD_TO_PC r)) s"
  have g3: "gpr (r4300 ?s3) = (gpr (r4300 s))(RT_OF lwl := SE32 w3)" "rdram ?s3 = rdram s"
    by (simp_all add: on_core_def ADD_TO_PC_def set_gpr_def)
  have "plain_rdram ?s3" using assms(1) by (simp add: plain_rdram_def on_core_def ADD_TO_PC_def set_gpr_def)
  moreover have "lsaddr lwr ?s3 = a + 3" using assms(6,8) g3 by (simp add: lsaddr_def rrs32_def rrs_def)
  ultimately obtain w4 where s4: "LWR env lwr ?s3 = Some (on_core (\<lambda>r. set_gpr (RT_OF lwr) (SE32 w4) (ADD_TO_PC r)) ?s3)"
      "\<And>j. j < 4 \<Longrightarrow> Some (byte_of w4 j) = (if (x + 3) mod 4 < j then Some (byte_of (rrt32 lwr (r4300 ?s3)) j) else dram_byte (rdram s) (x + 3 - j))"
    using LWR_bytes [of ?s3 lwr "x + 3" env] assms(3,4) g3(2) by auto
  have w3: "rrt32 lwr (r4300 ?s3) = w3" using g3 assms(7) by (simp add: rrt32_def rrt_def ucast_SE32)
  have "w4 = v"
  proof (rule bytes_eqI)
    fix j :: nat assume j: "j < 4"
    have "Some (byte_of w4 j) = dram_byte (rdram s) (x + 3 - j)"
    proof (cases "(x + 3) mod 4 < j")
      case True
      then have "\<not> j < x mod 4" using j by presburger
      then show ?thesis using s4(2) [OF j] s3(2) [OF j] True w3 by (simp only: if_True if_False)
    qed (use s4(2) [OF j] in simp)
    then show "byte_of w4 j = byte_of v j" using assms(9) [OF j] by simp
  qed
  then show ?thesis using s3(1) s4(1) g3 assms(7) by (auto simp: ADD_TO_PC_def set_gpr_def on_core_def)
qed

text \<open>
  C20: An unaligned word is stored and loaded byte for byte. Over fitted RDRAM, \<^verbatim>\<open>SWL\<close> at an address and
  \<^verbatim>\<open>SWR\<close> at the address plus three put the four bytes of the register at the four bytes from the address
  on, most significant first, whatever the alignment, and change no other byte of memory and no register;
  \<^verbatim>\<open>LWL\<close> and \<^verbatim>\<open>LWR\<close> at the same addresses then assemble the word again, sign-extended.
\<close>

theorem unaligned_word_roundtrip:
  assumes "plain_rdram s" "over a x" "over (a + 3) (x + 3)" "x + 3 < dram_size (rdram s)"
    and "lsaddr swl s = a" "lsaddr swr s = a + 3" "lsaddr lwl s = a" "lsaddr lwr s = a + 3"
    and "RT_OF swr = RT_OF swl" "RT_OF lwr = RT_OF lwl" "RS_OF lwr \<noteq> RT_OF lwl"
  shows "\<exists>s1 s2 s3 s4. SWL env swl s = Some s1 \<and> SWR env swr s1 = Some s2
    \<and> (\<forall>y < 2 ^ 32. dram_byte (rdram s2) y = word_at x (rrt32 swl (r4300 s)) (dram_byte (rdram s)) y)
    \<and> gpr (r4300 s2) = gpr (r4300 s)
    \<and> LWL env lwl s2 = Some s3 \<and> LWR env lwr s3 = Some s4 \<and> rdram s4 = rdram s2
    \<and> gpr (r4300 s4) = (gpr (r4300 s))(RT_OF lwl := SE32 (rrt32 swl (r4300 s)))"
proof -
  let ?v = "rrt32 swl (r4300 s)"
  obtain s1 s2 where s2: "SWL env swl s = Some s1" "SWR env swr s1 = Some s2" "plain_rdram s2"
      "dram_size (rdram s2) = dram_size (rdram s)" "gpr (r4300 s2) = gpr (r4300 s)"
      "\<forall>y < 2 ^ 32. dram_byte (rdram s2) y = word_at x ?v (dram_byte (rdram s)) y"
    using store_pair [OF assms(1-6,9)] by blast
  have small: "x + 3 < 2 ^ 32" using assms(1,4) by (simp add: plain_rdram_def wf_rdram_def)
  have bytes: "dram_byte (rdram s2) (x + 3 - j) = Some (byte_of ?v j)" if "j < 4" for j
  proof -
    have "x \<le> x + 3 - j" "x + 3 - j \<le> x + 3" "3 - (x + 3 - j - x) = j" "x + 3 - j < 2 ^ 32" using small that by linarith+
    then show ?thesis using s2(6) by (simp only: word_at_def simp_thms if_True)
  qed
  have a: "lsaddr lwl s2 = a" "lsaddr lwr s2 = a + 3" "x + 3 < dram_size (rdram s2)"
    using assms(4,7,8) s2(4,5) by (simp_all add: lsaddr_def rrs32_def rrs_def)
  from load_pair [OF s2(3) assms(2,3) a(3,1,2) assms(10,11) bytes] s2 show ?thesis by simp
qed

text \<open>The word 0x11223344 at the odd address 0x80000101 of the example machine.\<close>

theorem unaligned_word_roundtrip_witness:
  "\<exists>s1 s2 s3 s4. SWL console_env 0xA8220000 (console\<lparr>r4300 := (r4300 console)
        \<lparr>gpr := (\<lambda>_. 0)(1 := 0x80000101, 2 := 0x11223344)\<rparr>\<rparr>) = Some s1
    \<and> SWR console_env 0xB8220003 s1 = Some s2 \<and> dram_byte (rdram s2) 0x101 = Some 0x11
    \<and> LWL console_env 0x88230000 s2 = Some s3 \<and> LWR console_env 0x98230003 s3 = Some s4 \<and> gpr (r4300 s4) 3 = 0x11223344"
proof -
  let ?s = "console\<lparr>r4300 := (r4300 console)\<lparr>gpr := (\<lambda>_. 0)(1 := 0x80000101, 2 := 0x11223344)\<rparr>\<rparr>"
  have sz: "dram_size (rdram console) = RDRAM_MAX_SIZE" by (simp add: console_def)
  have pl: "plain_rdram ?s"
    using console_facts(3) console_queue(3) console_rdram_handler sz by (auto simp: plain_rdram_def)
  have f: "RT_OF 0xA8220000 = 2" "RT_OF 0xB8220003 = 2" "RT_OF 0x88230000 = 3" "RT_OF 0x98230003 = 3" "RS_OF 0x98230003 = 1"
    by (simp_all add: RT_OF_def RS_OF_def)
  have l: "lsaddr 0xA8220000 ?s = 0x80000101" "lsaddr 0xB8220003 ?s = 0x80000101 + 3"
    "lsaddr 0x88230000 ?s = 0x80000101" "lsaddr 0x98230003 ?s = 0x80000101 + 3"
    by (simp_all add: lsaddr_def rrs32_def rrs_def RS_OF_def imm_se32_def IMM16S_OF_def)
  have v: "rrt32 0xA8220000 (r4300 ?s) = 0x11223344" by (simp add: rrt32_def rrt_def f)
  have o: "over 0x80000101 0x101" "over (0x80000101 + 3) (0x101 + 3)" by (simp_all add: over_def)
  have "0x101 + 3 < dram_size (rdram ?s)" using sz by simp
  moreover have "RT_OF 0xB8220003 = RT_OF 0xA8220000" "RT_OF 0x98230003 = RT_OF 0x88230000" "RS_OF 0x98230003 \<noteq> RT_OF 0x88230000"
    by (simp_all add: f)
  ultimately obtain s1 s2 s3 s4 where
    r: "SWL console_env 0xA8220000 ?s = Some s1" "SWR console_env 0xB8220003 s1 = Some s2"
    "\<forall>y < 2 ^ 32. dram_byte (rdram s2) y = word_at 0x101 (rrt32 0xA8220000 (r4300 ?s)) (dram_byte (rdram ?s)) y"
    "LWL console_env 0x88230000 s2 = Some s3" "LWR console_env 0x98230003 s3 = Some s4"
    "gpr (r4300 s4) = (gpr (r4300 ?s))(RT_OF 0x88230000 := SE32 (rrt32 0xA8220000 (r4300 ?s)))"
    using unaligned_word_roundtrip [OF pl o _ l, of console_env] by blast
  have "dram_byte (rdram s2) 0x101 = Some 0x11" using r(3) unfolding v by (simp add: word_at_def byte_of_def)
  moreover have "gpr (r4300 s4) 3 = 0x11223344" unfolding r(6) v by (simp add: f SE32_def)
  ultimately show ?thesis using r(1,2,4,5) by blast
qed

end
