(* ===== verification/Disk.thy ===== *)
theory Disk
  imports Buffers
begin

text \<open>
  The disk of the disk drive, \<^verbatim>\<open>device/dd/disk.h\<close> and \<^verbatim>\<open>device/dd/disk.c\<close>: geometry, the numbering of
  blocks, the three image formats, the detection of the format and the storage interfaces. A pointer into
  the image is its offset. The macros \<^verbatim>\<open>BLOCKSIZE\<close> and \<^verbatim>\<open>TRACKSIZE\<close> have no parentheses, so a division by
  one of them divides by the sector size and multiplies by the number of sectors; the model does the same.
\<close>

section \<open>Geometry\<close>

abbreviation SECTORS_PER_BLOCK :: u32 where "SECTORS_PER_BLOCK \<equiv> 85"
abbreviation MAME_FORMAT_DUMP_SIZE :: nat where "MAME_FORMAT_DUMP_SIZE \<equiv> 0x0435b0c0"
abbreviation SDK_FORMAT_DUMP_SIZE :: nat where "SDK_FORMAT_DUMP_SIZE \<equiv> 0x03dec800"
abbreviation MAX_LBA :: nat where "MAX_LBA \<equiv> 0x10DB"
abbreviation SYSTEM_LBAS :: nat where "SYSTEM_LBAS \<equiv> 24"
abbreviation DISKID_LBA :: nat where "DISKID_LBA \<equiv> 14"
abbreviation PROTECT_LBA :: nat where "PROTECT_LBA \<equiv> 12"
abbreviation D64_OFFSET_DATA :: nat where "D64_OFFSET_DATA \<equiv> 0x200"

definition zone_sec_size :: "u32 list" where
  "zone_sec_size = [232, 216, 208, 192, 176, 160, 144, 128, 216, 208, 192, 176, 160, 144, 128, 112]"

definition zone_sec_size_phys :: "u32 list" where
  "zone_sec_size_phys = [232, 216, 208, 192, 176, 160, 144, 128, 112]"

definition DiskTypeZones :: "nat list list" where
  "DiskTypeZones =
    [[0, 1, 2, 9, 8, 3, 4, 5, 6, 7, 15, 14, 13, 12, 11, 10],
     [0, 1, 2, 3, 10, 9, 8, 4, 5, 6, 7, 15, 14, 13, 12, 11],
     [0, 1, 2, 3, 4, 11, 10, 9, 8, 5, 6, 7, 15, 14, 13, 12],
     [0, 1, 2, 3, 4, 5, 12, 11, 10, 9, 8, 6, 7, 15, 14, 13],
     [0, 1, 2, 3, 4, 5, 6, 13, 12, 11, 10, 9, 8, 7, 15, 14],
     [0, 1, 2, 3, 4, 5, 6, 7, 14, 13, 12, 11, 10, 9, 8, 15],
     [0, 1, 2, 3, 4, 5, 6, 7, 15, 14, 13, 12, 11, 10, 9, 8]]"

definition VZoneLBATable :: "nat list list" where
  "VZoneLBATable =
    [[0x0124, 0x0248, 0x035A, 0x047E, 0x05A2, 0x06B4, 0x07C6, 0x08D8, 0x09EA, 0x0AB6, 0x0B82, 0x0C94, 0x0DA6, 0x0EB8, 0x0FCA, 0x10DC],
     [0x0124, 0x0248, 0x035A, 0x046C, 0x057E, 0x06A2, 0x07C6, 0x08D8, 0x09EA, 0x0AFC, 0x0BC8, 0x0C94, 0x0DA6, 0x0EB8, 0x0FCA, 0x10DC],
     [0x0124, 0x0248, 0x035A, 0x046C, 0x057E, 0x0690, 0x07A2, 0x08C6, 0x09EA, 0x0AFC, 0x0C0E, 0x0CDA, 0x0DA6, 0x0EB8, 0x0FCA, 0x10DC],
     [0x0124, 0x0248, 0x035A, 0x046C, 0x057E, 0x0690, 0x07A2, 0x08B4, 0x09C6, 0x0AEA, 0x0C0E, 0x0D20, 0x0DEC, 0x0EB8, 0x0FCA, 0x10DC],
     [0x0124, 0x0248, 0x035A, 0x046C, 0x057E, 0x0690, 0x07A2, 0x08B4, 0x09C6, 0x0AD8, 0x0BEA, 0x0D0E, 0x0E32, 0x0EFE, 0x0FCA, 0x10DC],
     [0x0124, 0x0248, 0x035A, 0x046C, 0x057E, 0x0690, 0x07A2, 0x086E, 0x0980, 0x0A92, 0x0BA4, 0x0CB6, 0x0DC8, 0x0EEC, 0x1010, 0x10DC],
     [0x0124, 0x0248, 0x035A, 0x046C, 0x057E, 0x0690, 0x07A2, 0x086E, 0x093A, 0x0A4C, 0x0B5E, 0x0C70, 0x0D82, 0x0E94, 0x0FB8, 0x10DC]]"

text \<open>The code indexes the first row of the table with up to 15 and so reaches the second; both are one list.\<close>

definition TrackZoneTable :: "u32 list" where
  "TrackZoneTable =
    [0x000, 0x09E, 0x13C, 0x1D1, 0x266, 0x2FB, 0x390, 0x425,
     0x091, 0x12F, 0x1C4, 0x259, 0x2EE, 0x383, 0x418, 0x48A]"

definition SECTORSIZE :: "u32 \<Rightarrow> u32 option" where
  "SECTORSIZE zone = rd zone_sec_size (unat zone)"

definition BLOCKSIZE :: "u32 \<Rightarrow> u32 option" where
  "BLOCKSIZE zone = map_option (\<lambda>z. z * SECTORS_PER_BLOCK) (SECTORSIZE zone)"

definition TRACKSIZE :: "u32 \<Rightarrow> u32 option" where
  "TRACKSIZE zone = map_option (\<lambda>z. z * SECTORS_PER_BLOCK * 2) (SECTORSIZE zone)"

text \<open>\<^verbatim>\<open>x / BLOCKSIZE(0)\<close>, assigned to \<^verbatim>\<open>uint16_t\<close>; \<open>x\<close> is an \<^verbatim>\<open>unsigned int\<close> or a \<^verbatim>\<open>size_t\<close>, and the products that leave
  its type do so in the bits that the assignment drops.\<close>

definition div_BLOCKSIZE_0 :: "nat \<Rightarrow> u16" where
  "div_BLOCKSIZE_0 x = word_of_nat (x div 232 * 85)"

section \<open>Data\<close>

datatype disk_interface = g_istorage_disk_read_only | g_istorage_disk_full | g_istorage_disk_ram_only

text \<open>
  \<open>dk_data\<close> is the full image, \<open>dk_save\<close> the notifications received by the storage that is saved and
  \<open>dk_save_size\<close> its size; \<open>dk_interface\<close> is the table of functions the drive was given.
\<close>

record dd_disk =
  dk_data :: "u8 list"
  dk_interface :: disk_interface
  dk_save :: "(nat \<times> nat) list"
  dk_save_size :: nat
  lba_phys_table :: "u16 list"
  dk_format :: u8
  development :: u8
  offset_sys :: nat
  offset_id :: nat
  offset_ram :: nat

abbreviation DISK_FORMAT_MAME :: u8 where "DISK_FORMAT_MAME \<equiv> 0"
abbreviation DISK_FORMAT_SDK :: u8 where "DISK_FORMAT_SDK \<equiv> 1"
abbreviation DISK_FORMAT_D64 :: u8 where "DISK_FORMAT_D64 \<equiv> 2"

text \<open>The fields of \<^verbatim>\<open>struct dd_sys_data\<close> at offset \<open>base\<close> of the image; \<open>big16\<close> and \<open>big32\<close> read big-endian.\<close>

definition disk_big16 :: "u8 list \<Rightarrow> nat \<Rightarrow> u16 option" where
  "disk_big16 d i = do { a \<leftarrow> rd d i; b \<leftarrow> rd d (i + 1); Some (push_bit 8 (ucast a) OR ucast b) }"

definition disk_big32 :: "u8 list \<Rightarrow> nat \<Rightarrow> u32 option" where
  "disk_big32 d i = do {
     a \<leftarrow> disk_big16 d i; b \<leftarrow> disk_big16 d (i + 2); Some (push_bit 16 (ucast a) OR ucast b) }"

definition sys_type :: "u8 list \<Rightarrow> nat \<Rightarrow> u8 option" where
  "sys_type d base = rd d (base + 5)"

definition sys_defect_offset :: "u8 list \<Rightarrow> nat \<Rightarrow> nat \<Rightarrow> u8 option" where
  "sys_defect_offset d base i = (if i < 16 then rd d (base + 8 + i) else None)"

definition sys_defect_info :: "u8 list \<Rightarrow> nat \<Rightarrow> nat \<Rightarrow> u8 option" where
  "sys_defect_info d base i = (if i < 192 then rd d (base + 32 + i) else None)"

section \<open>Storage interface\<close>

definition storage_disk_size :: "dd_disk \<Rightarrow> nat" where
  "storage_disk_size dk = length (dk_data dk)"

definition storage_disk_save :: "nat \<Rightarrow> nat \<Rightarrow> dd_disk \<Rightarrow> dd_disk" where
  "storage_disk_save start sz dk =
     (case dk_interface dk of
        g_istorage_disk_read_only \<Rightarrow> dk
      | g_istorage_disk_full \<Rightarrow> dk\<lparr>dk_save := (start, sz) # dk_save dk\<rparr>
      | g_istorage_disk_ram_only \<Rightarrow>
          (if offset_ram dk \<le> start \<and> start - offset_ram dk + sz \<le> dk_save_size dk
           then dk\<lparr>dk_save := (start - offset_ram dk, sz) # dk_save dk\<rparr> else dk))"

section \<open>Logical blocks\<close>

text \<open>The first zone whose bound is above the block, \<^verbatim>\<open>-1\<close> when there is none.\<close>

fun first_zone :: "nat \<Rightarrow> nat \<Rightarrow> nat list \<Rightarrow> nat option" where
  "first_zone lba k [] = None"
| "first_zone lba k (b # bs) = (if lba < b then Some k else first_zone lba (Suc k) bs)"

definition LBAToVZoneA :: "u8 \<Rightarrow> u32 \<Rightarrow> u32 option" where
  "LBAToVZoneA ty lba = do {
     row \<leftarrow> rd VZoneLBATable (unat (ty AND 0x0F));
     Some (case first_zone (unat lba) 0 row of None \<Rightarrow> -1 | Some z \<Rightarrow> word_of_nat z) }"

definition VZoneToPZone :: "nat \<Rightarrow> u8 \<Rightarrow> nat option" where
  "VZoneToPZone vzone disktype = do { row \<leftarrow> rd DiskTypeZones (unat disktype); rd row vzone }"

text \<open>
  The loop of \<^verbatim>\<open>LBAToByteA\<close>: \<open>n\<close> blocks are left, \<open>init\<close> is \<^verbatim>\<open>init_flag\<close>.
\<close>

fun lba_bytes :: "u8 \<Rightarrow> nat \<Rightarrow> bool \<Rightarrow> u32 \<Rightarrow> u32 \<Rightarrow> u32 \<Rightarrow> u32 \<Rightarrow> u32 option" where
  "lba_bytes ty 0 init vzone blocksize acc lba = Some acc"
| "lba_bytes ty (Suc n) init vzone blocksize acc lba = do {
     let disktype = ty AND 0x0F;
     enter \<leftarrow> (if init then Some True else do {
         row \<leftarrow> rd VZoneLBATable (unat disktype);
         bound \<leftarrow> rd row (unat vzone);
         Some (bound = unat lba) });
     (vzone, blocksize) \<leftarrow> (if enter then do {
         vzone \<leftarrow> LBAToVZoneA ty lba;
         pzone \<leftarrow> VZoneToPZone (unat vzone) disktype;
         sz \<leftarrow> rd zone_sec_size_phys (if 7 < pzone then pzone - 7 else pzone);
         Some (vzone, sz * SECTORS_PER_BLOCK) }
       else Some (vzone, blocksize));
     let lba = lba + 1;
     if n \<noteq> 0 \<and> MAX_LBA < unat lba then Some 0xFFFFFFFF
     else lba_bytes ty n False vzone blocksize (acc + blocksize) lba }"

definition LBAToByteA :: "u8 \<Rightarrow> u32 \<Rightarrow> u32 \<Rightarrow> u32 option" where
  "LBAToByteA ty lba nlbas = lba_bytes ty (unat nlbas) True 0 0 0 lba"

definition LBAToByte :: "u8 list \<Rightarrow> nat \<Rightarrow> u32 \<Rightarrow> u32 \<Rightarrow> u32 option" where
  "LBAToByte d sys lba nlbas = do { ty \<leftarrow> sys_type d sys; LBAToByteA ty lba nlbas }"

definition OUTERCYL_TBL :: "u32 list" where
  "OUTERCYL_TBL = [0x000, 0x09E, 0x13C, 0x1D1, 0x266, 0x2FB, 0x390, 0x425]"

text \<open>The defective tracks are skipped one by one; \<open>n\<close> is \<^verbatim>\<open>defect_amount\<close>.\<close>

fun skip_defects :: "(nat \<Rightarrow> u8 option) \<Rightarrow> u16 \<Rightarrow> nat \<Rightarrow> u16 \<Rightarrow> u16 \<Rightarrow> u16 option" where
  "skip_defects info start 0 off track = Some track"
| "skip_defects info start (Suc n) off track = do {
     x \<leftarrow> info (unat off);
     if unat x + unat start \<le> unat track then skip_defects info start n (off + 1) (track + 1)
     else Some track }"

definition LBAToPhys :: "u8 list \<Rightarrow> nat \<Rightarrow> u32 \<Rightarrow> u16 option" where
  "LBAToPhys d sys lba = do {
     ty \<leftarrow> sys_type d sys;
     let disktype = ty AND 0x0F;
     let block = (if lba AND 3 = 0 \<or> lba AND 3 = 3 then 0 else 1 :: u16);
     vz \<leftarrow> LBAToVZoneA ty lba;
     let vzone = unat (ucast vz :: u16);
     pzone \<leftarrow> VZoneToPZone vzone disktype;
     let head = (if 7 < pzone then 1 else 0 :: u16);
     vzone_lba \<leftarrow> (if vzone \<noteq> 0 then do { row \<leftarrow> rd VZoneLBATable (unat disktype); rd row (vzone - 1) } else Some 0);
     let track = (ucast (drop_bit 1 (lba - word_of_nat vzone_lba)) :: u16);
     zone_start \<leftarrow> rd TrackZoneTable pzone;
     (track, track_zone_start) \<leftarrow> (if head \<noteq> 0 then do { t \<leftarrow> rd OUTERCYL_TBL (pzone - 7 - 1); Some (- track, ucast t :: u16) }
       else Some (track, ucast zone_start));
     let track = track + ucast zone_start;
     defect_offset \<leftarrow> (if pzone \<noteq> 0 then sys_defect_offset d sys (pzone - 1) else Some 0);
     defect_end \<leftarrow> sys_defect_offset d sys pzone;
     let amount = (ucast defect_end - ucast defect_offset :: u16);
     track \<leftarrow> skip_defects (sys_defect_info d sys) track_zone_start (unat amount) (ucast defect_offset) track;
     Some (track OR (head * 0x1000) OR (block * 0x2000)) }"

text \<open>The table that numbers the physical blocks.\<close>

definition GenerateLBAToPhysTable :: "dd_disk \<Rightarrow> dd_disk option" where
  "GenerateLBAToPhysTable dk =
     (if dk_format dk = DISK_FORMAT_MAME then Some dk
      else do {
        t \<leftarrow> for_range 0 0x10DC (\<lambda>lba t. do {
          p \<leftarrow> LBAToPhys (dk_data dk) (offset_sys dk) (word_of_nat lba);
          wr t lba p }) (lba_phys_table dk);
        Some (dk\<lparr>lba_phys_table := t\<rparr>) })"

fun find_phys :: "u16 \<Rightarrow> nat \<Rightarrow> u16 list \<Rightarrow> u32" where
  "find_phys v lba [] = 0xFFFF"
| "find_phys v lba (x # xs) = (if x = v then word_of_nat lba else find_phys v (Suc lba) xs)"

definition PhysToLBA :: "dd_disk \<Rightarrow> u16 \<Rightarrow> u16 \<Rightarrow> u16 \<Rightarrow> u32" where
  "PhysToLBA dk head track block =
     find_phys (track OR (head * 0x1000) OR (block * 0x2000)) 0 (take 0x10DC (lba_phys_table dk))"

section \<open>Sectors\<close>

text \<open>
  The value of the functions below is \<open>None\<close> when they fault, \<open>Some None\<close> for \<^verbatim>\<open>NULL\<close> and \<open>Some (Some i)\<close> for a
  pointer to byte \<open>i\<close> of the image.
\<close>

fun zone_search :: "nat \<Rightarrow> u32 \<Rightarrow> nat" where
  "zone_search 0 track = 0"
| "zone_search (Suc z) track = (if TrackZoneTable ! Suc z \<le> track then Suc z else zone_search z track)"

definition get_zone_from_head_track :: "u32 \<Rightarrow> u32 \<Rightarrow> u32" where
  "get_zone_from_head_track head track = word_of_nat (zone_search 7 track) + head"

definition mame_start_offset :: "u32 list" where
  "mame_start_offset =
    [0x0000000, 0x05f15e0, 0x0b79d00, 0x10801a0, 0x1523720, 0x1963d80, 0x1d414c0, 0x20bbce0,
     0x23196e0, 0x28a1e00, 0x2df5dc0, 0x3299340, 0x36d99a0, 0x3ab70e0, 0x3e31900, 0x4149200]"

definition phys_sector_size :: "dd_disk \<Rightarrow> u32 \<Rightarrow> u32 \<Rightarrow> u32 option" where
  "phys_sector_size dk head track =
     (if development dk \<noteq> 0 \<and> head = 0 \<and> track < 6 then Some 0xC0
      else rd zone_sec_size_phys (unat (get_zone_from_head_track head track)))"

text \<open>The blocks of the system area that answer with an error.\<close>

definition protected_block :: "dd_disk \<Rightarrow> u32 \<Rightarrow> bool" where
  "protected_block dk offset =
     (let lblock = unat (div_BLOCKSIZE_0 (unat offset));
          lblock_sys = unat (div_BLOCKSIZE_0 (offset_sys dk));
          lblock_id = unat (div_BLOCKSIZE_0 (offset_id dk))
      in (lblock < PROTECT_LBA \<and> lblock \<noteq> lblock_sys)
       \<or> (PROTECT_LBA < lblock \<and> lblock < DISKID_LBA + 2 \<and> lblock \<noteq> lblock_id))"

definition get_sector_base_mame :: "dd_disk \<Rightarrow> u32 \<Rightarrow> u32 \<Rightarrow> u32 \<Rightarrow> u32 \<Rightarrow> nat option option" where
  "get_sector_base_mame dk head track block sector = do {
     let zone = get_zone_from_head_track head track;
     sector_size \<leftarrow> phys_sector_size dk head track;
     let zone = zone - head;
     zone_track \<leftarrow> rd TrackZoneTable (unat zone);
     let tr_off = track - zone_track;
     let zone = zone + head * 8;
     start \<leftarrow> rd mame_start_offset (unat zone);
     track_size \<leftarrow> TRACKSIZE zone;
     block_size \<leftarrow> BLOCKSIZE zone;
     let offset = start + tr_off * track_size + block * block_size + sector * sector_size;
     if sector = 0 \<and> track < word_of_nat (SYSTEM_LBAS div 2) \<and> protected_block dk offset then Some None
     else Some (Some (unat offset)) }"

definition get_sector_base_sdk :: "dd_disk \<Rightarrow> u32 \<Rightarrow> u32 \<Rightarrow> u32 \<Rightarrow> u32 \<Rightarrow> nat option option" where
  "get_sector_base_sdk dk head track block sector = do {
     let lba = (ucast (PhysToLBA dk (ucast head) (ucast track) (ucast block)) :: u16);
     if MAX_LBA < unat lba then Some None
     else do {
       sector_size \<leftarrow> phys_sector_size dk head track;
       bytes \<leftarrow> LBAToByte (dk_data dk) (offset_sys dk) 0 (ucast lba);
       let offset = bytes + sector * sector_size;
       if sector = 0 \<and> unat lba < SYSTEM_LBAS \<and> protected_block dk offset then Some None
       else Some (Some (unat offset)) } }"

definition get_sector_base_d64 :: "dd_disk \<Rightarrow> u32 \<Rightarrow> u32 \<Rightarrow> u32 \<Rightarrow> u32 \<Rightarrow> nat option option" where
  "get_sector_base_d64 dk head track block sector = do {
     let base = offset_sys dk;
     rom_lba_end \<leftarrow> map_option unat (disk_big16 (dk_data dk) (base + 224));
     ram_lba_start \<leftarrow> map_option unat (disk_big16 (dk_data dk) (base + 226));
     ram_lba_end \<leftarrow> map_option unat (disk_big16 (dk_data dk) (base + 228));
     ty \<leftarrow> sys_type (dk_data dk) base;
     let disk_type = ty AND 0x0F;
     sector_size \<leftarrow> rd zone_sec_size_phys (unat (get_zone_from_head_track head track));
     let lba = unat (ucast (PhysToLBA dk (ucast head) (ucast track) (ucast block)) :: u16);
     if lba < DISKID_LBA then Some (Some (unat (word_of_nat (offset_sys dk) :: u32)))
     else if lba < SYSTEM_LBAS then Some (Some (unat (word_of_nat (offset_id dk) :: u32)))
     else if lba \<le> rom_lba_end + SYSTEM_LBAS then do {
       n \<leftarrow> LBAToByteA disk_type (word_of_nat SYSTEM_LBAS) (word_of_nat (lba - SYSTEM_LBAS));
       Some (Some (unat (word_of_nat D64_OFFSET_DATA + n + sector * sector_size))) }
     else if ram_lba_start \<le> lba - SYSTEM_LBAS \<and> lba - SYSTEM_LBAS \<le> ram_lba_end then do {
       n \<leftarrow> LBAToByteA disk_type (word_of_nat (ram_lba_start + SYSTEM_LBAS))
              (word_of_nat (lba - SYSTEM_LBAS - ram_lba_start));
       Some (Some (unat (word_of_nat (offset_ram dk) + n + sector * sector_size))) }
     else Some None }"

definition get_sector_base :: "dd_disk \<Rightarrow> u32 \<Rightarrow> u32 \<Rightarrow> u32 \<Rightarrow> u32 \<Rightarrow> nat option option" where
  "get_sector_base dk head track block sector =
     (if dk_format dk = DISK_FORMAT_MAME then get_sector_base_mame dk head track block sector
      else if dk_format dk = DISK_FORMAT_SDK then get_sector_base_sdk dk head track block sector
      else if dk_format dk = DISK_FORMAT_D64 then get_sector_base_d64 dk head track block sector
      else Some None)"

section \<open>Format detection\<close>

text \<open>The results that \<^verbatim>\<open>scan_and_expand_disk_format\<close> stores through its pointers.\<close>

record disk_layout =
  dl_format :: u32
  dl_development :: u32
  dl_offset_sys :: nat
  dl_offset_id :: nat
  dl_offset_ram :: nat
  dl_size_ram :: nat

abbreviation DD_REGION_JP :: u32 where "DD_REGION_JP \<equiv> 0xe848d316"
abbreviation DD_REGION_US :: u32 where "DD_REGION_US \<equiv> 0x2263ee56"
abbreviation DD_REGION_DV :: u32 where "DD_REGION_DV \<equiv> 0x00000000"

definition system_blocks :: "nat list" where
  "system_blocks = [0, 1, 2, 3, 8, 9, 10, 11]"

definition RAM_START_LBA :: "nat list" where
  "RAM_START_LBA = [0x5A2, 0x7C6, 0x9EA, 0xC0E, 0xE32, 0x1010, 0x10DC]"

definition RAM_SIZES :: "nat list" where
  "RAM_SIZES = [0x24A9DC0, 0x1C226C0, 0x1450F00, 0xD35680, 0x6CFD40, 0x1DA240, 0x0]"

text \<open>\<^verbatim>\<open>memcmp(&data[a], &data[b], n) == 0\<close>.\<close>

definition mem_equal :: "'a list \<Rightarrow> nat \<Rightarrow> nat \<Rightarrow> nat \<Rightarrow> bool option" where
  "mem_equal d a b n =
     (if a + n \<le> length d \<and> b + n \<le> length d then Some (take n (drop a d) = take n (drop b d)) else None)"

text \<open>Whether sector \<open>j\<close> and the \<open>n - 1\<close> after it repeat their predecessors.\<close>

fun sectors_repeat :: "u8 list \<Rightarrow> nat \<Rightarrow> nat \<Rightarrow> nat \<Rightarrow> nat \<Rightarrow> bool option" where
  "sectors_repeat d offset ss j 0 = Some True"
| "sectors_repeat d offset ss j (Suc n) = do {
     e \<leftarrow> mem_equal d (offset + (j - 1) * ss) (offset + j * ss) ss;
     if e then sectors_repeat d offset ss (Suc j) n else Some False }"

text \<open>The three tests of the system data at \<open>offset\<close> that precede the comparison of the sectors.\<close>

definition system_data_ok :: "u8 list \<Rightarrow> nat \<Rightarrow> bool option" where
  "system_data_ok d offset = do {
     ty \<leftarrow> sys_type d offset;
     if 6 < ty AND 0xEF then Some False else do {
     blk \<leftarrow> disk_big16 d (offset + 6);
     if MAX_LBA - SYSTEM_LBAS < unat blk \<or> blk = 0 then Some False else do {
     adr \<leftarrow> disk_big32 d (offset + 28);
     if adr < 0x80000000 \<or> 0x80800000 \<le> adr then Some False else do {
     reg \<leftarrow> disk_big32 d offset;
     Some (reg = DD_REGION_JP \<or> reg = DD_REGION_US \<or> reg = DD_REGION_DV) } } } }"

definition full_dump :: "nat \<Rightarrow> bool" where
  "full_dump sz \<longleftrightarrow> sz = MAME_FORMAT_DUMP_SIZE \<or> sz = SDK_FORMAT_DUMP_SIZE"

text \<open>The search over \<^verbatim>\<open>blocks\<close>, from index \<open>i\<close>: \<^verbatim>\<open>isValidDisk\<close>, \<open>-1\<close> for none.\<close>

fun scan_system :: "u8 list \<Rightarrow> nat \<Rightarrow> nat list \<Rightarrow> int option" where
  "scan_system d i [] = Some (-1)"
| "scan_system d i (b # bs) = do {
     let offset = 232 * 85 * b;
     let sz = length d;
     if sz \<le> offset + 0x20 \<or> (sz < MAME_FORMAT_DUMP_SIZE \<and> sz < SDK_FORMAT_DUMP_SIZE \<and> 0 < i) then Some (-1)
     else do {
       ok \<leftarrow> system_data_ok d offset;
       if \<not> ok then scan_system d (Suc i) bs
       else if \<not> full_dump sz then Some (int i)
       else do {
         r \<leftarrow> sectors_repeat d offset (if b = 2 \<or> b = 3 \<or> b = 10 \<or> b = 11 then 192 else 232) 1 84;
         if r then Some (int i) else scan_system d (Suc i) bs } } }"

text \<open>The search for the disk identification, in blocks 14 and 15: \<^verbatim>\<open>isValidDiskID\<close>.\<close>

definition scan_id :: "u8 list \<Rightarrow> int option" where
  "scan_id d = do {
     r \<leftarrow> sectors_repeat d (14 * (232 * 85)) 232 1 84;
     if r then Some 14 else do {
       r \<leftarrow> sectors_repeat d (15 * (232 * 85)) 232 1 84;
       Some (if r then 15 else -1) } }"

definition size_t_of :: "int \<Rightarrow> nat" where
  "size_t_of x = nat (x mod 2 ^ 64)"

text \<open>A 16-bit value stored big-endian in the image.\<close>

definition put_big16 :: "u8 list \<Rightarrow> nat \<Rightarrow> nat \<Rightarrow> u8 list option" where
  "put_big16 d i v = do { d \<leftarrow> wr d i (word_of_nat (v div 256)); wr d (i + 1) (word_of_nat v) }"

text \<open>
  The expansion of a D64 image: the new image, or \<open>Some None\<close> when its size or the start of its RAM area is not the expected one
  or when \<^verbatim>\<open>malloc\<close> fails (\<open>alloc\<close> tells for a size whether it succeeds).
\<close>

definition expand_d64 :: "(nat \<Rightarrow> bool) \<Rightarrow> u8 list \<Rightarrow> u8 list option option" where
  "expand_d64 alloc d = do {
     rom_lba_end \<leftarrow> map_option unat (disk_big16 d 224);
     ram_lba_start \<leftarrow> map_option unat (disk_big16 d 226);
     ram_lba_end \<leftarrow> map_option unat (disk_big16 d 228);
     ty \<leftarrow> sys_type d 0;
     let disk_type = ty AND 0x0F;
     rom_size \<leftarrow> LBAToByteA disk_type 24 (word_of_nat (rom_lba_end + 1));
     ram_size \<leftarrow> (if ram_lba_start \<noteq> 0xFFFF \<and> ram_lba_end \<noteq> 0xFFFF
       then LBAToByteA disk_type (word_of_nat (SYSTEM_LBAS + ram_lba_start))
              (word_of_int (int ram_lba_end + 1 - int ram_lba_start))
       else Some 0);
     full_ram \<leftarrow> rd RAM_SIZES (unat disk_type);
     let d64_size = D64_OFFSET_DATA + unat rom_size + unat ram_size;
     let full_d64_size = D64_OFFSET_DATA + unat rom_size + full_ram;
     ram_start \<leftarrow> rd RAM_START_LBA (unat disk_type);
     if ram_lba_start \<noteq> ram_start - SYSTEM_LBAS \<and> ram_lba_start \<noteq> 0xFFFF then Some None
     else if length d \<noteq> d64_size then Some None
     else if \<not> alloc full_d64_size then Some None
     else do {
       buffer \<leftarrow> memcpy (replicate full_d64_size 0) 0 d 0 d64_size;
       buffer \<leftarrow> wr buffer 4 0x10;
       bty \<leftarrow> sys_type buffer 0;
       buffer \<leftarrow> wr buffer 5 (bty OR 0x10);
       buffer \<leftarrow> (if disk_type < 6 then do {
           buffer \<leftarrow> put_big16 buffer 226 (ram_start - SYSTEM_LBAS);
           put_big16 buffer 228 (MAX_LBA - SYSTEM_LBAS) }
         else do {
           buffer \<leftarrow> put_big16 buffer 226 0xFFFF;
           put_big16 buffer 228 0xFFFF });
       Some (Some buffer) } }"

text \<open>
  The final \<^verbatim>\<open>switch\<close> on the size; \<open>sysb\<close>, \<open>idb\<close> are \<^verbatim>\<open>isValidDisk\<close> and \<^verbatim>\<open>isValidDiskID\<close>. \<^verbatim>\<open>isValidDisk\<close> is an
  index of \<^verbatim>\<open>blocks\<close>, which the code uses as the number of the block.
\<close>

definition disk_layout_of :: "u8 list \<Rightarrow> int \<Rightarrow> int \<Rightarrow> u32 \<Rightarrow> disk_layout \<Rightarrow> disk_layout option" where
  "disk_layout_of d sysb idb dev l =
     (let found = l\<lparr>dl_development := dev, dl_offset_sys := size_t_of (0x4D08 * sysb), dl_offset_id := size_t_of (0x4D08 * idb)\<rparr>
      in if length d = MAME_FORMAT_DUMP_SIZE then Some (found\<lparr>dl_format := 0\<rparr>)
      else if length d = SDK_FORMAT_DUMP_SIZE then do {
        ty \<leftarrow> sys_type d (dl_offset_sys found);
        ram_start \<leftarrow> rd RAM_START_LBA (unat (ty AND 0xF));
        ram \<leftarrow> LBAToByteA (ty AND 0xF) 0 (word_of_nat ram_start);
        ram_size \<leftarrow> rd RAM_SIZES (unat (ty AND 0xF));
        Some (found\<lparr>dl_format := 1, dl_offset_ram := unat ram, dl_size_ram := ram_size\<rparr>) }
      else do {
        ty \<leftarrow> sys_type d 0;
        rom_lba_end \<leftarrow> disk_big16 d 224;
        n \<leftarrow> LBAToByteA (ty AND 0xF) 24 (word_of_nat (unat rom_lba_end + 1));
        ram_size \<leftarrow> rd RAM_SIZES (unat (ty AND 0xF));
        Some (l\<lparr>dl_format := 2, dl_development := 1, dl_offset_sys := 0, dl_offset_id := 0x100,
          dl_offset_ram := unat (word_of_nat D64_OFFSET_DATA + n), dl_size_ram := ram_size\<rparr>) })"

text \<open>\<open>d\<close> is the buffer of the image, of \<^verbatim>\<open>size\<close> bytes; \<open>Some None\<close> is \<^verbatim>\<open>NULL\<close>.\<close>

definition scan_and_expand_disk_format ::
  "(nat \<Rightarrow> bool) \<Rightarrow> u8 list \<Rightarrow> disk_layout \<Rightarrow> (u8 list \<times> disk_layout) option option" where
  "scan_and_expand_disk_format alloc d l = do {
     sysb \<leftarrow> scan_system d 0 system_blocks;
     let dev = (if sysb = 2 \<or> sysb = 3 \<or> sysb = 10 \<or> sysb = 11 then 1 else 0);
     if sysb = -1 then Some None
     else if full_dump (length d) then do {
       idb \<leftarrow> scan_id d;
       if idb = -1 then Some None
       else do { l \<leftarrow> disk_layout_of d sysb idb dev l; Some (Some (d, l)) } }
     else do {
       b \<leftarrow> expand_d64 alloc d;
       case b of
         None \<Rightarrow> Some None
       | Some d \<Rightarrow> do { l \<leftarrow> disk_layout_of d sysb (-1) dev l; Some (Some (d, l)) } } }"

definition get_disk_format_name :: "u32 \<Rightarrow> string" where
  "get_disk_format_name fmt =
     (if fmt = 0 then ''MAME'' else if fmt = 1 then ''SDK'' else if fmt = 2 then ''D64'' else ''<unknown>'')"

end
