(* ===== verification/Dd.thy ===== *)
theory Dd
  imports Device Disk
begin

text \<open>
  The controller of the disk drive, \<^verbatim>\<open>device/dd/dd_controller.h\<close> and \<^verbatim>\<open>device/dd/dd_controller.c\<close>: registers and
  commands, the motor, the buffer manager that moves a block between the disk and the sector buffer with one
  interrupt per sector, the clock and the DMA functions; and \<open>with_dd\<close>, which puts the controller into the
  environment of the machine. Registers are indexed by their names; an address whose index is not that of a
  register reads past the array and is \<open>None\<close>. Messages sent to \<^verbatim>\<open>DebugMessage\<close> are not modelled.
\<close>

section \<open>Data\<close>

datatype dd_register =
    DD_ASIC_DATA | DD_ASIC_MISC_REG | DD_ASIC_CMD_STATUS | DD_ASIC_CUR_TK | DD_ASIC_BM_STATUS_CTL
  | DD_ASIC_ERR_SECTOR | DD_ASIC_SEQ_STATUS_CTL | DD_ASIC_CUR_SECTOR | DD_ASIC_HARD_RESET | DD_ASIC_C1_S0
  | DD_ASIC_HOST_SECBYTE | DD_ASIC_C1_S2 | DD_ASIC_SEC_BYTE | DD_ASIC_C1_S4 | DD_ASIC_C1_S6 | DD_ASIC_CUR_ADDR
  | DD_ASIC_ID_REG | DD_ASIC_TEST_REG | DD_ASIC_TEST_PIN_SEL

abbreviation DD_STATUS_DATA_RQ :: u32 where "DD_STATUS_DATA_RQ \<equiv> 0x40000000"
abbreviation DD_STATUS_C2_XFER :: u32 where "DD_STATUS_C2_XFER \<equiv> 0x10000000"
abbreviation DD_STATUS_BM_ERR :: u32 where "DD_STATUS_BM_ERR \<equiv> 0x08000000"
abbreviation DD_STATUS_BM_INT :: u32 where "DD_STATUS_BM_INT \<equiv> 0x04000000"
abbreviation DD_STATUS_MECHA_INT :: u32 where "DD_STATUS_MECHA_INT \<equiv> 0x02000000"
abbreviation DD_STATUS_DISK_PRES :: u32 where "DD_STATUS_DISK_PRES \<equiv> 0x01000000"
abbreviation DD_STATUS_BUSY_STATE :: u32 where "DD_STATUS_BUSY_STATE \<equiv> 0x00800000"
abbreviation DD_STATUS_RST_STATE :: u32 where "DD_STATUS_RST_STATE \<equiv> 0x00400000"
abbreviation DD_STATUS_MTR_N_SPIN :: u32 where "DD_STATUS_MTR_N_SPIN \<equiv> 0x00100000"
abbreviation DD_STATUS_HEAD_RTRCT :: u32 where "DD_STATUS_HEAD_RTRCT \<equiv> 0x00080000"
abbreviation DD_STATUS_WR_PR_ERR :: u32 where "DD_STATUS_WR_PR_ERR \<equiv> 0x00040000"
abbreviation DD_STATUS_DISK_CHNG :: u32 where "DD_STATUS_DISK_CHNG \<equiv> 0x00010000"
abbreviation DD_BM_STATUS_RUNNING :: u32 where "DD_BM_STATUS_RUNNING \<equiv> 0x80000000"
abbreviation DD_BM_STATUS_MICRO :: u32 where "DD_BM_STATUS_MICRO \<equiv> 0x02000000"
abbreviation DD_BM_STATUS_BLOCK :: u32 where "DD_BM_STATUS_BLOCK \<equiv> 0x01000000"
abbreviation DD_BM_CTL_START :: u32 where "DD_BM_CTL_START \<equiv> 0x80000000"
abbreviation DD_BM_CTL_RESET :: u32 where "DD_BM_CTL_RESET \<equiv> 0x10000000"
abbreviation DD_BM_CTL_BLK_TRANS :: u32 where "DD_BM_CTL_BLK_TRANS \<equiv> 0x02000000"
abbreviation DD_BM_CTL_MECHA_RST :: u32 where "DD_BM_CTL_MECHA_RST \<equiv> 0x01000000"
abbreviation DD_TRACK_LOCK :: u32 where "DD_TRACK_LOCK \<equiv> 0x60000000"
abbreviation MM_DD_C2S_BUFFER :: u32 where "MM_DD_C2S_BUFFER \<equiv> 0x05000000"
abbreviation MM_DD_DS_BUFFER :: u32 where "MM_DD_DS_BUFFER \<equiv> 0x05000400"
abbreviation MM_DD_REGS :: u32 where "MM_DD_REGS \<equiv> 0x05000500"
abbreviation MM_DD_MS_RAM :: u32 where "MM_DD_MS_RAM \<equiv> 0x05000580"

record dd_rtc =
  dd_now :: int
  dd_last_update_rtc :: int

text \<open>\<open>dd_disk\<close> is \<^verbatim>\<open>disk\<close> with \<^verbatim>\<open>idisk\<close>, both \<^verbatim>\<open>NULL\<close> when no disk is in the drive; \<open>dd_rom\<close> is the ROM with its size.\<close>

record dd_controller =
  dd_regs :: "dd_register \<Rightarrow> u32"
  c2s_buf :: "u8 list"
  ds_buf :: "u8 list"
  ms_ram :: "u8 list"
  disk_type :: u8
  timer_standby :: int
  timer_sleep :: int
  bm_write :: u8
  bm_reset_held :: u8
  bm_zone :: u32
  dd_clock :: dd_rtc
  dd_rom :: "u8 list"
  the_disk :: "dd_disk option"

record dd_sys = device +
  dd :: dd_controller

text \<open>\<^verbatim>\<open>iclock->get_time\<close> and the C library's \<^verbatim>\<open>localtime\<close>.\<close>

record dd_env =
  dd_get_time :: int
  dd_localtime :: "int \<Rightarrow> tm"

abbreviation ddr :: "'a dd_sys_scheme \<Rightarrow> dd_register \<Rightarrow> u32" where
  "ddr s x \<equiv> dd_regs (dd s) x"

definition set_ddr :: "dd_register \<Rightarrow> u32 \<Rightarrow> 'a dd_sys_scheme \<Rightarrow> 'a dd_sys_scheme" where
  "set_ddr x v s = s\<lparr>dd := (dd s)\<lparr>dd_regs := (dd_regs (dd s))(x := v)\<rparr>\<rparr>"

definition or_ddr :: "dd_register \<Rightarrow> u32 \<Rightarrow> 'a dd_sys_scheme \<Rightarrow> 'a dd_sys_scheme" where
  "or_ddr x m s = set_ddr x (ddr s x OR m) s"

definition clear_ddr :: "dd_register \<Rightarrow> u32 \<Rightarrow> 'a dd_sys_scheme \<Rightarrow> 'a dd_sys_scheme" where
  "clear_ddr x m s = set_ddr x (ddr s x AND NOT m) s"

definition dd_register_list :: "dd_register list" where
  "dd_register_list =
    [DD_ASIC_DATA, DD_ASIC_MISC_REG, DD_ASIC_CMD_STATUS, DD_ASIC_CUR_TK, DD_ASIC_BM_STATUS_CTL,
     DD_ASIC_ERR_SECTOR, DD_ASIC_SEQ_STATUS_CTL, DD_ASIC_CUR_SECTOR, DD_ASIC_HARD_RESET, DD_ASIC_C1_S0,
     DD_ASIC_HOST_SECBYTE, DD_ASIC_C1_S2, DD_ASIC_SEC_BYTE, DD_ASIC_C1_S4, DD_ASIC_C1_S6, DD_ASIC_CUR_ADDR,
     DD_ASIC_ID_REG, DD_ASIC_TEST_REG, DD_ASIC_TEST_PIN_SEL]"

definition dd_reg :: "u32 \<Rightarrow> dd_register option" where
  "dd_reg address = rd dd_register_list (unat (drop_bit 2 (address AND 0xff)))"

definition dd_rom_address :: "u32 \<Rightarrow> u32" where
  "dd_rom_address address = drop_bit 2 (address AND 0x3fffff)"

section \<open>Clock\<close>

definition dd_byte2bcd :: "int \<Rightarrow> u8" where
  "dd_byte2bcd n = (let n = n smod 100 in word_of_int (push_bit 4 (n sdiv 10) OR (n smod 10)))"

definition dd_time2data :: "int \<Rightarrow> int \<Rightarrow> u32" where
  "dd_time2data h l = push_bit 24 (ucast (dd_byte2bcd h)) OR push_bit 16 (ucast (dd_byte2bcd l))"

definition dd_update_rtc :: "int \<Rightarrow> dd_rtc \<Rightarrow> dd_rtc" where
  "dd_update_rtc clk rtc = rtc\<lparr>dd_now := dd_now rtc + (clk - dd_last_update_rtc rtc), dd_last_update_rtc := clk\<rparr>"

section \<open>Interrupts and motor\<close>

definition signal_dd_interrupt :: "u32 \<Rightarrow> 'a dd_sys_scheme \<Rightarrow> 'a dd_sys_scheme option" where
  "signal_dd_interrupt bm_int s =
     upd_r4300 (\<lambda>r. r4300_check_interrupt r CP0_CAUSE_IP3 1) (or_ddr DD_ASIC_CMD_STATUS bm_int s)"

definition clear_dd_interrupt :: "u32 \<Rightarrow> 'a dd_sys_scheme \<Rightarrow> 'a dd_sys_scheme option" where
  "clear_dd_interrupt bm_int s =
     upd_r4300 (\<lambda>r. r4300_check_interrupt r CP0_CAUSE_IP3 0) (clear_ddr DD_ASIC_CMD_STATUS bm_int s)"

definition dd_remove_event :: "u32 \<Rightarrow> 'a dd_sys_scheme \<Rightarrow> 'a dd_sys_scheme option" where
  "dd_remove_event ty = upd_r4300 (upd_cp0 (\<lambda>c. do { qu \<leftarrow> remove_event (cp0_q c) ty; Some (c\<lparr>cp0_q := qu\<rparr>) }))"

definition dd_add_event :: "u32 \<Rightarrow> u32 \<Rightarrow> 'a dd_sys_scheme \<Rightarrow> 'a dd_sys_scheme option" where
  "dd_add_event ty delay = upd_r4300 (upd_cp0 (\<lambda>c. add_interrupt_event c ty delay))"

definition dd_mecha_int_handler :: "'a dd_sys_scheme \<Rightarrow> 'a dd_sys_scheme option" where
  "dd_mecha_int_handler s =
     signal_dd_interrupt DD_STATUS_MECHA_INT (clear_ddr DD_ASIC_CMD_STATUS DD_STATUS_BUSY_STATE s)"

text \<open>\<^verbatim>\<open>46875000 * timer\<close>, a product of type \<^verbatim>\<open>int\<close>: undefined when it overflows.\<close>

definition motor_delay :: "int \<Rightarrow> u32 option" where
  "motor_delay timer = (if 46875000 * timer < 2 ^ 31 then Some (word_of_int (46875000 * timer)) else None)"

definition start_motor_timer :: "int \<Rightarrow> 'a dd_sys_scheme \<Rightarrow> 'a dd_sys_scheme option" where
  "start_motor_timer timer s = do {
     s \<leftarrow> dd_remove_event DD_DV_INT s;
     if 0 \<le> timer then do { delay \<leftarrow> motor_delay timer; dd_add_event DD_DV_INT delay s } else Some s }"

definition dd_dv_active :: "'a dd_sys_scheme \<Rightarrow> 'a dd_sys_scheme option" where
  "dd_dv_active s = start_motor_timer (timer_standby (dd s))
     (clear_ddr DD_ASIC_CMD_STATUS (DD_STATUS_MTR_N_SPIN OR DD_STATUS_HEAD_RTRCT) s)"

definition dd_dv_standby :: "'a dd_sys_scheme \<Rightarrow> 'a dd_sys_scheme option" where
  "dd_dv_standby s = start_motor_timer (timer_sleep (dd s))
     (or_ddr DD_ASIC_CMD_STATUS DD_STATUS_HEAD_RTRCT (clear_ddr DD_ASIC_CMD_STATUS DD_STATUS_MTR_N_SPIN s))"

definition dd_dv_sleep :: "'a dd_sys_scheme \<Rightarrow> 'a dd_sys_scheme option" where
  "dd_dv_sleep s =
     dd_remove_event DD_DV_INT (or_ddr DD_ASIC_CMD_STATUS (DD_STATUS_MTR_N_SPIN OR DD_STATUS_HEAD_RTRCT) s)"

text \<open>Both conditions are read before the first \<^verbatim>\<open>if\<close>.\<close>

definition dd_dv_int_handler :: "'a dd_sys_scheme \<Rightarrow> 'a dd_sys_scheme option" where
  "dd_dv_int_handler s = do {
     let motorNotSpinning = ddr s DD_ASIC_CMD_STATUS AND DD_STATUS_MTR_N_SPIN \<noteq> 0;
     let headRetracted = ddr s DD_ASIC_CMD_STATUS AND DD_STATUS_HEAD_RTRCT \<noteq> 0;
     s \<leftarrow> (if \<not> motorNotSpinning \<and> headRetracted then dd_dv_sleep s else Some s);
     if \<not> motorNotSpinning \<and> \<not> headRetracted then dd_dv_standby s else Some s }"

section \<open>Buffer manager\<close>

text \<open>The sector field of \<^verbatim>\<open>DD_ASIC_CUR_SECTOR\<close>: 90 sectors of a block follow those of the other.\<close>

definition sector_field :: "'a dd_sys_scheme \<Rightarrow> u32" where
  "sector_field s = drop_bit 16 (ddr s DD_ASIC_CUR_SECTOR) AND 0xff"

definition next_sector :: "'a dd_sys_scheme \<Rightarrow> 'a dd_sys_scheme" where
  "next_sector s = set_ddr DD_ASIC_CUR_SECTOR (ddr s DD_ASIC_CUR_SECTOR + 0x10000) s"

definition read_C2 :: "'a dd_sys_scheme \<Rightarrow> 'a dd_sys_scheme option" where
  "read_C2 s = do {
     len \<leftarrow> rd zone_sec_size (unat (bm_zone (dd s)));
     let sector = sector_field s mod 90;
     let offset = 0x40 * (sector - SECTORS_PER_BLOCK);
     b \<leftarrow> for_range 0 (unat len) (\<lambda>i b. wr b (s8 (unat offset + i)) 0) (c2s_buf (dd s));
     Some (s\<lparr>dd := (dd s)\<lparr>c2s_buf := b\<rparr>\<rparr>) }"

definition track_head :: "u32 \<Rightarrow> u32" where
  "track_head tk = drop_bit 28 (tk AND 0x10000000)"

definition track_number :: "u32 \<Rightarrow> u32" where
  "track_number tk = drop_bit 16 (tk AND 0x0fff0000)"

text \<open>The offset of the sector in the image, \<open>None\<close> for \<^verbatim>\<open>NULL\<close>.\<close>

definition seek_sector :: "'a dd_sys_scheme \<Rightarrow> (nat option \<times> 'a dd_sys_scheme) option" where
  "seek_sector s = do {
     let sector = sector_field s - ucast (bm_write (dd s));
     let block = sector div 90;
     let sector = sector mod 90;
     disk \<leftarrow> the_disk (dd s);
     base \<leftarrow> get_sector_base disk (track_head (ddr s DD_ASIC_CUR_TK)) (track_number (ddr s DD_ASIC_CUR_TK)) block sector;
     Some (base, if base = None then or_ddr DD_ASIC_BM_STATUS_CTL DD_BM_STATUS_MICRO s else s) }"

definition read_sector :: "'a dd_sys_scheme \<Rightarrow> 'a dd_sys_scheme option" where
  "read_sector s = do {
     (base, s) \<leftarrow> seek_sector s;
     case base of
       None \<Rightarrow> Some s
     | Some base \<Rightarrow> do {
         disk \<leftarrow> the_disk (dd s);
         let len = unat (ddr s DD_ASIC_HOST_SECBYTE + 1);
         b \<leftarrow> for_range 0 len (\<lambda>i b. do { v \<leftarrow> rd (dk_data disk) (base + i); wr b (s8 i) v }) (ds_buf (dd s));
         Some (s\<lparr>dd := (dd s)\<lparr>ds_buf := b\<rparr>\<rparr>) } }"

definition write_sector :: "'a dd_sys_scheme \<Rightarrow> 'a dd_sys_scheme option" where
  "write_sector s = do {
     (base, s) \<leftarrow> seek_sector s;
     case base of
       None \<Rightarrow> Some s
     | Some base \<Rightarrow> do {
         disk \<leftarrow> the_disk (dd s);
         let len = unat (ddr s DD_ASIC_HOST_SECBYTE + 1);
         d \<leftarrow> for_range 0 len (\<lambda>i d. do { v \<leftarrow> rd (ds_buf (dd s)) (s8 i); wr d (base + i) v }) (dk_data disk);
         let disk = storage_disk_save base len (disk\<lparr>dk_data := d\<rparr>);
         Some (s\<lparr>dd := (dd s)\<lparr>the_disk := Some disk\<rparr>\<rparr>) } }"

text \<open>The sector field that starts the other block of the track.\<close>

definition other_block :: "u32 \<Rightarrow> u32 \<Rightarrow> u32" where
  "other_block block first = push_bit 16 ((1 - block) * 90 + first)"

definition bm_write_step :: "'a dd_sys_scheme \<Rightarrow> 'a dd_sys_scheme option" where
  "bm_write_step s =
     (let sector = sector_field s mod 90; block = sector_field s div 90
      in if ddr s DD_ASIC_CMD_STATUS AND DD_STATUS_WR_PR_ERR \<noteq> 0 then
           Some (clear_ddr DD_ASIC_BM_STATUS_CTL DD_BM_STATUS_RUNNING
             (or_ddr DD_ASIC_BM_STATUS_CTL DD_BM_STATUS_MICRO (or_ddr DD_ASIC_CMD_STATUS DD_STATUS_BM_ERR s)))
         else if sector = 0 then Some (or_ddr DD_ASIC_CMD_STATUS DD_STATUS_DATA_RQ (next_sector s))
         else if sector < SECTORS_PER_BLOCK then do {
           s \<leftarrow> write_sector s;
           Some (or_ddr DD_ASIC_CMD_STATUS DD_STATUS_DATA_RQ (next_sector s)) }
         else if sector < SECTORS_PER_BLOCK + 1 then do {
           s \<leftarrow> write_sector s;
           if ddr s DD_ASIC_BM_STATUS_CTL AND DD_BM_STATUS_BLOCK \<noteq> 0 then
             Some (or_ddr DD_ASIC_CMD_STATUS DD_STATUS_DATA_RQ (clear_ddr DD_ASIC_BM_STATUS_CTL DD_BM_STATUS_BLOCK
               (set_ddr DD_ASIC_CUR_SECTOR (other_block block 1) s)))
           else Some (clear_ddr DD_ASIC_BM_STATUS_CTL DD_BM_STATUS_RUNNING (next_sector s)) }
         else Some s)"

definition bm_read_step :: "'a dd_sys_scheme \<Rightarrow> 'a dd_sys_scheme option" where
  "bm_read_step s = do {
     let sector = sector_field s mod 90;
     let block = sector_field s div 90;
     disk \<leftarrow> the_disk (dd s);
     if drop_bit 16 (ddr s DD_ASIC_CUR_TK) AND 0x1fff = 6 \<and> block = 0 \<and> development disk = 0 then
       Some (or_ddr DD_ASIC_BM_STATUS_CTL DD_BM_STATUS_MICRO (clear_ddr DD_ASIC_CMD_STATUS DD_STATUS_DATA_RQ s))
     else if sector < SECTORS_PER_BLOCK then do {
       s \<leftarrow> read_sector s;
       Some (or_ddr DD_ASIC_CMD_STATUS DD_STATUS_DATA_RQ (next_sector s)) }
     else if sector < SECTORS_PER_BLOCK + 3 then do { s \<leftarrow> read_C2 s; Some (next_sector s) }
     else if sector = SECTORS_PER_BLOCK + 3 then do {
       s \<leftarrow> read_C2 s;
       let s = or_ddr DD_ASIC_CMD_STATUS DD_STATUS_C2_XFER s;
       if ddr s DD_ASIC_BM_STATUS_CTL AND DD_BM_STATUS_BLOCK \<noteq> 0 then
         Some (clear_ddr DD_ASIC_BM_STATUS_CTL DD_BM_STATUS_BLOCK
           (set_ddr DD_ASIC_CUR_SECTOR (other_block block 0) s))
       else Some (clear_ddr DD_ASIC_BM_STATUS_CTL DD_BM_STATUS_RUNNING s) }
     else Some s }"

definition dd_update_bm :: "'a dd_sys_scheme \<Rightarrow> 'a dd_sys_scheme option" where
  "dd_update_bm s =
     (if ddr s DD_ASIC_BM_STATUS_CTL AND DD_BM_STATUS_RUNNING = 0 then Some s
      else do {
        let s = clear_ddr DD_ASIC_CMD_STATUS (DD_STATUS_DATA_RQ OR DD_STATUS_C2_XFER) s;
        s \<leftarrow> (if bm_write (dd s) \<noteq> 0 then bm_write_step s else bm_read_step s);
        s \<leftarrow> dd_dv_active s;
        signal_dd_interrupt DD_STATUS_BM_INT s })"

definition dd_bm_int_handler :: "'a dd_sys_scheme \<Rightarrow> 'a dd_sys_scheme option" where
  "dd_bm_int_handler s = dd_update_bm s"

section \<open>Power-on\<close>

definition poweron_dd :: "'a dd_sys_scheme \<Rightarrow> 'a dd_sys_scheme option" where
  "poweron_dd s = do {
     c2s \<leftarrow> memset (c2s_buf (dd s)) 0 0 0x400;
     ds \<leftarrow> memset (ds_buf (dd s)) 0 0 0x100;
     ms \<leftarrow> memset (ms_ram (dd s)) 0 0 0x40;
     s \<leftarrow> dd_dv_sleep (s\<lparr>dd := (dd s)\<lparr>dd_regs := (\<lambda>_. 0), c2s_buf := c2s, ds_buf := ds, ms_ram := ms,
       bm_write := 0, bm_reset_held := 0, bm_zone := 0, dd_clock := \<lparr>dd_now = 0, dd_last_update_rtc = 0\<rparr>,
       timer_sleep := 1, timer_standby := 3\<rparr>\<rparr>);
     let s = or_ddr DD_ASIC_CMD_STATUS DD_STATUS_RST_STATE (set_ddr DD_ASIC_ID_REG 0x00030000 s);
     Some (case the_disk (dd s) of
         None \<Rightarrow> s
       | Some disk \<Rightarrow>
           (let s = or_ddr DD_ASIC_CMD_STATUS DD_STATUS_DISK_PRES s
            in if development disk \<noteq> 0 then set_ddr DD_ASIC_ID_REG 0x00040000 s else s)) }"

section \<open>Commands\<close>

text \<open>
  The cases of the command register; each returns the cycles until the drive answers. A command other than a
  seek starts from \<^verbatim>\<open>cycles = 2000\<close>.
\<close>

definition motor_off :: "'a dd_sys_scheme \<Rightarrow> bool" where
  "motor_off s \<longleftrightarrow> ddr s DD_ASIC_CMD_STATUS AND (DD_STATUS_MTR_N_SPIN OR DD_STATUS_HEAD_RTRCT) \<noteq> 0"

definition startTrackZones :: "u32 list" where
  "startTrackZones = [0x000, 0x09E, 0x13C, 0x1D1, 0x266, 0x2FB, 0x390, 0x425, 0x497]"

text \<open>\<^verbatim>\<open>abs(track - old_track)\<close>: the difference of the unsigned values is converted to \<^verbatim>\<open>int\<close>.\<close>

definition track_distance :: "u32 \<Rightarrow> u32 \<Rightarrow> u32" where
  "track_distance track old_track = word_of_int \<bar>sint (track - old_track)\<bar>"

text \<open>
  What the two seeks share: the motor is started, the head moves to \<open>target\<close> (read after that), the direction of the transfer
  becomes \<open>writing\<close> and the zone is that of the new track.
\<close>

definition seek_track ::
  "('a dd_sys_scheme \<Rightarrow> u32) \<Rightarrow> u8 \<Rightarrow> 'a dd_sys_scheme \<Rightarrow> (u32 \<times> 'a dd_sys_scheme) option" where
  "seek_track target writing s = do {
     let cycles = 248250 + (if motor_off s then 501750 else 0);
     s \<leftarrow> dd_dv_active s;
     let old_track = track_number (ddr s DD_ASIC_CUR_TK);
     let s = or_ddr DD_ASIC_CUR_TK DD_TRACK_LOCK (set_ddr DD_ASIC_CUR_TK (target s) s);
     let head = track_head (ddr s DD_ASIC_CUR_TK);
     let track = track_number (ddr s DD_ASIC_CUR_TK);
     let s = s\<lparr>dd := (dd s)\<lparr>bm_write := writing, bm_zone := get_zone_from_head_track head track - head + 8 * head\<rparr>\<rparr>;
     Some (cycles + 4825 * track_distance track old_track, s) }"

definition dd_seek :: "u32 \<Rightarrow> 'a dd_sys_scheme \<Rightarrow> (u32 \<times> 'a dd_sys_scheme) option" where
  "dd_seek value s = do {
     (cycles, s) \<leftarrow> seek_track (\<lambda>s. ddr s DD_ASIC_DATA) (ucast (drop_bit 17 value AND 0x1)) s;
     let s = clear_ddr DD_ASIC_CMD_STATUS DD_STATUS_WR_PR_ERR s;
     if bm_write (dd s) \<noteq> 0 then do {
       let head = track_head (ddr s DD_ASIC_CUR_TK);
       first \<leftarrow> rd startTrackZones (unat (ucast (disk_type (dd s) AND 0xf) - head + 3));
       Some (cycles, if track_number (ddr s DD_ASIC_CUR_TK) < first
         then or_ddr DD_ASIC_CMD_STATUS DD_STATUS_WR_PR_ERR s else s) }
     else Some (cycles, s) }"

definition dd_rezero :: "'a dd_sys_scheme \<Rightarrow> (u32 \<times> 'a dd_sys_scheme) option" where
  "dd_rezero s = seek_track (\<lambda>_. 0) 1 s"

definition dd_sleep_command :: "'a dd_sys_scheme \<Rightarrow> (u32 \<times> 'a dd_sys_scheme) option" where
  "dd_sleep_command s = do {
     let cycles = (if motor_off s then 207500 else 2000);
     s \<leftarrow> dd_dv_sleep s;
     Some (cycles, s) }"

definition dd_standby_command :: "'a dd_sys_scheme \<Rightarrow> (u32 \<times> 'a dd_sys_scheme) option" where
  "dd_standby_command s = do {
     let cycles = (if motor_off s then 160000 else 2000);
     s \<leftarrow> dd_dv_standby s;
     Some (cycles, s) }"

text \<open>The delay set by commands 6 and 7: seconds, \<open>-1\<close> to disable.\<close>

definition delay_operand :: "u32 \<Rightarrow> int" where
  "delay_operand d = (if d AND 0x01000000 = 0 then uint (drop_bit 16 d AND 0xff) else -1)"

definition dd_read_version :: "'a dd_sys_scheme \<Rightarrow> 'a dd_sys_scheme option" where
  "dd_read_version s =
     (if ddr s DD_ASIC_DATA = 0 then do {
        disk \<leftarrow> the_disk (dd s);
        let s = set_ddr DD_ASIC_DATA 0x01140000 s;
        Some (if development disk \<noteq> 0 then or_ddr DD_ASIC_DATA 0x10000000 s else s) }
      else Some (set_ddr DD_ASIC_DATA 0x53000000 s))"

definition dd_set_disk_type :: "'a dd_sys_scheme \<Rightarrow> 'a dd_sys_scheme" where
  "dd_set_disk_type s =
     (let ty = ucast (drop_bit 16 (ddr s DD_ASIC_DATA) AND 0xf)
      in s\<lparr>dd := (dd s)\<lparr>disk_type := (if 6 < ty then 6 else ty)\<rparr>\<rparr>)"

definition dd_command :: "dd_env \<Rightarrow> u32 \<Rightarrow> 'a dd_sys_scheme \<Rightarrow> (u32 \<times> 'a dd_sys_scheme) option" where
  "dd_command env value s =
     (let cmd = drop_bit 16 value AND 0xff;
          t = dd_localtime env (dd_now (dd_clock (dd s)));
          base = (\<lambda>s. Some (2000, s))
      in if cmd = 0x01 \<or> cmd = 0x02 then dd_seek value s
         else if cmd = 0x03 \<or> cmd = 0x05 then dd_rezero s
         else if cmd = 0x04 then dd_sleep_command s
         else if cmd = 0x06 then base (s\<lparr>dd := (dd s)\<lparr>timer_standby := delay_operand (ddr s DD_ASIC_DATA)\<rparr>\<rparr>)
         else if cmd = 0x07 then base (s\<lparr>dd := (dd s)\<lparr>timer_sleep := delay_operand (ddr s DD_ASIC_DATA)\<rparr>\<rparr>)
         else if cmd = 0x08 then base (clear_ddr DD_ASIC_CMD_STATUS DD_STATUS_DISK_CHNG s)
         else if cmd = 0x09 then
           base (clear_ddr DD_ASIC_CMD_STATUS DD_STATUS_DISK_CHNG (clear_ddr DD_ASIC_CMD_STATUS DD_STATUS_RST_STATE s))
         else if cmd = 0x0a then do { s \<leftarrow> dd_read_version s; base s }
         else if cmd = 0x0b then base (dd_set_disk_type s)
         else if cmd = 0x0c then base (set_ddr DD_ASIC_DATA 0 s)
         else if cmd = 0x0d then dd_standby_command s
         else if cmd = 0x12 then base (set_ddr DD_ASIC_DATA (dd_time2data (tm_year t) (tm_mon t + 1)) s)
         else if cmd = 0x13 then base (set_ddr DD_ASIC_DATA (dd_time2data (tm_mday t) (tm_hour t)) s)
         else if cmd = 0x14 then base (set_ddr DD_ASIC_DATA (dd_time2data (tm_min t) (tm_sec t)) s)
         else if cmd = 0x1b then base (set_ddr DD_ASIC_DATA 0x00030000 s)
         else base s)"

section \<open>Registers\<close>

definition dd_reg_range :: "u32 \<Rightarrow> bool" where
  "dd_reg_range address \<longleftrightarrow> MM_DD_REGS \<le> address \<and> address < MM_DD_MS_RAM"

definition read_dd_regs :: "u32 \<Rightarrow> 'a dd_sys_scheme \<Rightarrow> (u32 \<times> 'a dd_sys_scheme) option" where
  "read_dd_regs address s =
     (if \<not> dd_reg_range address then Some (0, s)
      else do {
        x \<leftarrow> dd_reg address;
        let s = (if x = DD_ASIC_CMD_STATUS then
                   if the_disk (dd s) \<noteq> None then or_ddr x DD_STATUS_DISK_PRES s else clear_ddr x DD_STATUS_DISK_PRES s
                 else s);
        let value = ddr s x;
        if x = DD_ASIC_CMD_STATUS \<and> ddr s DD_ASIC_CMD_STATUS AND DD_STATUS_BM_INT \<noteq> 0 then do {
          s \<leftarrow> clear_dd_interrupt DD_STATUS_BM_INT s;
          s \<leftarrow> dd_add_event DD_BM_INT (8020 + track_number (ddr s DD_ASIC_CUR_TK) div 56) s;
          Some (value, s) }
        else Some (value, s) })"

text \<open>A write to the command register.\<close>

definition write_dd_command :: "dd_env \<Rightarrow> u32 \<Rightarrow> 'a dd_sys_scheme \<Rightarrow> 'a dd_sys_scheme option" where
  "write_dd_command env value s = do {
     let s = s\<lparr>dd := (dd s)\<lparr>dd_clock := dd_update_rtc (dd_get_time env) (dd_clock (dd s))\<rparr>\<rparr>;
     (cycles, s) \<leftarrow> dd_command env value (or_ddr DD_ASIC_CMD_STATUS DD_STATUS_BUSY_STATE s);
     s \<leftarrow> upd_r4300 (\<lambda>r. Some (cp0_update_count r)) s;
     dd_add_event DD_MC_INT cycles s }"

text \<open>A write to the control register of the buffer manager.\<close>

definition bm_reset :: "u32 \<Rightarrow> 'a dd_sys_scheme \<Rightarrow> 'a dd_sys_scheme option" where
  "bm_reset value s = do {
     let s = (if value AND DD_BM_CTL_RESET \<noteq> 0 then s\<lparr>dd := (dd s)\<lparr>bm_reset_held := 1\<rparr>\<rparr> else s);
     if value AND DD_BM_CTL_RESET = 0 \<and> bm_reset_held (dd s) \<noteq> 0 then do {
       let s = clear_ddr DD_ASIC_CMD_STATUS (DD_STATUS_DATA_RQ OR DD_STATUS_C2_XFER OR DD_STATUS_BM_ERR OR DD_STATUS_BM_INT)
                 (s\<lparr>dd := (dd s)\<lparr>bm_reset_held := 0\<rparr>\<rparr>);
       dd_remove_event DD_BM_INT (set_ddr DD_ASIC_CUR_SECTOR 0 (set_ddr DD_ASIC_BM_STATUS_CTL 0 s)) }
     else Some s }"

definition write_bm_control :: "u32 \<Rightarrow> 'a dd_sys_scheme \<Rightarrow> 'a dd_sys_scheme option" where
  "write_bm_control value s = do {
     let s = set_ddr DD_ASIC_CUR_SECTOR (value AND 0x00ff0000) s;
     s \<leftarrow> (if value AND DD_BM_CTL_MECHA_RST \<noteq> 0
            then dd_remove_event DD_MC_INT (clear_ddr DD_ASIC_CMD_STATUS DD_STATUS_MECHA_INT s) else Some s);
     let s = (if value AND DD_BM_CTL_BLK_TRANS \<noteq> 0 then or_ddr DD_ASIC_BM_STATUS_CTL DD_BM_STATUS_BLOCK s else s);
     s \<leftarrow> bm_reset value s;
     s \<leftarrow> (if ddr s DD_ASIC_CMD_STATUS AND (DD_STATUS_BM_INT OR DD_STATUS_MECHA_INT) = 0
            then clear_dd_interrupt DD_STATUS_BM_INT s else Some s);
     if value AND DD_BM_CTL_START \<noteq> 0
     then dd_add_event DD_BM_INT 12500 (or_ddr DD_ASIC_BM_STATUS_CTL DD_BM_STATUS_RUNNING s)
     else Some s }"

definition dd_hard_reset :: "'a dd_sys_scheme \<Rightarrow> 'a dd_sys_scheme option" where
  "dd_hard_reset s = do {
     s \<leftarrow> dd_remove_event DD_MC_INT s;
     s \<leftarrow> dd_remove_event DD_BM_INT s;
     let s = clear_ddr DD_ASIC_CMD_STATUS (DD_STATUS_DATA_RQ OR DD_STATUS_C2_XFER OR DD_STATUS_BM_ERR OR DD_STATUS_BM_INT
               OR DD_STATUS_BUSY_STATE) s;
     let s = set_ddr DD_ASIC_CUR_SECTOR 0 (set_ddr DD_ASIC_BM_STATUS_CTL 0 s);
     s \<leftarrow> dd_dv_sleep (s\<lparr>dd := (dd s)\<lparr>timer_sleep := 1, timer_standby := 3\<rparr>\<rparr>);
     s \<leftarrow> clear_dd_interrupt DD_STATUS_MECHA_INT s;
     Some (or_ddr DD_ASIC_CMD_STATUS DD_STATUS_RST_STATE s) }"

text \<open>The code asserts that all bits of a register are written.\<close>

definition write_dd_regs :: "dd_env \<Rightarrow> u32 \<Rightarrow> u32 \<Rightarrow> u32 \<Rightarrow> 'a dd_sys_scheme \<Rightarrow> 'a dd_sys_scheme option" where
  "write_dd_regs env address value msk s =
     (if \<not> dd_reg_range address then Some s
      else if msk \<noteq> 0xffffffff then None
      else do {
        x \<leftarrow> dd_reg address;
        case x of
          DD_ASIC_CMD_STATUS \<Rightarrow> write_dd_command env value s
        | DD_ASIC_BM_STATUS_CTL \<Rightarrow> write_bm_control value s
        | DD_ASIC_HARD_RESET \<Rightarrow> dd_hard_reset s
        | DD_ASIC_HOST_SECBYTE \<Rightarrow> do {
            _ \<leftarrow> rd zone_sec_size (unat (bm_zone (dd s)));
            Some (set_ddr DD_ASIC_HOST_SECBYTE (drop_bit 16 value AND 0xff) s) }
        | DD_ASIC_SEC_BYTE \<Rightarrow> Some (set_ddr DD_ASIC_SEC_BYTE (drop_bit 24 value AND 0xff) s)
        | DD_ASIC_CUR_TK \<Rightarrow> Some s
        | DD_ASIC_CUR_SECTOR \<Rightarrow> Some s
        | _ \<Rightarrow> Some (set_ddr x value s) })"

section \<open>ROM and DMA\<close>

definition read_dd_rom :: "u32 \<Rightarrow> 'a dd_sys_scheme \<Rightarrow> u32 option" where
  "read_dd_rom address s = get_le32 (dd_rom (dd s)) (4 * unat (dd_rom_address address))"

text \<open>Both return the duration of the transfer.\<close>

definition dd_dma_cycles :: "u32 \<Rightarrow> u32" where
  "dd_dma_cycles len = (len * 63) div 25"

definition dd_dma_read :: "u32 \<Rightarrow> u32 \<Rightarrow> u32 \<Rightarrow> 'a dd_sys_scheme \<Rightarrow> (u32 \<times> 'a dd_sys_scheme) option" where
  "dd_dma_read dram_addr cart_addr len s =
     (if cart_addr = MM_DD_DS_BUFFER then do {
        b \<leftarrow> copy_s8 (ds_buf (dd s)) 0 (dram (rdram s)) (unat dram_addr) (unat len);
        Some (dd_dma_cycles len, s\<lparr>dd := (dd s)\<lparr>ds_buf := b\<rparr>\<rparr>) }
      else Some (dd_dma_cycles len, s))"

definition dd_dma_write :: "u32 \<Rightarrow> u32 \<Rightarrow> u32 \<Rightarrow> 'a dd_sys_scheme \<Rightarrow> (u32 \<times> 'a dd_sys_scheme) option" where
  "dd_dma_write dram_addr cart_addr len s =
     (let source = (if cart_addr < MM_DD_ROM then
                      if cart_addr = MM_DD_C2S_BUFFER then Some (c2s_buf (dd s), 0)
                      else if cart_addr = MM_DD_DS_BUFFER then Some (ds_buf (dd s), 0)
                      else None
                    else Some (dd_rom (dd s), unat (cart_addr - MM_DD_ROM)))
      in case source of
           None \<Rightarrow> Some (dd_dma_cycles len, s)
         | Some (m, a) \<Rightarrow> do {
             d \<leftarrow> copy_s8 (dram (rdram s)) (unat dram_addr) m a (unat len);
             s \<leftarrow> upd_r4300 invalidate_r4300_cached_code (set_dram d s);
             s \<leftarrow> upd_r4300 invalidate_r4300_cached_code s;
             Some (dd_dma_cycles len, s) })"

section \<open>The drive in the machine\<close>

definition dd_int_handlers :: "nat \<Rightarrow> 'a dd_sys_scheme \<Rightarrow> 'a dd_sys_scheme option" where
  "dd_int_handlers index s =
     (if index = 13 then dd_mecha_int_handler s
      else if index = 14 then dd_bm_int_handler s
      else if index = 15 then dd_dv_int_handler s
      else None)"

text \<open>The functions of the drive in the places the environment of the machine leaves for them.\<close>

definition with_dd :: "dd_env \<Rightarrow> u8 list \<Rightarrow> 'a dd_sys_scheme dev_env \<Rightarrow> 'a dd_sys_scheme dev_env" where
  "with_dd env ipl e = e\<lparr>
     d_dd_regs_read := read_dd_regs, d_dd_regs_write := write_dd_regs env,
     d_dd_rom_read := read_dd_rom, d_dd_rom := ipl, d_dd_int := dd_int_handlers, d_poweron_dd := poweron_dd,
     d_pi := (d_pi e)\<lparr>dd_dom_dma_read := dd_dma_read, dd_dom_dma_write := dd_dma_write\<rparr>\<rparr>"

end
