(* ===== verification/Disk_Props.thy ===== *)
theory Disk_Props
  imports Disk
begin

text \<open>
  Facts about the geometry of a disk: the tables, the zones of logical blocks, the defective tracks and the
  physical position of a logical block.
\<close>

section \<open>Tables\<close>

text \<open>The logical blocks of a zone of a disk of type \<open>ty\<close>, and the tracks of a physical zone that hold them.\<close>

definition vzone_end :: "nat \<Rightarrow> nat \<Rightarrow> nat" where
  "vzone_end ty v = VZoneLBATable ! ty ! v"

definition vzone_start :: "nat \<Rightarrow> nat \<Rightarrow> nat" where
  "vzone_start ty v = (if v = 0 then 0 else vzone_end ty (v - 1))"

definition zone_tracks :: "nat \<Rightarrow> nat" where
  "zone_tracks p = [146, 146, 137, 137, 137, 137, 137, 102] ! (p mod 8)"

definition zone_first_track :: "nat \<Rightarrow> nat" where
  "zone_first_track p = unat (OUTERCYL_TBL ! (p mod 8))"

text \<open>The rows of the two tables for one type agree: from \<open>start\<close>, each zone ends after the blocks of its tracks.\<close>

fun zones_ok :: "nat \<Rightarrow> nat list \<Rightarrow> nat list \<Rightarrow> bool" where
  "zones_ok start [] ps \<longleftrightarrow> ps = []"
| "zones_ok start (e # es) ps \<longleftrightarrow> (case ps of [] \<Rightarrow> False
     | p # ps \<Rightarrow> p < 16 \<and> even start \<and> e = start + 2 * zone_tracks p \<and> e \<le> 0x10DC \<and> zones_ok e es ps)"

lemma zones_ok_nth:
  "zones_ok start es ps \<Longrightarrow> v < length es \<Longrightarrow>
     ps ! v < 16 \<and> even (if v = 0 then start else es ! (v - 1))
     \<and> es ! v = (if v = 0 then start else es ! (v - 1)) + 2 * zone_tracks (ps ! v) \<and> es ! v \<le> 0x10DC"
proof (induction start es ps arbitrary: v rule: zones_ok.induct)
  case (2 start e es ps)
  obtain q qs where ps: "ps = q # qs" "q < 16" "even start" "e = start + 2 * zone_tracks q" "e \<le> 0x10DC" "zones_ok e es qs"
    using 2 by (cases ps) auto
  show ?case
  proof (cases v)
    case (Suc w)
    then show ?thesis using 2(1) [OF ps(1,6), of w] 2(3) ps by (cases w) auto
  qed (use ps in auto)
qed simp

definition tables_ok :: "nat \<Rightarrow> bool" where
  "tables_ok ty \<longleftrightarrow> zones_ok 0 (VZoneLBATable ! ty) (DiskTypeZones ! ty) \<and> length (VZoneLBATable ! ty) = 16
     \<and> length (DiskTypeZones ! ty) = 16 \<and> distinct (DiskTypeZones ! ty) \<and> VZoneLBATable ! ty ! 15 = 0x10DC"

lemma tables_checked: "tables_ok 0" "tables_ok 1" "tables_ok 2" "tables_ok 3" "tables_ok 4" "tables_ok 5" "tables_ok 6"
  by (simp_all add: tables_ok_def VZoneLBATable_def DiskTypeZones_def zone_tracks_def)

lemma tables_ok: "ty < 7 \<Longrightarrow> tables_ok ty"
proof -
  assume "ty < 7"
  then consider "ty = 0" | "ty = 1" | "ty = 2" | "ty = 3" | "ty = 4" | "ty = 5" | "ty = 6" by linarith
  then show ?thesis by cases (simp_all only: tables_checked)
qed

lemma tables:
  assumes "ty < 7"
  shows "length (VZoneLBATable ! ty) = 16" "length (DiskTypeZones ! ty) = 16" "distinct (DiskTypeZones ! ty)"
    "VZoneLBATable ! ty ! 15 = 0x10DC"
    and "v < 16 \<Longrightarrow> DiskTypeZones ! ty ! v < 16" "v < 16 \<Longrightarrow> even (vzone_start ty v)"
    "v < 16 \<Longrightarrow> vzone_end ty v = vzone_start ty v + 2 * zone_tracks (DiskTypeZones ! ty ! v)"
    "v < 16 \<Longrightarrow> vzone_end ty v \<le> 0x10DC"
proof -
  show l: "length (VZoneLBATable ! ty) = 16" "length (DiskTypeZones ! ty) = 16" "distinct (DiskTypeZones ! ty)"
    "VZoneLBATable ! ty ! 15 = 0x10DC" using tables_ok [OF assms] by (simp_all add: tables_ok_def)
  have "zones_ok 0 (VZoneLBATable ! ty) (DiskTypeZones ! ty)" using tables_ok [OF assms] by (simp add: tables_ok_def)
  from zones_ok_nth [OF this, of v] l(1)
  show "v < 16 \<Longrightarrow> DiskTypeZones ! ty ! v < 16" "v < 16 \<Longrightarrow> even (vzone_start ty v)"
    "v < 16 \<Longrightarrow> vzone_end ty v = vzone_start ty v + 2 * zone_tracks (DiskTypeZones ! ty ! v)"
    "v < 16 \<Longrightarrow> vzone_end ty v \<le> 0x10DC"
    by (auto simp: vzone_start_def vzone_end_def split: if_splits)
qed

lemma tables_length [simp]:
  "length VZoneLBATable = 7" "length DiskTypeZones = 7" "length TrackZoneTable = 16" "length OUTERCYL_TBL = 8"
  "length zone_sec_size = 16" "length zone_sec_size_phys = 9" "length mame_start_offset = 16"
  by (simp_all add: VZoneLBATable_def DiskTypeZones_def TrackZoneTable_def OUTERCYL_TBL_def zone_sec_size_def
      zone_sec_size_phys_def mame_start_offset_def)

text \<open>Head 0 counts its tracks up from the first, head 1 down from the last.\<close>

lemma zone_tables_checked:
  "list_all (\<lambda>p. unat (TrackZoneTable ! p) = zone_first_track p + (if p < 8 then 0 else zone_tracks p - 1)
      \<and> 0 < zone_tracks p \<and> zone_first_track p + zone_tracks p + 12 \<le> 1175) [0..<16]
   \<and> list_all (\<lambda>p. p mod 8 < 7 \<longrightarrow> zone_first_track p + zone_tracks p + 12 = zone_first_track (p + 1)) [0..<16]"
  by code_simp

lemma zone_tables:
  assumes "p < 16"
  shows "unat (TrackZoneTable ! p) = zone_first_track p + (if p < 8 then 0 else zone_tracks p - 1)"
    "0 < zone_tracks p" "zone_first_track p + zone_tracks p + 12 \<le> 1175"
  using zone_tables_checked assms by (auto simp: list_all_iff)

lemma zones_apart_checked:
  "list_all (\<lambda>p. list_all (\<lambda>q. (p < 8) = (q < 8) \<and> p < q \<longrightarrow>
      zone_first_track p + zone_tracks p + 12 \<le> zone_first_track q) [0..<16]) [0..<16]"
  by code_simp

text \<open>The tracks of two zones under the same head do not overlap.\<close>

lemma zones_apart:
  assumes "p < 16" "q < 16" "p \<noteq> q" "p < 8 \<longleftrightarrow> q < 8"
  shows "zone_first_track p + zone_tracks p + 12 \<le> zone_first_track q
    \<or> zone_first_track q + zone_tracks q + 12 \<le> zone_first_track p"
proof (cases "p < q")
  case True
  then show ?thesis using zones_apart_checked assms by (auto simp: list_all_iff)
next
  case False
  then have "q < p" using assms by simp
  then show ?thesis using zones_apart_checked assms by (auto simp: list_all_iff)
qed

section \<open>Zones of logical blocks\<close>

lemma first_zone_spec:
  assumes "i < length bs" "lba < bs ! i"
  shows "\<exists>z. first_zone lba k bs = Some (k + z) \<and> z \<le> i \<and> lba < bs ! z \<and> (\<forall>j<z. bs ! j \<le> lba)"
  using assms
proof (induction bs arbitrary: i k)
  case (Cons b bs)
  show ?case
  proof (cases "lba < b")
    case False
    then obtain i' where i: "i = Suc i'" using Cons.prems by (cases i) auto
    obtain z where "first_zone lba (Suc k) bs = Some (Suc k + z)" "z \<le> i'" "lba < bs ! z" "\<forall>j<z. bs ! j \<le> lba"
      using Cons.IH [of i' "Suc k"] Cons.prems i by auto
    then show ?thesis using False i by (intro exI [of _ "Suc z"]) (auto simp: less_Suc_eq_0_disj)
  qed (auto intro: exI [of _ 0])
qed simp

lemma LBAToVZoneA_spec:
  assumes "unat (ty AND 0x0F) < 7" "lba < 0x10DC"
  shows "\<exists>v<16. LBAToVZoneA ty (word_of_nat lba) = Some (word_of_nat v)
    \<and> vzone_start (unat (ty AND 0x0F)) v \<le> lba \<and> lba < vzone_end (unat (ty AND 0x0F)) v"
proof -
  let ?t = "unat (ty AND 0x0F)"
  obtain z where z: "first_zone lba 0 (VZoneLBATable ! ?t) = Some z" "z \<le> 15"
      "lba < VZoneLBATable ! ?t ! z" "\<forall>j<z. VZoneLBATable ! ?t ! j \<le> lba"
    using first_zone_spec [of 15 "VZoneLBATable ! ?t" lba 0] tables(1,4) [OF assms(1)] assms(2) by auto
  moreover have "unat (word_of_nat lba :: u32) = lba" using assms(2) by (simp add: unat_word_of_nat_lt)
  ultimately show ?thesis
    using assms(1) by (intro exI [of _ z]) (auto simp: LBAToVZoneA_def vzone_start_def vzone_end_def)
qed

text \<open>A block lies in one zone only.\<close>

lemma vzone_mono:
  assumes "ty < 7" "v < w" "w < 16"
  shows "vzone_end ty v \<le> vzone_start ty w"
  using assms(2,3)
proof (induction w)
  case (Suc w)
  have step: "vzone_start ty (Suc w) = vzone_end ty w" by (simp add: vzone_start_def)
  show ?case
  proof (cases "v = w")
    case False
    then have "vzone_end ty v \<le> vzone_start ty w" using Suc by auto
    also have "\<dots> \<le> vzone_end ty w" using tables(7) [OF assms(1), of w] Suc.prems by simp
    finally show ?thesis using step by simp
  qed (simp add: step)
qed simp

section \<open>Defective tracks\<close>

text \<open>How many tracks the loop skips when the defects are \<open>ds\<close>, from track \<open>t\<close> of a zone that starts at \<open>st\<close>.\<close>

fun skips :: "nat list \<Rightarrow> nat \<Rightarrow> nat \<Rightarrow> nat" where
  "skips [] st t = 0"
| "skips (x # ds) st t = (if x + st \<le> t then Suc (skips ds st (Suc t)) else 0)"

lemma skips_le: "skips ds st t \<le> length ds"
  by (induction ds arbitrary: t) auto

lemma skips_mono: "t \<le> u \<Longrightarrow> skips ds st t \<le> skips ds st u"
  by (induction ds arbitrary: t u) auto

lemma skips_inj: "t + skips ds st t = u + skips ds st u \<Longrightarrow> t = u"
proof -
  have "t < u \<Longrightarrow> t + skips ds st t < u + skips ds st u" for t u
    using skips_mono [of t u ds st] by simp
  then show "t + skips ds st t = u + skips ds st u \<Longrightarrow> t = u" by (metis less_irrefl nat_neq_iff)
qed

text \<open>The track reached is not in a sorted list of defects.\<close>

lemma skips_not_defect: "sorted ds \<Longrightarrow> x \<in> set ds \<Longrightarrow> x + st \<noteq> t + skips ds st t"
proof (induction ds arbitrary: t)
  case (Cons y ds)
  show ?case
  proof (cases "y + st \<le> t")
    case True
    show ?thesis
    proof (cases "x \<in> set ds")
      case True
      then have "x + st \<noteq> Suc t + skips ds st (Suc t)" using Cons.IH [of "Suc t"] Cons.prems by simp
      then show ?thesis using \<open>y + st \<le> t\<close> by simp
    qed (use True Cons.prems in auto)
  next
    case False
    then show ?thesis using Cons.prems by auto
  qed
qed simp

lemma skip_defects_spec:
  assumes "\<And>i. i < length ds \<Longrightarrow> info (unat off + i) = Some (word_of_nat (ds ! i))"
    and "\<And>x. x \<in> set ds \<Longrightarrow> x < 256"
    and "unat off + length ds < 65536" "unat track + length ds < 65536"
  shows "skip_defects info start (length ds) off track
    = Some (track + word_of_nat (skips ds (unat start) (unat track)))"
  using assms
proof (induction ds arbitrary: off track)
  case (Cons x ds)
  have off: "unat (off + 1) = unat off + 1" and tr: "unat (track + 1) = unat track + 1"
    using Cons.prems(3,4) by (simp_all add: unat_word_ariths)
  have "skip_defects info start (length ds) (off + 1) (track + 1)
      = Some (track + 1 + word_of_nat (skips ds (unat start) (unat (track + 1))))"
  proof (rule Cons.IH)
    show "info (unat (off + 1) + i) = Some (word_of_nat (ds ! i))" if "i < length ds" for i
      using Cons.prems(1) [of "Suc i"] that off by simp
  qed (use Cons.prems off tr in auto)
  moreover have "info (unat off) = Some (word_of_nat x)" using Cons.prems(1) [of 0] by simp
  moreover have "unat (word_of_nat x :: u8) = x" using Cons.prems(2) [of x] by (simp add: unat_word_of_nat_lt)
  moreover have "unat (track + 1) = Suc (unat track)" using tr by simp
  ultimately show ?case by (simp add: algebra_simps)
qed simp

section \<open>The physical position of a logical block\<close>

text \<open>
  The system data at offset \<open>sys\<close> of the image \<open>d\<close> is well formed when its disk type is one of the seven and the defective tracks
  of each zone, at most twelve, are a range of the table of 192.
\<close>

definition defects_end :: "u8 list \<Rightarrow> nat \<Rightarrow> nat \<Rightarrow> nat" where
  "defects_end d sys p = unat (d ! (sys + 8 + p))"

definition defects_start :: "u8 list \<Rightarrow> nat \<Rightarrow> nat \<Rightarrow> nat" where
  "defects_start d sys p = (if p = 0 then 0 else defects_end d sys (p - 1))"

definition zone_defects :: "u8 list \<Rightarrow> nat \<Rightarrow> nat \<Rightarrow> nat list" where
  "zone_defects d sys p = map (\<lambda>i. unat (d ! (sys + 32 + i))) [defects_start d sys p..<defects_end d sys p]"

definition sys_disk_type :: "u8 list \<Rightarrow> nat \<Rightarrow> nat" where
  "sys_disk_type d sys = unat (d ! (sys + 5) AND 0x0F)"

definition wf_sys_data :: "u8 list \<Rightarrow> nat \<Rightarrow> bool" where
  "wf_sys_data d sys \<longleftrightarrow> sys + 232 \<le> length d \<and> sys_disk_type d sys < 7
     \<and> (\<forall>p<16. defects_start d sys p \<le> defects_end d sys p
          \<and> defects_end d sys p \<le> defects_start d sys p + 12 \<and> defects_end d sys p \<le> 192)"

text \<open>Zone, track before defects are skipped, and track, of a block.\<close>

definition lba_zone :: "u8 list \<Rightarrow> nat \<Rightarrow> nat \<Rightarrow> nat" where
  "lba_zone d sys v = DiskTypeZones ! sys_disk_type d sys ! v"

definition plain_track :: "u8 list \<Rightarrow> nat \<Rightarrow> nat \<Rightarrow> nat \<Rightarrow> nat" where
  "plain_track d sys v lba =
     (let p = lba_zone d sys v; n = (lba - vzone_start (sys_disk_type d sys) v) div 2
      in if p < 8 then zone_first_track p + n else zone_first_track p + (zone_tracks p - 1) - n)"

definition block_track :: "u8 list \<Rightarrow> nat \<Rightarrow> nat \<Rightarrow> nat \<Rightarrow> nat" where
  "block_track d sys v lba =
     (let t = plain_track d sys v lba; p = lba_zone d sys v
      in t + skips (zone_defects d sys p) (zone_first_track p) t)"

definition block_of :: "nat \<Rightarrow> nat" where
  "block_of lba = (if lba mod 4 = 0 \<or> lba mod 4 = 3 then 0 else 1)"

definition phys_word :: "nat \<Rightarrow> nat \<Rightarrow> nat \<Rightarrow> u16" where
  "phys_word h t b = word_of_nat t OR word_of_nat h * 0x1000 OR word_of_nat b * 0x2000"

lemma plain_track_bounds:
  assumes "wf_sys_data d sys" "v < 16" "vzone_start (sys_disk_type d sys) v \<le> lba" "lba < vzone_end (sys_disk_type d sys) v"
  defines "p \<equiv> lba_zone d sys v"
  shows "zone_first_track p \<le> plain_track d sys v lba" "plain_track d sys v lba < zone_first_track p + zone_tracks p"
    and "(lba - vzone_start (sys_disk_type d sys) v) div 2 < zone_tracks p" "p < 16"
proof -
  let ?t = "sys_disk_type d sys" and ?n = "(lba - vzone_start (sys_disk_type d sys) v) div 2"
  have t: "?t < 7" using assms(1) by (simp add: wf_sys_data_def)
  show p: "p < 16" using tables(5) [OF t assms(2)] by (simp add: p_def lba_zone_def)
  show n: "?n < zone_tracks p" using tables(7) [OF t assms(2)] assms(3,4) unfolding p_def lba_zone_def by linarith
  show "zone_first_track p \<le> plain_track d sys v lba" "plain_track d sys v lba < zone_first_track p + zone_tracks p"
    using n by (auto simp: plain_track_def p_def [symmetric] Let_def)
qed

lemma zone_defects_length:
  assumes "wf_sys_data d sys" "p < 16"
  shows "length (zone_defects d sys p) \<le> 12"
    "length (zone_defects d sys p) = defects_end d sys p - defects_start d sys p"
    "defects_start d sys p + length (zone_defects d sys p) \<le> 192"
  using assms by (auto simp: wf_sys_data_def zone_defects_def)

text \<open>The track of a block lies in the tracks of its zone, those for defects included.\<close>

lemma block_track_bounds:
  assumes "wf_sys_data d sys" "v < 16" "vzone_start (sys_disk_type d sys) v \<le> lba" "lba < vzone_end (sys_disk_type d sys) v"
  defines "p \<equiv> lba_zone d sys v"
  shows "zone_first_track p \<le> block_track d sys v lba" "block_track d sys v lba < zone_first_track p + zone_tracks p + 12"
    "block_track d sys v lba < 1175"
proof -
  note b = plain_track_bounds [OF assms(1-4), folded p_def]
  have "skips (zone_defects d sys p) (zone_first_track p) (plain_track d sys v lba) \<le> 12"
    using skips_le [of "zone_defects d sys p"] zone_defects_length(1) [OF assms(1) b(4)] by (rule order_trans)
  then show "zone_first_track p \<le> block_track d sys v lba" "block_track d sys v lba < zone_first_track p + zone_tracks p + 12"
    using b(1,2) by (auto simp: block_track_def p_def [symmetric] Let_def)
  then show "block_track d sys v lba < 1175" using zone_tables(3) [OF b(4)] by simp
qed

lemma ucast_as_nat: "(ucast (w :: 'a::len word) :: 'b::len word) = word_of_nat (unat w)"
  by (rule word_unat_eq_iff [THEN iffD2]) (simp add: unsigned_ucast_eq unsigned_of_nat)

lemma unat_ucast_fits:
  "unat w < 2 ^ LENGTH('b) \<Longrightarrow> unat (ucast (w :: 'a::len word) :: 'b::len word) = unat w"
  by (simp only: ucast_as_nat unat_word_of_nat_lt)

lemma half_offset:
  assumes "s \<le> lba" "lba < 0x10DC"
  shows "(ucast (drop_bit 1 (word_of_nat lba - word_of_nat s :: u32)) :: u16) = word_of_nat ((lba - s) div 2)"
proof -
  have d: "word_of_nat lba - word_of_nat s = (word_of_nat (lba - s) :: u32)" using assms(1) by (simp add: of_nat_diff)
  have u: "unat (word_of_nat (lba - s) :: u32) = lba - s" by (rule unat_word_of_nat_lt) (use assms in simp)
  show ?thesis by (simp only: ucast_as_nat unat_drop_bit d u power_one_right)
qed

lemma block_bit:
  "lba < 0x10DC \<Longrightarrow> (if (word_of_nat lba :: u32) AND 3 = 0 \<or> (word_of_nat lba :: u32) AND 3 = 3 then 0 else 1 :: u16)
     = word_of_nat (block_of lba)"
proof -
  assume "lba < 0x10DC"
  then have "unat ((word_of_nat lba :: u32) AND 3) = lba mod 4"
    using unat_and_mask [of "word_of_nat lba :: u32" 2] by (simp add: unat_word_of_nat_lt mask_eq_exp_minus_1)
  then have "(word_of_nat lba :: u32) AND 3 = 0 \<longleftrightarrow> lba mod 4 = 0" "(word_of_nat lba :: u32) AND 3 = 3 \<longleftrightarrow> lba mod 4 = 3"
    by (simp_all add: word_unat_eq_iff)
  then show ?thesis by (simp add: block_of_def)
qed

text \<open>The track before defects are skipped, as the code computes it.\<close>

lemma plain_track_word:
  fixes zs :: u32
  assumes "n < zone_tracks p" "p < 16" "zs = TrackZoneTable ! p"
  shows "(if 7 < p then - word_of_nat n else word_of_nat n) + (ucast zs :: u16)
    = word_of_nat (if p < 8 then zone_first_track p + n else zone_first_track p + (zone_tracks p - 1) - n)"
proof (cases "p < 8")
  case True
  then have "unat zs = zone_first_track p" using zone_tables(1) [OF assms(2)] assms(3) by simp
  then show ?thesis using True by (simp add: ucast_as_nat)
next
  case False
  then have "n \<le> unat zs" and z: "unat zs - n = zone_first_track p + (zone_tracks p - 1) - n"
    using zone_tables(1) [OF assms(2)] assms by simp_all
  then have "- word_of_nat n + (ucast zs :: u16) = word_of_nat (unat zs - n)"
    by (subst of_nat_diff) (simp_all only: ucast_as_nat uminus_add_conv_diff)
  moreover have "7 < p" using False by simp
  ultimately show ?thesis using False by (simp only: z if_True if_False)
qed

lemma byte_difference:
  assumes "a \<le> b" "b < 256"
  shows "unat (ucast (word_of_nat b :: u8) - ucast (word_of_nat a :: u8) :: u16) = b - a"
proof -
  have "(ucast (word_of_nat k :: u8) :: u16) = word_of_nat k" if "k < 256" for k
    using that by (simp only: ucast_as_nat) (simp add: unat_word_of_nat_lt)
  then have "(ucast (word_of_nat b :: u8) - ucast (word_of_nat a :: u8) :: u16) = word_of_nat b - word_of_nat a"
    using assms by simp
  also have "\<dots> = word_of_nat (b - a)" using assms(1) by (rule of_nat_diff [symmetric])
  finally show ?thesis using assms(2) by (simp only: unat_word_of_nat_lt) (simp add: unat_word_of_nat_lt)
qed

text \<open>The defective tracks of a zone as the code reads them.\<close>

lemma defect_reads:
  assumes "wf_sys_data d sys" "p < 16"
  shows "(if p \<noteq> 0 then sys_defect_offset d sys (p - 1) else Some 0) = Some (word_of_nat (defects_start d sys p))"
    "sys_defect_offset d sys p = Some (word_of_nat (defects_end d sys p))"
    "i < length (zone_defects d sys p) \<Longrightarrow>
       sys_defect_info d sys (defects_start d sys p + i) = Some (word_of_nat (zone_defects d sys p ! i))"
    "x \<in> set (zone_defects d sys p) \<Longrightarrow> x < 256"
proof -
  have l: "sys + 232 \<le> length d" using assms(1) by (simp add: wf_sys_data_def)
  show "(if p \<noteq> 0 then sys_defect_offset d sys (p - 1) else Some 0) = Some (word_of_nat (defects_start d sys p))"
    "sys_defect_offset d sys p = Some (word_of_nat (defects_end d sys p))"
    using l assms(2) by (auto simp: sys_defect_offset_def defects_start_def defects_end_def)
  show "sys_defect_info d sys (defects_start d sys p + i) = Some (word_of_nat (zone_defects d sys p ! i))"
    if "i < length (zone_defects d sys p)"
  proof -
    have "defects_start d sys p + i < 192" using that zone_defects_length(3) [OF assms] by simp
    then show ?thesis using that l by (simp add: sys_defect_info_def zone_defects_def)
  qed
  show "x < 256" if x: "x \<in> set (zone_defects d sys p)"
  proof -
    obtain b :: u8 where "x = unat b" using x by (auto simp: zone_defects_def)
    then show ?thesis using unsigned_less [of b, where ?'a = nat] by simp
  qed
qed

lemma LBAToPhys_spec:
  assumes wf: "wf_sys_data d sys" and lba: "lba < 0x10DC"
  shows "\<exists>v<16. vzone_start (sys_disk_type d sys) v \<le> lba \<and> lba < vzone_end (sys_disk_type d sys) v
    \<and> LBAToPhys d sys (word_of_nat lba)
        = Some (phys_word (if lba_zone d sys v < 8 then 0 else 1) (block_track d sys v lba) (block_of lba))"
proof -
  let ?ty = "d ! (sys + 5)" and ?t = "sys_disk_type d sys"
  have t: "?t < 7" "unat (?ty AND 0x0F) = ?t" and l: "sys + 232 \<le> length d"
    using wf by (auto simp: wf_sys_data_def sys_disk_type_def)
  obtain v where v: "v < 16" "LBAToVZoneA ?ty (word_of_nat lba) = Some (word_of_nat v)"
      "vzone_start ?t v \<le> lba" "lba < vzone_end ?t v"
    using LBAToVZoneA_spec [of ?ty lba] t lba by auto
  define p where "p = lba_zone d sys v"
  define n where "n = (lba - vzone_start ?t v) div 2"
  note b = plain_track_bounds [OF wf v(1,3,4), folded p_def n_def]
  define T where "T = (if p < 8 then zone_first_track p + n else zone_first_track p + (zone_tracks p - 1) - n)"
  have T: "plain_track d sys v lba = T" by (simp add: plain_track_def T_def p_def [symmetric] n_def [symmetric] Let_def)
  have pz: "VZoneToPZone v (?ty AND 0x0F) = Some p"
    using t v(1) tables(2) [OF t(1)] by (simp add: VZoneToPZone_def p_def lba_zone_def)
  have vl: "(if v \<noteq> 0 then do { row \<leftarrow> rd VZoneLBATable ?t; rd row (v - 1) } else Some 0) = Some (vzone_start ?t v)"
    using t v(1) tables(1) [OF t(1)] by (simp add: vzone_start_def vzone_end_def)
  have v16: "unat (ucast (word_of_nat v :: u32) :: u16) = v"
    using v(1) by (subst unat_ucast_fits) (simp_all add: unat_word_of_nat_lt)
  let ?ds = "zone_defects d sys p"
  note dl = zone_defects_length [OF wf b(4)] and dr = defect_reads [OF wf b(4)]
  have T_lt: "T < 1175" using b(2) zone_tables(3) [OF b(4)] by (simp add: T)
  have s256: "defects_start d sys p < 193" "defects_end d sys p < 193" using wf b(4) dl by (auto simp: wf_sys_data_def)
  have amount: "unat (ucast (word_of_nat (defects_end d sys p) :: u8) - ucast (word_of_nat (defects_start d sys p) :: u8) :: u16)
      = length ?ds"
    unfolding dl(2) by (rule byte_difference) (use wf b(4) s256 in \<open>auto simp: wf_sys_data_def\<close>)
  have st: "unat (ucast (word_of_nat (defects_start d sys p) :: u8) :: u16) = defects_start d sys p"
    using s256 by (subst unat_ucast_fits) (simp_all add: unat_word_of_nat_lt)
  have skip: "skip_defects (sys_defect_info d sys) start (length ?ds) (ucast (word_of_nat (defects_start d sys p) :: u8)) (word_of_nat T)
      = Some (word_of_nat (block_track d sys v lba))" if "unat start = zone_first_track p" for start
  proof -
    have "unat (word_of_nat T :: u16) = T" using T_lt by (simp add: unat_word_of_nat_lt)
    then show ?thesis
      using skip_defects_spec [of ?ds "sys_defect_info d sys" "ucast (word_of_nat (defects_start d sys p) :: u8)" "word_of_nat T" start]
        dr(3,4) s256 dl(1) T_lt that
      by (simp add: st block_track_def p_def [symmetric] T Let_def)
  qed
  have track: "(if 7 < p then - word_of_nat n else word_of_nat n) + (ucast (TrackZoneTable ! p) :: u16) = word_of_nat T"
    using plain_track_word [OF b(3,4) refl] by (simp add: T_def)
  have start0: "p < 8 \<Longrightarrow> unat (ucast (TrackZoneTable ! p) :: u16) = zone_first_track p"
    using zone_tables(1,3) [OF b(4)] by (subst unat_ucast_fits) simp_all
  have start1: "unat (ucast (OUTERCYL_TBL ! (p - 7 - 1)) :: u16) = zone_first_track p" if "\<not> p < 8"
  proof -
    have "p mod 8 = p - 8" using that b(4) by (simp add: mod_if)
    then have "unat (OUTERCYL_TBL ! (p - 7 - 1)) = zone_first_track p" by (simp add: zone_first_track_def)
    then show ?thesis using zone_tables(3) [OF b(4)] by (subst unat_ucast_fits) simp_all
  qed
  have ty: "sys_type d sys = Some ?ty" using l by (simp add: sys_type_def)
  have zs: "rd TrackZoneTable p = Some (TrackZoneTable ! p)" using b(4) by simp
  note half = half_offset [OF v(3) lba, folded n_def]
  note eqs = LBAToPhys_def Let_def ty v(2) Option.bind.bind_lunit v16 pz t(2) vl zs half dr(1,2) amount block_bit [OF lba]
    prod.case phys_word_def
  have "LBAToPhys d sys (word_of_nat lba)
      = Some (phys_word (if p < 8 then 0 else 1) (block_track d sys v lba) (block_of lba))"
  proof (cases "p < 8")
    case True
    then have q: "(7 < p) = False" "(p < 8) = True" by simp_all
    show ?thesis
      using track skip [OF start0 [OF True]]
      by (simp only: eqs q if_True if_False) simp
  next
    case False
    then have q: "(7 < p) = True" "(p < 8) = False" by simp_all
    have o: "rd OUTERCYL_TBL (p - 7 - 1) = Some (OUTERCYL_TBL ! (p - 7 - 1))" using False b(4) by simp
    show ?thesis
      using track skip [OF start1 [OF False]]
      by (simp only: eqs q o if_True if_False) simp
  qed
  then show ?thesis using v p_def by blast
qed

section \<open>The table of physical positions\<close>

lemma or_push_bit_add:
  fixes w x :: "'a::len word"
  assumes "unat w < 2 ^ n"
  shows "w OR push_bit n x = w + push_bit n x"
proof -
  have "w AND push_bit n x = 0"
    by (rule bit_word_eqI) (auto simp: bit_simps dest: bit_less_exp [OF assms])
  then show ?thesis by (simp add: disjunctive_add_eq_or)
qed

lemma phys_word_nat:
  assumes "t < 0x1000" "h \<le> 1" "b \<le> 1"
  shows "unat (phys_word h t b) = t + 0x1000 * (h + 2 * b)"
proof -
  have "(word_of_nat h * 0x1000 OR word_of_nat b * 0x2000 :: u16) = push_bit 12 (word_of_nat (h + 2 * b))"
    using assms(2,3) by (cases "h = 0"; cases "b = 0") (auto simp: le_Suc_eq push_bit_eq_mult)
  then have "phys_word h t b = word_of_nat t OR push_bit 12 (word_of_nat (h + 2 * b))"
    by (simp only: phys_word_def)
  also have "\<dots> = word_of_nat t + push_bit 12 (word_of_nat (h + 2 * b))"
    by (rule or_push_bit_add) (use assms(1) in \<open>simp add: unat_word_of_nat_lt\<close>)
  also have "\<dots> = word_of_nat (t + 0x1000 * (h + 2 * b))"
    by (simp add: push_bit_eq_mult algebra_simps)
  finally show ?thesis
    by (simp only:) (rule unat_word_of_nat_lt, use assms in simp)
qed

lemma phys_word_inj:
  assumes "phys_word h t b = phys_word k u c" "t < 0x1000" "u < 0x1000" "h \<le> 1" "k \<le> 1" "b \<le> 1" "c \<le> 1"
  shows "h = k" "t = u" "b = c"
proof -
  have e: "t + 0x1000 * (h + 2 * b) = u + 0x1000 * (k + 2 * c)"
    using phys_word_nat [OF assms(2,4,6)] phys_word_nat [OF assms(3,5,7)] assms(1) by simp
  have "(t + 0x1000 * (h + 2 * b)) div 0x1000 = h + 2 * b" "(u + 0x1000 * (k + 2 * c)) div 0x1000 = k + 2 * c"
    using assms(2,3) by simp_all
  then have "h + 2 * b = k + 2 * c" using e by simp
  then show "h = k" "b = c" "t = u" using assms(4-7) e by (auto simp: le_Suc_eq)
qed

lemma half_shift:
  assumes "2 * k \<le> (x :: nat)" "2 * k \<le> y"
  shows "(x - 2 * k) div 2 = (y - 2 * k) div 2 \<longleftrightarrow> x div 2 = y div 2"
proof -
  obtain m n where "x = 2 * k + m" "y = 2 * k + n" using assms by (auto simp: le_iff_add)
  then show ?thesis by simp
qed

lemma block_of_form:
  assumes "r < 2" "q < 2"
  shows "block_of (4 * m + (2 * q + r)) = (if r = q then 0 else 1)"
proof -
  have "(4 * m + (2 * q + r)) mod 4 = 2 * q + r" using assms by simp
  then show ?thesis using assms by (auto simp: block_of_def less_2_cases_iff)
qed

lemma block_of_inj:
  assumes "a div 2 = b div 2" "block_of a = block_of b"
  shows "a = b"
proof -
  define m q where "m = a div 2 div 2" and "q = a div 2 mod 2"
  have h: "a div 2 = 2 * m + q" by (simp add: m_def q_def)
  have "a = 4 * m + (2 * q + a mod 2)" using mult_div_mod_eq [of 2 a] h by linarith
  moreover have "b = 4 * m + (2 * q + b mod 2)" using mult_div_mod_eq [of 2 b] h assms(1) by linarith
  moreover have "block_of (4 * m + (2 * q + a mod 2)) = (if a mod 2 = q then 0 else 1)"
    "block_of (4 * m + (2 * q + b mod 2)) = (if b mod 2 = q then 0 else 1)"
    by (rule block_of_form; simp add: q_def)+
  ultimately have "a mod 2 = q \<longleftrightarrow> b mod 2 = q" using assms(2) by (metis zero_neq_one)
  moreover have "a mod 2 < 2" "b mod 2 < 2" "q < 2" by (simp_all add: q_def)
  ultimately have "a mod 2 = b mod 2" by linarith
  then show ?thesis using assms(1) by (metis mult_div_mod_eq)
qed

text \<open>Two blocks at the same place are one block.\<close>

lemma position_determines_block:
  assumes "wf_sys_data d sys" "v < 16" "w < 16"
    "vzone_start (sys_disk_type d sys) v \<le> lba" "lba < vzone_end (sys_disk_type d sys) v"
    "vzone_start (sys_disk_type d sys) w \<le> lbb" "lbb < vzone_end (sys_disk_type d sys) w"
    and head: "lba_zone d sys v < 8 \<longleftrightarrow> lba_zone d sys w < 8"
    and track: "block_track d sys v lba = block_track d sys w lbb" and block: "block_of lba = block_of lbb"
  shows "lba = lbb"
proof -
  let ?t = "sys_disk_type d sys" and ?p = "lba_zone d sys v"
  have t: "?t < 7" using assms(1) by (simp add: wf_sys_data_def)
  note bv = plain_track_bounds [OF assms(1,2,4,5)] and bw = plain_track_bounds [OF assms(1,3,6,7)]
  note cv = block_track_bounds [OF assms(1,2,4,5)] and cw = block_track_bounds [OF assms(1,3,6,7)]
  have "?p = lba_zone d sys w"
    using zones_apart [OF bv(4) bw(4) _ head] cv(1,2) cw(1,2) track by linarith
  then have "v = w"
    using tables(2,3) [OF t] assms(2,3) by (auto simp: lba_zone_def nth_eq_iff_index_eq)
  then have "plain_track d sys v lba + skips (zone_defects d sys ?p) (zone_first_track ?p) (plain_track d sys v lba)
      = plain_track d sys v lbb + skips (zone_defects d sys ?p) (zone_first_track ?p) (plain_track d sys v lbb)"
    using track by (simp add: block_track_def Let_def)
  then have "plain_track d sys v lba = plain_track d sys v lbb" by (rule skips_inj)
  moreover have "(lba - vzone_start ?t v) div 2 < zone_tracks ?p" "(lbb - vzone_start ?t v) div 2 < zone_tracks ?p"
    using bv(3) bw(3) \<open>v = w\<close> by simp_all
  ultimately have "(lba - vzone_start ?t v) div 2 = (lbb - vzone_start ?t v) div 2"
    unfolding plain_track_def Let_def by (cases "?p < 8") (simp_all only: if_True if_False, linarith+)
  moreover obtain k where "vzone_start ?t v = 2 * k" using tables(6) [OF t assms(2)] by blast
  ultimately have "lba div 2 = lbb div 2" using assms(4,6) \<open>v = w\<close> half_shift [of k] by simp
  then show ?thesis using block by (rule block_of_inj)
qed

lemma find_phys_first:
  assumes "i < length xs" "\<And>j. j < i \<Longrightarrow> xs ! j \<noteq> xs ! i"
  shows "find_phys (xs ! i) k xs = word_of_nat (k + i)"
  using assms
proof (induction xs arbitrary: i k)
  case (Cons x xs)
  show ?case
  proof (cases i)
    case (Suc j)
    have "x \<noteq> xs ! j" using Cons.prems(2) [of 0] Suc by simp
    moreover have "find_phys (xs ! j) (Suc k) xs = word_of_nat (Suc k + j)"
      by (rule Cons.IH) (use Cons.prems Suc in force)+
    ultimately show ?thesis using Suc by simp
  qed simp
qed simp

lemma fill_table:
  assumes "\<And>i. i < n \<Longrightarrow> f i = Some (g i)" "n \<le> length t"
  shows "\<exists>r. for_range 0 n (\<lambda>i t. do { v \<leftarrow> f i; wr t i v }) t = Some r \<and> length r = length t \<and> (\<forall>i<n. r ! i = g i)"
proof -
  have "\<exists>r. for_range 0 n (\<lambda>i t. do { v \<leftarrow> f i; wr t i v }) t = Some r
      \<and> (length r = length t \<and> (\<forall>i<0 + n. r ! i = g i))"
    by (rule for_range_inv) (use assms in \<open>auto simp: nth_list_update less_Suc_eq\<close>)
  then show ?thesis by simp
qed

section \<open>Sectors of a full dump\<close>

text \<open>
  The tracks that a full dump holds for each zone and the start of the zones in it: heads after each other, zones
  in order, no gap.
\<close>

definition dump_tracks :: "nat \<Rightarrow> nat" where
  "dump_tracks z = [158, 158, 149, 149, 149, 149, 149, 114] ! (z mod 8)"

definition dump_sector_size :: "nat \<Rightarrow> nat" where
  "dump_sector_size z = unat (zone_sec_size ! z)"

definition dump_start :: "nat \<Rightarrow> nat" where
  "dump_start z = unat (mame_start_offset ! z)"

lemmas dump_simps = dump_start_def dump_tracks_def dump_sector_size_def mame_start_offset_def zone_sec_size_def

lemma dump_layout:
  "dump_start 0 = 0"
  "z < 15 \<Longrightarrow> dump_start (Suc z) = dump_start z + dump_tracks z * 170 * dump_sector_size z"
  "dump_start 15 + dump_tracks 15 * 170 * dump_sector_size 15 = MAME_FORMAT_DUMP_SIZE"
proof -
  show "dump_start (Suc z) = dump_start z + dump_tracks z * 170 * dump_sector_size z" if "z < 15"
  proof -
    have "z = 0 \<or> z = 1 \<or> z = 2 \<or> z = 3 \<or> z = 4 \<or> z = 5 \<or> z = 6 \<or> z = 7 \<or> z = 8 \<or> z = 9 \<or> z = 10
      \<or> z = 11 \<or> z = 12 \<or> z = 13 \<or> z = 14" using that by presburger
    then show ?thesis by (elim disjE) (simp_all add: dump_simps)
  qed
qed (simp_all add: dump_simps)

lemma zone_search_spec:
  assumes "t < 1175"
  defines "z \<equiv> zone_search 7 (word_of_nat t)"
  shows "z < 8" "zone_first_track z \<le> t" "t < zone_first_track z + dump_tracks z"
proof -
  have "unat (word_of_nat t :: u32) = t" using assms(1) by (simp add: unat_word_of_nat_lt)
  then have le: "x \<le> word_of_nat t \<longleftrightarrow> unat x \<le> t" for x :: u32 by (simp add: word_le_nat_alt)
  have z: "zone_search (Suc (Suc (Suc (Suc (Suc (Suc (Suc 0))))))) (word_of_nat t) =
     (if 0x425 \<le> t then 7 else if 0x390 \<le> t then 6 else if 0x2FB \<le> t then 5 else if 0x266 \<le> t then 4
      else if 0x1D1 \<le> t then 3 else if 0x13C \<le> t then 2 else if 0x9E \<le> t then 1 else 0)"
    by (simp add: le TrackZoneTable_def)
  have "(7 :: nat) = Suc (Suc (Suc (Suc (Suc (Suc (Suc 0))))))" by simp
  note z = z_def [THEN meta_eq_to_obj_eq, unfolded this z]
  show "z < 8" "zone_first_track z \<le> t" "t < zone_first_track z + dump_tracks z"
    using assms(1) unfolding z by (auto simp: zone_first_track_def dump_tracks_def OUTERCYL_TBL_def)
qed

definition dump_zone_end :: "nat \<Rightarrow> nat" where
  "dump_zone_end z = dump_start z + dump_tracks z * 170 * dump_sector_size z"

lemma dump_zones_apart: "z < w \<Longrightarrow> w < 16 \<Longrightarrow> dump_zone_end z \<le> dump_start w"
proof (induction w)
  case (Suc w)
  have e: "dump_start (Suc w) = dump_zone_end w" using dump_layout(2) [of w] Suc.prems by (simp add: dump_zone_end_def)
  show ?case
  proof (cases "z = w")
    case False
    then have "dump_zone_end z \<le> dump_start w" using Suc by simp
    also have "\<dots> \<le> dump_zone_end w" by (simp add: dump_zone_end_def)
    finally show ?thesis using e by simp
  qed (simp add: e)
qed simp

lemma dump_zone_end_le: "z < 16 \<Longrightarrow> dump_zone_end z \<le> MAME_FORMAT_DUMP_SIZE"
proof -
  assume "z < 16"
  have l: "dump_zone_end 15 = MAME_FORMAT_DUMP_SIZE" using dump_layout(3) by (simp add: dump_zone_end_def)
  show ?thesis
  proof (cases "z = 15")
    case False
    then have "dump_zone_end z \<le> dump_start 15" using dump_zones_apart [of z 15] \<open>z < 16\<close> by simp
    then show ?thesis using l by (simp add: dump_zone_end_def)
  qed (simp add: l)
qed

text \<open>The zone of a track and head, its block there, and the first byte of a sector of \<open>n\<close> bytes.\<close>

definition dump_zone :: "nat \<Rightarrow> nat \<Rightarrow> nat" where
  "dump_zone h t = zone_search 7 (word_of_nat t) + 8 * h"

definition dump_block :: "nat \<Rightarrow> nat \<Rightarrow> nat \<Rightarrow> nat" where
  "dump_block h t b = (t - zone_first_track (dump_zone h t)) * 2 + b"

definition dump_sector :: "nat \<Rightarrow> nat \<Rightarrow> nat \<Rightarrow> nat \<Rightarrow> nat \<Rightarrow> nat" where
  "dump_sector n h t b s = dump_start (dump_zone h t) + dump_block h t b * (85 * dump_sector_size (dump_zone h t)) + s * n"

lemma dump_zone_facts:
  assumes "h \<le> 1" "t < 1175" "b \<le> 1"
  shows "dump_zone h t < 16" "zone_first_track (dump_zone h t) \<le> t"
    "dump_block h t b < 2 * dump_tracks (dump_zone h t)"
proof -
  note z = zone_search_spec [OF assms(2)]
  have m: "dump_zone h t mod 8 = zone_search 7 (word_of_nat t)" using z(1) by (simp add: dump_zone_def)
  then have e: "zone_first_track (dump_zone h t) = zone_first_track (zone_search 7 (word_of_nat t))"
    "dump_tracks (dump_zone h t) = dump_tracks (zone_search 7 (word_of_nat t))"
    using z(1) by (simp_all add: zone_first_track_def dump_tracks_def)
  show "dump_zone h t < 16" using z(1) assms(1) by (simp add: dump_zone_def)
  show "zone_first_track (dump_zone h t) \<le> t" using z(2) e by simp
  show "dump_block h t b < 2 * dump_tracks (dump_zone h t)" using z(2,3) assms(3) by (simp add: dump_block_def e)
qed

text \<open>Blocks do not overlap, and a sector lies in its block.\<close>

lemma dump_sector_in_block:
  assumes "s < 85" "n \<le> dump_sector_size (dump_zone h t)"
  shows "dump_sector n h t b 0 \<le> dump_sector n h t b s"
    "dump_sector n h t b s + n \<le> dump_sector n h t b 0 + 85 * dump_sector_size (dump_zone h t)"
proof -
  have "s * n + n \<le> 85 * n" using mult_le_mono1 [of "Suc s" 85 n] assms(1) by simp
  also have "\<dots> \<le> 85 * dump_sector_size (dump_zone h t)" using assms(2) by simp
  finally show "dump_sector n h t b s + n \<le> dump_sector n h t b 0 + 85 * dump_sector_size (dump_zone h t)"
    by (simp add: dump_sector_def)
qed (simp add: dump_sector_def)

lemma dump_block_in_zone:
  assumes "h \<le> 1" "t < 1175" "b \<le> 1"
  shows "dump_sector n h t b 0 + 85 * dump_sector_size (dump_zone h t) \<le> dump_zone_end (dump_zone h t)"
proof -
  let ?z = "dump_zone h t"
  have "Suc (dump_block h t b) \<le> 2 * dump_tracks ?z" using dump_zone_facts(3) [OF assms] by simp
  then have "Suc (dump_block h t b) * (85 * dump_sector_size ?z) \<le> 2 * dump_tracks ?z * (85 * dump_sector_size ?z)"
    by (rule mult_le_mono1)
  then show ?thesis by (simp add: dump_sector_def dump_zone_end_def algebra_simps)
qed

lemma two_digits: "a * 2 + b = c * 2 + d \<Longrightarrow> b \<le> 1 \<Longrightarrow> d \<le> 1 \<Longrightarrow> a = c \<and> b = (d :: nat)"
  by presburger

lemma dump_blocks_apart:
  assumes "h \<le> 1" "t < 1175" "b \<le> 1" "h' \<le> 1" "t' < 1175" "b' \<le> 1" "(h, t, b) \<noteq> (h', t', b')"
  shows "dump_sector n h t b 0 + 85 * dump_sector_size (dump_zone h t) \<le> dump_sector n' h' t' b' 0
    \<or> dump_sector n' h' t' b' 0 + 85 * dump_sector_size (dump_zone h' t') \<le> dump_sector n h t b 0"
proof -
  note f = dump_zone_facts [OF assms(1-3)] and f' = dump_zone_facts [OF assms(4-6)]
  note e = dump_block_in_zone [OF assms(1-3), of n] and e' = dump_block_in_zone [OF assms(4-6), of n']
  have s: "dump_start (dump_zone h t) \<le> dump_sector n h t b 0" for h t b n by (simp add: dump_sector_def)
  consider "dump_zone h t < dump_zone h' t'" | "dump_zone h' t' < dump_zone h t" | "dump_zone h t = dump_zone h' t'"
    by linarith
  then show ?thesis
  proof cases
    case 1
    then show ?thesis using dump_zones_apart [OF 1 f'(1)] e s [of h' t' n' b'] by linarith
  next
    case 2
    then show ?thesis using dump_zones_apart [OF 2 f(1)] e' s [of h t n b] by linarith
  next
    case 3
    let ?B = "85 * dump_sector_size (dump_zone h t)"
    have hh: "h = h'" using 3 zone_search_spec(1) [OF assms(2)] zone_search_spec(1) [OF assms(5)]
      unfolding dump_zone_def by linarith
    have "dump_block h t b \<noteq> dump_block h' t' b'"
    proof
      assume q: "dump_block h t b = dump_block h' t' b'"
      have "t - zone_first_track (dump_zone h t) = t' - zone_first_track (dump_zone h t) \<and> b = b'"
        by (rule two_digits) (use q 3 assms(3,6) in \<open>simp_all add: dump_block_def\<close>)
      then have "t = t' \<and> b = b'" using f(2) f'(2) 3 by (metis le_add_diff_inverse)
      then show False using assms(7) hh by simp
    qed
    then consider "Suc (dump_block h t b) \<le> dump_block h' t' b'" | "Suc (dump_block h' t' b') \<le> dump_block h t b" by linarith
    then show ?thesis
    proof cases
      case 1
      then have "Suc (dump_block h t b) * ?B \<le> dump_block h' t' b' * ?B" by (rule mult_le_mono1)
      then show ?thesis using 3 by (simp add: dump_sector_def)
    next
      case 2
      then have "Suc (dump_block h' t' b') * ?B \<le> dump_block h t b * ?B" by (rule mult_le_mono1)
      then show ?thesis using 3 by (simp add: dump_sector_def)
    qed
  qed
qed

text \<open>The size of a sector never exceeds that of the zone.\<close>

lemma head_zone:
  assumes "h \<le> 1" "t < 1175"
  shows "unat (get_zone_from_head_track (word_of_nat h) (word_of_nat t)) = zone_search 7 (word_of_nat t) + h"
    "get_zone_from_head_track (word_of_nat h) (word_of_nat t) - word_of_nat h = word_of_nat (zone_search 7 (word_of_nat t))"
    "zone_sec_size_phys ! (zone_search 7 (word_of_nat t) + h) = zone_sec_size ! dump_zone h t"
proof -
  define z where "z = zone_search 7 (word_of_nat t)"
  have z: "z < 8" using zone_search_spec(1) [OF assms(2)] by (simp add: z_def)
  have w: "get_zone_from_head_track (word_of_nat h) (word_of_nat t) = word_of_nat (z + h)"
    by (simp add: get_zone_from_head_track_def z_def)
  show "unat (get_zone_from_head_track (word_of_nat h) (word_of_nat t)) = zone_search 7 (word_of_nat t) + h"
    unfolding w z_def [symmetric] by (rule unat_word_of_nat_lt) (use z assms(1) in simp)
  show "get_zone_from_head_track (word_of_nat h) (word_of_nat t) - word_of_nat h = word_of_nat (zone_search 7 (word_of_nat t))"
    by (simp add: get_zone_from_head_track_def)
  have "h = 0 \<or> h = 1" using assms(1) by auto
  moreover have "z = 0 \<or> z = 1 \<or> z = 2 \<or> z = 3 \<or> z = 4 \<or> z = 5 \<or> z = 6 \<or> z = 7" using z by presburger
  ultimately show "zone_sec_size_phys ! (zone_search 7 (word_of_nat t) + h) = zone_sec_size ! dump_zone h t"
    unfolding dump_zone_def z_def [symmetric] by (elim disjE) (simp_all add: zone_sec_size_phys_def zone_sec_size_def)
qed

lemma sector_size_checked: "list_all (\<lambda>z. 0 < unat z \<and> unat z \<le> 232) zone_sec_size"
  by (simp add: zone_sec_size_def)

lemma dump_sector_size_bounds: "z < 16 \<Longrightarrow> 0 < dump_sector_size z \<and> dump_sector_size z \<le> 232"
  using sector_size_checked by (simp add: list_all_length dump_sector_size_def)

lemma phys_sector_size_spec:
  assumes "h \<le> 1" "t < 1175"
  shows "\<exists>n. phys_sector_size dk (word_of_nat h) (word_of_nat t) = Some n \<and> 0 < unat n \<and> unat n \<le> dump_sector_size (dump_zone h t)"
proof -
  have z: "dump_zone h t < 16" using dump_zone_facts(1) [OF assms, of 0] by simp
  have i: "zone_search 7 (word_of_nat t) + h < 9" using zone_search_spec(1) [OF assms(2)] assms(1) by simp
  have ht: "(word_of_nat h :: u32) = 0 \<longleftrightarrow> h = 0" "(word_of_nat t :: u32) < 6 \<longleftrightarrow> t < 6"
    using assms by (auto simp: word_less_nat_alt word_unat_eq_iff unat_word_of_nat_lt)
  show ?thesis
  proof (cases "development dk \<noteq> 0 \<and> h = 0 \<and> t < 6")
    case True
    have "dump_zone h t = 0"
      using True zone_search_spec [of t] assms(2)
      by (auto simp: dump_zone_def zone_first_track_def OUTERCYL_TBL_def nth_Cons' split: if_splits)
    then show ?thesis using True ht by (simp add: phys_sector_size_def dump_sector_size_def zone_sec_size_def)
  next
    case False
    then show ?thesis
      using ht head_zone [OF assms] i dump_sector_size_bounds [OF z]
      by (auto simp: phys_sector_size_def dump_sector_size_def)
  qed
qed

text \<open>Where the code looks for a sector of a full dump.\<close>

lemma mame_sector_position:
  assumes fmt: "dk_format dk = DISK_FORMAT_MAME" and v: "h \<le> 1" "t < 1175" "b \<le> 1" "s < 85"
    and n: "phys_sector_size dk (word_of_nat h) (word_of_nat t) = Some n"
  shows "get_sector_base dk (word_of_nat h) (word_of_nat t) (word_of_nat b) (word_of_nat s)
    = Some (if s = 0 \<and> t < 12 \<and> protected_block dk (word_of_nat (dump_sector (unat n) h t b s)) then None
            else Some (dump_sector (unat n) h t b s))"
proof -
  let ?z = "dump_zone h t" and ?w = "zone_search 7 (word_of_nat t)"
  note f = dump_zone_facts [OF v(1-3)] and hz = head_zone [OF v(1,2)] and w8 = zone_search_spec [OF v(2)]
  obtain n' where "phys_sector_size dk (word_of_nat h) (word_of_nat t) = Some n'" "unat n' \<le> dump_sector_size ?z"
    using phys_sector_size_spec [OF v(1,2)] by blast
  then have nle: "unat n \<le> dump_sector_size ?z" using n by simp
  have fit: "dump_sector (unat n) h t b s < 2 ^ 32"
  proof -
    have "dump_sector (unat n) h t b s \<le> dump_zone_end ?z"
      using dump_sector_in_block(2) [OF v(4) nle, of b] dump_block_in_zone [OF v(1-3), of "unat n"] by simp
    also have "\<dots> \<le> MAME_FORMAT_DUMP_SIZE" by (rule dump_zone_end_le [OF f(1)])
    finally show ?thesis by simp
  qed
  have tz: "TrackZoneTable ! ?w = word_of_nat (zone_first_track ?z)"
  proof -
    have "?z mod 8 = ?w" using w8(1) by (simp add: dump_zone_def)
    moreover have "TrackZoneTable ! k = OUTERCYL_TBL ! k" if "k < 8" for k
    proof -
      have "k = 0 \<or> k = 1 \<or> k = 2 \<or> k = 3 \<or> k = 4 \<or> k = 5 \<or> k = 6 \<or> k = 7" using that by presburger
      then show ?thesis by (elim disjE) (simp_all add: TrackZoneTable_def OUTERCYL_TBL_def)
    qed
    ultimately show ?thesis using w8(1) by (simp add: zone_first_track_def)
  qed
  have uw: "unat (word_of_nat ?w :: u32) = ?w" using w8(1) by (simp add: unat_word_of_nat_lt)
  have z: "word_of_nat ?w + word_of_nat h * 8 = (word_of_nat ?z :: u32)" by (simp add: dump_zone_def)
  have uz: "unat (word_of_nat ?z :: u32) = ?z" using f(1) by (simp add: unat_word_of_nat_lt)
  have sz: "zone_sec_size ! ?z = word_of_nat (dump_sector_size ?z)" by (simp add: dump_sector_size_def)
  have st: "mame_start_offset ! ?z = word_of_nat (dump_start ?z)" by (simp add: dump_start_def)
  have off: "word_of_nat (dump_start ?z) + (word_of_nat t - word_of_nat (zone_first_track ?z)) * (word_of_nat (dump_sector_size ?z) * 85 * 2)
      + word_of_nat b * (word_of_nat (dump_sector_size ?z) * 85) + word_of_nat s * n
      = (word_of_nat (dump_sector (unat n) h t b s) :: u32)"
  proof -
    obtain m where m: "t = zone_first_track ?z + m" using f(2) by (auto simp: le_iff_add)
    have "(word_of_nat t :: u32) = word_of_nat (zone_first_track ?z) + word_of_nat m"
      using arg_cong [OF m, of "word_of_nat :: nat \<Rightarrow> u32"] by (simp only: of_nat_add)
    then have "(word_of_nat t - word_of_nat (zone_first_track ?z) :: u32) = word_of_nat m" by simp
    moreover have "dump_block h t b = m * 2 + b"
      unfolding dump_block_def by (metis m add_diff_cancel_left')
    ultimately show ?thesis by (simp add: dump_sector_def algebra_simps)
  qed
  have t12: "(word_of_nat t :: u32) < word_of_nat (SYSTEM_LBAS div 2) \<longleftrightarrow> t < 12"
    using v(2) by (simp add: word_less_nat_alt unat_word_of_nat_lt)
  have s0: "(word_of_nat s :: u32) = 0 \<longleftrightarrow> s = 0" using v(4) by (simp add: word_unat_eq_iff unat_word_of_nat_lt)
  have size: "SECTORSIZE (word_of_nat ?z) = Some (word_of_nat (dump_sector_size ?z))"
    using uz f(1) sz by (simp add: SECTORSIZE_def)
  have rt: "rd TrackZoneTable ?w = Some (word_of_nat (zone_first_track ?z))" using w8(1) tz by simp
  have rs: "rd mame_start_offset ?z = Some (word_of_nat (dump_start ?z))" using f(1) st by simp
  have "get_sector_base dk (word_of_nat h) (word_of_nat t) (word_of_nat b) (word_of_nat s)
      = get_sector_base_mame dk (word_of_nat h) (word_of_nat t) (word_of_nat b) (word_of_nat s)"
    using fmt by (simp add: get_sector_base_def)
  also have "\<dots> = (let offset = word_of_nat (dump_sector (unat n) h t b s) :: u32
      in if s = 0 \<and> t < 12 \<and> protected_block dk offset then Some None else Some (Some (unat offset)))"
    unfolding get_sector_base_mame_def Let_def hz(2) z TRACKSIZE_def BLOCKSIZE_def size option.map uw uz n
      Option.bind.bind_lunit rt rs off t12 s0 if_distrib [of Some] by (rule refl)
  moreover have "unat (word_of_nat (dump_sector (unat n) h t b s) :: u32) = dump_sector (unat n) h t b s"
    by (rule unat_word_of_nat_lt) (use fit in simp)
  ultimately show ?thesis by (simp only: Let_def if_distrib [of Some])
qed

end
