(* ===== verification/Dd_Props.thy ===== *)
theory Dd_Props
  imports Dd Disk_Props R4300_Props Dma_Claims
begin

text \<open>
  Facts about the controller of the disk drive: what its operations leave alone, that its uses of the event queue
  never fail, and what one interrupt of the buffer manager does.
\<close>

section \<open>Registers\<close>

lemma ddr_set_ddr [simp]: "ddr (set_ddr x v s) y = (if y = x then v else ddr s y)"
  by (simp add: set_ddr_def)

lemma set_ddr_frame [simp]:
  "r4300 (set_ddr x v s) = r4300 s" "rdram (set_ddr x v s) = rdram s" "the_disk (dd (set_ddr x v s)) = the_disk (dd s)"
  "ds_buf (dd (set_ddr x v s)) = ds_buf (dd s)" "c2s_buf (dd (set_ddr x v s)) = c2s_buf (dd s)"
  "bm_write (dd (set_ddr x v s)) = bm_write (dd s)" "bm_zone (dd (set_ddr x v s)) = bm_zone (dd s)"
  "timer_standby (dd (set_ddr x v s)) = timer_standby (dd s)" "timer_sleep (dd (set_ddr x v s)) = timer_sleep (dd s)"
  by (simp_all add: set_ddr_def)

lemma or_ddr_frame [simp]:
  "ddr (or_ddr x m s) y = (if y = x then ddr s x OR m else ddr s y)"
  "r4300 (or_ddr x m s) = r4300 s" "rdram (or_ddr x m s) = rdram s" "the_disk (dd (or_ddr x m s)) = the_disk (dd s)"
  "ds_buf (dd (or_ddr x m s)) = ds_buf (dd s)" "c2s_buf (dd (or_ddr x m s)) = c2s_buf (dd s)"
  "bm_write (dd (or_ddr x m s)) = bm_write (dd s)" "bm_zone (dd (or_ddr x m s)) = bm_zone (dd s)"
  "timer_standby (dd (or_ddr x m s)) = timer_standby (dd s)" "timer_sleep (dd (or_ddr x m s)) = timer_sleep (dd s)"
  by (simp_all add: or_ddr_def)

lemma clear_ddr_frame [simp]:
  "ddr (clear_ddr x m s) y = (if y = x then ddr s x AND NOT m else ddr s y)"
  "r4300 (clear_ddr x m s) = r4300 s" "rdram (clear_ddr x m s) = rdram s" "the_disk (dd (clear_ddr x m s)) = the_disk (dd s)"
  "ds_buf (dd (clear_ddr x m s)) = ds_buf (dd s)" "c2s_buf (dd (clear_ddr x m s)) = c2s_buf (dd s)"
  "bm_write (dd (clear_ddr x m s)) = bm_write (dd s)" "bm_zone (dd (clear_ddr x m s)) = bm_zone (dd s)"
  "timer_standby (dd (clear_ddr x m s)) = timer_standby (dd s)" "timer_sleep (dd (clear_ddr x m s)) = timer_sleep (dd s)"
  by (simp_all add: clear_ddr_def)

lemma next_sector_frame [simp]:
  "ddr (next_sector s) y = (if y = DD_ASIC_CUR_SECTOR then ddr s DD_ASIC_CUR_SECTOR + 0x10000 else ddr s y)"
  "r4300 (next_sector s) = r4300 s" "rdram (next_sector s) = rdram s" "the_disk (dd (next_sector s)) = the_disk (dd s)"
  "ds_buf (dd (next_sector s)) = ds_buf (dd s)" "c2s_buf (dd (next_sector s)) = c2s_buf (dd s)"
  "bm_write (dd (next_sector s)) = bm_write (dd s)" "bm_zone (dd (next_sector s)) = bm_zone (dd s)"
  "timer_standby (dd (next_sector s)) = timer_standby (dd s)"
  by (simp_all add: next_sector_def)

lemma ddr_r4300 [simp]:
  "set_ddr x m (s\<lparr>r4300 := r\<rparr>) = (set_ddr x m s)\<lparr>r4300 := r\<rparr>"
  "or_ddr x m (s\<lparr>r4300 := r\<rparr>) = (or_ddr x m s)\<lparr>r4300 := r\<rparr>"
  "clear_ddr x m (s\<lparr>r4300 := r\<rparr>) = (clear_ddr x m s)\<lparr>r4300 := r\<rparr>"
  by (simp_all add: or_ddr_def clear_ddr_def set_ddr_def)

section \<open>The event queue\<close>

abbreviation dd_queue_ok :: "'a dd_sys_scheme \<Rightarrow> bool" where
  "dd_queue_ok s \<equiv> wf_queue (cp0_q (cp0 (r4300 s)))"

lemma dd_remove_event_total:
  assumes "dd_queue_ok s"
  shows "\<exists>r'. dd_remove_event ty s = Some (s\<lparr>r4300 := r'\<rparr>) \<and> wf_queue (cp0_q (cp0 r')) \<and> creg r' = creg (r4300 s)
    \<and> emu_mode r' = emu_mode (r4300 s)"
  using remove_event_spec [OF assms, of ty] by (auto simp: dd_remove_event_def upd_r4300_def upd_cp0_def)

lemma dd_add_event_total:
  assumes "dd_queue_ok s"
  shows "\<exists>r'. dd_add_event ty delay s = Some (s\<lparr>r4300 := r'\<rparr>) \<and> wf_queue (cp0_q (cp0 r')) \<and> creg r' = creg (r4300 s)
    \<and> emu_mode r' = emu_mode (r4300 s)"
proof (cases "length (events (cp0_q (cp0 (r4300 s)))) < INTERRUPT_NODES_POOL_CAPACITY")
  case True
  from add_interrupt_event_count_spec [OF assms True, of ty "creg (r4300 s) CP0_COUNT_REG + delay"]
  show ?thesis by (auto simp: dd_add_event_def add_interrupt_event_def upd_r4300_def upd_cp0_def)
next
  case False
  then have "length (events (cp0_q (cp0 (r4300 s)))) = INTERRUPT_NODES_POOL_CAPACITY"
    using length_events_le [OF assms] by simp
  from add_interrupt_event_count_full [OF assms this]
  show ?thesis
    using assms by (intro exI [of _ "r4300 s"]) (simp add: dd_add_event_def add_interrupt_event_def upd_r4300_def upd_cp0_def)
qed

lemma check_interrupt_emu_mode: "r4300_check_interrupt r ip sc = Some r' \<Longrightarrow> emu_mode r' = emu_mode r"
  by (auto simp: r4300_check_interrupt_def set_creg_def Let_def split: if_splits bind_splits option.splits)

lemma dd_check_interrupt_total:
  assumes "dd_queue_ok s"
  shows "\<exists>r'. upd_r4300 (\<lambda>r. r4300_check_interrupt r ip sc) s = Some (s\<lparr>r4300 := r'\<rparr>) \<and> wf_queue (cp0_q (cp0 r'))
    \<and> creg r' = (creg (r4300 s))(CP0_CAUSE_REG := pending_cause (r4300 s) ip sc) \<and> emu_mode r' = emu_mode (r4300 s)"
proof (cases "length (events (cp0_q (cp0 (r4300 s)))) < INTERRUPT_NODES_POOL_CAPACITY")
  case True
  from check_interrupt_total [OF assms True, of ip sc] show ?thesis
    by (auto simp: upd_r4300_def check_interrupt_emu_mode)
next
  case False
  then have full: "length (events (cp0_q (cp0 (r4300 s)))) = INTERRUPT_NODES_POOL_CAPACITY"
    using length_events_le [OF assms] by simp
  have "alloc_node (q_pool (cp0_q (cp0 (r4300 s)))) = Some (None, q_pool (cp0_q (cp0 (r4300 s))))"
    by (rule alloc_node_full) (use assms full in \<open>auto simp: wf_queue_def events_def\<close>)
  then have "r4300_check_interrupt (r4300 s) ip sc = Some (set_creg CP0_CAUSE_REG (pending_cause (r4300 s) ip sc) (r4300 s))"
    by (auto simp: r4300_check_interrupt_def pending_cause_def set_creg_def Let_def)
  then show ?thesis
    using assms by (intro exI [of _ "set_creg CP0_CAUSE_REG (pending_cause (r4300 s) ip sc) (r4300 s)"])
      (simp add: upd_r4300_def set_creg_def fun_eq_iff)
qed

lemma dd_dv_active_total:
  assumes "dd_queue_ok s" "timer_standby (dd s) < 46"
  shows "\<exists>r'. dd_dv_active s = Some ((clear_ddr DD_ASIC_CMD_STATUS (DD_STATUS_MTR_N_SPIN OR DD_STATUS_HEAD_RTRCT) s)\<lparr>r4300 := r'\<rparr>)
    \<and> wf_queue (cp0_q (cp0 r')) \<and> creg r' = creg (r4300 s) \<and> emu_mode r' = emu_mode (r4300 s)"
proof -
  let ?s = "clear_ddr DD_ASIC_CMD_STATUS (DD_STATUS_MTR_N_SPIN OR DD_STATUS_HEAD_RTRCT) s"
  obtain r where r: "dd_remove_event DD_DV_INT ?s = Some (?s\<lparr>r4300 := r\<rparr>)" "wf_queue (cp0_q (cp0 r))" "creg r = creg (r4300 s)"
    "emu_mode r = emu_mode (r4300 s)"
    using dd_remove_event_total [of ?s DD_DV_INT] assms(1) by auto
  have "\<exists>d. motor_delay (timer_standby (dd s)) = Some d" using assms(2) by (simp add: motor_delay_def)
  then obtain d where d: "motor_delay (timer_standby (dd s)) = Some d" by blast
  have "dd_queue_ok (?s\<lparr>r4300 := r\<rparr>)" using r(2) by simp
  from dd_add_event_total [OF this, of DD_DV_INT d]
  show ?thesis using r d by (auto simp: dd_dv_active_def start_motor_timer_def)
qed

text \<open>One interrupt of the running buffer manager, in terms of its step.\<close>

lemma dd_update_bm_via:
  assumes "ddr s DD_ASIC_BM_STATUS_CTL AND DD_BM_STATUS_RUNNING \<noteq> 0"
    and "(if bm_write (dd s) \<noteq> 0 then bm_write_step else bm_read_step)
           (clear_ddr DD_ASIC_CMD_STATUS (DD_STATUS_DATA_RQ OR DD_STATUS_C2_XFER) s) = Some t"
    and "dd_queue_ok t" "timer_standby (dd t) < 46"
  shows "\<exists>r'. dd_update_bm s = Some ((or_ddr DD_ASIC_CMD_STATUS DD_STATUS_BM_INT
        (clear_ddr DD_ASIC_CMD_STATUS (DD_STATUS_MTR_N_SPIN OR DD_STATUS_HEAD_RTRCT) t))\<lparr>r4300 := r'\<rparr>)
    \<and> wf_queue (cp0_q (cp0 r')) \<and> bit (creg r' CP0_CAUSE_REG) 11 \<and> emu_mode r' = emu_mode (r4300 t)"
proof -
  let ?t = "clear_ddr DD_ASIC_CMD_STATUS (DD_STATUS_MTR_N_SPIN OR DD_STATUS_HEAD_RTRCT) t"
  obtain r where r: "dd_dv_active t = Some (?t\<lparr>r4300 := r\<rparr>)" "wf_queue (cp0_q (cp0 r))" "emu_mode r = emu_mode (r4300 t)"
    using dd_dv_active_total [OF assms(3,4)] by blast
  have "dd_queue_ok ((or_ddr DD_ASIC_CMD_STATUS DD_STATUS_BM_INT ?t)\<lparr>r4300 := r\<rparr>)" using r(2) by simp
  from dd_check_interrupt_total [OF this, of CP0_CAUSE_IP3 1] obtain r' where r':
    "upd_r4300 (\<lambda>r. r4300_check_interrupt r CP0_CAUSE_IP3 1) ((or_ddr DD_ASIC_CMD_STATUS DD_STATUS_BM_INT ?t)\<lparr>r4300 := r\<rparr>)
      = Some ((or_ddr DD_ASIC_CMD_STATUS DD_STATUS_BM_INT ?t)\<lparr>r4300 := r'\<rparr>)"
    "wf_queue (cp0_q (cp0 r'))" "creg r' CP0_CAUSE_REG = pending_cause r CP0_CAUSE_IP3 1" "emu_mode r' = emu_mode r"
    by auto
  have "bit (creg r' CP0_CAUSE_REG) 11"
    unfolding r'(3) by (simp add: pending_cause_def bit_simps bit_numeral_rec)
  then show ?thesis
    using assms(1,2) r(1,3) r'(1,2,4) by (auto simp: dd_update_bm_def signal_dd_interrupt_def Let_def split: if_splits)
qed

section \<open>Sectors\<close>

text \<open>The number of the sector among both blocks.\<close>

definition sector_no :: "'a dd_sys_scheme \<Rightarrow> nat" where
  "sector_no s = unat (sector_field s)"

lemma sector_no_div: "sector_no s = unat (ddr s DD_ASIC_CUR_SECTOR) div 65536 mod 256"
proof -
  have "sector_field s = drop_bit 16 (ddr s DD_ASIC_CUR_SECTOR) AND mask 8"
    by (simp add: sector_field_def mask_eq_exp_minus_1)
  then show ?thesis unfolding sector_no_def by (simp only: unat_and_mask unat_drop_bit) simp
qed

lemma sector_no_cong: "ddr t DD_ASIC_CUR_SECTOR = ddr s DD_ASIC_CUR_SECTOR \<Longrightarrow> sector_no t = sector_no s"
  by (simp add: sector_no_div)

lemma sector_no_step:
  "ddr t DD_ASIC_CUR_SECTOR = ddr s DD_ASIC_CUR_SECTOR + 0x10000 \<Longrightarrow> sector_no s < 255 \<Longrightarrow> sector_no t = Suc (sector_no s)"
proof -
  assume t: "ddr t DD_ASIC_CUR_SECTOR = ddr s DD_ASIC_CUR_SECTOR + 0x10000" and l: "sector_no s < 255"
  let ?w = "unat (ddr s DD_ASIC_CUR_SECTOR)"
  have w: "?w < 2 ^ 32" using unat_u32_less [of "ddr s DD_ASIC_CUR_SECTOR"] by simp
  have "unat (ddr t DD_ASIC_CUR_SECTOR) = (?w + 65536) mod 2 ^ 32" by (simp add: t unat_word_ariths)
  moreover have "(?w + 65536) mod 2 ^ 32 div 65536 mod 256 = Suc (?w div 65536 mod 256)" if "?w div 65536 mod 256 < 255"
  proof (cases "?w + 65536 < 2 ^ 32")
    case True
    have "(?w + 65536) div 65536 = Suc (?w div 65536)" by simp
    then show ?thesis using True that by (simp only: mod_less mod_Suc) simp
  next
    case False
    then have "?w div 65536 = 65535" using w by (intro div_nat_eqI) simp_all
    then show ?thesis using that by simp
  qed
  ultimately show ?thesis using l by (simp add: sector_no_div)
qed

lemma sector_no_other_block:
  assumes "ddr t DD_ASIC_CUR_SECTOR = other_block (sector_field s div 90) first" "sector_no s < 180" "first = 0 \<or> first = 1"
  shows "sector_no t = (if sector_no s < 90 then 90 else 0) + unat first"
proof -
  have "sector_field s div 90 = (if sector_no s < 90 then 0 else 1)"
    using assms(2) by (auto simp: sector_no_def word_unat_eq_iff unat_div)
  then show ?thesis using assms(1,3) by (auto simp: sector_no_div other_block_def)
qed

lemma sector_words:
  assumes "sector_no s < 256"
  shows "sector_field s mod 90 = word_of_nat (sector_no s mod 90)" "sector_field s div 90 = word_of_nat (sector_no s div 90)"
proof -
  have m: "unat (word_of_nat (sector_no s mod 90) :: u32) = sector_no s mod 90"
    "unat (word_of_nat (sector_no s div 90) :: u32) = sector_no s div 90"
    using assms by (simp_all add: unat_word_of_nat_lt)
  show "sector_field s mod 90 = word_of_nat (sector_no s mod 90)" "sector_field s div 90 = word_of_nat (sector_no s div 90)"
    using m by (simp_all only: sector_no_def word_unat_eq_iff unat_div unat_mod) simp_all
qed

lemma read_into_buffer:
  assumes "n \<le> 256" "base + n \<le> length src" "length dst = 256"
  shows "\<exists>b. for_range 0 n (\<lambda>i b. do { v \<leftarrow> rd src (base + i); wr b (s8 i) v }) dst = Some b \<and> length b = 256
    \<and> (\<forall>i<n. b ! s8 i = src ! (base + i))"
proof -
  let ?P = "\<lambda>i b. length b = 256 \<and> (\<forall>j<i. b ! s8 j = src ! (base + j))"
  have "\<exists>b. for_range 0 n (\<lambda>i b. do { v \<leftarrow> rd src (base + i); wr b (s8 i) v }) dst = Some b \<and> ?P (0 + n) b"
  proof (rule for_range_inv)
    fix j b
    assume j: "j < 0 + n" "?P j b"
    then have "s8 j < length b" using assms(1) s8_less [of 256 j] by simp
    then show "\<exists>b'. do { v \<leftarrow> rd src (base + j); wr b (s8 j) v } = Some b' \<and> ?P (Suc j) b'"
      using j assms(2) by (auto simp: nth_list_update less_Suc_eq)
  qed (use assms in simp)
  then show ?thesis by simp
qed

lemma write_from_buffer:
  assumes "n \<le> 256" "base + n \<le> length d" "length src = 256"
  shows "\<exists>r. for_range 0 n (\<lambda>i d. do { v \<leftarrow> rd src (s8 i); wr d (base + i) v }) d = Some r \<and> length r = length d
    \<and> (\<forall>i<n. r ! (base + i) = src ! s8 i) \<and> (\<forall>x. x < base \<or> base + n \<le> x \<longrightarrow> r ! x = d ! x)"
proof -
  let ?P = "\<lambda>i r. length r = length d \<and> (\<forall>j<i. r ! (base + j) = src ! s8 j) \<and> (\<forall>x. x < base \<or> base + i \<le> x \<longrightarrow> r ! x = d ! x)"
  have "\<exists>r. for_range 0 n (\<lambda>i d. do { v \<leftarrow> rd src (s8 i); wr d (base + i) v }) d = Some r \<and> ?P (0 + n) r"
  proof (rule for_range_inv)
    fix j r
    assume j: "j < 0 + n" "?P j r"
    then have "s8 j < length src" using assms(1,3) s8_less [of 256 j] by simp
    then show "\<exists>r'. do { v \<leftarrow> rd src (s8 j); wr r (base + j) v } = Some r' \<and> ?P (Suc j) r'"
      using j assms(2) by (auto simp: nth_list_update less_Suc_eq)
  qed simp
  then show ?thesis by simp
qed

text \<open>The disk answers for every sector of the track \<open>tk\<close>, within the image, with sectors of \<open>n\<close> bytes.\<close>

definition disk_serves :: "dd_disk \<Rightarrow> u32 \<Rightarrow> nat \<Rightarrow> bool" where
  "disk_serves disk tk n \<longleftrightarrow> (\<forall>b\<le>1. \<forall>k<85. \<exists>base.
     get_sector_base disk (track_head tk) (track_number tk) (word_of_nat b) (word_of_nat k) = Some base
     \<and> (\<forall>x. base = Some x \<longrightarrow> x + n \<le> length (dk_data disk)))"

lemma track_head_le: "unat (track_head tk) \<le> 1"
proof -
  have "unat (track_head tk) < 2 ^ 1"
    by (rule unat_less_exp) (auto simp: track_head_def bit_simps bit_numeral_rec)
  then show ?thesis by simp
qed

text \<open>A full dump does.\<close>

lemma mame_serves:
  assumes "dk_format disk = DISK_FORMAT_MAME" "MAME_FORMAT_DUMP_SIZE \<le> length (dk_data disk)"
    and "unat (track_number tk) < 1175" "phys_sector_size disk (track_head tk) (track_number tk) = Some z" "n \<le> unat z"
  shows "disk_serves disk tk n"
proof -
  let ?h = "unat (track_head tk)" and ?t = "unat (track_number tk)"
  have h: "?h \<le> 1" by (rule track_head_le)
  have "\<exists>base. get_sector_base disk (track_head tk) (track_number tk) (word_of_nat b) (word_of_nat k) = Some base
     \<and> (\<forall>x. base = Some x \<longrightarrow> x + n \<le> length (dk_data disk))" if v: "b \<le> 1" "k < 85" for b k
  proof -
    have z: "phys_sector_size disk (word_of_nat ?h) (word_of_nat ?t) = Some z" using assms(4) by simp
    have le: "unat z \<le> dump_sector_size (dump_zone ?h ?t)" using phys_sector_size_spec [OF h assms(3), of disk] z by auto
    have "dump_sector (unat z) ?h ?t b k + unat z \<le> MAME_FORMAT_DUMP_SIZE"
      using dump_sector_in_block(2) [OF v(2) le, of b] dump_block_in_zone [OF h assms(3) v(1), of "unat z"]
        dump_zone_end_le [OF dump_zone_facts(1) [OF h assms(3) v(1)]] by linarith
    then show ?thesis
      using mame_sector_position [OF assms(1) h assms(3) v z] assms(2,5) by auto
  qed
  then show ?thesis by (simp add: disk_serves_def)
qed

section \<open>A read transfer\<close>

text \<open>
  The buffer manager is reading: it runs, at one of the 89 sectors of a block, from a track that the disk serves and that is not
  the one that retail disks refuse; the buffers have their sizes.
\<close>

definition bm_running :: "'a dd_sys_scheme \<Rightarrow> bool" where
  "bm_running s \<longleftrightarrow> ddr s DD_ASIC_BM_STATUS_CTL AND DD_BM_STATUS_RUNNING \<noteq> 0"

definition bm_block :: "'a dd_sys_scheme \<Rightarrow> bool" where
  "bm_block s \<longleftrightarrow> ddr s DD_ASIC_BM_STATUS_CTL AND DD_BM_STATUS_BLOCK \<noteq> 0"

definition bm_reading :: "'a dd_sys_scheme \<Rightarrow> bool" where
  "bm_reading s \<longleftrightarrow> bm_write (dd s) = 0 \<and> sector_no s < 180 \<and> sector_no s mod 90 < 89
     \<and> unat (bm_zone (dd s)) < 16 \<and> length (c2s_buf (dd s)) = 0x400 \<and> length (ds_buf (dd s)) = 0x100
     \<and> unat (ddr s DD_ASIC_HOST_SECBYTE) < 256 \<and> timer_standby (dd s) < 46 \<and> dd_queue_ok s
     \<and> (\<exists>disk. the_disk (dd s) = Some disk
          \<and> disk_serves disk (ddr s DD_ASIC_CUR_TK) (unat (ddr s DD_ASIC_HOST_SECBYTE) + 1)
          \<and> (drop_bit 16 (ddr s DD_ASIC_CUR_TK) AND 0x1fff = 6 \<longrightarrow> development disk \<noteq> 0))"

text \<open>The number of interrupts until it stops.\<close>

definition transfer_left :: "'a dd_sys_scheme \<Rightarrow> nat" where
  "transfer_left s = (if bm_running s then (if bm_block s then 89 else 0) + (89 - sector_no s mod 90) else 0)"

lemma read_C2_total:
  assumes "85 \<le> sector_no s mod 90" "sector_no s mod 90 < 89" "sector_no s < 180" "unat (bm_zone (dd s)) < 16"
    "length (c2s_buf (dd s)) = 0x400"
  shows "\<exists>b. read_C2 s = Some (s\<lparr>dd := (dd s)\<lparr>c2s_buf := b\<rparr>\<rparr>) \<and> length b = 0x400"
proof -
  let ?k = "sector_no s mod 90" and ?z = "unat (bm_zone (dd s))"
  have l: "rd zone_sec_size ?z = Some (zone_sec_size ! ?z)" "unat (zone_sec_size ! ?z) \<le> 232"
    using assms(4) dump_sector_size_bounds [OF assms(4)] by (simp_all add: dump_sector_size_def)
  have "0x40 * (sector_field s mod 90 - SECTORS_PER_BLOCK) = (word_of_nat (0x40 * (?k - 85)) :: u32)"
    using sector_words(1) [of s] assms(1,3) by (simp add: of_nat_diff)
  moreover have "unat (word_of_nat (0x40 * (?k - 85)) :: u32) = 0x40 * (?k - 85)"
    using assms(2) by (intro unat_word_of_nat_lt) simp
  ultimately have off: "unat (0x40 * (sector_field s mod 90 - SECTORS_PER_BLOCK)) = 0x40 * (?k - 85)" by simp
  have "4 dvd length (c2s_buf (dd s))" "0x40 * (?k - 85) + 0 + unat (zone_sec_size ! ?z) \<le> length (c2s_buf (dd s))"
    using assms(2,5) l(2) by simp_all
  from fill_s8 [OF this, of 0]
  show ?thesis using l(1) off assms(5) by (auto simp: read_C2_def Let_def)
qed

lemma seek_sector_found:
  assumes "the_disk (dd s) = Some disk" "disk_serves disk (ddr s DD_ASIC_CUR_TK) n"
    "sector_no s < 180" "unat (bm_write (dd s)) \<le> sector_no s mod 90" "sector_no s mod 90 - unat (bm_write (dd s)) < 85"
  defines "k \<equiv> sector_no s mod 90 - unat (bm_write (dd s))"
  shows "\<exists>base. seek_sector s = Some (base, if base = None then or_ddr DD_ASIC_BM_STATUS_CTL DD_BM_STATUS_MICRO s else s)
    \<and> get_sector_base disk (track_head (ddr s DD_ASIC_CUR_TK)) (track_number (ddr s DD_ASIC_CUR_TK))
        (word_of_nat (sector_no s div 90)) (word_of_nat k) = Some base
    \<and> (\<forall>x. base = Some x \<longrightarrow> x + n \<le> length (dk_data disk))"
proof -
  let ?m = "unat (bm_write (dd s))"
  have le: "?m \<le> sector_no s" using assms(4) by (meson le_trans mod_less_eq_dividend)
  have "sector_field s - ucast (bm_write (dd s)) = word_of_nat (sector_no s - ?m)"
    using le by (simp add: sector_no_def of_nat_diff)
  moreover have "unat (word_of_nat (sector_no s - ?m) :: u32) = sector_no s - ?m"
    using assms(3) by (intro unat_word_of_nat_lt) simp
  ultimately have u: "unat (sector_field s - ucast (bm_write (dd s))) = sector_no s - ?m" by simp
  have split: "(sector_no s - ?m) div 90 = sector_no s div 90" "(sector_no s - ?m) mod 90 = k"
  proof -
    have e: "sector_no s - ?m = 90 * (sector_no s div 90) + k"
      using mult_div_mod_eq [of 90 "sector_no s"] assms(4) unfolding k_def by linarith
    have "k < 90" using assms(5) by (simp add: k_def)
    then show "(sector_no s - ?m) div 90 = sector_no s div 90" "(sector_no s - ?m) mod 90 = k" unfolding e by simp_all
  qed
  have w: "(sector_field s - ucast (bm_write (dd s))) div 90 = word_of_nat (sector_no s div 90)"
    "(sector_field s - ucast (bm_write (dd s))) mod 90 = word_of_nat k"
  proof -
    have "unat (word_of_nat (sector_no s div 90) :: u32) = sector_no s div 90" "unat (word_of_nat k :: u32) = k"
      using assms(3,5) by (simp_all only: k_def) (intro unat_word_of_nat_lt; simp)+
    then show "(sector_field s - ucast (bm_write (dd s))) div 90 = word_of_nat (sector_no s div 90)"
      "(sector_field s - ucast (bm_write (dd s))) mod 90 = word_of_nat k"
      using u split by (simp_all only: word_unat_eq_iff unat_div unat_mod) simp_all
  qed
  have "sector_no s div 90 \<le> 1" using assms(3) by simp
  then obtain base where b: "get_sector_base disk (track_head (ddr s DD_ASIC_CUR_TK)) (track_number (ddr s DD_ASIC_CUR_TK))
        (word_of_nat (sector_no s div 90)) (word_of_nat k) = Some base" "\<forall>x. base = Some x \<longrightarrow> x + n \<le> length (dk_data disk)"
    using assms(2,5) unfolding disk_serves_def k_def by blast
  then show ?thesis using assms(1) w by (auto simp: seek_sector_def Let_def)
qed

lemma u32_bit_test: "(w AND 0x80000000 \<noteq> 0) = bit w 31" "(w AND 0x01000000 \<noteq> 0) = bit w 24" for w :: u32
  using and_exp_eq_0_iff_not_bit [of w 31] and_exp_eq_0_iff_not_bit [of w 24] by simp_all

lemma bm_flags: "bm_running s \<longleftrightarrow> bit (ddr s DD_ASIC_BM_STATUS_CTL) 31" "bm_block s \<longleftrightarrow> bit (ddr s DD_ASIC_BM_STATUS_CTL) 24"
  by (simp_all only: bm_running_def bm_block_def u32_bit_test)

lemma bm_flag_bits:
  "bit (w OR DD_BM_STATUS_MICRO) 31 = bit w 31" "bit (w OR DD_BM_STATUS_MICRO) 24 = bit w 24"
  "bit (w AND NOT DD_BM_STATUS_BLOCK) 31 = bit w 31" "\<not> bit (w AND NOT DD_BM_STATUS_BLOCK) 24"
  "\<not> bit (w AND NOT DD_BM_STATUS_RUNNING) 31" "bit (w AND NOT DD_BM_STATUS_RUNNING) 24 = bit w 24"
  for w :: u32
  by (auto simp: bit_simps bit_numeral_rec)

lemma bm_flag_bits_neg:
  "bit (w AND - 16777217) 31 = bit w 31" "\<not> bit (w AND - 16777217) 24" "\<not> bit (w AND - 2147483649) 31"
  for w :: u32
  using bm_flag_bits(3-5) [of w] by simp_all

text \<open>What a sector read leaves in the data buffer; a refused one leaves the buffer and sets the micro status.\<close>

lemma read_sector_total:
  assumes "bm_reading s" "sector_no s mod 90 < 85"
  shows "\<exists>base b m disk. read_sector s = Some (or_ddr DD_ASIC_BM_STATUS_CTL m (s\<lparr>dd := (dd s)\<lparr>ds_buf := b\<rparr>\<rparr>))
    \<and> the_disk (dd s) = Some disk
    \<and> get_sector_base disk (track_head (ddr s DD_ASIC_CUR_TK)) (track_number (ddr s DD_ASIC_CUR_TK))
        (word_of_nat (sector_no s div 90)) (word_of_nat (sector_no s mod 90)) = Some base
    \<and> length b = 0x100 \<and> m = (if base = None then DD_BM_STATUS_MICRO else 0)
    \<and> (case base of None \<Rightarrow> b = ds_buf (dd s)
       | Some x \<Rightarrow> \<forall>i \<le> unat (ddr s DD_ASIC_HOST_SECBYTE). b ! s8 i = dk_data disk ! (x + i))"
proof -
  define n where "n = unat (ddr s DD_ASIC_HOST_SECBYTE) + 1"
  obtain disk where d: "the_disk (dd s) = Some disk" "disk_serves disk (ddr s DD_ASIC_CUR_TK) n"
    using assms(1) by (auto simp: bm_reading_def n_def)
  have w0: "bm_write (dd s) = 0" and l: "length (ds_buf (dd s)) = 256" and n: "n \<le> 256" and k: "sector_no s < 180"
    using assms(1) by (auto simp: bm_reading_def n_def)
  obtain base where base: "seek_sector s = Some (base, if base = None then or_ddr DD_ASIC_BM_STATUS_CTL DD_BM_STATUS_MICRO s else s)"
    "get_sector_base disk (track_head (ddr s DD_ASIC_CUR_TK)) (track_number (ddr s DD_ASIC_CUR_TK))
        (word_of_nat (sector_no s div 90)) (word_of_nat (sector_no s mod 90)) = Some base"
    "\<And>x. base = Some x \<Longrightarrow> x + n \<le> length (dk_data disk)"
    using seek_sector_found [OF d k] w0 assms(2) by auto
  show ?thesis
  proof (cases base)
    case None
    then show ?thesis using base d l
      by (intro exI [of _ None] exI [of _ "ds_buf (dd s)"]) (simp add: read_sector_def)
  next
    case (Some x)
    have u: "unat (ddr s DD_ASIC_HOST_SECBYTE + 1) = n" using n by (simp add: unat_word_ariths n_def)
    obtain b where "for_range 0 n (\<lambda>i b. do { v \<leftarrow> rd (dk_data disk) (x + i); wr b (s8 i) v }) (ds_buf (dd s)) = Some b"
      "length b = 256" "\<forall>i<n. b ! s8 i = dk_data disk ! (x + i)"
      using read_into_buffer [OF n base(3) [OF Some] l] by blast
    moreover have "i < n" if "i \<le> unat (ddr s DD_ASIC_HOST_SECBYTE)" for i using that by (simp add: n_def)
    ultimately show ?thesis using base d Some u
      by (intro exI [of _ "Some x"] exI [of _ b] exI [of _ 0] exI [of _ disk])
        (auto simp: read_sector_def Let_def or_ddr_def set_ddr_def)
  qed
qed

text \<open>What a step of a read transfer leaves alone.\<close>

definition same_drive :: "'a dd_sys_scheme \<Rightarrow> 'a dd_sys_scheme \<Rightarrow> bool" where
  "same_drive s t \<longleftrightarrow> the_disk (dd t) = the_disk (dd s) \<and> bm_write (dd t) = bm_write (dd s) \<and> bm_zone (dd t) = bm_zone (dd s)
     \<and> timer_standby (dd t) = timer_standby (dd s) \<and> ddr t DD_ASIC_CUR_TK = ddr s DD_ASIC_CUR_TK
     \<and> ddr t DD_ASIC_HOST_SECBYTE = ddr s DD_ASIC_HOST_SECBYTE
     \<and> length (ds_buf (dd t)) = length (ds_buf (dd s)) \<and> length (c2s_buf (dd t)) = length (c2s_buf (dd s))"

lemma same_drive_trans: "same_drive s t \<Longrightarrow> same_drive t u \<Longrightarrow> same_drive s u"
  by (simp add: same_drive_def)

lemma bm_reading_same:
  "bm_reading s \<Longrightarrow> same_drive s t \<Longrightarrow> dd_queue_ok t \<Longrightarrow> sector_no t < 180 \<Longrightarrow> sector_no t mod 90 < 89 \<Longrightarrow> bm_reading t"
  by (simp add: bm_reading_def same_drive_def)

text \<open>The sector at which the transfer stands has been read into the data buffer of \<open>t\<close>, unless the disk refused it.\<close>

definition sector_arrived :: "'a dd_sys_scheme \<Rightarrow> 'a dd_sys_scheme \<Rightarrow> bool" where
  "sector_arrived s t \<longleftrightarrow> bit (ddr t DD_ASIC_CMD_STATUS) 30 \<and> (\<exists>disk base. the_disk (dd s) = Some disk
     \<and> get_sector_base disk (track_head (ddr s DD_ASIC_CUR_TK)) (track_number (ddr s DD_ASIC_CUR_TK))
         (word_of_nat (sector_no s div 90)) (word_of_nat (sector_no s mod 90)) = Some base
     \<and> (case base of None \<Rightarrow> ds_buf (dd t) = ds_buf (dd s) \<and> bit (ddr t DD_ASIC_BM_STATUS_CTL) 25
        | Some x \<Rightarrow> \<forall>i \<le> unat (ddr s DD_ASIC_HOST_SECBYTE). ds_buf (dd t) ! s8 i = dk_data disk ! (x + i)))"

lemma track6_served:
  assumes "bm_reading s" "the_disk (dd s) = Some disk"
  shows "\<not> (drop_bit 16 (ddr s DD_ASIC_CUR_TK) AND 0x1fff = 6 \<and> sector_field s div 90 = 0 \<and> development disk = 0)"
  using assms by (auto simp: bm_reading_def)

lemma sector_test:
  assumes "sector_no s < 180" "n < 90"
  shows "sector_field s mod 90 < word_of_nat n \<longleftrightarrow> sector_no s mod 90 < n" "sector_field s mod 90 = word_of_nat n \<longleftrightarrow> sector_no s mod 90 = n"
proof -
  have "unat (word_of_nat n :: u32) = n" using assms(2) by (simp add: unat_word_of_nat_lt)
  then show "sector_field s mod 90 < word_of_nat n \<longleftrightarrow> sector_no s mod 90 < n" "sector_field s mod 90 = word_of_nat n \<longleftrightarrow> sector_no s mod 90 = n"
    by (simp_all add: sector_no_def word_less_nat_alt word_unat_eq_iff unat_mod)
qed

lemmas sector_tests = sector_test [where n = 85, simplified] sector_test [where n = 88, simplified]
  sector_test [where n = 0, simplified] sector_test [where n = 86, simplified]

lemma bm_read_data:
  assumes "bm_reading s" "sector_no s mod 90 < 85"
  shows "\<exists>t. bm_read_step s = Some t \<and> r4300 t = r4300 s \<and> rdram t = rdram s \<and> same_drive s t \<and> sector_no t = Suc (sector_no s)
    \<and> bm_running t = bm_running s \<and> bm_block t = bm_block s \<and> sector_arrived s t"
proof -
  obtain base b m disk where r: "read_sector s = Some (or_ddr DD_ASIC_BM_STATUS_CTL m (s\<lparr>dd := (dd s)\<lparr>ds_buf := b\<rparr>\<rparr>))"
    "the_disk (dd s) = Some disk"
    "get_sector_base disk (track_head (ddr s DD_ASIC_CUR_TK)) (track_number (ddr s DD_ASIC_CUR_TK))
        (word_of_nat (sector_no s div 90)) (word_of_nat (sector_no s mod 90)) = Some base"
    "length b = 0x100" "m = (if base = None then DD_BM_STATUS_MICRO else 0)"
    "case base of None \<Rightarrow> b = ds_buf (dd s) | Some x \<Rightarrow> \<forall>i \<le> unat (ddr s DD_ASIC_HOST_SECBYTE). b ! s8 i = dk_data disk ! (x + i)"
    using read_sector_total [OF assms] by blast
  have k: "sector_no s < 180" and l: "length (ds_buf (dd s)) = 256" using assms(1) by (simp_all add: bm_reading_def)
  let ?t = "or_ddr DD_ASIC_CMD_STATUS DD_STATUS_DATA_RQ (next_sector (or_ddr DD_ASIC_BM_STATUS_CTL m (s\<lparr>dd := (dd s)\<lparr>ds_buf := b\<rparr>\<rparr>)))"
  have "bm_read_step s = Some ?t"
    using r(1,2) track6_served [OF assms(1) r(2)] assms(2) k by (auto simp: bm_read_step_def sector_tests Let_def)
  moreover have "sector_no ?t = Suc (sector_no s)"
    by (rule sector_no_step) (use k in simp_all)
  moreover have "sector_arrived s ?t"
    using r(2,3,5,6) by (cases base) (auto simp: sector_arrived_def bit_simps bit_numeral_rec)
  ultimately show ?thesis
    using r(2,4,5) l by (intro exI [of _ ?t]) (auto simp: same_drive_def bm_flags bm_flag_bits bm_flag_bits_neg)
qed

lemma bm_read_c2:
  assumes "bm_reading s" "\<not> sector_no s mod 90 < 85"
  shows "\<exists>t. bm_read_step s = Some t \<and> r4300 t = r4300 s \<and> rdram t = rdram s \<and> same_drive s t
    \<and> (if sector_no s mod 90 < 88 then sector_no t = Suc (sector_no s) \<and> bm_running t = bm_running s \<and> bm_block t = bm_block s
       else if bm_block s then sector_no t = (if sector_no s < 90 then 90 else 0) \<and> \<not> bm_block t \<and> bm_running t = bm_running s
       else \<not> bm_running t)"
proof -
  have k: "sector_no s < 180" "sector_no s mod 90 < 89" and l: "length (c2s_buf (dd s)) = 0x400" "unat (bm_zone (dd s)) < 16"
    using assms(1) by (simp_all add: bm_reading_def)
  obtain disk where d: "the_disk (dd s) = Some disk" using assms(1) by (auto simp: bm_reading_def)
  obtain b where b: "read_C2 s = Some (s\<lparr>dd := (dd s)\<lparr>c2s_buf := b\<rparr>\<rparr>)" "length b = 0x400"
    using read_C2_total [OF _ k(2,1) l(2,1)] assms(2) by auto
  let ?s = "s\<lparr>dd := (dd s)\<lparr>c2s_buf := b\<rparr>\<rparr>"
  note step = bm_read_step_def sector_tests Let_def
  consider "sector_no s mod 90 < 88" | "sector_no s mod 90 = 88" "bm_block s" | "sector_no s mod 90 = 88" "\<not> bm_block s"
    using k(2) by linarith
  then show ?thesis
  proof cases
    case 1
    then have "bm_read_step s = Some (next_sector ?s)"
      using d b(1) track6_served [OF assms(1) d] assms(2) k(1) by (auto simp: step)
    moreover have "sector_no (next_sector ?s) = Suc (sector_no s)" by (rule sector_no_step) (use k in simp_all)
    ultimately show ?thesis using 1 b(2) l by (simp add: same_drive_def bm_flags)
  next
    case 2
    let ?t = "clear_ddr DD_ASIC_BM_STATUS_CTL DD_BM_STATUS_BLOCK
      (set_ddr DD_ASIC_CUR_SECTOR (other_block (sector_field s div 90) 0) (or_ddr DD_ASIC_CMD_STATUS DD_STATUS_C2_XFER ?s))"
    have "bm_read_step s = Some ?t"
      using 2 d b(1) track6_served [OF assms(1) d] k(1) by (auto simp: step bm_block_def)
    moreover have "sector_no ?t = (if sector_no s < 90 then 90 else 0) + unat (0 :: u32)"
      by (rule sector_no_other_block) (use k in simp_all)
    ultimately show ?thesis using 2 b(2) l by (simp add: same_drive_def bm_flags bm_flag_bits bm_flag_bits_neg)
  next
    case 3
    then have "bm_read_step s = Some (clear_ddr DD_ASIC_BM_STATUS_CTL DD_BM_STATUS_RUNNING
        (or_ddr DD_ASIC_CMD_STATUS DD_STATUS_C2_XFER ?s))"
      using d b(1) track6_served [OF assms(1) d] k(1) by (auto simp: step bm_block_def)
    then show ?thesis using 3 b(2) l by (simp add: same_drive_def bm_flags bm_flag_bits bm_flag_bits_neg)
  qed
qed

lemma same_drive_status:
  "same_drive s t \<Longrightarrow> same_drive s ((or_ddr DD_ASIC_CMD_STATUS a (clear_ddr DD_ASIC_CMD_STATUS b t))\<lparr>r4300 := r\<rparr>)"
  "same_drive s (clear_ddr DD_ASIC_CMD_STATUS a s)"
  by (simp_all add: same_drive_def)

lemma bm_reading_status: "bm_reading s \<Longrightarrow> bm_reading (clear_ddr DD_ASIC_CMD_STATUS a s)"
  by (rule bm_reading_same [OF _ same_drive_status(2)])
    (simp_all add: bm_reading_def sector_no_cong [of "clear_ddr DD_ASIC_CMD_STATUS a s" s])

lemma sector_arrived_status:
  "sector_arrived (clear_ddr DD_ASIC_CMD_STATUS a s) t \<Longrightarrow>
     sector_arrived s ((or_ddr DD_ASIC_CMD_STATUS DD_STATUS_BM_INT
        (clear_ddr DD_ASIC_CMD_STATUS (DD_STATUS_MTR_N_SPIN OR DD_STATUS_HEAD_RTRCT) t))\<lparr>r4300 := r\<rparr>)"
proof -
  have b: "bit ((w AND NOT (DD_STATUS_MTR_N_SPIN OR DD_STATUS_HEAD_RTRCT)) OR DD_STATUS_BM_INT) 30 = bit w 30" for w :: u32
    by (auto simp: bit_simps bit_numeral_rec)
  have "sector_no (clear_ddr DD_ASIC_CMD_STATUS a s) = sector_no s" by (rule sector_no_cong) simp
  then show "sector_arrived (clear_ddr DD_ASIC_CMD_STATUS a s) t \<Longrightarrow> ?thesis"
    using b [of "ddr t DD_ASIC_CMD_STATUS"] by (simp add: sector_arrived_def cong: option.case_cong)
qed

text \<open>One interrupt of a running read transfer.\<close>

lemma bm_interrupt_progress:
  assumes "bm_reading s" "bm_running s"
  shows "\<exists>s'. dd_bm_int_handler s = Some s' \<and> transfer_left s' = transfer_left s - 1 \<and> same_drive s s'
    \<and> dd_queue_ok s' \<and> (bm_running s' \<longrightarrow> bm_reading s')
    \<and> bit (ddr s' DD_ASIC_CMD_STATUS) 26 \<and> bit (creg (r4300 s') CP0_CAUSE_REG) 11
    \<and> (sector_no s mod 90 < 85 \<longrightarrow> sector_arrived s s') \<and> rdram s' = rdram s \<and> emu_mode (r4300 s') = emu_mode (r4300 s)"
proof -
  let ?c = "clear_ddr DD_ASIC_CMD_STATUS (DD_STATUS_DATA_RQ OR DD_STATUS_C2_XFER) s"
  have c: "bm_reading ?c" by (rule bm_reading_status [OF assms(1)])
  have n: "sector_no ?c = sector_no s" by (rule sector_no_cong) simp
  have k: "sector_no s < 180" "sector_no s mod 90 < 89" "bm_write (dd s) = 0" using assms(1) by (simp_all add: bm_reading_def)
  have f: "bm_running ?c = bm_running s" "bm_block ?c = bm_block s" by (simp_all add: bm_running_def bm_block_def)
  obtain t where t: "bm_read_step ?c = Some t" "r4300 t = r4300 s" "same_drive ?c t"
    "if sector_no s mod 90 < 88 then sector_no t = Suc (sector_no s) \<and> bm_running t \<and> bm_block t = bm_block s
       else if bm_block s then sector_no t = (if sector_no s < 90 then 90 else 0) \<and> \<not> bm_block t \<and> bm_running t
       else \<not> bm_running t"
    "sector_no s mod 90 < 85 \<Longrightarrow> sector_arrived ?c t" "rdram t = rdram s"
  proof (cases "sector_no s mod 90 < 85")
    case True
    then show ?thesis using bm_read_data [OF c] that assms(2) n f by auto
  next
    case False
    then show ?thesis using bm_read_c2 [OF c] that assms(2) n f by (auto split: if_splits)
  qed
  have same: "same_drive s t" using same_drive_trans [OF same_drive_status(2) t(3)] .
  have q: "dd_queue_ok t" "timer_standby (dd t) < 46" using assms(1) t(2) same by (simp_all add: bm_reading_def same_drive_def)
  let ?u = "or_ddr DD_ASIC_CMD_STATUS DD_STATUS_BM_INT (clear_ddr DD_ASIC_CMD_STATUS (DD_STATUS_MTR_N_SPIN OR DD_STATUS_HEAD_RTRCT) t)"
  obtain r where r: "dd_update_bm s = Some (?u\<lparr>r4300 := r\<rparr>)" "wf_queue (cp0_q (cp0 r))" "bit (creg r CP0_CAUSE_REG) 11"
    "emu_mode r = emu_mode (r4300 s)"
    using dd_update_bm_via [OF assms(2) [unfolded bm_running_def] _ q] t(1,2) k(3) by auto
  define s' where "s' = ?u\<lparr>r4300 := r\<rparr>"
  have d: "ddr s' x = (if x = DD_ASIC_CMD_STATUS
      then (ddr t x AND NOT (DD_STATUS_MTR_N_SPIN OR DD_STATUS_HEAD_RTRCT)) OR DD_STATUS_BM_INT else ddr t x)" for x
    by (simp add: s'_def)
  have q': "r4300 s' = r" by (simp add: s'_def)
  have u: "sector_no s' = sector_no t" "bm_running s' = bm_running t" "bm_block s' = bm_block t"
    by (rule sector_no_cong) (simp_all add: d bm_running_def bm_block_def)
  have same': "same_drive s s'" unfolding s'_def by (rule same_drive_status(1) [OF same])
  have step: "sector_no t mod 90 = Suc (sector_no s mod 90)" "sector_no t < 180"
    if "sector_no t = Suc (sector_no s)" "sector_no s mod 90 < 88"
  proof -
    have "sector_no s \<noteq> 179" using that(2) by auto
    then show "sector_no t mod 90 = Suc (sector_no s mod 90)" "sector_no t < 180"
      using that k(1) by (simp_all add: mod_Suc)
  qed
  have cont: "sector_no t < 180 \<and> sector_no t mod 90 < 89" if "bm_running t"
    using t(4) that step by (auto split: if_splits)
  then have "bm_running s' \<longrightarrow> bm_reading s'"
    using bm_reading_same [OF assms(1) same'] r(2) q' by (simp add: u)
  moreover have "transfer_left s' = transfer_left s - 1"
    using t(4) assms(2) k(2) step unfolding transfer_left_def u by (auto split: if_splits)
  moreover have "bit (ddr s' DD_ASIC_CMD_STATUS) 26" unfolding d by (simp add: bit_simps bit_numeral_rec)
  moreover have "sector_no s mod 90 < 85 \<longrightarrow> sector_arrived s s'" using t(5) sector_arrived_status unfolding s'_def by blast
  moreover have "dd_bm_int_handler s = Some s'" using r(1) unfolding s'_def dd_bm_int_handler_def .
  moreover have "rdram s' = rdram s" by (simp add: s'_def t(6))
  ultimately show ?thesis using r(2-4) same' q' by (intro exI [of _ s']) simp
qed

end
