(* ===== verification/Disk_Claims.thy ===== *)
theory Disk_Claims
  imports Disk_Props
begin

text \<open>The properties of the disk: the numbering of blocks, the sectors of a full dump and the protected blocks.\<close>


text \<open>A disk whose system data lists no defects.\<close>

definition blank_disk :: dd_disk where
  "blank_disk = \<lparr>dk_data = replicate 232 0, dk_interface = g_istorage_disk_full, dk_save = [], dk_save_size = 0,
     lba_phys_table = replicate 0x10DC 0, dk_format = DISK_FORMAT_D64, development = 0, offset_sys = 0, offset_id = 0, offset_ram = 0\<rparr>"


text \<open>
  C38: For a full dump (the format \<^verbatim>\<open>MAME\<close>), \<^verbatim>\<open>get_sector_base\<close> never faults on a head, track, block and sector of a disk: it
  refuses, which it does only for the first sector of a block of the system area, or it gives a sector that lies within a dump of the size the format has, and the sectors of different coordinates
  do not overlap.
\<close>

theorem mame_sectors_disjoint:
  assumes "dk_format dk = DISK_FORMAT_MAME"
    and "h \<le> 1" "t < 1175" "b \<le> 1" "s < 85"
    and "h' \<le> 1" "t' < 1175" "b' \<le> 1" "s' < 85" and "(h, t, b, s) \<noteq> (h', t', b', s')"
  shows "\<exists>n n' x y. phys_sector_size dk (word_of_nat h) (word_of_nat t) = Some n
    \<and> phys_sector_size dk (word_of_nat h') (word_of_nat t') = Some n'
    \<and> (get_sector_base dk (word_of_nat h) (word_of_nat t) (word_of_nat b) (word_of_nat s) = Some (Some x)
        \<or> s = 0 \<and> t < 12 \<and> get_sector_base dk (word_of_nat h) (word_of_nat t) (word_of_nat b) (word_of_nat s) = Some None)
    \<and> (get_sector_base dk (word_of_nat h') (word_of_nat t') (word_of_nat b') (word_of_nat s') = Some (Some y)
        \<or> s' = 0 \<and> t' < 12 \<and> get_sector_base dk (word_of_nat h') (word_of_nat t') (word_of_nat b') (word_of_nat s') = Some None)
    \<and> 0 < unat n \<and> x + unat n \<le> MAME_FORMAT_DUMP_SIZE \<and> (x + unat n \<le> y \<or> y + unat n' \<le> x)"
proof -
  obtain n n' where n: "phys_sector_size dk (word_of_nat h) (word_of_nat t) = Some n" "0 < unat n" "unat n \<le> dump_sector_size (dump_zone h t)"
      "phys_sector_size dk (word_of_nat h') (word_of_nat t') = Some n'" "unat n' \<le> dump_sector_size (dump_zone h' t')"
    using phys_sector_size_spec [OF assms(2,3)] phys_sector_size_spec [OF assms(6,7)] by blast
  let ?x = "dump_sector (unat n) h t b s" and ?y = "dump_sector (unat n') h' t' b' s'"
  note i = dump_sector_in_block [OF assms(5) n(3), of b] and i' = dump_sector_in_block [OF assms(9) n(5), of b']
  have "?x + unat n \<le> MAME_FORMAT_DUMP_SIZE"
    using i(2) dump_block_in_zone [OF assms(2-4)] dump_zone_end_le [OF dump_zone_facts(1) [OF assms(2-4)]] by (meson order_trans)
  moreover have "?x + unat n \<le> ?y \<or> ?y + unat n' \<le> ?x"
  proof (cases "(h, t, b) = (h', t', b')")
    case True
    then have "Suc s \<le> s' \<or> Suc s' \<le> s" "n = n'" using assms(10) n by auto
    then have "Suc s * unat n \<le> s' * unat n \<or> Suc s' * unat n \<le> s * unat n" by (auto intro: mult_le_mono1 simp del: mult_Suc)
    then show ?thesis using True \<open>n = n'\<close> by (auto simp: dump_sector_def)
  next
    case False
    have z: "dump_sector (unat n) h t b 0 = dump_sector (unat n') h t b 0" by (simp add: dump_sector_def)
    show ?thesis
      using dump_blocks_apart [OF assms(2-4,6-8) False, of "unat n" "unat n'"] i i' by linarith
  qed
  ultimately show ?thesis
    using n mame_sector_position [OF assms(1-5) n(1)] mame_sector_position [OF assms(1,6-9) n(4)]
    by (intro exI [of _ n] exI [of _ n'] exI [of _ ?x] exI [of _ ?y]) (simp split: if_splits)
qed

theorem mame_sectors_disjoint_witness:
  "\<exists>x y. get_sector_base (blank_disk\<lparr>dk_format := 0\<rparr>) 1 1000 0 3 = Some (Some x)
    \<and> get_sector_base (blank_disk\<lparr>dk_format := 0\<rparr>) 1 1000 1 3 = Some (Some y) \<and> x \<noteq> y \<and> x < MAME_FORMAT_DUMP_SIZE"
  using mame_sectors_disjoint [of "blank_disk\<lparr>dk_format := 0\<rparr>" 1 1000 0 3 1 1000 1 3] by force

text \<open>
  A system block \<open>k\<close> other than the first is never refused, wherever the system data is: \<^verbatim>\<open>offset / BLOCKSIZE(0)\<close> divides
  by the size of a sector and multiplies by the number of sectors, because the macro has no parentheses.
\<close>

theorem system_blocks_not_protected:
  assumes "0 < k" "k < 16"
  shows "\<not> protected_block dk (word_of_nat (232 * 85 * k))"
proof -
  have "k = 1 \<or> k = 2 \<or> k = 3 \<or> k = 4 \<or> k = 5 \<or> k = 6 \<or> k = 7 \<or> k = 8 \<or> k = 9 \<or> k = 10 \<or> k = 11 \<or> k = 12
    \<or> k = 13 \<or> k = 14 \<or> k = 15" using assms by presburger
  then show ?thesis
    by (elim disjE) (simp_all add: protected_block_def div_BLOCKSIZE_0_def Let_def)
qed

end
