(* ===== verification/Dd_Claims.thy ===== *)
theory Dd_Claims
  imports Dd_Props Console Disk_Claims
begin

text \<open>The properties of the disk drive: a block is read in a fixed number of interrupts, and a sector written is the sector read.\<close>

section \<open>Reading a block\<close>

text \<open>
  The processor between two interrupts of the drive: an operation that always succeeds, keeps the event queue well
  formed and leaves the state of the transfer alone.
\<close>

definition keeps_transfer :: "('a dd_sys_scheme \<Rightarrow> 'a dd_sys_scheme option) \<Rightarrow> bool" where
  "keeps_transfer f \<longleftrightarrow> (\<forall>s. dd_queue_ok s \<longrightarrow> (\<exists>s'. f s = Some s' \<and> dd_queue_ok s' \<and> same_drive s s'
     \<and> ddr s' DD_ASIC_CUR_SECTOR = ddr s DD_ASIC_CUR_SECTOR \<and> ddr s' DD_ASIC_BM_STATUS_CTL = ddr s DD_ASIC_BM_STATUS_CTL))"

text \<open>The interrupts of the drive, each followed by what the processor does.\<close>

primrec dd_run :: "('a dd_sys_scheme \<Rightarrow> 'a dd_sys_scheme option) list \<Rightarrow> 'a dd_sys_scheme \<Rightarrow> 'a dd_sys_scheme option" where
  "dd_run [] s = Some s"
| "dd_run (f # fs) s = do { s \<leftarrow> dd_bm_int_handler s; s \<leftarrow> f s; dd_run fs s }"

text \<open>Reading the status register, which acknowledges the interrupt and asks for the next, is such an operation.\<close>

lemma status_read_keeps_transfer: "keeps_transfer (\<lambda>s. map_option snd (read_dd_regs (MM_DD_REGS + 8) s))"
proof -
  have x: "dd_reg (MM_DD_REGS + 8) = Some DD_ASIC_CMD_STATUS" "dd_reg_range (MM_DD_REGS + 8)"
    by (simp_all add: dd_reg_def dd_register_list_def dd_reg_range_def)
  have "\<exists>s'. map_option snd (read_dd_regs (MM_DD_REGS + 8) s) = Some s' \<and> dd_queue_ok s' \<and> same_drive s s'
     \<and> ddr s' DD_ASIC_CUR_SECTOR = ddr s DD_ASIC_CUR_SECTOR \<and> ddr s' DD_ASIC_BM_STATUS_CTL = ddr s DD_ASIC_BM_STATUS_CTL"
    if q: "dd_queue_ok s" for s :: "'a dd_sys_scheme"
  proof -
    define t where "t = (if the_disk (dd s) \<noteq> None then or_ddr DD_ASIC_CMD_STATUS DD_STATUS_DISK_PRES s
      else clear_ddr DD_ASIC_CMD_STATUS DD_STATUS_DISK_PRES s)"
    have t: "same_drive s t" "ddr t DD_ASIC_CUR_SECTOR = ddr s DD_ASIC_CUR_SECTOR"
      "ddr t DD_ASIC_BM_STATUS_CTL = ddr s DD_ASIC_BM_STATUS_CTL" "dd_queue_ok t"
      using q by (simp_all add: t_def same_drive_def)
    have body: "read_dd_regs (MM_DD_REGS + 8) s =
       (if ddr t DD_ASIC_CMD_STATUS AND DD_STATUS_BM_INT \<noteq> 0 then do {
          u \<leftarrow> clear_dd_interrupt DD_STATUS_BM_INT t;
          u \<leftarrow> dd_add_event DD_BM_INT (8020 + track_number (ddr u DD_ASIC_CUR_TK) div 56) u;
          Some (ddr t DD_ASIC_CMD_STATUS, u) }
        else Some (ddr t DD_ASIC_CMD_STATUS, t))"
      unfolding read_dd_regs_def t_def using x by (simp add: Let_def)
    show ?thesis
    proof (cases "ddr t DD_ASIC_CMD_STATUS AND DD_STATUS_BM_INT = 0")
      case True
      then show ?thesis using t unfolding body by (intro exI [of _ t]) simp
    next
      case False
      let ?c = "clear_ddr DD_ASIC_CMD_STATUS DD_STATUS_BM_INT t"
      obtain r where r: "clear_dd_interrupt DD_STATUS_BM_INT t = Some (?c\<lparr>r4300 := r\<rparr>)" "wf_queue (cp0_q (cp0 r))"
        using dd_check_interrupt_total [of ?c CP0_CAUSE_IP3 0] t(4) by (auto simp: clear_dd_interrupt_def)
      have "dd_queue_ok (?c\<lparr>r4300 := r\<rparr>)" using r(2) by simp
      from dd_add_event_total [OF this, of DD_BM_INT "8020 + track_number (ddr t DD_ASIC_CUR_TK) div 56"]
      obtain r' where "dd_add_event DD_BM_INT (8020 + track_number (ddr t DD_ASIC_CUR_TK) div 56) (?c\<lparr>r4300 := r\<rparr>)
          = Some (?c\<lparr>r4300 := r'\<rparr>)" "wf_queue (cp0_q (cp0 r'))" by auto
      then show ?thesis
        using t False r unfolding body by (intro exI [of _ "?c\<lparr>r4300 := r'\<rparr>"]) (simp add: same_drive_def)
    qed
  qed
  then show ?thesis by (simp add: keeps_transfer_def)
qed

lemma keeps_transfer_step:
  assumes "keeps_transfer f" "dd_queue_ok s"
  shows "\<exists>s'. f s = Some s' \<and> dd_queue_ok s' \<and> same_drive s s' \<and> transfer_left s' = transfer_left s
    \<and> bm_running s' = bm_running s \<and> (bm_reading s \<longrightarrow> bm_reading s')"
proof -
  obtain s' where s': "f s = Some s'" "dd_queue_ok s'" "same_drive s s'"
    "ddr s' DD_ASIC_CUR_SECTOR = ddr s DD_ASIC_CUR_SECTOR" "ddr s' DD_ASIC_BM_STATUS_CTL = ddr s DD_ASIC_BM_STATUS_CTL"
    using assms unfolding keeps_transfer_def by blast
  have n: "sector_no s' = sector_no s" by (rule sector_no_cong [OF s'(4)])
  have "bm_reading s \<longrightarrow> bm_reading s'"
    using bm_reading_same [OF _ s'(3,2)] by (auto simp: n bm_reading_def)
  then show ?thesis
    using s' n by (intro exI [of _ s']) (simp add: transfer_left_def bm_running_def bm_block_def)
qed

text \<open>
  C28: A read of a block, or of both blocks of a track, that is running and started on a track the disk serves takes exactly
  as many interrupts as it has sectors left, whatever the processor does in between that leaves the drive alone: after that
  many the buffer manager has stopped and not before; no interrupt faults, each raises the line of the drive, and each
  interrupt at a data sector leaves the bytes of that sector of the disk in the data buffer, or the error status when the disk
  refuses the sector.
\<close>

theorem block_read_completes:
  assumes "bm_reading s" "bm_running s" "\<And>f. f \<in> set fs \<Longrightarrow> keeps_transfer f" "length fs < transfer_left s"
  shows "\<exists>t t'. dd_run fs s = Some t \<and> dd_bm_int_handler t = Some t'
    \<and> bm_running t \<and> transfer_left t = transfer_left s - length fs \<and> transfer_left t' = transfer_left t - 1
    \<and> (bm_running t' \<longleftrightarrow> Suc (length fs) < transfer_left s)
    \<and> bit (ddr t' DD_ASIC_CMD_STATUS) 26 \<and> bit (creg (r4300 t') CP0_CAUSE_REG) 11
    \<and> the_disk (dd t') = the_disk (dd s) \<and> (sector_no t mod 90 < 85 \<longrightarrow> sector_arrived t t')"
  using assms
proof (induction fs arbitrary: s)
  case Nil
  obtain s' where s': "dd_bm_int_handler s = Some s'" "transfer_left s' = transfer_left s - 1" "same_drive s s'"
    "bm_running s' \<longrightarrow> bm_reading s'" "bit (ddr s' DD_ASIC_CMD_STATUS) 26" "bit (creg (r4300 s') CP0_CAUSE_REG) 11"
    "sector_no s mod 90 < 85 \<longrightarrow> sector_arrived s s'"
    using bm_interrupt_progress [OF Nil(1,2)] by blast
  have "bm_running u \<longleftrightarrow> 0 < transfer_left u" if "bm_running u \<longrightarrow> bm_reading u" for u :: "'a dd_sys_scheme"
    using that by (auto simp: transfer_left_def bm_reading_def)
  from this [of s'] s' Nil(1,2) show ?case
    by (intro exI [of _ s] exI [of _ s']) (auto simp: same_drive_def)
next
  case (Cons f fs)
  obtain u where u: "dd_bm_int_handler s = Some u" "transfer_left u = transfer_left s - 1" "same_drive s u"
    "dd_queue_ok u" "bm_running u \<longrightarrow> bm_reading u"
    using bm_interrupt_progress [OF Cons(2,3)] by blast
  have ru: "bm_running u"
  proof (rule ccontr)
    assume "\<not> bm_running u"
    then have "transfer_left u = 0" by (simp add: transfer_left_def)
    then show False using u(2) Cons(5) by simp
  qed
  obtain v where v: "f u = Some v" "same_drive u v" "transfer_left v = transfer_left u" "bm_running v" "bm_reading v"
    using keeps_transfer_step [OF _ u(4), of f] Cons(4) u(5) ru by auto
  have "length fs < transfer_left v" using v(3) u(2) Cons(5) by simp
  from Cons.IH [OF v(5,4) _ this] Cons(4) obtain t t' where t: "dd_run fs v = Some t" "dd_bm_int_handler t = Some t'"
    "bm_running t" "transfer_left t = transfer_left v - length fs" "transfer_left t' = transfer_left t - 1"
    "bm_running t' \<longleftrightarrow> Suc (length fs) < transfer_left v"
    "bit (ddr t' DD_ASIC_CMD_STATUS) 26" "bit (creg (r4300 t') CP0_CAUSE_REG) 11"
    "the_disk (dd t') = the_disk (dd v)" "sector_no t mod 90 < 85 \<longrightarrow> sector_arrived t t'" by auto
  have "the_disk (dd v) = the_disk (dd s)" using u(3) v(2) by (simp add: same_drive_def)
  moreover have "Suc (length fs) < transfer_left v \<longleftrightarrow> Suc (length (f # fs)) < transfer_left s" using v(3) u(2) by auto
  moreover have "transfer_left t = transfer_left s - length (f # fs)" using t(4) v(3) u(2) by simp
  ultimately show ?case using t u(1) v(1) by (intro exI [of _ t] exI [of _ t']) simp
qed

text \<open>The machine of the examples with a drive that holds a full dump and stands at track 100, ready to read both blocks.\<close>

definition full_disk :: dd_disk where
  "full_disk = blank_disk\<lparr>dk_data := replicate MAME_FORMAT_DUMP_SIZE 7, dk_format := DISK_FORMAT_MAME\<rparr>"

definition track100 :: dd_controller where
  "track100 = \<lparr>dd_regs = (\<lambda>_. 0)(DD_ASIC_CUR_TK := 0x60640000, DD_ASIC_BM_STATUS_CTL := 0x81000000, DD_ASIC_HOST_SECBYTE := 231),
     c2s_buf = replicate 0x400 0, ds_buf = replicate 0x100 0, ms_ram = replicate 0x40 0, disk_type = 0,
     timer_standby = 3, timer_sleep = 1, bm_write = 0, bm_reset_held = 0, bm_zone = 0,
     dd_clock = \<lparr>dd_now = 0, dd_last_update_rtc = 0\<rparr>, dd_rom = [], the_disk = Some full_disk\<rparr>"

definition dd_console :: "dd_controller \<Rightarrow> dd_sys" where
  "dd_console c = device.extend console \<lparr>dd = c\<rparr>"

lemma dd_console_simps [simp]: "r4300 (dd_console c) = r4300 console" "dd (dd_console c) = c" "rdram (dd_console c) = rdram console"
  by (simp_all add: dd_console_def device.extend_def)

lemma zone_of_track_100: "zone_search 7 100 = 0"
  using zone_search_spec [of 100]
  by (auto simp: zone_first_track_def OUTERCYL_TBL_def nth_Cons' split: if_splits)

lemma full_disk_serves: "disk_serves full_disk 0x60640000 232"
proof (rule mame_serves)
  have "track_head 0x60640000 = 0" "track_number 0x60640000 = 100" by (simp_all add: track_head_def track_number_def)
  then show "phys_sector_size full_disk (track_head 0x60640000) (track_number 0x60640000) = Some 232"
    by (simp add: phys_sector_size_def full_disk_def blank_disk_def get_zone_from_head_track_def zone_of_track_100 zone_sec_size_phys_def)
qed (simp_all add: full_disk_def track_number_def)

lemma track100_reading: "bm_reading (dd_console track100)" "bm_running (dd_console track100)" "transfer_left (dd_console track100) = 178"
proof -
  have q: "wf_queue (cp0_q (cp0 (r4300 console)))" using console_facts(1) by (simp add: queue_room_def)
  have n: "sector_no (dd_console track100) = 0" by (simp add: sector_no_div track100_def)
  show "bm_reading (dd_console track100)"
    using full_disk_serves q by (simp add: bm_reading_def n) (simp add: track100_def)
  show "bm_running (dd_console track100)" by (simp add: bm_running_def track100_def)
  then show "transfer_left (dd_console track100) = 178"
    by (simp add: transfer_left_def n) (simp add: bm_block_def track100_def)
qed

theorem block_read_completes_witness:
  "\<exists>t t'. dd_run [\<lambda>s. map_option snd (read_dd_regs (MM_DD_REGS + 8) s)] (dd_console track100) = Some t
    \<and> dd_bm_int_handler t = Some t' \<and> bm_running t' \<and> transfer_left t' = 176"
proof -
  let ?f = "\<lambda>s :: dd_sys. map_option snd (read_dd_regs (MM_DD_REGS + 8) s)"
  obtain t t' where "dd_run [?f] (dd_console track100) = Some t" "dd_bm_int_handler t = Some t'" "bm_running t'"
    "transfer_left t = 177" "transfer_left t' = transfer_left t - 1"
    using block_read_completes [OF track100_reading(1,2), of "[?f]"] status_read_keeps_transfer [where ?'a = unit] track100_reading(3)
    by (auto simp del: dd_run.simps)
  then show ?thesis by (intro exI [of _ t] exI [of _ t']) simp
qed

section \<open>Writing a sector\<close>

lemma save_frame [simp]:
  "dk_data (storage_disk_save a n disk) = dk_data disk"
  by (simp add: storage_disk_save_def split: disk_interface.split)

lemma save_only:
  "storage_disk_save a n (disk\<lparr>dk_data := d\<rparr>)
    = disk\<lparr>dk_data := dk_data (storage_disk_save a n (disk\<lparr>dk_data := d\<rparr>)),
        dk_save := dk_save (storage_disk_save a n (disk\<lparr>dk_data := d\<rparr>))\<rparr>"
  by (simp add: storage_disk_save_def split: disk_interface.split)

text \<open>In a full dump the place of a sector does not depend on its contents.\<close>

lemma mame_base_after_write:
  assumes "dk_format disk = DISK_FORMAT_MAME"
  shows "get_sector_base (storage_disk_save a n (disk\<lparr>dk_data := d\<rparr>)) h t b k = get_sector_base disk h t b k"
  using assms
  by (simp add: get_sector_base_def get_sector_base_mame_def phys_sector_size_def protected_block_def storage_disk_save_def
      split: disk_interface.split)

text \<open>
  The state of a write: it runs, on a track that is not protected, at the sector after the one to be written.
\<close>

definition bm_writing :: "'a dd_sys_scheme \<Rightarrow> nat \<Rightarrow> nat \<Rightarrow> bool" where
  "bm_writing s b k \<longleftrightarrow> bm_running s \<and> bm_write (dd s) = 1 \<and> ddr s DD_ASIC_CMD_STATUS AND DD_STATUS_WR_PR_ERR = 0
     \<and> b \<le> 1 \<and> k < 85 \<and> sector_no s = 90 * b + Suc k \<and> length (ds_buf (dd s)) = 0x100
     \<and> unat (ddr s DD_ASIC_HOST_SECBYTE) < 256 \<and> timer_standby (dd s) < 46 \<and> dd_queue_ok s
     \<and> (\<exists>disk. the_disk (dd s) = Some disk
          \<and> disk_serves disk (ddr s DD_ASIC_CUR_TK) (unat (ddr s DD_ASIC_HOST_SECBYTE) + 1))"

definition sector_at :: "'a dd_sys_scheme \<Rightarrow> nat \<Rightarrow> nat \<Rightarrow> nat \<Rightarrow> bool" where
  "sector_at s b k x \<longleftrightarrow> (\<exists>disk. the_disk (dd s) = Some disk
     \<and> get_sector_base disk (track_head (ddr s DD_ASIC_CUR_TK)) (track_number (ddr s DD_ASIC_CUR_TK)) (word_of_nat b) (word_of_nat k)
       = Some (Some x))"

lemma write_sector_at:
  assumes "bm_writing s b k" "sector_at s b k x" "the_disk (dd s) = Some disk"
  shows "\<exists>d. write_sector s = Some (s\<lparr>dd := (dd s)\<lparr>the_disk := Some (storage_disk_save x (unat (ddr s DD_ASIC_HOST_SECBYTE) + 1) (disk\<lparr>dk_data := d\<rparr>))\<rparr>\<rparr>)
    \<and> length d = length (dk_data disk)
    \<and> (\<forall>i \<le> unat (ddr s DD_ASIC_HOST_SECBYTE). d ! (x + i) = ds_buf (dd s) ! s8 i)
    \<and> (\<forall>y. y < x \<or> x + unat (ddr s DD_ASIC_HOST_SECBYTE) < y \<longrightarrow> d ! y = dk_data disk ! y)"
proof -
  define n where "n = unat (ddr s DD_ASIC_HOST_SECBYTE) + 1"
  have w: "sector_no s = 90 * b + Suc k" "b \<le> 1" "k < 85" "bm_write (dd s) = 1" "length (ds_buf (dd s)) = 256" "n \<le> 256"
    "disk_serves disk (ddr s DD_ASIC_CUR_TK) n"
    using assms(1,3) by (auto simp: bm_writing_def n_def)
  have m: "sector_no s mod 90 = Suc k" "sector_no s div 90 = b" "sector_no s < 180" using w(1-3) by simp_all
  obtain base where base: "seek_sector s = Some (base, if base = None then or_ddr DD_ASIC_BM_STATUS_CTL DD_BM_STATUS_MICRO s else s)"
    "get_sector_base disk (track_head (ddr s DD_ASIC_CUR_TK)) (track_number (ddr s DD_ASIC_CUR_TK)) (word_of_nat b) (word_of_nat k) = Some base"
    "\<And>x. base = Some x \<Longrightarrow> x + n \<le> length (dk_data disk)"
    using seek_sector_found [OF assms(3) w(7) m(3)] w(3,4) m by auto
  then have bx: "base = Some x" using assms(2,3) by (auto simp: sector_at_def)
  have u: "unat (ddr s DD_ASIC_HOST_SECBYTE + 1) = n" using w(6) by (simp add: unat_word_ariths n_def)
  obtain d where d: "for_range 0 n (\<lambda>i d. do { v \<leftarrow> rd (ds_buf (dd s)) (s8 i); wr d (x + i) v }) (dk_data disk) = Some d"
    "length d = length (dk_data disk)" "\<forall>i<n. d ! (x + i) = ds_buf (dd s) ! s8 i" "\<forall>y. y < x \<or> x + n \<le> y \<longrightarrow> d ! y = dk_data disk ! y"
    using write_from_buffer [OF w(6) base(3) [OF bx] w(5)] by blast
  have "write_sector s = Some (s\<lparr>dd := (dd s)\<lparr>the_disk := Some (storage_disk_save x n (disk\<lparr>dk_data := d\<rparr>))\<rparr>\<rparr>)"
    using base(1) bx assms(3) u d(1) by (simp add: write_sector_def Let_def)
  moreover have "\<forall>i \<le> unat (ddr s DD_ASIC_HOST_SECBYTE). d ! (x + i) = ds_buf (dd s) ! s8 i" using d(3) by (simp add: n_def)
  moreover have "\<forall>y. y < x \<or> x + unat (ddr s DD_ASIC_HOST_SECBYTE) < y \<longrightarrow> d ! y = dk_data disk ! y" using d(4) by (simp add: n_def)
  ultimately show ?thesis using d(2) unfolding n_def by blast
qed

lemma bm_write_interrupt:
  assumes "bm_writing s b k" "sector_at s b k x" "the_disk (dd s) = Some disk"
  shows "\<exists>s' d. dd_bm_int_handler s = Some s'
    \<and> the_disk (dd s') = Some (storage_disk_save x (unat (ddr s DD_ASIC_HOST_SECBYTE) + 1) (disk\<lparr>dk_data := d\<rparr>))
    \<and> length d = length (dk_data disk)
    \<and> (\<forall>i \<le> unat (ddr s DD_ASIC_HOST_SECBYTE). d ! (x + i) = ds_buf (dd s) ! s8 i)
    \<and> (\<forall>y. y < x \<or> x + unat (ddr s DD_ASIC_HOST_SECBYTE) < y \<longrightarrow> d ! y = dk_data disk ! y)
    \<and> bit (ddr s' DD_ASIC_CMD_STATUS) 26"
proof -
  let ?c = "clear_ddr DD_ASIC_CMD_STATUS (DD_STATUS_DATA_RQ OR DD_STATUS_C2_XFER) s"
  have n: "sector_no ?c = sector_no s" by (rule sector_no_cong) simp
  have p: "ddr ?c DD_ASIC_CMD_STATUS AND DD_STATUS_WR_PR_ERR = 0"
  proof -
    have "ddr ?c DD_ASIC_CMD_STATUS AND DD_STATUS_WR_PR_ERR = (ddr s DD_ASIC_CMD_STATUS AND DD_STATUS_WR_PR_ERR) AND NOT (DD_STATUS_DATA_RQ OR DD_STATUS_C2_XFER)"
      unfolding clear_ddr_frame by (simp only: if_True refl and.assoc and.commute and.left_commute)
    then show ?thesis using assms(1) by (simp add: bm_writing_def)
  qed
  have wc: "bm_writing ?c b k" using assms(1) p n by (auto simp: bm_writing_def bm_running_def)
  have sc: "sector_at ?c b k x" "the_disk (dd ?c) = Some disk" using assms(2,3) by (simp_all add: sector_at_def)
  let ?h = "unat (ddr s DD_ASIC_HOST_SECBYTE)"
  obtain d where d: "write_sector ?c = Some (?c\<lparr>dd := (dd ?c)\<lparr>the_disk := Some (storage_disk_save x (?h + 1) (disk\<lparr>dk_data := d\<rparr>))\<rparr>\<rparr>)"
    "length d = length (dk_data disk)" "\<forall>i \<le> ?h. d ! (x + i) = ds_buf (dd s) ! s8 i" "\<forall>y. y < x \<or> x + ?h < y \<longrightarrow> d ! y = dk_data disk ! y"
    using write_sector_at [OF wc sc] by auto
  let ?w = "?c\<lparr>dd := (dd ?c)\<lparr>the_disk := Some (storage_disk_save x (?h + 1) (disk\<lparr>dk_data := d\<rparr>))\<rparr>\<rparr>"
  have k: "sector_no ?c < 180" "sector_no ?c mod 90 = Suc k" "k < 85" using wc by (auto simp: bm_writing_def)
  obtain t where t: "bm_write_step ?c = Some t" "the_disk (dd t) = Some (storage_disk_save x (?h + 1) (disk\<lparr>dk_data := d\<rparr>))"
    "r4300 t = r4300 s" "timer_standby (dd t) = timer_standby (dd s)"
  proof -
    consider "Suc k < 85" | "Suc k = 85" "bm_block ?w" | "Suc k = 85" "\<not> bm_block ?w" using k(3) by linarith
    then have "\<exists>t. bm_write_step ?c = Some t \<and> the_disk (dd t) = the_disk (dd ?w) \<and> r4300 t = r4300 ?w \<and> timer_standby (dd t) = timer_standby (dd ?w)"
    proof cases
      case 1
      then show ?thesis using p k d(1) by (simp add: bm_write_step_def sector_tests Let_def)
    next
      case 2
      then show ?thesis using p k d(1) by (simp add: bm_write_step_def sector_tests Let_def bm_block_def)
    next
      case 3
      then show ?thesis using p k d(1) by (simp add: bm_write_step_def sector_tests Let_def bm_block_def)
    qed
    then show ?thesis using that by auto
  qed
  have q: "dd_queue_ok t" "timer_standby (dd t) < 46" "ddr s DD_ASIC_BM_STATUS_CTL AND DD_BM_STATUS_RUNNING \<noteq> 0" "bm_write (dd s) = 1"
    using assms(1) t(3,4) by (simp_all add: bm_writing_def bm_running_def)
  obtain r where r: "dd_update_bm s = Some ((or_ddr DD_ASIC_CMD_STATUS DD_STATUS_BM_INT
        (clear_ddr DD_ASIC_CMD_STATUS (DD_STATUS_MTR_N_SPIN OR DD_STATUS_HEAD_RTRCT) t))\<lparr>r4300 := r\<rparr>)"
    using dd_update_bm_via [OF q(3) _ q(1,2)] t(1) q(4) by auto
  then show ?thesis
    using d(2-4) t(2) by (intro exI [of _ "(or_ddr DD_ASIC_CMD_STATUS DD_STATUS_BM_INT
        (clear_ddr DD_ASIC_CMD_STATUS (DD_STATUS_MTR_N_SPIN OR DD_STATUS_HEAD_RTRCT) t))\<lparr>r4300 := r\<rparr>"] exI [of _ d])
      (simp add: dd_bm_int_handler_def bit_simps bit_numeral_rec)
qed

text \<open>
  C27: A sector written to a full dump is the sector read. The processor moves \<open>n\<close> bytes, the size of a sector, from RDRAM to the data
  buffer by DMA, and the interrupt of the buffer manager stores them at the place of sector \<open>k\<close> of block \<open>b\<close> and changes no other byte
  of the disk; whenever a transfer later reads that sector from that disk, the bytes arrive in RDRAM, where
  a DMA from the data buffer puts them, unchanged and in order.
\<close>

theorem disk_sector_roundtrip:
  fixes s :: "'a dd_sys_scheme"
  defines "n \<equiv> unat (ddr s DD_ASIC_HOST_SECBYTE) + 1"
  assumes w: "bm_writing s b k" "sector_at s b k x" "the_disk (dd s) = Some disk" "dk_format disk = DISK_FORMAT_MAME"
    and "4 dvd length (dram (rdram s))" "unat a + n \<le> length (dram (rdram s))"
  shows "\<exists>cycles s1 s2 disk'. dd_dma_read a MM_DD_DS_BUFFER (word_of_nat n) s = Some (cycles, s1) \<and> dd_bm_int_handler s1 = Some s2
    \<and> the_disk (dd s2) = Some disk' \<and> length (dk_data disk') = length (dk_data disk)
    \<and> disk' = disk\<lparr>dk_data := dk_data disk', dk_save := dk_save disk'\<rparr>
    \<and> (\<forall>y. y < x \<or> x + n \<le> y \<longrightarrow> dk_data disk' ! y = dk_data disk ! y)
    \<and> (\<forall>(u :: 'a dd_sys_scheme) c. bm_reading u \<and> bm_running u \<and> the_disk (dd u) = Some disk' \<and> sector_no u = 90 * b + k
         \<and> ddr u DD_ASIC_CUR_TK = ddr s DD_ASIC_CUR_TK \<and> ddr u DD_ASIC_HOST_SECBYTE = ddr s DD_ASIC_HOST_SECBYTE
         \<and> emu_mode (r4300 u) = EMUMODE_PURE_INTERPRETER \<and> 4 dvd length (dram (rdram u)) \<and> unat c + n \<le> length (dram (rdram u))
       \<longrightarrow> (\<exists>u1 cycles v. dd_bm_int_handler u = Some u1 \<and> dd_dma_write c MM_DD_DS_BUFFER (word_of_nat n) u1 = Some (cycles, v)
          \<and> (\<forall>i<n. dram (rdram v) ! s8 (unat c + i) = dram (rdram s) ! s8 (unat a + i))))"
proof -
  have n: "n \<le> 256" and l: "length (ds_buf (dd s)) = 256" and bk: "b \<le> 1" "k < 85"
    using w(1) by (auto simp: bm_writing_def n_def)
  then have un: "unat (word_of_nat n :: u32) = n" by (intro unat_word_of_nat_lt) simp
  obtain m where m: "copy_s8 (ds_buf (dd s)) 0 (dram (rdram s)) (unat a) n = Some m" "length m = 256"
      "\<And>i. i < n \<Longrightarrow> m ! s8 i = dram (rdram s) ! s8 (unat a + i)"
    using copy_s8_Some [of "ds_buf (dd s)" "dram (rdram s)" 0 n "unat a"] assms(6,7) n l by auto
  define s1 where "s1 = s\<lparr>dd := (dd s)\<lparr>ds_buf := m\<rparr>\<rparr>"
  have s1: "dd_dma_read a MM_DD_DS_BUFFER (word_of_nat n) s = Some (dd_dma_cycles (word_of_nat n), s1)"
    using m(1) by (simp add: dd_dma_read_def un s1_def)
  have r1: "ddr s1 = ddr s" "the_disk (dd s1) = Some disk" "ds_buf (dd s1) = m" using w(3) by (simp_all add: s1_def)
  have "sector_no s1 = sector_no s" by (rule sector_no_cong) (simp add: r1)
  then have w1: "bm_writing s1 b k" "sector_at s1 b k x"
    using w(1,2) m(2) by (auto simp: bm_writing_def bm_running_def sector_at_def s1_def)
  obtain s2 d where s2: "dd_bm_int_handler s1 = Some s2" "the_disk (dd s2) = Some (storage_disk_save x n (disk\<lparr>dk_data := d\<rparr>))"
      "length d = length (dk_data disk)" "\<And>i. i < n \<Longrightarrow> d ! (x + i) = m ! s8 i" "\<And>y. y < x \<or> x + n \<le> y \<Longrightarrow> d ! y = dk_data disk ! y"
    using bm_write_interrupt [OF w1 r1(2)] unfolding r1(1,3) n_def by (auto simp: less_Suc_eq_le Suc_le_eq)
  let ?disk = "storage_disk_save x n (disk\<lparr>dk_data := d\<rparr>)"
  have later: "\<exists>u1 cycles v. dd_bm_int_handler u = Some u1 \<and> dd_dma_write c MM_DD_DS_BUFFER (word_of_nat n) u1 = Some (cycles, v)
      \<and> (\<forall>i<n. dram (rdram v) ! s8 (unat c + i) = dram (rdram s) ! s8 (unat a + i))"
    if u: "bm_reading u" "bm_running u" "the_disk (dd u) = Some ?disk" "sector_no u = 90 * b + k"
      "ddr u DD_ASIC_CUR_TK = ddr s DD_ASIC_CUR_TK" "ddr u DD_ASIC_HOST_SECBYTE = ddr s DD_ASIC_HOST_SECBYTE"
      "emu_mode (r4300 u) = EMUMODE_PURE_INTERPRETER" "4 dvd length (dram (rdram u))" "unat c + n \<le> length (dram (rdram u))"
    for u :: "'a dd_sys_scheme" and c
  proof -
    have div: "sector_no u div 90 = b" "sector_no u mod 90 = k" using u(4) bk by simp_all
    obtain u1 where u1: "dd_bm_int_handler u = Some u1" "sector_arrived u u1" "same_drive u u1" "rdram u1 = rdram u"
        "emu_mode (r4300 u1) = EMUMODE_PURE_INTERPRETER"
      using bm_interrupt_progress [OF u(1,2)] div(2) bk(2) u(7) by auto
    have "get_sector_base ?disk (track_head (ddr s DD_ASIC_CUR_TK)) (track_number (ddr s DD_ASIC_CUR_TK)) (word_of_nat b) (word_of_nat k)
        = Some (Some x)"
      using w(2,3) by (simp add: mame_base_after_write [OF w(4)] sector_at_def)
    then have data: "\<And>i. i < n \<Longrightarrow> ds_buf (dd u1) ! s8 i = d ! (x + i)"
      using u1(2) u(3,5,6) div unfolding sector_arrived_def n_def by (auto simp: less_Suc_eq_le)
    have lu: "length (ds_buf (dd u1)) = 256" using u1(3) u(1) by (simp add: same_drive_def bm_reading_def)
    obtain e where e: "copy_s8 (dram (rdram u1)) (unat c) (ds_buf (dd u1)) 0 n = Some e"
        "\<And>i. i < n \<Longrightarrow> e ! s8 (unat c + i) = ds_buf (dd u1) ! s8 i"
      using copy_s8_Some [of "dram (rdram u1)" "ds_buf (dd u1)" "unat c" n 0] u(8,9) u1(4) lu n by auto
    have "dd_dma_write c MM_DD_DS_BUFFER (word_of_nat n) u1 = Some (dd_dma_cycles (word_of_nat n), set_dram e u1)"
      using e(1) u1(5) by (simp add: dd_dma_write_def un upd_r4300_def invalidate_r4300_cached_code_def set_dram_def)
    moreover have "dram (rdram (set_dram e u1)) = e" by (simp add: set_dram_def)
    ultimately show ?thesis using u1(1) e(2) data s2(4) m(3) by (intro exI [of _ u1] exI) auto
  qed
  show ?thesis
  proof (rule exI [of _ "dd_dma_cycles (word_of_nat n)"], rule exI [of _ s1], rule exI [of _ s2], rule exI [of _ ?disk], intro conjI)
    show "dd_dma_read a MM_DD_DS_BUFFER (word_of_nat n) s = Some (dd_dma_cycles (word_of_nat n), s1)" by (rule s1)
    show "dd_bm_int_handler s1 = Some s2" by (rule s2(1))
    show "the_disk (dd s2) = Some ?disk" by (rule s2(2))
    show "length (dk_data ?disk) = length (dk_data disk)" by (simp add: s2(3))
    show "?disk = disk\<lparr>dk_data := dk_data ?disk, dk_save := dk_save ?disk\<rparr>" by (rule save_only)
    show "\<forall>y. y < x \<or> x + n \<le> y \<longrightarrow> dk_data ?disk ! y = dk_data disk ! y" using s2(5) by simp
  qed (intro allI impI, elim conjE, rule later)
qed

text \<open>The drive of the examples, about to store sector 3 of the first block, and then at that sector again with the disk it wrote.\<close>

definition write100 :: dd_controller where
  "write100 = track100\<lparr>dd_regs := (dd_regs track100)(DD_ASIC_CUR_SECTOR := 0x40000), bm_write := 1\<rparr>"

definition read100 :: "dd_disk \<Rightarrow> dd_controller" where
  "read100 disk = track100\<lparr>dd_regs := (dd_regs track100)(DD_ASIC_CUR_SECTOR := 0x30000), the_disk := Some disk\<rparr>"

lemma write100_writing: "bm_writing (dd_console write100) 0 3" "sector_at (dd_console write100) 0 3 (dump_sector 232 0 100 0 3)"
proof -
  have q: "wf_queue (cp0_q (cp0 (r4300 console)))" using console_facts(1) by (simp add: queue_room_def)
  have n: "sector_no (dd_console write100) = 4" by (simp add: sector_no_div write100_def)
  show "bm_writing (dd_console write100) 0 3"
    using full_disk_serves q by (simp add: bm_writing_def bm_running_def n) (simp add: write100_def track100_def)
  have f: "dk_format full_disk = DISK_FORMAT_MAME" by (simp add: full_disk_def)
  have "phys_sector_size full_disk (word_of_nat 0) (word_of_nat 100) = Some 232"
    by (simp add: phys_sector_size_def full_disk_def blank_disk_def get_zone_from_head_track_def zone_of_track_100 zone_sec_size_phys_def)
  from mame_sector_position [OF f _ _ _ _ this, of 0 3]
  have "get_sector_base full_disk 0 100 0 3 = Some (Some (dump_sector 232 0 100 0 3))" by simp
  then show "sector_at (dd_console write100) 0 3 (dump_sector 232 0 100 0 3)"
    by (simp add: sector_at_def write100_def track100_def track_head_def track_number_def)
qed

lemma read100_reading:
  assumes "disk = full_disk\<lparr>dk_data := dk_data disk, dk_save := dk_save disk\<rparr>" "length (dk_data disk) = MAME_FORMAT_DUMP_SIZE"
  shows "bm_reading (dd_console (read100 disk))" "bm_running (dd_console (read100 disk))" "sector_no (dd_console (read100 disk)) = 3"
proof -
  have q: "wf_queue (cp0_q (cp0 (r4300 console)))" using console_facts(1) by (simp add: queue_room_def)
  show n: "sector_no (dd_console (read100 disk)) = 3" by (simp add: sector_no_div read100_def)
  show "bm_running (dd_console (read100 disk))" by (simp add: bm_running_def read100_def track100_def)
  have t: "track_head 0x60640000 = 0" "track_number 0x60640000 = 100" by (simp_all add: track_head_def track_number_def)
  have "dk_format disk = DISK_FORMAT_MAME" "development disk = 0"
    using arg_cong [OF assms(1), of dk_format] arg_cong [OF assms(1), of development] by (simp_all add: full_disk_def blank_disk_def)
  then have "disk_serves disk 0x60640000 232"
    using assms(2) by (intro mame_serves [of _ _ 232])
      (simp_all add: t phys_sector_size_def get_zone_from_head_track_def zone_of_track_100 zone_sec_size_phys_def)
  then show "bm_reading (dd_console (read100 disk))"
    using q by (simp add: bm_reading_def n) (simp add: read100_def track100_def)
qed

theorem disk_sector_roundtrip_witness:
  "\<exists>cycles s1 s2 disk'. dd_dma_read 0x1000 MM_DD_DS_BUFFER 232 (dd_console write100) = Some (cycles, s1)
    \<and> dd_bm_int_handler s1 = Some s2 \<and> the_disk (dd s2) = Some disk'
    \<and> (\<exists>u1 cycles v. dd_bm_int_handler (dd_console (read100 disk')) = Some u1
        \<and> dd_dma_write 0x2000 MM_DD_DS_BUFFER 232 u1 = Some (cycles, v)
        \<and> (\<forall>i<232. dram (rdram v) ! s8 (0x2000 + i) = dram (rdram console) ! s8 (0x1000 + i)))"
proof -
  have h: "unat (ddr (dd_console write100) DD_ASIC_HOST_SECBYTE) + 1 = 232" by (simp add: write100_def track100_def)
  have d: "the_disk (dd (dd_console write100)) = Some full_disk" "dk_format full_disk = DISK_FORMAT_MAME"
    "length (dk_data full_disk) = MAME_FORMAT_DUMP_SIZE"
    by (simp_all add: write100_def track100_def full_disk_def)
  have r: "4 dvd length (dram (rdram console))" "unat (0x1000 :: u32) + 232 \<le> length (dram (rdram console))"
    "unat (0x2000 :: u32) + 232 \<le> length (dram (rdram console))"
    using console_facts(4) by (simp_all add: dvd_eq_mod_eq_0)
  obtain cycles s1 s2 disk' where s: "dd_dma_read 0x1000 MM_DD_DS_BUFFER 232 (dd_console write100) = Some (cycles, s1)"
    "dd_bm_int_handler s1 = Some s2" "the_disk (dd s2) = Some disk'" "length (dk_data disk') = MAME_FORMAT_DUMP_SIZE"
    "disk' = full_disk\<lparr>dk_data := dk_data disk', dk_save := dk_save disk'\<rparr>"
    and later: "\<And>(u :: dd_sys) c. bm_reading u \<Longrightarrow> bm_running u \<Longrightarrow> the_disk (dd u) = Some disk' \<Longrightarrow> sector_no u = 3
       \<Longrightarrow> ddr u DD_ASIC_CUR_TK = ddr (dd_console write100) DD_ASIC_CUR_TK
       \<Longrightarrow> ddr u DD_ASIC_HOST_SECBYTE = ddr (dd_console write100) DD_ASIC_HOST_SECBYTE
       \<Longrightarrow> emu_mode (r4300 u) = EMUMODE_PURE_INTERPRETER \<Longrightarrow> 4 dvd length (dram (rdram u))
       \<Longrightarrow> unat c + 232 \<le> length (dram (rdram u))
       \<Longrightarrow> \<exists>u1 cycles v. dd_bm_int_handler u = Some u1 \<and> dd_dma_write c MM_DD_DS_BUFFER 232 u1 = Some (cycles, v)
          \<and> (\<forall>i<232. dram (rdram v) ! s8 (unat c + i) = dram (rdram console) ! s8 (unat (0x1000 :: u32) + i))"
    using disk_sector_roundtrip [OF write100_writing d(1,2), of "0x1000", unfolded h] r(1,2) d(3) by auto
  note u = read100_reading [OF s(5,4)]
  have "\<exists>u1 cycles v. dd_bm_int_handler (dd_console (read100 disk')) = Some u1
      \<and> dd_dma_write 0x2000 MM_DD_DS_BUFFER 232 u1 = Some (cycles, v)
      \<and> (\<forall>i<232. dram (rdram v) ! s8 (unat (0x2000 :: u32) + i) = dram (rdram console) ! s8 (unat (0x1000 :: u32) + i))"
    by (rule later [OF u(1,2) _ u(3)])
      (use r(1,3) in \<open>simp_all add: read100_def write100_def console_queue\<close>)
  then show ?thesis using s(1-3) by (intro exI [of _ cycles] exI [of _ s1] exI [of _ s2] exI [of _ disk']) simp
qed

end
