(* ===== verification/Vru.thy ===== *)
theory Vru
  imports Paks
begin

text \<open>
  The voice recognition unit, \<^verbatim>\<open>device/controllers/vru_controller.c\<close>: its states, and the commands that load words, start
  and stop listening and fetch results. The input plugin recognises the words: the calls to it are a log, and the six
  numbers it reports are a parameter, as is the country code of the ROM header.
\<close>

section \<open>Data\<close>

abbreviation VOICE_STATUS_READY :: u8 where "VOICE_STATUS_READY \<equiv> 0x00"
abbreviation VOICE_STATUS_START :: u8 where "VOICE_STATUS_START \<equiv> 0x01"
abbreviation VOICE_STATUS_BUSY :: u8 where "VOICE_STATUS_BUSY \<equiv> 0x05"
abbreviation JDT_VRU :: u16 where "JDT_VRU \<equiv> 0x0100"
abbreviation JCMD_VRU_READ :: u8 where "JCMD_VRU_READ \<equiv> 0x09"
abbreviation JCMD_VRU_WRITE :: u8 where "JCMD_VRU_WRITE \<equiv> 0x0A"
abbreviation JCMD_VRU_READ_STATUS :: u8 where "JCMD_VRU_READ_STATUS \<equiv> 0x0B"
abbreviation JCMD_VRU_WRITE_CONFIG :: u8 where "JCMD_VRU_WRITE_CONFIG \<equiv> 0x0C"
abbreviation JCMD_VRU_WRITE_INIT :: u8 where "JCMD_VRU_WRITE_INIT \<equiv> 0x0D"

text \<open>The calls to the plugin; the pointer given to \<^verbatim>\<open>sendVRUWord\<close> is the rest of the array from there.\<close>

datatype vru_action = SetMicState nat | SendVRUWord u16 "u16 list" nat | ClearVRUWords u8

record vru_controller =
  vru_status :: u8
  voice_state :: u8
  load_offset :: u8
  voice_init :: u8
  vru_word :: "u16 list"
  vru_log :: "vru_action list"

record vru_env =
  country_code :: u8
  vru_results :: "u16 list"

definition vru_act :: "vru_action \<Rightarrow> vru_controller \<Rightarrow> vru_controller" where
  "vru_act a c = c\<lparr>vru_log := a # vru_log c\<rparr>"

section \<open>Helpers\<close>

definition vru_data_crc :: "u8 list \<Rightarrow> u8" where
  "vru_data_crc dat = crc_byte 0 (fold crc_byte dat 0)"

text \<open>\<^verbatim>\<open>*(uint16_t*)&buf[i] = v\<close> and its reading.\<close>

definition put_le16 :: "u8 list \<Rightarrow> nat \<Rightarrow> u16 \<Rightarrow> u8 list option" where
  "put_le16 buf i v = do { buf \<leftarrow> wr buf i (ucast v); wr buf (i + 1) (ucast (drop_bit 8 v)) }"

definition le16 :: "u8 \<Rightarrow> u8 \<Rightarrow> u16" where
  "le16 l h = push_bit 8 (ucast h) OR ucast l"

fun le16s :: "u8 list \<Rightarrow> u16 list" where
  "le16s (l # h # bs) = le16 l h # le16s bs"
| "le16s _ = []"

definition japanese :: "vru_env \<Rightarrow> bool" where
  "japanese env \<longleftrightarrow> country_code env = 0x4A \<or> country_code env = 0x00"

definition vru_controller_reset :: "vru_env \<Rightarrow> vru_controller \<Rightarrow> vru_controller" where
  "vru_controller_reset env c = c\<lparr>vru_status := 0x00,
     voice_state := (if japanese env then VOICE_STATUS_READY else VOICE_STATUS_START),
     load_offset := 0, voice_init := 1, vru_word := replicate 40 0\<rparr>"

definition poweron_vru_controller :: "vru_env \<Rightarrow> vru_controller \<Rightarrow> vru_controller" where
  "poweron_vru_controller env c = vru_controller_reset env c"

section \<open>The word that was loaded\<close>

text \<open>\<^verbatim>\<open>while (cont->word[offset] == 0 && offset < 40) ++offset;\<close> reads the array before it compares the index.\<close>

function first_nonzero :: "u16 list \<Rightarrow> nat \<Rightarrow> nat option" where
  "first_nonzero ws offset = do {
     w \<leftarrow> rd ws offset;
     if w = 0 \<and> offset < 40 then first_nonzero ws (offset + 1) else Some offset }"
  by pat_completeness auto
termination by (relation "measure (\<lambda>(_, offset). 40 - offset)") auto

text \<open>The length of a Japanese word, which ends with 0; without one the loop runs off the array.\<close>

fun zero_terminated :: "u16 list \<Rightarrow> nat option" where
  "zero_terminated [] = None"
| "zero_terminated (w # ws) = (if w \<noteq> 0 then map_option Suc (zero_terminated ws) else Some 0)"

definition send_word :: "vru_env \<Rightarrow> vru_controller \<Rightarrow> vru_controller option" where
  "send_word env c = do {
     offset \<leftarrow> first_nonzero (vru_word c) 0;
     if offset = 40 then Some c
     else do {
       w \<leftarrow> rd (vru_word c) offset;
       if w = 3 then do {
         len \<leftarrow> rd (vru_word c) (offset + 3);
         if japanese env then do {
           n \<leftarrow> zero_terminated (drop (offset + 2) (vru_word c));
           Some (vru_act (SendVRUWord (word_of_nat n) (drop (offset + 2) (vru_word c)) 1) c) }
         else Some (vru_act (SendVRUWord len (drop (offset + 4) (vru_word c)) 0) c) }
       else Some c } }"

section \<open>Commands\<close>

text \<open>The polling of the status: bit 5 of the input is the Z button, which stands for somebody talking.\<close>

definition poll_voice :: "u32 \<Rightarrow> vru_controller \<Rightarrow> vru_controller" where
  "poll_voice buttons c =
     (if voice_init c = 2 then c\<lparr>voice_state := VOICE_STATUS_START, voice_init := 1\<rparr>
      else if buttons AND 0x0020 \<noteq> 0 \<and> voice_state c = VOICE_STATUS_START
      then c\<lparr>voice_state := VOICE_STATUS_BUSY, vru_status := 0\<rparr>
      else if buttons AND 0x0020 = 0 \<and> voice_state c = VOICE_STATUS_BUSY
      then c\<lparr>voice_state := VOICE_STATUS_READY, vru_status := 0\<rparr>
      else c)"

definition vru_read_status :: "vru_env \<Rightarrow> nat \<Rightarrow> vru_controller \<Rightarrow> u8 list \<Rightarrow> (vru_controller \<times> u8 list) option" where
  "vru_read_status env rx_buf c buf = do {
     buf \<leftarrow> wr buf rx_buf (if voice_init c \<noteq> 0 then voice_state c else 0);
     buf \<leftarrow> wr buf (rx_buf + 1) 0;
     dat \<leftarrow> slice buf rx_buf 2;
     buf \<leftarrow> wr buf (rx_buf + 2) (vru_data_crc dat);
     c \<leftarrow> (if 0 < load_offset c then do { c \<leftarrow> send_word env c; Some (c\<lparr>load_offset := 0\<rparr>) } else Some c);
     Some (c\<lparr>vru_status := 1\<rparr>, buf) }"

definition vru_write_config :: "nat \<Rightarrow> nat \<Rightarrow> vru_controller \<Rightarrow> u8 list \<Rightarrow> (vru_controller \<times> u8 list) option" where
  "vru_write_config tx_buf rx_buf c buf = do {
     dat \<leftarrow> slice buf (tx_buf + 3) 4;
     buf \<leftarrow> wr buf rx_buf (vru_data_crc dat);
     crc \<leftarrow> rd buf rx_buf;
     c \<leftarrow> (if crc = 0x4E then Some ((vru_act (SetMicState 1) c)\<lparr>voice_init := 2\<rparr>)
        else if crc = 0xEF then Some (vru_act (SetMicState 0) c)
        else do {
          x \<leftarrow> rd buf (tx_buf + 3);
          if x = 0x2 then do { n \<leftarrow> rd buf (tx_buf + 5); Some (vru_act (ClearVRUWords n) (c\<lparr>voice_init := 0\<rparr>)) }
          else Some c });
     Some (c\<lparr>vru_status := 0\<rparr>, buf) }"

definition vru_write_init :: "nat \<Rightarrow> nat \<Rightarrow> vru_controller \<Rightarrow> u8 list \<Rightarrow> (vru_controller \<times> u8 list) option" where
  "vru_write_init tx_buf rx_buf c buf = do {
     l \<leftarrow> rd buf (tx_buf + 1);
     h \<leftarrow> rd buf (tx_buf + 2);
     buf \<leftarrow> wr buf rx_buf 0;
     Some (if le16 l h = 0 then vru_act (SetMicState 0) c else c, buf) }"

definition vru_read :: "vru_env \<Rightarrow> nat \<Rightarrow> vru_controller \<Rightarrow> u8 list \<Rightarrow> (vru_controller \<times> u8 list) option" where
  "vru_read env rx_buf c buf = do {
     buf \<leftarrow> put_le16 buf rx_buf 0x8000;
     buf \<leftarrow> put_le16 buf (rx_buf + 2) 0x0F00;
     buf \<leftarrow> put_le16 buf (rx_buf + 34) 0x0040;
     buf \<leftarrow> for_range 0 6 (\<lambda>i buf. do { v \<leftarrow> rd (vru_results env) i; put_le16 buf (rx_buf + 4 + 2 * i) v }) buf;
     dat \<leftarrow> slice buf rx_buf 36;
     buf \<leftarrow> wr buf (rx_buf + 36) (vru_data_crc dat);
     Some (c\<lparr>voice_state := VOICE_STATUS_START\<rparr>, buf) }"

definition vru_write :: "nat \<Rightarrow> nat \<Rightarrow> vru_controller \<Rightarrow> u8 list \<Rightarrow> (vru_controller \<times> u8 list) option" where
  "vru_write tx_buf rx_buf c buf = do {
     dat \<leftarrow> slice buf (tx_buf + 3) 20;
     buf \<leftarrow> wr buf rx_buf (vru_data_crc dat);
     let c = (if load_offset c = 0 then c\<lparr>vru_word := replicate 40 0\<rparr> else c);
     dat \<leftarrow> slice buf (tx_buf + 3) 20;
     w \<leftarrow> memcpy (vru_word c) (unat (load_offset c)) (le16s dat) 0 10;
     Some (c\<lparr>vru_word := w, load_offset := load_offset c + 10, vru_status := 0\<rparr>, buf) }"

text \<open>\<open>inp\<close> is the answer of the input backend: the buttons, or nothing when polling fails.\<close>

definition process_vru_command ::
  "vru_env \<Rightarrow> u32 option \<Rightarrow> joybus_ptr \<Rightarrow> vru_controller \<Rightarrow> u8 list \<Rightarrow> (vru_controller \<times> u8 list) option" where
  "process_vru_command env inp p c buf = do {
     cmd \<leftarrow> rd buf (jp_tx_buf p);
     case inp of
       None \<Rightarrow> do { buf \<leftarrow> rx_or 0x80 p buf; Some (c, buf) }
     | Some input_ \<Rightarrow>
         if cmd = JCMD_RESET \<or> cmd = JCMD_STATUS then do {
           let c = (if cmd = JCMD_RESET then vru_controller_reset env c else c);
           joybus_check 1 3 p c buf (do {
             let c = poll_voice input_ c;
             buf \<leftarrow> wr buf (jp_rx_buf p) (ucast JDT_VRU);
             buf \<leftarrow> wr buf (jp_rx_buf p + 1) (ucast (drop_bit 8 JDT_VRU));
             buf \<leftarrow> wr buf (jp_rx_buf p + 2) (vru_status c);
             Some (c, buf) }) }
         else if cmd = JCMD_CONTROLLER_READ then joybus_check 1 4 p c buf (Some (c, buf))
         else if cmd = JCMD_VRU_READ_STATUS then joybus_check 3 3 p c buf (vru_read_status env (jp_rx_buf p) c buf)
         else if cmd = JCMD_VRU_WRITE_CONFIG then joybus_check 7 1 p c buf (vru_write_config (jp_tx_buf p) (jp_rx_buf p) c buf)
         else if cmd = JCMD_VRU_WRITE_INIT then joybus_check 3 1 p c buf (vru_write_init (jp_tx_buf p) (jp_rx_buf p) c buf)
         else if cmd = JCMD_VRU_READ then joybus_check 3 37 p c buf (vru_read env (jp_rx_buf p) c buf)
         else if cmd = JCMD_VRU_WRITE then joybus_check 23 1 p c buf (vru_write (jp_tx_buf p) (jp_rx_buf p) c buf)
         else Some (c, buf) }"

end
