(* ===== verification/Vru_Claims.thy ===== *)
theory Vru_Claims
  imports Vru
begin

text \<open>The property of the voice recognition unit: a word that the game loads piece by piece is the word the plugin gets.\<close>

text \<open>The commands on their joybus buffers: numbers of bytes sent and received, the bytes sent, room for the answer.\<close>

definition vru_load :: "vru_env \<Rightarrow> u32 \<Rightarrow> u8 list \<Rightarrow> vru_controller \<Rightarrow> (vru_controller \<times> u8 list) option" where
  "vru_load env buttons chunk c =
     process_vru_command env (Some buttons) \<lparr>jp_tx = 0, jp_tx_buf = 2, jp_rx = 1, jp_rx_buf = 25\<rparr> c ([23, 1, JCMD_VRU_WRITE, 0, 0] @ chunk @ [0])"

definition vru_status_command :: "vru_env \<Rightarrow> u32 \<Rightarrow> vru_controller \<Rightarrow> (vru_controller \<times> u8 list) option" where
  "vru_status_command env buttons c =
     process_vru_command env (Some buttons) \<lparr>jp_tx = 0, jp_tx_buf = 2, jp_rx = 1, jp_rx_buf = 5\<rparr> c [3, 3, JCMD_VRU_READ_STATUS, 0, 0, 0, 0, 0]"

fun vru_load_all :: "vru_env \<Rightarrow> u32 \<Rightarrow> u8 list list \<Rightarrow> vru_controller \<Rightarrow> vru_controller option" where
  "vru_load_all env buttons [] c = Some c"
| "vru_load_all env buttons (x # xs) c = do { (c, _) \<leftarrow> vru_load env buttons x c; vru_load_all env buttons xs c }"

lemma le16s_append: "even (List.length a) \<Longrightarrow> le16s (a @ b) = le16s a @ le16s b"
  by (induction a rule: le16s.induct) auto

lemma length_le16s: "List.length (le16s a) = List.length a div 2"
  by (induction a rule: le16s.induct) auto

text \<open>What has been loaded: the half words so far, padded with zeros.\<close>

definition loaded :: "u8 list list \<Rightarrow> vru_controller \<Rightarrow> vru_controller \<Rightarrow> bool" where
  "loaded xs c c' \<longleftrightarrow> c' = c\<lparr>vru_word := le16s (concat xs) @ replicate (40 - 10 * List.length xs) 0,
     load_offset := 10 * word_of_nat (List.length xs), vru_status := 0\<rparr>"

lemma vru_load_step:
  assumes "List.length chunk = 20" "\<forall>x \<in> set xs. List.length x = 20" "List.length xs < 4"
    and "if xs = [] then load_offset c' = 0 \<and> (\<exists>w s. c' = c\<lparr>vru_word := w, load_offset := 0, vru_status := s\<rparr>) else loaded xs c c'"
  shows "\<exists>c'' buf. vru_load env buttons chunk c' = Some (c'', buf) \<and> loaded (xs @ [chunk]) c c''
    \<and> buf = [23, 1, JCMD_VRU_WRITE, 0, 0] @ chunk @ [vru_data_crc chunk]"
proof -
  let ?n = "List.length xs"
  define W where "W = (if load_offset c' = 0 then replicate 40 0 else vru_word c')"
  have lx: "List.length (concat xs) = 20 * ?n" using assms(2) by (induction xs) auto
  then have ll: "List.length (le16s (concat xs)) = 10 * ?n" by (simp add: length_le16s)
  have off: "unat (10 * word_of_nat ?n :: u8) = 10 * ?n"
  proof -
    have w: "(10 * word_of_nat ?n :: u8) = word_of_nat (10 * ?n)" by simp
    show ?thesis unfolding w by (intro unat_word_of_nat_lt) (use assms(3) in simp)
  qed
  have lo: "unat (load_offset c') = 10 * ?n" using assms(4) off by (auto simp: loaded_def split: if_splits)
  then have W: "W = le16s (concat xs) @ replicate (40 - 10 * ?n) 0"
    using assms(4) by (auto simp: W_def loaded_def unat_eq_zero split: if_splits)
  define M where "M = le16s (concat xs) @ le16s chunk @ replicate (40 - 10 * (?n + 1)) 0"
  have m: "memcpy W (10 * ?n) (le16s chunk) 0 10 = Some M"
    using assms(1,3) ll by (auto simp: W M_def memcpy_def length_le16s)
  have sl: "slice (23 # 1 # JCMD_VRU_WRITE # 0 # 0 # chunk @ [b]) 5 20 = Some chunk" for b
    using assms(1) by (simp add: slice_def)
  have wb: "wr (23 # 1 # JCMD_VRU_WRITE # 0 # 0 # chunk @ [0]) 25 v = Some (23 # 1 # JCMD_VRU_WRITE # 0 # 0 # chunk @ [v])" for v
    using assms(1) by (simp add: wr_def list_update_append)
  define c1 where "c1 = c'\<lparr>vru_word := M, load_offset := load_offset c' + 10, vru_status := 0\<rparr>"
  have "vru_write 2 25 c' (23 # 1 # JCMD_VRU_WRITE # 0 # 0 # chunk @ [0])
      = Some (c1, 23 # 1 # JCMD_VRU_WRITE # 0 # 0 # chunk @ [vru_data_crc chunk])"
  proof (cases "load_offset c' = 0")
    case True
    then show ?thesis using m lo by (simp add: vru_write_def sl wb W_def Let_def c1_def)
  next
    case False
    then show ?thesis using m lo by (simp add: vru_write_def sl wb W_def Let_def c1_def)
  qed
  then have "vru_load env buttons chunk c' = Some (c1, [23, 1, JCMD_VRU_WRITE, 0, 0] @ chunk @ [vru_data_crc chunk])"
    by (simp add: vru_load_def process_vru_command_def joybus_check_def)
  moreover have "loaded (xs @ [chunk]) c c1"
  proof -
    have mm: "M = le16s (concat (xs @ [chunk])) @ replicate (40 - 10 * List.length (xs @ [chunk])) 0"
      using lx by (simp add: M_def le16s_append)
    have "load_offset c1 = 10 * word_of_nat (List.length (xs @ [chunk]))"
      using assms(4) by (cases "xs = []") (auto simp: c1_def loaded_def algebra_simps)
    moreover have "c1 = c\<lparr>vru_word := M, load_offset := load_offset c1, vru_status := 0\<rparr>"
      using assms(4) by (cases "xs = []") (auto simp: c1_def loaded_def)
    ultimately show ?thesis unfolding loaded_def mm by metis
  qed
  ultimately show ?thesis by blast
qed

lemma vru_load_all_loaded:
  assumes "\<forall>x \<in> set xs. List.length x = 20" "xs \<noteq> []" "List.length xs \<le> 4" "load_offset c = 0"
  shows "\<exists>c'. vru_load_all env buttons xs c = Some c' \<and> loaded xs c c'"
proof -
  have go: "\<exists>c''. vru_load_all env buttons ys c' = Some c'' \<and> loaded (xs @ ys) c c''"
    if "\<forall>x \<in> set (xs @ ys). List.length x = 20" "xs \<noteq> []" "List.length (xs @ ys) \<le> 4" "loaded xs c c'" for xs ys c'
    using that
  proof (induction ys arbitrary: xs c')
    case (Cons y ys)
    obtain c1 buf where "vru_load env buttons y c' = Some (c1, buf)" "loaded (xs @ [y]) c c1"
      using vru_load_step [of y xs c' c env buttons] Cons.prems by auto
    then show ?case using Cons.IH [of "xs @ [y]" c1] Cons.prems by auto
  qed simp
  obtain y ys where xs: "xs = y # ys" using assms(2) by (cases xs) auto
  have "\<exists>w s. c = c\<lparr>vru_word := w, load_offset := 0, vru_status := s\<rparr>"
    using assms(4) by (intro exI [of _ "vru_word c"] exI [of _ "vru_status c"]) simp
  then obtain c1 buf where c1: "vru_load env buttons y c = Some (c1, buf)" "loaded [y] c c1"
    using vru_load_step [of y "[]" c c env buttons] assms(1,4) xs by auto
  have "\<exists>c''. vru_load_all env buttons ys c1 = Some c'' \<and> loaded ([y] @ ys) c c''"
    by (rule go) (use assms xs c1(2) in auto)
  then show ?thesis using c1(1) by (simp add: xs)
qed

lemma first_nonzero_zeros:
  assumes "i < List.length ws" "ws ! i \<noteq> 0" "\<forall>j. o' \<le> j \<and> j < i \<longrightarrow> ws ! j = 0" "o' \<le> i" "i < 40"
  shows "first_nonzero ws o' = Some i"
  using assms
proof (induction "i - o'" arbitrary: o')
  case 0
  then show ?case by (subst first_nonzero.simps) simp
next
  case (Suc n)
  have "first_nonzero ws (o' + 1) = Some i" by (rule Suc.hyps(1)) (use Suc in auto)
  moreover have "ws ! o' = 0" "o' < List.length ws" "o' < 40" using Suc by auto
  ultimately show ?case by (subst first_nonzero.simps) simp
qed

lemma zero_terminated_spec: "0 \<in> set ws \<Longrightarrow> zero_terminated ws = Some (List.length (takeWhile (\<lambda>w. w \<noteq> 0) ws))"
  by (induction ws) auto

text \<open>
  C31: A word that the game loads into the voice recognition unit in one to four pieces of 20 bytes, padded in front with any number of zeros and
  introduced by the code 3, is the word the input plugin gets when the status is read next: on a Japanese
  machine the half words from the third one on with their number up to the terminating zero, elsewhere those behind the length
  with that length. Reading the status reports the voice state, makes room for the next word and changes nothing else.
\<close>

theorem vru_word_delivered:
  assumes pieces: "\<forall>x \<in> set xs. List.length x = 20" "xs \<noteq> []" "List.length xs \<le> 4" "load_offset c = 0"
    and word: "le16s (concat xs) = replicate z 0 @ 3 # a # b # len # ws"
    and zeros: "zeros = replicate (40 - 10 * List.length xs) 0"
    and "japanese env \<Longrightarrow> 0 \<in> set (b # len # ws @ zeros)"
  shows "\<exists>c1 c2. vru_load_all env buttons xs c = Some c1
    \<and> vru_status_command env buttons c1 = Some (c2, [3, 3, JCMD_VRU_READ_STATUS, 0, 0,
        if voice_init c \<noteq> 0 then voice_state c else 0, 0, vru_data_crc [if voice_init c \<noteq> 0 then voice_state c else 0, 0]])
    \<and> vru_log c2 = (if japanese env
         then SendVRUWord (word_of_nat (List.length (takeWhile (\<lambda>w. w \<noteq> 0) (b # len # ws @ zeros)))) (b # len # ws @ zeros) 1
         else SendVRUWord len (ws @ zeros) 0) # vru_log c
    \<and> load_offset c2 = 0 \<and> vru_status c2 = 1 \<and> voice_state c2 = voice_state c \<and> voice_init c2 = voice_init c"
proof -
  obtain c1 where c1: "vru_load_all env buttons xs c = Some c1" "loaded xs c c1"
    using vru_load_all_loaded [OF pieces] by blast
  define W where "W = (replicate z 0 @ 3 # a # b # len # ws) @ zeros"
  have w1: "c1 = c\<lparr>vru_word := W, load_offset := 10 * word_of_nat (List.length xs), vru_status := 0\<rparr>"
    using c1(2) by (simp add: loaded_def W_def zeros word)
  have "List.length (concat xs) = 20 * List.length xs" using pieces(1) by (induction xs) auto
  then have "List.length (replicate z 0 @ 3 # a # b # len # ws) = 10 * List.length xs" using length_le16s [of "concat xs"] word by simp
  then have lW: "List.length W = 40" and z: "z + 4 \<le> 40" using pieces(3) by (simp_all add: W_def zeros)
  have "0 < List.length xs" using pieces(2) by simp
  then have "List.length xs = 1 \<or> List.length xs = 2 \<or> List.length xs = 3 \<or> List.length xs = 4" using pieces(3) by linarith
  then have lo: "0 < load_offset c1" by (auto simp: w1)
  have nz: "first_nonzero W 0 = Some z"
    by (rule first_nonzero_zeros) (use z in \<open>auto simp: W_def nth_append\<close>)
  have d: "drop (z + 2) W = b # len # ws @ zeros" "drop (z + 4) W = ws @ zeros" "W ! z = 3" "W ! (z + 3) = len"
    by (simp_all add: W_def nth_append)
  have "send_word env c1 = Some (vru_act (if japanese env
         then SendVRUWord (word_of_nat (List.length (takeWhile (\<lambda>w. w \<noteq> 0) (b # len # ws @ zeros)))) (b # len # ws @ zeros) 1
         else SendVRUWord len (ws @ zeros) 0) c1)"
    using nz z lW d zero_terminated_spec [OF assms(7)] by (auto simp: send_word_def w1 Let_def)
  then show ?thesis
    using c1(1) lo
    by (simp add: vru_status_command_def process_vru_command_def joybus_check_def vru_read_status_def slice_def w1 vru_act_def)
qed

definition sample_vru :: vru_controller where
  "sample_vru = poweron_vru_controller \<lparr>country_code = 0x45, vru_results = []\<rparr>
     \<lparr>vru_status = 0, voice_state = 0, load_offset = 0, voice_init = 0, vru_word = [], vru_log = []\<rparr>"

theorem vru_word_delivered_witness:
  "\<exists>c1 c2 buf. vru_load_all \<lparr>country_code = 0x45, vru_results = []\<rparr> 0 [[0, 0, 3, 0, 0, 0, 0, 0, 2, 0, 5, 1, 6, 1, 0, 0, 0, 0, 0, 0]] sample_vru = Some c1
    \<and> vru_status_command \<lparr>country_code = 0x45, vru_results = []\<rparr> 0 c1 = Some (c2, buf)
    \<and> vru_log c2 = [SendVRUWord 2 ([0x105, 0x106, 0, 0, 0] @ replicate 30 0) 0]"
proof -
  have w: "le16s (concat [[0, 0, 3, 0, 0, 0, 0, 0, 2, 0, 5, 1, 6, 1, 0, 0, 0, 0, 0, 0]]) = replicate 1 0 @ 3 # 0 # 0 # 2 # [0x105, 0x106, 0, 0, 0]"
    by code_simp
  show ?thesis
    using vru_word_delivered [OF _ _ _ _ w refl, of sample_vru "\<lparr>country_code = 0x45, vru_results = []\<rparr>" 0]
    by (fastforce simp: sample_vru_def poweron_vru_controller_def vru_controller_reset_def japanese_def)
qed

end
