(* ===== verification/Text.thy ===== *)
theory Text
  imports Prelude
begin

text \<open>
  C strings and the text functions of \<^verbatim>\<open>main/util.c\<close> that the readers of the ROM database and of cheat codes share. A string
  is the list of its characters in front of the terminating 0.
\<close>

section \<open>Characters and numbers\<close>

text \<open>\<^verbatim>\<open>isspace\<close> of the C locale, and the value of a hexadecimal digit.\<close>

definition is_space :: "char \<Rightarrow> bool" where
  "is_space c \<longleftrightarrow> of_char c \<in> {32, 9, 10, 11, 12, 13 :: nat}"

definition hex_digit :: "char \<Rightarrow> nat option" where
  "hex_digit c =
     (let n = of_char c :: nat in
      if 48 \<le> n \<and> n \<le> 57 then Some (n - 48)
      else if 65 \<le> n \<and> n \<le> 70 then Some (n - 55)
      else if 97 \<le> n \<and> n \<le> 102 then Some (n - 87)
      else None)"

text \<open>
  The conversion \<^verbatim>\<open>%X\<close> of \<^verbatim>\<open>sscanf\<close> with a width \<open>w\<close>: white space is skipped, then at most \<open>w\<close> characters are taken: a
  sign, \<^verbatim>\<open>0x\<close>, digits. A \<^verbatim>\<open>0x\<close> without a digit after it does not match. The result is the sign, the number and the rest.
\<close>

fun scan_digits :: "nat \<Rightarrow> nat \<Rightarrow> string \<Rightarrow> nat \<times> string" where
  "scan_digits (Suc w) acc (c # cs) =
     (case hex_digit c of
        Some d \<Rightarrow> scan_digits w (acc * 16 + d) cs
      | None \<Rightarrow> (acc, c # cs))"
| "scan_digits w acc cs = (acc, cs)"

definition scan_sign :: "nat \<Rightarrow> string \<Rightarrow> bool \<times> nat \<times> string" where
  "scan_sign w str =
     (if w > 0 \<and> str \<noteq> [] \<and> hd str \<in> {CHR ''-'', CHR ''+''} then (hd str = CHR ''-'', w - 1, List.tl str)
      else (False, w, str))"

definition scan_prefix :: "nat \<Rightarrow> string \<Rightarrow> nat \<times> string" where
  "scan_prefix w str =
     (if w > 1 \<and> take 2 str \<in> {''0x'', ''0X''} then (w - 2, drop 2 str) else (w, str))"

definition scan_number :: "nat \<Rightarrow> string \<Rightarrow> (bool \<times> nat \<times> string) option" where
  "scan_number w str =
     (let (neg, w, str) = scan_sign w (dropWhile is_space str);
          (w, str) = scan_prefix w str
      in if w > 0 \<and> str \<noteq> [] \<and> hex_digit (hd str) \<noteq> None
         then Some (neg, scan_digits w 0 str) else None)"

text \<open>The value an \<^verbatim>\<open>unsigned int\<close> receives.\<close>

definition scan_hex :: "nat \<Rightarrow> string \<Rightarrow> (u32 \<times> string) option" where
  "scan_hex w str =
     (case scan_number w str of
        Some (neg, n, str) \<Rightarrow> Some (if neg then - word_of_nat n else word_of_nat n, str)
      | None \<Rightarrow> None)"

section \<open>\<^verbatim>\<open>main/util.c\<close>\<close>

definition trim :: "string \<Rightarrow> string" where
  "trim str = rev (dropWhile is_space (rev (dropWhile is_space str)))"

text \<open>Decimal numbers as \<^verbatim>\<open>strtol\<close> reads them: the number and the rest, or nothing when there is no digit.\<close>

definition dec_digit :: "char \<Rightarrow> int option" where
  "dec_digit c = (let n = of_char c :: nat in if 48 \<le> n \<and> n \<le> 57 then Some (int n - 48) else None)"

fun dec_digits :: "int \<Rightarrow> string \<Rightarrow> int \<times> string" where
  "dec_digits acc [] = (acc, [])"
| "dec_digits acc (c # cs) =
     (case dec_digit c of Some d \<Rightarrow> dec_digits (acc * 10 + d) cs | None \<Rightarrow> (acc, c # cs))"

definition strtol :: "string \<Rightarrow> (int \<times> string) option" where
  "strtol str =
     (let str = dropWhile is_space str;
          neg = (str \<noteq> [] \<and> hd str = CHR ''-'');
          digits = (if str \<noteq> [] \<and> hd str \<in> {CHR ''-'', CHR ''+''} then List.tl str else str)
      in if digits \<noteq> [] \<and> dec_digit (hd digits) \<noteq> None
         then (let (n, rest) = dec_digits 0 digits in Some (if neg then - n else n, rest))
         else None)"

definition string_to_int :: "string \<Rightarrow> int option" where
  "string_to_int str =
     (if str = [] \<or> is_space (hd str) then None
      else case strtol str of
        Some (n, rest) \<Rightarrow> if rest \<noteq> [] \<or> n < - (2 ^ 31) \<or> 2 ^ 31 \<le> n then None else Some n
      | None \<Rightarrow> None)"

text \<open>\<^verbatim>\<open>atoi\<close>, whose behaviour is undefined for a number that is no \<^verbatim>\<open>int\<close>.\<close>

definition atoi :: "string \<Rightarrow> int option" where
  "atoi str =
     (case strtol str of
        Some (n, _) \<Rightarrow> if n < - (2 ^ 31) \<or> 2 ^ 31 \<le> n then None else Some n
      | None \<Rightarrow> Some 0)"

definition char2hex :: "char \<Rightarrow> u8" where
  "char2hex c = (case hex_digit c of Some d \<Rightarrow> word_of_nat d | None \<Rightarrow> 0xFF)"

text \<open>\<^verbatim>\<open>parse_hex\<close>: exactly \<open>n\<close> bytes of two digits.\<close>

fun parse_hex :: "string \<Rightarrow> nat \<Rightarrow> u8 list option" where
  "parse_hex str 0 = (if str = [] then Some [] else None)"
| "parse_hex (a # b # str) (Suc n) =
     (if char2hex a = 0xFF \<or> char2hex b = 0xFF then None
      else do { bs \<leftarrow> parse_hex str n; Some ((push_bit 4 (char2hex a) OR char2hex b) # bs) })"
| "parse_hex _ (Suc n) = None"

datatype ini_line = INI_BLANK | INI_COMMENT string | INI_SECTION string | INI_PROPERTY string string | INI_TRASH

text \<open>The line in front of the first line feed.\<close>

definition ini_parse_line :: "string \<Rightarrow> ini_line" where
  "ini_parse_line buffer =
     (let line = trim (takeWhile (\<lambda>c. c \<noteq> CHR 0x0A) buffer) in
      if line \<noteq> [] \<and> hd line \<in> {CHR ''#'', CHR '';''} then INI_COMMENT (trim (List.tl line))
      else if line \<noteq> [] \<and> hd line = CHR ''['' \<and> last line = CHR '']'' then INI_SECTION (trim (List.tl (butlast line)))
      else if CHR ''='' \<in> set line
      then INI_PROPERTY (trim (takeWhile (\<lambda>c. c \<noteq> CHR ''='') line)) (trim (List.tl (dropWhile (\<lambda>c. c \<noteq> CHR ''='') line)))
      else if line = [] then INI_BLANK else INI_TRASH)"

text \<open>\<^verbatim>\<open>fgets(buffer, n + 1, f)\<close> until the end of the file: lines with their line feed, of at most \<open>n\<close> characters.\<close>

definition fgets :: "nat \<Rightarrow> string \<Rightarrow> string" where
  "fgets n f = (let l = takeWhile (\<lambda>c. c \<noteq> CHR 0x0A) (take n f) in
     if length l < n \<and> length l < length f then l @ [CHR 0x0A] else l)"

lemma fgets_progress: "f \<noteq> [] \<Longrightarrow> length (drop (length (fgets (Suc n) f)) f) < length f"
  by (cases f) (auto simp: fgets_def Let_def)

function file_lines :: "nat \<Rightarrow> string \<Rightarrow> string list" where
  "file_lines n f = (if f = [] then []
     else takeWhile (\<lambda>c. c \<noteq> CHR 0x00) (fgets (Suc n) f) # file_lines n (drop (length (fgets (Suc n) f)) f))"
  by pat_completeness auto
termination by (relation "measure (\<lambda>(_, f). length f)") (auto intro: fgets_progress [simplified])

end
