(* ===== verification/Cheats.thy ===== *)
theory Cheats
  imports Rdram Text
begin

text \<open>
  The cheat engine, \<^verbatim>\<open>main/cheat.h\<close>, \<^verbatim>\<open>main/cheat.c\<close> and \<^verbatim>\<open>gs_apply_cheats\<close> of \<^verbatim>\<open>main/main.c\<close>: codes that write
  RDRAM or guard the code after them, cheats that can be switched on and off, and the parser of the codes of
  the ROM database. The linked lists of \<^verbatim>\<open>main/list.h\<close> are lists here; \<open>List_Head\<close> shows that the pointer
  operations implement them. \<^verbatim>\<open>malloc\<close> and \<^verbatim>\<open>strdup\<close> are taken to succeed. RDRAM is the bytes of \<open>dram\<close>; the
  code masks an address to 16 MiB, so the upper half of the range lies outside of it and is \<open>None\<close>.
\<close>

section \<open>Data\<close>

abbreviation CHEAT_CODE_MAGIC_VALUE :: u32 where "CHEAT_CODE_MAGIC_VALUE \<equiv> 0xDEAD0000"
abbreviation ENTRY_BOOT :: int where "ENTRY_BOOT \<equiv> 0"
abbreviation ENTRY_VI :: int where "ENTRY_VI \<equiv> 1"

record cheat_code =
  cc_address :: u32
  cc_value :: u32
  cc_old_value :: u32

record cheat =
  cheat_name :: string
  cheat_enabled :: int
  cheat_was_enabled :: int
  cheat_codes :: "cheat_code list"

record cheat_ctx =
  active_cheats :: "cheat list"

section \<open>Memory\<close>

text \<open>The place of a half word and of a byte: \<^verbatim>\<open>(address & 0xFFFFFF)^S16\<close> and \<^verbatim>\<open>(address & 0xFFFFFF)^S8\<close>.\<close>

definition index_16bit :: "u32 \<Rightarrow> nat" where
  "index_16bit address = unat (address AND 0xFFFFFF) XOR 2"

definition index_8bit :: "u32 \<Rightarrow> nat" where
  "index_8bit address = s8 (unat (address AND 0xFFFFFF))"

definition read_address_16bit :: "u8 list \<Rightarrow> u32 \<Rightarrow> u16 option" where
  "read_address_16bit d address = do {
     lo \<leftarrow> rd d (index_16bit address);
     hi \<leftarrow> rd d (index_16bit address + 1);
     Some (push_bit 8 (ucast hi) OR ucast lo) }"

definition read_address_8bit :: "u8 list \<Rightarrow> u32 \<Rightarrow> u8 option" where
  "read_address_8bit d address = rd d (index_8bit address)"

definition update_address_16bit :: "u32 \<Rightarrow> u16 \<Rightarrow> 'a rdram_sys_scheme \<Rightarrow> 'a rdram_sys_scheme option" where
  "update_address_16bit address new_value s = do {
     d \<leftarrow> wr (dram (rdram s)) (index_16bit address) (ucast new_value);
     d \<leftarrow> wr d (index_16bit address + 1) (ucast (drop_bit 8 new_value));
     upd_r4300 invalidate_r4300_cached_code (s\<lparr>rdram := (rdram s)\<lparr>dram := d\<rparr>\<rparr>) }"

definition update_address_8bit :: "u32 \<Rightarrow> u8 \<Rightarrow> 'a rdram_sys_scheme \<Rightarrow> 'a rdram_sys_scheme option" where
  "update_address_8bit address new_value s = do {
     d \<leftarrow> wr (dram (rdram s)) (index_8bit address) new_value;
     upd_r4300 invalidate_r4300_cached_code (s\<lparr>rdram := (rdram s)\<lparr>dram := d\<rparr>\<rparr>) }"

definition address_equal_to_8bit :: "u8 list \<Rightarrow> u32 \<Rightarrow> u8 \<Rightarrow> bool option" where
  "address_equal_to_8bit d address v = do { x \<leftarrow> read_address_8bit d address; Some (x = v) }"

definition address_equal_to_16bit :: "u8 list \<Rightarrow> u32 \<Rightarrow> u16 \<Rightarrow> bool option" where
  "address_equal_to_16bit d address v = do { x \<leftarrow> read_address_16bit d address; Some (x = v) }"

section \<open>Codes\<close>

text \<open>The two writes, which save the old contents when there is a place for it that holds the magic value.\<close>

definition save_old :: "u32 option \<Rightarrow> u32 option \<Rightarrow> u32 option option" where
  "save_old old current =
     (if old = Some CHEAT_CODE_MAGIC_VALUE then do { v \<leftarrow> current; Some (Some v) } else Some old)"

definition write_8bit :: "u32 \<Rightarrow> u32 \<Rightarrow> u32 option \<Rightarrow> 'a rdram_sys_scheme \<Rightarrow> (u32 option \<times> 'a rdram_sys_scheme) option" where
  "write_8bit address val old s = do {
     old \<leftarrow> save_old old (map_option ucast (read_address_8bit (dram (rdram s)) address));
     s \<leftarrow> update_address_8bit address (ucast val) s;
     Some (old, s) }"

definition write_16bit :: "u32 \<Rightarrow> u32 \<Rightarrow> u32 option \<Rightarrow> 'a rdram_sys_scheme \<Rightarrow> (u32 option \<times> 'a rdram_sys_scheme) option" where
  "write_16bit address val old s = do {
     old \<leftarrow> save_old old (map_option ucast (read_address_16bit (dram (rdram s)) address));
     s \<leftarrow> update_address_16bit address (ucast val) s;
     Some (old, s) }"

text \<open>
  The result of a code (\<open>False\<close> asks to skip the next one), the old value, which is \<open>None\<close> for a null pointer, and
  the state.
\<close>

definition execute_cheat ::
  "u32 \<Rightarrow> u32 \<Rightarrow> u32 option \<Rightarrow> 'a rdram_sys_scheme \<Rightarrow> (bool \<times> u32 option \<times> 'a rdram_sys_scheme) option" where
  "execute_cheat address val old s =
     (let c = address AND 0xFF000000 in
      if c \<in> {0x80000000, 0x88000000, 0xA0000000, 0xA8000000, 0xF0000000} then do {
        (old, s) \<leftarrow> write_8bit address val old s; Some (True, old, s) }
      else if c \<in> {0x81000000, 0x89000000, 0xA1000000, 0xA9000000, 0xF1000000} then do {
        (old, s) \<leftarrow> write_16bit address val old s; Some (True, old, s) }
      else if c = 0xD0000000 \<or> c = 0xD8000000 then do {
        b \<leftarrow> address_equal_to_8bit (dram (rdram s)) address (ucast val); Some (b, old, s) }
      else if c = 0xD1000000 \<or> c = 0xD9000000 then do {
        b \<leftarrow> address_equal_to_16bit (dram (rdram s)) address (ucast val); Some (b, old, s) }
      else if c = 0xD2000000 \<or> c = 0xDB000000 then do {
        b \<leftarrow> address_equal_to_8bit (dram (rdram s)) address (ucast val); Some (\<not> b, old, s) }
      else if c = 0xD3000000 \<or> c = 0xDA000000 then do {
        b \<leftarrow> address_equal_to_16bit (dram (rdram s)) address (ucast val); Some (\<not> b, old, s) }
      else if c = 0xEE000000 then do {
        (_, s) \<leftarrow> write_16bit 0xF1000318 0x0040 None s;
        (_, s) \<leftarrow> write_16bit 0xF100031A 0x0000 None s;
        Some (True, old, s) }
      else Some (True, old, s))"

section \<open>The list of cheats\<close>

definition cheat_init :: "cheat_ctx \<Rightarrow> cheat_ctx" where
  "cheat_init ctx = ctx\<lparr>active_cheats := []\<rparr>"

fun find_cheat :: "cheat list \<Rightarrow> string \<Rightarrow> nat \<Rightarrow> nat option" where
  "find_cheat [] n i = None"
| "find_cheat (c # cs) n i = (if cheat_name c = n then Some i else find_cheat cs n (i + 1))"

text \<open>The pointer to the cheat is its place in the list.\<close>

definition find_or_create_cheat :: "cheat_ctx \<Rightarrow> string \<Rightarrow> nat \<times> cheat_ctx" where
  "find_or_create_cheat ctx n =
     (case find_cheat (active_cheats ctx) n 0 of
        Some i \<Rightarrow> (i, ctx\<lparr>active_cheats := (active_cheats ctx)[i :=
          (active_cheats ctx ! i)\<lparr>cheat_codes := [], cheat_enabled := 0, cheat_was_enabled := 0\<rparr>]\<rparr>)
      | None \<Rightarrow> (List.length (active_cheats ctx), ctx\<lparr>active_cheats := active_cheats ctx @
          [\<lparr>cheat_name = n, cheat_enabled = 0, cheat_was_enabled = 0, cheat_codes = []\<rparr>]\<rparr>))"

definition cheat_delete_all :: "cheat_ctx \<Rightarrow> cheat_ctx" where
  "cheat_delete_all ctx = (if active_cheats ctx = [] then ctx else ctx\<lparr>active_cheats := []\<rparr>)"

definition cheat_set_enabled :: "string \<Rightarrow> int \<Rightarrow> cheat_ctx \<Rightarrow> int \<times> cheat_ctx" where
  "cheat_set_enabled n enabled ctx =
     (case find_cheat (active_cheats ctx) n 0 of
        Some i \<Rightarrow> (1, ctx\<lparr>active_cheats := (active_cheats ctx)[i := (active_cheats ctx ! i)\<lparr>cheat_enabled := enabled\<rparr>]\<rparr>)
      | None \<Rightarrow> (0, ctx))"

section \<open>New cheats\<close>

definition new_code :: "u32 \<Rightarrow> u32 \<Rightarrow> cheat_code" where
  "new_code a v = \<lparr>cc_address = a, cc_value = v, cc_old_value = CHEAT_CODE_MAGIC_VALUE\<rparr>"

definition int_add :: "int \<Rightarrow> int \<Rightarrow> int option" where
  "int_add x y = (if - (2 ^ 31) \<le> x + y \<and> x + y < 2 ^ 31 then Some (x + y) else None)"

fun patch_codes :: "nat \<Rightarrow> int \<Rightarrow> int \<Rightarrow> int \<Rightarrow> int \<Rightarrow> cheat_code list option" where
  "patch_codes 0 incr_addr incr_value cur_addr cur_value = Some []"
| "patch_codes (Suc n) incr_addr incr_value cur_addr cur_value = do {
     next_addr \<leftarrow> int_add cur_addr incr_addr;
     next_value \<leftarrow> int_add cur_value incr_value;
     cs \<leftarrow> patch_codes n incr_addr incr_value next_addr next_value;
     Some (new_code (word_of_int cur_addr) (word_of_int cur_value) # cs) }"

text \<open>The array of \<^verbatim>\<open>m64p_cheat_code\<close> is a list of addresses and values, which are of type \<^verbatim>\<open>int\<close>.\<close>

fun expand_codes :: "(u32 \<times> int) list \<Rightarrow> cheat_code list option" where
  "expand_codes [] = Some []"
| "expand_codes [(a, v)] = Some [new_code a (word_of_int v)]"
| "expand_codes ((a, v) # (a', v') # codes) =
     (if a AND 0xFFFF0000 = 0x50000000 then do {
        ps \<leftarrow> patch_codes (unat (drop_bit 8 (a AND 0xFF00))) (uint (a AND 0xFF)) v (sint a') v';
        cs \<leftarrow> expand_codes codes;
        Some (ps @ cs) }
      else do {
        cs \<leftarrow> expand_codes ((a', v') # codes);
        Some (new_code a (word_of_int v) # cs) })"

definition cheat_add_new :: "cheat_ctx \<Rightarrow> string \<Rightarrow> (u32 \<times> int) list \<Rightarrow> (int \<times> cheat_ctx) option" where
  "cheat_add_new ctx n code_list = do {
     let (i, ctx) = find_or_create_cheat ctx n;
     c \<leftarrow> rd (active_cheats ctx) i;
     cs \<leftarrow> expand_codes code_list;
     l \<leftarrow> wr (active_cheats ctx) i (c\<lparr>cheat_enabled := 1, cheat_codes := cheat_codes c @ cs\<rparr>);
     Some (1, ctx\<lparr>active_cheats := l\<rparr>) }"

section \<open>Application\<close>

definition execute_code ::
  "cheat_code \<Rightarrow> bool \<Rightarrow> 'a rdram_sys_scheme \<Rightarrow> (bool \<times> cheat_code \<times> 'a rdram_sys_scheme) option" where
  "execute_code code save s = do {
     (b, old, s) \<leftarrow> execute_cheat (cc_address code) (cc_value code) (if save then Some (cc_old_value code) else None) s;
     Some (b, (case old of Some v \<Rightarrow> code\<lparr>cc_old_value := v\<rparr> | None \<Rightarrow> code), s) }"

fun boot_codes :: "cheat_code list \<Rightarrow> 'a rdram_sys_scheme \<Rightarrow> (cheat_code list \<times> 'a rdram_sys_scheme) option" where
  "boot_codes [] s = Some ([], s)"
| "boot_codes (code # codes) s = do {
     (code, s) \<leftarrow> (if cc_address code AND 0xF0000000 = 0xF0000000
        then do { (_, code, s) \<leftarrow> execute_code code True s; Some (code, s) } else Some (code, s));
     (codes, s) \<leftarrow> boot_codes codes s;
     Some (code # codes, s) }"

text \<open>\<open>gs\<close> is \<^verbatim>\<open>event_gameshark_active()\<close>.\<close>

fun vi_codes ::
  "bool \<Rightarrow> bool \<Rightarrow> cheat_code list \<Rightarrow> 'a rdram_sys_scheme \<Rightarrow> (cheat_code list \<times> 'a rdram_sys_scheme) option" where
  "vi_codes gs cond_failed [] s = Some ([], s)"
| "vi_codes gs cond_failed (code # codes) s =
     (if cc_address code AND 0xF0000000 = 0xD0000000 then do {
        let cond_failed = (cond_failed \<or>
          cc_address code AND 0xFF000000 \<in> {0xD8000000, 0xD9000000, 0xDA000000, 0xDB000000} \<and> \<not> gs);
        (b, _, s) \<leftarrow> execute_code code False s;
        (codes, s) \<leftarrow> vi_codes gs (cond_failed \<or> \<not> b) codes s;
        Some (code # codes, s) }
      else if cond_failed then do {
        (codes, s) \<leftarrow> vi_codes gs False codes s;
        Some (code # codes, s) }
      else do {
        (code, s) \<leftarrow> (if cc_address code AND 0xFF000000 \<in> {0x88000000, 0x89000000, 0xA8000000, 0xA9000000}
          then if gs then do { (_, code, s) \<leftarrow> execute_code code False s; Some (code, s) } else Some (code, s)
          else if cc_address code AND 0xF0000000 \<noteq> 0xF0000000
          then do { (_, code, s) \<leftarrow> execute_code code True s; Some (code, s) }
          else Some (code, s));
        (codes, s) \<leftarrow> vi_codes gs False codes s;
        Some (code # codes, s) })"

fun restore_codes :: "cheat_code list \<Rightarrow> 'a rdram_sys_scheme \<Rightarrow> (cheat_code list \<times> 'a rdram_sys_scheme) option" where
  "restore_codes [] s = Some ([], s)"
| "restore_codes (code # codes) s = do {
     (code, s) \<leftarrow> (if cc_old_value code \<noteq> CHEAT_CODE_MAGIC_VALUE then do {
          (_, _, s) \<leftarrow> execute_cheat (cc_address code) (cc_old_value code) None s;
          Some (code\<lparr>cc_old_value := CHEAT_CODE_MAGIC_VALUE\<rparr>, s) }
        else Some (code, s));
     (codes, s) \<leftarrow> restore_codes codes s;
     Some (code # codes, s) }"

definition apply_cheat :: "bool \<Rightarrow> int \<Rightarrow> cheat \<Rightarrow> 'a rdram_sys_scheme \<Rightarrow> (cheat \<times> 'a rdram_sys_scheme) option" where
  "apply_cheat gs entry c s =
     (if cheat_enabled c \<noteq> 0 then do {
        (codes, s) \<leftarrow> (if entry = ENTRY_BOOT then boot_codes (cheat_codes c) s
          else if entry = ENTRY_VI then vi_codes gs False (cheat_codes c) s else Some (cheat_codes c, s));
        Some (c\<lparr>cheat_was_enabled := 1, cheat_codes := codes\<rparr>, s) }
      else if cheat_was_enabled c \<noteq> 0 then do {
        (codes, s) \<leftarrow> (if entry = ENTRY_VI then restore_codes (cheat_codes c) s else Some (cheat_codes c, s));
        Some (c\<lparr>cheat_was_enabled := 0, cheat_codes := codes\<rparr>, s) }
      else Some (c, s))"

fun apply_each :: "bool \<Rightarrow> int \<Rightarrow> cheat list \<Rightarrow> 'a rdram_sys_scheme \<Rightarrow> (cheat list \<times> 'a rdram_sys_scheme) option" where
  "apply_each gs entry [] s = Some ([], s)"
| "apply_each gs entry (c # cs) s = do {
     (c, s) \<leftarrow> apply_cheat gs entry c s;
     (cs, s) \<leftarrow> apply_each gs entry cs s;
     Some (c # cs, s) }"

definition cheat_apply_cheats ::
  "bool \<Rightarrow> int \<Rightarrow> cheat_ctx \<Rightarrow> 'a rdram_sys_scheme \<Rightarrow> (cheat_ctx \<times> 'a rdram_sys_scheme) option" where
  "cheat_apply_cheats gs entry ctx s = do {
     (cs, s) \<leftarrow> apply_each gs entry (active_cheats ctx) s;
     Some (ctx\<lparr>active_cheats := cs\<rparr>, s) }"

definition gs_apply_cheats :: "bool \<Rightarrow> cheat_ctx \<Rightarrow> 'a rdram_sys_scheme \<Rightarrow> (cheat_ctx \<times> 'a rdram_sys_scheme) option" where
  "gs_apply_cheats gs ctx s =
     (if sint (g_gs_vi_counter s) < 60 then do {
        (ctx, s) \<leftarrow> (if g_gs_vi_counter s = 0 then cheat_apply_cheats gs ENTRY_BOOT ctx s else Some (ctx, s));
        Some (ctx, s\<lparr>g_gs_vi_counter := g_gs_vi_counter s + 1\<rparr>) }
      else cheat_apply_cheats gs ENTRY_VI ctx s)"

section \<open>The codes of the ROM database\<close>

text \<open>
  \<^verbatim>\<open>strtok_compat\<close> on a set of one separator: the token and the rest of the string, which is absent after the last
  token. Unlike \<^verbatim>\<open>strtok\<close> it returns an empty token behind a trailing separator.
\<close>

definition strtok_compat :: "string \<Rightarrow> char \<Rightarrow> string \<times> string option" where
  "strtok_compat str delim =
     (let str = dropWhile (\<lambda>c. c = delim) str;
          token = takeWhile (\<lambda>c. c \<noteq> delim) str
      in (token, if delim \<in> set str then Some (drop (List.length token + 1) str) else None))"

lemma strtok_compat_rest: "snd (strtok_compat str delim) = Some rest \<Longrightarrow> List.length rest < List.length str"
  using length_dropWhile_le [of "\<lambda>c. c = delim" str]
  by (cases "dropWhile (\<lambda>c. c = delim) str") (auto simp: strtok_compat_def Let_def split: if_splits)

text \<open>The values \<^verbatim>\<open>sscanf(token, "%08x %04X", ...)\<close> assigns; \<^verbatim>\<open>-1\<close> and \<open>0\<close> are not told apart, the code does not either.\<close>

definition scan_code :: "string \<Rightarrow> u32 list" where
  "scan_code token =
     (case scan_hex 8 token of
        None \<Rightarrow> []
      | Some (a, str) \<Rightarrow> (case scan_hex 4 str of None \<Rightarrow> [a] | Some (v, _) \<Rightarrow> [a, v]))"

text \<open>\<^verbatim>\<open>while (strchr(input, ',')) { input++; num_codes++; }\<close> and the increment after it.\<close>

fun count_codes :: "string \<Rightarrow> nat" where
  "count_codes [] = 1"
| "count_codes (c # cs) = (if CHR '','' \<in> set (c # cs) then Suc (count_codes cs) else 1)"

text \<open>
  The loop over the tokens of a cheat: \<open>n\<close> is the size of \<^verbatim>\<open>hackbuf\<close>, \<open>hack\<close> its entries so far. An assignment behind its end is
  \<open>None\<close>.
\<close>

function parse_codes :: "nat \<Rightarrow> (u32 \<times> int) list \<Rightarrow> string \<Rightarrow> (u32 \<times> int) list option" where
  "parse_codes n hack str = do {
     let (token, saveptr) = strtok_compat str (CHR '','');
     let vs = scan_code token;
     hack \<leftarrow> (if vs = [] then Some hack
        else if n \<le> List.length hack then None
        else if List.length vs = 2 then Some (hack @ [(vs ! 0, sint (vs ! 1))])
        else Some hack);
     case saveptr of None \<Rightarrow> Some hack | Some rest \<Rightarrow> parse_codes n hack rest }"
  by pat_completeness auto
termination
  by (relation "measure (\<lambda>(_, _, str). List.length str)") (auto intro: strtok_compat_rest simp: prod_eq_iff)

definition cheat_parse_hacks_code :: "string \<Rightarrow> (u32 \<times> int) list option" where
  "cheat_parse_hacks_code code = parse_codes (count_codes code) [] code"

text \<open>\<^verbatim>\<open>%u\<close> of \<^verbatim>\<open>snprintf\<close>, and the name of the cheat number \<open>i\<close>.\<close>

fun show_u :: "nat \<Rightarrow> string" where
  "show_u n = (if n < 10 then [char_of (48 + n)] else show_u (n div 10) @ [char_of (48 + n mod 10)])"

definition hack_name :: "u32 \<Rightarrow> string" where
  "hack_name i = take 31 (''HACK'' @ show_u (unat i))"

function add_hacks :: "cheat_ctx \<Rightarrow> u32 \<Rightarrow> string \<Rightarrow> cheat_ctx option" where
  "add_hacks ctx i str = do {
     let (token, saveptr) = strtok_compat str (CHR '';'');
     hack \<leftarrow> cheat_parse_hacks_code token;
     (i, ctx) \<leftarrow> (if hack = [] then Some (i, ctx)
        else do { (_, ctx) \<leftarrow> cheat_add_new ctx (hack_name i) hack; Some (i + 1, ctx) });
     case saveptr of None \<Rightarrow> Some ctx | Some rest \<Rightarrow> add_hacks ctx i rest }"
  by pat_completeness auto
termination
  by (relation "measure (\<lambda>(_, _, str). List.length str)") (auto intro: strtok_compat_rest simp: prod_eq_iff)

definition cheat_add_hacks :: "cheat_ctx \<Rightarrow> string option \<Rightarrow> (int \<times> cheat_ctx) option" where
  "cheat_add_hacks ctx rom_cheats =
     (case rom_cheats of
        None \<Rightarrow> Some (0, ctx)
      | Some str \<Rightarrow> do { ctx \<leftarrow> add_hacks ctx 0 str; Some (0, ctx) })"

end
