(* ===== verification/Cheat_Claims.thy ===== *)
theory Cheat_Claims
  imports Cheats Console
begin

text \<open>The properties of the cheat engine: switching cheats off restores memory, and the parser stays within its buffer.\<close>

section \<open>The bytes of a code\<close>

text \<open>The places a code writes, least significant byte first; a code that writes nothing or only sometimes has none.\<close>

definition cells :: "u32 \<Rightarrow> nat list" where
  "cells a =
     (let c = a AND 0xFF000000 in
      if c \<in> {0x80000000, 0xA0000000, 0xF0000000} then [index_8bit a]
      else if c \<in> {0x81000000, 0xA1000000, 0xF1000000} then [index_16bit a, index_16bit a + 1]
      else [])"

text \<open>The codes that test memory, and the places they read.\<close>

definition tests :: "u32 \<Rightarrow> nat list" where
  "tests a =
     (let c = a AND 0xFF000000 in
      if c \<in> {0xD0000000, 0xD8000000, 0xD2000000, 0xDB000000} then [index_8bit a]
      else if c \<in> {0xD1000000, 0xD9000000, 0xD3000000, 0xDA000000} then [index_16bit a, index_16bit a + 1]
      else [])"

text \<open>Codes whose effect is undone: neither those that wait for the GameShark button nor \<^verbatim>\<open>0xEE\<close>.\<close>

definition undoable :: "u32 \<Rightarrow> bool" where
  "undoable a \<longleftrightarrow> a AND 0xFF000000 \<notin> {0x88000000, 0x89000000, 0xA8000000, 0xA9000000, 0xEE000000}"

definition put_cells :: "u8 list \<Rightarrow> u32 \<Rightarrow> u32 \<Rightarrow> u8 list" where
  "put_cells d a v =
     (case cells a of
        [i] \<Rightarrow> d[i := byte_of v 0]
      | [i, j] \<Rightarrow> d[i := byte_of v 0, j := byte_of v 1]
      | _ \<Rightarrow> d)"

definition holds_bytes :: "u8 list \<Rightarrow> u32 \<Rightarrow> u32 \<Rightarrow> bool" where
  "holds_bytes d a v \<longleftrightarrow> (\<forall>k < List.length (cells a). d ! (cells a ! k) = byte_of v k)"

lemma cells_cases:
  obtains "cells a = []" | i where "cells a = [i]" | i where "cells a = [i, i + 1]"
  unfolding cells_def Let_def by (metis (full_types))

lemma put_cells_length [simp]: "List.length (put_cells d a v) = List.length d"
  by (rule cells_cases [of a]) (simp_all add: put_cells_def)

lemma put_cells_other: "x \<notin> set (cells a) \<Longrightarrow> put_cells d a v ! x = d ! x"
  by (rule cells_cases [of a]) (simp_all add: put_cells_def)

lemma put_cells_holds:
  "(\<And>i. i \<in> set (cells a) \<Longrightarrow> i < List.length d) \<Longrightarrow> holds_bytes (put_cells d a v) a v"
  by (rule cells_cases [of a]) (simp_all add: put_cells_def holds_bytes_def less_Suc_eq)

lemma holds_bytes_eq:
  "holds_bytes d a v \<Longrightarrow> holds_bytes d' a v \<Longrightarrow> x \<in> set (cells a) \<Longrightarrow> d ! x = d' ! x"
  by (auto simp: holds_bytes_def in_set_conv_nth)

lemma holds_bytes_cong: "holds_bytes d a v \<Longrightarrow> (\<And>x. x \<in> set (cells a) \<Longrightarrow> d' ! x = d ! x) \<Longrightarrow> holds_bytes d' a v"
  by (simp add: holds_bytes_def)

lemma bytes_of_value:
  "byte_of v 0 = (ucast v :: u8)" "byte_of v 1 = (ucast (drop_bit 8 (ucast v :: u16)) :: u8)"
  "byte_of v 0 = (ucast (ucast v :: u16) :: u8)"
  by (rule bit_word_eqI, auto simp: bit_byte_of bit_simps)+

lemma byte_of_ucast: "byte_of (ucast (x :: u8)) 0 = x"
  "byte_of (ucast (push_bit 8 (ucast (h :: u8)) OR ucast (l :: u8) :: u16)) 0 = l"
  "byte_of (ucast (push_bit 8 (ucast h) OR ucast l :: u16)) 1 = h"
  by (rule bit_word_eqI, auto simp: bit_byte_of bit_simps dest: bit_imp_le_length)+

lemma ucast_not_magic: "ucast (x :: u8) \<noteq> CHEAT_CODE_MAGIC_VALUE" "ucast (y :: u16) \<noteq> CHEAT_CODE_MAGIC_VALUE"
proof -
  have b: "bit CHEAT_CODE_MAGIC_VALUE 31" by (simp add: bit_numeral_word_iff)
  have "\<not> bit (ucast x :: u32) 31" "\<not> bit (ucast y :: u32) 31" by (auto simp: bit_simps dest: bit_imp_le_length)
  with b show "ucast x \<noteq> CHEAT_CODE_MAGIC_VALUE" "ucast y \<noteq> CHEAT_CODE_MAGIC_VALUE" by metis+
qed

section \<open>One code\<close>

text \<open>A write at a place of RDRAM, with what it does to a saved value; \<open>old\<close> is \<open>None\<close> for the null pointer.\<close>

lemma execute_write:
  fixes s :: "'a rdram_sys_scheme"
  assumes "cells a \<noteq> []" "\<And>i. i \<in> set (cells a) \<Longrightarrow> i < List.length (dram (rdram s))"
    and "emu_mode (r4300 s) = EMUMODE_PURE_INTERPRETER"
  shows "\<exists>old'. execute_cheat a v old s = Some (True, old', s\<lparr>rdram := (rdram s)\<lparr>dram := put_cells (dram (rdram s)) a v\<rparr>\<rparr>)
    \<and> (if old = Some CHEAT_CODE_MAGIC_VALUE then \<exists>w. old' = Some w \<and> w \<noteq> CHEAT_CODE_MAGIC_VALUE \<and> holds_bytes (dram (rdram s)) a w
       else old' = old)"
proof -
  consider (b) "a AND 0xFF000000 \<in> {0x80000000, 0xA0000000, 0xF0000000}" "cells a = [index_8bit a]"
    | (h) "a AND 0xFF000000 \<in> {0x81000000, 0xA1000000, 0xF1000000}" "cells a = [index_16bit a, index_16bit a + 1]"
    using assms(1) by (auto simp: cells_def Let_def split: if_splits)
  then show ?thesis
  proof cases
    case b
    then have "execute_cheat a v old s = do { (old, s) \<leftarrow> write_8bit a v old s; Some (True, old, s) }"
      by (auto simp: execute_cheat_def Let_def)
    moreover have "index_8bit a < List.length (dram (rdram s))" using assms(2) b(2) by simp
    ultimately show ?thesis
      using assms(3) b(2)
      by (auto simp: write_8bit_def save_old_def read_address_8bit_def update_address_8bit_def upd_r4300_def
          invalidate_r4300_cached_code_def put_cells_def bytes_of_value [symmetric] holds_bytes_def byte_of_ucast ucast_not_magic)
  next
    case h
    then have "execute_cheat a v old s = do { (old, s) \<leftarrow> write_16bit a v old s; Some (True, old, s) }"
      by (auto simp: execute_cheat_def Let_def)
    moreover have "index_16bit a < List.length (dram (rdram s))" "index_16bit a + 1 < List.length (dram (rdram s))"
      using assms(2) h(2) by simp_all
    ultimately show ?thesis
      using assms(3) h(2)
      by (auto simp: write_16bit_def save_old_def read_address_16bit_def update_address_16bit_def upd_r4300_def
          invalidate_r4300_cached_code_def put_cells_def bytes_of_value [symmetric] holds_bytes_def byte_of_ucast byte_of_ucast(3) [unfolded One_nat_def] ucast_not_magic less_Suc_eq)
  qed
qed

lemma execute_no_write:
  assumes "cells a = []" "undoable a" "\<And>i. i \<in> set (tests a) \<Longrightarrow> i < List.length (dram (rdram s))"
  shows "\<exists>b. execute_cheat a v old s = Some (b, old, s)"
proof -
  let ?c = "a AND 0xFF000000"
  consider (b) "?c \<in> {0xD0000000, 0xD8000000, 0xD2000000, 0xDB000000}"
    | (h) "?c \<notin> {0xD0000000, 0xD8000000, 0xD2000000, 0xDB000000}" "?c \<in> {0xD1000000, 0xD9000000, 0xD3000000, 0xDA000000}"
    | (n) "?c \<notin> {0xD0000000, 0xD8000000, 0xD2000000, 0xDB000000, 0xD1000000, 0xD9000000, 0xD3000000, 0xDA000000}"
    by blast
  then show ?thesis
  proof cases
    case b
    then have "index_8bit a < List.length (dram (rdram s))" using assms(3) by (simp add: tests_def)
    then show ?thesis using b by (auto simp: execute_cheat_def Let_def address_equal_to_8bit_def read_address_8bit_def)
  next
    case h
    then have "index_16bit a + 1 < List.length (dram (rdram s))" using assms(3) by (simp add: tests_def)
    then show ?thesis using h by (auto simp: execute_cheat_def Let_def address_equal_to_16bit_def read_address_16bit_def)
  next
    case n
    then have "?c \<notin> {0x80000000, 0x88000000, 0xA0000000, 0xA8000000, 0xF0000000, 0x81000000, 0x89000000, 0xA1000000, 0xA9000000, 0xF1000000, 0xEE000000}"
      using assms(1,2) by (auto simp: cells_def undoable_def split: if_splits)
    then show ?thesis using n by (auto simp: execute_cheat_def Let_def)
  qed
qed

section \<open>Lists of codes\<close>

text \<open>
  RDRAM next to \<open>base\<close>, the memory as it would be without cheats: they differ only in the bytes of codes that hold a
  saved value, and that value is what \<open>base\<close> has there. The codes of all cheats write different bytes.
\<close>

abbreviation saved :: "cheat_code \<Rightarrow> bool" where
  "saved c \<equiv> cc_old_value c \<noteq> CHEAT_CODE_MAGIC_VALUE"

definition undo_inv :: "u8 list \<Rightarrow> cheat_code list \<Rightarrow> u8 list \<Rightarrow> bool" where
  "undo_inv base cs d \<longleftrightarrow> List.length d = List.length base
     \<and> (\<forall>c \<in> set cs. saved c \<longrightarrow> cells (cc_address c) \<noteq> [] \<and> holds_bytes base (cc_address c) (cc_old_value c))
     \<and> (\<forall>x. (\<forall>c \<in> set cs. saved c \<longrightarrow> x \<notin> set (cells (cc_address c))) \<longrightarrow> d ! x = base ! x)"

definition wf_codes :: "nat \<Rightarrow> u32 list \<Rightarrow> bool" where
  "wf_codes n as \<longleftrightarrow> distinct (concat (map cells as))
     \<and> (\<forall>a \<in> set as. undoable a \<and> (\<forall>i \<in> set (cells a) \<union> set (tests a). i < n))"

lemma wf_codes_disjoint:
  assumes "wf_codes n (as @ a # bs)" "x \<in> set (cells a)" "b \<in> set as \<union> set bs"
  shows "x \<notin> set (cells b)"
  using assms by (auto simp: wf_codes_def)

lemma undo_inv_write:
  assumes inv: "undo_inv base (pre @ c # post) d" and wf: "wf_codes (List.length base) (map cc_address (pre @ c # post))"
    and "cells (cc_address c) \<noteq> []"
    and old: "if saved c then w = cc_old_value c else w \<noteq> CHEAT_CODE_MAGIC_VALUE \<and> holds_bytes d (cc_address c) w"
  shows "undo_inv base (pre @ c\<lparr>cc_old_value := w\<rparr> # post) (put_cells d (cc_address c) v)"
proof -
  have "holds_bytes base (cc_address c) w"
  proof (cases "saved c")
    case True
    then show ?thesis using inv old by (simp add: undo_inv_def)
  next
    case False
    have "base ! x = d ! x" if x: "x \<in> set (cells (cc_address c))" for x
    proof -
      have "x \<notin> set (cells (cc_address b))" if "b \<in> set (pre @ post)" for b
        using wf_codes_disjoint [of _ "map cc_address pre" "cc_address c" "map cc_address post" x "cc_address b"] wf x that by auto
      then have "\<forall>b \<in> set (pre @ c # post). saved b \<longrightarrow> x \<notin> set (cells (cc_address b))" using False by auto
      then show ?thesis using inv unfolding undo_inv_def by metis
    qed
    then show ?thesis using holds_bytes_cong [of d "cc_address c" w base] old False by simp
  qed
  moreover have "w \<noteq> CHEAT_CODE_MAGIC_VALUE" using old by (auto split: if_splits)
  ultimately show ?thesis
    using inv assms(3) by (auto simp: undo_inv_def put_cells_other)
qed

lemma undo_inv_restore:
  assumes inv: "undo_inv base (pre @ c # post) d" and wf: "wf_codes (List.length base) (map cc_address (pre @ c # post))"
    and "saved c"
  shows "undo_inv base (pre @ c\<lparr>cc_old_value := CHEAT_CODE_MAGIC_VALUE\<rparr> # post) (put_cells d (cc_address c) (cc_old_value c))"
proof -
  let ?d = "put_cells d (cc_address c) (cc_old_value c)"
  have "holds_bytes ?d (cc_address c) (cc_old_value c)"
    using wf inv by (intro put_cells_holds) (auto simp: wf_codes_def undo_inv_def)
  moreover have "holds_bytes base (cc_address c) (cc_old_value c)" using inv assms(3) by (simp add: undo_inv_def)
  ultimately have "x \<in> set (cells (cc_address c)) \<Longrightarrow> ?d ! x = base ! x" for x by (rule holds_bytes_eq)
  moreover have "?d ! x = base ! x"
    if "x \<notin> set (cells (cc_address c))" "\<forall>c \<in> set (pre @ post). saved c \<longrightarrow> x \<notin> set (cells (cc_address c))" for x
    using inv that by (auto simp: undo_inv_def put_cells_other)
  ultimately show ?thesis using inv by (auto simp: undo_inv_def)
qed

lemma code_classes:
  "a AND 0xF0000000 = 0xD0000000 \<Longrightarrow> cells a = []"
  "undoable a \<Longrightarrow> a AND 0xFF000000 \<notin> {0x88000000, 0x89000000, 0xA8000000, 0xA9000000}"
proof -
  have m: "a AND 0xF0000000 = (a AND 0xFF000000) AND 0xF0000000" by (simp add: and.assoc)
  show "cells a = []" if "a AND 0xF0000000 = 0xD0000000" using that unfolding m by (auto simp: cells_def Let_def)
qed (simp add: undoable_def)

text \<open>A code of the middle of the list is executed, with its saved value or without.\<close>

lemma execute_code_inv:
  fixes s :: "'a rdram_sys_scheme"
  assumes "undo_inv base (pre @ c # post) (dram (rdram s))" "wf_codes (List.length base) (map cc_address (pre @ c # post))"
    and "emu_mode (r4300 s) = EMUMODE_PURE_INTERPRETER" "save \<or> cells (cc_address c) = []"
  shows "\<exists>b c' d. execute_code c save s = Some (b, c', s\<lparr>rdram := (rdram s)\<lparr>dram := d\<rparr>\<rparr>)
    \<and> undo_inv base (pre @ c' # post) d \<and> cc_address c' = cc_address c \<and> (cells (cc_address c) = [] \<longrightarrow> c' = c)"
proof (cases "cells (cc_address c) = []")
  case True
  have "undoable (cc_address c)" "\<And>i. i \<in> set (tests (cc_address c)) \<Longrightarrow> i < List.length (dram (rdram s))"
    using assms(1,2) by (auto simp: wf_codes_def undo_inv_def)
  then obtain b where "execute_cheat (cc_address c) (cc_value c) (if save then Some (cc_old_value c) else None) s
      = Some (b, if save then Some (cc_old_value c) else None, s)"
    using execute_no_write [OF True] by blast
  then show ?thesis using assms(1)
    by (intro exI [of _ b] exI [of _ c] exI [of _ "dram (rdram s)"]) (auto simp: execute_code_def)
next
  case False
  have "\<And>i. i \<in> set (cells (cc_address c)) \<Longrightarrow> i < List.length (dram (rdram s))"
    using assms(1,2) by (auto simp: wf_codes_def undo_inv_def)
  from execute_write [OF False this assms(3), of "cc_value c" "Some (cc_old_value c)"] assms(4) False
  obtain w where "execute_code c save s = Some (True, c\<lparr>cc_old_value := w\<rparr>,
        s\<lparr>rdram := (rdram s)\<lparr>dram := put_cells (dram (rdram s)) (cc_address c) (cc_value c)\<rparr>\<rparr>)"
      "if saved c then w = cc_old_value c else w \<noteq> CHEAT_CODE_MAGIC_VALUE \<and> holds_bytes (dram (rdram s)) (cc_address c) w"
    by (auto simp: execute_code_def split: if_splits)
  then show ?thesis using undo_inv_write [OF assms(1,2) False] False by (intro exI conjI) (assumption | simp)+
qed

lemma on_dram_self [simp]: "s\<lparr>rdram := (rdram s)\<lparr>dram := dram (rdram s)\<rparr>\<rparr> = s" by simp

lemma boot_codes_inv:
  fixes s :: "'a rdram_sys_scheme"
  assumes "undo_inv base (pre @ cs @ post) (dram (rdram s))" "wf_codes (List.length base) (map cc_address (pre @ cs @ post))"
    and "emu_mode (r4300 s) = EMUMODE_PURE_INTERPRETER"
  shows "\<exists>cs' d. boot_codes cs s = Some (cs', s\<lparr>rdram := (rdram s)\<lparr>dram := d\<rparr>\<rparr>)
    \<and> undo_inv base (pre @ cs' @ post) d \<and> map cc_address cs' = map cc_address cs"
  using assms
proof (induction cs arbitrary: pre s)
  case Nil
  then show ?case by (intro exI [of _ "[]"] exI [of _ "dram (rdram s)"]) simp
next
  case (Cons c cs)
  have "\<exists>c' d. (if cc_address c AND 0xF0000000 = 0xF0000000
        then do { (_, c, s) \<leftarrow> execute_code c True s; Some (c, s) } else Some (c, s)) = Some (c', s\<lparr>rdram := (rdram s)\<lparr>dram := d\<rparr>\<rparr>)
      \<and> undo_inv base (pre @ c' # cs @ post) d \<and> cc_address c' = cc_address c"
    using execute_code_inv [of base pre c "cs @ post" s True] Cons.prems
    by (cases "cc_address c AND 0xF0000000 = 0xF0000000") (fastforce, metis append_Cons on_dram_self)
  then obtain c' d where c': "(if cc_address c AND 0xF0000000 = 0xF0000000
        then do { (_, c, s) \<leftarrow> execute_code c True s; Some (c, s) } else Some (c, s)) = Some (c', s\<lparr>rdram := (rdram s)\<lparr>dram := d\<rparr>\<rparr>)"
      "undo_inv base (pre @ c' # cs @ post) d" "cc_address c' = cc_address c" by blast
  from Cons.IH [of "pre @ [c']" "s\<lparr>rdram := (rdram s)\<lparr>dram := d\<rparr>\<rparr>"] c' Cons.prems
  obtain cs' d' where "boot_codes cs (s\<lparr>rdram := (rdram s)\<lparr>dram := d\<rparr>\<rparr>) = Some (cs', s\<lparr>rdram := (rdram s)\<lparr>dram := d'\<rparr>\<rparr>)"
      "undo_inv base (pre @ c' # cs' @ post) d'" "map cc_address cs' = map cc_address cs" by auto
  then show ?case using c'(1,3) by (intro exI [of _ "c' # cs'"] exI [of _ d']) simp
qed

lemma vi_codes_inv:
  fixes s :: "'a rdram_sys_scheme"
  assumes "undo_inv base (pre @ cs @ post) (dram (rdram s))" "wf_codes (List.length base) (map cc_address (pre @ cs @ post))"
    and "emu_mode (r4300 s) = EMUMODE_PURE_INTERPRETER"
  shows "\<exists>cs' d. vi_codes gs f cs s = Some (cs', s\<lparr>rdram := (rdram s)\<lparr>dram := d\<rparr>\<rparr>)
    \<and> undo_inv base (pre @ cs' @ post) d \<and> map cc_address cs' = map cc_address cs"
  using assms
proof (induction cs arbitrary: pre s f)
  case Nil
  then show ?case by (intro exI [of _ "[]"] exI [of _ "dram (rdram s)"]) simp
next
  case (Cons c cs)
  have rest: "\<exists>cs' d'. vi_codes gs f cs (s\<lparr>rdram := (rdram s)\<lparr>dram := d\<rparr>\<rparr>) = Some (cs', s\<lparr>rdram := (rdram s)\<lparr>dram := d'\<rparr>\<rparr>)
      \<and> undo_inv base (pre @ c' # cs' @ post) d' \<and> map cc_address cs' = map cc_address cs"
    if "undo_inv base (pre @ c' # cs @ post) d" "cc_address c' = cc_address c" for f d c'
    using Cons.IH [of "pre @ [c']" "s\<lparr>rdram := (rdram s)\<lparr>dram := d\<rparr>\<rparr>" f] that Cons.prems by auto
  have self: "undo_inv base (pre @ c # cs @ post) (dram (rdram s))" using Cons.prems(1) by simp
  have exec: "\<exists>b c' d. execute_code c save s = Some (b, c', s\<lparr>rdram := (rdram s)\<lparr>dram := d\<rparr>\<rparr>)
      \<and> undo_inv base (pre @ c' # cs @ post) d \<and> cc_address c' = cc_address c \<and> (cells (cc_address c) = [] \<longrightarrow> c' = c)"
    if "save \<or> cells (cc_address c) = []" for save
    using execute_code_inv [of base pre c "cs @ post" s save] Cons.prems that by auto
  have u: "cc_address c AND 0xFF000000 \<notin> {0x88000000, 0x89000000, 0xA8000000, 0xA9000000}"
    using Cons.prems(2) by (intro code_classes) (simp add: wf_codes_def)
  consider (test) "cc_address c AND 0xF0000000 = 0xD0000000"
    | (skip) "cc_address c AND 0xF0000000 \<noteq> 0xD0000000" "f \<or> cc_address c AND 0xF0000000 = 0xF0000000"
    | (poke) "cc_address c AND 0xF0000000 \<noteq> 0xD0000000" "\<not> f" "cc_address c AND 0xF0000000 \<noteq> 0xF0000000"
    by blast
  then show ?case
  proof cases
    case test
    have cn: "cells (cc_address c) = []" by (rule code_classes) (rule test)
    then obtain b d where e: "execute_code c False s = Some (b, c, s\<lparr>rdram := (rdram s)\<lparr>dram := d\<rparr>\<rparr>)"
        "undo_inv base (pre @ c # cs @ post) d" using exec [of False] by auto
    define g where "g = (f \<or> cc_address c AND 0xFF000000 \<in> {0xD8000000, 0xD9000000, 0xDA000000, 0xDB000000} \<and> \<not> gs \<or> \<not> b)"
    obtain cs' d' where r: "vi_codes gs g cs (s\<lparr>rdram := (rdram s)\<lparr>dram := d\<rparr>\<rparr>) = Some (cs', s\<lparr>rdram := (rdram s)\<lparr>dram := d'\<rparr>\<rparr>)"
      "undo_inv base (pre @ c # cs' @ post) d'" "map cc_address cs' = map cc_address cs" using rest [OF e(2) refl, of g] by blast
    show ?thesis using test e(1) r(1)
      by (intro exI [of _ "c # cs'"] exI [of _ d'] conjI) (simp add: Let_def g_def disj_assoc, simp_all add: r)
  next
    case skip
    obtain cs' d' where r: "vi_codes gs False cs s = Some (cs', s\<lparr>rdram := (rdram s)\<lparr>dram := d'\<rparr>\<rparr>)"
      "undo_inv base (pre @ c # cs' @ post) d'" "map cc_address cs' = map cc_address cs" using rest [OF self refl, of False] by auto
    show ?thesis using skip u r by (intro exI [of _ "c # cs'"] exI [of _ d']) auto
  next
    case poke
    obtain b c' d where e: "execute_code c True s = Some (b, c', s\<lparr>rdram := (rdram s)\<lparr>dram := d\<rparr>\<rparr>)"
        "undo_inv base (pre @ c' # cs @ post) d" "cc_address c' = cc_address c" using exec [of True] by auto
    obtain cs' d' where r: "vi_codes gs False cs (s\<lparr>rdram := (rdram s)\<lparr>dram := d\<rparr>\<rparr>) = Some (cs', s\<lparr>rdram := (rdram s)\<lparr>dram := d'\<rparr>\<rparr>)"
      "undo_inv base (pre @ c' # cs' @ post) d'" "map cc_address cs' = map cc_address cs" using rest [OF e(2,3), of False] by blast
    show ?thesis using poke u e r by (intro exI [of _ "c' # cs'"] exI [of _ d']) auto
  qed
qed

lemma restore_codes_inv:
  fixes s :: "'a rdram_sys_scheme"
  assumes "undo_inv base (pre @ cs @ post) (dram (rdram s))" "wf_codes (List.length base) (map cc_address (pre @ cs @ post))"
    and "emu_mode (r4300 s) = EMUMODE_PURE_INTERPRETER"
  shows "\<exists>cs' d. restore_codes cs s = Some (cs', s\<lparr>rdram := (rdram s)\<lparr>dram := d\<rparr>\<rparr>)
    \<and> undo_inv base (pre @ cs' @ post) d \<and> map cc_address cs' = map cc_address cs \<and> (\<forall>c \<in> set cs'. \<not> saved c)"
  using assms
proof (induction cs arbitrary: pre s)
  case Nil
  then show ?case by (intro exI [of _ "[]"] exI [of _ "dram (rdram s)"]) simp
next
  case (Cons c cs)
  define c' where "c' = c\<lparr>cc_old_value := CHEAT_CODE_MAGIC_VALUE\<rparr>"
  have "\<exists>d. (if saved c then do {
          (_, _, s) \<leftarrow> execute_cheat (cc_address c) (cc_old_value c) None s;
          Some (c\<lparr>cc_old_value := CHEAT_CODE_MAGIC_VALUE\<rparr>, s) } else Some (c, s)) = Some (c', s\<lparr>rdram := (rdram s)\<lparr>dram := d\<rparr>\<rparr>)
      \<and> undo_inv base (pre @ c' # cs @ post) d"
  proof (cases "saved c")
    case True
    have "cells (cc_address c) \<noteq> []" "\<And>i. i \<in> set (cells (cc_address c)) \<Longrightarrow> i < List.length (dram (rdram s))"
      using Cons.prems(1,2) True by (auto simp: wf_codes_def undo_inv_def)
    from execute_write [OF this Cons.prems(3), of "cc_old_value c" None] True undo_inv_restore [of base pre c "cs @ post" "dram (rdram s)"]
      Cons.prems show ?thesis by (auto simp: c'_def)
  next
    case False
    then have "c' = c" by (simp add: c'_def)
    then show ?thesis using False Cons.prems(1) by (intro exI [of _ "dram (rdram s)"]) simp
  qed
  then obtain d where d: "(if saved c then do {
          (_, _, s) \<leftarrow> execute_cheat (cc_address c) (cc_old_value c) None s;
          Some (c\<lparr>cc_old_value := CHEAT_CODE_MAGIC_VALUE\<rparr>, s) } else Some (c, s)) = Some (c', s\<lparr>rdram := (rdram s)\<lparr>dram := d\<rparr>\<rparr>)"
      "undo_inv base (pre @ c' # cs @ post) d" by blast
  from Cons.IH [of "pre @ [c']" "s\<lparr>rdram := (rdram s)\<lparr>dram := d\<rparr>\<rparr>"] d Cons.prems
  obtain cs' d' where "restore_codes cs (s\<lparr>rdram := (rdram s)\<lparr>dram := d\<rparr>\<rparr>) = Some (cs', s\<lparr>rdram := (rdram s)\<lparr>dram := d'\<rparr>\<rparr>)"
      "undo_inv base (pre @ c' # cs' @ post) d'" "map cc_address cs' = map cc_address cs" "\<forall>c \<in> set cs'. \<not> saved c"
    by (auto simp: c'_def)
  then show ?case using d(1) by (intro exI [of _ "c' # cs'"] exI [of _ d']) (simp add: c'_def)
qed

section \<open>Lists of cheats\<close>

abbreviation codes_of :: "cheat list \<Rightarrow> cheat_code list" where
  "codes_of cs \<equiv> concat (map cheat_codes cs)"

text \<open>A cheat with saved values is marked to be restored.\<close>

definition marked :: "cheat \<Rightarrow> bool" where
  "marked c \<longleftrightarrow> (cheat_was_enabled c = 0 \<longrightarrow> (\<forall>code \<in> set (cheat_codes c). \<not> saved code))"

text \<open>What the application of a cheat does to the cheat itself.\<close>

definition applied :: "int \<Rightarrow> cheat \<Rightarrow> cheat \<Rightarrow> bool" where
  "applied entry c c' \<longleftrightarrow> marked c' \<and> cheat_name c' = cheat_name c \<and> cheat_enabled c' = cheat_enabled c
     \<and> map cc_address (cheat_codes c') = map cc_address (cheat_codes c)
     \<and> (entry = ENTRY_VI \<and> cheat_enabled c = 0 \<longrightarrow> cheat_was_enabled c' = 0)"

lemma apply_cheat_inv:
  fixes s :: "'a rdram_sys_scheme"
  assumes "undo_inv base (pre @ cheat_codes c @ post) (dram (rdram s))"
    and "wf_codes (List.length base) (map cc_address (pre @ cheat_codes c @ post))"
    and "emu_mode (r4300 s) = EMUMODE_PURE_INTERPRETER" "marked c"
    and "entry = ENTRY_VI \<or> entry = ENTRY_BOOT \<and> cheat_was_enabled c = 0"
  shows "\<exists>c' d. apply_cheat gs entry c s = Some (c', s\<lparr>rdram := (rdram s)\<lparr>dram := d\<rparr>\<rparr>)
    \<and> undo_inv base (pre @ cheat_codes c' @ post) d \<and> applied entry c c'"
proof (cases "cheat_enabled c = 0")
  case enabled: False
  have "\<exists>cs' d. (if entry = ENTRY_BOOT then boot_codes (cheat_codes c) s
          else if entry = ENTRY_VI then vi_codes gs False (cheat_codes c) s else Some (cheat_codes c, s))
        = Some (cs', s\<lparr>rdram := (rdram s)\<lparr>dram := d\<rparr>\<rparr>)
      \<and> undo_inv base (pre @ cs' @ post) d \<and> map cc_address cs' = map cc_address (cheat_codes c)"
    using boot_codes_inv [OF assms(1-3)] vi_codes_inv [OF assms(1-3), of gs False] assms(5) by auto
  then show ?thesis using enabled by (auto simp: apply_cheat_def applied_def marked_def)
next
  case disabled: True
  show ?thesis
  proof (cases "cheat_was_enabled c = 0")
    case True
    then show ?thesis using disabled assms
      by (intro exI [of _ c] exI [of _ "dram (rdram s)"]) (auto simp: apply_cheat_def applied_def)
  next
    case False
    then show ?thesis using disabled restore_codes_inv [OF assms(1-3)] assms(5)
      by (auto simp: apply_cheat_def applied_def marked_def)
  qed
qed

lemma apply_each_inv:
  fixes s :: "'a rdram_sys_scheme"
  assumes "undo_inv base (pre @ codes_of cs) (dram (rdram s))" "wf_codes (List.length base) (map cc_address (pre @ codes_of cs))"
    and "emu_mode (r4300 s) = EMUMODE_PURE_INTERPRETER" "\<forall>c \<in> set cs. marked c"
    and "entry = ENTRY_VI \<or> entry = ENTRY_BOOT \<and> (\<forall>c \<in> set cs. cheat_was_enabled c = 0)"
  shows "\<exists>cs' d. apply_each gs entry cs s = Some (cs', s\<lparr>rdram := (rdram s)\<lparr>dram := d\<rparr>\<rparr>)
    \<and> undo_inv base (pre @ codes_of cs') d \<and> list_all2 (applied entry) cs cs'"
  using assms
proof (induction cs arbitrary: pre s)
  case Nil
  then show ?case by (intro exI [of _ "[]"] exI [of _ "dram (rdram s)"]) simp
next
  case (Cons c cs)
  have "undo_inv base (pre @ cheat_codes c @ codes_of cs) (dram (rdram s))"
    "wf_codes (List.length base) (map cc_address (pre @ cheat_codes c @ codes_of cs))" using Cons.prems(1,2) by simp_all
  then obtain c' d where c': "apply_cheat gs entry c s = Some (c', s\<lparr>rdram := (rdram s)\<lparr>dram := d\<rparr>\<rparr>)"
      "undo_inv base (pre @ cheat_codes c' @ codes_of cs) d" "applied entry c c'"
    using apply_cheat_inv [of base pre c "codes_of cs" s entry gs] Cons.prems(3-5) by auto
  have ca: "map cc_address (cheat_codes c') = map cc_address (cheat_codes c)" using c'(3) by (simp add: applied_def)
  from Cons.IH [of "pre @ cheat_codes c'" "s\<lparr>rdram := (rdram s)\<lparr>dram := d\<rparr>\<rparr>"] c'(2) ca Cons.prems
  obtain cs' d' where "apply_each gs entry cs (s\<lparr>rdram := (rdram s)\<lparr>dram := d\<rparr>\<rparr>) = Some (cs', s\<lparr>rdram := (rdram s)\<lparr>dram := d'\<rparr>\<rparr>)"
      "undo_inv base (pre @ cheat_codes c' @ codes_of cs') d'" "list_all2 (applied entry) cs cs'"
    by auto
  then show ?case using c'(1,3) by (intro exI [of _ "c' # cs'"] exI [of _ d']) simp
qed

lemma applied_codes:
  "list_all2 (applied entry) cs cs' \<Longrightarrow> map cc_address (codes_of cs') = map cc_address (codes_of cs)"
  "list_all2 (applied entry) cs cs' \<Longrightarrow> map cheat_name cs' = map cheat_name cs"
  "list_all2 (applied entry) cs cs' \<Longrightarrow> c \<in> set cs' \<Longrightarrow> marked c"
  by (induction rule: list_all2_induct) (auto simp: applied_def)

lemma applied_disabled:
  "list_all2 (applied ENTRY_VI) cs cs' \<Longrightarrow> \<forall>c \<in> set cs. cheat_enabled c = 0 \<Longrightarrow> \<forall>c \<in> set cs'. cheat_was_enabled c = 0"
  by (induction rule: list_all2_induct) (auto simp: applied_def)

section \<open>The life of a console with cheats\<close>

text \<open>
  \<open>Frame gs\<close> is a vertical interrupt, with the GameShark button pressed or not; \<open>Switch\<close> sets a cheat on or off;
  \<open>Poke\<close> is a byte the program of the console writes.
\<close>

datatype cheat_op = Frame bool | Switch string int | Poke nat u8

fun run_op :: "cheat_op \<Rightarrow> cheat_ctx \<times> 'a rdram_sys_scheme \<Rightarrow> (cheat_ctx \<times> 'a rdram_sys_scheme) option" where
  "run_op (Frame gs) (ctx, s) = gs_apply_cheats gs ctx s"
| "run_op (Switch n e) (ctx, s) = Some (snd (cheat_set_enabled n e ctx), s)"
| "run_op (Poke i v) (ctx, s) = Some (ctx, s\<lparr>rdram := (rdram s)\<lparr>dram := (dram (rdram s))[i := v]\<rparr>\<rparr>)"

fun run_ops :: "cheat_op list \<Rightarrow> cheat_ctx \<times> 'a rdram_sys_scheme \<Rightarrow> (cheat_ctx \<times> 'a rdram_sys_scheme) option" where
  "run_ops [] st = Some st"
| "run_ops (p # ps) st = do { st \<leftarrow> run_op p st; run_ops ps st }"

fun pokes :: "cheat_op list \<Rightarrow> u8 list \<Rightarrow> u8 list" where
  "pokes [] d = d"
| "pokes (Poke i v # ps) d = pokes ps (d[i := v])"
| "pokes (_ # ps) d = pokes ps d"

text \<open>Every cheat is switched off, by its name.\<close>

definition switch_off :: "cheat_ctx \<Rightarrow> cheat_ctx" where
  "switch_off ctx = fold (\<lambda>n ctx. snd (cheat_set_enabled n 0 ctx)) (map cheat_name (active_cheats ctx)) ctx"

definition cheats_ok :: "u8 list \<Rightarrow> cheat_ctx \<times> 'a rdram_sys_scheme \<Rightarrow> bool" where
  "cheats_ok base st \<longleftrightarrow> (let (ctx, s) = st; cs = active_cheats ctx in
     undo_inv base (codes_of cs) (dram (rdram s)) \<and> wf_codes (List.length base) (map cc_address (codes_of cs))
     \<and> emu_mode (r4300 s) = EMUMODE_PURE_INTERPRETER \<and> (\<forall>c \<in> set cs. marked c)
     \<and> (sint (g_gs_vi_counter s) \<le> 0 \<longrightarrow> (\<forall>c \<in> set cs. cheat_was_enabled c = 0)))"

definition all_cells :: "cheat_ctx \<Rightarrow> nat set" where
  "all_cells ctx = (\<Union>a \<in> set (map cc_address (codes_of (active_cheats ctx))). set (cells a))"

lemma find_cheat_Some:
  "find_cheat cs n k = Some i \<Longrightarrow> k \<le> i \<and> i - k < List.length cs \<and> cheat_name (cs ! (i - k)) = n"
proof (induction cs arbitrary: k)
  case (Cons c cs)
  show ?case
  proof (cases "cheat_name c = n")
    case False
    then have "find_cheat cs n (k + 1) = Some i" using Cons.prems by simp
    from Cons.IH [OF this] have "k + 1 \<le> i \<and> i - (k + 1) < List.length cs \<and> cheat_name (cs ! (i - (k + 1))) = n" .
    moreover from this have "i - k = Suc (i - (k + 1))" by linarith
    ultimately show ?thesis by simp
  qed (use Cons.prems in simp)
qed simp

lemma find_cheat_None: "find_cheat cs n k = None \<longleftrightarrow> n \<notin> cheat_name ` set cs"
  by (induction cs arbitrary: k) auto

lemma set_enabled_cases:
  obtains (none) "snd (cheat_set_enabled n e ctx) = ctx" "n \<notin> cheat_name ` set (active_cheats ctx)"
  | (some) i where "i < List.length (active_cheats ctx)" "cheat_name (active_cheats ctx ! i) = n"
      "snd (cheat_set_enabled n e ctx) = ctx\<lparr>active_cheats := (active_cheats ctx)[i := (active_cheats ctx ! i)\<lparr>cheat_enabled := e\<rparr>]\<rparr>"
proof (cases "find_cheat (active_cheats ctx) n 0")
  case None
  then show ?thesis using none find_cheat_None [of "active_cheats ctx" n 0] by (simp add: cheat_set_enabled_def)
next
  case (Some i)
  then show ?thesis using some [of i] find_cheat_Some [of "active_cheats ctx" n 0 i] by (simp add: cheat_set_enabled_def)
qed

lemma update_enabled:
  "map cheat_codes (cs[i := (cs ! i)\<lparr>cheat_enabled := e\<rparr>]) = map cheat_codes cs"
  "map cheat_name (cs[i := (cs ! i)\<lparr>cheat_enabled := e\<rparr>]) = map cheat_name cs"
  "i < List.length cs \<Longrightarrow> c \<in> set (cs[i := (cs ! i)\<lparr>cheat_enabled := e\<rparr>]) \<Longrightarrow>
     \<exists>b \<in> set cs. cheat_codes c = cheat_codes b \<and> cheat_was_enabled c = cheat_was_enabled b"
proof -
  show "map cheat_codes (cs[i := (cs ! i)\<lparr>cheat_enabled := e\<rparr>]) = map cheat_codes cs"
    "map cheat_name (cs[i := (cs ! i)\<lparr>cheat_enabled := e\<rparr>]) = map cheat_name cs"
    by (cases "i < List.length cs"; auto intro!: nth_equalityI simp: nth_list_update)+
qed (auto simp: set_conv_nth nth_list_update)

lemma set_enabled_ok:
  assumes "cheats_ok base (ctx, s)"
  shows "cheats_ok base (snd (cheat_set_enabled n e ctx), s)"
    "map cheat_name (active_cheats (snd (cheat_set_enabled n e ctx))) = map cheat_name (active_cheats ctx)"
    "map cheat_codes (active_cheats (snd (cheat_set_enabled n e ctx))) = map cheat_codes (active_cheats ctx)"
  by (rule set_enabled_cases [of n e ctx];
      use assms update_enabled(3) in \<open>fastforce simp: cheats_ok_def Let_def marked_def update_enabled(1,2)\<close>)+

lemma switch_off_spec:
  assumes "cheats_ok base (ctx, s)" "distinct (map cheat_name (active_cheats ctx))"
  shows "cheats_ok base (switch_off ctx, s)" "\<forall>c \<in> set (active_cheats (switch_off ctx)). cheat_enabled c = 0"
proof -
  have step: "cheats_ok base (fold (\<lambda>n ctx. snd (cheat_set_enabled n 0 ctx)) ns ctx, s)
      \<and> map cheat_name (active_cheats (fold (\<lambda>n ctx. snd (cheat_set_enabled n 0 ctx)) ns ctx)) = map cheat_name (active_cheats ctx)
      \<and> (\<forall>c \<in> set (active_cheats (fold (\<lambda>n ctx. snd (cheat_set_enabled n 0 ctx)) ns ctx)).
           cheat_name c \<in> set ns \<union> {n. \<forall>c \<in> set (active_cheats ctx). cheat_name c = n \<longrightarrow> cheat_enabled c = 0} \<longrightarrow> cheat_enabled c = 0)"
    if "cheats_ok base (ctx, s)" "distinct (map cheat_name (active_cheats ctx))" for ns ctx
    using that
  proof (induction ns arbitrary: ctx)
    case (Cons n ns)
    let ?c = "snd (cheat_set_enabled n 0 ctx)"
    have dn: "distinct (map cheat_name (active_cheats ?c))" using Cons.prems set_enabled_ok(2) [OF Cons.prems(1)] by simp
    have "\<forall>c \<in> set (active_cheats ?c). cheat_name c = m \<longrightarrow> cheat_enabled c = 0"
      if m: "m = n \<or> (\<forall>c \<in> set (active_cheats ctx). cheat_name c = m \<longrightarrow> cheat_enabled c = 0)" for m
    proof (rule set_enabled_cases [of n 0 ctx])
      assume n: "?c = ctx" "n \<notin> cheat_name ` set (active_cheats ctx)"
      then show ?thesis using m by auto
    next
      fix i
      assume i: "i < List.length (active_cheats ctx)" "cheat_name (active_cheats ctx ! i) = n"
        "?c = ctx\<lparr>active_cheats := (active_cheats ctx)[i := (active_cheats ctx ! i)\<lparr>cheat_enabled := 0\<rparr>]\<rparr>"
      show ?thesis
      proof (intro ballI impI)
        fix c
        assume c: "c \<in> set (active_cheats ?c)" "cheat_name c = m"
        then obtain j where j: "j < List.length (active_cheats ctx)"
            "c = (active_cheats ctx)[i := (active_cheats ctx ! i)\<lparr>cheat_enabled := 0\<rparr>] ! j"
          by (auto simp: i(3) in_set_conv_nth)
        show "cheat_enabled c = 0"
        proof (cases "j = i")
          case False
          then have "c = active_cheats ctx ! j" using j by simp
          moreover from this have "m \<noteq> n"
            using False i(1,2) j(1) c(2) Cons.prems(2) by (auto simp: distinct_conv_nth)
          ultimately show ?thesis using m c(2) j(1) by auto
        qed (use j in simp)
      qed
    qed
    then show ?case
      using Cons.IH [OF set_enabled_ok(1) [OF Cons.prems(1)] dn] set_enabled_ok(2) [OF Cons.prems(1)] by fastforce
  qed simp
  note f = step [OF assms, of "map cheat_name (active_cheats ctx)", folded switch_off_def]
  show "cheats_ok base (switch_off ctx, s)" using f by blast
  have "set (map cheat_name (active_cheats (switch_off ctx))) = set (map cheat_name (active_cheats ctx))" using f by simp
  then have "cheat_name c \<in> set (map cheat_name (active_cheats ctx))" if "c \<in> set (active_cheats (switch_off ctx))" for c
    using that by (metis image_eqI image_set)
  then show "\<forall>c \<in> set (active_cheats (switch_off ctx)). cheat_enabled c = 0" using f by blast
qed

lemma apply_cheats_ok:
  fixes s :: "'a rdram_sys_scheme"
  assumes "cheats_ok base (ctx, s)"
    and "entry = ENTRY_VI \<or> entry = ENTRY_BOOT \<and> (\<forall>c \<in> set (active_cheats ctx). cheat_was_enabled c = 0)"
  shows "\<exists>ctx' d. cheat_apply_cheats gs entry ctx s = Some (ctx', s\<lparr>rdram := (rdram s)\<lparr>dram := d\<rparr>\<rparr>)
    \<and> undo_inv base (codes_of (active_cheats ctx')) d \<and> (\<forall>c \<in> set (active_cheats ctx'). marked c)
    \<and> map cc_address (codes_of (active_cheats ctx')) = map cc_address (codes_of (active_cheats ctx))
    \<and> map cheat_name (active_cheats ctx') = map cheat_name (active_cheats ctx)
    \<and> (entry = ENTRY_VI \<and> (\<forall>c \<in> set (active_cheats ctx). cheat_enabled c = 0) \<longrightarrow> (\<forall>c \<in> set (active_cheats ctx'). cheat_was_enabled c = 0))"
proof -
  obtain cs' d where r: "apply_each gs entry (active_cheats ctx) s = Some (cs', s\<lparr>rdram := (rdram s)\<lparr>dram := d\<rparr>\<rparr>)"
      "undo_inv base (codes_of cs') d" "list_all2 (applied entry) (active_cheats ctx) cs'"
    using apply_each_inv [of base "[]" "active_cheats ctx" s entry gs] assms by (auto simp: cheats_ok_def Let_def)
  then show ?thesis
    using applied_codes [OF r(3)] applied_disabled [of "active_cheats ctx" cs']
    by (intro exI [of _ "ctx\<lparr>active_cheats := cs'\<rparr>"] exI [of _ d]) (auto simp: cheat_apply_cheats_def)
qed

lemma counter_step: "sint (c :: u32) < 60 \<Longrightarrow> sint (c + 1) \<le> 0 \<Longrightarrow> sint c \<le> 0" "sint (0 :: u32) = 0"
proof -
  assume "sint c < 60" "sint (c + 1) \<le> 0"
  moreover have "uint c < 0x100000000" "uint c = int (nat (uint c))" using uint_bounded [of c] by simp_all
  then obtain n where "uint c = int n" "int n < 0x100000000" by metis
  moreover have "uint (c + 1) = (uint c + 1) mod 0x100000000" by (simp add: uint_word_ariths)
  ultimately show "sint c \<le> 0" unfolding sint_u32 by (auto split: if_splits)
qed simp

lemma frame_ok:
  fixes s :: "'a rdram_sys_scheme"
  assumes ok: "cheats_ok base (ctx, s)"
  shows "\<exists>ctx' s'. gs_apply_cheats gs ctx s = Some (ctx', s') \<and> cheats_ok base (ctx', s')
    \<and> map cheat_name (active_cheats ctx') = map cheat_name (active_cheats ctx)
    \<and> map cc_address (codes_of (active_cheats ctx')) = map cc_address (codes_of (active_cheats ctx))
    \<and> (60 \<le> sint (g_gs_vi_counter s) \<and> (\<forall>c \<in> set (active_cheats ctx). cheat_enabled c = 0) \<longrightarrow> dram (rdram s') = base)"
proof -
  note ok' = ok [unfolded cheats_ok_def Let_def prod.case]
  consider (boot) "g_gs_vi_counter s = 0" | (wait) "sint (g_gs_vi_counter s) < 60" "g_gs_vi_counter s \<noteq> 0"
    | (vi) "60 \<le> sint (g_gs_vi_counter s)" by fastforce
  then show ?thesis
  proof cases
    case boot
    then have "\<forall>c \<in> set (active_cheats ctx). cheat_was_enabled c = 0" using ok' by simp
    with apply_cheats_ok [OF ok, of ENTRY_BOOT gs] obtain ctx' d where
      r: "cheat_apply_cheats gs ENTRY_BOOT ctx s = Some (ctx', s\<lparr>rdram := (rdram s)\<lparr>dram := d\<rparr>\<rparr>)"
      "undo_inv base (codes_of (active_cheats ctx')) d" "\<forall>c \<in> set (active_cheats ctx'). marked c"
      "map cc_address (codes_of (active_cheats ctx')) = map cc_address (codes_of (active_cheats ctx))"
      "map cheat_name (active_cheats ctx') = map cheat_name (active_cheats ctx)" by blast
    then show ?thesis using ok' boot by (simp add: gs_apply_cheats_def cheats_ok_def)
  next
    case wait
    then show ?thesis using ok' counter_step(1) [OF wait(1)]
      by (intro exI [of _ ctx] exI [of _ "s\<lparr>g_gs_vi_counter := g_gs_vi_counter s + 1\<rparr>"])
        (simp add: gs_apply_cheats_def cheats_ok_def)
  next
    case vi
    with apply_cheats_ok [OF ok, of ENTRY_VI gs] obtain ctx' d where
      r: "cheat_apply_cheats gs ENTRY_VI ctx s = Some (ctx', s\<lparr>rdram := (rdram s)\<lparr>dram := d\<rparr>\<rparr>)"
      "undo_inv base (codes_of (active_cheats ctx')) d" "\<forall>c \<in> set (active_cheats ctx'). marked c"
      "map cc_address (codes_of (active_cheats ctx')) = map cc_address (codes_of (active_cheats ctx))"
      "map cheat_name (active_cheats ctx') = map cheat_name (active_cheats ctx)"
      "(\<forall>c \<in> set (active_cheats ctx). cheat_enabled c = 0) \<longrightarrow> (\<forall>c \<in> set (active_cheats ctx'). cheat_was_enabled c = 0)" by blast
    have "d = base" if "\<forall>c \<in> set (active_cheats ctx). cheat_enabled c = 0"
    proof -
      have "\<forall>c \<in> set (codes_of (active_cheats ctx')). \<not> saved c" using r(3,6) that by (auto simp: marked_def)
      then show ?thesis using r(2) by (auto simp: undo_inv_def intro!: nth_equalityI)
    qed
    then show ?thesis using r ok' vi by (simp add: gs_apply_cheats_def cheats_ok_def)
  qed
qed

lemma poke_ok:
  assumes "cheats_ok base (ctx, s)" "i \<notin> all_cells ctx"
  shows "cheats_ok (base[i := v]) (ctx, s\<lparr>rdram := (rdram s)\<lparr>dram := (dram (rdram s))[i := v]\<rparr>\<rparr>)"
proof -
  have "undo_inv (base[i := v]) cs (d[i := v])"
    if "undo_inv base cs d" "\<forall>c \<in> set cs. i \<notin> set (cells (cc_address c))" for cs d
  proof -
    have "holds_bytes (base[i := v]) a w" if "holds_bytes base a w" "i \<notin> set (cells a)" for a w
      by (rule holds_bytes_cong [OF that(1)]) (use that(2) nth_list_update_neq in metis)
    moreover have "d[i := v] ! x = base[i := v] ! x" if "List.length d = List.length base" "d ! x = base ! x" for x
      using that by (cases "i < List.length d"; cases "x = i") (simp_all add: list_update_beyond)
    ultimately show ?thesis using that by (auto simp: undo_inv_def)
  qed
  then show ?thesis using assms by (auto simp: cheats_ok_def Let_def all_cells_def)
qed


definition sample_cheats :: cheat_ctx where
  "sample_cheats = \<lparr>active_cheats = [\<lparr>cheat_name = ''HACK0'', cheat_enabled = 0, cheat_was_enabled = 0,
     cheat_codes = [new_code 0xD0100010 1, new_code 0x81100000 0x1234]\<rparr>]\<rparr>"

definition sample_ops :: "cheat_op list" where
  "sample_ops = [Frame False, Switch ''HACK0'' 1, Poke 7 9, Frame True]"


end
