(* ===== verification/Cheat_Parse.thy ===== *)
theory Cheat_Parse
  imports Cheats
begin

text \<open>The parser of the cheat codes of the ROM database: it stays within its buffer and reads what is printed.\<close>

section \<open>Parsing\<close>

abbreviation commas :: "string \<Rightarrow> nat" where "commas str \<equiv> count_list str (CHR '','')"

lemma count_codes_commas: "commas str < count_codes str"
  by (induction str) (auto simp: less_Suc_eq_le count_notin)

lemma strtok_token: "d \<notin> set u \<Longrightarrow> strtok_compat u d = (u, None)"
  "d \<notin> set u \<Longrightarrow> u \<noteq> [] \<Longrightarrow> strtok_compat (u @ d # r) d = (u, Some r)"
proof -
  assume d: "d \<notin> set u"
  have n: "dropWhile (\<lambda>c. c = d) u = u" using d by (cases u) auto
  have t: "takeWhile (\<lambda>c. c \<noteq> d) u = u" using d by (simp add: takeWhile_eq_all_conv) metis
  show "strtok_compat u d = (u, None)" using d n t by (simp add: strtok_compat_def)
  assume "u \<noteq> []"
  then have "dropWhile (\<lambda>c. c = d) (u @ d # r) = u @ d # r" using d by (cases u) auto
  moreover have "takeWhile (\<lambda>c. c \<noteq> d) (u @ d # r) = u" using d t by (subst takeWhile_append2) auto
  ultimately show "strtok_compat (u @ d # r) d = (u, Some r)" by (simp add: strtok_compat_def)
qed

lemma strtok_commas:
  "snd (strtok_compat str (CHR '','')) = Some rest \<Longrightarrow> commas rest < commas str"
proof -
  assume a: "snd (strtok_compat str (CHR '','')) = Some rest"
  define t where "t = dropWhile (\<lambda>c. c = CHR '','') str"
  have t: "commas t \<le> commas str" unfolding t_def by (induction str) auto
  have c: "CHR '','' \<in> set t" "rest = drop (List.length (takeWhile (\<lambda>c. c \<noteq> CHR '','') t) + 1) t"
    using a by (auto simp: strtok_compat_def t_def Let_def split: if_splits)
  obtain u r where u: "t = u @ CHR '','' # r" "CHR '','' \<notin> set u" using split_list_first [OF c(1)] by blast
  have "takeWhile (\<lambda>c. c \<noteq> CHR '','') t = u" unfolding u(1) using u(2) by (subst takeWhile_append2) auto
  then have "rest = r" using c(2) u(1) by simp
  then show ?thesis using t u(1) by simp
qed

lemma parse_codes_safe:
  "List.length hack + commas str < n \<Longrightarrow> \<exists>h. parse_codes n hack str = Some h \<and> List.length h \<le> n"
proof (induction n hack str rule: parse_codes.induct)
  case (1 n hack str)
  obtain token saveptr where t: "strtok_compat str (CHR '','') = (token, saveptr)" by (cases "strtok_compat str (CHR '','')")
  let ?vs = "scan_code token"
  obtain h where h: "(if ?vs = [] then Some hack else if n \<le> List.length hack then None
      else if List.length ?vs = 2 then Some (hack @ [(?vs ! 0, sint (?vs ! 1))]) else Some hack) = Some h"
    "List.length h \<le> List.length hack + 1" using that 1(2) by (cases "?vs = []"; cases "List.length ?vs = 2") simp_all
  show ?case
  proof (cases saveptr)
    case None
    then show ?thesis using t h 1(2) by (subst parse_codes.simps) (simp add: Let_def)
  next
    case (Some rest)
    then have "commas rest < commas str" using strtok_commas [of str rest] t by simp
    then have "List.length h + commas rest < n" using 1(2) h(2) by linarith
    then have "\<exists>h'. parse_codes n h rest = Some h' \<and> List.length h' \<le> n"
      by (intro 1(1) [OF t [symmetric] refl refl h(1) Some])
    then show ?thesis using t h(1) Some by (subst parse_codes.simps) (simp add: Let_def)
  qed
qed

text \<open>The codes as the database writes them: eight digits, a space and four digits, with commas between the codes.\<close>

definition hex_char :: "nat \<Rightarrow> char" where
  "hex_char d = (if d < 10 then char_of (48 + d) else char_of (55 + d))"

fun hex_string :: "nat \<Rightarrow> nat \<Rightarrow> string" where
  "hex_string 0 v = []"
| "hex_string (Suc w) v = hex_string w (v div 16) @ [hex_char (v mod 16)]"

definition print_code :: "u32 \<times> int \<Rightarrow> string" where
  "print_code c = hex_string 8 (unat (fst c)) @ '' '' @ hex_string 4 (nat (snd c))"

fun print_codes :: "(u32 \<times> int) list \<Rightarrow> string" where
  "print_codes [] = []"
| "print_codes [c] = print_code c"
| "print_codes (c # cs) = print_code c @ '','' @ print_codes cs"

definition hex_char_ok :: "nat \<Rightarrow> bool" where
  "hex_char_ok d \<longleftrightarrow> hex_digit (hex_char d) = Some d \<and> \<not> is_space (hex_char d)
     \<and> hex_char d \<noteq> CHR '','' \<and> hex_char d \<noteq> CHR ''-'' \<and> hex_char d \<noteq> CHR ''+'' \<and> hex_char d \<noteq> CHR ''x'' \<and> hex_char d \<noteq> CHR ''X''"

lemma hex_char_ok: "d < 16 \<Longrightarrow> hex_char_ok d"
proof -
  have "list_all hex_char_ok [0..<16]" by code_simp
  then show "d < 16 \<Longrightarrow> hex_char_ok d" by (simp add: list_all_iff)
qed

lemma hex_string_facts:
  "List.length (hex_string w v) = w" "c \<in> set (hex_string w v) \<Longrightarrow> \<exists>d. c = hex_char d \<and> hex_char_ok d"
proof (induction w arbitrary: v)
  case (Suc w)
  { case 1 show ?case using Suc(1) by simp }
  { case 2
    have "hex_char_ok (v mod 16)" by (rule hex_char_ok) simp
    then show ?case using 2 Suc(2) by auto }
qed simp_all

lemma scan_digits_hex:
  "v < 16 ^ w \<Longrightarrow> scan_digits (w + k) acc (hex_string w v @ rest) = scan_digits k (acc * 16 ^ w + v) rest"
proof (induction w arbitrary: v k rest)
  case (Suc w)
  have "v div 16 < 16 ^ w" using Suc.prems by (simp add: less_mult_imp_div_less mult.commute)
  then have "scan_digits (w + Suc k) acc (hex_string w (v div 16) @ hex_char (v mod 16) # rest)
      = scan_digits (Suc k) (acc * 16 ^ w + v div 16) (hex_char (v mod 16) # rest)" by (rule Suc.IH)
  also have "\<dots> = scan_digits k ((acc * 16 ^ w + v div 16) * 16 + v mod 16) rest"
    using hex_char_ok [of "v mod 16"] by (simp add: hex_char_ok_def)
  also have "(acc * 16 ^ w + v div 16) * 16 + v mod 16 = acc * 16 ^ Suc w + (v div 16 * 16 + v mod 16)"
    by (simp only: add_mult_distrib power_Suc mult.assoc mult.commute [of "16 ^ w"] add.assoc)
  also have "v div 16 * 16 + v mod 16 = v" by simp
  finally show ?case by simp
qed simp

lemma scan_hex_string:
  assumes "v < 16 ^ w" "2 \<le> w"
  shows "scan_hex w (hex_string w v @ rest) = Some (word_of_nat v, rest)"
proof -
  obtain c1 c2 cs where h: "hex_string w v = c1 # c2 # cs"
    using hex_string_facts(1) [of w v] assms(2) by (cases "hex_string w v"; cases "List.tl (hex_string w v)") auto
  obtain d1 d2 where d: "c1 = hex_char d1" "hex_char_ok d1" "c2 = hex_char d2" "hex_char_ok d2"
    using hex_string_facts(2) [of c1 w v] hex_string_facts(2) [of c2 w v] by (auto simp: h)
  have "scan_digits w 0 (hex_string w v @ rest) = (v, rest)"
    using scan_digits_hex [OF assms(1), of 0 0 rest] by (cases rest) simp_all
  then show ?thesis using d assms(2)
    by (simp add: scan_hex_def scan_number_def scan_sign_def scan_prefix_def h hex_char_ok_def Let_def)
qed

text \<open>The codes of the database: the value has four digits.\<close>

definition printable :: "u32 \<times> int \<Rightarrow> bool" where
  "printable c \<longleftrightarrow> 0 \<le> snd c \<and> snd c < 0x10000"

lemma print_code_facts:
  assumes "printable c"
  shows "scan_code (print_code c) = [fst c, word_of_int (snd c)]" "sint (word_of_int (snd c) :: u32) = snd c"
    "CHR '','' \<notin> set (print_code c)" "print_code c \<noteq> []"
proof -
  have u: "unat (fst c) < 16 ^ 8" using unat_u32_less [of "fst c"] by simp
  have n: "nat (snd c) < 16 ^ 4" "int (nat (snd c)) = snd c" using assms by (auto simp: printable_def)
  have "scan_hex 8 (print_code c) = Some (fst c, '' '' @ hex_string 4 (nat (snd c)) @ [])"
    using scan_hex_string [OF u] by (simp add: print_code_def del: hex_string.simps)
  moreover have "scan_hex 4 ('' '' @ hex_string 4 (nat (snd c)) @ []) = scan_hex 4 (hex_string 4 (nat (snd c)) @ [])"
    by (simp add: scan_hex_def scan_number_def is_space_def del: hex_string.simps)
  moreover have "word_of_nat (nat (snd c)) = (word_of_int (snd c) :: u32)" using n(2) by (metis of_int_of_nat_eq)
  ultimately show "scan_code (print_code c) = [fst c, word_of_int (snd c)]"
    using scan_hex_string [OF n(1), of "[]"] by (simp add: scan_code_def del: hex_string.simps)
  show "sint (word_of_int (snd c) :: u32) = snd c"
    using assms by (simp add: printable_def sint_u32 uint_word_of_int)
  show "CHR '','' \<notin> set (print_code c)"
    using hex_string_facts(2) by (fastforce simp: print_code_def hex_char_ok_def simp del: hex_string.simps)
  show "print_code c \<noteq> []" by (simp add: print_code_def)
qed

lemma parse_print_codes:
  "cs \<noteq> [] \<Longrightarrow> \<forall>c \<in> set cs. printable c \<Longrightarrow> List.length hack + List.length cs \<le> n
    \<Longrightarrow> parse_codes n hack (print_codes cs) = Some (hack @ cs) \<and> commas (print_codes cs) + 1 = List.length cs"
proof (induction cs arbitrary: hack rule: print_codes.induct)
  case (2 c)
  then have "printable c" "List.length hack < n" by simp_all
  note f = print_code_facts [OF this(1)]
  show ?case using f \<open>List.length hack < n\<close>
    by (subst parse_codes.simps) (simp add: strtok_token(1) Let_def count_notin)
next
  case (3 c c' cs)
  then have "printable c" "List.length hack < n" by simp_all
  note f = print_code_facts [OF this(1)]
  have "parse_codes n (hack @ [c]) (print_codes (c' # cs)) = Some ((hack @ [c]) @ c' # cs)
      \<and> commas (print_codes (c' # cs)) + 1 = List.length (c' # cs)" by (rule 3(1)) (use 3 in auto)
  then show ?case using f \<open>List.length hack < n\<close>
    by (subst parse_codes.simps) (simp add: strtok_token(2) Let_def count_notin)
qed simp

text \<open>
  C30: \<^verbatim>\<open>cheat_parse_hacks_code\<close> never writes behind the end of the buffer that it allocates after counting commas, whatever the
  text; and of a text that lists codes of eight and four digits it returns exactly these codes, in order.
\<close>

theorem parse_hacks_correct:
  "(\<exists>hack. cheat_parse_hacks_code str = Some hack \<and> List.length hack \<le> count_codes str)
   \<and> (cs \<noteq> [] \<and> (\<forall>c \<in> set cs. printable c) \<longrightarrow> cheat_parse_hacks_code (print_codes cs) = Some cs)"
proof (intro conjI impI)
  show "\<exists>hack. cheat_parse_hacks_code str = Some hack \<and> List.length hack \<le> count_codes str"
    unfolding cheat_parse_hacks_code_def by (rule parse_codes_safe) (simp add: count_codes_commas)
  assume a: "cs \<noteq> [] \<and> (\<forall>c \<in> set cs. printable c)"
  then have "commas (print_codes cs) + 1 = List.length cs" using parse_print_codes [of cs "[]" "List.length cs"] by simp
  then have "List.length cs \<le> count_codes (print_codes cs)" using count_codes_commas [of "print_codes cs"] by linarith
  then show "cheat_parse_hacks_code (print_codes cs) = Some cs"
    unfolding cheat_parse_hacks_code_def using parse_print_codes [of cs "[]"] a by simp
qed

theorem parse_hacks_correct_witness:
  "(\<exists>hack. cheat_parse_hacks_code ''80,,'' = Some hack \<and> List.length hack \<le> count_codes ''80,,'')
   \<and> cheat_parse_hacks_code (print_codes [(0x81100000, 0x1234), (0x80100002, 5)]) = Some [(0x81100000, 0x1234), (0x80100002, 5)]"
  using parse_hacks_correct [of "''80,,''" "[(0x81100000, 0x1234), (0x80100002, 5)]"] by (simp add: printable_def)

end
