(* ===== verification/List_Head.thy ===== *)
theory List_Head
  imports Prelude
begin

text \<open>
  The intrusive doubly linked lists of \<^verbatim>\<open>main/list.h\<close> over an explicit store: a list is a ring of nodes through a head
  that is not an element. Every operation refines one on the list of the elements; the cheat engine keeps its cheats and
  their codes in such lists.
\<close>

section \<open>The operations\<close>

type_synonym addr = nat

record list_head =
  lh_prev :: addr
  lh_next :: addr

type_synonym list_store = "addr \<Rightarrow> list_head option"

definition set_next :: "addr \<Rightarrow> addr \<Rightarrow> list_store \<Rightarrow> list_store option" where
  "set_next a v st = do { n \<leftarrow> st a; Some (st(a \<mapsto> n\<lparr>lh_next := v\<rparr>)) }"

definition set_prev :: "addr \<Rightarrow> addr \<Rightarrow> list_store \<Rightarrow> list_store option" where
  "set_prev a v st = do { n \<leftarrow> st a; Some (st(a \<mapsto> n\<lparr>lh_prev := v\<rparr>)) }"

definition INIT_LIST_HEAD :: "addr \<Rightarrow> list_store \<Rightarrow> list_store option" where
  "INIT_LIST_HEAD head st = do { st \<leftarrow> set_next head head st; set_prev head head st }"

definition list_add :: "addr \<Rightarrow> addr \<Rightarrow> list_store \<Rightarrow> list_store option" where
  "list_add new_item head st = do {
     h \<leftarrow> st head;
     let succ = lh_next h;
     st \<leftarrow> set_prev succ new_item st;
     st \<leftarrow> set_next new_item succ st;
     st \<leftarrow> set_prev new_item head st;
     set_next head new_item st }"

definition list_add_tail :: "addr \<Rightarrow> addr \<Rightarrow> list_store \<Rightarrow> list_store option" where
  "list_add_tail new_item head st = do {
     h \<leftarrow> st head;
     let pred = lh_prev h;
     st \<leftarrow> set_next pred new_item st;
     st \<leftarrow> set_next new_item head st;
     st \<leftarrow> set_prev new_item pred st;
     set_prev head new_item st }"

definition list_del :: "addr \<Rightarrow> list_store \<Rightarrow> list_store option" where
  "list_del entry st = do {
     e \<leftarrow> st entry;
     let succ = lh_next e;
     let pred = lh_prev e;
     st \<leftarrow> set_prev succ pred st;
     set_next pred succ st }"

definition list_del_init :: "addr \<Rightarrow> list_store \<Rightarrow> list_store option" where
  "list_del_init entry st = do { st \<leftarrow> list_del entry st; INIT_LIST_HEAD entry st }"

definition list_empty :: "addr \<Rightarrow> list_store \<Rightarrow> bool option" where
  "list_empty head st = do { h \<leftarrow> st head; Some (lh_next h = head) }"

definition list_first_entry :: "addr \<Rightarrow> list_store \<Rightarrow> addr option" where
  "list_first_entry head st = do { h \<leftarrow> st head; Some (lh_next h) }"

text \<open>\<^verbatim>\<open>list_for_each_entry_t\<close> with a body that leaves the links alone, and \<^verbatim>\<open>list_for_each_entry_safe_t\<close>, which reads the
  next node before the body; the loops start at \<open>pos\<close>.\<close>

partial_function (option) each_from ::
  "addr \<Rightarrow> (addr \<Rightarrow> 's \<Rightarrow> 's option) \<Rightarrow> list_store \<Rightarrow> addr \<Rightarrow> 's \<Rightarrow> 's option" where
  "each_from head body st pos s =
     (if pos = head then Some s
      else do {
        s \<leftarrow> body pos s;
        n \<leftarrow> st pos;
        each_from head body st (lh_next n) s })"

definition list_for_each :: "addr \<Rightarrow> (addr \<Rightarrow> 's \<Rightarrow> 's option) \<Rightarrow> list_store \<Rightarrow> 's \<Rightarrow> 's option" where
  "list_for_each head body st s = do { h \<leftarrow> st head; each_from head body st (lh_next h) s }"

partial_function (option) each_safe_from ::
  "addr \<Rightarrow> (addr \<Rightarrow> list_store \<Rightarrow> list_store option) \<Rightarrow> addr \<Rightarrow> addr \<Rightarrow> list_store \<Rightarrow> list_store option" where
  "each_safe_from head body pos safe st =
     (if pos = head then Some st
      else do {
        st \<leftarrow> body pos st;
        n \<leftarrow> st safe;
        each_safe_from head body safe (lh_next n) st })"

definition list_for_each_safe ::
  "addr \<Rightarrow> (addr \<Rightarrow> list_store \<Rightarrow> list_store option) \<Rightarrow> list_store \<Rightarrow> list_store option" where
  "list_for_each_safe head body st = do {
     h \<leftarrow> st head;
     n \<leftarrow> st (lh_next h);
     each_safe_from head body (lh_next h) (lh_next n) st }"

text \<open>The body of the loops that empty a list: the node is unlinked and freed.\<close>

definition del_and_free :: "addr \<Rightarrow> list_store \<Rightarrow> list_store option" where
  "del_and_free pos st = do { st \<leftarrow> list_del pos st; Some (st(pos := None)) }"

section \<open>Rings\<close>

text \<open>The links of a store as two functions, and the chain of nodes from \<open>a\<close> through \<open>xs\<close> to \<open>b\<close>.\<close>

definition next_of :: "list_store \<Rightarrow> addr \<Rightarrow> addr option" where
  "next_of st x = map_option lh_next (st x)"

definition prev_of :: "list_store \<Rightarrow> addr \<Rightarrow> addr option" where
  "prev_of st x = map_option lh_prev (st x)"

fun chain :: "(addr \<Rightarrow> addr option) \<Rightarrow> (addr \<Rightarrow> addr option) \<Rightarrow> addr \<Rightarrow> addr list \<Rightarrow> addr \<Rightarrow> bool" where
  "chain n p a [] b \<longleftrightarrow> n a = Some b \<and> p b = Some a"
| "chain n p a (x # xs) b \<longleftrightarrow> n a = Some x \<and> p x = Some a \<and> chain n p x xs b"

definition ring :: "list_store \<Rightarrow> addr \<Rightarrow> addr list \<Rightarrow> bool" where
  "ring st head xs \<longleftrightarrow> distinct (head # xs) \<and> chain (next_of st) (prev_of st) head xs head"

lemma chain_append: "chain n p a (xs @ x # ys) b \<longleftrightarrow> chain n p a xs x \<and> chain n p x ys b"
  by (induction xs arbitrary: a) auto

lemma chain_cong:
  "chain n p a xs b \<Longrightarrow> (\<And>x. x \<in> set (a # xs) \<Longrightarrow> n' x = n x) \<Longrightarrow> (\<And>x. x \<in> set xs \<union> {b} \<Longrightarrow> p' x = p x) \<Longrightarrow> chain n' p' a xs b"
  by (induction xs arbitrary: a) auto

lemma chain_ends: "chain n p a xs b \<Longrightarrow> n a = Some (hd (xs @ [b])) \<and> p b = Some (last (a # xs))"
  by (induction xs arbitrary: a) auto

lemma chain_alloc: "chain n p a xs b \<Longrightarrow> x \<in> set xs \<Longrightarrow> n x \<noteq> None"
  by (induction xs arbitrary: a) (auto elim: chain.elims)

lemma links_alloc [simp]: "next_of st x = None \<longleftrightarrow> st x = None" "prev_of st x = None \<longleftrightarrow> st x = None"
  by (simp_all add: next_of_def prev_of_def)

text \<open>One pointer write.\<close>

lemma set_next_Some:
  "st a \<noteq> None \<Longrightarrow> \<exists>st'. set_next a v st = Some st' \<and> next_of st' = (next_of st)(a := Some v) \<and> prev_of st' = prev_of st \<and> dom st' = dom st"
proof -
  assume "st a \<noteq> None"
  then obtain n where "st a = Some n" by blast
  then show ?thesis
    by (intro exI [of _ "st(a \<mapsto> n\<lparr>lh_next := v\<rparr>)"]) (auto simp: set_next_def next_of_def prev_of_def fun_eq_iff)
qed

lemma set_prev_Some:
  "st a \<noteq> None \<Longrightarrow> \<exists>st'. set_prev a v st = Some st' \<and> prev_of st' = (prev_of st)(a := Some v) \<and> next_of st' = next_of st \<and> dom st' = dom st"
proof -
  assume "st a \<noteq> None"
  then obtain n where "st a = Some n" by blast
  then show ?thesis
    by (intro exI [of _ "st(a \<mapsto> n\<lparr>lh_prev := v\<rparr>)"]) (auto simp: set_prev_def next_of_def prev_of_def fun_eq_iff)
qed

text \<open>What each operation does to the links.\<close>

lemma list_add_links:
  assumes "next_of st head = Some q" "st q \<noteq> None" "st x \<noteq> None"
  shows "\<exists>st'. list_add x head st = Some st' \<and> dom st' = dom st
    \<and> next_of st' = (next_of st)(x := Some q, head := Some x) \<and> prev_of st' = (prev_of st)(q := Some x, x := Some head)"
proof -
  obtain h where h: "st head = Some h" "lh_next h = q" using assms(1) by (auto simp: next_of_def)
  obtain s1 where s1: "set_prev q x st = Some s1" "prev_of s1 = (prev_of st)(q := Some x)" "next_of s1 = next_of st" "dom s1 = dom st"
    using set_prev_Some [of st q x] assms by blast
  obtain s2 where s2: "set_next x q s1 = Some s2" "next_of s2 = (next_of s1)(x := Some q)" "prev_of s2 = prev_of s1" "dom s2 = dom s1"
    using set_next_Some [of s1 x q] s1(4) assms(3) by blast
  obtain s3 where s3: "set_prev x head s2 = Some s3" "prev_of s3 = (prev_of s2)(x := Some head)" "next_of s3 = next_of s2" "dom s3 = dom s2"
    using set_prev_Some [of s2 x head] s1(4) s2(4) assms(3) by blast
  obtain s4 where s4: "set_next head x s3 = Some s4" "next_of s4 = (next_of s3)(head := Some x)" "prev_of s4 = prev_of s3" "dom s4 = dom s3"
    using set_next_Some [of s3 head x] s1(4) s2(4) s3(4) h(1) by blast
  show ?thesis using h s1 s2 s3 s4 by (simp add: list_add_def Let_def)
qed

lemma list_add_tail_links:
  assumes "prev_of st head = Some q" "st q \<noteq> None" "st x \<noteq> None"
  shows "\<exists>st'. list_add_tail x head st = Some st' \<and> dom st' = dom st
    \<and> next_of st' = (next_of st)(q := Some x, x := Some head) \<and> prev_of st' = (prev_of st)(x := Some q, head := Some x)"
proof -
  obtain h where h: "st head = Some h" "lh_prev h = q" using assms(1) by (auto simp: prev_of_def)
  obtain s1 where s1: "set_next q x st = Some s1" "next_of s1 = (next_of st)(q := Some x)" "prev_of s1 = prev_of st" "dom s1 = dom st"
    using set_next_Some [of st q x] assms by blast
  obtain s2 where s2: "set_next x head s1 = Some s2" "next_of s2 = (next_of s1)(x := Some head)" "prev_of s2 = prev_of s1" "dom s2 = dom s1"
    using set_next_Some [of s1 x head] s1(4) assms(3) by blast
  obtain s3 where s3: "set_prev x q s2 = Some s3" "prev_of s3 = (prev_of s2)(x := Some q)" "next_of s3 = next_of s2" "dom s3 = dom s2"
    using set_prev_Some [of s2 x q] s1(4) s2(4) assms(3) by blast
  obtain s4 where s4: "set_prev head x s3 = Some s4" "prev_of s4 = (prev_of s3)(head := Some x)" "next_of s4 = next_of s3" "dom s4 = dom s3"
    using set_prev_Some [of s3 head x] s1(4) s2(4) s3(4) h(1) by blast
  show ?thesis using h s1 s2 s3 s4 by (simp add: list_add_tail_def Let_def)
qed

lemma list_del_links:
  assumes "next_of st x = Some q" "prev_of st x = Some r" "st q \<noteq> None" "st r \<noteq> None"
  shows "\<exists>st'. list_del x st = Some st' \<and> dom st' = dom st
    \<and> next_of st' = (next_of st)(r := Some q) \<and> prev_of st' = (prev_of st)(q := Some r)"
proof -
  obtain e where e: "st x = Some e" "lh_next e = q" "lh_prev e = r" using assms(1,2) by (auto simp: next_of_def prev_of_def)
  obtain s1 where s1: "set_prev q r st = Some s1" "prev_of s1 = (prev_of st)(q := Some r)" "next_of s1 = next_of st" "dom s1 = dom st"
    using set_prev_Some [of st q r] assms by blast
  obtain s2 where s2: "set_next r q s1 = Some s2" "next_of s2 = (next_of s1)(r := Some q)" "prev_of s2 = prev_of s1" "dom s2 = dom s1"
    using set_next_Some [of s1 r q] s1(4) assms(4) by blast
  show ?thesis using e s1 s2 by (simp add: list_del_def Let_def)
qed

lemma INIT_LIST_HEAD_links:
  assumes "st x \<noteq> None"
  shows "\<exists>st'. INIT_LIST_HEAD x st = Some st' \<and> dom st' = dom st
    \<and> next_of st' = (next_of st)(x := Some x) \<and> prev_of st' = (prev_of st)(x := Some x)"
proof -
  obtain s1 where s1: "set_next x x st = Some s1" "next_of s1 = (next_of st)(x := Some x)" "prev_of s1 = prev_of st" "dom s1 = dom st"
    using set_next_Some [of st x x] assms by blast
  obtain s2 where s2: "set_prev x x s1 = Some s2" "prev_of s2 = (prev_of s1)(x := Some x)" "next_of s2 = next_of s1" "dom s2 = dom s1"
    using set_prev_Some [of s1 x x] s1(4) assms by blast
  show ?thesis using s1 s2 by (simp add: INIT_LIST_HEAD_def)
qed

section \<open>The operations on rings\<close>

lemma ring_alloc: "ring st head xs \<Longrightarrow> x \<in> set (head # xs) \<Longrightarrow> st x \<noteq> None"
  using chain_alloc [of "next_of st" "prev_of st" head xs head x] chain_ends [of "next_of st" "prev_of st" head xs head]
  by (auto simp: ring_def next_of_def)

lemma ring_add:
  assumes "ring st head xs" "x \<notin> set (head # xs)" "st x \<noteq> None"
  shows "\<exists>st'. list_add x head st = Some st' \<and> ring st' head (x # xs) \<and> dom st' = dom st"
proof -
  define q where "q = hd (xs @ [head])"
  have c: "chain (next_of st) (prev_of st) head xs head" "distinct (head # xs)" using assms(1) by (simp_all add: ring_def)
  have q: "next_of st head = Some q" "q \<in> set (head # xs)" using chain_ends [OF c(1)] by (cases xs; simp add: q_def)+
  obtain st' where s: "list_add x head st = Some st'" "dom st' = dom st"
      "next_of st' = (next_of st)(x := Some q, head := Some x)" "prev_of st' = (prev_of st)(q := Some x, x := Some head)"
    using list_add_links [OF q(1) ring_alloc [OF assms(1) q(2)] assms(3)] by blast
  have "chain (next_of st') (prev_of st') x xs head"
  proof (cases xs)
    case Nil
    then show ?thesis using assms(2) by (simp add: s(3,4) q_def)
  next
    case (Cons y ys)
    have "chain (next_of st') (prev_of st') y ys head"
      by (rule chain_cong [of "next_of st" "prev_of st"]) (use c assms(2) Cons in \<open>auto simp: s(3,4) q_def\<close>)
    then show ?thesis using assms(2) c(2) by (auto simp: Cons s(3,4) q_def)
  qed
  then show ?thesis using s c(2) assms(2) q(2) by (auto simp: ring_def)
qed

lemma ring_add_tail:
  assumes "ring st head xs" "x \<notin> set (head # xs)" "st x \<noteq> None"
  shows "\<exists>st'. list_add_tail x head st = Some st' \<and> ring st' head (xs @ [x]) \<and> dom st' = dom st"
proof -
  define q where "q = last (head # xs)"
  have c: "chain (next_of st) (prev_of st) head xs head" "distinct (head # xs)" using assms(1) by (simp_all add: ring_def)
  have q: "prev_of st head = Some q" "q \<in> set (head # xs)" using chain_ends [OF c(1)] by (simp_all add: q_def)
  obtain st' where s: "list_add_tail x head st = Some st'" "dom st' = dom st"
      "next_of st' = (next_of st)(q := Some x, x := Some head)" "prev_of st' = (prev_of st)(x := Some q, head := Some x)"
    using list_add_tail_links [OF q(1) ring_alloc [OF assms(1) q(2)] assms(3)] by blast
  have "chain (next_of st') (prev_of st') head xs x"
  proof (cases xs rule: rev_cases)
    case Nil
    then show ?thesis using assms(2) by (simp add: s(3,4) q_def)
  next
    case (snoc ys y)
    have "chain (next_of st') (prev_of st') head ys y"
      by (rule chain_cong [of "next_of st" "prev_of st"]) (use c assms(2) snoc chain_append in \<open>auto simp: s(3,4) q_def\<close>)
    then show ?thesis using assms(2) c(2) by (auto simp: snoc chain_append s(3,4) q_def)
  qed
  then show ?thesis using s c(2) assms(2) by (auto simp: ring_def chain_append)
qed

lemma ring_del:
  assumes "ring st head (xs @ x # ys)"
  shows "\<exists>st'. list_del x st = Some st' \<and> ring st' head (xs @ ys) \<and> dom st' = dom st"
proof -
  define r q where "r = last (head # xs)" and "q = hd (ys @ [head])"
  have c: "chain (next_of st) (prev_of st) head xs x" "chain (next_of st) (prev_of st) x ys head" "distinct (head # xs @ x # ys)"
    using assms by (simp_all add: ring_def chain_append)
  have l: "next_of st x = Some q" "prev_of st x = Some r" "q \<in> set (head # xs @ x # ys)" "r \<in> set (head # xs @ x # ys)"
    using chain_ends [OF c(1)] chain_ends [OF c(2)] by (cases ys; auto simp: q_def r_def)+
  obtain st' where s: "list_del x st = Some st'" "dom st' = dom st" "next_of st' = (next_of st)(r := Some q)"
      "prev_of st' = (prev_of st)(q := Some r)"
    using list_del_links [OF l(1,2)] ring_alloc [OF assms] l(3,4) by blast
  have front: "chain (next_of st') (prev_of st') head vs v" if "xs = vs @ [v]" for vs v
    by (rule chain_cong [of "next_of st" "prev_of st"]; use c chain_append that in \<open>cases ys; auto simp: s(3,4) q_def r_def\<close>)
  have behind: "chain (next_of st') (prev_of st') w ws head" if "ys = w # ws" for w ws
    by (rule chain_cong [of "next_of st" "prev_of st"]; use c that in \<open>cases xs rule: rev_cases; auto simp: s(3,4) q_def r_def\<close>)
  have "chain (next_of st') (prev_of st') r ys head"
  proof (cases ys)
    case Nil
    then show ?thesis by (simp add: s(3,4) q_def)
  next
    case (Cons w ws)
    then show ?thesis using behind [OF Cons] by (simp add: s(3,4) q_def)
  qed
  then have "chain (next_of st') (prev_of st') head (xs @ ys) head"
  proof (cases xs rule: rev_cases)
    case (snoc vs v)
    then show ?thesis using front [OF snoc] \<open>chain (next_of st') (prev_of st') r ys head\<close> by (simp add: chain_append r_def)
  qed (simp add: r_def)
  then show ?thesis using s c(3) by (auto simp: ring_def)
qed

text \<open>A node outside of a ring does not matter to it.\<close>

lemma ring_cong:
  assumes "ring st head xs" "\<And>x. x \<in> set (head # xs) \<Longrightarrow> next_of st' x = next_of st x \<and> prev_of st' x = prev_of st x"
  shows "ring st' head xs"
  using assms unfolding ring_def by (auto intro: chain_cong)

lemma ring_del_init:
  assumes "ring st head (xs @ x # ys)"
  shows "\<exists>st'. list_del_init x st = Some st' \<and> ring st' head (xs @ ys) \<and> ring st' x [] \<and> dom st' = dom st"
proof -
  obtain s1 where s1: "list_del x st = Some s1" "ring s1 head (xs @ ys)" "dom s1 = dom st" using ring_del [OF assms] by blast
  have "s1 x \<noteq> None" using s1(3) ring_alloc [OF assms, of x] by auto
  then obtain s2 where s2: "INIT_LIST_HEAD x s1 = Some s2" "dom s2 = dom s1" "next_of s2 = (next_of s1)(x := Some x)"
      "prev_of s2 = (prev_of s1)(x := Some x)" using INIT_LIST_HEAD_links [of s1 x] by blast
  have "x \<notin> set (head # xs @ ys)" using assms by (auto simp: ring_def)
  then have "ring s2 head (xs @ ys)" by (intro ring_cong [OF s1(2)]) (auto simp: s2(3,4))
  then show ?thesis using s1 s2 by (simp add: list_del_init_def ring_def)
qed

lemma ring_init:
  "st head \<noteq> None \<Longrightarrow> \<exists>st'. INIT_LIST_HEAD head st = Some st' \<and> ring st' head [] \<and> dom st' = dom st"
  using INIT_LIST_HEAD_links [of st head] by (auto simp: ring_def)

lemma ring_empty: "ring st head xs \<Longrightarrow> list_empty head st = Some (xs = [])"
  using chain_ends [of "next_of st" "prev_of st" head xs head]
  by (cases xs) (auto simp: ring_def list_empty_def next_of_def)

section \<open>Loops over rings\<close>

text \<open>The fold of the body over the elements, in order.\<close>

fun each :: "(addr \<Rightarrow> 's \<Rightarrow> 's option) \<Rightarrow> addr list \<Rightarrow> 's \<Rightarrow> 's option" where
  "each body [] s = Some s"
| "each body (x # xs) s = do { s \<leftarrow> body x s; each body xs s }"

lemma ring_for_each:
  assumes "ring st head xs"
  shows "list_for_each head body st s = each body xs s"
proof -
  have go: "each_from head body st (hd (ys @ [head])) s = each body ys s"
    if "chain (next_of st) (prev_of st) a ys head" "head \<notin> set ys" for a ys s
    using that
  proof (induction ys arbitrary: a s)
    case Nil
    then show ?case by (subst each_from.simps) simp
  next
    case (Cons y ys)
    have "next_of st y = Some (hd (ys @ [head]))" using Cons.prems(1) chain_ends [of "next_of st" "prev_of st" y ys head] by simp
    then obtain n where "st y = Some n" "lh_next n = hd (ys @ [head])" by (auto simp: next_of_def)
    moreover have "each_from head body st (hd (ys @ [head])) s = each body ys s" for s
      by (rule Cons.IH [of y]) (use Cons.prems in auto)
    ultimately show ?case using Cons.prems(2) by (subst each_from.simps) simp
  qed
  have c: "chain (next_of st) (prev_of st) head xs head" "head \<notin> set xs" using assms by (auto simp: ring_def)
  obtain h where "st head = Some h" "lh_next h = hd (xs @ [head])"
    using chain_ends [OF c(1)] by (auto simp: next_of_def)
  then show ?thesis using go [OF c] by (simp add: list_for_each_def)
qed

text \<open>The loop that deletes every node empties the ring and frees exactly its elements.\<close>

lemma ring_delete_all:
  assumes "ring st head xs"
  shows "\<exists>st'. list_for_each_safe head del_and_free st = Some st' \<and> ring st' head [] \<and> dom st' = dom st - set xs"
proof -
  have go: "\<exists>st'. each_safe_from head del_and_free (hd (ys @ [head])) safe st = Some st' \<and> ring st' head [] \<and> dom st' = dom st - set ys"
    if "ring st head ys" "safe = hd (List.tl (ys @ [head]) @ [hd (ys @ [head])])" for ys safe st
    using that
  proof (induction ys arbitrary: safe st)
    case Nil
    then show ?case by (subst each_safe_from.simps) simp
  next
    case (Cons y ys)
    have "ring st head ([] @ y # ys)" using Cons.prems(1) by simp
    from ring_del [OF this] obtain s1 where s1: "list_del y st = Some s1" "ring s1 head ys" "dom s1 = dom st" by auto
    define s2 where "s2 = s1(y := None)"
    have "y \<notin> set (head # ys)" using Cons.prems(1) by (auto simp: ring_def)
    then have r2: "ring s2 head ys" by (intro ring_cong [OF s1(2)]) (auto simp: s2_def next_of_def prev_of_def)
    have d2: "dom s2 = dom st - {y}" using s1(3) by (simp add: s2_def)
    have safe: "safe = hd (ys @ [head])" using Cons.prems(2) by (cases ys) simp_all
    obtain n where n: "s2 safe = Some n" "lh_next n = hd (List.tl (ys @ [head]) @ [hd (ys @ [head])])"
    proof (cases ys)
      case Nil
      then show ?thesis using that r2 safe by (auto simp: ring_def next_of_def)
    next
      case (Cons z zs)
      then have "next_of s2 z = Some (hd (zs @ [head]))"
        using r2 chain_ends [of "next_of s2" "prev_of s2" z zs head] by (auto simp: ring_def)
      then show ?thesis using that safe Cons by (cases zs) (auto simp: next_of_def)
    qed
    have "each_safe_from head del_and_free (hd ((y # ys) @ [head])) safe st
        = each_safe_from head del_and_free safe (lh_next n) s2"
      using Cons.prems(1) s1(1) n(1) by (subst each_safe_from.simps) (auto simp: ring_def del_and_free_def s2_def)
    then show ?case using Cons.IH [OF r2 n(2)] d2 unfolding safe by auto
  qed
  have c: "chain (next_of st) (prev_of st) head xs head" using assms by (simp add: ring_def)
  obtain h where h: "st head = Some h" "lh_next h = hd (xs @ [head])"
    using chain_ends [OF c] by (auto simp: next_of_def)
  obtain n where "st (lh_next h) = Some n" "lh_next n = hd (List.tl (xs @ [head]) @ [hd (xs @ [head])])"
  proof (cases xs)
    case Nil
    then show ?thesis using that h by simp
  next
    case (Cons z zs)
    then have "next_of st z = Some (hd (zs @ [head]))" using c chain_ends [of "next_of st" "prev_of st" z zs head] by simp
    then show ?thesis using that h Cons by (cases zs) (auto simp: next_of_def)
  qed
  then show ?thesis using h go [OF assms] by (simp add: list_for_each_safe_def)
qed

section \<open>Refinement\<close>

text \<open>
  C13: The linked lists implement lists. On a ring of the elements \<open>xs\<close>, \<^verbatim>\<open>list_add\<close> and \<^verbatim>\<open>list_add_tail\<close> put a node that is
  allocated and not in the ring in front of or behind the elements, \<^verbatim>\<open>list_del\<close> and \<^verbatim>\<open>list_del_init\<close> take out the node they are given, which the
  latter leaves as a ring of its own, \<^verbatim>\<open>list_empty\<close> tells whether there are elements, \<^verbatim>\<open>list_for_each_entry_t\<close> visits all of them
  once and in order and ends, and the loop that unlinks and frees each node ends with an empty ring and has freed exactly
  the elements.
\<close>

theorem list_ops_refine:
  assumes "ring st head xs"
  shows "(x \<notin> set (head # xs) \<and> st x \<noteq> None \<longrightarrow>
      (\<exists>st'. list_add x head st = Some st' \<and> ring st' head (x # xs)) \<and> (\<exists>st'. list_add_tail x head st = Some st' \<and> ring st' head (xs @ [x])))
    \<and> (xs = ys @ y # zs \<longrightarrow> (\<exists>st'. list_del y st = Some st' \<and> ring st' head (ys @ zs))
      \<and> (\<exists>st'. list_del_init y st = Some st' \<and> ring st' head (ys @ zs) \<and> ring st' y []))
    \<and> list_empty head st = Some (xs = [])
    \<and> list_for_each head body st s = each body xs s
    \<and> (\<exists>st'. list_for_each_safe head del_and_free st = Some st' \<and> ring st' head [] \<and> dom st' = dom st - set xs)"
  using assms ring_add [of st head xs x] ring_add_tail [of st head xs x] ring_del [of st head ys y zs]
    ring_del_init [of st head ys y zs] ring_empty [of st head xs] ring_for_each [of st head xs body s] ring_delete_all [of st head xs]
  by (intro conjI impI) blast+

definition sample_store :: list_store where
  "sample_store = [1 \<mapsto> \<lparr>lh_prev = 3, lh_next = 2\<rparr>, 2 \<mapsto> \<lparr>lh_prev = 1, lh_next = 3\<rparr>, 3 \<mapsto> \<lparr>lh_prev = 2, lh_next = 1\<rparr>,
     4 \<mapsto> \<lparr>lh_prev = 0, lh_next = 0\<rparr>]"

theorem list_ops_refine_witness:
  "(\<exists>st'. list_add 4 1 sample_store = Some st' \<and> ring st' 1 [4, 2, 3])
   \<and> (\<exists>st'. list_add_tail 4 1 sample_store = Some st' \<and> ring st' 1 [2, 3, 4])
   \<and> (\<exists>st'. list_del 2 sample_store = Some st' \<and> ring st' 1 [3])
   \<and> list_for_each 1 (\<lambda>x s. Some (x # s)) sample_store [] = Some [3, 2]
   \<and> (\<exists>st'. list_for_each_safe 1 del_and_free sample_store = Some st' \<and> dom st' = {1, 4})"
proof -
  have r: "ring sample_store 1 [2, 3]" by (simp add: ring_def next_of_def prev_of_def sample_store_def)
  have d: "dom sample_store - set [2, 3] = {1, 4}" by (auto simp: sample_store_def)
  show ?thesis
    using list_ops_refine [OF r, of 4 "[]" 2 "[3]" "\<lambda>x s. Some (x # s)" "[]"] d
    by (auto simp: sample_store_def)
qed

end
