(* ===== verification/Spec2Isabelle.thy ===== *)
theory Spec2Isabelle
  imports Interp_Claims Mips_Claims Access_Claims Dd_Claims Vru_Claims Cheat_Claims Cheat_Parse List_Head
begin

text \<open>
  The device core of mupen64plus: a model and its verification.

  \<^bold>\<open>The program.\<close> The emulator core under \<^verbatim>\<open>src/mupen64plus-core/src/device\<close> simulates the console: the
  R4300 processor with its system control coprocessor, RDRAM, the two coprocessors of the RCP (signal and
  display processor), the interfaces of the RCP (MIPS, peripheral, serial, video, audio, RDRAM), the PIF
  with its lock-out chip, the cartridge, the controllers with their paks and the disk drive. The parts meet in three
  places. A load or store of the processor is translated by the TLB and handed by the memory map, 64 KiB
  at a time, to the handler of a device. A device that has work to finish schedules an event in the queue
  of \<^verbatim>\<open>interrupt.c\<close>, which \<^verbatim>\<open>gen_interrupt\<close> delivers to its handler when the count register reaches it. A
  handler raises a line of the MIPS interface, which drives bit IP2 of the cause register and may take the
  processor to the exception vector.

  \<^bold>\<open>The model.\<close> Each structure of the C code is a record, each record of a device extends the one of the
  devices it reaches, and each function is a HOL function on the whole state it may change. Machine
  integers are words of their width. Arrays are lists, an access outside of one is \<open>None\<close>, as is every other
  undefined behaviour, a loop or recursion that does not end, and the branch that needs the cached interpreter. The
  byte arrays are those of a little-endian host, on which the byte of console address \<open>x\<close> is at index
  \<^verbatim>\<open>x ^ 3\<close>. The configuration is the one with \<^verbatim>\<open>NEW_DYNAREC\<close>, \<^verbatim>\<open>COMPARE_CORE\<close>, \<^verbatim>\<open>PROFILE\<close>,
  \<^verbatim>\<open>ACCURATE_FPU_BEHAVIOR\<close> and \<^verbatim>\<open>OSAL_SSE\<close> undefined;
  the breakpoint functions are those of a \<^verbatim>\<open>DBG\<close> build. Plugins, the front end, backends, the clock
  and joybus devices behind function pointers are fields of environment records (\<open>dev_env\<close> and the ones it
  holds), as are the bits of a NaN the host's arithmetic returns and the contents of locals the code reads
  uninitialised; what a claim needs of them is a named hypothesis.

  \<^bold>\<open>The theories.\<close>
  \<^item> \<open>Prelude\<close>: words as unsigned numbers, masked writes, byte access, list access that may fail.
  \<^item> \<open>Tlb\<close> (\<^verbatim>\<open>r4300/tlb.c\<close>): entries, page tables, the page loops as partial functions, look-up.
  \<^item> \<open>Interrupt_Queue\<close> (\<^verbatim>\<open>r4300/cp0.h\<close>, \<^verbatim>\<open>r4300/interrupt.c\<close>): the node pool and the linked queue over an
    explicit store. \<open>Interrupt_Refinement\<close>: every operation on it implements one on a list of events.
    \<open>Interrupt_Order\<close>: the scheduling invariant \<open>cp0_inv\<close>.
  \<^item> \<open>R4300\<close> (\<^verbatim>\<open>r4300/cp0.c\<close>, \<^verbatim>\<open>r4300/interrupt.c\<close>, the TLB instructions of \<^verbatim>\<open>mips_instructions.def\<close>):
    exceptions, interrupts, the dispatcher; its lemmas are in \<open>R4300_Props\<close>.
  \<^item> \<open>Ieee\<close>: the two binary floating point formats of the host. \<open>Cp1\<close> (\<^verbatim>\<open>r4300/cp1.c\<close>, \<^verbatim>\<open>r4300/fpu.h\<close>):
    the register file in its two layouts and the operations of the floating point unit.
  \<^item> \<open>Mips\<close>, \<open>Mips_Fpu\<close>, \<open>Mips_Mem\<close> (\<^verbatim>\<open>r4300/mips_instructions.def\<close>): every instruction, by what it
    reaches: the processor, coprocessors 1 and 2, memory and the dispatcher. \<open>Pure_Interp\<close>
    (\<^verbatim>\<open>r4300/pure_interp.c\<close>): fetch, decoding, delay slots, idle loops and the main loop. \<open>Mips_Arith\<close>,
    \<open>Mips_Claims\<close>, \<open>Interp_Props\<close>, \<open>Interp_Claims\<close>, \<open>Access_Claims\<close>: their properties.
  \<^item> \<open>Scheduler\<close>: the locale of an ordered event queue with its client lemmas, interpreted on the code's
    queue. \<open>Queue_Save\<close>: the saved form of the queue. \<open>Queue_Claims\<close>, \<open>Tlb_Claims\<close>: the properties of the
    queue and of translation.
  \<^item> \<open>Mi\<close>, \<open>Memory\<close>, \<open>Rdram\<close> (with the RDRAM interface), \<open>Rdp\<close> (with \<^verbatim>\<open>fb.c\<close>), \<open>Rsp\<close>, \<open>Pi\<close>, \<open>Si\<close> (with
    \<^verbatim>\<open>pif/pif.c\<close>), \<open>Vi\<close> (with \<^verbatim>\<open>ai_controller.c\<close>): the devices of the RCP and the memory map.
    \<open>Buffers\<close>: counting loops and block copies that they share.
  \<^item> \<open>Cart\<close> (\<^verbatim>\<open>cart/*.c\<close>), \<open>Cic\<close> (\<^verbatim>\<open>pif/cic.c\<close>, \<^verbatim>\<open>pif/n64_cic_nus_6105.c\<close>), \<open>Gb\<close> (\<^verbatim>\<open>gb/*.c\<close>), \<open>Paks\<close>
    (\<^verbatim>\<open>controllers/game_controller.c\<close>, \<^verbatim>\<open>controllers/paks/*.c\<close>): cartridge and peripherals.
  \<^item> \<open>Device\<close> (\<^verbatim>\<open>device.c\<close>, \<^verbatim>\<open>r4300/r4300_core.c\<close>, \<^verbatim>\<open>pif/bootrom_hle.c\<close>): the machine put together.
  \<^item> \<open>Disk\<close> (\<^verbatim>\<open>dd/disk.h\<close>, \<^verbatim>\<open>dd/disk.c\<close>): geometry, block numbering and image formats of a disk. \<open>Dd\<close>
    (\<^verbatim>\<open>dd/dd_controller.c\<close>): the drive; \<open>with_dd\<close> puts it into the environment of the machine, whose fields
    for it are open in \<open>Pi\<close> and \<open>Device\<close>. \<open>Disk_Props\<close>, \<open>Disk_Claims\<close>, \<open>Dd_Props\<close>, \<open>Dd_Claims\<close>: their properties.
  \<^item> \<open>Vru\<close> (\<^verbatim>\<open>controllers/vru_controller.c\<close>): the voice recognition unit; its property is in \<open>Vru_Claims\<close>.
  \<^item> Outside of the device directory, \<open>Cheats\<close> (\<^verbatim>\<open>main/cheat.c\<close>): the cheat engine, with \<open>Cheat_Claims\<close> and
    \<open>Cheat_Parse\<close>; \<open>Text\<close> (\<^verbatim>\<open>main/util.c\<close>): C strings and numbers in them; \<open>List_Head\<close> (\<^verbatim>\<open>main/list.h\<close>): linked
    lists over a store, shown to implement the lists that the other theories use in their place.
  \<^item> \<open>Bus_Claims\<close>, \<open>Cart_Props\<close>, \<open>Cart_Claims\<close>, \<open>Storage_Claims\<close>, \<open>Pak_Claims\<close>, \<open>Pif_Claims\<close>,
    \<open>Dma_Claims\<close>, \<open>Rcp_Claims\<close>, \<open>System_Claims\<close>: the properties of the devices and of the machine.
    \<open>Console\<close>: a concrete machine on which the examples run.

  \<^bold>\<open>What is shown.\<close> The queue: the linked list refines a sorted list, its invariant holds in every state
  reachable from power-on, events come out complete and in order, saving and loading keeps them. Memory: the
  map sends each page to its device, a TLB entry that is written translates its pages, a word stored is
  the word loaded through every view of it, a miss raises the exception, and the two loops that never end
  are exhibited. Interrupts: the lines drive IP2, the dispatcher calls the right handler once, the end of a
  transfer reaches the guest. Transfers: what the three DMA engines of the peripheral, serial and signal
  processor interfaces copy, byte for byte, when they complete, and that the queue of the latter stays
  consistent. Storage: the last write wins for blocks and words, through joybus commands and through the
  flash chip's commands, and the check bytes detect what they should. The disk drive: logical blocks and
  their places on a disk correspond one to one around the defective tracks, the sectors of a dump do not overlap, a block
  transfer ends after one interrupt per sector, and a sector written is the sector read. The voice recognition unit hands on the word it was
  given. Cheats: memory is as before once they are switched off, and their parser keeps to its buffer. Power-on establishes the invariants.
  The processor: multiplication and division are exact, 32-bit instructions keep their registers
  sign-extended, comparisons follow their encoding, unaligned words are stored and
  loaded byte for byte; a jump runs its delay slot once, an exception there
  returns to the jump, an idle loop reaches the next event in one step, and the timer has one event.

  \<^bold>\<open>Interfaces.\<close> The locales \<open>scheduler\<close> in \<open>Scheduler\<close>, \<open>line_controller\<close> in
  \<open>Bus_Claims\<close> and \<open>block_memory\<close>, \<open>word_array\<close> in \<open>Storage_Claims\<close> state what a client relies on; each is
  interpreted on the model of the code.

  \<^bold>\<open>Bounds.\<close> No function takes fuel. Loops of the code that end are structural or have a measure; the
  page loops of \<^verbatim>\<open>tlb.c\<close>, the pointer walks of \<^verbatim>\<open>interrupt.c\<close>, the interpreter (whose delay slots recurse)
  and the loops on guest data are
  \<open>partial_function (option)\<close>, and the claims state that they return.

  \<^bold>\<open>Not modelled.\<close> The cached interpreter and the recompilers; the exception flags and traps of the floating
  point unit; save state files, ROM loading, netplay,
  the debugger and the front end (input, output and text formats); all plugins and vendored libraries.
\<close>

end
